(* ===== verification/Prelude.thy ===== *)
theory Prelude
  imports Complex_Main "HOL-Library.AList" "HOL-Library.Char_ord" "HOL-Library.List_Lexorder"
begin

text \<open>
  Shared vocabulary of the development: the Python values the program passes around (decoded
  JSON bodies, database rows), dictionaries as association lists in insertion order, the
  exceptions the code raises, the result type of a call that may raise, the monad of a method
  that also changes its object, and the string functions of the standard library the code uses.
\<close>

section \<open>Python values\<close>

text \<open>
  \<open>VDict\<close> keeps the insertion order of a Python dictionary. \<open>VTime\<close> is a timezone-aware
  UTC \<open>datetime\<close>, as microseconds since the epoch. \<open>VFloat\<close> idealises a float as the exact
  rational it stands for. Strings are lists of code points below 256.
\<close>

datatype pv =
    VNone
  | VBool bool
  | VInt int
  | VFloat rat
  | VStr string
  | VTime int
  | VList "pv list"
  | VDict "(string \<times> pv) list"

type_synonym pdict = "(string \<times> pv) list"

fun truthy :: "pv \<Rightarrow> bool" where
  "truthy VNone = False"
| "truthy (VBool b) = b"
| "truthy (VInt n) = (n \<noteq> 0)"
| "truthy (VFloat q) = (q \<noteq> 0)"
| "truthy (VStr s) = (s \<noteq> [])"
| "truthy (VTime _) = True"
| "truthy (VList xs) = (xs \<noteq> [])"
| "truthy (VDict d) = (d \<noteq> [])"

text \<open>The expression \<open>a or b\<close>, and the test \<open>value in (None, "")\<close>.\<close>

definition py_or :: "pv \<Rightarrow> pv \<Rightarrow> pv" where
  "py_or a b = (if truthy a then a else b)"

definition none_or_empty :: "pv \<Rightarrow> bool" where
  "none_or_empty v \<longleftrightarrow> v = VNone \<or> v = VStr []"

fun is_dict :: "pv \<Rightarrow> bool" where
  "is_dict (VDict _) = True"
| "is_dict _ = False"

fun is_list :: "pv \<Rightarrow> bool" where
  "is_list (VList _) = True"
| "is_list _ = False"

lemma is_dictE [elim!]:
  assumes "is_dict v"
  obtains d where "v = VDict d"
  using assms by (cases v) auto

lemma is_listE [elim!]:
  assumes "is_list v"
  obtains xs where "v = VList xs"
  using assms by (cases v) auto

lemma truthy_py_or [simp]: "truthy (py_or a b) \<longleftrightarrow> truthy a \<or> truthy b"
  by (simp add: py_or_def)


section \<open>Dictionaries\<close>

text \<open>
  A dictionary is an association list; \<open>d.get(k)\<close> is \<open>map_of d k\<close> with \<open>None\<close> for a
  missing key, \<open>d[k] = v\<close> is the library's \<open>AList.update\<close> (in place, or appended at the
  end), \<open>del d[k]\<close> is \<open>AList.delete\<close>.
\<close>

abbreviation dset :: "'k \<Rightarrow> 'v \<Rightarrow> ('k \<times> 'v) list \<Rightarrow> ('k \<times> 'v) list" where
  "dset \<equiv> AList.update"

abbreviation ddel :: "'k \<Rightarrow> ('k \<times> 'v) list \<Rightarrow> ('k \<times> 'v) list" where
  "ddel \<equiv> AList.delete"

definition has_key :: "string \<Rightarrow> (string \<times> 'v) list \<Rightarrow> bool" where
  "has_key k d \<longleftrightarrow> k \<in> set (map fst d)"

definition dget_or :: "string \<Rightarrow> pv \<Rightarrow> pdict \<Rightarrow> pv" where
  "dget_or k dflt d = (case map_of d k of None \<Rightarrow> dflt | Some v \<Rightarrow> v)"

abbreviation dget :: "string \<Rightarrow> pdict \<Rightarrow> pv" where
  "dget k d \<equiv> dget_or k VNone d"

definition setdefault :: "string \<Rightarrow> pv \<Rightarrow> pdict \<Rightarrow> pdict" where
  "setdefault k v d = (if has_key k d then d else dset k v d)"

text \<open>\<open>d1.update(d2)\<close>: the entries of the second dictionary in its order.\<close>

definition dupdate :: "('k \<times> 'v) list \<Rightarrow> ('k \<times> 'v) list \<Rightarrow> ('k \<times> 'v) list" where
  "dupdate d1 d2 = fold (\<lambda>(k, v) d. dset k v d) d2 d1"

definition wf_dict :: "('k \<times> 'v) list \<Rightarrow> bool" where
  "wf_dict d \<longleftrightarrow> distinct (map fst d)"

named_theorems dict_simps "lookup after an update of a dictionary"

lemma has_key_map_of [dict_simps]: "has_key k d \<longleftrightarrow> map_of d k \<noteq> None"
  by (force simp: has_key_def map_of_eq_None_iff)

lemma map_of_dset [simp]: "map_of (dset k v d) = (map_of d)(k \<mapsto> v)"
  by (simp add: update_conv')

lemma map_of_ddel [simp]: "map_of (ddel k d) = (map_of d)(k := None)"
  by (simp add: delete_conv')

lemma dget_or_dset [simp]: "dget_or k dflt (dset k' v d) = (if k = k' then v else dget_or k dflt d)"
  by (simp add: dget_or_def)

lemma dget_or_ddel [simp]: "dget_or k dflt (ddel k' d) = (if k = k' then dflt else dget_or k dflt d)"
  by (simp add: dget_or_def)

lemma has_key_dset [simp]: "has_key k (dset k' v d) \<longleftrightarrow> k = k' \<or> has_key k d"
  by (simp add: dict_simps)

lemma has_key_ddel [simp]: "has_key k (ddel k' d) \<longleftrightarrow> k \<noteq> k' \<and> has_key k d"
  by (simp add: dict_simps)

lemma map_of_dupdate: "wf_dict d2 \<Longrightarrow> map_of (dupdate d1 d2) = map_of d1 ++ map_of d2"
proof (induction d2 arbitrary: d1)
  case Nil
  then show ?case by (simp add: dupdate_def)
next
  case (Cons p d2)
  obtain k v where p: "p = (k, v)" by (cases p)
  from Cons.prems p have nk: "map_of d2 k = None" and wf: "wf_dict d2"
    by (auto simp: wf_dict_def map_of_eq_None_iff)
  have "map_of (dupdate d1 (p # d2)) = map_of (dupdate (dset k v d1) d2)"
    by (simp add: dupdate_def p)
  also have "\<dots> = (map_of d1)(k \<mapsto> v) ++ map_of d2"
    by (simp only: Cons.IH [OF wf] map_of_dset)
  also have "\<dots> = map_of d1 ++ map_of (p # d2)"
    using nk by (auto simp: p fun_eq_iff map_add_def split: option.splits)
  finally show ?case .
qed

lemma wf_dict_dset [simp]: "wf_dict (dset k v d) \<longleftrightarrow> wf_dict d"
  by (auto simp: wf_dict_def update_keys)

lemma wf_dict_ddel [simp]: "wf_dict d \<Longrightarrow> wf_dict (ddel k d)"
  by (simp add: wf_dict_def distinct_delete)

lemma wf_dict_Nil [simp]: "wf_dict []"
  by (simp add: wf_dict_def)

lemma wf_dict_dupdate [simp]: "wf_dict d1 \<Longrightarrow> wf_dict (dupdate d1 d2)"
  by (induction d2 arbitrary: d1) (auto simp: dupdate_def)


section \<open>Exceptions and results\<close>

text \<open>
  The exceptions of the standard library that the code raises or catches, and those of
  \<open>slurmweb/errors.py\<close> and \<open>slurmweb/slurmrestd/errors.py\<close>. \<open>HttpAbort\<close> is Flask's
  \<open>abort\<close>. A call that may raise returns \<open>exn + 'a\<close>.
\<close>

datatype exn =
    KeyError string
  | IndexError
  | TypeError string
  | ValueError string
  | AttributeError string
  | SlurmrestConnectionError string
  | SlurmrestdAuthenticationError string
  | SlurmrestdNotFoundError string
  | SlurmrestdInvalidResponseError string
  | SlurmrestdInternalError pv pv pv pv \<comment> \<open>message, error, description, source\<close>
  | SlurmwebConfigurationError string
  | SlurmwebCacheError string
  | SlurmwebMetricsDBError string
  | SlurmwebAgentError string
  | LDAPAuthenticationError string
  | ClientConnectionError string \<comment> \<open>of aiohttp, as the next two\<close>
  | ContentTypeError string
  | ClientError string
  | FileError bool string \<comment> \<open>\<open>FileNotFoundError\<close>, or \<open>PermissionError\<close> if the flag is set\<close>
  | TemplateNotFound string
  | AIAgentInterfaceError int string
  | AIToolError bool string "(string \<times> int) option" \<comment> \<open>\<open>AIToolPermissionError\<close> if the flag is set, else \<open>AIToolExecutionError\<close>; interface and status\<close>
  | AIRequestError string
  | AIValueError string string \<comment> \<open>\<open>AIProviderValidationError\<close>, \<open>AIInvalidToolRequestError\<close>: classes of \<open>ValueError\<close>\<close>
  | BackendError string \<comment> \<open>an exception of a library the source only calls\<close>
  | HttpAbort nat string

type_synonym 'a res = "exn + 'a"

definition rbind :: "'a res \<Rightarrow> ('a \<Rightarrow> 'b res) \<Rightarrow> 'b res" where
  "rbind m f = (case m of Inl e \<Rightarrow> Inl e | Inr a \<Rightarrow> f a)"

lemma rbind_simps [simp]:
  "rbind (Inl e) f = Inl e"
  "rbind (Inr a) f = f a"
  by (simp_all add: rbind_def)

lemma rbind_eq_Inr: "rbind m f = Inr b \<longleftrightarrow> (\<exists>a. m = Inr a \<and> f a = Inr b)"
  by (cases m) auto

lemma rbind_eq_Inl: "rbind m f = Inl e \<longleftrightarrow> m = Inl e \<or> (\<exists>a. m = Inr a \<and> f a = Inl e)"
  by (cases m) auto

text \<open>A list comprehension whose element expression may raise.\<close>

primrec rmap :: "('a \<Rightarrow> 'b res) \<Rightarrow> 'a list \<Rightarrow> 'b list res" where
  "rmap f [] = Inr []"
| "rmap f (x # xs) = rbind (f x) (\<lambda>y. rbind (rmap f xs) (\<lambda>ys. Inr (y # ys)))"

lemma rmap_Inr_iff: "rmap f xs = Inr ys \<longleftrightarrow> list_all2 (\<lambda>x y. f x = Inr y) xs ys"
  by (induction xs arbitrary: ys) (auto simp: rbind_eq_Inr list_all2_Cons1)

lemma rmap_all_Inr: "(\<And>x. x \<in> set xs \<Longrightarrow> f x = Inr (g x)) \<Longrightarrow> rmap f xs = Inr (map g xs)"
  by (induction xs) auto

lemma rmap_length: "rmap f xs = Inr ys \<Longrightarrow> length ys = length xs"
  by (auto simp: rmap_Inr_iff list_all2_lengthD)

text \<open>A loop \<open>for x in xs\<close> over an accumulator, left at the first exception.\<close>

primrec rfold :: "('a \<Rightarrow> 'b \<Rightarrow> 'b res) \<Rightarrow> 'a list \<Rightarrow> 'b \<Rightarrow> 'b res" where
  "rfold f [] b = Inr b"
| "rfold f (x # xs) b = rbind (f x b) (rfold f xs)"


section \<open>Methods that change their object\<close>

text \<open>
  A method over an object of type \<open>'s\<close>: the result or the exception, and the object afterwards.
  An exception keeps the changes made before it, as in Python.
\<close>

type_synonym ('s, 'a) meth = "'s \<Rightarrow> 'a res \<times> 's"

definition mret :: "'a \<Rightarrow> ('s, 'a) meth" where
  "mret a s = (Inr a, s)"

definition mraise :: "exn \<Rightarrow> ('s, 'a) meth" where
  "mraise e s = (Inl e, s)"

definition mbind :: "('s, 'a) meth \<Rightarrow> ('a \<Rightarrow> ('s, 'b) meth) \<Rightarrow> ('s, 'b) meth" where
  "mbind m f s = (case m s of (Inl e, s') \<Rightarrow> (Inl e, s') | (Inr a, s') \<Rightarrow> f a s')"

definition mlift :: "'a res \<Rightarrow> ('s, 'a) meth" where
  "mlift r s = (r, s)"

text \<open>\<open>try: m; except e: h e\<close>; the handler re-raises what the clause does not name.\<close>

definition mcatch :: "('s, 'a) meth \<Rightarrow> (exn \<Rightarrow> ('s, 'a) meth) \<Rightarrow> ('s, 'a) meth" where
  "mcatch m h s = (case m s of (Inl e, s') \<Rightarrow> h e s' | (Inr a, s') \<Rightarrow> (Inr a, s'))"

named_theorems meth_simps "one step of a method"

lemma mret_apply [meth_simps, simp]: "mret a s = (Inr a, s)"
  by (simp add: mret_def)

lemma mraise_apply [meth_simps, simp]: "mraise e s = (Inl e, s)"
  by (simp add: mraise_def)

lemma mlift_apply [meth_simps, simp]: "mlift r s = (r, s)"
  by (simp add: mlift_def)

lemma mbind_Inl [meth_simps]: "m s = (Inl e, s') \<Longrightarrow> mbind m f s = (Inl e, s')"
  by (simp add: mbind_def)

lemma mbind_Inr [meth_simps]: "m s = (Inr a, s') \<Longrightarrow> mbind m f s = f a s'"
  by (simp add: mbind_def)

lemma mcatch_Inl [meth_simps]: "m s = (Inl e, s') \<Longrightarrow> mcatch m h s = h e s'"
  by (simp add: mcatch_def)

lemma mcatch_Inr [meth_simps]: "m s = (Inr a, s') \<Longrightarrow> mcatch m h s = (Inr a, s')"
  by (simp add: mcatch_def)

lemma mbind_cases:
  assumes "mbind m f s = (r, s')"
  obtains (error) e where "m s = (Inl e, s')" "r = Inl e"
    | (result) a s1 where "m s = (Inr a, s1)" "f a s1 = (r, s')"
proof (cases "m s")
  case (Pair q s1)
  show thesis
  proof (cases q)
    case (Inl e)
    with Pair assms show thesis by (intro error) (auto simp: mbind_def)
  next
    case (Inr a)
    with Pair assms show thesis by (intro result) (auto simp: mbind_def)
  qed
qed

section \<open>Short-circuit any, sorted sets\<close>

text \<open>\<open>any(f(x) for x in xs)\<close> where the test may raise; it stops at the first true one.\<close>

primrec rany :: "('a \<Rightarrow> bool res) \<Rightarrow> 'a list \<Rightarrow> bool res" where
  "rany f [] = Inr False"
| "rany f (x # xs) = rbind (f x) (\<lambda>b. if b then Inr True else rany f xs)"

lemma rany_all_Inr: "(\<And>x. x \<in> set xs \<Longrightarrow> f x = Inr (g x)) \<Longrightarrow> rany f xs = Inr (\<exists>x \<in> set xs. g x)"
  by (induction xs) auto

lemma rany_Inr_True: "rany f xs = Inr True \<Longrightarrow> \<exists>x \<in> set xs. f x = Inr True"
  by (induction xs) (auto simp: rbind_eq_Inr split: if_splits)

text \<open>\<open>sorted(set(xs))\<close>.\<close>

definition sorted_set :: "'a::linorder list \<Rightarrow> 'a list" where
  "sorted_set xs = sort (remdups xs)"

lemma set_sorted_set [simp]: "set (sorted_set xs) = set xs"
  by (simp add: sorted_set_def)

lemma sorted_sorted_set [simp]: "sorted (sorted_set xs)"
  by (simp add: sorted_set_def)

lemma distinct_sorted_set [simp]: "distinct (sorted_set xs)"
  by (simp add: sorted_set_def)

lemma sorted_set_fixed: "sorted xs \<Longrightarrow> distinct xs \<Longrightarrow> sorted_set xs = xs"
  by (simp add: sorted_set_def sorted_sort_id distinct_remdups_id)

lemma sorted_set_idem [simp]: "sorted_set (sorted_set xs) = sorted_set xs"
  by (simp add: sorted_set_fixed)

lemma sorted_set_cong: "set xs = set ys \<Longrightarrow> sorted_set xs = sorted_set ys"
  by (rule sorted_distinct_set_unique) simp_all

lemma sorted_set_eq: "sorted_set xs = sorted_list_of_set (set xs)"
  by (simp add: sorted_set_def sorted_list_of_set_sort_remdups)

section \<open>Loop invariants\<close>

lemma rfold_invariant:
  assumes "rfold f xs b = Inr c" and "P b"
    and "\<And>x b b'. x \<in> set xs \<Longrightarrow> f x b = Inr b' \<Longrightarrow> P b \<Longrightarrow> P b'"
  shows "P c"
  using assms by (induction xs arbitrary: b) (auto simp: rbind_eq_Inr)

section \<open>Loops of methods, and what a method keeps\<close>

primrec mmap :: "('a \<Rightarrow> ('s, 'b) meth) \<Rightarrow> 'a list \<Rightarrow> ('s, 'b list) meth" where
  "mmap f [] = mret []"
| "mmap f (x # xs) = mbind (f x) (\<lambda>y. mbind (mmap f xs) (\<lambda>ys. mret (y # ys)))"

text \<open>\<open>keeps P m\<close>: whether it returns or raises, the method keeps \<open>P\<close> of its object.\<close>

definition keeps :: "('s \<Rightarrow> bool) \<Rightarrow> ('s, 'a) meth \<Rightarrow> bool" where
  "keeps P m \<longleftrightarrow> (\<forall>s. P s \<longrightarrow> P (snd (m s)))"

named_theorems keeps_intros "rules for invariants of methods"

lemma keepsI: "(\<And>s. P s \<Longrightarrow> P (snd (m s))) \<Longrightarrow> keeps P m"
  by (simp add: keeps_def)

lemma keepsD: "keeps P m \<Longrightarrow> P s \<Longrightarrow> P (snd (m s))"
  by (simp add: keeps_def)

lemma keeps_mret [keeps_intros, simp]: "keeps P (mret a)"
  by (simp add: keeps_def)

lemma keeps_mraise [keeps_intros, simp]: "keeps P (mraise e)"
  by (simp add: keeps_def)

lemma keeps_mlift [keeps_intros, simp]: "keeps P (mlift r)"
  by (simp add: keeps_def)

lemma keeps_mbind [keeps_intros]: "keeps P m \<Longrightarrow> (\<And>a. keeps P (f a)) \<Longrightarrow> keeps P (mbind m f)"
  by (fastforce simp: keeps_def mbind_def split: prod.splits sum.splits)

lemma keeps_mcatch [keeps_intros]: "keeps P m \<Longrightarrow> (\<And>e. keeps P (h e)) \<Longrightarrow> keeps P (mcatch m h)"
  by (fastforce simp: keeps_def mcatch_def split: prod.splits sum.splits)

lemma keeps_if [keeps_intros]: "(b \<Longrightarrow> keeps P m) \<Longrightarrow> (\<not> b \<Longrightarrow> keeps P n) \<Longrightarrow> keeps P (if b then m else n)"
  by simp

lemma keeps_mmap [keeps_intros]: "(\<And>x. x \<in> set xs \<Longrightarrow> keeps P (f x)) \<Longrightarrow> keeps P (mmap f xs)"
  by (induction xs) (auto intro!: keeps_mbind)

lemma mmap_length: "mmap f xs s = (Inr ys, s') \<Longrightarrow> length ys = length xs"
  by (induction xs arbitrary: ys s s') (auto elim!: mbind_cases)

text \<open>A method that reads its object first, and one that only updates it.\<close>

definition mwith :: "('s \<Rightarrow> ('s, 'a) meth) \<Rightarrow> ('s, 'a) meth" where
  "mwith f s = f s s"

definition mupd :: "('s \<Rightarrow> 's) \<Rightarrow> ('s, unit) meth" where
  "mupd f s = (Inr (), f s)"

lemma mwith_apply [simp]: "mwith f s = f s s"
  by (simp add: mwith_def)

lemma mupd_apply [simp]: "mupd f s = (Inr (), f s)"
  by (simp add: mupd_def)

lemma keeps_mwith [keeps_intros]: "(\<And>s. keeps P (f s)) \<Longrightarrow> keeps P (mwith f)"
  by (simp add: keeps_def)

lemma keeps_mupd: "(\<And>s. P s \<Longrightarrow> P (f s)) \<Longrightarrow> keeps P (mupd f)"
  by (simp add: keeps_def)

lemma keeps_conj: "keeps P m \<Longrightarrow> keeps Q m \<Longrightarrow> keeps (\<lambda>s. P s \<and> Q s) m"
  by (simp add: keeps_def)

section \<open>What a method may raise\<close>

definition only_raises :: "(exn \<Rightarrow> bool) \<Rightarrow> ('s, 'a) meth \<Rightarrow> bool" where
  "only_raises P m \<longleftrightarrow> (\<forall>s e s'. m s = (Inl e, s') \<longrightarrow> P e)"

named_theorems raises_intros "rules for the exceptions of methods"

lemma only_raisesD: "only_raises P m \<Longrightarrow> m s = (Inl e, s') \<Longrightarrow> P e"
  by (auto simp: only_raises_def)

lemma only_raises_mret [raises_intros, simp]: "only_raises P (mret a)"
  by (simp add: only_raises_def)

lemma only_raises_mraise [raises_intros]: "P e \<Longrightarrow> only_raises P (mraise e)"
  by (simp add: only_raises_def)

lemma only_raises_mlift [raises_intros]: "(\<And>e. r = Inl e \<Longrightarrow> P e) \<Longrightarrow> only_raises P (mlift r)"
  by (simp add: only_raises_def)

lemma only_raises_mbind [raises_intros]:
  assumes "only_raises P m" and "\<And>a s s'. m s = (Inr a, s') \<Longrightarrow> only_raises P (f a)"
  shows "only_raises P (mbind m f)"
  using assms by (auto simp: only_raises_def elim!: mbind_cases) blast

lemma only_raises_mcatch [raises_intros]:
  "(\<And>e s s'. m s = (Inl e, s') \<Longrightarrow> only_raises P (h e)) \<Longrightarrow> only_raises P (mcatch m h)"
  by (fastforce simp: only_raises_def mcatch_def split: prod.splits sum.splits)

lemma only_raises_mmap [raises_intros]:
  "(\<And>x. x \<in> set xs \<Longrightarrow> only_raises P (f x)) \<Longrightarrow> only_raises P (mmap f xs)"
  by (induction xs) (auto intro!: only_raises_mbind)

lemma rmap_Inl: "rmap f xs = Inl e \<Longrightarrow> \<exists>x \<in> set xs. f x = Inl e"
  by (induction xs) (auto simp: rbind_eq_Inl)

end
