(* ===== verification/PyStrings.thy ===== *)
theory PyStrings
  imports Prelude "HOL-Library.Sublist"
begin

text \<open>
  The string functions of Python's standard library that the code uses: \<open>strip\<close>, \<open>split\<close> on a
  separator character, \<open>join\<close>, \<open>lower\<close>, \<open>upper\<close>, the decimal text of an integer and its
  parser, \<open>str\<close> of a value, and SQL's \<open>LIKE\<close>. \<open>s.startswith(p)\<close> is the library's
  \<open>prefix p s\<close>, \<open>s.endswith(p)\<close> is \<open>suffix p s\<close>, \<open>p in s\<close> is \<open>sublist p s\<close>.
\<close>

section \<open>Strip, split and join\<close>

text \<open>\<open>str.isspace\<close> on the code points below 256.\<close>

definition is_space :: "char \<Rightarrow> bool" where
  "is_space c \<longleftrightarrow> of_char c \<in> set ([9, 10, 11, 12, 13, 28, 29, 30, 31, 32, 133, 160] :: nat list)"

definition py_lstrip :: "string \<Rightarrow> string" where
  "py_lstrip s = dropWhile is_space s"

definition py_strip :: "string \<Rightarrow> string" where
  "py_strip s = rev (dropWhile is_space (rev (dropWhile is_space s)))"

fun py_split :: "char \<Rightarrow> string \<Rightarrow> string list" where
  "py_split c [] = [[]]"
| "py_split c (x # xs) =
     (if x = c then [] # py_split c xs
      else (case py_split c xs of [] \<Rightarrow> [[x]] | y # ys \<Rightarrow> (x # y) # ys))"

fun py_join :: "string \<Rightarrow> string list \<Rightarrow> string" where
  "py_join sep [] = []"
| "py_join sep [x] = x"
| "py_join sep (x # y # ys) = x @ sep @ py_join sep (y # ys)"

lemma py_split_not_Nil [simp]: "py_split c s \<noteq> []"
  by (induction s) (auto split: list.splits)

lemma py_split_Nil_iff [simp]: "py_split c s = [] \<longleftrightarrow> False"
  by simp

lemma py_join_split: "py_join [c] (py_split c s) = s"
proof (induction s)
  case (Cons x s)
  show ?case
  proof (cases "py_split c s")
    case (Cons y ys)
    with Cons.IH show ?thesis by (cases ys) auto
  qed simp
qed simp

lemma py_split_no_sep: "c \<notin> set s \<Longrightarrow> py_split c s = [s]"
  by (induction s) auto

lemma py_split_append_sep: "c \<notin> set s \<Longrightarrow> py_split c (s @ c # t) = s # py_split c t"
  by (induction s) auto

lemma py_split_join:
  "parts \<noteq> [] \<Longrightarrow> (\<forall>p \<in> set parts. c \<notin> set p) \<Longrightarrow> py_split c (py_join [c] parts) = parts"
  by (induction "[c]" parts rule: py_join.induct) (auto simp: py_split_no_sep py_split_append_sep)

lemma py_split_parts: "p \<in> set (py_split c s) \<Longrightarrow> c \<notin> set p"
  by (induction s arbitrary: p) (auto split: if_splits list.splits)

lemma py_split_chars: "p \<in> set (py_split c s) \<Longrightarrow> set p \<subseteq> set s"
proof (induction s arbitrary: p)
  case (Cons x s)
  obtain y ys where y: "py_split c s = y # ys" by (cases "py_split c s") auto
  then have "\<And>q. q = y \<or> q \<in> set ys \<Longrightarrow> set q \<subseteq> set s" using Cons.IH by auto
  with Cons.prems y show ?case by (cases "x = c") fastforce+
qed simp

text \<open>A string that \<open>strip\<close> leaves alone.\<close>

definition stripped :: "string \<Rightarrow> bool" where
  "stripped s \<longleftrightarrow> s = [] \<or> (\<not> is_space (hd s) \<and> \<not> is_space (last s))"

lemma dropWhile_hd: "xs \<noteq> [] \<Longrightarrow> \<not> P (hd xs) \<Longrightarrow> dropWhile P xs = xs"
  by (cases xs) auto

lemma py_strip_stripped [simp]: "stripped s \<Longrightarrow> py_strip s = s"
  by (cases "s = []") (auto simp: stripped_def py_strip_def dropWhile_hd hd_rev)

lemma stripped_py_strip [simp]: "stripped (py_strip s)"
proof (cases "py_strip s = []")
  case False
  let ?d = "dropWhile is_space s"
  let ?r = "dropWhile is_space (rev ?d)"
  have r: "?r \<noteq> []" using False by (simp add: py_strip_def)
  have l: "\<not> is_space (last (py_strip s))"
    using r hd_dropWhile [of is_space "rev ?d"] by (auto simp: py_strip_def last_rev)
  have d: "?d \<noteq> []" using r by (metis dropWhile.simps(1) rev.simps(1))
  have hd_d: "\<not> is_space (hd ?d)" by (rule hd_dropWhile [OF d])
  obtain pre where "rev ?d = pre @ ?r" using dropWhile_eq_drop append_take_drop_id by metis
  then have "?d = rev ?r @ rev pre" by (metis rev_append rev_rev_ident)
  with r have "hd ?d = hd (rev ?r)" by (metis hd_append2 rev_is_Nil_conv)
  with hd_d have "\<not> is_space (hd (py_strip s))" by (simp add: py_strip_def)
  with l show ?thesis by (simp add: stripped_def)
qed (simp add: stripped_def)

lemma py_strip_idem [simp]: "py_strip (py_strip s) = py_strip s"
  by simp

lemma set_py_strip: "set (py_strip s) \<subseteq> set s"
  unfolding py_strip_def by (metis set_dropWhileD set_rev subsetI)


section \<open>Case folding\<close>

text \<open>
  \<open>lower\<close> on the code points below 256, and \<open>upper\<close> on ASCII (the code only compares
  the upper-case text with ASCII words).
\<close>

definition lower_char :: "char \<Rightarrow> char" where
  "lower_char c =
     (let n = (of_char c :: nat)
      in if (65 \<le> n \<and> n \<le> 90) \<or> (192 \<le> n \<and> n \<le> 222 \<and> n \<noteq> 215) then char_of (n + 32) else c)"

definition upper_char :: "char \<Rightarrow> char" where
  "upper_char c = (let n = (of_char c :: nat) in if 97 \<le> n \<and> n \<le> 122 then char_of (n - 32) else c)"

definition py_lower :: "string \<Rightarrow> string" where
  "py_lower = map lower_char"

definition py_upper :: "string \<Rightarrow> string" where
  "py_upper = map upper_char"


section \<open>Decimal text of integers\<close>

definition digit_char :: "nat \<Rightarrow> char" where
  "digit_char d = char_of (48 + d)"

fun nat_str :: "nat \<Rightarrow> string" where
  "nat_str n = (if n < 10 then [digit_char n] else nat_str (n div 10) @ [digit_char (n mod 10)])"

declare nat_str.simps [simp del]

definition int_str :: "int \<Rightarrow> string" where
  "int_str n = (if n < 0 then CHR ''-'' # nat_str (nat (- n)) else nat_str (nat n))"

definition is_digit :: "char \<Rightarrow> bool" where
  "is_digit c \<longleftrightarrow> 48 \<le> (of_char c :: nat) \<and> (of_char c :: nat) \<le> 57"

text \<open>
  The digits of \<open>int(text)\<close>: single underscores may stand between digits. The flag says that
  the last character read was a digit.
\<close>

fun parse_digits :: "bool \<Rightarrow> nat \<Rightarrow> string \<Rightarrow> nat option" where
  "parse_digits b acc [] = (if b then Some acc else None)"
| "parse_digits b acc (c # cs) =
     (if is_digit c then parse_digits True (acc * 10 + (of_char c - 48)) cs
      else if c = CHR ''_'' \<and> b then parse_digits False acc cs
      else None)"

definition py_parse_int :: "string \<Rightarrow> int option" where
  "py_parse_int s =
     (case py_strip s of
        [] \<Rightarrow> None
      | c # cs \<Rightarrow>
          if c = CHR ''-'' then map_option (\<lambda>n. - int n) (parse_digits False 0 cs)
          else if c = CHR ''+'' then map_option int (parse_digits False 0 cs)
          else map_option int (parse_digits False 0 (c # cs)))"

lemma of_digit_char [simp]: "d < 10 \<Longrightarrow> (of_char (digit_char d) :: nat) = 48 + d"
  by (simp add: digit_char_def)

lemma is_digit_digit_char [simp]: "d < 10 \<Longrightarrow> is_digit (digit_char d)"
  by (simp add: is_digit_def)

lemma parse_digits_snoc:
  "is_digit d \<Longrightarrow> parse_digits b acc cs = Some m \<Longrightarrow>
   parse_digits b acc (cs @ [d]) = Some (m * 10 + (of_char d - 48))"
  by (induction b acc cs rule: parse_digits.induct) (auto split: if_splits)

lemma parse_nat_str [simp]: "parse_digits False 0 (nat_str n) = Some n"
proof (induction n rule: nat_str.induct)
  case (1 n)
  show ?case
  proof (cases "n < 10")
    case True
    then show ?thesis by (subst nat_str.simps) simp
  next
    case False
    with "1.IH" have "parse_digits False 0 (nat_str (n div 10)) = Some (n div 10)" by simp
    then have "parse_digits False 0 (nat_str (n div 10) @ [digit_char (n mod 10)]) = Some n"
      by (simp add: parse_digits_snoc)
    with False show ?thesis by (subst nat_str.simps) simp
  qed
qed

lemma nat_str_inject [simp]: "nat_str m = nat_str n \<longleftrightarrow> m = n"
  by (metis option.inject parse_nat_str)

lemma nat_str_digits: "\<forall>c \<in> set (nat_str n). is_digit c"
proof (induction n rule: nat_str.induct)
  case (1 n)
  then show ?case by (subst nat_str.simps) auto
qed

lemma nat_str_not_Nil [simp]: "nat_str n \<noteq> []"
  by (subst nat_str.simps) simp

lemma digit_not_space: "is_digit c \<Longrightarrow> \<not> is_space c"
  by (auto simp: is_digit_def is_space_def)

lemma stripped_nat_str [simp]: "stripped (nat_str n)"
  unfolding stripped_def using nat_str_digits digit_not_space hd_in_set last_in_set nat_str_not_Nil
  by meson

lemma nat_str_hd: "hd (nat_str n) \<noteq> CHR ''-''" "hd (nat_str n) \<noteq> CHR ''+''"
proof -
  have "is_digit (hd (nat_str n))" using nat_str_digits [of n] hd_in_set [OF nat_str_not_Nil, of n] by blast
  then show "hd (nat_str n) \<noteq> CHR ''-''" "hd (nat_str n) \<noteq> CHR ''+''"
    by (auto simp: is_digit_def)
qed

lemma py_parse_int_str [simp]: "py_parse_int (int_str n) = Some n"
proof (cases "n < 0")
  case True
  have "stripped (CHR ''-'' # nat_str (nat (- n)))"
    using stripped_nat_str [of "nat (- n)"] by (auto simp: stripped_def is_space_def)
  with True show ?thesis by (simp add: int_str_def py_parse_int_def)
next
  case False
  obtain c cs where c: "nat_str (nat n) = c # cs" by (cases "nat_str (nat n)") auto
  with nat_str_hd [of "nat n"] have "c \<noteq> CHR ''-''" "c \<noteq> CHR ''+''" by auto
  moreover have "parse_digits False 0 (c # cs) = Some (nat n)"
    using parse_nat_str [of "nat n"] c by simp
  ultimately show ?thesis using False c stripped_nat_str [of "nat n"]
    by (simp add: int_str_def py_parse_int_def del: parse_digits.simps)
qed

lemma int_str_inject [simp]: "int_str m = int_str n \<longleftrightarrow> m = n"
  by (metis option.inject py_parse_int_str)

text \<open>\<open>int(value)\<close>: a float is truncated towards zero, a text is parsed.\<close>

fun py_int :: "pv \<Rightarrow> int res" where
  "py_int (VBool b) = Inr (if b then 1 else 0)"
| "py_int (VInt n) = Inr n"
| "py_int (VFloat q) = Inr (if 0 \<le> q then \<lfloor>q\<rfloor> else \<lceil>q\<rceil>)"
| "py_int (VStr s) =
     (case py_parse_int s of None \<Rightarrow> Inl (ValueError ''int'') | Some n \<Rightarrow> Inr n)"
| "py_int _ = Inl (TypeError ''int'')"


section \<open>The text of a value\<close>

text \<open>
  The decimal text of a float, at most 17 digits after the point; it is CPython's text for a value
  with at most 15 significant digits between \<open>1e-4\<close> and \<open>1e16\<close>.
\<close>

fun frac_digits :: "nat \<Rightarrow> rat \<Rightarrow> string" where
  "frac_digits 0 q = []"
| "frac_digits (Suc k) q =
     (if q = 0 then []
      else digit_char (nat \<lfloor>q * 10\<rfloor>) # frac_digits k (q * 10 - of_int \<lfloor>q * 10\<rfloor>))"

definition float_str :: "rat \<Rightarrow> string" where
  "float_str q =
     (let a = \<bar>q\<bar>; i = \<lfloor>a\<rfloor>; ds = frac_digits 17 (a - of_int i)
      in (if q < 0 then ''-'' else []) @ int_str i @ ''.'' @ (if ds = [] then ''0'' else ds))"

text \<open>Gregorian calendar date of a day number (days since 1970-01-01): year, month, day.\<close>

definition civil_of_days :: "int \<Rightarrow> int \<times> int \<times> int" where
  "civil_of_days days =
     (let z = days + 719468;
          era = z div 146097;
          doe = z mod 146097;
          yoe = (doe - doe div 1460 + doe div 36524 - doe div 146096) div 365;
          doy = doe - (365 * yoe + yoe div 4 - yoe div 100);
          mp = (5 * doy + 2) div 153;
          d = doy - (153 * mp + 2) div 5 + 1;
          m = (if mp < 10 then mp + 3 else mp - 9)
      in (yoe + era * 400 + (if m \<le> 2 then 1 else 0), m, d))"

definition pad :: "nat \<Rightarrow> int \<Rightarrow> string" where
  "pad w n = (let s = int_str n in replicate (w - length s) CHR ''0'' @ s)"

text \<open>\<open>datetime.isoformat(sep)\<close> of an aware UTC datetime.\<close>

definition iso_text :: "char \<Rightarrow> int \<Rightarrow> string" where
  "iso_text sep us =
     (let secs = us div 1000000; frac = us mod 1000000;
          (y, m, d) = civil_of_days (secs div 86400);
          r = secs mod 86400
      in pad 4 y @ ''-'' @ pad 2 m @ ''-'' @ pad 2 d @ [sep]
         @ pad 2 (r div 3600) @ '':'' @ pad 2 (r div 60 mod 60) @ '':'' @ pad 2 (r mod 60)
         @ (if frac = 0 then [] else ''.'' @ pad 6 frac) @ ''+00:00'')"

definition hex_char :: "nat \<Rightarrow> char" where
  "hex_char n = (if n < 10 then char_of (48 + n) else char_of (87 + n))"

text \<open>\<open>repr\<close> of a text: single quotes unless it holds one and no double quote.\<close>

definition repr_char :: "char \<Rightarrow> char \<Rightarrow> string" where
  "repr_char q c =
     (let n = (of_char c :: nat); bs = char_of (92 :: nat)
      in if c = q \<or> n = 92 then [bs, c]
         else if n = 10 then [bs, CHR ''n'']
         else if n = 13 then [bs, CHR ''r'']
         else if n = 9 then [bs, CHR ''t'']
         else if n < 32 \<or> (127 \<le> n \<and> n \<le> 160) \<or> n = 173
           then [bs, CHR ''x'', hex_char (n div 16), hex_char (n mod 16)]
         else [c])"

definition repr_str :: "string \<Rightarrow> string" where
  "repr_str s =
     (let sq = char_of (39 :: nat); dq = char_of (34 :: nat);
          q = (if sq \<in> set s \<and> dq \<notin> set s then dq else sq)
      in [q] @ concat (map (repr_char q) s) @ [q])"

fun py_repr :: "pv \<Rightarrow> string" where
  "py_repr VNone = ''None''"
| "py_repr (VBool b) = (if b then ''True'' else ''False'')"
| "py_repr (VInt n) = int_str n"
| "py_repr (VFloat q) = float_str q"
| "py_repr (VStr s) = repr_str s"
| "py_repr (VTime t) = iso_text CHR '' '' t"
| "py_repr (VList xs) = ''['' @ py_join '', '' (map py_repr xs) @ '']''"
| "py_repr (VDict d) =
     ''{'' @ py_join '', '' (map (\<lambda>p. repr_str (fst p) @ '': '' @ py_repr (snd p)) d) @ ''}''"

fun py_str :: "pv \<Rightarrow> string" where
  "py_str (VStr s) = s"
| "py_str v = py_repr v"


section \<open>SQL pattern matching\<close>

text \<open>\<open>text LIKE pattern\<close>: \<open>%\<close> any text, \<open>_\<close> any character, backslash quotes.\<close>

fun sql_like :: "string \<Rightarrow> string \<Rightarrow> bool" where
  "sql_like [] t = (t = [])"
| "sql_like (p # ps) t =
     (if p = CHR ''%'' then
        sql_like ps t \<or> (case t of [] \<Rightarrow> False | _ # t' \<Rightarrow> sql_like (p # ps) t')
      else if p = char_of (92 :: nat) then
        (case ps of [] \<Rightarrow> False
         | q # qs \<Rightarrow> (case t of [] \<Rightarrow> False | x # t' \<Rightarrow> x = q \<and> sql_like qs t'))
      else (case t of [] \<Rightarrow> False | x # t' \<Rightarrow> (p = CHR ''_'' \<or> p = x) \<and> sql_like ps t'))"

declare sql_like.simps(2) [simp del]

definition sql_ilike :: "string \<Rightarrow> string \<Rightarrow> bool" where
  "sql_ilike pat t = sql_like (py_lower pat) (py_lower t)"

definition no_wildcard :: "string \<Rightarrow> bool" where
  "no_wildcard s \<longleftrightarrow> CHR ''%'' \<notin> set s \<and> CHR ''_'' \<notin> set s \<and> char_of (92 :: nat) \<notin> set s"

lemma sql_like_percent: "sql_like (CHR ''%'' # ps) t \<longleftrightarrow> (\<exists>u v. t = u @ v \<and> sql_like ps v)"
proof (induction t)
  case Nil
  show ?case by (subst sql_like.simps) auto
next
  case (Cons c t)
  have "sql_like (CHR ''%'' # ps) (c # t) \<longleftrightarrow> sql_like ps (c # t) \<or> sql_like (CHR ''%'' # ps) t"
    by (subst sql_like.simps) simp
  also have "\<dots> \<longleftrightarrow> sql_like ps (c # t) \<or> (\<exists>u v. t = u @ v \<and> sql_like ps v)"
    by (simp only: Cons.IH)
  also have "\<dots> \<longleftrightarrow> (\<exists>u v. c # t = u @ v \<and> sql_like ps v)"
    by (auto simp: Cons_eq_append_conv)
  finally show ?case .
qed

lemma sql_like_literal:
  "no_wildcard s \<Longrightarrow> sql_like (s @ ps) t \<longleftrightarrow> (\<exists>v. t = s @ v \<and> sql_like ps v)"
proof (induction s arbitrary: t)
  case (Cons c s)
  then have "no_wildcard s" and c: "c \<noteq> CHR ''%''" "c \<noteq> CHR ''_''" "c \<noteq> char_of (92 :: nat)"
    by (auto simp: no_wildcard_def)
  with Cons.IH show ?case
    by (cases t) (auto simp: sql_like.simps(2) simp del: char_of_eq_iff)
qed simp

lemma sql_like_contains:
  assumes "no_wildcard s"
  shows "sql_like (''%'' @ s @ ''%'') t \<longleftrightarrow> sublist s t"
proof -
  have "sql_like [CHR ''%''] v" for v
    unfolding sql_like_percent by (rule exI [of _ v]) simp
  then show ?thesis
    using assms by (simp add: sql_like_percent sql_like_literal sublist_def) metis
qed

end
