(* ===== verification/PermissionRules.thy ===== *)
theory PermissionRules
  imports PyStrings
begin

text \<open>
  \<open>slurmweb/permission_rules.py\<close>: the permission catalogue, the rules
  \<open>resource:operation:scope\<close> and their normal form, what a rule allows, and the translation
  between rules and the legacy policy actions. A rule is a text, as in the code; \<open>grant\<close> is the
  abstract permission a normalised rule stands for, against which the tests are specified.
\<close>

section \<open>Constants\<close>

definition PERMISSION_SCOPES :: "string list" where
  "PERMISSION_SCOPES = [''*'', ''self'']"

definition PERMISSION_OPERATIONS :: "string list" where
  "PERMISSION_OPERATIONS = [''view'', ''edit'', ''delete'', ''*'']"

definition PERMISSION_RESOURCE_ALIASES :: "(string \<times> string) list" where
  "PERMISSION_RESOURCE_ALIASES = [(''admin/ldap-cache'', ''admin/ldap-users'')]"

record catalog_resource =
  cr_resource :: string
  cr_label :: string
  cr_operations :: "string list"
  cr_scopes :: "string list"
  cr_owner_aware :: "bool option" \<comment> \<open>None: the entry has no such key\<close>

record catalog_group =
  cg_group :: string
  cg_label :: string
  cg_resources :: "catalog_resource list"

type_synonym legacy_map = "(string \<times> string list) list"

definition PERMISSION_CATALOG :: "catalog_group list" where
  "PERMISSION_CATALOG = [
   \<lparr>cg_group = ''main-routes'', cg_label = ''Main Routes'', cg_resources = [
     \<lparr>cr_resource = ''dashboard'', cr_label = ''Dashboard'',
       cr_operations = [''view''], cr_scopes = [''*''], cr_owner_aware = None\<rparr>,
     \<lparr>cr_resource = ''analysis'', cr_label = ''Analysis'',
       cr_operations = [''view''], cr_scopes = [''*''], cr_owner_aware = None\<rparr>,
     \<lparr>cr_resource = ''ai'', cr_label = ''AI Workspace'',
       cr_operations = [''view''], cr_scopes = [''*''], cr_owner_aware = None\<rparr>,
     \<lparr>cr_resource = ''jobs'', cr_label = ''Jobs'',
       cr_operations = [''view'', ''edit'', ''delete''], cr_scopes = [''*'', ''self''], cr_owner_aware = Some True\<rparr>,
     \<lparr>cr_resource = ''jobs-history'', cr_label = ''Jobs History'',
       cr_operations = [''view''], cr_scopes = [''*''], cr_owner_aware = None\<rparr>,
     \<lparr>cr_resource = ''resources'', cr_label = ''Resources'',
       cr_operations = [''view'', ''edit'', ''delete''], cr_scopes = [''*''], cr_owner_aware = None\<rparr>,
     \<lparr>cr_resource = ''qos'', cr_label = ''QOS'',
       cr_operations = [''view'', ''edit'', ''delete''], cr_scopes = [''*''], cr_owner_aware = None\<rparr>,
     \<lparr>cr_resource = ''reservations'', cr_label = ''Reservations'',
       cr_operations = [''view'', ''edit'', ''delete''], cr_scopes = [''*''], cr_owner_aware = None\<rparr>,
     \<lparr>cr_resource = ''accounts'', cr_label = ''Accounts'',
       cr_operations = [''view'', ''edit'', ''delete''], cr_scopes = [''*''], cr_owner_aware = None\<rparr>,
     \<lparr>cr_resource = ''users-admin'', cr_label = ''Users Admin'',
       cr_operations = [''view'', ''edit'', ''delete''], cr_scopes = [''*''], cr_owner_aware = None\<rparr>]\<rparr>,
   \<lparr>cg_group = ''settings'', cg_label = ''Settings'', cg_resources = [
     \<lparr>cr_resource = ''settings/general'', cr_label = ''Settings / General'',
       cr_operations = [''view''], cr_scopes = [''*''], cr_owner_aware = None\<rparr>,
     \<lparr>cr_resource = ''settings/errors'', cr_label = ''Settings / Errors'',
       cr_operations = [''view''], cr_scopes = [''*''], cr_owner_aware = None\<rparr>,
     \<lparr>cr_resource = ''settings/account'', cr_label = ''Settings / Account'',
       cr_operations = [''view''], cr_scopes = [''*''], cr_owner_aware = None\<rparr>,
     \<lparr>cr_resource = ''admin/ai'', cr_label = ''Admin / AI'',
       cr_operations = [''view'', ''edit'', ''delete''], cr_scopes = [''*''], cr_owner_aware = None\<rparr>,
     \<lparr>cr_resource = ''admin/access-control'', cr_label = ''Admin / Access Control'',
       cr_operations = [''view'', ''edit'', ''delete''], cr_scopes = [''*''], cr_owner_aware = None\<rparr>,
     \<lparr>cr_resource = ''admin/cache'', cr_label = ''Admin / Cache'',
       cr_operations = [''view'', ''edit''], cr_scopes = [''*''], cr_owner_aware = None\<rparr>,
     \<lparr>cr_resource = ''admin/ldap-users'', cr_label = ''Admin / Users'',
       cr_operations = [''view'', ''edit''], cr_scopes = [''*''], cr_owner_aware = None\<rparr>]\<rparr>,
   \<lparr>cg_group = ''user-workspace'', cg_label = ''User Workspace'', cg_resources = [
     \<lparr>cr_resource = ''user/profile'', cr_label = ''User Profile'',
       cr_operations = [''view''], cr_scopes = [''*'', ''self''], cr_owner_aware = Some True\<rparr>,
     \<lparr>cr_resource = ''user/analysis'', cr_label = ''User Analysis'',
       cr_operations = [''view''], cr_scopes = [''*'', ''self''], cr_owner_aware = Some True\<rparr>]\<rparr>,
   \<lparr>cg_group = ''filters'', cg_label = ''Shared Filters'', cg_resources = [
     \<lparr>cr_resource = ''jobs/filter-accounts'', cr_label = ''Jobs Filter / Accounts'',
       cr_operations = [''view''], cr_scopes = [''*''], cr_owner_aware = None\<rparr>,
     \<lparr>cr_resource = ''jobs/filter-partitions'', cr_label = ''Jobs Filter / Partitions'',
       cr_operations = [''view''], cr_scopes = [''*''], cr_owner_aware = None\<rparr>,
     \<lparr>cr_resource = ''jobs/filter-qos'', cr_label = ''Jobs Filter / QOS'',
       cr_operations = [''view''], cr_scopes = [''*''], cr_owner_aware = None\<rparr>,
     \<lparr>cr_resource = ''resources/filter-partitions'', cr_label = ''Resources Filter / Partitions'',
       cr_operations = [''view''], cr_scopes = [''*''], cr_owner_aware = None\<rparr>]\<rparr>]"

definition DEFAULT_LEGACY_PERMISSION_MAP :: legacy_map where
  "DEFAULT_LEGACY_PERMISSION_MAP = [
   (''view-stats'', [''dashboard:view:*'', ''analysis:view:*'']),
   (''view-ai'', [''ai:view:*'']),
   (''view-jobs'', [''jobs:view:*'']),
   (''view-history-jobs'', [''jobs-history:view:*'']),
   (''view-nodes'', [''resources:view:*'']),
   (''view-qos'', [''qos:view:*'', ''jobs/filter-qos:view:*'']),
   (''view-reservations'', [''reservations:view:*'']),
   (''associations-view'', [''accounts:view:*'', ''user/profile:view:*'']),
   (''view-accounts'', [''jobs/filter-accounts:view:*'']),
   (''view-partitions'', [''jobs/filter-partitions:view:*'', ''resources/filter-partitions:view:*'']),
   (''cache-view'', [''admin/cache:view:*'', ''admin/ldap-users:view:*'']),
   (''cache-reset'', [''admin/cache:edit:*'']),
   (''admin-manage'', [''*:*:*''])]"


section \<open>Normal form of a rule\<close>

definition resource_alias :: "string \<Rightarrow> string" where
  "resource_alias r = (case map_of PERMISSION_RESOURCE_ALIASES r of None \<Rightarrow> r | Some r' \<Rightarrow> r')"

definition rule_text :: "string \<Rightarrow> string \<Rightarrow> string \<Rightarrow> string" where
  "rule_text res op sc = res @ '':'' @ op @ '':'' @ sc"

definition normalize_rule_str :: "string \<Rightarrow> string res" where
  "normalize_rule_str rule =
     (case py_split CHR '':'' (py_strip rule) of
        [resource, operation, scope] \<Rightarrow>
          if resource = [] then Inl (ValueError (''Invalid permission rule '' @ rule))
          else if operation \<notin> set PERMISSION_OPERATIONS
            then Inl (ValueError (''Invalid permission operation '' @ operation))
          else if scope \<notin> set PERMISSION_SCOPES
            then Inl (ValueError (''Invalid permission scope '' @ scope))
          else Inr (rule_text (resource_alias resource) operation scope)
      | _ \<Rightarrow> Inl (ValueError (''Invalid permission rule '' @ rule)))"

fun normalize_permission_rule :: "pv \<Rightarrow> string res" where
  "normalize_permission_rule (VStr rule) = normalize_rule_str rule"
| "normalize_permission_rule _ = Inl (ValueError ''Permission rule must be a string'')"

definition sort_permission_rules :: "pv list \<Rightarrow> string list res" where
  "sort_permission_rules rules = rbind (rmap normalize_permission_rule rules) (\<lambda>ns. Inr (sorted_set ns))"


section \<open>What a rule allows\<close>

definition resource_matches :: "string \<Rightarrow> string \<Rightarrow> bool" where
  "resource_matches granted requested \<longleftrightarrow>
     (if granted = ''*'' then True
      else if granted = requested then True
      else if suffix ''/*'' granted then prefix (butlast granted) requested
      else False)"

definition operation_allowed :: "string \<Rightarrow> string \<Rightarrow> bool" where
  "operation_allowed granted operation \<longleftrightarrow>
     (if granted = ''*'' then True
      else if operation = ''view'' then granted \<in> {''view'', ''edit'', ''delete''}
      else granted = operation)"

definition permission_rule_allows :: "string \<Rightarrow> string \<Rightarrow> string \<Rightarrow> string \<Rightarrow> bool res" where
  "permission_rule_allows rule resource operation scope =
     rbind (normalize_rule_str rule) (\<lambda>n.
       case py_split CHR '':'' n of
         [granted_resource, granted_operation, granted_scope] \<Rightarrow>
           Inr (resource_matches granted_resource resource
                \<and> operation_allowed granted_operation operation
                \<and> (granted_scope = ''*'' \<or> granted_scope = scope))
       | _ \<Rightarrow> Inl (ValueError ''unpack''))"

definition permission_rules_allow :: "string list \<Rightarrow> string \<Rightarrow> string \<Rightarrow> string \<Rightarrow> bool res" where
  "permission_rules_allow rules resource operation scope =
     rany (\<lambda>rule. permission_rule_allows rule resource operation scope) rules"


section \<open>Legacy actions\<close>

text \<open>
  \<open>load_legacy_permission_map\<close>: the argument is what \<open>yaml.safe_load\<close> returned, or \<open>None\<close> when
  there is no file.
\<close>

definition load_legacy_permission_map :: "pv option \<Rightarrow> legacy_map res" where
  "load_legacy_permission_map content =
     (case content of
        None \<Rightarrow> Inr []
      | Some loaded \<Rightarrow>
          (case py_or loaded (VDict []) of
             VDict raw \<Rightarrow>
               rfold (\<lambda>(action, rules) normalized.
                 case rules of
                   VList xs \<Rightarrow> rbind (sort_permission_rules xs) (\<lambda>rs. Inr (dset action rs normalized))
                 | _ \<Rightarrow> Inl (ValueError (''permission_map entry for '' @ action @ '' must be a list'')))
               raw []
           | _ \<Rightarrow> Inl (ValueError ''permission_map must be a mapping'')))"

definition merged_legacy_permission_map :: "pv option \<Rightarrow> legacy_map res" where
  "merged_legacy_permission_map content =
     rbind (rmap (\<lambda>(action, rules).
              rbind (sort_permission_rules (map VStr rules)) (\<lambda>rs. Inr (action, rs)))
            DEFAULT_LEGACY_PERMISSION_MAP) (\<lambda>merged.
     rbind (load_legacy_permission_map content) (\<lambda>loaded. Inr (dupdate merged loaded)))"

definition mapped_rules :: "legacy_map \<Rightarrow> string \<Rightarrow> string list" where
  "mapped_rules legacy_map action = (case map_of legacy_map action of None \<Rightarrow> [] | Some rs \<Rightarrow> rs)"

definition legacy_actions_to_rules :: "string list \<Rightarrow> legacy_map \<Rightarrow> string list res" where
  "legacy_actions_to_rules actions legacy_map =
     sort_permission_rules (map VStr (concat (map (mapped_rules legacy_map) actions)))"

text \<open>\<open>normalize_permission_rule(r).split(":")\<close>, of which the code reads the three parts.\<close>

definition rule_parts :: "string \<Rightarrow> (string \<times> string \<times> string) res" where
  "rule_parts r =
     rbind (normalize_rule_str r) (\<lambda>n.
       case py_split CHR '':'' n of
         a # b # c # _ \<Rightarrow> Inr (a, b, c)
       | _ \<Rightarrow> Inl IndexError)"

definition permission_rules_to_legacy_actions :: "string list \<Rightarrow> legacy_map \<Rightarrow> string list res" where
  "permission_rules_to_legacy_actions rules legacy_map =
     rbind (sort_permission_rules (map VStr rules)) (\<lambda>normalized_rules.
     rbind (rfold (\<lambda>(action, required_rules) actions.
              rbind (rany (\<lambda>required_rule.
                       rbind (rule_parts required_rule) (\<lambda>(resource, operation, scope).
                         permission_rules_allow normalized_rules resource operation scope))
                     required_rules) (\<lambda>b. Inr (if b then actions @ [action] else actions)))
            legacy_map []) (\<lambda>actions. Inr (sort actions)))"


section \<open>Catalogue and seeded roles\<close>

record access_catalog =
  ac_operations :: "string list"
  ac_scopes :: "string list"
  ac_groups :: "catalog_group list"
  ac_legacy_map :: legacy_map

definition access_control_catalog :: access_catalog where
  "access_control_catalog =
     \<lparr>ac_operations = butlast PERMISSION_OPERATIONS,
      ac_scopes = PERMISSION_SCOPES,
      ac_groups = PERMISSION_CATALOG,
      ac_legacy_map = DEFAULT_LEGACY_PERMISSION_MAP\<rparr>"

record seed_role =
  sr_name :: string
  sr_description :: string
  sr_permissions :: "string list"

definition seed_user_rules :: "string list" where
  "seed_user_rules = [
   ''dashboard:view:*'',
   ''analysis:view:*'',
   ''ai:view:*'',
   ''jobs:view:self'',
   ''jobs:edit:self'',
   ''jobs:delete:self'',
   ''jobs-history:view:*'',
   ''resources:view:*'',
   ''qos:view:*'',
   ''reservations:view:*'',
   ''accounts:view:*'',
   ''user/profile:view:self'',
   ''user/analysis:view:self'',
   ''jobs/filter-accounts:view:*'',
   ''jobs/filter-partitions:view:*'',
   ''jobs/filter-qos:view:*'',
   ''resources/filter-partitions:view:*'',
   ''settings/general:view:*'',
   ''settings/errors:view:*'',
   ''settings/account:view:*'']"

definition default_seed_roles :: "seed_role list res" where
  "default_seed_roles =
     rbind (sort_permission_rules (map VStr seed_user_rules)) (\<lambda>user_permissions.
     rbind (sort_permission_rules (map VStr [''*:view:*'', ''*:edit:*''])) (\<lambda>admin_permissions.
     Inr [
       \<lparr>sr_name = ''user'',
        sr_description = ''Read-only access to available routes and settings.'',
        sr_permissions = user_permissions\<rparr>,
       \<lparr>sr_name = ''admin'',
        sr_description = ''Global read and edit access across routes and settings.'',
        sr_permissions = admin_permissions\<rparr>,
       \<lparr>sr_name = ''super-admin'',
        sr_description = ''Full access to all resources and operations.'',
        sr_permissions = [''*:*:*'']\<rparr>]))"



section \<open>Rules as grants\<close>

text \<open>
  The permission a rule stands for: a resource pattern, an operation and a scope. \<open>grant_of\<close>
  parses a rule, \<open>covers\<close> is the meaning of the three components.
\<close>

type_synonym grant = "string \<times> string \<times> string"

definition grant_of :: "string \<Rightarrow> grant option" where
  "grant_of rule =
     (case py_split CHR '':'' (py_strip rule) of
        [r, oper, sc] \<Rightarrow>
          if r \<noteq> [] \<and> oper \<in> set PERMISSION_OPERATIONS \<and> sc \<in> set PERMISSION_SCOPES
          then Some (resource_alias r, oper, sc) else None
      | _ \<Rightarrow> None)"

fun covers :: "grant \<Rightarrow> grant \<Rightarrow> bool" where
  "covers (gr, go, gs) (r, oper, sc) \<longleftrightarrow>
     resource_matches gr r \<and> operation_allowed go oper \<and> (gs = ''*'' \<or> gs = sc)"

fun grant_text :: "grant \<Rightarrow> string" where
  "grant_text (r, oper, sc) = rule_text r oper sc"

definition valid_rule :: "string \<Rightarrow> bool" where
  "valid_rule rule \<longleftrightarrow> grant_of rule \<noteq> None"

definition canonical_rule :: "string \<Rightarrow> bool" where
  "canonical_rule rule \<longleftrightarrow> normalize_rule_str rule = Inr rule"

lemma normalize_grant: "grant_of rule = Some g \<Longrightarrow> normalize_rule_str rule = Inr (grant_text g)"
  by (auto simp: grant_of_def normalize_rule_str_def split: list.splits if_splits)

lemma normalize_invalid: "grant_of rule = None \<Longrightarrow> \<exists>e. normalize_rule_str rule = Inl e"
  by (auto simp: grant_of_def normalize_rule_str_def split: list.splits if_splits)

lemma normalize_Inr: "normalize_rule_str rule = Inr n \<longleftrightarrow> (\<exists>g. grant_of rule = Some g \<and> n = grant_text g)"
proof (cases "grant_of rule")
  case None
  then show ?thesis using normalize_invalid by fastforce
next
  case (Some g)
  then show ?thesis using normalize_grant by auto
qed

lemma resource_alias_idem [simp]: "resource_alias (resource_alias r) = resource_alias r"
  by (simp add: resource_alias_def PERMISSION_RESOURCE_ALIASES_def)

lemma resource_alias_no_colon: "CHR '':'' \<notin> set r \<Longrightarrow> CHR '':'' \<notin> set (resource_alias r)"
  by (simp add: resource_alias_def PERMISSION_RESOURCE_ALIASES_def)

lemma resource_alias_hd:
  "r \<noteq> [] \<Longrightarrow> \<not> is_space (hd r) \<Longrightarrow> resource_alias r \<noteq> [] \<and> \<not> is_space (hd (resource_alias r))"
  by (simp add: resource_alias_def PERMISSION_RESOURCE_ALIASES_def is_space_def)

lemma scope_last: "sc \<in> set PERMISSION_SCOPES \<Longrightarrow> sc \<noteq> [] \<and> \<not> is_space (last sc) \<and> CHR '':'' \<notin> set sc"
  by (auto simp: PERMISSION_SCOPES_def is_space_def)

lemma operation_chars: "oper \<in> set PERMISSION_OPERATIONS \<Longrightarrow> CHR '':'' \<notin> set oper"
  by (auto simp: PERMISSION_OPERATIONS_def)

text \<open>What parsing a rule gives, and that the text of a grant parses back to it.\<close>

definition wf_grant :: "grant \<Rightarrow> bool" where
  "wf_grant g \<longleftrightarrow>
     (case g of (r, oper, sc) \<Rightarrow>
        r \<noteq> [] \<and> \<not> is_space (hd r) \<and> CHR '':'' \<notin> set r \<and> resource_alias r = r
        \<and> oper \<in> set PERMISSION_OPERATIONS \<and> sc \<in> set PERMISSION_SCOPES)"

lemma split_rule_text:
  "CHR '':'' \<notin> set r \<Longrightarrow> CHR '':'' \<notin> set oper \<Longrightarrow> CHR '':'' \<notin> set sc \<Longrightarrow>
   py_split CHR '':'' (rule_text r oper sc) = [r, oper, sc]"
  by (simp add: rule_text_def py_split_append_sep py_split_no_sep)

lemma grant_of_wf:
  assumes "grant_of rule = Some g"
  shows "wf_grant g"
proof -
  from assms obtain r oper sc where sp: "py_split CHR '':'' (py_strip rule) = [r, oper, sc]"
    and ok: "r \<noteq> []" "oper \<in> set PERMISSION_OPERATIONS" "sc \<in> set PERMISSION_SCOPES"
    and g: "g = (resource_alias r, oper, sc)"
    by (auto simp: grant_of_def split: list.splits if_splits)
  have join: "py_strip rule = r @ CHR '':'' # oper @ CHR '':'' # sc"
    using py_join_split [of "CHR '':''" "py_strip rule"] sp by simp
  have "stripped (py_strip rule)" by simp
  then have "\<not> is_space (hd r)" using join ok(1) by (auto simp: stripped_def)
  moreover have "CHR '':'' \<notin> set r" using py_split_parts [of r "CHR '':''" "py_strip rule"] sp by simp
  ultimately show ?thesis
    using ok g resource_alias_hd resource_alias_no_colon by (auto simp: wf_grant_def)
qed

lemma grant_of_text:
  assumes "wf_grant g"
  shows "grant_of (grant_text g) = Some g"
proof -
  obtain r oper sc where g: "g = (r, oper, sc)" by (cases g)
  with assms have ok: "r \<noteq> []" "\<not> is_space (hd r)" "CHR '':'' \<notin> set r" "resource_alias r = r"
      "oper \<in> set PERMISSION_OPERATIONS" "sc \<in> set PERMISSION_SCOPES"
    by (auto simp: wf_grant_def)
  have "stripped (rule_text r oper sc)"
    using ok scope_last [OF ok(6)] by (simp add: stripped_def rule_text_def)
  then show ?thesis
    using ok scope_last [OF ok(6)] operation_chars [OF ok(5)]
    by (simp add: g grant_of_def split_rule_text)
qed

lemma normalize_idem: "normalize_rule_str rule = Inr n \<Longrightarrow> normalize_rule_str n = Inr n"
  by (metis grant_of_text grant_of_wf normalize_Inr)

lemma canonical_iff: "canonical_rule rule \<longleftrightarrow> (\<exists>g. grant_of rule = Some g \<and> rule = grant_text g)"
  by (auto simp: canonical_rule_def normalize_Inr)

lemma canonical_valid: "canonical_rule rule \<Longrightarrow> valid_rule rule"
  by (auto simp: canonical_iff valid_rule_def)

lemma rule_allows_grant:
  assumes "grant_of rule = Some g"
  shows "permission_rule_allows rule r oper sc = Inr (covers g (r, oper, sc))"
proof -
  obtain gr go gs where g: "g = (gr, go, gs)" by (cases g)
  from grant_of_wf [OF assms] g scope_last operation_chars
  have "py_split CHR '':'' (grant_text g) = [gr, go, gs]"
    by (auto simp: wf_grant_def intro!: split_rule_text)
  then show ?thesis
    using assms by (simp add: permission_rule_allows_def normalize_grant g)
qed

lemma rule_parts_grant:
  assumes "grant_of rule = Some g"
  shows "rule_parts rule = Inr g"
proof -
  obtain gr go gs where g: "g = (gr, go, gs)" by (cases g)
  from grant_of_wf [OF assms] g scope_last operation_chars
  have "py_split CHR '':'' (grant_text g) = [gr, go, gs]"
    by (auto simp: wf_grant_def intro!: split_rule_text)
  then show ?thesis
    using assms by (simp add: rule_parts_def normalize_grant g)
qed

text \<open>The permission set a list of rules denotes.\<close>

definition denotes :: "string list \<Rightarrow> grant \<Rightarrow> bool" where
  "denotes rules q \<longleftrightarrow> (\<exists>rule \<in> set rules. \<exists>g. grant_of rule = Some g \<and> covers g q)"

lemma case_option_test: "(case x of None \<Rightarrow> False | Some g \<Rightarrow> P g) \<longleftrightarrow> (\<exists>g. x = Some g \<and> P g)"
  by (cases x) auto

lemma denotes_code [code]:
  "denotes rules q = list_ex (\<lambda>rule. case grant_of rule of None \<Rightarrow> False | Some g \<Rightarrow> covers g q) rules"
  by (simp only: denotes_def list_ex_iff case_option_test)

lemma rules_allow_denotes:
  assumes "\<forall>rule \<in> set rules. valid_rule rule"
  shows "permission_rules_allow rules r oper sc = Inr (denotes rules (r, oper, sc))"
proof -
  have "permission_rule_allows rule r oper sc = Inr (\<exists>g. grant_of rule = Some g \<and> covers g (r, oper, sc))"
    if "rule \<in> set rules" for rule
    using assms that rule_allows_grant by (auto simp: valid_rule_def)
  then have "rany (\<lambda>rule. permission_rule_allows rule r oper sc) rules
    = Inr (\<exists>rule \<in> set rules. \<exists>g. grant_of rule = Some g \<and> covers g (r, oper, sc))"
    by (rule rany_all_Inr)
  then show ?thesis by (simp add: permission_rules_allow_def denotes_def)
qed

lemma denotes_mono: "set rules \<subseteq> set rules' \<Longrightarrow> denotes rules q \<Longrightarrow> denotes rules' q"
  by (auto simp: denotes_def)

lemma covers_weaken:
  assumes "covers g (r, oper, sc)" and "oper' = oper \<or> oper' = ''view''" and "sc' = sc \<or> sc = ''*''"
    and "wf_grant g"
  shows "covers g (r, oper', sc')"
proof -
  obtain gr go gs where g: "g = (gr, go, gs)" by (cases g)
  with assms(4) have "go \<in> {''view'', ''edit'', ''delete'', ''*''}"
    by (auto simp: wf_grant_def PERMISSION_OPERATIONS_def)
  with assms g show ?thesis by (auto simp: operation_allowed_def split: if_splits)
qed

lemma denotes_weaken:
  "denotes rules (r, oper, sc) \<Longrightarrow> oper' = oper \<or> oper' = ''view'' \<Longrightarrow> sc' = sc \<or> sc = ''*'' \<Longrightarrow>
   denotes rules (r, oper', sc')"
  unfolding denotes_def by (meson covers_weaken grant_of_wf)

lemma covers_refl: "wf_grant g \<Longrightarrow> covers g g"
  by (cases g) (auto simp: wf_grant_def PERMISSION_OPERATIONS_def resource_matches_def operation_allowed_def)

declare covers.simps [simp del]

lemma denotes_Nil [simp]: "\<not> denotes [] q"
  by (simp add: denotes_def)

lemma denotes_single: "denotes rules q \<longleftrightarrow> (\<exists>rule \<in> set rules. denotes [rule] q)"
  by (simp add: denotes_def)


section \<open>Sorted rule lists\<close>

lemma sort_rules_ok:
  assumes "\<forall>rule \<in> set rules. valid_rule rule"
  shows "sort_permission_rules (map VStr rules)
    = Inr (sorted_set (map (\<lambda>rule. grant_text (the (grant_of rule))) rules))"
proof -
  have "rmap normalize_permission_rule (map VStr rules)
    = Inr (map (\<lambda>v. case v of VStr rule \<Rightarrow> grant_text (the (grant_of rule)) | _ \<Rightarrow> []) (map VStr rules))"
    using assms by (intro rmap_all_Inr) (auto simp: valid_rule_def normalize_grant)
  then show ?thesis by (simp add: sort_permission_rules_def comp_def)
qed

lemma sort_rules_Inr:
  assumes "sort_permission_rules vs = Inr ns"
  shows "sorted ns" "distinct ns" "\<forall>n \<in> set ns. canonical_rule n"
    "set ns = {n. \<exists>rule. VStr rule \<in> set vs \<and> normalize_rule_str rule = Inr n}"
proof -
  from assms obtain xs where xs: "rmap normalize_permission_rule vs = Inr xs" and ns: "ns = sorted_set xs"
    by (auto simp: sort_permission_rules_def rbind_eq_Inr)
  show "sorted ns" "distinct ns" by (simp_all add: ns)
  have set: "set xs = {n. \<exists>rule. VStr rule \<in> set vs \<and> normalize_rule_str rule = Inr n}"
    using xs
  proof (induction vs arbitrary: xs)
    case (Cons v vs)
    then show ?case by (cases v) (auto simp: rbind_eq_Inr)
  qed simp
  then show "set ns = {n. \<exists>rule. VStr rule \<in> set vs \<and> normalize_rule_str rule = Inr n}"
    by (simp add: ns)
  show "\<forall>n \<in> set ns. canonical_rule n"
    using set ns normalize_idem by (auto simp: canonical_rule_def)
qed

lemma sort_rules_canonical:
  assumes "\<forall>rule \<in> set rules. canonical_rule rule"
  shows "sort_permission_rules (map VStr rules) = Inr (sorted_set rules)"
proof -
  have "map (\<lambda>rule. grant_text (the (grant_of rule))) rules = rules"
    using assms by (auto simp: canonical_iff intro!: map_idI)
  with sort_rules_ok [of rules] assms canonical_valid show ?thesis by simp
qed

lemma denotes_normalized:
  assumes "\<forall>rule \<in> set rules. valid_rule rule"
    and "sort_permission_rules (map VStr rules) = Inr ns"
  shows "denotes ns q \<longleftrightarrow> denotes rules q"
proof -
  have "ns = sorted_set (map (\<lambda>rule. grant_text (the (grant_of rule))) rules)"
    using assms sort_rules_ok by fastforce
  then have "denotes ns q \<longleftrightarrow> (\<exists>rule \<in> set rules. \<exists>g. grant_of (grant_text (the (grant_of rule))) = Some g \<and> covers g q)"
    by (auto simp: denotes_def)
  also have "\<dots> \<longleftrightarrow> denotes rules q"
  proof -
    have "grant_of (grant_text (the (grant_of rule))) = grant_of rule" if "rule \<in> set rules" for rule
      using assms(1) that grant_of_text grant_of_wf by (auto simp: valid_rule_def)
    then show ?thesis by (simp add: denotes_def)
  qed
  finally show ?thesis .
qed


section \<open>Legacy maps\<close>

text \<open>What the code keeps true of a legacy map: one entry per action, rules in normal form.\<close>

definition wf_legacy_map :: "legacy_map \<Rightarrow> bool" where
  "wf_legacy_map m \<longleftrightarrow> wf_dict m \<and> (\<forall>p \<in> set m. \<forall>r \<in> set (snd p). canonical_rule r)"

lemma set_dset: "set (dset k v d) \<subseteq> insert (k, v) (set d)"
  by (induction d) auto

lemma wf_legacy_map_dset:
  "wf_legacy_map m \<Longrightarrow> \<forall>r \<in> set rs. canonical_rule r \<Longrightarrow> wf_legacy_map (dset a rs m)"
  using set_dset [of a rs m] by (fastforce simp: wf_legacy_map_def)

lemma wf_legacy_map_sorted:
  "wf_legacy_map m \<Longrightarrow> sort_permission_rules vs = Inr rs \<Longrightarrow> wf_legacy_map (dset a rs m)"
  using sort_rules_Inr(3) by (intro wf_legacy_map_dset) auto

lemma wf_legacy_map_dupdate: "wf_legacy_map m \<Longrightarrow> wf_legacy_map m' \<Longrightarrow> wf_legacy_map (dupdate m m')"
proof -
  assume m: "wf_legacy_map m" and "wf_legacy_map m'"
  then have "\<forall>p \<in> set m'. \<forall>r \<in> set (snd p). canonical_rule r" by (simp add: wf_legacy_map_def)
  with m show "wf_legacy_map (dupdate m m')"
    unfolding dupdate_def by (induction m' arbitrary: m) (auto simp: wf_legacy_map_dset)
qed

lemma load_legacy_wf:
  assumes "load_legacy_permission_map content = Inr m"
  shows "wf_legacy_map m"
proof -
  have empty: "wf_legacy_map []" by (simp add: wf_legacy_map_def)
  show ?thesis
  proof (cases content)
    case None
    with assms empty show ?thesis by (simp add: load_legacy_permission_map_def)
  next
    case (Some loaded)
    with assms obtain raw where "py_or loaded (VDict []) = VDict raw"
      by (auto simp: load_legacy_permission_map_def split: pv.splits)
    with assms Some show ?thesis
      unfolding load_legacy_permission_map_def
      by (auto simp: rbind_eq_Inr split: pv.splits prod.splits elim!: rfold_invariant intro: wf_legacy_map_sorted empty)
  qed
qed

lemma merged_legacy_wf: "merged_legacy_permission_map content = Inr m \<Longrightarrow> wf_legacy_map m"
proof -
  assume "merged_legacy_permission_map content = Inr m"
  then obtain merged loaded where
      merged: "rmap (\<lambda>(action, rules). rbind (sort_permission_rules (map VStr rules)) (\<lambda>rs. Inr (action, rs)))
         DEFAULT_LEGACY_PERMISSION_MAP = Inr merged"
    and loaded: "load_legacy_permission_map content = Inr loaded" and m: "m = dupdate merged loaded"
    by (auto simp: merged_legacy_permission_map_def rbind_eq_Inr)
  let ?norm = "\<lambda>(action, rules). rbind (sort_permission_rules (map VStr rules)) (\<lambda>rs. Inr (action, rs))"
  have all2: "list_all2 (\<lambda>x y. ?norm x = Inr y) DEFAULT_LEGACY_PERMISSION_MAP merged"
    using merged by (simp only: rmap_Inr_iff)
  have keys: "list_all2 (\<lambda>x y. ?norm x = Inr y) xs ys \<Longrightarrow> map fst ys = map fst xs" for xs ys
    by (induction rule: list_all2_induct) (auto simp: rbind_eq_Inr)
  have canon: "list_all2 (\<lambda>x y. ?norm x = Inr y) xs ys \<Longrightarrow>
      \<forall>p \<in> set ys. \<forall>r \<in> set (snd p). canonical_rule r" for xs ys
  proof (induction rule: list_all2_induct)
    case (Cons x xs y ys)
    then show ?case by (cases x) (auto simp: rbind_eq_Inr dest!: sort_rules_Inr(3))
  qed simp
  have "distinct (map fst DEFAULT_LEGACY_PERMISSION_MAP)"
    by (simp add: DEFAULT_LEGACY_PERMISSION_MAP_def)
  then have "wf_legacy_map merged"
    using keys [OF all2] canon [OF all2] by (simp add: wf_legacy_map_def wf_dict_def)
  with load_legacy_wf [OF loaded] m show ?thesis by (simp add: wf_legacy_map_dupdate)
qed

lemma mapped_rules_canonical:
  assumes "wf_legacy_map m" and "r \<in> set (mapped_rules m a)"
  shows "canonical_rule r"
proof -
  from assms(2) obtain rs where "map_of m a = Some rs" and r: "r \<in> set rs"
    by (cases "map_of m a") (auto simp: mapped_rules_def)
  then have "(a, rs) \<in> set m" by (simp add: map_of_SomeD)
  with assms(1) r show ?thesis by (fastforce simp: wf_legacy_map_def)
qed

lemma legacy_actions_to_rules_eq:
  assumes "wf_legacy_map m"
  shows "legacy_actions_to_rules as m = Inr (sorted_set (concat (map (mapped_rules m) as)))"
  unfolding legacy_actions_to_rules_def
  using assms by (intro sort_rules_canonical) (auto dest: mapped_rules_canonical)

text \<open>The actions the rules give: those with some required rule that the rules cover.\<close>

definition implied_action :: "string list \<Rightarrow> string list \<Rightarrow> bool" where
  "implied_action rules required \<longleftrightarrow>
     (\<exists>r \<in> set required. \<exists>g. grant_of r = Some g \<and> denotes rules g)"

lemma rules_to_legacy_actions_eq:
  assumes "wf_legacy_map m" and "\<forall>rule \<in> set rules. valid_rule rule"
  shows "permission_rules_to_legacy_actions rules m
    = Inr (sort (map fst (filter (\<lambda>(a, req). implied_action rules req) m)))"
proof -
  obtain ns where ns: "sort_permission_rules (map VStr rules) = Inr ns"
    using assms(2) sort_rules_ok by blast
  have vns: "\<forall>n \<in> set ns. valid_rule n"
    using sort_rules_Inr(3) [OF ns] canonical_valid by blast
  let ?test = "\<lambda>required_rule. rbind (rule_parts required_rule) (\<lambda>(resource, operation, scope).
     permission_rules_allow ns resource operation scope)"
  have test: "rany ?test req = Inr (implied_action rules req)" if "\<forall>r \<in> set req. canonical_rule r" for req
  proof -
    have "?test r = Inr (\<exists>g. grant_of r = Some g \<and> denotes rules g)" if "r \<in> set req" for r
    proof -
      from that \<open>\<forall>r \<in> set req. canonical_rule r\<close> obtain g where g: "grant_of r = Some g"
        by (auto simp: canonical_iff)
      then show ?thesis
        using rules_allow_denotes [OF vns] denotes_normalized [OF assms(2) ns]
        by (cases g) (simp add: rule_parts_grant)
    qed
    then show ?thesis unfolding implied_action_def by (rule rany_all_Inr)
  qed
  let ?step = "\<lambda>(action, required_rules) actions.
     rbind (rany ?test required_rules) (\<lambda>b. Inr (if b then actions @ [action] else actions))"
  have loop: "\<forall>p \<in> set m. \<forall>r \<in> set (snd p). canonical_rule r \<Longrightarrow>
    rfold ?step m acc = Inr (acc @ map fst (filter (\<lambda>(a, req). implied_action rules req) m))" for m acc
    by (induction m arbitrary: acc) (auto simp: test)
  show ?thesis
    using ns loop [of m "[]"] assms(1)
    by (simp add: permission_rules_to_legacy_actions_def wf_legacy_map_def)
qed


section \<open>Properties\<close>






definition merged_defaults :: legacy_map where
  "merged_defaults = [
     (''view-stats'', [''analysis:view:*'', ''dashboard:view:*'']),
     (''view-ai'', [''ai:view:*'']),
     (''view-jobs'', [''jobs:view:*'']),
     (''view-history-jobs'', [''jobs-history:view:*'']),
     (''view-nodes'', [''resources:view:*'']),
     (''view-qos'', [''jobs/filter-qos:view:*'', ''qos:view:*'']),
     (''view-reservations'', [''reservations:view:*'']),
     (''associations-view'', [''accounts:view:*'', ''user/profile:view:*'']),
     (''view-accounts'', [''jobs/filter-accounts:view:*'']),
     (''view-partitions'', [''jobs/filter-partitions:view:*'', ''resources/filter-partitions:view:*'']),
     (''cache-view'', [''admin/cache:view:*'', ''admin/ldap-users:view:*'']),
     (''cache-reset'', [''admin/cache:edit:*'']),
     (''admin-manage'', [''*:*:*''])]"

text \<open>The map in force without a mapping file: the defaults with each rule list sorted.\<close>

lemma merged_defaults: "merged_legacy_permission_map None = Inr merged_defaults"
  by code_simp


definition catalogued :: "string \<Rightarrow> bool" where
  "catalogued rule \<longleftrightarrow>
     (\<exists>g \<in> set PERMISSION_CATALOG. \<exists>r \<in> set (cg_resources g).
        \<exists>oper \<in> set (cr_operations r). \<exists>sc \<in> set (cr_scopes r).
          rule_text (cr_resource r) oper sc = rule)"

text \<open>
  The built-in tables fit the catalogue: every rule of the default legacy map and of the seeded
  roles other than the wildcard ones names a catalogued resource with an operation and a scope the
  catalogue offers for it.
\<close>

theorem tables_catalogued:
  "list_all (\<lambda>(action, rules). list_all (\<lambda>r. catalogued r \<or> r = ''*:*:*'') rules)
     DEFAULT_LEGACY_PERMISSION_MAP
   \<and> rbind default_seed_roles (\<lambda>rs. Inr (list_all (\<lambda>role. list_all (\<lambda>r. catalogued r
        \<or> r \<in> set [''*:*:*'', ''*:view:*'', ''*:edit:*'']) (sr_permissions role)) rs)) = Inr True"
  by code_simp

end
