(* ===== verification/Database.thy ===== *)
theory Database
  imports PermissionRules
begin

text \<open>
  The tables \<open>users\<close>, \<open>roles\<close> and \<open>user_roles\<close> of \<open>models/modes.py\<close> with their constraints,
  the SQL statements the stores of \<open>persistence/\<close> run on them, and transactions. A table is the
  list of its rows; what a statement needs of their order it sorts by. A sequence survives a
  rollback, the tables do not. Text is compared by code point (collation \<open>C\<close>). \<open>NOW()\<close> is the
  transaction's time, an argument. The pool and its connections are not modelled.
\<close>

section \<open>Tables\<close>

record user_row =
  us_id :: int
  us_username :: string
  us_fullname :: "string option"
  us_groups :: pv \<comment> \<open>a column of JSON\<close>
  us_policy_roles :: "string list"
  us_policy_actions :: "string list"
  us_ldap_synced_at :: "int option"
  us_permission_synced_at :: "int option"
  us_created_at :: int
  us_updated_at :: int

record role_row =
  ro_id :: int
  ro_name :: string
  ro_description :: "string option"
  ro_actions :: "string list"
  ro_permissions :: "string list"
  ro_created_at :: int
  ro_updated_at :: int

record user_role_row =
  ur_user :: int
  ur_role :: int
  ur_created_at :: int

record db =
  db_users :: "user_row list"
  db_roles :: "role_row list"
  db_user_roles :: "user_role_row list"
  users_seq :: int \<comment> \<open>the last identifier given by each sequence\<close>
  roles_seq :: int

definition empty_db :: db where
  "empty_db = \<lparr>db_users = [], db_roles = [], db_user_roles = [], users_seq = 0, roles_seq = 0\<rparr>"

text \<open>Primary keys, unique constraints, foreign keys; identifiers come from the sequences.\<close>

definition db_ok :: "db \<Rightarrow> bool" where
  "db_ok db \<longleftrightarrow>
     distinct (map us_id (db_users db)) \<and> distinct (map us_username (db_users db))
     \<and> distinct (map ro_id (db_roles db)) \<and> distinct (map ro_name (db_roles db))
     \<and> distinct (map (\<lambda>l. (ur_user l, ur_role l)) (db_user_roles db))
     \<and> (\<forall>l \<in> set (db_user_roles db). ur_user l \<in> us_id ` set (db_users db)
           \<and> ur_role l \<in> ro_id ` set (db_roles db))
     \<and> (\<forall>u \<in> set (db_users db). us_id u \<le> users_seq db)
     \<and> (\<forall>r \<in> set (db_roles db). ro_id r \<le> roles_seq db)"

text \<open>The permission rules in the table are well formed.\<close>

definition roles_valid :: "db \<Rightarrow> bool" where
  "roles_valid db \<longleftrightarrow> (\<forall>r \<in> set (db_roles db). \<forall>p \<in> set (ro_permissions r). valid_rule p)"


section \<open>Transactions and statements\<close>

text \<open>\<open>commit\<close> at the end, \<open>rollback\<close> and re-raise on an exception.\<close>

definition transaction :: "(db, 'a) meth \<Rightarrow> (db, 'a) meth" where
  "transaction body db =
     (case body db of
        (Inl e, db') \<Rightarrow> (Inl e, db\<lparr>users_seq := users_seq db', roles_seq := roles_seq db'\<rparr>)
      | (Inr a, db') \<Rightarrow> (Inr a, db'))"

definition find_user :: "string \<Rightarrow> db \<Rightarrow> user_row option" where
  "find_user name db = find (\<lambda>u. us_username u = name) (db_users db)"

text \<open>
  \<open>INSERT INTO users ... ON CONFLICT (username) DO UPDATE\<close>: the row proposed for insertion takes an
  identifier from the sequence whether or not it conflicts.
\<close>

definition upsert_user :: "user_row \<Rightarrow> (user_row \<Rightarrow> user_row) \<Rightarrow> (db, int) meth" where
  "upsert_user row on_conflict db =
     (let n = users_seq db + 1 in
      case find_user (us_username row) db of
        Some old \<Rightarrow> (Inr (us_id old), db\<lparr>users_seq := n,
          db_users := map (\<lambda>u. if us_username u = us_username row then on_conflict u else u)
                        (db_users db)\<rparr>)
      | None \<Rightarrow> (Inr n, db\<lparr>users_seq := n, db_users := db_users db @ [row\<lparr>us_id := n\<rparr>]\<rparr>))"

definition insert_role :: "role_row \<Rightarrow> (db, role_row) meth" where
  "insert_role row db =
     (let n = roles_seq db + 1; new = row\<lparr>ro_id := n\<rparr> in
      if ro_name row \<in> ro_name ` set (db_roles db)
      then (Inl (BackendError ''uq_roles_name''), db\<lparr>roles_seq := n\<rparr>)
      else (Inr new, db\<lparr>roles_seq := n, db_roles := db_roles db @ [new]\<rparr>))"

definition set_role :: "int \<Rightarrow> (role_row \<Rightarrow> role_row) \<Rightarrow> db \<Rightarrow> db" where
  "set_role rid f db = db\<lparr>db_roles := map (\<lambda>r. if ro_id r = rid then f r else r) (db_roles db)\<rparr>"

definition find_role :: "int \<Rightarrow> db \<Rightarrow> role_row option" where
  "find_role rid db = find (\<lambda>r. ro_id r = rid) (db_roles db)"

text \<open>The insertion of links, which the primary key and the foreign keys check.\<close>

definition insert_user_role :: "int \<Rightarrow> int \<Rightarrow> int \<Rightarrow> (db, unit) meth" where
  "insert_user_role now uid rid db =
     (if (uid, rid) \<in> (\<lambda>l. (ur_user l, ur_role l)) ` set (db_user_roles db)
      then (Inl (BackendError ''pk_user_roles''), db)
      else if uid \<notin> us_id ` set (db_users db) \<or> rid \<notin> ro_id ` set (db_roles db)
      then (Inl (BackendError ''foreign key''), db)
      else (Inr (), db\<lparr>db_user_roles :=
              db_user_roles db @ [\<lparr>ur_user = uid, ur_role = rid, ur_created_at = now\<rparr>]\<rparr>))"

definition limit_offset :: "int \<Rightarrow> int \<Rightarrow> 'a list \<Rightarrow> 'a list res" where
  "limit_offset limit offset rows =
     (if limit < 0 then Inl (BackendError ''LIMIT must not be negative'')
      else if offset < 0 then Inl (BackendError ''OFFSET must not be negative'')
      else Inr (take (nat limit) (drop (nat offset) rows)))"

text \<open>The optional filter \<open>username ILIKE '%name%'\<close>.\<close>

definition username_filter :: "string option \<Rightarrow> user_row list \<Rightarrow> user_row list" where
  "username_filter name users =
     (case name of
        None \<Rightarrow> users
      | Some n \<Rightarrow> if n = [] then users
                 else filter (\<lambda>u. sql_ilike (''%'' @ n @ ''%'') (us_username u)) users)"

text \<open>The rows of the join of \<open>user_roles\<close> and \<open>roles\<close> for a user.\<close>

definition joined_roles :: "db \<Rightarrow> int \<Rightarrow> role_row list" where
  "joined_roles db uid =
     concat (map (\<lambda>l. filter (\<lambda>r. ro_id r = ur_role l) (db_roles db))
       (filter (\<lambda>l. ur_user l = uid) (db_user_roles db)))"


section \<open>What the statements keep\<close>

abbreviation consistent :: "db \<Rightarrow> bool" where
  "consistent db \<equiv> db_ok db \<and> roles_valid db"

lemma empty_db_ok [simp]: "db_ok empty_db" "roles_valid empty_db"
  by (simp_all add: empty_db_def db_ok_def roles_valid_def)

lemma set_joined_roles:
  "set (joined_roles db uid)
     = {r \<in> set (db_roles db). \<exists>l \<in> set (db_user_roles db). ur_user l = uid \<and> ur_role l = ro_id r}"
  by (auto simp: joined_roles_def)

lemma find_user_Some: "find_user name db = Some u \<Longrightarrow> u \<in> set (db_users db) \<and> us_username u = name"
  by (auto simp: find_user_def find_Some_iff)

lemma find_user_None: "find_user name db = None \<longleftrightarrow> name \<notin> us_username ` set (db_users db)"
  by (auto simp: find_user_def find_None_iff)

lemma find_user_unique:
  assumes "db_ok db" and "u \<in> set (db_users db)"
  shows "find_user (us_username u) db = Some u"
proof -
  have d: "distinct (map us_username (db_users db))" using assms(1) by (simp add: db_ok_def)
  obtain v where v: "find_user (us_username u) db = Some v"
    using assms(2) find_user_None [of "us_username u" db] by (cases "find_user (us_username u) db") auto
  with find_user_Some [OF v] d assms(2) have "v = u"
    by (metis (no_types, lifting) distinct_map inj_on_eq_iff)
  with v show ?thesis by simp
qed

lemma db_ok_seq: "db_ok db \<Longrightarrow> users_seq db \<le> m \<Longrightarrow> roles_seq db \<le> n \<Longrightarrow>
   db_ok (db\<lparr>users_seq := m, roles_seq := n\<rparr>)"
  by (auto simp: db_ok_def)

text \<open>The sequences never go back, which is what lets a rollback keep them.\<close>

definition seqs_grow :: "db \<Rightarrow> db \<Rightarrow> bool" where
  "seqs_grow db db' \<longleftrightarrow> users_seq db \<le> users_seq db' \<and> roles_seq db \<le> roles_seq db'"

lemma seqs_grow_refl [simp]: "seqs_grow db db"
  by (simp add: seqs_grow_def)

lemma keeps_transaction:
  assumes "keeps consistent body"
    and "\<And>db. keeps (seqs_grow db) body"
  shows "keeps consistent (transaction body)"
proof (rule keepsI)
  fix db assume ok: "db_ok db \<and> roles_valid db"
  obtain r db' where b: "body db = (r, db')" by (cases "body db")
  have "db_ok db' \<and> roles_valid db'" using keepsD [OF assms(1) ok] b by simp
  moreover have "seqs_grow db db'" using keepsD [OF assms(2), of db db] b by simp
  ultimately show "db_ok (snd (transaction body db)) \<and> roles_valid (snd (transaction body db))"
    using ok b db_ok_seq [of db] by (cases r) (auto simp: transaction_def seqs_grow_def roles_valid_def)
qed

lemma keeps_seqs_upsert_user [keeps_intros]: "keeps (seqs_grow db) (upsert_user row f)"
  by (intro keepsI) (auto simp: upsert_user_def seqs_grow_def Let_def split: option.splits)

lemma keeps_seqs_insert_role [keeps_intros]: "keeps (seqs_grow db) (insert_role row)"
  by (intro keepsI) (auto simp: insert_role_def seqs_grow_def Let_def)

lemma keeps_seqs_insert_user_role [keeps_intros]: "keeps (seqs_grow db) (insert_user_role now uid rid)"
  by (intro keepsI) (auto simp: insert_user_role_def seqs_grow_def)

text \<open>Updating users in place, with their identifiers and names kept.\<close>

lemma db_ok_map_users:
  assumes "db_ok db" and "map us_id us' = map us_id (db_users db)"
    and "map us_username us' = map us_username (db_users db)" and "users_seq db \<le> n"
  shows "db_ok (db\<lparr>users_seq := n, db_users := us'\<rparr>)"
proof -
  have ids: "us_id ` set us' = us_id ` set (db_users db)" using assms(2) by (metis set_map)
  have "\<forall>i \<in> us_id ` set us'. i \<le> n"
    unfolding ids using assms(1,4) by (force simp: db_ok_def)
  then have "\<forall>u \<in> set us'. us_id u \<le> n" by (rule ball_imageD)
  then show ?thesis using assms(1,2,3) ids by (simp add: db_ok_def)
qed

lemma map_update_users:
  assumes "\<And>u. us_id (f u) = us_id u" and "\<And>u. us_username (f u) = us_username u"
  shows "map us_id (map (\<lambda>u. if P u then f u else u) us) = map us_id us"
    "map us_username (map (\<lambda>u. if P u then f u else u) us) = map us_username us"
  using assms by simp_all

lemma upsert_user_ok:
  assumes "\<And>u. us_id (f u) = us_id u" and "\<And>u. us_username (f u) = us_username u"
  shows "keeps consistent (upsert_user row f)"
proof (rule keepsI)
  fix db assume ok: "db_ok db \<and> roles_valid db"
  show "db_ok (snd (upsert_user row f db)) \<and> roles_valid (snd (upsert_user row f db))"
  proof (cases "find_user (us_username row) db")
    case None
    have "users_seq db + 1 \<notin> us_id ` set (db_users db)" using ok by (force simp: db_ok_def)
    moreover have "us_username row \<notin> us_username ` set (db_users db)"
      using None by (rule iffD1 [OF find_user_None])
    moreover have "snd (upsert_user row f db)
        = db\<lparr>users_seq := users_seq db + 1, db_users := db_users db @ [row\<lparr>us_id := users_seq db + 1\<rparr>]\<rparr>"
      using None by (simp add: upsert_user_def Let_def)
    ultimately show ?thesis
      using ok by (auto simp: db_ok_def roles_valid_def)
  next
    case (Some old)
    then have eq: "snd (upsert_user row f db) = db\<lparr>users_seq := users_seq db + 1,
        db_users := map (\<lambda>u. if us_username u = us_username row then f u else u) (db_users db)\<rparr>"
      by (simp add: upsert_user_def Let_def)
    have "db_ok (snd (upsert_user row f db))"
      unfolding eq by (rule db_ok_map_users [OF conjunct1 [OF ok] map_update_users [OF assms]]) simp
    then show ?thesis using ok eq by (simp add: roles_valid_def)
  qed
qed

lemma db_ok_map_roles:
  assumes "db_ok db" and "map ro_id rs' = map ro_id (db_roles db)" and "distinct (map ro_name rs')"
  shows "db_ok (db\<lparr>db_roles := rs'\<rparr>)"
proof -
  have ids: "ro_id ` set rs' = ro_id ` set (db_roles db)" using assms(2) by (metis set_map)
  have "\<forall>i \<in> ro_id ` set rs'. i \<le> roles_seq db"
    unfolding ids using assms(1) by (force simp: db_ok_def)
  then have "\<forall>r \<in> set rs'. ro_id r \<le> roles_seq db" by (rule ball_imageD)
  then show ?thesis using assms ids by (simp add: db_ok_def)
qed

lemma set_role_ok:
  assumes "consistent db" and "\<And>r. ro_id (f r) = ro_id r"
    and "\<And>r. r \<in> set (db_roles db) \<Longrightarrow> ro_id r = rid \<Longrightarrow> ro_name (f r) \<noteq> ro_name r \<Longrightarrow>
           ro_name (f r) \<notin> ro_name ` (set (db_roles db) - {r})"
    and "\<And>r. r \<in> set (db_roles db) \<Longrightarrow> \<forall>p \<in> set (ro_permissions (f r)). valid_rule p"
  shows "consistent (set_role rid f db)"
proof -
  let ?g = "\<lambda>r. if ro_id r = rid then f r else r"
  let ?rs = "db_roles db"
  have ids: "map ro_id (map ?g ?rs) = map ro_id ?rs" using assms(2) by simp
  have d: "distinct ?rs" "inj_on ro_id (set ?rs)" "inj_on ro_name (set ?rs)"
    using assms(1) by (simp_all add: db_ok_def distinct_map)
  have "inj_on (\<lambda>r. ro_name (?g r)) (set ?rs)"
  proof (rule inj_onI)
    fix r s assume rs: "r \<in> set ?rs" "s \<in> set ?rs" and eq: "ro_name (?g r) = ro_name (?g s)"
    have both: "r = s" if "ro_id r = rid" "ro_id s = rid"
      using d(2) rs that by (auto dest: inj_onD)
    have one: "ro_name (f x) \<noteq> ro_name y" if "x \<in> set ?rs" "y \<in> set ?rs" "ro_id x = rid" "ro_id y \<noteq> rid" for x y
      using assms(3) [OF that(1,3)] inj_onD [OF d(3), of x y] that by fastforce
    show "r = s"
      using both one [of r s] one [of s r] inj_onD [OF d(3), of r s] rs eq by (auto split: if_splits)
  qed
  then have "distinct (map ro_name (map ?g ?rs))" using d(1) by (simp add: distinct_map comp_def)
  then have "db_ok (set_role rid f db)"
    unfolding set_role_def by (rule db_ok_map_roles [OF conjunct1 [OF assms(1)] ids])
  moreover have "roles_valid (set_role rid f db)"
    using assms(1,4) by (auto simp: roles_valid_def set_role_def)
  ultimately show ?thesis by simp
qed

lemma insert_role_ok:
  assumes "\<forall>p \<in> set (ro_permissions row). valid_rule p"
  shows "keeps consistent (insert_role row)"
proof (rule keepsI)
  fix db assume ok: "db_ok db \<and> roles_valid db"
  have "roles_seq db + 1 \<notin> ro_id ` set (db_roles db)" using ok by (force simp: db_ok_def)
  with ok assms show "db_ok (snd (insert_role row db)) \<and> roles_valid (snd (insert_role row db))"
    by (auto simp: insert_role_def db_ok_def roles_valid_def Let_def)
qed

lemma insert_user_role_ok: "keeps consistent (insert_user_role now uid rid)"
  by (intro keepsI) (auto simp: insert_user_role_def db_ok_def roles_valid_def)

text \<open>A filter that is a plain text keeps the users whose name contains it, ignoring case.\<close>

lemma username_filter_contains:
  assumes "no_wildcard (py_lower n)"
  shows "username_filter (Some n) us = filter (\<lambda>u. sublist (py_lower n) (py_lower (us_username u))) us"
proof -
  have "py_lower (''%'' @ n @ ''%'') = ''%'' @ py_lower n @ ''%''"
    by (simp add: py_lower_def lower_char_def)
  then have "sql_ilike (''%'' @ n @ ''%'') t \<longleftrightarrow> sublist (py_lower n) (py_lower t)" for t
    using sql_like_contains [OF assms] by (simp add: sql_ilike_def)
  then show ?thesis by (auto simp: username_filter_def py_lower_def)
qed

end
