(* ===== verification/UsersStore.thy ===== *)
theory UsersStore
  imports Database
begin

text \<open>
  \<open>persistence/users_store.py\<close>: \<open>UsersStore\<close>, the users seen by LDAP authentication with the
  snapshot of the roles and actions the file policy gave them.
\<close>

section \<open>Operations\<close>

text \<open>\<open>json.dumps(xs or [])\<close>, an optional list.\<close>

definition list_or_empty :: "'a list option \<Rightarrow> 'a list" where
  "list_or_empty xs = (case xs of None \<Rightarrow> [] | Some ys \<Rightarrow> ys)"

definition upsert_ldap_user ::
  "int \<Rightarrow> string \<Rightarrow> string option \<Rightarrow> pv \<Rightarrow> string list option \<Rightarrow> string list option
   \<Rightarrow> (db, unit) meth" where
  "upsert_ldap_user now username fullname groups policy_roles policy_actions =
     (if username = [] then mret ()
      else transaction (mbind
        (upsert_user
          \<lparr>us_id = 0, us_username = username, us_fullname = fullname, us_groups = py_or groups (VList []),
           us_policy_roles = list_or_empty policy_roles, us_policy_actions = list_or_empty policy_actions,
           us_ldap_synced_at = Some now, us_permission_synced_at = Some now,
           us_created_at = now, us_updated_at = now\<rparr>
          (\<lambda>u. u\<lparr>us_fullname := fullname, us_groups := py_or groups (VList []),
                 us_policy_roles := list_or_empty policy_roles,
                 us_policy_actions := list_or_empty policy_actions,
                 us_ldap_synced_at := Some now, us_permission_synced_at := Some now,
                 us_updated_at := now\<rparr>))
        (\<lambda>_. mret ())))"

record ldap_users_page =
  lp_items :: "(string \<times> string option) list"
  lp_total :: nat
  lp_page :: int
  lp_page_size :: int

definition list_ldap_users :: "string option \<Rightarrow> int \<Rightarrow> int \<Rightarrow> db \<Rightarrow> ldap_users_page res" where
  "list_ldap_users username page page_size db =
     (let rows = username_filter username (db_users db) in
      rbind (limit_offset page_size ((page - 1) * page_size) (sort_key us_username rows)) (\<lambda>items.
      Inr \<lparr>lp_items = map (\<lambda>u. (us_username u, us_fullname u)) items, lp_total = length rows,
           lp_page = page, lp_page_size = page_size\<rparr>))"

record ldap_user =
  lu_username :: string
  lu_fullname :: "string option"
  lu_groups :: pv
  lu_ldap_synced_at :: "int option"
  lu_policy_roles :: "string list"
  lu_policy_actions :: "string list"
  lu_permission_synced_at :: "int option"

definition get_ldap_user :: "string \<Rightarrow> db \<Rightarrow> ldap_user option" where
  "get_ldap_user username db =
     map_option (\<lambda>u. \<lparr>lu_username = us_username u, lu_fullname = us_fullname u, lu_groups = py_or (us_groups u) (VList []),
       lu_ldap_synced_at = us_ldap_synced_at u, lu_policy_roles = us_policy_roles u,
       lu_policy_actions = us_policy_actions u, lu_permission_synced_at = us_permission_synced_at u\<rparr>)
       (find_user username db)"

definition list_cached_users_for_policy_refresh ::
  "db \<Rightarrow> (string \<times> string option \<times> pv) list" where
  "list_cached_users_for_policy_refresh db =
     map (\<lambda>u. (us_username u, us_fullname u, py_or (us_groups u) (VList []))) (sort_key us_username (db_users db))"

definition update_policy_snapshot ::
  "int \<Rightarrow> string \<Rightarrow> string list option \<Rightarrow> string list option \<Rightarrow> (db, bool) meth" where
  "update_policy_snapshot now username policy_roles policy_actions =
     (if username = [] then mret False
      else transaction (\<lambda>db.
        (Inr (find_user username db \<noteq> None),
         db\<lparr>db_users := map (\<lambda>u. if us_username u = username
             then u\<lparr>us_policy_roles := list_or_empty policy_roles,
                    us_policy_actions := list_or_empty policy_actions,
                    us_permission_synced_at := Some now, us_updated_at := now\<rparr>
             else u) (db_users db)\<rparr>)))"


section \<open>Invariants\<close>

lemma upsert_ldap_user_ok:
  "keeps (\<lambda>d. db_ok d \<and> roles_valid d) (upsert_ldap_user now name fn gs rs as)"
  unfolding upsert_ldap_user_def
  by (intro keeps_intros keeps_transaction upsert_user_ok) simp_all

lemma update_policy_snapshot_ok:
  "keeps (\<lambda>d. db_ok d \<and> roles_valid d) (update_policy_snapshot now name rs as)"
proof (rule keepsI)
  fix db assume ok: "db_ok db \<and> roles_valid db"
  let ?f = "\<lambda>u. u\<lparr>us_policy_roles := list_or_empty rs, us_policy_actions := list_or_empty as,
      us_permission_synced_at := Some now, us_updated_at := now\<rparr>"
  let ?us = "map (\<lambda>u. if us_username u = name then ?f u else u) (db_users db)"
  have "db_ok (db\<lparr>users_seq := users_seq db, db_users := ?us\<rparr>)"
    by (rule db_ok_map_users [OF conjunct1 [OF ok] map_update_users]) simp_all
  moreover have "snd (update_policy_snapshot now name rs as db)
      = (if name = [] then db else db\<lparr>users_seq := users_seq db, db_users := ?us\<rparr>)"
    by (simp add: update_policy_snapshot_def transaction_def)
  ultimately show "db_ok (snd (update_policy_snapshot now name rs as db))
      \<and> roles_valid (snd (update_policy_snapshot now name rs as db))"
    using ok by (simp add: roles_valid_def)
qed

text \<open>Looking a user up after a statement that touches one user.\<close>

lemma find_map_other:
  assumes "\<And>u. us_username (f u) = us_username u"
  shows "find (\<lambda>u. us_username u = n) (map (\<lambda>u. if us_username u = m then f u else u) us)
    = (if n = m then map_option f (find (\<lambda>u. us_username u = n) us) else find (\<lambda>u. us_username u = n) us)"
  using assms by (induction us) auto

lemma find_append_one:
  "find P (xs @ [x]) = (case find P xs of None \<Rightarrow> if P x then Some x else None | Some y \<Rightarrow> Some y)"
  by (induction xs) auto


section \<open>Properties\<close>

text \<open>
  The user directory is a map from names. After the upsert of a named user a lookup of that name
  returns exactly the synchronised values and every other name is looked up as before; refreshing
  the policy snapshot reports whether the user exists, changes only the snapshot of that user and
  never creates one. Both do nothing for an empty name.
\<close>

theorem ldap_user_lookup:
  "(let db' = snd (upsert_ldap_user now name fn gs rs as db) in
      get_ldap_user other db' =
        (if name = [] \<or> other \<noteq> name then get_ldap_user other db
         else Some \<lparr>lu_username = name, lu_fullname = fn, lu_groups = py_or gs (VList []),
           lu_ldap_synced_at = Some now, lu_policy_roles = list_or_empty rs,
           lu_policy_actions = list_or_empty as, lu_permission_synced_at = Some now\<rparr>))
   \<and> (let (found, db') = update_policy_snapshot now name rs as db in
      found = Inr (name \<noteq> [] \<and> get_ldap_user name db \<noteq> None)
      \<and> get_ldap_user other db' =
        (if name = [] \<or> other \<noteq> name then get_ldap_user other db
         else map_option (\<lambda>u. u\<lparr>lu_policy_roles := list_or_empty rs,
           lu_policy_actions := list_or_empty as, lu_permission_synced_at := Some now\<rparr>)
           (get_ldap_user name db)))"
proof (cases "find_user name db")
  case None
  then show ?thesis
    by (auto simp: upsert_ldap_user_def update_policy_snapshot_def transaction_def mbind_def
        upsert_user_def get_ldap_user_def find_user_def find_map_other find_append_one Let_def
        py_or_def split: option.splits)
next
  case (Some old)
  then have "us_username old = name" using find_user_Some by blast
  with Some show ?thesis
    by (auto simp: upsert_ldap_user_def update_policy_snapshot_def transaction_def mbind_def
        upsert_user_def get_ldap_user_def find_user_def find_map_other Let_def py_or_def)
qed

theorem ldap_user_lookup_witness:
  "get_ldap_user ''bob'' (snd (upsert_ldap_user 7 ''bob'' (Some ''Bob'') VNone (Some [''ops'']) None empty_db))
     = Some \<lparr>lu_username = ''bob'', lu_fullname = Some ''Bob'', lu_groups = VList [], lu_ldap_synced_at = Some 7,
         lu_policy_roles = [''ops''], lu_policy_actions = [], lu_permission_synced_at = Some 7\<rparr>"
  using ldap_user_lookup [of 7 "''bob''" "Some ''Bob''" VNone "Some [''ops'']" None empty_db "''bob''"]
  by (simp add: Let_def list_or_empty_def py_or_def)

lemma pages_concat:
  "concat (map (\<lambda>i. take n (drop (i * n) xs)) [0..<k]) = take (k * n) xs"
  by (induction k) (simp_all add: take_add [symmetric] add.commute)

text \<open>
  C39. Listing users by pages. On pages of a positive size, the pages up to a given one are, joined, the
  filtered users in name order up to that point, and every page reports the number of all of them; a
  page number below 1 is an error of the database.
\<close>

theorem ldap_users_pages:
  assumes "0 < psize"
  shows "rbind (rmap (\<lambda>i. list_ldap_users name (int i + 1) psize db) [0..<k]) (\<lambda>ps.
      Inr (concat (map lp_items ps), map lp_total ps))
    = Inr (map (\<lambda>u. (us_username u, us_fullname u))
             (take (k * nat psize) (sort_key us_username (username_filter name (db_users db)))),
           replicate k (length (username_filter name (db_users db))))
    \<and> (page < 1 \<longrightarrow> list_ldap_users name page psize db
         = Inl (BackendError ''OFFSET must not be negative''))"
proof -
  let ?rows = "sort_key us_username (username_filter name (db_users db))"
  let ?page = "\<lambda>i. \<lparr>lp_items = map (\<lambda>u. (us_username u, us_fullname u)) (take (nat psize) (drop (i * nat psize) ?rows)),
      lp_total = length (username_filter name (db_users db)), lp_page = int i + 1, lp_page_size = psize\<rparr>"
  have one: "list_ldap_users name (int i + 1) psize db = Inr (?page i)" for i
  proof -
    have "\<not> int i * psize < 0" using assms by (simp only: not_less) simp
    with assms show ?thesis
      by (simp add: list_ldap_users_def limit_offset_def Let_def nat_mult_distrib)
  qed
  have "rmap (\<lambda>i. list_ldap_users name (int i + 1) psize db) [0..<k] = Inr (map ?page [0..<k])"
    by (rule rmap_all_Inr) (rule one)
  moreover have "concat (map lp_items (map ?page [0..<k]))
      = map (\<lambda>u. (us_username u, us_fullname u)) (take (k * nat psize) ?rows)"
    unfolding pages_concat [of "nat psize" ?rows k, symmetric] by (simp add: map_concat comp_def)
  moreover have "map lp_total (map ?page [0..<k])
      = replicate k (length (username_filter name (db_users db)))"
    by (simp add: comp_def map_replicate_const)
  moreover have "page < 1 \<Longrightarrow> (page - 1) * psize < 0"
    using assms by (simp add: mult_less_0_iff)
  ultimately show ?thesis
    using assms by (auto simp: list_ldap_users_def limit_offset_def Let_def)
qed

definition two_users :: db where
  "two_users = snd (upsert_ldap_user 7 ''bob'' (Some ''Bob'') VNone None None
     (snd (upsert_ldap_user 5 ''Alice'' None (VList [VStr ''staff'']) None None empty_db)))"

theorem ldap_users_pages_witness:
  "rbind (rmap (\<lambda>i. list_ldap_users (Some ''B'') (int i + 1) 1 two_users) [0..<2]) (\<lambda>ps.
      Inr (concat (map lp_items ps))) = Inr [(''bob'', Some ''Bob'')]"
proof -
  have "map (\<lambda>u. (us_username u, us_fullname u))
      (take 2 (sort_key us_username (username_filter (Some ''B'') (db_users two_users)))) = [(''bob'', Some ''Bob'')]"
    by code_simp
  with ldap_users_pages [of 1 "Some ''B''" two_users 2 0] show ?thesis
    by (auto simp: rbind_eq_Inr)
qed

end
