(* ===== verification/AccessControl.thy ===== *)
theory AccessControl
  imports PermissionRules
begin

text \<open>
  \<open>slurmweb/access_control.py\<close>: \<open>AccessControlPolicyManager\<close>, which merges the file-backed
  policy of the RFL library with the custom roles of the database store. The file policy and the
  user objects are RFL's: the model takes what the manager observes of them as parameters. A Python
  set is a list of which only the elements matter.
\<close>

section \<open>The manager\<close>

record user =
  is_anonymous :: bool
  login :: string

record file_policy =
  fp_roles_actions :: "user \<Rightarrow> string list \<times> string list"
  fp_allowed_anonymous :: "string \<Rightarrow> bool"
  fp_allow_anonymous :: bool
  fp_definition_actions :: "string list"

text \<open>The answer of the store's \<open>user_permissions\<close>, a pair or a triple.\<close>

datatype store_answer =
    RolesActions "string list" "string list"
  | RolesActionsRules "string list" "string list" "string list"

record manager =
  am_file_policy :: file_policy
  am_enabled :: bool
  am_store :: "(string \<Rightarrow> store_answer res) option"
  am_legacy_map :: legacy_map

definition new_manager ::
  "file_policy \<Rightarrow> bool \<Rightarrow> (string \<Rightarrow> store_answer res) option \<Rightarrow> pv option \<Rightarrow> manager res" where
  "new_manager policy enabled store content =
     rbind (merged_legacy_permission_map content) (\<lambda>m.
       Inr \<lparr>am_file_policy = policy, am_enabled = enabled, am_store = store, am_legacy_map = m\<rparr>)"

definition access_control_available :: "manager \<Rightarrow> bool" where
  "access_control_available m \<longleftrightarrow> am_enabled m \<and> am_store m \<noteq> None"

definition set_access_control_store ::
  "(string \<Rightarrow> store_answer res) option \<Rightarrow> manager \<Rightarrow> manager" where
  "set_access_control_store st m = m\<lparr>am_store := st\<rparr>"

definition file_roles_actions :: "manager \<Rightarrow> user \<Rightarrow> string list \<times> string list" where
  "file_roles_actions m u = fp_roles_actions (am_file_policy m) u"

definition file_rules :: "manager \<Rightarrow> user \<Rightarrow> string list res" where
  "file_rules m u = legacy_actions_to_rules (snd (file_roles_actions m u)) (am_legacy_map m)"

definition custom_roles_actions_rules ::
  "manager \<Rightarrow> user \<Rightarrow> (string list \<times> string list \<times> string list) res" where
  "custom_roles_actions_rules m u =
     (if is_anonymous u \<or> \<not> access_control_available m then Inr ([], [], [])
      else case am_store m of
        None \<Rightarrow> Inr ([], [], [])
      | Some user_permissions \<Rightarrow>
          (case user_permissions (login u) of
             Inl _ \<Rightarrow> Inr ([], [], [])
           | Inr (RolesActions roles actions) \<Rightarrow>
               rbind (legacy_actions_to_rules actions (am_legacy_map m)) (\<lambda>custom_rules.
               Inr (roles, actions, custom_rules))
           | Inr (RolesActionsRules roles actions rules) \<Rightarrow>
               rbind (legacy_actions_to_rules actions (am_legacy_map m)) (\<lambda>custom_rules.
               Inr (roles, actions, custom_rules @ rules))))"

record permission_set =
  ps_roles :: "string list"
  ps_actions :: "string list"
  ps_rules :: "string list"

record permission_sources =
  src_merged :: permission_set
  src_policy :: permission_set
  src_custom :: permission_set

definition roles_actions_sources :: "manager \<Rightarrow> user \<Rightarrow> permission_sources res" where
  "roles_actions_sources m u =
     (let (policy_roles, policy_actions) = file_roles_actions m u in
      rbind (file_rules m u) (\<lambda>policy_rules.
      rbind (custom_roles_actions_rules m u) (\<lambda>(custom_roles, custom_actions, custom_rules).
      let merged_roles = policy_roles @ custom_roles;
          merged_actions = policy_actions @ custom_actions;
          merged_rules = policy_rules @ custom_rules
      in rbind (permission_rules_to_legacy_actions merged_rules (am_legacy_map m)) (\<lambda>implied.
      Inr \<lparr>src_merged = \<lparr>ps_roles = merged_roles, ps_actions = merged_actions @ implied,
                     ps_rules = merged_rules\<rparr>,
           src_policy = \<lparr>ps_roles = policy_roles, ps_actions = policy_actions,
                     ps_rules = policy_rules\<rparr>,
           src_custom = \<lparr>ps_roles = custom_roles, ps_actions = custom_actions,
                     ps_rules = custom_rules\<rparr>\<rparr>))))"

definition roles_actions :: "manager \<Rightarrow> user \<Rightarrow> (string list \<times> string list) res" where
  "roles_actions m u =
     rbind (roles_actions_sources m u) (\<lambda>s. Inr (ps_roles (src_merged s), ps_actions (src_merged s)))"

definition roles_actions_rules ::
  "manager \<Rightarrow> user \<Rightarrow> (string list \<times> string list \<times> string list) res" where
  "roles_actions_rules m u =
     rbind (roles_actions_sources m u)
       (\<lambda>s. Inr (ps_roles (src_merged s), ps_actions (src_merged s), ps_rules (src_merged s)))"

definition allowed_anonymous_action :: "manager \<Rightarrow> string \<Rightarrow> bool" where
  "allowed_anonymous_action m action = fp_allowed_anonymous (am_file_policy m) action"

definition allowed_user_action :: "manager \<Rightarrow> user \<Rightarrow> string \<Rightarrow> bool res" where
  "allowed_user_action m u action =
     (if is_anonymous u then Inr (allowed_anonymous_action m action)
      else rbind (roles_actions m u) (\<lambda>ra. Inr (action \<in> set (snd ra))))"

definition allowed_user_permission ::
  "manager \<Rightarrow> user \<Rightarrow> string \<Rightarrow> string \<Rightarrow> string \<Rightarrow> bool res" where
  "allowed_user_permission m u resource operation scope =
     (if access_control_available m then
        (if is_anonymous u then Inr False
         else rbind (roles_actions_sources m u)
                (\<lambda>s. permission_rules_allow (ps_rules (src_merged s)) resource operation scope))
      else rany (\<lambda>(action, rules).
             rbind (permission_rules_allow rules resource operation scope) (\<lambda>b.
               if \<not> b then Inr False
               else if is_anonymous u then Inr (allowed_anonymous_action m action)
               else allowed_user_action m u action))
             (am_legacy_map m))"

definition action_rules :: "manager \<Rightarrow> string list \<Rightarrow> string list res" where
  "action_rules m actions = legacy_actions_to_rules actions (am_legacy_map m)"

definition normalize_rules :: "pv list \<Rightarrow> string list res" where
  "normalize_rules rules = sort_permission_rules rules"


section \<open>The merged permissions\<close>

definition wf_manager :: "manager \<Rightarrow> bool" where
  "wf_manager m \<longleftrightarrow> wf_legacy_map (am_legacy_map m)"

lemma new_manager_wf: "new_manager p e s content = Inr m \<Longrightarrow> wf_manager m"
  by (auto simp: new_manager_def rbind_eq_Inr wf_manager_def dest: merged_legacy_wf)

text \<open>What the actions of a user grant through the legacy map, and the custom part of a user.\<close>

definition actions_grant :: "manager \<Rightarrow> string list \<Rightarrow> grant \<Rightarrow> bool" where
  "actions_grant m as q \<longleftrightarrow> (\<exists>a \<in> set as. denotes (mapped_rules (am_legacy_map m) a) q)"

fun answer_actions :: "store_answer res \<Rightarrow> string list" where
  "answer_actions (Inr (RolesActions _ as)) = as"
| "answer_actions (Inr (RolesActionsRules _ as _)) = as"
| "answer_actions (Inl _) = []"

fun answer_rules :: "store_answer res \<Rightarrow> string list" where
  "answer_rules (Inr (RolesActionsRules _ _ rs)) = rs"
| "answer_rules _ = []"

lemma denotes_append: "denotes (xs @ ys) q \<longleftrightarrow> denotes xs q \<or> denotes ys q"
  by (auto simp: denotes_def)

lemma denotes_sorted_set [simp]: "denotes (sorted_set xs) q \<longleftrightarrow> denotes xs q"
  by (simp add: denotes_def)

lemma denotes_mapped:
  "denotes (concat (map (mapped_rules m) as)) q \<longleftrightarrow> (\<exists>a \<in> set as. denotes (mapped_rules m a) q)"
  by (auto simp: denotes_def)

lemma actions_grant_append [simp]:
  "actions_grant m (as @ bs) q \<longleftrightarrow> actions_grant m as q \<or> actions_grant m bs q"
  by (auto simp: actions_grant_def)

lemma actions_grant_Nil [simp]: "\<not> actions_grant m [] q"
  by (simp add: actions_grant_def)

lemma file_rules_eq:
  "wf_manager m \<Longrightarrow> file_rules m u
     = Inr (sorted_set (concat (map (mapped_rules (am_legacy_map m)) (snd (file_roles_actions m u)))))"
  by (simp add: file_rules_def wf_manager_def legacy_actions_to_rules_eq)

lemma mapped_rules_valid:
  "wf_manager m \<Longrightarrow> \<forall>r \<in> set (sorted_set (concat (map (mapped_rules (am_legacy_map m)) as))). valid_rule r"
  by (auto simp: wf_manager_def intro: canonical_valid mapped_rules_canonical)

lemma custom_eq:
  assumes "wf_manager m" and "\<not> is_anonymous u" and "am_enabled m" and "am_store m = Some up"
  shows "\<exists>roles. custom_roles_actions_rules m u = Inr (roles, answer_actions (up (login u)),
      sorted_set (concat (map (mapped_rules (am_legacy_map m)) (answer_actions (up (login u)))))
      @ answer_rules (up (login u)))"
  using assms
  by (auto simp: custom_roles_actions_rules_def access_control_available_def wf_manager_def
      legacy_actions_to_rules_eq sorted_set_def split: sum.splits store_answer.splits)

lemma custom_none:
  "is_anonymous u \<or> \<not> access_control_available m \<Longrightarrow> custom_roles_actions_rules m u = Inr ([], [], [])"
  by (auto simp: custom_roles_actions_rules_def)

text \<open>The merged record, whatever the custom part is.\<close>

lemma sources_eq:
  assumes "wf_manager m" and "custom_roles_actions_rules m u = Inr (roles, as, rs)"
    and "\<forall>r \<in> set rs. valid_rule r"
  shows "\<exists>s. roles_actions_sources m u = Inr s
    \<and> (\<forall>q. denotes (ps_rules (src_merged s)) q \<longleftrightarrow> actions_grant m (snd (file_roles_actions m u)) q \<or> denotes rs q)
    \<and> (\<forall>r \<in> set (ps_rules (src_merged s)). valid_rule r)
    \<and> set (ps_actions (src_merged s)) = set (snd (file_roles_actions m u)) \<union> set as
        \<union> {a. \<exists>req. (a, req) \<in> set (am_legacy_map m) \<and> implied_action (ps_rules (src_merged s)) req}
    \<and> ps_roles (src_merged s) = fst (file_roles_actions m u) @ roles"
proof -
  obtain pr pa where f: "file_roles_actions m u = (pr, pa)" by (cases "file_roles_actions m u")
  let ?p = "sorted_set (concat (map (mapped_rules (am_legacy_map m)) pa))"
  have valid: "\<forall>r \<in> set (?p @ rs). valid_rule r"
    using mapped_rules_valid [OF assms(1), of pa] assms(3) by auto
  have implied: "permission_rules_to_legacy_actions (?p @ rs) (am_legacy_map m)
      = Inr (sort (map fst (filter (\<lambda>(a, req). implied_action (?p @ rs) req) (am_legacy_map m))))"
    using assms(1) valid by (intro rules_to_legacy_actions_eq) (simp_all add: wf_manager_def)
  let ?s = "\<lparr>src_merged = \<lparr>ps_roles = pr @ roles,
      ps_actions = (pa @ as) @ sort (map fst (filter (\<lambda>(a, req). implied_action (?p @ rs) req) (am_legacy_map m))),
      ps_rules = ?p @ rs\<rparr>,
    src_policy = \<lparr>ps_roles = pr, ps_actions = pa, ps_rules = ?p\<rparr>,
    src_custom = \<lparr>ps_roles = roles, ps_actions = as, ps_rules = rs\<rparr>\<rparr>"
  have "roles_actions_sources m u = Inr ?s"
    using f file_rules_eq [OF assms(1), of u] assms(2) implied
    by (simp add: roles_actions_sources_def Let_def)
  moreover have "denotes (?p @ rs) q \<longleftrightarrow> actions_grant m pa q \<or> denotes rs q" for q
    by (simp add: actions_grant_def denotes_append denotes_mapped)
  moreover have "set (ps_actions (src_merged ?s)) = set pa \<union> set as
      \<union> {a. \<exists>req. (a, req) \<in> set (am_legacy_map m) \<and> implied_action (?p @ rs) req}"
    by force
  ultimately show ?thesis
    using valid f by (intro exI [of _ ?s]) simp
qed

text \<open>The decision with the database roles, and with the file policy alone.\<close>

lemma decision_available:
  assumes "wf_manager m" and "am_enabled m" and "am_store m = Some up" and "\<not> is_anonymous u"
    and "\<forall>r \<in> set (answer_rules (up (login u))). valid_rule r"
  shows "allowed_user_permission m u r oper sc
    = Inr (actions_grant m (snd (file_roles_actions m u) @ answer_actions (up (login u))) (r, oper, sc)
           \<or> denotes (answer_rules (up (login u))) (r, oper, sc))"
proof -
  let ?as = "answer_actions (up (login u))" and ?rs = "answer_rules (up (login u))"
  let ?cs = "sorted_set (concat (map (mapped_rules (am_legacy_map m)) ?as))"
  obtain roles where c: "custom_roles_actions_rules m u = Inr (roles, ?as, ?cs @ ?rs)"
    using custom_eq [OF assms(1,4,2,3)] by blast
  have valid: "\<forall>r \<in> set (?cs @ ?rs). valid_rule r"
    using mapped_rules_valid [OF assms(1), of ?as] assms(5) by auto
  from sources_eq [OF assms(1) c valid] obtain s where s: "roles_actions_sources m u = Inr s"
    "\<forall>q. denotes (ps_rules (src_merged s)) q \<longleftrightarrow>
       actions_grant m (snd (file_roles_actions m u)) q \<or> denotes (?cs @ ?rs) q"
    "\<forall>r \<in> set (ps_rules (src_merged s)). valid_rule r"
    by blast
  have "access_control_available m" using assms(2,3) by (simp add: access_control_available_def)
  then show ?thesis
    using s assms(4) rules_allow_denotes [OF s(3)]
    by (auto simp: allowed_user_permission_def actions_grant_def denotes_append denotes_mapped)
qed

lemma decision_anonymous:
  "access_control_available m \<Longrightarrow> is_anonymous u \<Longrightarrow> allowed_user_permission m u r oper sc = Inr False"
  by (simp add: allowed_user_permission_def)

text \<open>Without the database roles the decision goes through the legacy actions.\<close>

definition effective_file_actions :: "manager \<Rightarrow> user \<Rightarrow> string set" where
  "effective_file_actions m u =
     set (snd (file_roles_actions m u))
     \<union> {a. \<exists>req. (a, req) \<in> set (am_legacy_map m) \<and>
          (\<exists>r \<in> set req. \<exists>g. grant_of r = Some g \<and> actions_grant m (snd (file_roles_actions m u)) g)}"

lemma implied_action_cong:
  "(\<And>q. denotes rs q \<longleftrightarrow> P q) \<Longrightarrow>
   implied_action rs req \<longleftrightarrow> (\<exists>r \<in> set req. \<exists>g. grant_of r = Some g \<and> P g)"
  by (simp add: implied_action_def)

lemma roles_actions_file_only:
  assumes "wf_manager m" and "\<not> access_control_available m"
  shows "\<exists>roles as. roles_actions m u = Inr (roles, as) \<and> set as = effective_file_actions m u"
proof -
  have "custom_roles_actions_rules m u = Inr ([], [], [])" using assms(2) by (simp add: custom_none)
  from sources_eq [OF assms(1) this] obtain s where s: "roles_actions_sources m u = Inr s"
    "\<forall>q. denotes (ps_rules (src_merged s)) q \<longleftrightarrow> actions_grant m (snd (file_roles_actions m u)) q"
    "set (ps_actions (src_merged s)) = set (snd (file_roles_actions m u))
        \<union> {a. \<exists>req. (a, req) \<in> set (am_legacy_map m) \<and> implied_action (ps_rules (src_merged s)) req}"
    by (auto simp: denotes_def)
  have "set (ps_actions (src_merged s)) = effective_file_actions m u"
    unfolding s(3) effective_file_actions_def
    using implied_action_cong [of "ps_rules (src_merged s)"
        "actions_grant m (snd (file_roles_actions m u))"] s(2) by simp
  with s(1) show ?thesis by (simp add: roles_actions_def)
qed

lemma decision_file_only:
  assumes "wf_manager m" and "\<not> access_control_available m"
  shows "allowed_user_permission m u r oper sc
    = Inr (\<exists>p \<in> set (am_legacy_map m). denotes (snd p) (r, oper, sc)
        \<and> (if is_anonymous u then fp_allowed_anonymous (am_file_policy m) (fst p)
           else fst p \<in> effective_file_actions m u))"
proof -
  obtain roles as where ra: "roles_actions m u = Inr (roles, as)" "set as = effective_file_actions m u"
    using roles_actions_file_only [OF assms] by blast
  let ?ok = "\<lambda>p. denotes (snd p) (r, oper, sc)
      \<and> (if is_anonymous u then fp_allowed_anonymous (am_file_policy m) (fst p)
         else fst p \<in> effective_file_actions m u)"
  have "(\<lambda>(action, rules). rbind (permission_rules_allow rules r oper sc) (\<lambda>b.
          if \<not> b then Inr False
          else if is_anonymous u then Inr (allowed_anonymous_action m action)
          else allowed_user_action m u action)) p = Inr (?ok p)"
    if p: "p \<in> set (am_legacy_map m)" for p
  proof -
    have "\<forall>rule \<in> set (snd p). valid_rule rule"
      using assms(1) p canonical_valid by (auto simp: wf_manager_def wf_legacy_map_def)
    from rules_allow_denotes [OF this] show ?thesis
      using ra by (cases p) (simp add: allowed_user_action_def allowed_anonymous_action_def)
  qed
  then show ?thesis
    using assms(2) unfolding allowed_user_permission_def by (simp add: rany_all_Inr)
qed


section \<open>The interface of a role store\<close>

text \<open>
  What the manager relies on of the database store: \<open>user_permissions\<close> answers with the union of
  the actions and of the permission rules of the roles assigned to the user.
\<close>

lemma bex_UN_disj:
  "(\<exists>a \<in> (\<Union>x \<in> A. f x). P a) \<or> (\<exists>b \<in> (\<Union>x \<in> A. g x). Q b)
   \<longleftrightarrow> (\<exists>x \<in> A. (\<exists>a \<in> f x. P a) \<or> (\<exists>b \<in> g x. Q b))"
  by blast

locale role_store =
  fixes user_permissions :: "'db \<Rightarrow> string \<Rightarrow> store_answer res"
    and invar :: "'db \<Rightarrow> bool"
    and assigned :: "'db \<Rightarrow> string \<Rightarrow> 'role set"
    and role_acts :: "'role \<Rightarrow> string set"
    and role_perms :: "'role \<Rightarrow> string set"
  assumes answer: "invar db \<Longrightarrow> \<exists>names as rs.
      user_permissions db name = Inr (RolesActionsRules names as rs)
      \<and> set as = (\<Union>ro \<in> assigned db name. role_acts ro)
      \<and> set rs = (\<Union>ro \<in> assigned db name. role_perms ro)"
begin

definition role_grants :: "manager \<Rightarrow> 'role \<Rightarrow> grant \<Rightarrow> bool" where
  "role_grants m ro q \<longleftrightarrow>
     (\<exists>a \<in> role_acts ro. denotes (mapped_rules (am_legacy_map m) a) q)
     \<or> (\<exists>rule \<in> role_perms ro. denotes [rule] q)"

text \<open>A user is allowed what the file policy or some assigned role grants.\<close>

lemma role_decision:
  assumes "wf_manager m" and "am_enabled m" and "am_store m = Some (user_permissions db)"
    and "\<not> is_anonymous u" and "invar db"
    and "\<forall>ro \<in> assigned db (login u). \<forall>rule \<in> role_perms ro. valid_rule rule"
  shows "allowed_user_permission m u r oper sc
    = Inr (actions_grant m (snd (file_roles_actions m u)) (r, oper, sc)
           \<or> (\<exists>ro \<in> assigned db (login u). role_grants m ro (r, oper, sc)))"
proof -
  obtain names as rs where ans: "user_permissions db (login u) = Inr (RolesActionsRules names as rs)"
    and as: "set as = (\<Union>ro \<in> assigned db (login u). role_acts ro)"
    and rs: "set rs = (\<Union>ro \<in> assigned db (login u). role_perms ro)"
    using answer [OF assms(5), of "login u"] by (elim exE conjE)
  have "\<forall>r \<in> set (answer_rules (user_permissions db (login u))). valid_rule r"
    using assms(6) ans rs by simp
  from decision_available [OF assms(1,2,3,4) this]
  have "allowed_user_permission m u r oper sc
      = Inr (actions_grant m (snd (file_roles_actions m u)) (r, oper, sc)
             \<or> actions_grant m as (r, oper, sc) \<or> denotes rs (r, oper, sc))"
    using ans by simp
  moreover have "actions_grant m as (r, oper, sc) \<or> denotes rs (r, oper, sc)
      \<longleftrightarrow> (\<exists>ro \<in> assigned db (login u). role_grants m ro (r, oper, sc))"
    unfolding actions_grant_def role_grants_def denotes_single [of rs] as rs by (rule bex_UN_disj)
  ultimately show ?thesis by simp
qed

text \<open>Assigning more roles never takes a permission away.\<close>

lemma assigning_monotone:
  assumes "wf_manager m" and "am_enabled m" and "\<not> is_anonymous u" and "invar db" and "invar db'"
    and "assigned db (login u) \<subseteq> assigned db' (login u)"
    and "\<forall>ro \<in> assigned db' (login u). \<forall>rule \<in> role_perms ro. valid_rule rule"
    and "allowed_user_permission (m\<lparr>am_store := Some (user_permissions db)\<rparr>) u r oper sc = Inr True"
  shows "allowed_user_permission (m\<lparr>am_store := Some (user_permissions db')\<rparr>) u r oper sc = Inr True"
proof -
  let ?m = "m\<lparr>am_store := Some (user_permissions db)\<rparr>"
  let ?m' = "m\<lparr>am_store := Some (user_permissions db')\<rparr>"
  have wf: "wf_manager ?m" "wf_manager ?m'" using assms(1) by (simp_all add: wf_manager_def)
  have valid: "\<forall>ro \<in> assigned db (login u). \<forall>rule \<in> role_perms ro. valid_rule rule"
    using assms(6,7) by blast
  have "actions_grant ?m (snd (file_roles_actions ?m u)) (r, oper, sc)
      \<or> (\<exists>ro \<in> assigned db (login u). role_grants ?m ro (r, oper, sc))"
    using role_decision [OF wf(1) _ _ assms(3,4) valid] assms(2,8) by simp
  then have "actions_grant ?m' (snd (file_roles_actions ?m' u)) (r, oper, sc)
      \<or> (\<exists>ro \<in> assigned db' (login u). role_grants ?m' ro (r, oper, sc))"
    using assms(6) by (auto simp: actions_grant_def file_roles_actions_def role_grants_def)
  then show ?thesis using role_decision [OF wf(2) _ _ assms(3,5,7)] assms(2) by simp
qed

end


section \<open>Properties\<close>

text \<open>
  C4. The decision with the database roles. When the database store is in use, an anonymous user is
  refused everything; any other user is allowed exactly what the legacy rules of the file policy's
  actions, those of the custom actions or the custom rules grant; and when the store raises, exactly
  what the file policy grants.
\<close>

theorem decision_with_store:
  assumes "new_manager pol True (Some up) content = Inr m"
    and "\<forall>rule \<in> set (answer_rules (up (login u))). valid_rule rule"
  shows "allowed_user_permission m u r oper sc = Inr (\<not> is_anonymous u \<and>
     (actions_grant m (snd (fp_roles_actions pol u)) (r, oper, sc)
      \<or> (case up (login u) of
           Inl _ \<Rightarrow> False
         | Inr _ \<Rightarrow> actions_grant m (answer_actions (up (login u))) (r, oper, sc)
              \<or> denotes (answer_rules (up (login u))) (r, oper, sc))))"
proof -
  have m: "am_enabled m" "am_store m = Some up" "am_file_policy m = pol"
    using assms(1) by (auto simp: new_manager_def rbind_eq_Inr)
  show ?thesis
  proof (cases "is_anonymous u")
    case True
    then show ?thesis using m decision_anonymous by (simp add: access_control_available_def)
  next
    case False
    from decision_available [OF new_manager_wf [OF assms(1)] m(1,2) False assms(2)] m(3) False
    show ?thesis by (cases "up (login u)") (simp_all add: file_roles_actions_def)
  qed
qed

text \<open>
  The decision with the file policy alone. Without the database store a permission is granted
  through the legacy actions: some action of the map has a rule that covers the request, and the
  user has that action, or the rules of the user's own actions cover one of its rules.
\<close>

theorem decision_without_store:
  assumes "new_manager pol enabled st content = Inr m" and "\<not> enabled \<or> st = None"
  shows "allowed_user_permission m u r oper sc
    = Inr (\<exists>p \<in> set (am_legacy_map m). denotes (snd p) (r, oper, sc)
        \<and> (if is_anonymous u then fp_allowed_anonymous pol (fst p)
           else fst p \<in> set (snd (fp_roles_actions pol u))
             \<or> (\<exists>rule \<in> set (snd p). \<exists>g. grant_of rule = Some g
                  \<and> actions_grant m (snd (fp_roles_actions pol u)) g)))"
proof -
  have m: "\<not> access_control_available m" "am_file_policy m = pol"
    using assms by (auto simp: new_manager_def rbind_eq_Inr access_control_available_def)
  note wf = new_manager_wf [OF assms(1)]
  have eff: "fst p \<in> effective_file_actions m u \<longleftrightarrow>
      fst p \<in> set (snd (fp_roles_actions pol u))
      \<or> (\<exists>rule \<in> set (snd p). \<exists>g. grant_of rule = Some g
            \<and> actions_grant m (snd (fp_roles_actions pol u)) g)" if "p \<in> set (am_legacy_map m)" for p
  proof -
    obtain a req where p: "p = (a, req)" by (cases p)
    have "(a, req') \<in> set (am_legacy_map m) \<Longrightarrow> req' = req" for req'
      using that p wf eq_key_imp_eq_value [of "am_legacy_map m" a]
      by (auto simp: wf_manager_def wf_legacy_map_def wf_dict_def)
    then have "(\<exists>req'. (a, req') \<in> set (am_legacy_map m) \<and> P req') \<longleftrightarrow> P req" for P
      using that p by blast
    then show ?thesis
      using m(2) p by (simp add: effective_file_actions_def file_roles_actions_def)
  qed
  show ?thesis
    using decision_file_only [OF wf m(1)] m(2) eff by (simp cong: bex_cong)
qed

text \<open>A policy that gives every user the same actions, and a named user.\<close>

definition fixed_policy :: "string list \<Rightarrow> file_policy" where
  "fixed_policy actions =
     \<lparr>fp_roles_actions = (\<lambda>_. ([''staff''], actions)), fp_allowed_anonymous = (\<lambda>_. False),
      fp_allow_anonymous = False, fp_definition_actions = []\<rparr>"

definition named_user :: "string \<Rightarrow> user" where
  "named_user name = \<lparr>is_anonymous = False, login = name\<rparr>"

lemma new_manager_defaults:
  "new_manager pol e st None
   = Inr \<lparr>am_file_policy = pol, am_enabled = e, am_store = st, am_legacy_map = merged_defaults\<rparr>"
  by (simp add: new_manager_def merged_defaults)

theorem decision_with_store_witness:
  "rbind (new_manager (fixed_policy [''view-jobs'']) True
       (Some (\<lambda>_. Inr (RolesActionsRules [''r''] [''view-qos''] [''reservations:edit:*'']))) None)
     (\<lambda>m. allowed_user_permission m (named_user ''alice'') ''reservations'' ''view'' ''self'') = Inr True"
proof -
  let ?up = "\<lambda>_. Inr (RolesActionsRules [''r''] [''view-qos''] [''reservations:edit:*''])"
  note m = new_manager_defaults [of "fixed_policy [''view-jobs'']" True "Some ?up"]
  have valid: "\<forall>rule \<in> set (answer_rules (?up (login (named_user ''alice'')))). valid_rule rule"
    by code_simp
  have rule: "denotes (answer_rules (?up (login (named_user ''alice'')))) (''reservations'', ''view'', ''self'')"
    by code_simp
  have "\<not> is_anonymous (named_user ''alice'')" by (simp add: named_user_def)
  then show ?thesis
    using decision_with_store [OF m valid, where r = "''reservations''" and oper = "''view''" and sc = "''self''"] m rule by simp
qed

theorem decision_without_store_witness:
  "rbind (new_manager (fixed_policy [''view-jobs'']) False None None)
     (\<lambda>m. allowed_user_permission m (named_user ''alice'') ''jobs'' ''view'' ''self'') = Inr True"
proof -
  let ?pol = "fixed_policy [''view-jobs'']" and ?u = "named_user ''alice''"
  note m = new_manager_defaults [of ?pol False None]
  have "(''view-jobs'', [''jobs:view:*'']) \<in> set merged_defaults" by code_simp
  moreover have "denotes [''jobs:view:*''] (''jobs'', ''view'', ''self'')" by code_simp
  ultimately have "\<exists>p \<in> set merged_defaults. denotes (snd p) (''jobs'', ''view'', ''self'')
      \<and> fst p \<in> set (snd (fp_roles_actions ?pol ?u))"
    by (intro bexI [of _ "(''view-jobs'', [''jobs:view:*''])"]) (simp_all add: fixed_policy_def)
  moreover have "\<not> is_anonymous ?u" by (simp add: named_user_def)
  ultimately show ?thesis
    using decision_without_store [OF m, of ?u "''jobs''" "''view''" "''self''"] m by auto
qed

text \<open>
  Resetting the cache opens the user directory. The detour through legacy actions widens a
  permission: without the database store a user whose only policy action is \<open>cache-reset\<close>, that is
  the rule \<open>admin/cache:edit:*\<close>, is given the action \<open>cache-view\<close> (\<open>edit\<close> implies \<open>view\<close>), hence its
  second rule, and may view the LDAP users; with an empty store in use the same user may not.
\<close>

theorem cache_reset_views_users:
  "rbind (new_manager (fixed_policy [''cache-reset'']) False None None) (\<lambda>m.
     rbind (file_rules m (named_user ''alice'')) (\<lambda>rules.
     rbind (permission_rules_allow rules ''admin/ldap-users'' ''view'' ''*'') (\<lambda>by_rules.
     rbind (allowed_user_permission m (named_user ''alice'') ''admin/ldap-users'' ''view'' ''*'') (\<lambda>decision.
       Inr (rules, by_rules, decision)))))
   = Inr ([''admin/cache:edit:*''], False, True)
   \<and> rbind (new_manager (fixed_policy [''cache-reset'']) True
        (Some (\<lambda>_. Inr (RolesActionsRules [] [] []))) None) (\<lambda>m.
       allowed_user_permission m (named_user ''alice'') ''admin/ldap-users'' ''view'' ''*'') = Inr False"
  unfolding new_manager_defaults rbind_simps by code_simp

end
