(* ===== verification/AccessControlStore.thy ===== *)
theory AccessControlStore
  imports AccessControl UsersStore
begin

text \<open>
  \<open>persistence/access_control_store.py\<close>: \<open>AccessControlStore\<close>, the custom roles and their
  assignment to users. The legacy map it is built with is the argument \<open>lm\<close>. The store is shown
  to implement the interface \<open>role_store\<close> that the policy manager is proved against.
\<close>

section \<open>Operations\<close>

definition REMOVED_ROLE_ACTIONS :: "string list" where
  "REMOVED_ROLE_ACTIONS =
     [''view-own-jobs'', ''edit-own-jobs'', ''cancel-own-jobs'', ''roles-view'', ''roles-manage'', ''manage-ai'']"

definition derive_permissions :: "legacy_map \<Rightarrow> string list \<Rightarrow> string list \<Rightarrow> string list" where
  "derive_permissions lm actions permissions =
     (if permissions \<noteq> [] then permissions
      else sorted_set (concat (map (mapped_rules lm) actions)))"

definition normalized_role_actions_permissions ::
  "legacy_map \<Rightarrow> string list \<Rightarrow> string list \<Rightarrow> string list \<times> string list" where
  "normalized_role_actions_permissions lm actions permissions =
     (sorted_set (filter (\<lambda>a. a \<notin> set REMOVED_ROLE_ACTIONS) actions),
      sorted_set (permissions @ concat (map (mapped_rules lm)
        (filter (\<lambda>a. a = ''admin-manage'' \<or> a = ''view-ai'') actions))))"

definition role_needs_update :: "legacy_map \<Rightarrow> role_row \<Rightarrow> bool" where
  "role_needs_update lm row \<longleftrightarrow>
     (ro_actions row, ro_permissions row)
       \<noteq> normalized_role_actions_permissions lm (ro_actions row) (ro_permissions row)"

text \<open>The loop reads every row first; each row is rewritten by its own identifier.\<close>

definition normalize_role_row :: "legacy_map \<Rightarrow> int \<Rightarrow> role_row \<Rightarrow> (db, bool) meth" where
  "normalize_role_row lm now row =
     (if \<not> role_needs_update lm row then mret False
      else mbind (mupd (let (as, ps) = normalized_role_actions_permissions lm (ro_actions row) (ro_permissions row)
             in set_role (ro_id row) (\<lambda>r. r\<lparr>ro_actions := as, ro_permissions := ps, ro_updated_at := now\<rparr>)))
        (\<lambda>_. mret True))"

definition normalize_legacy_role_actions :: "legacy_map \<Rightarrow> int \<Rightarrow> (db, nat) meth" where
  "normalize_legacy_role_actions lm now =
     transaction (mwith (\<lambda>db.
       mbind (mmap (normalize_role_row lm now) (sort_key ro_id (db_roles db)))
         (\<lambda>us. mret (length (filter id us)))))"

definition role_name_exists :: "string \<Rightarrow> int option \<Rightarrow> db \<Rightarrow> bool" where
  "role_name_exists name exclude db \<longleftrightarrow>
     list_ex (\<lambda>r. ro_name r = name \<and> (case exclude of None \<Rightarrow> True | Some i \<Rightarrow> ro_id r \<noteq> i)) (db_roles db)"

text \<open>The dictionary returned for a row: the row with its permissions derived.\<close>

definition role_dict :: "legacy_map \<Rightarrow> role_row \<Rightarrow> role_row" where
  "role_dict lm row = row\<lparr>ro_permissions := derive_permissions lm (ro_actions row) (ro_permissions row)\<rparr>"

definition list_roles :: "legacy_map \<Rightarrow> db \<Rightarrow> role_row list" where
  "list_roles lm db = map (role_dict lm) (sort_key ro_name (db_roles db))"

definition new_role :: "int \<Rightarrow> string \<Rightarrow> string option \<Rightarrow> string list \<Rightarrow> string list \<Rightarrow> role_row" where
  "new_role now name description actions permissions =
     \<lparr>ro_id = 0, ro_name = name, ro_description = description, ro_actions = actions,
      ro_permissions = permissions, ro_created_at = now, ro_updated_at = now\<rparr>"

definition create_role ::
  "legacy_map \<Rightarrow> int \<Rightarrow> string \<Rightarrow> string option \<Rightarrow> string list \<Rightarrow> string list \<Rightarrow> (db, role_row) meth" where
  "create_role lm now name description actions permissions =
     mbind (transaction (mwith (\<lambda>db.
         if role_name_exists name None db
         then mraise (ValueError (''Role '' @ name @ '' already exists''))
         else insert_role (new_role now name description actions permissions))))
       (\<lambda>row. mret (role_dict lm row))"

definition update_role ::
  "legacy_map \<Rightarrow> int \<Rightarrow> int \<Rightarrow> string \<Rightarrow> string option \<Rightarrow> string list \<Rightarrow> string list
   \<Rightarrow> (db, role_row option) meth" where
  "update_role lm now role_id name description actions permissions =
     mbind (transaction (mwith (\<lambda>db.
         if role_name_exists name (Some role_id) db
         then mraise (ValueError (''Role '' @ name @ '' already exists''))
         else mbind (mupd (set_role role_id (\<lambda>r. r\<lparr>ro_name := name, ro_description := description,
                       ro_actions := actions, ro_permissions := permissions, ro_updated_at := now\<rparr>)))
           (\<lambda>_. mwith (\<lambda>db'. mret (find_role role_id db'))))))
       (\<lambda>row. mret (map_option (role_dict lm) row))"

text \<open>The foreign key of \<open>user_roles\<close> cascades the deletion.\<close>

definition delete_role :: "int \<Rightarrow> (db, bool) meth" where
  "delete_role role_id =
     transaction (mwith (\<lambda>db.
       mbind (mupd (\<lambda>d. d\<lparr>db_roles := filter (\<lambda>r. ro_id r \<noteq> role_id) (db_roles d),
                db_user_roles := filter (\<lambda>l. ur_role l \<noteq> role_id) (db_user_roles d)\<rparr>))
         (\<lambda>_. mret (find_role role_id db \<noteq> None))))"

definition user_permissions :: "legacy_map \<Rightarrow> db \<Rightarrow> string \<Rightarrow> store_answer res" where
  "user_permissions lm db username =
     (let rows = sort_key ro_name (concat (map (\<lambda>u. joined_roles db (us_id u))
                   (filter (\<lambda>u. us_username u = username) (db_users db))))
      in Inr (RolesActionsRules
           (remdups (map ro_name rows))
           (remdups (concat (map ro_actions rows)))
           (remdups (concat (map (\<lambda>r. derive_permissions lm (ro_actions r) (ro_permissions r)) rows)))))"

record role_item =
  ri_id :: int
  ri_name :: string
  ri_description :: "string option"
  ri_actions :: "string list"
  ri_permissions :: "string list"

definition role_item_of :: "legacy_map \<Rightarrow> role_row \<Rightarrow> role_item" where
  "role_item_of lm row =
     \<lparr>ri_id = ro_id row, ri_name = ro_name row, ri_description = ro_description row,
      ri_actions = ro_actions row,
      ri_permissions = derive_permissions lm (ro_actions row) (ro_permissions row)\<rparr>"

record user_detail =
  ud_username :: string
  ud_fullname :: "string option"
  ud_policy_roles :: "string list"
  ud_policy_actions :: "string list"
  ud_custom_roles :: "role_item list"
  ud_custom_actions :: "string list"

definition user_detail_of :: "legacy_map \<Rightarrow> db \<Rightarrow> user_row \<Rightarrow> user_detail" where
  "user_detail_of lm db u =
     (let custom_roles = map (role_item_of lm) (sort_key ro_name (joined_roles db (us_id u))) in
      \<lparr>ud_username = us_username u, ud_fullname = us_fullname u,
       ud_policy_roles = us_policy_roles u, ud_policy_actions = us_policy_actions u,
       ud_custom_roles = custom_roles,
       ud_custom_actions = sorted_set (concat (map ri_actions custom_roles))\<rparr>)"

record users_page =
  up_items :: "user_detail list"
  up_total :: nat
  up_page :: int
  up_page_size :: int

definition list_users :: "legacy_map \<Rightarrow> string option \<Rightarrow> int \<Rightarrow> int \<Rightarrow> db \<Rightarrow> users_page res" where
  "list_users lm username page page_size db =
     (let rows = username_filter username (db_users db) in
      rbind (limit_offset page_size ((page - 1) * page_size) (sort_key us_username rows)) (\<lambda>items.
      Inr \<lparr>up_items = map (user_detail_of lm db) items, up_total = length rows,
           up_page = page, up_page_size = page_size\<rparr>))"

definition ensure_user :: "int \<Rightarrow> string \<Rightarrow> (db, int) meth" where
  "ensure_user now username =
     upsert_user
       \<lparr>us_id = 0, us_username = username, us_fullname = None, us_groups = VList [], us_policy_roles = [],
        us_policy_actions = [], us_ldap_synced_at = None, us_permission_synced_at = None,
        us_created_at = now, us_updated_at = now\<rparr>
       (\<lambda>u. u\<lparr>us_updated_at := now\<rparr>)"

definition role_ids_exist :: "int list \<Rightarrow> db \<Rightarrow> bool" where
  "role_ids_exist role_ids db \<longleftrightarrow>
     (if role_ids = [] then True
      else length (filter (\<lambda>r. ro_id r \<in> set role_ids) (db_roles db)) = length (remdups role_ids))"

definition get_user_roles :: "legacy_map \<Rightarrow> string \<Rightarrow> db \<Rightarrow> user_detail option" where
  "get_user_roles lm username db = map_option (user_detail_of lm db) (find_user username db)"

definition set_user_roles ::
  "legacy_map \<Rightarrow> int \<Rightarrow> string \<Rightarrow> int list \<Rightarrow> (db, user_detail option) meth" where
  "set_user_roles lm now username role_ids =
     mbind (transaction
       (mbind (ensure_user now username) (\<lambda>user_id. mwith (\<lambda>db.
          if \<not> role_ids_exist role_ids db
          then mraise (ValueError ''One or more roles were not found'')
          else mbind (mupd (\<lambda>d. d\<lparr>db_user_roles := filter (\<lambda>l. ur_user l \<noteq> user_id) (db_user_roles d)\<rparr>))
            (\<lambda>_. mmap (insert_user_role now user_id) (sorted_set role_ids))))))
       (\<lambda>_. mwith (\<lambda>db. mret (get_user_roles lm username db)))"

definition seed_default_roles :: "legacy_map \<Rightarrow> int \<Rightarrow> (db, role_row list) meth" where
  "seed_default_roles lm now =
     mbind (transaction (mwith (\<lambda>db.
         if db_roles db \<noteq> [] then mret []
         else mbind (mlift default_seed_roles) (mmap (\<lambda>role.
           mbind (mlift (permission_rules_to_legacy_actions (sr_permissions role) lm)) (\<lambda>actions.
           insert_role (new_role now (sr_name role) (Some (sr_description role)) actions
             (sr_permissions role))))))))
       (\<lambda>rows. mret (map (role_dict lm) rows))"


section \<open>Invariants\<close>

text \<open>The rules of a legacy map are well formed, hence the derived permissions are.\<close>

lemma derived_valid:
  assumes "wf_legacy_map lm" and "\<forall>p \<in> set ps. valid_rule p"
  shows "\<forall>p \<in> set (derive_permissions lm as ps). valid_rule p"
  using assms by (auto simp: derive_permissions_def intro: canonical_valid mapped_rules_canonical)

lemma normalized_valid:
  assumes "wf_legacy_map lm" and "\<forall>p \<in> set ps. valid_rule p"
  shows "\<forall>p \<in> set (snd (normalized_role_actions_permissions lm as ps)). valid_rule p"
  using assms by (auto simp: normalized_role_actions_permissions_def
      intro: canonical_valid mapped_rules_canonical)

lemma keeps_seqs_set_role [keeps_intros]: "keeps (seqs_grow db) (mupd (set_role i f))"
  by (intro keeps_mupd) (simp add: seqs_grow_def set_role_def)

lemma delete_role_ok: "keeps consistent (delete_role rid)"
  unfolding delete_role_def
proof (intro keeps_transaction keeps_intros keeps_mupd)
  fix d assume ok: "consistent d"
  let ?rs = "filter (\<lambda>r. ro_id r \<noteq> rid) (db_roles d)"
  let ?ls = "filter (\<lambda>l. ur_role l \<noteq> rid) (db_user_roles d)"
  have "\<forall>l \<in> set ?ls. ur_user l \<in> us_id ` set (db_users d) \<and> ur_role l \<in> ro_id ` set ?rs"
    using ok by (fastforce simp: db_ok_def)
  then show "consistent (d\<lparr>db_roles := ?rs, db_user_roles := ?ls\<rparr>)"
    using ok by (auto simp: db_ok_def roles_valid_def distinct_map_filter)
qed (simp add: seqs_grow_def)

lemma create_role_ok:
  "\<forall>p \<in> set ps. valid_rule p \<Longrightarrow> keeps consistent (create_role lm now n d as ps)"
  unfolding create_role_def
  by (intro keeps_intros keeps_transaction insert_role_ok) (simp_all add: new_role_def)

lemma seed_role_valid: "default_seed_roles = Inr rs \<Longrightarrow> r \<in> set rs \<Longrightarrow> \<forall>p \<in> set (sr_permissions r). valid_rule p"
proof -
  assume rs: "default_seed_roles = Inr rs" and r: "r \<in> set rs"
  have "rbind default_seed_roles (\<lambda>rs. Inr (list_all (\<lambda>r. list_all valid_rule (sr_permissions r)) rs)) = Inr True"
    by code_simp
  then show "\<forall>p \<in> set (sr_permissions r). valid_rule p"
    using r unfolding rs by (simp add: list_all_iff)
qed

lemma keeps_mlift_bind [keeps_intros]:
  "(\<And>a. r = Inr a \<Longrightarrow> keeps P (f a)) \<Longrightarrow> keeps P (mbind (mlift r) f)"
  by (cases r) (simp_all add: keeps_def mbind_def)

lemma seed_default_roles_ok: "keeps consistent (seed_default_roles lm now)"
  unfolding seed_default_roles_def
  by (intro keeps_intros keeps_transaction insert_role_ok) (simp_all add: new_role_def seed_role_valid)

lemma filter_links_ok: "consistent d \<Longrightarrow> consistent (d\<lparr>db_user_roles := filter P (db_user_roles d)\<rparr>)"
  by (auto simp: db_ok_def roles_valid_def distinct_map_filter)

lemma set_user_roles_ok: "keeps consistent (set_user_roles lm now name ids)"
  unfolding set_user_roles_def ensure_user_def
  by (intro keeps_intros keeps_transaction upsert_user_ok keeps_mupd insert_user_role_ok)
     (simp_all add: filter_links_ok [simplified] seqs_grow_def)

lemma update_role_ok:
  assumes "\<forall>p \<in> set ps. valid_rule p"
  shows "keeps consistent (update_role lm now rid n d as ps)"
  unfolding update_role_def
proof (rule keeps_mbind, rule keeps_transaction)
  show "keeps consistent (mwith (\<lambda>db. if role_name_exists n (Some rid) db
      then mraise (ValueError (''Role '' @ n @ '' already exists''))
      else mbind (mupd (set_role rid (\<lambda>r. r\<lparr>ro_name := n, ro_description := d,
             ro_actions := as, ro_permissions := ps, ro_updated_at := now\<rparr>)))
           (\<lambda>_. mwith (\<lambda>db'. mret (find_role rid db')))))" (is "keeps consistent (mwith ?body)")
  proof (rule keepsI)
    fix db assume ok: "consistent db"
    let ?f = "\<lambda>r. r\<lparr>ro_name := n, ro_description := d, ro_actions := as, ro_permissions := ps, ro_updated_at := now\<rparr>"
    show "consistent (snd (mwith ?body db))"
    proof (cases "role_name_exists n (Some rid) db")
      case False
      then have unique: "ro_id r = rid" if "r \<in> set (db_roles db)" "ro_name r = n" for r
        using that by (auto simp: role_name_exists_def list_ex_iff)
      have "consistent (set_role rid ?f db)"
      proof (rule set_role_ok [OF ok])
        fix r assume r: "r \<in> set (db_roles db)" "ro_id r = rid"
        have "inj_on ro_id (set (db_roles db))" using ok by (simp add: db_ok_def distinct_map)
        then show "ro_name (?f r) \<notin> ro_name ` (set (db_roles db) - {r})"
          using r unique by (auto dest: inj_onD)
      qed (use assms in auto)
      with False show ?thesis by (simp add: mbind_def)
    qed (use ok in simp)
  qed
qed (intro keeps_intros)+

lemma normalize_role_row_ok:
  assumes "wf_legacy_map lm" and "\<forall>p \<in> set (ro_permissions row). valid_rule p"
  shows "keeps consistent (normalize_role_row lm now row)"
  unfolding normalize_role_row_def
proof (intro keeps_intros keeps_mupd)
  fix d assume ok: "consistent d"
  obtain as ps where n: "normalized_role_actions_permissions lm (ro_actions row) (ro_permissions row) = (as, ps)"
    by (cases "normalized_role_actions_permissions lm (ro_actions row) (ro_permissions row)")
  have "\<forall>p \<in> set ps. valid_rule p" using normalized_valid [OF assms, of "ro_actions row"] n by simp
  then show "consistent ((let (as, ps) = normalized_role_actions_permissions lm (ro_actions row) (ro_permissions row)
      in set_role (ro_id row) (\<lambda>r. r\<lparr>ro_actions := as, ro_permissions := ps, ro_updated_at := now\<rparr>)) d)"
    unfolding n Let_def prod.case by (intro set_role_ok [OF ok]) simp_all
qed

lemma normalize_legacy_ok:
  assumes "wf_legacy_map lm"
  shows "keeps consistent (normalize_legacy_role_actions lm now)"
  unfolding normalize_legacy_role_actions_def
proof (rule keeps_transaction)
  show "keeps consistent (mwith (\<lambda>db. mbind (mmap (normalize_role_row lm now) (sort_key ro_id (db_roles db)))
      (\<lambda>us. mret (length (filter id us)))))" (is "keeps _ (mwith ?body)")
  proof (rule keepsI)
    fix db assume ok: "consistent db"
    have "keeps consistent (?body db)"
      using ok assms by (intro keeps_intros normalize_role_row_ok) (auto simp: roles_valid_def)
    from keepsD [OF this ok] show "consistent (snd (mwith ?body db))" by simp
  qed
  have "keeps (seqs_grow db) (normalize_role_row lm now row)" for db row
    unfolding normalize_role_row_def by (intro keeps_intros keeps_mupd) (simp add: seqs_grow_def set_role_def split: prod.splits)
  then show "keeps (seqs_grow db) (mwith (\<lambda>db. mbind (mmap (normalize_role_row lm now) (sort_key ro_id (db_roles db)))
      (\<lambda>us. mret (length (filter id us)))))" for db
    by (intro keeps_intros)
qed

section \<open>The states the application can reach\<close>

text \<open>
  The statements of both stores, from an empty database. The views give \<open>create_role\<close> and
  \<open>update_role\<close> normalised rules.
\<close>

inductive store_step :: "legacy_map \<Rightarrow> db \<Rightarrow> db \<Rightarrow> bool" for lm where
  create: "\<forall>p \<in> set ps. valid_rule p \<Longrightarrow> store_step lm db (snd (create_role lm now n d as ps db))"
| update: "\<forall>p \<in> set ps. valid_rule p \<Longrightarrow> store_step lm db (snd (update_role lm now rid n d as ps db))"
| delete: "store_step lm db (snd (delete_role rid db))"
| assign: "store_step lm db (snd (set_user_roles lm now name ids db))"
| seed: "store_step lm db (snd (seed_default_roles lm now db))"
| normalize: "store_step lm db (snd (normalize_legacy_role_actions lm now db))"
| ldap: "store_step lm db (snd (upsert_ldap_user now name fn gs rs as db))"
| snapshot: "store_step lm db (snd (update_policy_snapshot now name rs as db))"

inductive store_reachable :: "legacy_map \<Rightarrow> db \<Rightarrow> bool" for lm where
  empty: "store_reachable lm empty_db"
| step: "store_reachable lm db \<Longrightarrow> store_step lm db db' \<Longrightarrow> store_reachable lm db'"

inductive_cases store_step_cases: "store_step lm db db'"

lemma store_step_consistent:
  assumes "wf_legacy_map lm" and "store_step lm db db'" and ok: "consistent db"
  shows "consistent db'"
  using assms(2)
  by cases (simp_all only: keepsD [OF create_role_ok ok] keepsD [OF update_role_ok ok]
      keepsD [OF delete_role_ok ok] keepsD [OF set_user_roles_ok ok] keepsD [OF seed_default_roles_ok ok]
      keepsD [OF normalize_legacy_ok [OF assms(1)] ok] keepsD [OF upsert_ldap_user_ok ok]
      keepsD [OF update_policy_snapshot_ok ok])

lemma store_reachable_consistent:
  "store_reachable lm db \<Longrightarrow> wf_legacy_map lm \<Longrightarrow> consistent db"
  by (induction rule: store_reachable.induct) (use store_step_consistent in auto)


section \<open>The roles of a user\<close>

definition assigned_roles :: "db \<Rightarrow> string \<Rightarrow> role_row set" where
  "assigned_roles db name =
     (case find_user name db of None \<Rightarrow> {} | Some u \<Rightarrow> set (joined_roles db (us_id u)))"

lemma filter_find:
  assumes "distinct (map f xs)"
  shows "filter (\<lambda>x. f x = k) xs = (case find (\<lambda>x. f x = k) xs of None \<Rightarrow> [] | Some x \<Rightarrow> [x])"
  using assms
proof (induction xs)
  case (Cons a xs)
  have "f a = k \<Longrightarrow> filter (\<lambda>x. f x = k) xs = []"
    using Cons.prems by (auto simp: filter_empty_conv image_iff)
  then show ?case
  proof (cases "f a = k")
    case True
    then show ?thesis using \<open>f a = k \<Longrightarrow> filter (\<lambda>x. f x = k) xs = []\<close> by simp
  next
    case False
    with Cons show ?thesis by simp
  qed
qed simp

lemma users_named:
  "db_ok db \<Longrightarrow> filter (\<lambda>u. us_username u = name) (db_users db)
    = (case find_user name db of None \<Rightarrow> [] | Some u \<Rightarrow> [u])"
  by (simp add: db_ok_def find_user_def filter_find)

lemma user_permissions_answer:
  assumes "db_ok db"
  shows "\<exists>names as rs. user_permissions lm db name = Inr (RolesActionsRules names as rs)
    \<and> set as = (\<Union>ro \<in> assigned_roles db name. set (ro_actions ro))
    \<and> set rs = (\<Union>ro \<in> assigned_roles db name. set (derive_permissions lm (ro_actions ro) (ro_permissions ro)))"
  unfolding user_permissions_def users_named [OF assms] assigned_roles_def Let_def
  by (cases "find_user name db") auto

interpretation acs: role_store "user_permissions lm" db_ok assigned_roles
  "\<lambda>ro. set (ro_actions ro)" "\<lambda>ro. set (derive_permissions lm (ro_actions ro) (ro_permissions ro))" for lm
  by unfold_locales (rule user_permissions_answer)

lemma assigned_valid:
  assumes "consistent db" and "wf_legacy_map lm"
  shows "\<forall>ro \<in> assigned_roles db name.
    \<forall>rule \<in> set (derive_permissions lm (ro_actions ro) (ro_permissions ro)). valid_rule rule"
proof
  fix ro assume "ro \<in> assigned_roles db name"
  then have "ro \<in> set (db_roles db)"
    by (auto simp: assigned_roles_def set_joined_roles split: option.splits)
  then have "\<forall>p \<in> set (ro_permissions ro). valid_rule p" using assms(1) by (simp add: roles_valid_def)
  then show "\<forall>rule \<in> set (derive_permissions lm (ro_actions ro) (ro_permissions ro)). valid_rule rule"
    by (rule derived_valid [OF assms(2)])
qed

lemma role_ids_exist_iff:
  assumes "db_ok db"
  shows "role_ids_exist ids db \<longleftrightarrow> set ids \<subseteq> ro_id ` set (db_roles db)"
proof (cases "ids = []")
  case False
  let ?A = "set ids" and ?B = "ro_id ` set (db_roles db)"
  have inj: "inj_on ro_id (set (db_roles db))" and d: "distinct (db_roles db)"
    using assms by (simp_all add: db_ok_def distinct_map)
  have "length (filter (\<lambda>r. ro_id r \<in> ?A) (db_roles db)) = card {r \<in> set (db_roles db). ro_id r \<in> ?A}"
    using d by (metis distinct_card distinct_filter set_filter)
  also have "\<dots> = card (ro_id ` {r \<in> set (db_roles db). ro_id r \<in> ?A})"
    using inj by (intro card_image [symmetric]) (auto intro: inj_on_subset)
  also have "ro_id ` {r \<in> set (db_roles db). ro_id r \<in> ?A} = ?A \<inter> ?B" by auto
  finally have "role_ids_exist ids db \<longleftrightarrow> card (?A \<inter> ?B) = card ?A"
    using False by (simp add: role_ids_exist_def length_remdups_card_conv)
  also have "\<dots> \<longleftrightarrow> ?A \<subseteq> ?B"
    by (metis List.finite_set card_subset_eq inf.absorb_iff1 inf_le1)
  finally show ?thesis .
qed (simp add: role_ids_exist_def)

lemma role_ids_exist_cong: "db_roles db' = db_roles db \<Longrightarrow> role_ids_exist ids db' = role_ids_exist ids db"
  by (simp add: role_ids_exist_def)

lemma insert_links:
  assumes "uid \<in> us_id ` set (db_users db)" and "set ids \<subseteq> ro_id ` set (db_roles db)" and "distinct ids"
    and "\<forall>l \<in> set (db_user_roles db). ur_user l = uid \<longrightarrow> ur_role l \<notin> set ids"
  shows "\<exists>r. mmap (insert_user_role now uid) ids db = (Inr r, db\<lparr>db_user_roles := db_user_roles db
      @ map (\<lambda>i. \<lparr>ur_user = uid, ur_role = i, ur_created_at = now\<rparr>) ids\<rparr>)"
  using assms
proof (induction ids arbitrary: db)
  case (Cons i ids)
  let ?db = "db\<lparr>db_user_roles := db_user_roles db @ [\<lparr>ur_user = uid, ur_role = i, ur_created_at = now\<rparr>]\<rparr>"
  have step: "insert_user_role now uid i db = (Inr (), ?db)"
    using Cons.prems by (auto simp: insert_user_role_def)
  have "\<exists>r. mmap (insert_user_role now uid) ids ?db = (Inr r, ?db\<lparr>db_user_roles := db_user_roles ?db
      @ map (\<lambda>i. \<lparr>ur_user = uid, ur_role = i, ur_created_at = now\<rparr>) ids\<rparr>)"
    using Cons.prems by (intro Cons.IH) auto
  then show ?case using step by (auto simp: mbind_def)
qed simp

text \<open>The effect of the assignment, in one equation per outcome.\<close>

lemma upsert_user_result:
  assumes "db_ok db" and "upsert_user row f db = (r, db')"
    and "\<And>u. us_id (f u) = us_id u" and "\<And>u. us_username (f u) = us_username u"
  shows "\<exists>u. r = Inr (us_id u) \<and> find_user (us_username row) db' = Some u
    \<and> db_user_roles db' = db_user_roles db \<and> db_roles db' = db_roles db
    \<and> roles_seq db' = roles_seq db"
proof (cases "find_user (us_username row) db")
  case None
  then have "us_username row \<notin> us_username ` set (db_users db)" by (rule iffD1 [OF find_user_None])
  with None assms(2) show ?thesis
    by (auto simp: upsert_user_def Let_def find_user_def find_append_one)
next
  case (Some old)
  with find_user_Some [OF Some] have n: "us_username old = us_username row" "old \<in> set (db_users db)" by auto
  then have "us_username row \<in> us_username ` set (db_users db)" by (metis imageI)
  with Some assms(2,3,4) show ?thesis
    by (auto simp: upsert_user_def Let_def find_user_def find_map_other)
qed

lemma ensure_user_result:
  assumes "db_ok db" and "ensure_user now name db = (r, db')"
  shows "\<exists>u. r = Inr (us_id u) \<and> find_user name db' = Some u
    \<and> db_user_roles db' = db_user_roles db \<and> db_roles db' = db_roles db \<and> roles_seq db' = roles_seq db"
  using upsert_user_result [OF assms(1) assms(2) [unfolded ensure_user_def]] by simp

lemma set_user_roles_missing:
  assumes "db_ok db" and "\<not> set ids \<subseteq> ro_id ` set (db_roles db)"
  shows "\<exists>n. set_user_roles lm now name ids db
    = (Inl (ValueError ''One or more roles were not found''), db\<lparr>users_seq := n\<rparr>)"
proof -
  obtain r db1 where e: "ensure_user now name db = (r, db1)" by (cases "ensure_user now name db")
  from ensure_user_result [OF assms(1) e]
  obtain u :: user_row where u: "r = Inr (us_id u)" "db_roles db1 = db_roles db" "roles_seq db1 = roles_seq db" by blast
  have "\<not> role_ids_exist ids db1"
    unfolding role_ids_exist_cong [OF u(2)] role_ids_exist_iff [OF assms(1)] by (rule assms(2))
  then show ?thesis
    using e u by (auto simp: set_user_roles_def transaction_def mbind_def)
qed

lemma set_user_roles_found:
  assumes "db_ok db" and "set ids \<subseteq> ro_id ` set (db_roles db)"
  shows "\<exists>u db'. set_user_roles lm now name ids db = (Inr (Some (user_detail_of lm db' u)), db')
    \<and> find_user name db' = Some u \<and> db_roles db' = db_roles db
    \<and> db_user_roles db' = filter (\<lambda>l. ur_user l \<noteq> us_id u) (db_user_roles db)
        @ map (\<lambda>i. \<lparr>ur_user = us_id u, ur_role = i, ur_created_at = now\<rparr>) (sorted_set ids)"
proof -
  obtain r db1 where e: "ensure_user now name db = (r, db1)" by (cases "ensure_user now name db")
  from ensure_user_result [OF assms(1) e]
  obtain u where u: "r = Inr (us_id u)" "find_user name db1 = Some u"
      "db_user_roles db1 = db_user_roles db" "db_roles db1 = db_roles db" by auto
  let ?db2 = "db1\<lparr>db_user_roles := filter (\<lambda>l. ur_user l \<noteq> us_id u) (db_user_roles db1)\<rparr>"
  have "role_ids_exist ids db1"
    unfolding role_ids_exist_cong [OF u(4)] role_ids_exist_iff [OF assms(1)] by (rule assms(2))
  moreover have "us_id u \<in> us_id ` set (db_users ?db2)" using find_user_Some [OF u(2)] by simp
  then obtain q where "mmap (insert_user_role now (us_id u)) (sorted_set ids) ?db2
      = (Inr q, ?db2\<lparr>db_user_roles := db_user_roles ?db2
          @ map (\<lambda>i. \<lparr>ur_user = us_id u, ur_role = i, ur_created_at = now\<rparr>) (sorted_set ids)\<rparr>)"
    using insert_links [of "us_id u" ?db2 "sorted_set ids" now] assms(2) u(4) by auto
  ultimately have "set_user_roles lm now name ids db =
      (let db' = db1\<lparr>db_user_roles := filter (\<lambda>l. ur_user l \<noteq> us_id u) (db_user_roles db)
          @ map (\<lambda>i. \<lparr>ur_user = us_id u, ur_role = i, ur_created_at = now\<rparr>) (sorted_set ids)\<rparr>
       in (Inr (get_user_roles lm name db'), db'))"
    using e u(1,3) by (simp add: set_user_roles_def transaction_def mbind_def Let_def)
  with u show ?thesis
    by (auto simp: Let_def get_user_roles_def find_user_def)
qed


section \<open>Properties\<close>

text \<open>
  C5. The tables stay consistent. In every state that the operations of both stores reach, keys and
  names are unique, every link joins an existing user and role, no identifier is ahead of its
  sequence, and every stored permission is a well-formed rule.
\<close>

theorem reachable_consistent:
  assumes "merged_legacy_permission_map content = Inr lm" and "store_reachable lm db"
  shows "db_ok db \<and> roles_valid db"
  using store_reachable_consistent [OF assms(2) merged_legacy_wf [OF assms(1)]] .

definition demo :: db where
  "demo = snd (set_user_roles merged_defaults 3 ''carol'' [1]
     (snd (create_role merged_defaults 2 ''operator'' None [''view-qos''] [''jobs:edit:self'']
       (snd (create_role merged_defaults 1 ''viewer'' None [] [''jobs:view:self''] empty_db)))))"

lemma demo_reachable: "store_reachable merged_defaults demo"
proof -
  have valid: "\<forall>p \<in> set [''jobs:view:self'']. valid_rule p" "\<forall>p \<in> set [''jobs:edit:self'']. valid_rule p"
    by code_simp+
  show ?thesis
    unfolding demo_def by (intro store_reachable.step [OF _ store_step.assign]
      store_reachable.step [OF _ store_step.create [OF valid(2)]]
      store_reachable.step [OF store_reachable.empty store_step.create [OF valid(1)]])
qed

theorem reachable_consistent_witness: "db_ok demo \<and> roles_valid demo"
  using reachable_consistent [OF merged_defaults demo_reachable] .

text \<open>
  C6. Assigning roles replaces. When every identifier names a role, the user (created if missing) has
  afterwards exactly those roles, the answer lists them, and the links of other users and the roles
  themselves are untouched; when some identifier does not, the call raises and every table is as
  before: no user is created and no link lost.
\<close>

theorem set_user_roles_exact:
  assumes "db_ok db"
  shows "case set_user_roles lm now name ids db of
      (Inl e, db') \<Rightarrow> \<not> set ids \<subseteq> ro_id ` set (db_roles db)
         \<and> e = ValueError ''One or more roles were not found'' \<and> db' = db\<lparr>users_seq := users_seq db'\<rparr>
    | (Inr None, db') \<Rightarrow> False
    | (Inr (Some d), db') \<Rightarrow> set ids \<subseteq> ro_id ` set (db_roles db)
         \<and> ro_id ` assigned_roles db' name = set ids
         \<and> ud_username d = name \<and> ri_id ` set (ud_custom_roles d) = set ids
         \<and> db_roles db' = db_roles db
         \<and> (\<exists>uid. find_user name db' \<noteq> None \<and> uid = us_id (the (find_user name db'))
              \<and> filter (\<lambda>l. ur_user l \<noteq> uid) (db_user_roles db') = filter (\<lambda>l. ur_user l \<noteq> uid) (db_user_roles db))"
proof (cases "set ids \<subseteq> ro_id ` set (db_roles db)")
  case False
  obtain n where "set_user_roles lm now name ids db
      = (Inl (ValueError ''One or more roles were not found''), db\<lparr>users_seq := n\<rparr>)"
    using set_user_roles_missing [OF assms False] by blast
  with False show ?thesis by simp
next
  case True
  from set_user_roles_found [OF assms True, of lm now name] obtain u db' where
    res: "set_user_roles lm now name ids db = (Inr (Some (user_detail_of lm db' u)), db')"
    and u: "find_user name db' = Some u" and roles: "db_roles db' = db_roles db"
    and links: "db_user_roles db' = filter (\<lambda>l. ur_user l \<noteq> us_id u) (db_user_roles db)
        @ map (\<lambda>i. \<lparr>ur_user = us_id u, ur_role = i, ur_created_at = now\<rparr>) (sorted_set ids)"
    by blast
  have linked: "(\<exists>l \<in> set (db_user_roles db'). ur_user l = us_id u \<and> ur_role l = i) \<longleftrightarrow> i \<in> set ids" for i
    unfolding links
    by (auto intro!: bexI [of _ "\<lparr>ur_user = us_id u, ur_role = i, ur_created_at = now\<rparr>"])
  then have set: "set (joined_roles db' (us_id u)) = {r \<in> set (db_roles db). ro_id r \<in> set ids}"
    unfolding set_joined_roles roles by blast
  then have ids: "ro_id ` set (joined_roles db' (us_id u)) = set ids" using True by auto
  have "ri_id ` set (ud_custom_roles (user_detail_of lm db' u)) = set ids"
    using ids by (simp add: user_detail_of_def Let_def image_image role_item_of_def)
  moreover have "ud_username (user_detail_of lm db' u) = name"
    using find_user_Some [OF u] by (simp add: user_detail_of_def Let_def)
  ultimately show ?thesis
    using True res u roles links ids by (simp add: assigned_roles_def)
qed

theorem set_user_roles_exact_witness:
  "ro_id ` assigned_roles (snd (set_user_roles merged_defaults 3 ''dave'' [2, 1, 2] demo)) ''dave'' = {1, 2}"
proof -
  have ok: "db_ok demo" by code_simp
  have ran: "\<not> isl (fst (set_user_roles merged_defaults 3 ''dave'' [2, 1, 2] demo))"
    by code_simp
  then show ?thesis
    using set_user_roles_exact [OF ok, where lm = merged_defaults and now = 3 and name = "''dave''" and ids = "[2, 1, 2]"]
    by (auto split: prod.splits sum.splits option.splits)
qed

text \<open>
  C7. What the database roles allow. With a store over a reachable database, a named user is allowed
  exactly what the file policy grants or some role assigned to the user grants, through the role's
  actions and the legacy map or through its (derived) permission rules.
\<close>

theorem store_decision:
  assumes "new_manager pol True (Some (user_permissions lm db)) content = Inr m"
    and "merged_legacy_permission_map content' = Inr lm" and "store_reachable lm db"
    and "\<not> is_anonymous u"
  shows "allowed_user_permission m u r oper sc
    = Inr (actions_grant m (snd (fp_roles_actions pol u)) (r, oper, sc)
        \<or> (\<exists>ro \<in> assigned_roles db (login u).
             actions_grant m (ro_actions ro) (r, oper, sc)
             \<or> denotes (derive_permissions lm (ro_actions ro) (ro_permissions ro)) (r, oper, sc)))"
proof -
  have m: "am_enabled m" "am_store m = Some (user_permissions lm db)" "am_file_policy m = pol"
    using assms(1) by (auto simp: new_manager_def rbind_eq_Inr)
  note lm = merged_legacy_wf [OF assms(2)]
  note ok = store_reachable_consistent [OF assms(3) lm]
  have grants: "acs.role_grants lm m ro q \<longleftrightarrow> actions_grant m (ro_actions ro) q
      \<or> denotes (derive_permissions lm (ro_actions ro) (ro_permissions ro)) q" for ro q
    unfolding acs.role_grants_def actions_grant_def
    by (subst (3) denotes_single) simp
  show ?thesis
    using acs.role_decision [OF new_manager_wf [OF assms(1)] m(1,2) assms(4) conjunct1 [OF ok]
        assigned_valid [OF ok lm], of r oper sc]
    by (simp add: grants file_roles_actions_def m(3))
qed

theorem store_decision_witness:
  "rbind (new_manager (fixed_policy []) True (Some (user_permissions merged_defaults demo)) None)
     (\<lambda>m. allowed_user_permission m (named_user ''carol'') ''jobs'' ''edit'' ''*'') = Inr False"
proof -
  note m = new_manager_defaults [of "fixed_policy []" True "Some (user_permissions merged_defaults demo)"]
  have user: "\<not> is_anonymous (named_user ''carol'')" "snd (fp_roles_actions (fixed_policy []) u) = []" for u
    by (simp_all add: named_user_def fixed_policy_def)
  have deny: "\<not> (\<exists>ro \<in> assigned_roles demo (login (named_user ''carol'')).
      actions_grant \<lparr>am_file_policy = fixed_policy [], am_enabled = True,
        am_store = Some (user_permissions merged_defaults demo), am_legacy_map = merged_defaults\<rparr>
        (ro_actions ro) (''jobs'', ''edit'', ''*'')
      \<or> denotes (derive_permissions merged_defaults (ro_actions ro) (ro_permissions ro)) (''jobs'', ''edit'', ''*''))"
    by code_simp
  from store_decision [OF m merged_defaults demo_reachable user(1), where r = "''jobs''" and oper = "''edit''" and sc = "''*''"]
  show ?thesis using m deny by (simp add: user(2))
qed

text \<open>
  Assigning a user more roles never takes a permission away: if the roles of the user in one
  consistent database are among those in another, whatever is allowed with the first is allowed with
  the second.
\<close>

theorem store_monotone:
  assumes "new_manager pol True st content = Inr m" and "wf_legacy_map lm"
    and "consistent db" and "consistent db'"
    and "assigned_roles db (login u) \<subseteq> assigned_roles db' (login u)"
    and "allowed_user_permission (set_access_control_store (Some (user_permissions lm db)) m) u r oper sc = Inr True"
  shows "allowed_user_permission (set_access_control_store (Some (user_permissions lm db')) m) u r oper sc = Inr True"
proof -
  have m: "am_enabled m" using assms(1) by (auto simp: new_manager_def rbind_eq_Inr)
  have "\<not> is_anonymous u"
    using assms(6) m by (auto simp: set_access_control_store_def allowed_user_permission_def access_control_available_def)
  then show ?thesis
    using acs.assigning_monotone [OF new_manager_wf [OF assms(1)] m _ _ _ assms(5) assigned_valid [OF assms(4,2)]]
      assms(3,4,6)
    unfolding set_access_control_store_def by blast
qed

theorem store_monotone_witness:
  "allowed_user_permission (set_access_control_store (Some (user_permissions merged_defaults
      (snd (set_user_roles merged_defaults 4 ''carol'' [1, 2] demo))))
     \<lparr>am_file_policy = fixed_policy [], am_enabled = True, am_store = None, am_legacy_map = merged_defaults\<rparr>)
     (named_user ''carol'') ''jobs'' ''view'' ''self'' = Inr True"
proof -
  let ?m = "\<lparr>am_file_policy = fixed_policy [], am_enabled = True, am_store = None, am_legacy_map = merged_defaults\<rparr>"
  let ?db = "snd (set_user_roles merged_defaults 4 ''carol'' [1, 2] demo)"
  note wf = merged_legacy_wf [OF merged_defaults]
  have ok: "consistent demo" using store_reachable_consistent [OF demo_reachable wf] .
  have ok': "consistent ?db" by (rule keepsD [OF set_user_roles_ok ok])
  have sub: "assigned_roles demo (login (named_user ''carol'')) \<subseteq> assigned_roles ?db (login (named_user ''carol''))"
    by code_simp
  have allowed: "allowed_user_permission (set_access_control_store (Some (user_permissions merged_defaults demo)) ?m)
      (named_user ''carol'') ''jobs'' ''view'' ''self'' = Inr True"
    by code_simp
  show ?thesis by (rule store_monotone [OF new_manager_defaults wf ok ok' sub allowed])
qed

end
