(* ===== verification/RoleMaintenance.thy ===== *)
theory RoleMaintenance
  imports AccessControlStore
begin

text \<open>
  What the maintenance operations of \<open>AccessControlStore\<close> that run when the agent starts do to the
  stored roles: \<open>normalize_legacy_role_actions\<close> and \<open>seed_default_roles\<close>.
\<close>

section \<open>Normalisation\<close>

text \<open>The row that the normalisation leaves.\<close>

definition normalized_row :: "legacy_map \<Rightarrow> int \<Rightarrow> role_row \<Rightarrow> role_row \<Rightarrow> role_row" where
  "normalized_row lm now s r =
     (if role_needs_update lm s
      then r\<lparr>ro_actions := fst (normalized_role_actions_permissions lm (ro_actions s) (ro_permissions s)),
             ro_permissions := snd (normalized_role_actions_permissions lm (ro_actions s) (ro_permissions s)),
             ro_updated_at := now\<rparr>
      else r)"

lemma normalize_role_row_eq:
  "normalize_role_row lm now row db =
     (Inr (role_needs_update lm row),
      db\<lparr>db_roles := map (\<lambda>r. if ro_id r = ro_id row then normalized_row lm now row r else r) (db_roles db)\<rparr>)"
proof (cases "role_needs_update lm row")
  case True
  then show ?thesis
    by (cases "normalized_role_actions_permissions lm (ro_actions row) (ro_permissions row)")
       (simp add: normalize_role_row_def normalized_row_def set_role_def mbind_def cong: map_cong)
next
  case False
  then have "map (\<lambda>r. if ro_id r = ro_id row then normalized_row lm now row r else r) (db_roles db) = db_roles db"
    by (simp add: normalized_row_def map_idI)
  with False show ?thesis by (simp add: normalize_role_row_def)
qed

lemma normalized_row_id [simp]: "ro_id (normalized_row lm now s r) = ro_id r"
  and normalized_row_name [simp]: "ro_name (normalized_row lm now s r) = ro_name r"
  by (simp_all add: normalized_row_def)

lemma normalize_rows:
  assumes "distinct (map ro_id rows)"
  shows "mmap (normalize_role_row lm now) rows db = (Inr (map (role_needs_update lm) rows),
    db\<lparr>db_roles := map (\<lambda>r. case find (\<lambda>s. ro_id s = ro_id r) rows of None \<Rightarrow> r
        | Some s \<Rightarrow> normalized_row lm now s r) (db_roles db)\<rparr>)"
  using assms
proof (induction rows arbitrary: db)
  case (Cons row rows)
  let ?g = "\<lambda>r. if ro_id r = ro_id row then normalized_row lm now row r else r"
  let ?h = "\<lambda>rows r. case find (\<lambda>s. ro_id s = ro_id r) rows of None \<Rightarrow> r | Some s \<Rightarrow> normalized_row lm now s r"
  have none: "find (\<lambda>s. ro_id s = ro_id row) rows = None"
    using Cons.prems by (auto simp: find_None_iff image_iff)
  have "?h rows (?g r) = ?h (row # rows) r" for r
    using none by auto
  then have "map (?h rows) (map ?g (db_roles db)) = map (?h (row # rows)) (db_roles db)"
    by (simp only: map_map comp_def)
  then show ?case
    using Cons.IH [of "db\<lparr>db_roles := map ?g (db_roles db)\<rparr>"] Cons.prems
    by (simp add: mbind_def normalize_role_row_eq)
qed simp

lemma find_by_id:
  assumes "distinct (map ro_id rs)" and "r \<in> set rs"
  shows "find (\<lambda>s. ro_id s = ro_id r) (sort_key ro_id rs) = Some r"
proof -
  have inj: "inj_on ro_id (set rs)" using assms(1) by (simp add: distinct_map)
  obtain s where s: "find (\<lambda>s. ro_id s = ro_id r) (sort_key ro_id rs) = Some s"
    using assms(2) by (cases "find (\<lambda>s. ro_id s = ro_id r) (sort_key ro_id rs)") (auto simp: find_None_iff)
  then have "s \<in> set rs" "ro_id s = ro_id r" by (auto simp: find_Some_iff) (metis nth_mem set_sort length_sort)
  then have "s = r" using inj assms(2) by (auto dest: inj_onD)
  with s show ?thesis by simp
qed

lemma normalize_effect:
  assumes "db_ok db"
  shows "normalize_legacy_role_actions lm now db
    = (Inr (length (filter (role_needs_update lm) (db_roles db))),
       db\<lparr>db_roles := map (\<lambda>r. normalized_row lm now r r) (db_roles db)\<rparr>)"
proof -
  let ?rows = "sort_key ro_id (db_roles db)"
  have ids: "distinct (map ro_id (db_roles db))" using assms by (simp add: db_ok_def)
  have "distinct (map ro_id ?rows)" using ids by (simp add: distinct_map)
  note loop = normalize_rows [OF this, of lm now db]
  have "map (\<lambda>r. case find (\<lambda>s. ro_id s = ro_id r) ?rows of None \<Rightarrow> r | Some s \<Rightarrow> normalized_row lm now s r) (db_roles db)
      = map (\<lambda>r. normalized_row lm now r r) (db_roles db)"
    by (rule map_cong [OF refl]) (simp add: find_by_id [OF ids])
  moreover have "length (filter id (map (role_needs_update lm) ?rows)) = length (filter (role_needs_update lm) (db_roles db))"
    by (simp add: filter_map comp_def) (metis filter_sort length_sort)
  ultimately show ?thesis
    using loop by (simp add: normalize_legacy_role_actions_def transaction_def mbind_def)
qed

lemma normalized_idem:
  assumes "normalized_role_actions_permissions lm as ps = (as', ps')"
  shows "normalized_role_actions_permissions lm as' ps' = (as', ps')"
proof -
  have as: "as' = sorted_set (filter (\<lambda>a. a \<notin> set REMOVED_ROLE_ACTIONS) as)"
    and ps: "ps' = sorted_set (ps @ concat (map (mapped_rules lm) (filter (\<lambda>a. a = ''admin-manage'' \<or> a = ''view-ai'') as)))"
    using assms by (auto simp: normalized_role_actions_permissions_def)
  have "filter (\<lambda>a. a \<notin> set REMOVED_ROLE_ACTIONS) as' = as'"
    by (intro filter_True) (simp add: as)
  then have 1: "sorted_set (filter (\<lambda>a. a \<notin> set REMOVED_ROLE_ACTIONS) as') = as'" by (simp add: as)
  have kept: "''admin-manage'' \<notin> set REMOVED_ROLE_ACTIONS" "''view-ai'' \<notin> set REMOVED_ROLE_ACTIONS"
    by (simp_all add: REMOVED_ROLE_ACTIONS_def)
  have "set (filter (\<lambda>a. a = ''admin-manage'' \<or> a = ''view-ai'') as')
      = set (filter (\<lambda>a. a = ''admin-manage'' \<or> a = ''view-ai'') as)"
    using kept by (auto simp: as)
  then have "set (ps' @ concat (map (mapped_rules lm) (filter (\<lambda>a. a = ''admin-manage'' \<or> a = ''view-ai'') as')))
      = set (ps @ concat (map (mapped_rules lm) (filter (\<lambda>a. a = ''admin-manage'' \<or> a = ''view-ai'') as)))"
    by (simp add: ps)
  then have "sorted_set (ps' @ concat (map (mapped_rules lm) (filter (\<lambda>a. a = ''admin-manage'' \<or> a = ''view-ai'') as'))) = ps'"
    unfolding ps by (rule sorted_set_cong)
  with 1 show ?thesis by (simp add: normalized_role_actions_permissions_def)
qed

lemma normalized_row_settled: "\<not> role_needs_update lm (normalized_row lm now r r)"
proof (cases "role_needs_update lm r")
  case True
  then show ?thesis
    using normalized_idem [of lm "ro_actions r" "ro_permissions r"]
    by (simp add: normalized_row_def role_needs_update_def)
qed (simp add: normalized_row_def)

text \<open>Deriving permissions from actions adds nothing to what the actions themselves grant.\<close>

definition row_grants :: "legacy_map \<Rightarrow> role_row \<Rightarrow> grant \<Rightarrow> bool" where
  "row_grants lm ro q \<longleftrightarrow>
     (\<exists>a \<in> set (ro_actions ro). denotes (mapped_rules lm a) q)
     \<or> denotes (derive_permissions lm (ro_actions ro) (ro_permissions ro)) q"

lemma row_grants_eq:
  "row_grants lm ro q \<longleftrightarrow> (\<exists>a \<in> set (ro_actions ro). denotes (mapped_rules lm a) q) \<or> denotes (ro_permissions ro) q"
  by (auto simp: row_grants_def derive_permissions_def denotes_mapped)

lemma normalized_row_grants:
  assumes "list_all (\<lambda>a. mapped_rules lm a = []) REMOVED_ROLE_ACTIONS"
  shows "row_grants lm (normalized_row lm now r r) q \<longleftrightarrow> row_grants lm r q"
proof (cases "role_needs_update lm r")
  case True
  have "a \<notin> set REMOVED_ROLE_ACTIONS" if "denotes (mapped_rules lm a) q" for a
    using assms that by (auto simp: list_all_iff)
  then show ?thesis
    using True
    by (auto simp: row_grants_eq normalized_row_def normalized_role_actions_permissions_def
        denotes_append denotes_mapped)
qed (simp add: normalized_row_def)

lemma normalized_assigned:
  assumes "db' = db\<lparr>db_roles := map (\<lambda>r. normalized_row lm now r r) (db_roles db)\<rparr>"
  shows "assigned_roles db' name = (\<lambda>r. normalized_row lm now r r) ` assigned_roles db name"
  unfolding assms by (auto simp: assigned_roles_def set_joined_roles find_user_def intro!: imageI split: option.splits)


section \<open>Seeding\<close>

definition seeded_row :: "legacy_map \<Rightarrow> int \<Rightarrow> int \<Rightarrow> seed_role \<Rightarrow> role_row" where
  "seeded_row lm now i role =
     \<lparr>ro_id = i, ro_name = sr_name role, ro_description = Some (sr_description role),
      ro_actions = sort (map fst (filter (\<lambda>(a, req). implied_action (sr_permissions role) req) lm)),
      ro_permissions = sr_permissions role, ro_created_at = now, ro_updated_at = now\<rparr>"

lemma seed_rows:
  assumes "wf_legacy_map lm" and "\<forall>role \<in> set roles. \<forall>p \<in> set (sr_permissions role). valid_rule p"
    and "distinct (map sr_name roles)" and "\<forall>role \<in> set roles. sr_name role \<notin> ro_name ` set (db_roles db)"
  shows "mmap (\<lambda>role. mbind (mlift (permission_rules_to_legacy_actions (sr_permissions role) lm)) (\<lambda>actions.
            insert_role (new_role now (sr_name role) (Some (sr_description role)) actions (sr_permissions role)))) roles db
    = (let n = roles_seq db + int (length roles); rows = map2 (seeded_row lm now) [roles_seq db + 1 .. n] roles
       in (Inr rows, db\<lparr>roles_seq := n, db_roles := db_roles db @ rows\<rparr>))"
  using assms(2-4)
proof (induction roles arbitrary: db)
  case (Cons role roles)
  let ?new = "seeded_row lm now (roles_seq db + 1) role"
  let ?db = "db\<lparr>roles_seq := roles_seq db + 1, db_roles := db_roles db @ [?new]\<rparr>"
  have acts: "permission_rules_to_legacy_actions (sr_permissions role) lm
      = Inr (sort (map fst (filter (\<lambda>(a, req). implied_action (sr_permissions role) req) lm)))"
    using Cons.prems by (intro rules_to_legacy_actions_eq [OF assms(1)]) simp
  have name: "ro_name ?new = sr_name role" by (simp add: seeded_row_def)
  have step: "insert_role (new_role now (sr_name role) (Some (sr_description role))
      (sort (map fst (filter (\<lambda>(a, req). implied_action (sr_permissions role) req) lm))) (sr_permissions role)) db
      = (Inr ?new, ?db)"
    using Cons.prems by (simp add: insert_role_def new_role_def seeded_row_def Let_def)
  have fresh: "\<forall>r \<in> set roles. sr_name r \<notin> ro_name ` set (db_roles ?db)"
    using Cons.prems name by (auto simp: image_iff)
  have ids: "[roles_seq db + 1 .. roles_seq db + int (length (role # roles))]
      = (roles_seq db + 1) # [roles_seq db + 1 + 1 .. roles_seq db + 1 + int (length roles)]"
    by (subst upto_rec1) (simp_all add: algebra_simps)
  have rest: "\<forall>role \<in> set roles. \<forall>p \<in> set (sr_permissions role). valid_rule p" "distinct (map sr_name roles)"
    using Cons.prems by simp_all
  show ?case
    using Cons.IH [OF rest fresh] acts step unfolding ids Let_def by (simp add: mbind_def algebra_simps)
qed (simp add: Let_def)

section \<open>Properties\<close>

text \<open>
  C38. Normalising legacy roles is safe. It succeeds on any consistent database, reports the number of
  rows it rewrites, leaves nothing for a second run, and changes no decision of the policy manager,
  as long as the legacy map gives the removed actions no rule (the default map gives them none).
\<close>

theorem normalize_preserves_decisions:
  assumes "new_manager pol True st content = Inr m" and "lm = am_legacy_map m" and "consistent db"
    and "list_all (\<lambda>a. mapped_rules lm a = []) REMOVED_ROLE_ACTIONS"
  shows "case normalize_legacy_role_actions lm now db of (res, db') \<Rightarrow>
    res = Inr (length (filter (role_needs_update lm) (db_roles db)))
    \<and> normalize_legacy_role_actions lm now' db' = (Inr 0, db')
    \<and> allowed_user_permission (set_access_control_store (Some (user_permissions lm db')) m) u r oper sc
      = allowed_user_permission (set_access_control_store (Some (user_permissions lm db)) m) u r oper sc"
proof -
  let ?db = "db\<lparr>db_roles := map (\<lambda>r. normalized_row lm now r r) (db_roles db)\<rparr>"
  let ?m = "\<lambda>db. set_access_control_store (Some (user_permissions lm db)) m"
  have wfm: "wf_manager m" by (rule new_manager_wf [OF assms(1)])
  then have lm: "wf_legacy_map lm" using assms(2) by (simp add: wf_manager_def)
  have run: "normalize_legacy_role_actions lm now db
      = (Inr (length (filter (role_needs_update lm) (db_roles db))), ?db)"
    using assms(3) by (simp add: normalize_effect)
  have ok: "consistent ?db" using keepsD [OF normalize_legacy_ok [OF lm] assms(3), of now] run by simp
  have settled: "map (\<lambda>r. normalized_row lm now' r r) (db_roles ?db) = db_roles ?db"
    by (simp add: normalized_row_def [of lm now'] normalized_row_settled)
  have again: "normalize_legacy_role_actions lm now' ?db = (Inr 0, ?db)"
    unfolding normalize_effect [OF conjunct1 [OF ok]] settled
    by (simp add: normalized_row_settled filter_map comp_def)
  have grants: "acs.role_grants lm (?m d) ro q \<longleftrightarrow> row_grants lm ro q" for d ro q
    unfolding acs.role_grants_def row_grants_def set_access_control_store_def assms(2)
    by (subst (3) denotes_single) simp
  have decision: "allowed_user_permission (?m d) u r oper sc
      = Inr (\<not> is_anonymous u \<and> (actions_grant m (snd (file_roles_actions m u)) (r, oper, sc)
             \<or> (\<exists>ro \<in> assigned_roles d (login u). row_grants lm ro (r, oper, sc))))" if d: "consistent d" for d
  proof (cases "is_anonymous u")
    case True
    then show ?thesis using assms(1) decision_anonymous [of "?m d" u r oper sc]
      by (auto simp: set_access_control_store_def access_control_available_def new_manager_def rbind_eq_Inr)
  next
    case False
    have m: "wf_manager (?m d)" "am_enabled (?m d)" "am_store (?m d) = Some (user_permissions lm d)"
      using wfm assms(1) by (auto simp: set_access_control_store_def wf_manager_def new_manager_def rbind_eq_Inr)
    have "actions_grant (?m d) (snd (file_roles_actions (?m d) u)) q
        = actions_grant m (snd (file_roles_actions m u)) q" for q
      by (simp add: set_access_control_store_def actions_grant_def file_roles_actions_def)
    with acs.role_decision [OF m False conjunct1 [OF d] assigned_valid [OF d lm], of r oper sc] False
    show ?thesis by (simp add: grants)
  qed
  have "(\<exists>ro \<in> assigned_roles ?db (login u). row_grants lm ro q)
      \<longleftrightarrow> (\<exists>ro \<in> assigned_roles db (login u). row_grants lm ro q)" for q
    unfolding normalized_assigned [OF refl] by (simp add: normalized_row_grants [OF assms(4)])
  then show ?thesis using run again decision [OF ok] decision [OF assms(3)] by simp
qed

definition legacy_demo :: db where
  "legacy_demo = snd (create_role merged_defaults 1 ''old'' None [''view-jobs'', ''view-ai'', ''manage-ai''] [] empty_db)"

lemma legacy_demo_consistent: "consistent legacy_demo"
  unfolding legacy_demo_def by (rule keepsD [OF create_role_ok]) simp_all

theorem normalize_preserves_decisions_witness:
  "\<exists>db'. normalize_legacy_role_actions merged_defaults 2 legacy_demo = (Inr 1, db')
     \<and> normalize_legacy_role_actions merged_defaults 3 db' = (Inr 0, db')"
proof -
  have unmapped: "list_all (\<lambda>a. mapped_rules merged_defaults a = []) REMOVED_ROLE_ACTIONS" by code_simp
  have one: "length (filter (role_needs_update merged_defaults) (db_roles legacy_demo)) = 1" by code_simp
  show ?thesis
    using normalize_preserves_decisions [OF new_manager_defaults [of "fixed_policy []" True None] _
        legacy_demo_consistent unmapped, where now = 2 and now' = 3] one
    by (cases "normalize_legacy_role_actions merged_defaults 2 legacy_demo") simp
qed

text \<open>
  Normalising hides rules. A role whose permissions were derived from several actions, \<open>view-ai\<close>
  among them, is listed afterwards with the rules of \<open>view-ai\<close> only: an empty permission list means
  "derive", and the normalisation makes it non-empty.
\<close>

theorem normalization_hides_rules:
  "map ro_permissions (list_roles merged_defaults legacy_demo) = [[''ai:view:*'', ''jobs:view:*'']]
   \<and> map ro_permissions (list_roles merged_defaults
        (snd (normalize_legacy_role_actions merged_defaults 2 legacy_demo))) = [[''ai:view:*'']]
   \<and> map ro_actions (list_roles merged_defaults
        (snd (normalize_legacy_role_actions merged_defaults 2 legacy_demo))) = [[''view-ai'', ''view-jobs'']]"
  by code_simp

definition three_roles :: "string list \<Rightarrow> string list \<Rightarrow> seed_role list" where
  "three_roles pu pa = [
     \<lparr>sr_name = ''user'', sr_description = ''Read-only access to available routes and settings.'',
      sr_permissions = pu\<rparr>,
     \<lparr>sr_name = ''admin'', sr_description = ''Global read and edit access across routes and settings.'',
      sr_permissions = pa\<rparr>,
     \<lparr>sr_name = ''super-admin'', sr_description = ''Full access to all resources and operations.'',
      sr_permissions = [''*:*:*'']\<rparr>]"

lemma default_seed_roles_eq:
  "\<exists>pu pa. default_seed_roles = Inr (three_roles pu pa) \<and> sort_permission_rules (map VStr seed_user_rules) = Inr pu"
proof -
  have "\<forall>r \<in> set seed_user_rules. valid_rule r" "\<forall>r \<in> set [''*:view:*'', ''*:edit:*'']. valid_rule r"
    by code_simp+
  then obtain pu pa where "sort_permission_rules (map VStr seed_user_rules) = Inr pu"
    "sort_permission_rules (map VStr [''*:view:*'', ''*:edit:*'']) = Inr pa"
    using sort_rules_ok by blast
  then show ?thesis unfolding default_seed_roles_def three_roles_def by simp
qed

lemma seed_effect:
  assumes "wf_legacy_map lm" and "db_roles db = []" and "default_seed_roles = Inr (three_roles pu pa)"
    and "rows = map2 (seeded_row lm now) [roles_seq db + 1, roles_seq db + 2, roles_seq db + 3] (three_roles pu pa)"
  shows "seed_default_roles lm now db
    = (Inr (map (role_dict lm) rows), db\<lparr>roles_seq := roles_seq db + 3, db_roles := rows\<rparr>)"
proof -
  let ?roles = "three_roles pu pa"
  have len: "int (length ?roles) = 3" by (simp add: three_roles_def)
  have ids: "[x + 1 .. x + 3] = [x + 1, x + 2, x + 3]" for x :: int
    by (simp add: upto.simps)
  have "\<forall>role \<in> set ?roles. \<forall>p \<in> set (sr_permissions role). valid_rule p"
    using seed_role_valid [OF assms(3)] by blast
  moreover have "distinct (map sr_name ?roles)" by (simp add: three_roles_def)
  moreover have "\<forall>role \<in> set ?roles. sr_name role \<notin> ro_name ` set (db_roles db)" by (simp add: assms(2))
  ultimately show ?thesis
    using seed_rows [OF assms(1), of ?roles db now, unfolded len ids Let_def, folded assms(4)] assms(2)
    by (simp add: seed_default_roles_def transaction_def mbind_def assms(3))
qed

text \<open>
  Seeding. On an empty role table the call creates \<open>user\<close>, \<open>admin\<close> and \<open>super-admin\<close> with fresh
  consecutive identifiers and returns them; on any other it changes and returns nothing. Seeding
  again does nothing.
\<close>

theorem seed_once:
  assumes "merged_legacy_permission_map content = Inr lm"
  shows "\<exists>rows db'. seed_default_roles lm now db = (Inr rows, db')
    \<and> seed_default_roles lm now' db' = (Inr [], db')
    \<and> (if db_roles db = []
       then map ro_name rows = [''user'', ''admin'', ''super-admin'']
          \<and> map ro_id rows = [roles_seq db + 1, roles_seq db + 2, roles_seq db + 3]
          \<and> map (role_dict lm) (db_roles db') = rows \<and> db_users db' = db_users db
       else rows = [] \<and> db' = db)"
proof (cases "db_roles db = []")
  case False
  then show ?thesis by (simp add: seed_default_roles_def transaction_def mbind_def)
next
  case True
  obtain pu pa where roles: "default_seed_roles = Inr (three_roles pu pa)"
    using default_seed_roles_eq by blast
  note run = seed_effect [OF merged_legacy_wf [OF assms] True roles refl, of now]
  show ?thesis
    unfolding run by (simp add: True three_roles_def seeded_row_def role_dict_def seed_default_roles_def transaction_def mbind_def)
qed

theorem seed_once_witness:
  "map ro_name (db_roles (snd (seed_default_roles merged_defaults 1 empty_db))) = [''user'', ''admin'', ''super-admin'']"
proof -
  have n: "map ro_name (map (role_dict merged_defaults) rs) = map ro_name rs" for rs
    by (simp add: role_dict_def)
  obtain rows db' where "seed_default_roles merged_defaults 1 empty_db = (Inr rows, db')"
    "map ro_name rows = [''user'', ''admin'', ''super-admin'']" "map (role_dict merged_defaults) (db_roles db') = rows"
    using seed_once [OF merged_defaults, of 1 empty_db 2] by (auto simp: empty_db_def)
  then show ?thesis using n [of "db_roles db'"] by simp
qed

definition seeded_with_carol :: db where
  "seeded_with_carol = snd (set_user_roles merged_defaults 2 ''carol'' [1]
     (snd (seed_default_roles merged_defaults 1 empty_db)))"

lemma user_role_actions:
  assumes "sort_permission_rules (map VStr seed_user_rules) = Inr pu"
  shows "implied_action pu [''accounts:view:*'', ''user/profile:view:*'']"
proof -
  have valid: "\<forall>r \<in> set seed_user_rules. valid_rule r" by code_simp
  have g: "grant_of ''accounts:view:*'' = Some (''accounts'', ''view'', ''*'')" by code_simp
  have "denotes seed_user_rules (''accounts'', ''view'', ''*'')" by code_simp
  then have "denotes pu (''accounts'', ''view'', ''*'')" using denotes_normalized [OF valid assms] by simp
  with g show ?thesis unfolding implied_action_def by (metis list.set_intros(1))
qed

lemma seeded_carol_role:
  assumes "default_seed_roles = Inr (three_roles pu pa)"
  defines "role \<equiv> seeded_row merged_defaults 1 1 (hd (three_roles pu pa))"
  shows "assigned_roles seeded_with_carol ''carol'' = {role}
    \<and> filter (\<lambda>ro. ro_id ro = 1) (db_roles seeded_with_carol) = [role]"
proof -
  note wf = merged_legacy_wf [OF merged_defaults]
  let ?db = "snd (seed_default_roles merged_defaults 1 empty_db)"
  have "consistent ?db" by (rule keepsD [OF seed_default_roles_ok]) simp
  then have ok: "db_ok ?db" by simp
  have roles: "db_roles ?db = map2 (seeded_row merged_defaults 1) [1, 2, 3] (three_roles pu pa)"
    using seed_effect [OF wf, of empty_db pu pa _ 1] assms by (simp add: empty_db_def)
  then obtain r2 r3 where rows: "db_roles ?db = [role, r2, r3]" and rids: "ro_id role = 1" "ro_id r2 = 2" "ro_id r3 = 3"
    by (simp add: three_roles_def role_def seeded_row_def)
  then have ids: "set [1] \<subseteq> ro_id ` set (db_roles ?db)" by simp
  obtain u db' where run: "set_user_roles merged_defaults 2 ''carol'' [1] ?db
        = (Inr (Some (user_detail_of merged_defaults db' u)), db')"
      "find_user ''carol'' db' = Some u" "db_roles db' = db_roles ?db"
      "db_user_roles db' = filter (\<lambda>l. ur_user l \<noteq> us_id u) (db_user_roles ?db)
        @ map (\<lambda>i. \<lparr>ur_user = us_id u, ur_role = i, ur_created_at = 2\<rparr>) (sorted_set [1])"
    using set_user_roles_found [OF ok ids, of merged_defaults 2 "''carol''"] by blast
  have "seeded_with_carol = db'" using run(1) by (simp add: seeded_with_carol_def)
  moreover have "(\<exists>l \<in> set (db_user_roles db'). ur_user l = us_id u \<and> ur_role l = i) \<longleftrightarrow> i = 1" for i
    unfolding run(4) by auto
  then have "set (joined_roles db' (us_id u)) = {r \<in> set (db_roles ?db). ro_id r = 1}"
    unfolding set_joined_roles run(3) by blast
  then have "set (joined_roles db' (us_id u)) = {role}" using rids by (auto simp: rows)
  ultimately show ?thesis using run(2,3) rids by (simp add: assigned_roles_def rows)
qed

text \<open>
  The seeded role \<open>user\<close> allows more than it lists. It grants \<open>user/profile:view\<close> at scope
  \<open>self\<close> only, but the legacy actions stored beside its rules include \<open>associations-view\<close> (one of
  whose rules, \<open>accounts:view\<close>, it does hold), and through that action whoever has the role may view
  every user's profile.
\<close>

theorem seeded_user_sees_all_profiles:
  "map (\<lambda>ro. (ro_name ro, permission_rules_allow (ro_permissions ro) ''user/profile'' ''view'' ''*''))
     (filter (\<lambda>ro. ro_id ro = 1) (db_roles seeded_with_carol)) = [(''user'', Inr False)]
   \<and> rbind (new_manager (fixed_policy []) True (Some (user_permissions merged_defaults seeded_with_carol)) None)
       (\<lambda>m. allowed_user_permission m (named_user ''carol'') ''user/profile'' ''view'' ''*'') = Inr True"
proof -
  note wf = merged_legacy_wf [OF merged_defaults]
  obtain pu pa where seeds: "default_seed_roles = Inr (three_roles pu pa)"
    and pu: "sort_permission_rules (map VStr seed_user_rules) = Inr pu"
    using default_seed_roles_eq by blast
  let ?role = "seeded_row merged_defaults 1 1 (hd (three_roles pu pa))"
  have ok: "consistent seeded_with_carol"
    unfolding seeded_with_carol_def
    by (intro keepsD [OF set_user_roles_ok] keepsD [OF seed_default_roles_ok]) simp
  note role = conjunct1 [OF seeded_carol_role [OF seeds]] and one = conjunct2 [OF seeded_carol_role [OF seeds]]
  have perms: "ro_permissions ?role = pu" "ro_name ?role = ''user''" "ro_id ?role = 1"
    by (simp_all add: seeded_row_def three_roles_def)
  have "\<forall>r \<in> set pu. valid_rule r"
    using sort_rules_Inr(3) [OF pu] canonical_valid by blast
  moreover have valid: "\<forall>r \<in> set seed_user_rules. valid_rule r" by code_simp
  moreover have "\<not> denotes seed_user_rules (''user/profile'', ''view'', ''*'')" by code_simp
  ultimately have listed: "permission_rules_allow pu ''user/profile'' ''view'' ''*'' = Inr False"
    using rules_allow_denotes denotes_normalized [OF valid pu] by simp
  let ?m = "\<lparr>am_file_policy = fixed_policy [], am_enabled = True,
      am_store = Some (user_permissions merged_defaults seeded_with_carol), am_legacy_map = merged_defaults\<rparr>"
  have in_map: "(''associations-view'', [''accounts:view:*'', ''user/profile:view:*'']) \<in> set merged_defaults"
    "mapped_rules merged_defaults ''associations-view'' = [''accounts:view:*'', ''user/profile:view:*'']"
    by code_simp+
  have "''associations-view'' \<in> set (ro_actions ?role)"
    using in_map(1) user_role_actions [OF pu] by (force simp: seeded_row_def three_roles_def)
  moreover have "denotes [''accounts:view:*'', ''user/profile:view:*''] (''user/profile'', ''view'', ''*'')"
    by code_simp
  ultimately have "acs.role_grants merged_defaults ?m ?role (''user/profile'', ''view'', ''*'')"
    unfolding acs.role_grants_def using in_map(2) by (intro disjI1 bexI [of _ "''associations-view''"]) simp_all
  moreover have m: "wf_manager ?m" "am_enabled ?m" "am_store ?m = Some (user_permissions merged_defaults seeded_with_carol)"
    "\<not> is_anonymous (named_user ''carol'')" "login (named_user ''carol'') = ''carol''"
    using wf by (simp_all add: wf_manager_def named_user_def)
  ultimately have "allowed_user_permission ?m (named_user ''carol'') ''user/profile'' ''view'' ''*'' = Inr True"
    using acs.role_decision [OF m(1-4) conjunct1 [OF ok] assigned_valid [OF ok wf]] role by simp
  then show ?thesis using one listed perms by (simp add: new_manager_defaults)
qed

end
