(* ===== verification/JsonValues.thy ===== *)
theory JsonValues
  imports PyStrings
begin

text \<open>
  Operations of Python on decoded JSON values: subscripts, \<open>get\<close>, \<open>in\<close>, iteration, with the
  exception each raises on a value of another type. A loop that changes the dictionaries of a list
  in place is a map over the list: the decoder shares no dictionary between two places.
\<close>

definition as_dict :: "pv \<Rightarrow> pdict res" where
  "as_dict v = (case v of VDict d \<Rightarrow> Inr d | _ \<Rightarrow> Inl (AttributeError ''not a dict''))"

text \<open>\<open>v.get(k, dflt)\<close>, \<open>v[k]\<close>, \<open>v[k] = x\<close>, \<open>v[0]\<close>.\<close>

definition py_get_or :: "string \<Rightarrow> pv \<Rightarrow> pv \<Rightarrow> pv res" where
  "py_get_or k dflt v = rbind (as_dict v) (\<lambda>d. Inr (dget_or k dflt d))"

abbreviation py_get :: "string \<Rightarrow> pv \<Rightarrow> pv res" where
  "py_get k \<equiv> py_get_or k VNone"

definition py_item :: "string \<Rightarrow> pv \<Rightarrow> pv res" where
  "py_item k v =
     (case v of
        VDict d \<Rightarrow> (case map_of d k of None \<Rightarrow> Inl (KeyError k) | Some x \<Rightarrow> Inr x)
      | _ \<Rightarrow> Inl (TypeError ''subscript''))"

definition py_set_item :: "string \<Rightarrow> pv \<Rightarrow> pv \<Rightarrow> pv res" where
  "py_set_item k x v =
     (case v of VDict d \<Rightarrow> Inr (VDict (dset k x d)) | _ \<Rightarrow> Inl (TypeError ''item assignment''))"

definition py_first :: "pv \<Rightarrow> pv res" where
  "py_first v =
     (case v of
        VList [] \<Rightarrow> Inl IndexError
      | VList (x # _) \<Rightarrow> Inr x
      | VStr [] \<Rightarrow> Inl IndexError
      | VStr (c # _) \<Rightarrow> Inr (VStr [c])
      | VDict _ \<Rightarrow> Inl (KeyError ''0'')
      | _ \<Rightarrow> Inl (TypeError ''subscript''))"

text \<open>\<open>k in v\<close> for a string \<open>k\<close>: a key, an element or a part of the text.\<close>

definition py_contains :: "string \<Rightarrow> pv \<Rightarrow> bool res" where
  "py_contains k v =
     (case v of
        VDict d \<Rightarrow> Inr (has_key k d)
      | VList xs \<Rightarrow> Inr (VStr k \<in> set xs)
      | VStr s \<Rightarrow> Inr (sublist k s)
      | _ \<Rightarrow> Inl (TypeError ''not iterable''))"

definition py_iter :: "pv \<Rightarrow> pv list res" where
  "py_iter v =
     (case v of
        VList xs \<Rightarrow> Inr xs
      | VDict d \<Rightarrow> Inr (map (VStr \<circ> fst) d)
      | VStr s \<Rightarrow> Inr (map (\<lambda>c. VStr [c]) s)
      | _ \<Rightarrow> Inl (TypeError ''not iterable''))"

definition py_len :: "pv \<Rightarrow> nat res" where
  "py_len v = rbind (py_iter v) (\<lambda>xs. Inr (length xs))"

text \<open>\<open>for x in v: (change x)\<close>, giving \<open>v\<close> with its elements changed.\<close>

definition for_items :: "(pv \<Rightarrow> pv res) \<Rightarrow> pv \<Rightarrow> pv res" where
  "for_items f v =
     rbind (py_iter v) (\<lambda>xs. rbind (rmap f xs) (\<lambda>ys.
       Inr (case v of VList _ \<Rightarrow> VList ys | _ \<Rightarrow> v)))"

text \<open>\<open>v == 0\<close>, where a boolean is a number.\<close>

fun py_is_zero :: "pv \<Rightarrow> bool" where
  "py_is_zero (VInt n) = (n = 0)"
| "py_is_zero (VFloat q) = (q = 0)"
| "py_is_zero (VBool b) = (\<not> b)"
| "py_is_zero _ = False"

text \<open>The number a value stands for in arithmetic.\<close>

fun py_num :: "pv \<Rightarrow> rat res" where
  "py_num (VInt n) = Inr (of_int n)"
| "py_num (VFloat q) = Inr q"
| "py_num (VBool b) = Inr (if b then 1 else 0)"
| "py_num _ = Inl (TypeError ''not a number'')"

lemma py_get_or_dict [simp]: "py_get_or k dflt (VDict d) = Inr (dget_or k dflt d)"
  by (simp add: py_get_or_def as_dict_def)

lemma py_set_item_dict [simp]: "py_set_item k x (VDict d) = Inr (VDict (dset k x d))"
  by (simp add: py_set_item_def)

lemma py_contains_dict [simp]: "py_contains k (VDict d) = Inr (has_key k d)"
  by (simp add: py_contains_def)

lemma py_item_dict: "py_item k (VDict d) = (case map_of d k of None \<Rightarrow> Inl (KeyError k) | Some x \<Rightarrow> Inr x)"
  by (simp add: py_item_def)

lemma for_items_list [simp]: "for_items f (VList xs) = rbind (rmap f xs) (\<lambda>ys. Inr (VList ys))"
  by (simp add: for_items_def py_iter_def)

lemma for_items_dicts:
  assumes "list_all is_dict xs" and "\<And>d. VDict d \<in> set xs \<Longrightarrow> f (VDict d) = Inr (g (VDict d))"
  shows "for_items f (VList xs) = Inr (VList (map g xs))"
proof -
  have "rmap f xs = Inr (map g xs)"
    using assms by (intro rmap_all_Inr) (auto simp: list_all_iff)
  then show ?thesis by simp
qed

end
