(* ===== verification/Adapters.thy ===== *)
theory Adapters
  imports JsonValues
begin

text \<open>
  \<open>slurmweb/slurmrestd/adapters/\<close>: the adapters that bring the answers of an older slurmrestd API
  to the newest supported version, and the chain that is run on every answer.
\<close>

section \<open>0.0.39 to 0.0.40\<close>

definition optional_number_v39 :: "pv \<Rightarrow> pv res" where
  "optional_number_v39 v =
     (case v of
        VDict d \<Rightarrow> Inr (VDict [
          (''set'', dget_or ''set'' (VBool (dget ''number'' d \<noteq> VNone)) d),
          (''infinite'', dget_or ''infinite'' (VBool False) d),
          (''number'', dget_or ''number'' (VInt 0) d)])
      | VNone \<Rightarrow> Inr (VDict [(''set'', VBool False), (''infinite'', VBool False), (''number'', VInt 0)])
      | _ \<Rightarrow> rbind (py_int v) (\<lambda>n.
          Inr (VDict [(''set'', VBool True), (''infinite'', VBool False), (''number'', VInt n)])))"

definition normalize_status :: "pv \<Rightarrow> pv" where
  "normalize_status v =
     (case v of
        VList xs \<Rightarrow> VList (map (\<lambda>i. VStr (py_str i)) (filter (\<lambda>i. \<not> none_or_empty i) xs))
      | _ \<Rightarrow> if none_or_empty v then VList [] else VList [VStr (py_str v)])"

definition signal_parts :: "pv \<Rightarrow> pv \<times> pv" where
  "signal_parts signal =
     (case signal of
        VDict s \<Rightarrow> (dget_or ''name'' (VStr []) s, dget_or ''id'' (dget ''signal_id'' s) s)
      | _ \<Rightarrow> (VStr [], signal))"

definition normalize_exit_code :: "pv \<Rightarrow> pv res" where
  "normalize_exit_code v =
     (case v of
        VDict d \<Rightarrow>
          (let (signal_name, signal_id) = signal_parts (dget ''signal'' d);
               status = normalize_status (dget ''status'' d) in
           rbind (optional_number_v39 (dget ''return_code'' d)) (\<lambda>return_code.
           rbind (optional_number_v39 signal_id) (\<lambda>sid.
           rbind (py_get_or ''number'' (VInt 0) return_code) (\<lambda>number.
           Inr (VDict [
             (''status'', if truthy status then status
                          else VList [VStr (if py_is_zero number then ''SUCCESS'' else ''FAILED'')]),
             (''return_code'', return_code),
             (''signal'', VDict [(''id'', sid), (''name'', signal_name)])])))))
      | _ \<Rightarrow> Inr v)"

definition normalize_step_id :: "pv \<Rightarrow> pv" where
  "normalize_step_id v =
     (case v of
        VDict d \<Rightarrow> VStr (py_str (dget_or ''job_id'' (VInt 0) d) @ ''.'' @ py_str (dget_or ''step_id'' (VInt 0) d))
      | _ \<Rightarrow> v)"

definition JOB_TIME_FIELDS :: "string list" where
  "JOB_TIME_FIELDS = [''submit_time'', ''start_time'', ''end_time'', ''accrue_time'', ''eligible_time'',
     ''last_sched_evaluation'', ''preempt_time'', ''preemptable_time'', ''pre_sus_time'', ''resize_time'',
     ''suspend_time'', ''deadline'']"

definition NODE_TIME_FIELDS :: "string list" where
  "NODE_TIME_FIELDS = [''boot_time'', ''last_busy'', ''slurmd_start_time'', ''reason_changed_at'']"

text \<open>\<open>for field in fields: if field in item: item[field] = f(item.get(field))\<close>\<close>

definition convert_field :: "(pv \<Rightarrow> pv res) \<Rightarrow> string \<Rightarrow> pv \<Rightarrow> pv res" where
  "convert_field f field item =
     rbind (py_contains field item) (\<lambda>present.
       if present then rbind (py_get field item) (\<lambda>v. rbind (f v) (\<lambda>v'. py_set_item field v' item))
       else Inr item)"

definition convert_fields :: "(pv \<Rightarrow> pv res) \<Rightarrow> string list \<Rightarrow> pv \<Rightarrow> pv res" where
  "convert_fields f fields item = rfold (convert_field f) fields item"

definition v39_slurm_jobs :: "pv \<Rightarrow> pv res" where
  "v39_slurm_jobs = for_items (\<lambda>job.
     rbind (py_get ''job_state'' job) (\<lambda>st.
     rbind (py_set_item ''job_state'' (normalize_status st) job) (\<lambda>job1.
     rbind (convert_fields optional_number_v39 JOB_TIME_FIELDS job1) (\<lambda>job2.
     convert_fields normalize_exit_code [''exit_code'', ''derived_exit_code''] job2))))"

definition v39_slurm_nodes :: "pv \<Rightarrow> pv res" where
  "v39_slurm_nodes = for_items (convert_fields optional_number_v39 NODE_TIME_FIELDS)"

definition v39_slurm_reservations :: "pv \<Rightarrow> pv res" where
  "v39_slurm_reservations = for_items (convert_fields optional_number_v39 [''start_time'', ''end_time''])"

definition v39_step :: "pv \<Rightarrow> pv res" where
  "v39_step step =
     rbind (py_get ''state'' step) (\<lambda>st.
     rbind (py_set_item ''state'' (normalize_status st) step) (\<lambda>step1.
     rbind (convert_field normalize_exit_code ''exit_code'' step1) (\<lambda>step2.
     rbind (py_get ''step'' step2) (\<lambda>inner.
       case inner of
         VDict d \<Rightarrow> if has_key ''id'' d
           then py_set_item ''step'' (VDict (dset ''id'' (normalize_step_id (dget ''id'' d)) d)) step2
           else Inr step2
       | _ \<Rightarrow> Inr step2))))"

definition v39_slurmdb_jobs :: "pv \<Rightarrow> pv res" where
  "v39_slurmdb_jobs = for_items (\<lambda>job.
     rbind (convert_fields normalize_exit_code [''exit_code'', ''derived_exit_code''] job) (\<lambda>job1.
     rbind (py_get_or ''steps'' (VList []) job1) (\<lambda>steps.
     rbind (for_items v39_step steps) (\<lambda>steps'.
     rbind (py_contains ''steps'' job1) (\<lambda>present.
       if present then py_set_item ''steps'' steps' job1 else Inr job1)))))"

definition v39_slurmdb_associations :: "string option \<Rightarrow> pv \<Rightarrow> pv res" where
  "v39_slurmdb_associations hint =
     (let cluster = (case hint of None \<Rightarrow> ''unknown'' | Some h \<Rightarrow> if h = [] then ''unknown'' else h) in
      for_items (\<lambda>a.
        rbind (py_get_or ''account'' (VStr []) a) (\<lambda>account.
        rbind (py_get_or ''user'' (VStr []) a) (\<lambda>user.
        py_set_item ''id'' (VDict [(''account'', account), (''cluster'', VStr cluster),
          (''partition'', VStr []), (''user'', user), (''id'', VInt 0)]) a))))"


section \<open>0.0.40 to 0.0.41, to 0.0.42, to 0.0.43\<close>

definition unset_optional_number :: pv where
  "unset_optional_number =
     VDict [(''set'', VBool False), (''infinite'', VBool False), (''number'', VInt 0)]"

definition v40_slurmdb_jobs :: "pv \<Rightarrow> pv res" where
  "v40_slurmdb_jobs = for_items (\<lambda>job.
     rbind (as_dict job) (\<lambda>d.
     let d1 = fold (\<lambda>f. setdefault f (VStr []))
           [''stdin'', ''stdout'', ''stderr'', ''stdin_expanded'', ''stdout_expanded'', ''stderr_expanded''] d;
         d2 = (if is_dict (dget ''time'' d1) then d1 else dset ''time'' (VDict []) d1)
     in rbind (as_dict (dget ''time'' d2)) (\<lambda>t.
        Inr (VDict (dset ''time'' (VDict (setdefault ''planned'' unset_optional_number t)) d2)))))"

definition v40_slurmdb_associations :: "pv \<Rightarrow> pv res" where
  "v40_slurmdb_associations = for_items (\<lambda>a.
     rbind (py_get ''id'' a) (\<lambda>i.
       case i of
         VDict d \<Rightarrow> py_set_item ''id'' (dget_or ''id'' (VInt 0) d) a
       | VNone \<Rightarrow> py_set_item ''id'' (VInt 0) a
       | _ \<Rightarrow> Inr a))"

text \<open>\<open>v[k1][k2]... = x\<close>\<close>

fun set_path :: "string list \<Rightarrow> pv \<Rightarrow> pv \<Rightarrow> pv res" where
  "set_path [] x v = Inr x"
| "set_path [k] x v = py_set_item k x v"
| "set_path (k # k' # ks) x v =
     rbind (py_item k v) (\<lambda>sub. rbind (set_path (k' # ks) x sub) (\<lambda>sub'. py_set_item k sub' v))"

definition v41_slurmdb_qos :: "pv \<Rightarrow> pv res" where
  "v41_slurmdb_qos = for_items (\<lambda>qos.
     rbind (set_path [''limits'', ''max'', ''jobs'', ''count'']
       (VDict [(''infinite'', VBool True), (''number'', VInt 0), (''set'', VBool False)]) qos)
     (set_path [''limits'', ''max'', ''tres'', ''minutes'', ''total''] (VList [])))"

definition v42_slurm_jobs :: "pv \<Rightarrow> pv res" where
  "v42_slurm_jobs = for_items (rfold (\<lambda>(target, source) job.
       rbind (py_item source job) (\<lambda>v. py_set_item target v job))
     [(''stderr_expanded'', ''standard_error''), (''stdin_expanded'', ''standard_input''),
      (''stdout_expanded'', ''standard_output'')])"

definition v42_step :: "pv \<Rightarrow> pv res" where
  "v42_step step =
     rbind (rfold (\<lambda>f. set_path [''step'', f] (VStr []))
        [''stderr'', ''stderr_expanded'', ''stdin'', ''stdin_expanded'', ''stdout'', ''stdout_expanded''] step)
     (set_path [''time'', ''limit'']
        (VDict [(''set'', VBool False), (''infinite'', VBool True), (''number'', VInt 0)]))"

definition v42_slurmdb_jobs :: "pv \<Rightarrow> pv res" where
  "v42_slurmdb_jobs = for_items (\<lambda>job.
     rbind (py_item ''steps'' job) (\<lambda>steps.
     rbind (for_items v42_step steps) (\<lambda>steps'. py_set_item ''steps'' steps' job)))"


section \<open>The adapters and their chain\<close>

datatype adapter =
    AdapterV0_0_39 "string option"
  | AdapterV0_0_40 "string option"
  | AdapterV0_0_41 "string option"
  | AdapterV0_0_42 "string option"
  | AdapterV0_0_43 "string option"

text \<open>
  \<open>BaseAdapter.adapt\<close>: the method \<open>adapt_<component>_<key>\<close> of the class, if it has one; the
  methods the base class defines return their argument.
\<close>

definition adapt :: "adapter \<Rightarrow> string \<Rightarrow> string option \<Rightarrow> pv \<Rightarrow> pv res" where
  "adapt ad component key data =
     (let m = (component, case key of None \<Rightarrow> ''None'' | Some k \<Rightarrow> k) in
      case ad of
        AdapterV0_0_39 hint \<Rightarrow>
          if m = (''slurm'', ''jobs'') then v39_slurm_jobs data
          else if m = (''slurm'', ''nodes'') then v39_slurm_nodes data
          else if m = (''slurm'', ''reservations'') then v39_slurm_reservations data
          else if m = (''slurmdb'', ''jobs'') then v39_slurmdb_jobs data
          else if m = (''slurmdb'', ''associations'') then v39_slurmdb_associations hint data
          else Inr data
      | AdapterV0_0_40 hint \<Rightarrow>
          if m = (''slurmdb'', ''jobs'') then v40_slurmdb_jobs data
          else if m = (''slurmdb'', ''associations'') then v40_slurmdb_associations data
          else Inr data
      | AdapterV0_0_41 hint \<Rightarrow>
          if m = (''slurmdb'', ''qos'') then v41_slurmdb_qos data else Inr data
      | AdapterV0_0_42 hint \<Rightarrow>
          if m = (''slurm'', ''jobs'') then v42_slurm_jobs data
          else if m = (''slurmdb'', ''jobs'') then v42_slurmdb_jobs data
          else Inr data
      | AdapterV0_0_43 hint \<Rightarrow> Inr data)"

definition ADAPTERS :: "(string \<times> (string option \<Rightarrow> adapter)) list" where
  "ADAPTERS = [(''0.0.39'', AdapterV0_0_39), (''0.0.40'', AdapterV0_0_40), (''0.0.41'', AdapterV0_0_41),
     (''0.0.42'', AdapterV0_0_42), (''0.0.43'', AdapterV0_0_43)]"

text \<open>\<open>xs.index(x)\<close>, \<open>None\<close> for its ValueError.\<close>

fun py_index :: "'a \<Rightarrow> 'a list \<Rightarrow> nat option" where
  "py_index x [] = None"
| "py_index x (y # ys) = (if x = y then Some 0 else map_option Suc (py_index x ys))"

definition build_adaptation_chain :: "string \<Rightarrow> string \<Rightarrow> string list \<Rightarrow> string option \<Rightarrow> adapter list" where
  "build_adaptation_chain from_version to_version supported hint =
     (let chain = rev supported in
      case (py_index from_version chain, py_index to_version chain) of
        (Some i, Some j) \<Rightarrow>
          if i \<ge> j then []
          else concat (map (\<lambda>k. case map_of ADAPTERS (chain ! k) of None \<Rightarrow> [] | Some c \<Rightarrow> [c hint]) [i..<j])
      | _ \<Rightarrow> [])"

definition adapt_all :: "adapter list \<Rightarrow> string \<Rightarrow> string option \<Rightarrow> pv \<Rightarrow> pv res" where
  "adapt_all chain component key data = rfold (\<lambda>ad. adapt ad component key) chain data"

section \<open>Normal forms\<close>

lemma optional_number_idem:
  assumes "optional_number_v39 v = Inr w"
  shows "optional_number_v39 w = Inr w \<and> is_dict w"
  using assms by (cases v) (auto simp: optional_number_v39_def dget_or_def rbind_eq_Inr)

lemma int_str_not_Nil [simp]: "int_str n \<noteq> []"
  by (simp add: int_str_def)

lemma number_text_not_Nil [simp]: "float_str q \<noteq> []" "iso_text sep t \<noteq> []"
  by (simp_all only: float_str_def iso_text_def Let_def case_prod_unfold append_is_Nil_conv list.distinct
      int_str_not_Nil simp_thms not_False_eq_True)

lemma py_str_not_Nil: "v \<noteq> VStr [] \<Longrightarrow> py_str v \<noteq> []"
  by (cases v) simp_all

lemma normalize_status_shape:
  "\<exists>ss. normalize_status v = VList (map VStr ss) \<and> [] \<notin> set ss"
proof -
  have "\<not> none_or_empty i \<Longrightarrow> [] \<noteq> py_str i" for i using py_str_not_Nil [of i] by (auto simp: none_or_empty_def)
  then have list: "\<exists>ss. normalize_status (VList xs) = VList (map VStr ss) \<and> [] \<notin> set ss" for xs
    by (intro exI [of _ "map py_str (filter (\<lambda>i. \<not> none_or_empty i) xs)"])
       (auto simp: normalize_status_def comp_def)
  show ?thesis
  proof (cases "\<exists>xs. v = VList xs")
    case False
    then have "normalize_status v = (if none_or_empty v then VList [] else VList [VStr (py_str v)])"
      by (simp add: normalize_status_def split: pv.splits)
    then show ?thesis
      using py_str_not_Nil [of v]
      by (cases "none_or_empty v") (auto simp: none_or_empty_def intro: exI [of _ "[]"] exI [of _ "[py_str v]"])
  qed (use list in auto)
qed

lemma normalize_status_strs:
  "[] \<notin> set ss \<Longrightarrow> normalize_status (VList (map VStr ss)) = VList (map VStr ss)"
  by (induction ss) (auto simp: normalize_status_def none_or_empty_def)

lemma map_of_concat_index:
  assumes "distinct xs" and "i < length xs"
  shows "py_index (xs ! i) xs = Some i"
  using assms
proof (induction xs arbitrary: i)
  case (Cons x xs)
  then show ?case by (cases i) (auto simp: nth_mem)
qed simp

lemma py_index_None: "py_index x xs = None \<longleftrightarrow> x \<notin> set xs"
  by (induction xs) auto

definition adapters_for :: "string option \<Rightarrow> string \<Rightarrow> adapter list" where
  "adapters_for hint version = (case map_of ADAPTERS version of None \<Rightarrow> [] | Some c \<Rightarrow> [c hint])"

text \<open>The chain runs from the detected version up to the one before the target, oldest first.\<close>

lemma chain_from:
  assumes "distinct S" and "i < length S"
  shows "build_adaptation_chain (S ! i) (S ! 0) S hint
    = concat (map (adapters_for hint) (rev (take i (tl S))))"
proof -
  let ?n = "length S"
  have at: "k < ?n \<Longrightarrow> rev S ! (?n - 1 - k) = S ! k" for k by (simp add: rev_nth)
  have d: "distinct (rev S)" using assms(1) by simp
  have idx: "k < ?n \<Longrightarrow> py_index (S ! k) (rev S) = Some (?n - 1 - k)" for k
    using map_of_concat_index [OF d, of "?n - 1 - k"] at by simp
  have "map (\<lambda>k. rev S ! k) [?n - 1 - i ..< ?n - 1] = rev (take i (tl S))"
  proof (rule nth_equalityI)
    show "length (map (\<lambda>k. rev S ! k) [?n - 1 - i ..< ?n - 1]) = length (rev (take i (tl S)))"
      using assms(2) by simp
    fix k assume "k < length (map (\<lambda>k. rev S ! k) [?n - 1 - i ..< ?n - 1])"
    then have k: "k < i" "i < ?n" using assms(2) by simp_all
    then show "map (\<lambda>k. rev S ! k) [?n - 1 - i ..< ?n - 1] ! k = rev (take i (tl S)) ! k"
      by (simp add: rev_nth nth_tl Suc_diff_Suc)
  qed
  then have "concat (map (adapters_for hint) (map (\<lambda>k. rev S ! k) [?n - 1 - i ..< ?n - 1]))
      = concat (map (adapters_for hint) (rev (take i (tl S))))" by (simp only:)
  then have "concat (map (\<lambda>k. adapters_for hint (rev S ! k)) [?n - 1 - i ..< ?n - 1])
      = concat (map (adapters_for hint) (rev (take i (tl S))))" by (simp only: map_map comp_def)
  moreover have "?n - 1 \<le> ?n - 1 - i \<longleftrightarrow> i = 0" using assms(2) by auto
  moreover have "0 < ?n" using assms(2) by (rule le_less_trans [OF le0])
  note idx [OF assms(2)] idx [OF this]
  ultimately show ?thesis
    using assms(2)
    by (auto simp: build_adaptation_chain_def adapters_for_def Let_def)
qed


section \<open>Properties\<close>

text \<open>
  The adaptation chain. For distinct supported versions, newest first: an answer of the newest
  version is not adapted; the chain of an older version is its own adapter (if registered) followed by
  the chain of the next newer version; a version outside the list gets the empty chain.
\<close>

theorem adaptation_chain_exact:
  assumes "distinct S" and "Suc i < length S"
  shows "build_adaptation_chain (S ! Suc i) (S ! 0) S hint
      = adapters_for hint (S ! Suc i) @ build_adaptation_chain (S ! i) (S ! 0) S hint
    \<and> build_adaptation_chain (S ! 0) (S ! 0) S hint = []
    \<and> (v \<notin> set S \<longrightarrow> build_adaptation_chain v (S ! 0) S hint = [])"
proof -
  have lt: "i < length S" "0 < length S" using assms(2) by auto
  have "take (Suc i) (tl S) = take i (tl S) @ [S ! Suc i]"
    using assms(2) by (simp add: take_Suc_conv_app_nth nth_tl)
  moreover have "v \<notin> set S \<Longrightarrow> py_index v (rev S) = None" by (simp add: py_index_None)
  ultimately show ?thesis
    using chain_from [OF assms, of hint] chain_from [OF assms(1) lt(1), of hint]
      chain_from [OF assms(1) lt(2), of hint]
    by (auto simp: build_adaptation_chain_def split: option.splits)
qed

definition supported_versions :: "string list" where
  "supported_versions = [''0.0.44'', ''0.0.43'', ''0.0.42'', ''0.0.41'', ''0.0.40'', ''0.0.39'']"

theorem adaptation_chain_exact_witness:
  "build_adaptation_chain ''0.0.42'' ''0.0.44'' supported_versions None
   = [AdapterV0_0_42 None, AdapterV0_0_43 None]"
proof -
  have S: "distinct supported_versions" "Suc 1 < length supported_versions" "Suc 0 < length supported_versions"
    by code_simp+
  have at: "supported_versions ! 0 = ''0.0.44''" "supported_versions ! Suc 0 = ''0.0.43''"
    "supported_versions ! Suc (Suc 0) = ''0.0.42''"
    by code_simp+
  have ad: "adapters_for None ''0.0.42'' = [AdapterV0_0_42 None]" "adapters_for None ''0.0.43'' = [AdapterV0_0_43 None]"
    by code_simp+
  show ?thesis
    using adaptation_chain_exact [OF S(1,2), of None] adaptation_chain_exact [OF S(1,3), of None]
    by (simp add: at ad)
qed

text \<open>
  Exit codes of API 0.0.39 in the newer shape. A conversion that succeeds gives a status that is a
  non-empty list of non-empty texts, a return code and a signal number with the three fields of an
  optional number, and converting the result again changes nothing.
\<close>

theorem exit_code_normal_form:
  assumes "normalize_exit_code (VDict d) = Inr v"
  shows "normalize_exit_code v = Inr v
    \<and> (\<exists>ss rc sid name. v = VDict [(''status'', VList (map VStr ss)), (''return_code'', rc),
          (''signal'', VDict [(''id'', sid), (''name'', name)])]
        \<and> ss \<noteq> [] \<and> [] \<notin> set ss \<and> optional_number_v39 rc = Inr rc \<and> optional_number_v39 sid = Inr sid)"
proof -
  obtain name sid0 where sig: "signal_parts (dget ''signal'' d) = (name, sid0)"
    by (cases "signal_parts (dget ''signal'' d)")
  obtain ss where ss: "normalize_status (dget ''status'' d) = VList (map VStr ss)" "[] \<notin> set ss"
    using normalize_status_shape by blast
  from assms sig obtain rc sid number where rc: "optional_number_v39 (dget ''return_code'' d) = Inr rc"
    and sid: "optional_number_v39 sid0 = Inr sid"
    and v: "v = VDict [(''status'', if truthy (VList (map VStr ss)) then VList (map VStr ss)
               else VList [VStr (if py_is_zero number then ''SUCCESS'' else ''FAILED'')]),
             (''return_code'', rc), (''signal'', VDict [(''id'', sid), (''name'', name)])]"
    by (auto simp: normalize_exit_code_def rbind_eq_Inr ss(1) Let_def)
  obtain ts where ts: "ts \<noteq> []" "[] \<notin> set ts"
    and v': "v = VDict [(''status'', VList (map VStr ts)), (''return_code'', rc),
          (''signal'', VDict [(''id'', sid), (''name'', name)])]"
  proof (cases "ss = []")
    case True
    show thesis
      by (rule that [of "[if py_is_zero number then ''SUCCESS'' else ''FAILED'']"]) (simp_all add: v True)
  qed (use that v ss in auto)
  have idem: "optional_number_v39 rc = Inr rc" "optional_number_v39 sid = Inr sid" "is_dict rc"
    using optional_number_idem [OF rc] optional_number_idem [OF sid] by auto
  then have "normalize_exit_code v = Inr v"
    using ts by (auto simp: v' normalize_exit_code_def dget_or_def signal_parts_def
        normalize_status_strs Let_def elim!: is_dictE)
  then show ?thesis using v' ts idem by auto
qed

theorem exit_code_normal_form_witness:
  "normalize_exit_code (VDict [(''status'', VList [VStr ''FAILED'']),
      (''return_code'', VDict [(''set'', VBool True), (''infinite'', VBool False), (''number'', VInt 2)]),
      (''signal'', VDict [(''id'', unset_optional_number), (''name'', VStr [])])])
   = Inr (VDict [(''status'', VList [VStr ''FAILED'']),
      (''return_code'', VDict [(''set'', VBool True), (''infinite'', VBool False), (''number'', VInt 2)]),
      (''signal'', VDict [(''id'', unset_optional_number), (''name'', VStr [])])])"
proof -
  have run: "normalize_exit_code (VDict [(''return_code'', VInt 2), (''signal'', VNone)])
      = Inr (VDict [(''status'', VList [VStr ''FAILED'']),
         (''return_code'', VDict [(''set'', VBool True), (''infinite'', VBool False), (''number'', VInt 2)]),
         (''signal'', VDict [(''id'', unset_optional_number), (''name'', VStr [])])])"
    by (simp add: normalize_exit_code_def optional_number_v39_def signal_parts_def normalize_status_def
        none_or_empty_def dget_or_def unset_optional_number_def)
  from exit_code_normal_form [OF run] show ?thesis by (rule conjunct1)
qed

text \<open>
  Associations through the whole chain. An association list of an 0.0.39 server, adapted up to
  0.0.44, keeps every entry and every field, except that \<open>id\<close> is the number 0 (the structured
  identifier the first adapter builds is undone by the second, whatever the cluster name).
\<close>

theorem associations_adapted:
  assumes "list_all is_dict xs"
  shows "adapt_all (build_adaptation_chain ''0.0.39'' ''0.0.44'' supported_versions hint)
      ''slurmdb'' (Some ''associations'') (VList xs)
    = Inr (VList (map (\<lambda>a. case a of VDict d \<Rightarrow> VDict (dset ''id'' (VInt 0) d) | _ \<Rightarrow> a) xs))"
proof -
  let ?cluster = "case hint of None \<Rightarrow> ''unknown'' | Some h \<Rightarrow> if h = [] then ''unknown'' else h"
  let ?one = "\<lambda>a. case a of VDict d \<Rightarrow> VDict (dset ''id'' (VDict [(''account'', dget_or ''account'' (VStr []) d),
      (''cluster'', VStr ?cluster), (''partition'', VStr []), (''user'', dget_or ''user'' (VStr []) d),
      (''id'', VInt 0)]) d) | _ \<Rightarrow> a"
  let ?two = "\<lambda>a. case a of VDict d \<Rightarrow> VDict (dset ''id'' (VInt 0) d) | _ \<Rightarrow> a"
  have chain: "build_adaptation_chain ''0.0.39'' ''0.0.44'' supported_versions hint
      = [AdapterV0_0_39 hint, AdapterV0_0_40 hint, AdapterV0_0_41 hint, AdapterV0_0_42 hint, AdapterV0_0_43 hint]"
    by code_simp
  have one: "v39_slurmdb_associations hint (VList xs) = Inr (VList (map ?one xs))"
    unfolding v39_slurmdb_associations_def Let_def by (rule for_items_dicts [OF assms]) simp
  have step: "rmap (\<lambda>a. rbind (py_get ''id'' a) (\<lambda>i. case i of
         VDict d \<Rightarrow> py_set_item ''id'' (dget_or ''id'' (VInt 0) d) a
       | VNone \<Rightarrow> py_set_item ''id'' (VInt 0) a | _ \<Rightarrow> Inr a)) (map ?one xs) = Inr (map ?two xs)"
    using assms by (induction xs) (auto simp: dget_or_def elim!: is_dictE)
  have two: "v40_slurmdb_associations (VList (map ?one xs)) = Inr (VList (map ?two xs))"
    using step by (simp add: v40_slurmdb_associations_def)
  show ?thesis
    unfolding chain adapt_all_def by (simp add: adapt_def one two)
qed

theorem associations_adapted_witness:
  "adapt_all (build_adaptation_chain ''0.0.39'' ''0.0.44'' supported_versions None)
     ''slurmdb'' (Some ''associations'') (VList [VDict [(''user'', VStr ''bob''), (''id'', VNone)]])
   = Inr (VList [VDict [(''user'', VStr ''bob''), (''id'', VInt 0)]])"
  using associations_adapted [of "[VDict [(''user'', VStr ''bob''), (''id'', VNone)]]" None] by simp

end
