(* ===== verification/Payloads.thy ===== *)
theory Payloads
  imports JsonValues
begin

text \<open>
  The payloads of \<open>slurmweb/slurmrestd/__init__.py\<close>: what \<open>Slurmrestd\<close> makes of the body of a
  write request before it is sent (associations, QOS, accounts, users, reservations). The body is a
  decoded JSON value; a dictionary that the code changes in place is returned changed.
\<close>

section \<open>QOS\<close>

definition DEFAULT_QOS_MAX_SUBMIT_JOBS_PER_USER :: int where
  "DEFAULT_QOS_MAX_SUBMIT_JOBS_PER_USER = 100"

definition DEFAULT_QOS_MAX_JOBS_PER_USER :: int where
  "DEFAULT_QOS_MAX_JOBS_PER_USER = 10"

definition DEFAULT_QOS_MAX_WALL_DURATION_PER_JOB :: int where
  "DEFAULT_QOS_MAX_WALL_DURATION_PER_JOB = 8640"

definition qos_limit :: "pv \<Rightarrow> pv" where
  "qos_limit v =
     (if is_dict v then v
      else VDict [(''set'', VBool True), (''infinite'', VBool False), (''number'', v)])"

text \<open>
  \<open>_nested_dict\<close> walks down the keys, putting an empty dictionary where there is none; here the
  walk carries the change that the caller makes to the dictionary it returns.
\<close>

fun nested_dict :: "string list \<Rightarrow> (pdict \<Rightarrow> pdict) \<Rightarrow> pdict \<Rightarrow> pdict" where
  "nested_dict [] change d = change d"
| "nested_dict (k # ks) change d =
     dset k (VDict (nested_dict ks change (case map_of d k of Some (VDict sub) \<Rightarrow> sub | _ \<Rightarrow> []))) d"

definition is_limit :: "pv \<Rightarrow> bool" where
  "is_limit v \<longleftrightarrow>
     (case v of VDict c \<Rightarrow> has_key ''set'' c \<or> has_key ''infinite'' c \<or> has_key ''number'' c | _ \<Rightarrow> False)"

fun has_limit :: "string list \<Rightarrow> pv \<Rightarrow> bool" where
  "has_limit [] v = is_limit v"
| "has_limit (k # ks) v =
     (case v of VDict c \<Rightarrow> (case map_of c k of None \<Rightarrow> False | Some sub \<Rightarrow> has_limit ks sub) | _ \<Rightarrow> False)"

fun pop_first :: "string list \<Rightarrow> pdict \<Rightarrow> pv \<times> pdict" where
  "pop_first [] qos = (VNone, qos)"
| "pop_first (alias # aliases) qos =
     (case map_of qos alias of
        None \<Rightarrow> pop_first aliases qos
      | Some v \<Rightarrow> if none_or_empty v then pop_first aliases (ddel alias qos) else (v, ddel alias qos))"

definition set_qos_limit_if_missing :: "pv \<Rightarrow> int \<Rightarrow> string list \<Rightarrow> pdict \<Rightarrow> pdict" where
  "set_qos_limit_if_missing v dflt path qos =
     nested_dict [''limits''] (\<lambda>limits.
       if has_limit path (VDict limits) then limits
       else nested_dict (butlast path)
              (dset (last path) (qos_limit (if v = VNone then VInt dflt else v))) limits) qos"

definition submit_path :: "string list" where
  "submit_path = [''max'', ''jobs'', ''per'', ''user'']"

definition active_path :: "string list" where
  "active_path = [''max'', ''jobs'', ''active_jobs'', ''per'', ''user'']"

definition wall_path :: "string list" where
  "wall_path = [''max'', ''wall_clock'', ''per'', ''job'']"

definition submit_aliases :: "string list" where
  "submit_aliases = [''max_submit_jobs_per_user'', ''MaxSubmitJobsPerUser'', ''maxSubmitJobsPerUser'']"

definition active_aliases :: "string list" where
  "active_aliases = [''max_jobs_per_user'', ''MaxJobsPerUser'', ''maxJobsPerUser'']"

definition wall_aliases :: "string list" where
  "wall_aliases = [''max_wall_duration_per_job'', ''MaxWallDurationPerJob'', ''maxWallDurationPerJob'']"

definition normalize_single_qos :: "pv \<Rightarrow> pv" where
  "normalize_single_qos qos =
     (case qos of
        VDict d \<Rightarrow>
          (let (submit, d1) = pop_first submit_aliases d;
               (active, d2) = pop_first active_aliases d1;
               (wall, d3) = pop_first wall_aliases d2
           in VDict (set_qos_limit_if_missing wall DEFAULT_QOS_MAX_WALL_DURATION_PER_JOB wall_path
                (set_qos_limit_if_missing active DEFAULT_QOS_MAX_JOBS_PER_USER active_path
                  (set_qos_limit_if_missing submit DEFAULT_QOS_MAX_SUBMIT_JOBS_PER_USER submit_path d3))))
      | _ \<Rightarrow> qos)"

text \<open>
  A payload is either a dictionary with a list under the plural key, or one entry by itself.
\<close>

definition normalize_entries :: "string \<Rightarrow> (pv \<Rightarrow> pv) \<Rightarrow> pv \<Rightarrow> pv" where
  "normalize_entries key single payload =
     (case payload of
        VDict d \<Rightarrow>
          (case dget key d of
             VList xs \<Rightarrow> VDict (dset key (VList (map single xs)) d)
           | _ \<Rightarrow> VDict [(key, VList [single payload])])
      | _ \<Rightarrow> payload)"

definition normalize_qos_payload :: "pv \<Rightarrow> pv" where
  "normalize_qos_payload = normalize_entries ''qos'' normalize_single_qos"


section \<open>Accounts and users\<close>

definition normalize_single_account :: "pv \<Rightarrow> pv" where
  "normalize_single_account payload =
     (case payload of
        VDict d \<Rightarrow>
          if truthy (dget ''organization'' d) then payload
          else VDict (dset ''organization''
            (py_or (py_or (dget ''description'' d) (dget ''name'' d)) (VStr ''unknown'')) d)
      | _ \<Rightarrow> payload)"

definition normalize_accounts_payload :: "pv \<Rightarrow> pv" where
  "normalize_accounts_payload = normalize_entries ''accounts'' normalize_single_account"

definition normalize_single_user :: "pv \<Rightarrow> pv" where
  "normalize_single_user payload =
     (case payload of VDict d \<Rightarrow> VDict (filter (\<lambda>(k, v). v \<noteq> VStr []) d) | _ \<Rightarrow> payload)"

definition normalize_users_payload :: "pv \<Rightarrow> pv" where
  "normalize_users_payload = normalize_entries ''users'' normalize_single_user"


section \<open>Associations\<close>

text \<open>\<open>_current_cluster_name\<close> may have to ask slurmrestd: it is a method, the first argument.\<close>

definition normalize_associations_payload :: "('s, pv) meth \<Rightarrow> pv \<Rightarrow> ('s, pv) meth" where
  "normalize_associations_payload current_cluster_name payload =
     (case payload of
        VDict d \<Rightarrow>
          (case dget ''associations'' d of
             VList xs \<Rightarrow>
               mbind current_cluster_name (\<lambda>cluster.
                 if \<not> truthy cluster then mret payload
                 else mret (VDict (dset ''associations''
                   (VList (map (\<lambda>a. case a of
                       VDict ad \<Rightarrow> VDict (dset ''cluster'' (py_or (dget ''cluster'' ad) cluster) ad)
                     | _ \<Rightarrow> a) xs)) d)))
           | _ \<Rightarrow> mret payload)
      | _ \<Rightarrow> mret payload)"

definition association_delete_query :: "('s, pv) meth \<Rightarrow> pv \<Rightarrow> ('s, pdict) meth" where
  "association_delete_query current_cluster_name payload =
     mbind (normalize_associations_payload current_cluster_name payload) (\<lambda>normalized.
       case normalized of
         VDict d \<Rightarrow>
           (case dget ''associations'' d of
              VList [a] \<Rightarrow>
                (case a of
                   VDict ad \<Rightarrow>
                     mbind (if truthy (dget ''cluster'' ad) then mret (dget ''cluster'' ad)
                            else current_cluster_name) (\<lambda>cluster.
                       if \<not> truthy (dget ''account'' ad) \<or> \<not> truthy (dget ''user'' ad) \<or> \<not> truthy cluster
                       then mraise (ValueError ''Association delete requires account, user and cluster'')
                       else mret [(''account'', dget ''account'' ad), (''user'', dget ''user'' ad),
                                  (''cluster'', cluster)])
                 | _ \<Rightarrow> mraise (ValueError ''Association delete entry must be a dictionary''))
            | _ \<Rightarrow> mraise (ValueError ''Association delete requires exactly one association''))
       | _ \<Rightarrow> mraise (ValueError ''Association delete payload must be a dictionary''))"


section \<open>Reservations\<close>

definition reservation_csv :: "pv \<Rightarrow> string option" where
  "reservation_csv v =
     (if none_or_empty v then None
      else let values = filter (\<lambda>i. i \<noteq> []) (map py_strip (case v of
               VStr s \<Rightarrow> py_split CHR '','' s
             | VList xs \<Rightarrow> map py_str xs
             | _ \<Rightarrow> [py_str v]))
        in if values = [] then None else Some (py_join '','' values))"

definition reservation_time :: "pv \<Rightarrow> pv" where
  "reservation_time v =
     (case v of
        VDict d \<Rightarrow>
          if has_key ''set'' d \<and> has_key ''number'' d
          then VDict [(''set'', VBool (truthy (dget ''set'' d))), (''number'', dget ''number'' d)]
          else v
      | _ \<Rightarrow> v)"

fun pop_aliases :: "string list \<Rightarrow> pdict \<Rightarrow> pv \<times> pdict" where
  "pop_aliases [] d = (VNone, d)"
| "pop_aliases (alias # aliases) d =
     (case map_of d alias of None \<Rightarrow> pop_aliases aliases d | Some v \<Rightarrow> (v, ddel alias d))"

definition set_if_some :: "string \<Rightarrow> string option \<Rightarrow> pdict \<Rightarrow> pdict" where
  "set_if_some k v d = (case v of None \<Rightarrow> d | Some s \<Rightarrow> dset k (VStr s) d)"

definition set_if_not_none :: "string \<Rightarrow> pv \<Rightarrow> pdict \<Rightarrow> pdict" where
  "set_if_not_none k v d = (if v = VNone then d else dset k (reservation_time v) d)"

definition normalize_reservation_payload :: "pv \<Rightarrow> pv" where
  "normalize_reservation_payload payload =
     (case payload of
        VDict d0 \<Rightarrow>
          (let (users, d1) = pop_aliases [''users'', ''Users''] d0;
               (groups, d2) = pop_aliases [''groups'', ''Groups''] d1;
               (accounts, d3) = pop_aliases [''accounts'', ''Accounts''] d2;
               (qos, d4) = pop_aliases [''qos'', ''QOS'', ''Qos''] d3;
               (partition, d5) = pop_aliases [''partition'', ''Partition'', ''allowed_partitions'',
                                   ''allowedPartitions'', ''AllowedPartitions''] d4;
               (start_time, d6) = pop_aliases [''start_time'', ''StartTime''] d5;
               (end_time, d7) = pop_aliases [''end_time'', ''EndTime''] d6
           in VDict (set_if_not_none ''end_time'' end_time
                (set_if_not_none ''start_time'' start_time
                (set_if_some ''partition'' (reservation_csv partition)
                (set_if_some ''qos'' (reservation_csv qos)
                (set_if_some ''accounts'' (reservation_csv accounts)
                (set_if_some ''groups'' (reservation_csv groups)
                (set_if_some ''users'' (reservation_csv users) d7))))))))
      | _ \<Rightarrow> payload)"


section \<open>Walking down a path\<close>

fun get_path :: "string list \<Rightarrow> pv \<Rightarrow> pv option" where
  "get_path [] v = Some v"
| "get_path (k # ks) v =
     (case v of VDict c \<Rightarrow> (case map_of c k of None \<Rightarrow> None | Some sub \<Rightarrow> get_path ks sub) | _ \<Rightarrow> None)"

lemma has_limit_path:
  "has_limit ks v \<longleftrightarrow> (\<exists>l. get_path ks v = Some l \<and> is_limit l)"
proof (induction ks arbitrary: v)
  case (Cons k ks)
  then show ?case by (cases v) (simp_all split: option.split)
qed simp

lemma has_limit_qos_limit: "\<not> is_dict v \<Longrightarrow> is_limit (qos_limit v)"
  by (simp add: qos_limit_def is_limit_def has_key_def)

lemma get_path_nested [simp]:
  "get_path (ks @ [k]) (VDict (nested_dict ks (dset k v) d)) = Some v"
  by (induction ks arbitrary: d) auto

text \<open>A change below one path leaves alone what another path reaches, once the two part.\<close>

lemma get_path_nested_other:
  assumes "a \<noteq> b"
  shows "get_path (cs @ a # as) (VDict (nested_dict (cs @ b # bs) change d)) = get_path (cs @ a # as) (VDict d)"
proof (induction cs arbitrary: d)
  case Nil
  then show ?case using assms by simp
next
  case (Cons c cs)
  have none: "get_path (cs @ a # as) (VDict []) = None" by (cases cs) simp_all
  have other: "\<not> is_dict v \<Longrightarrow> get_path (cs @ a # as) v = None" for v by (cases v; cases cs) simp_all
  show ?case
  proof (cases "map_of d c")
    case None
    then show ?thesis using Cons.IH [of "[]"] none by simp
  next
    case (Some sub)
    then show ?thesis using Cons.IH none other [of sub] by (cases sub) simp_all
  qed
qed

lemma get_path_nested_last:
  assumes "a \<noteq> b"
  shows "get_path (cs @ a # as) (VDict (nested_dict cs (dset b v) d)) = get_path (cs @ a # as) (VDict d)"
proof (induction cs arbitrary: d)
  case Nil
  then show ?case using assms by simp
next
  case (Cons c cs)
  have none: "get_path (cs @ a # as) (VDict []) = None" by (cases cs) simp_all
  have other: "\<not> is_dict v \<Longrightarrow> get_path (cs @ a # as) v = None" for v by (cases v; cases cs) simp_all
  show ?case
  proof (cases "map_of d c")
    case None
    then show ?thesis using Cons.IH [of "[]"] none by simp
  next
    case (Some sub)
    then show ?thesis using Cons.IH none other [of sub] by (cases sub) simp_all
  qed
qed


section \<open>QOS limits\<close>

text \<open>One call of \<open>_set_qos_limit_if_missing\<close>: its path holds a limit, parting paths are kept.\<close>

definition limit_at :: "string list \<Rightarrow> pdict \<Rightarrow> pv option" where
  "limit_at path qos = get_path (''limits'' # path) (VDict qos)"

lemma limits_dict:
  "get_path (p # ps) (VDict (case map_of qos ''limits'' of Some (VDict sub) \<Rightarrow> sub | _ \<Rightarrow> [])) = Some l
   \<longleftrightarrow> limit_at (p # ps) qos = Some l"
  by (auto simp: limit_at_def split: option.splits pv.splits)

lemma set_limit_here:
  assumes "path \<noteq> []"
  shows "limit_at path (set_qos_limit_if_missing v dflt path qos) =
    (if \<exists>l. limit_at path qos = Some l \<and> is_limit l then limit_at path qos
     else Some (qos_limit (if v = VNone then VInt dflt else v)))"
proof -
  obtain p ps where path: "path = p # ps" using assms by (cases path) auto
  let ?limits = "case map_of qos ''limits'' of Some (VDict sub) \<Rightarrow> sub | _ \<Rightarrow> []"
  let ?v = "qos_limit (if v = VNone then VInt dflt else v)"
  have has: "has_limit path (VDict ?limits) \<longleftrightarrow> (\<exists>l. limit_at path qos = Some l \<and> is_limit l)"
    using has_limit_path [of path "VDict ?limits"] unfolding path limits_dict .
  have there: "get_path path (VDict (nested_dict (butlast path) (dset (last path) ?v) ?limits)) = Some ?v"
    using get_path_nested [of "butlast path" "last path"] assms by simp
  have eq: "limit_at path (set_qos_limit_if_missing v dflt path qos)
      = get_path path (VDict (if has_limit path (VDict ?limits) then ?limits
          else nested_dict (butlast path) (dset (last path) ?v) ?limits))"
    by (simp add: limit_at_def set_qos_limit_if_missing_def)
  show ?thesis
  proof (cases "has_limit path (VDict ?limits)")
    case True
    then obtain l where l: "limit_at path qos = Some l" "is_limit l" using has by blast
    then have "get_path path (VDict ?limits) = Some l" using limits_dict path by simp
    with eq True l has show ?thesis by (simp only: if_True)
  next
    case False
    with has eq there show ?thesis by (simp only: if_False)
  qed
qed

lemma set_limit_other:
  assumes "path = cs @ b # bs" and "a \<noteq> b"
  shows "limit_at (cs @ a # as) (set_qos_limit_if_missing v dflt path qos) = limit_at (cs @ a # as) qos"
proof -
  let ?limits = "case map_of qos ''limits'' of Some (VDict sub) \<Rightarrow> sub | _ \<Rightarrow> []"
  let ?v = "qos_limit (if v = VNone then VInt dflt else v)"
  have "get_path (cs @ a # as) (VDict (nested_dict (butlast path) (dset (last path) ?v) ?limits))
      = get_path (cs @ a # as) (VDict ?limits)"
  proof (cases "bs = []")
    case True
    then show ?thesis using get_path_nested_last [OF assms(2)] assms(1) by (simp add: butlast_append)
  next
    case False
    then show ?thesis using get_path_nested_other [OF assms(2)] assms(1) by (simp add: butlast_append)
  qed
  moreover have "get_path (cs @ a # as) (VDict ?limits) = limit_at (cs @ a # as) qos"
  proof -
    have none: "get_path (cs @ a # as) (VDict []) = None" by (cases cs) simp_all
    have other: "\<not> is_dict v \<Longrightarrow> get_path (cs @ a # as) v = None" for v by (cases v; cases cs) simp_all
    show ?thesis
    proof (cases "map_of qos ''limits''")
      case (Some sub)
      then show ?thesis using none other [of sub] by (cases sub) (simp_all add: limit_at_def)
    qed (simp add: none limit_at_def)
  qed
  ultimately show ?thesis by (simp add: limit_at_def set_qos_limit_if_missing_def)
qed

lemma pop_first_cong:
  "(\<And>a. a \<in> set aliases \<Longrightarrow> map_of d a = map_of d' a) \<Longrightarrow> fst (pop_first aliases d) = fst (pop_first aliases d')"
proof (induction aliases arbitrary: d d')
  case (Cons a aliases)
  then have a: "map_of d a = map_of d' a" by simp
  show ?case
  proof (cases "map_of d a")
    case None
    have "fst (pop_first aliases d) = fst (pop_first aliases d')"
      by (rule Cons.IH) (rule Cons.prems, simp)
    then show ?thesis using a None by simp
  next
    case (Some x)
    have "fst (pop_first aliases (ddel a d)) = fst (pop_first aliases (ddel a d'))"
      by (rule Cons.IH) (simp add: Cons.prems)
    then show ?thesis using Some a by simp
  qed
qed simp

lemma pop_first_other:
  "pop_first aliases d = (v, d') \<Longrightarrow> k \<notin> set aliases \<Longrightarrow> map_of d' k = map_of d k"
proof (induction aliases arbitrary: d)
  case (Cons a aliases)
  show ?case
  proof (cases "map_of d a")
    case (Some x)
    show ?thesis
    proof (cases "none_or_empty x")
      case True
      then have "pop_first aliases (ddel a d) = (v, d')" using Cons.prems Some by simp
      from Cons.IH [OF this] show ?thesis using Cons.prems(2) by simp
    qed (use Cons.prems Some in auto)
  qed (use Cons in auto)
qed simp


section \<open>Comma-separated lists\<close>

lemma csv_parts:
  assumes "\<forall>p \<in> set ps. stripped p \<and> p \<noteq> [] \<and> CHR '','' \<notin> set p"
  shows "filter (\<lambda>i. i \<noteq> []) (map py_strip ps) = ps"
  using assms by (induction ps) auto

lemma csv_str:
  "reservation_csv (VStr s) =
     (let ps = filter (\<lambda>i. i \<noteq> []) (map py_strip (py_split CHR '','' s))
      in if ps = [] then None else Some (py_join '','' ps))"
proof (cases "s = []")
  case True
  then show ?thesis by (simp add: reservation_csv_def none_or_empty_def py_strip_stripped stripped_def)
qed (simp add: reservation_csv_def none_or_empty_def Let_def)


section \<open>Properties\<close>

definition value_or :: "int \<Rightarrow> pv \<Rightarrow> pv" where
  "value_or dflt v = (if v = VNone then VInt dflt else v)"

text \<open>
  A QOS that is sent always limits its users. After normalisation an entry has the three limits
  (submitted jobs and running jobs per user, wall time per job): a limit the entry already had is
  kept, and otherwise it is the value given under one of the aliases, or else the default.
\<close>

theorem qos_limits_complete:
  assumes "normalize_single_qos (VDict d) = VDict d'"
  shows "list_all (\<lambda>(path, aliases, dflt).
      limit_at path d' =
        (if \<exists>l. limit_at path d = Some l \<and> is_limit l then limit_at path d
         else Some (qos_limit (value_or dflt (fst (pop_first aliases d))))))
     [(submit_path, submit_aliases, 100), (active_path, active_aliases, 10), (wall_path, wall_aliases, 8640)]"
proof -
  obtain vs d1 where p1: "pop_first submit_aliases d = (vs, d1)" by fastforce
  obtain va d2 where p2: "pop_first active_aliases d1 = (va, d2)" by fastforce
  obtain vw d3 where p3: "pop_first wall_aliases d2 = (vw, d3)" by fastforce
  let ?q1 = "set_qos_limit_if_missing vs DEFAULT_QOS_MAX_SUBMIT_JOBS_PER_USER submit_path d3"
  let ?q2 = "set_qos_limit_if_missing va DEFAULT_QOS_MAX_JOBS_PER_USER active_path ?q1"
  let ?q3 = "set_qos_limit_if_missing vw DEFAULT_QOS_MAX_WALL_DURATION_PER_JOB wall_path ?q2"
  have d': "d' = ?q3" using assms p1 p2 p3 by (simp add: normalize_single_qos_def)
  have disj: "''limits'' \<notin> set submit_aliases" "''limits'' \<notin> set active_aliases" "''limits'' \<notin> set wall_aliases"
    "a \<in> set active_aliases \<Longrightarrow> a \<notin> set submit_aliases"
    "a \<in> set wall_aliases \<Longrightarrow> a \<notin> set submit_aliases" "a \<in> set wall_aliases \<Longrightarrow> a \<notin> set active_aliases" for a
    by (auto simp: submit_aliases_def active_aliases_def wall_aliases_def)
  have same: "limit_at path d3 = limit_at path d" for path
    using pop_first_other [OF p1 disj(1)] pop_first_other [OF p2 disj(2)] pop_first_other [OF p3 disj(3)]
    by (simp add: limit_at_def)
  have va: "va = fst (pop_first active_aliases d)"
    using pop_first_cong [of active_aliases d1 d] pop_first_other [OF p1] disj(4) p2 by fastforce
  have vw: "vw = fst (pop_first wall_aliases d)"
    using pop_first_cong [of wall_aliases d2 d] pop_first_other [OF p1] pop_first_other [OF p2] disj(5,6) p3 by fastforce
  have paths: "submit_path = [''max'', ''jobs''] @ ''per'' # [''user'']"
    "active_path = [''max'', ''jobs''] @ ''active_jobs'' # [''per'', ''user'']"
    "wall_path = [''max''] @ ''wall_clock'' # [''per'', ''job'']"
    "submit_path = [''max''] @ ''jobs'' # [''per'', ''user'']"
    "active_path = [''max''] @ ''jobs'' # [''active_jobs'', ''per'', ''user'']"
    by (simp_all add: submit_path_def active_path_def wall_path_def)
  have o1: "limit_at submit_path (set_qos_limit_if_missing v n active_path q) = limit_at submit_path q" for v n q
    unfolding paths(1) by (rule set_limit_other [OF paths(2)]) simp
  have o2: "limit_at submit_path (set_qos_limit_if_missing v n wall_path q) = limit_at submit_path q" for v n q
    unfolding paths(4) by (rule set_limit_other [OF paths(3)]) simp
  have o3: "limit_at active_path (set_qos_limit_if_missing v n submit_path q) = limit_at active_path q" for v n q
    unfolding paths(2) by (rule set_limit_other [OF paths(1)]) simp
  have o4: "limit_at active_path (set_qos_limit_if_missing v n wall_path q) = limit_at active_path q" for v n q
    unfolding paths(5) by (rule set_limit_other [OF paths(3)]) simp
  have o5: "limit_at wall_path (set_qos_limit_if_missing v n submit_path q) = limit_at wall_path q" for v n q
    unfolding paths(3) by (rule set_limit_other [OF paths(4)]) simp
  have o6: "limit_at wall_path (set_qos_limit_if_missing v n active_path q) = limit_at wall_path q" for v n q
    unfolding paths(3) by (rule set_limit_other [OF paths(5)]) simp
  have ne: "submit_path \<noteq> []" "active_path \<noteq> []" "wall_path \<noteq> []"
    by (simp_all add: submit_path_def active_path_def wall_path_def)
  have dflts: "DEFAULT_QOS_MAX_SUBMIT_JOBS_PER_USER = 100" "DEFAULT_QOS_MAX_JOBS_PER_USER = 10"
    "DEFAULT_QOS_MAX_WALL_DURATION_PER_JOB = 8640"
    by (simp_all add: DEFAULT_QOS_MAX_SUBMIT_JOBS_PER_USER_def DEFAULT_QOS_MAX_JOBS_PER_USER_def
        DEFAULT_QOS_MAX_WALL_DURATION_PER_JOB_def)
  have "limit_at submit_path d' = limit_at submit_path ?q1"
    "limit_at active_path d' = limit_at active_path ?q2" "limit_at wall_path d' = limit_at wall_path ?q3"
    by (simp_all only: d' o1 o2 o4)
  then have limits:
    "limit_at submit_path d' = (if \<exists>l. limit_at submit_path d = Some l \<and> is_limit l then limit_at submit_path d
       else Some (qos_limit (value_or 100 (fst (pop_first submit_aliases d)))))"
    "limit_at active_path d' = (if \<exists>l. limit_at active_path d = Some l \<and> is_limit l then limit_at active_path d
       else Some (qos_limit (value_or 10 (fst (pop_first active_aliases d)))))"
    "limit_at wall_path d' = (if \<exists>l. limit_at wall_path d = Some l \<and> is_limit l then limit_at wall_path d
       else Some (qos_limit (value_or 8640 (fst (pop_first wall_aliases d)))))"
    by (simp_all only: set_limit_here [OF ne(1)] set_limit_here [OF ne(2)] set_limit_here [OF ne(3)]
        o3 o5 o6 same dflts value_or_def p1 va [symmetric] vw [symmetric] fst_conv)
  show ?thesis by (simp only: list.pred_inject prod.case limits simp_thms)
qed

theorem qos_limits_complete_witness:
  "case normalize_single_qos (VDict [(''name'', VStr ''gold''), (''MaxJobsPerUser'', VInt 4)]) of
     VDict d' \<Rightarrow> limit_at active_path d' = Some (qos_limit (VInt 4))
        \<and> limit_at wall_path d' = Some (qos_limit (VInt 8640))
   | _ \<Rightarrow> False"
proof -
  let ?d = "[(''name'', VStr ''gold''), (''MaxJobsPerUser'', VInt 4)]"
  have "is_dict (normalize_single_qos (VDict ?d))"
    by (simp add: normalize_single_qos_def split: prod.split)
  then obtain d' where d': "normalize_single_qos (VDict ?d) = VDict d'" by blast
  have "limit_at active_path ?d = None" "limit_at wall_path ?d = None"
    "fst (pop_first active_aliases ?d) = VInt 4" "fst (pop_first wall_aliases ?d) = VNone"
    by (simp_all add: limit_at_def active_aliases_def wall_aliases_def none_or_empty_def)
  then show ?thesis using qos_limits_complete [OF d'] d' by (simp add: value_or_def)
qed

text \<open>
  Comma-separated reservation fields. A text field that is kept is the comma-joined list of its
  stripped non-empty parts, none of which holds a comma; normalising it again gives the same text, and
  a field without any such part is left out.
\<close>

lemma reservation_csv_normal:
  "case reservation_csv (VStr s) of
     None \<Rightarrow> list_all (\<lambda>p. py_strip p = []) (py_split CHR '','' s)
   | Some t \<Rightarrow> reservation_csv (VStr t) = Some t
       \<and> list_all (\<lambda>p. stripped p \<and> p \<noteq> [] \<and> CHR '','' \<notin> set p) (py_split CHR '','' t)
       \<and> py_split CHR '','' t = filter (\<lambda>p. p \<noteq> []) (map py_strip (py_split CHR '','' s))"
proof -
  obtain ps where ps: "ps = filter (\<lambda>i. i \<noteq> []) (map py_strip (py_split CHR '','' s))" by blast
  have parts: "\<forall>p \<in> set ps. stripped p \<and> p \<noteq> [] \<and> CHR '','' \<notin> set p"
    unfolding ps using py_split_parts set_py_strip by fastforce
  have csv: "reservation_csv (VStr s) = (if ps = [] then None else Some (py_join '','' ps))"
    by (simp add: csv_str ps [symmetric] Let_def)
  show ?thesis
  proof (cases "ps = []")
    case True
    then have "list_all (\<lambda>p. py_strip p = []) (py_split CHR '','' s)"
      using ps by (simp add: filter_empty_conv list_all_iff)
    with csv True show ?thesis by simp
  next
    case False
    have split: "py_split CHR '','' (py_join '','' ps) = ps"
      by (rule py_split_join [OF False]) (use parts in blast)
    have again: "reservation_csv (VStr (py_join '','' ps)) = Some (py_join '','' ps)"
      unfolding csv_str split csv_parts [OF parts] Let_def using False by (rule if_not_P)
    have "list_all (\<lambda>p. stripped p \<and> p \<noteq> [] \<and> CHR '','' \<notin> set p) ps" using parts by (simp only: list_all_iff)
    then show ?thesis unfolding csv if_not_P [OF False] option.case split
      using again ps by (intro conjI)
  qed
qed

end
