(* ===== verification/ClusterStates.thy ===== *)
theory ClusterStates
  imports JsonValues
begin

text \<open>
  The computations of \<open>slurmweb/slurmrestd/__init__.py\<close> on the job and node lists of slurmrestd:
  the counts of jobs per state and of nodes, cores, GPUs and memory per state, the GPUs of a gres
  text, the jobs of a node, the query filter on cached jobs, and the field filter. A job or a node
  is a JSON value. \<open>NodeSet\<close> is ClusterShell's: the membership test is an argument.
\<close>

section \<open>Field filters\<close>

definition filter_item_fields :: "string list \<Rightarrow> pv \<Rightarrow> pv res" where
  "filter_item_fields selection item =
     rbind (as_dict item) (\<lambda>d. Inr (VDict (filter (\<lambda>(k, v). k \<in> set selection) d)))"

definition filter_fields :: "string list option \<Rightarrow> pv \<Rightarrow> pv res" where
  "filter_fields selection items =
     (case selection of
        None \<Rightarrow> Inr items
      | Some sel \<Rightarrow>
          (case items of
             VList xs \<Rightarrow> rbind (rmap (filter_item_fields sel) xs) (\<lambda>ys. Inr (VList ys))
           | _ \<Rightarrow> filter_item_fields sel items))"


section \<open>Jobs\<close>

definition nonempty_strips :: "string list \<Rightarrow> string list" where
  "nonempty_strips xs = filter (\<lambda>s. s \<noteq> []) (map py_strip xs)"

definition partition_values :: "pv \<Rightarrow> string list" where
  "partition_values v =
     (case v of
        VNone \<Rightarrow> []
      | VStr s \<Rightarrow> nonempty_strips (py_split CHR '','' s)
      | VList xs \<Rightarrow> nonempty_strips (map py_str xs)
      | _ \<Rightarrow> nonempty_strips [py_str v])"

text \<open>The filter that \<open>jobs_states\<close> and \<open>resources_states\<close> share: whether the item is skipped.\<close>

definition outside_partition :: "string option \<Rightarrow> string \<Rightarrow> pv \<Rightarrow> bool res" where
  "outside_partition part key item =
     (case part of
        None \<Rightarrow> Inr False
      | Some p \<Rightarrow> rbind (py_get key item) (\<lambda>v. Inr (p \<notin> set (partition_values v))))"

definition JOB_STATES :: "string list" where
  "JOB_STATES = [''running'', ''pending'', ''completing'', ''completed'', ''cancelled'', ''suspended'',
     ''preempted'', ''failed'', ''timeout'', ''node_fail'', ''boot_fail'', ''deadline'',
     ''out_of_memory'', ''unknown'']"

definition bump :: "string \<Rightarrow> 'n::plus \<Rightarrow> (string \<times> 'n) list \<Rightarrow> (string \<times> 'n) list" where
  "bump k x m = (case map_of m k of None \<Rightarrow> m | Some y \<Rightarrow> dset k (y + x) m)"

text \<open>The first state of the table whose upper-case name is in the job's states.\<close>

fun first_state :: "string list \<Rightarrow> pv \<Rightarrow> string option res" where
  "first_state [] v = Inr None"
| "first_state (st # sts) v =
     rbind (py_contains (py_upper st) v) (\<lambda>b. if b then Inr (Some st) else first_state sts v)"

definition count_job :: "string option \<Rightarrow> pv \<Rightarrow> (string \<times> int) list \<times> int
    \<Rightarrow> ((string \<times> int) list \<times> int) res" where
  "count_job part job =
     (\<lambda>(jobs, total).
       rbind (outside_partition part ''partition'' job) (\<lambda>skip.
         if skip then Inr (jobs, total)
         else rbind (py_item ''job_state'' job) (\<lambda>st.
              rbind (first_state JOB_STATES st) (\<lambda>found.
              Inr (bump (case found of Some s \<Rightarrow> s | None \<Rightarrow> ''unknown'') 1 jobs, total + 1)))))"

definition jobs_states :: "string option \<Rightarrow> pv \<Rightarrow> ((string \<times> int) list \<times> int) res" where
  "jobs_states part source_jobs =
     rbind (py_iter source_jobs) (\<lambda>xs. rfold (count_job part) xs (map (\<lambda>s. (s, 0)) JOB_STATES, 0))"

definition on_node :: "(string \<Rightarrow> string \<Rightarrow> bool res) \<Rightarrow> string \<Rightarrow> pv \<Rightarrow> bool res" where
  "on_node in_nodeset node job =
     rbind (py_item ''nodes'' job) (\<lambda>nodes.
       if nodes = VStr [] then Inr False
       else case nodes of VStr s \<Rightarrow> in_nodeset node s | _ \<Rightarrow> Inl (TypeError ''NodeSet''))"

definition terminated :: "pv \<Rightarrow> bool res" where
  "terminated job =
     rany (\<lambda>st. rbind (py_item ''job_state'' job) (py_contains st)) [''COMPLETED'', ''FAILED'', ''TIMEOUT'']"

definition select_jobs_by_node :: "(string \<Rightarrow> string \<Rightarrow> bool res) \<Rightarrow> string \<Rightarrow> pv \<Rightarrow> pv list res" where
  "select_jobs_by_node in_nodeset node jobs =
     rbind (py_iter jobs) (\<lambda>xs.
     rbind (rmap (\<lambda>job. rbind (on_node in_nodeset node job) (\<lambda>on.
              if \<not> on then Inr [] else rbind (terminated job) (\<lambda>t. Inr (if t then [] else [job])))) xs) (\<lambda>ys.
     Inr (concat ys)))"

text \<open>\<open>_split_query_values\<close> and the filter applied to the cached jobs.\<close>

definition split_query_values :: "pv \<Rightarrow> string list" where
  "split_query_values v =
     (if none_or_empty v then []
      else map py_lower (nonempty_strips
        (case v of VList xs \<Rightarrow> map py_str xs | _ \<Rightarrow> py_split CHR '','' (py_str v))))"

definition query_value :: "string \<Rightarrow> string \<Rightarrow> pdict \<Rightarrow> pv" where
  "query_value k1 k2 query = py_or (dget k1 query) (dget k2 query)"

definition field_in :: "string \<Rightarrow> string list \<Rightarrow> pdict \<Rightarrow> bool" where
  "field_in field values job \<longleftrightarrow>
     values = [] \<or> py_lower (py_str (dget_or field (VStr []) job)) \<in> set values"

definition job_matches :: "pdict \<Rightarrow> pv \<Rightarrow> bool res" where
  "job_matches query job =
     rbind (as_dict job) (\<lambda>d.
       if \<not> (field_in ''user_name'' (split_query_values (query_value ''user'' ''users'' query)) d
             \<and> field_in ''account'' (split_query_values (query_value ''account'' ''accounts'' query)) d
             \<and> field_in ''qos'' (split_query_values (dget ''qos'' query)) d
             \<and> field_in ''partition'' (split_query_values (query_value ''partition'' ''partitions'' query)) d)
       then Inr False
       else let states = split_query_values (query_value ''state'' ''states'' query) in
         if states = [] then Inr True
         else rbind (py_iter (dget_or ''job_state'' (VList []) d)) (\<lambda>sts.
           Inr (list_ex (\<lambda>s. s \<in> set (map (\<lambda>v. py_lower (py_str v)) sts)) states)))"

definition filter_cached_jobs :: "pdict \<Rightarrow> pv \<Rightarrow> pv res" where
  "filter_cached_jobs query jobs =
     rbind (py_iter jobs) (\<lambda>xs.
     rbind (rmap (\<lambda>job. rbind (job_matches query job) (\<lambda>b. Inr (if b then [job] else []))) xs) (\<lambda>ys.
     Inr (VList (concat ys))))"


section \<open>Nodes\<close>

definition gres_gpus :: "string \<Rightarrow> int res" where
  "gres_gpus gres_s =
     (if gres_s = [] then Inr 0
      else let gres = py_split CHR '':'' (hd (py_split CHR ''('' gres_s)) in
        if hd gres = ''gpu'' then py_int (VStr (last gres)) else Inr 0)"

definition node_gres_extract_gpus :: "string \<Rightarrow> int res" where
  "node_gres_extract_gpus gres_full =
     rbind (rmap gres_gpus (py_split CHR '','' gres_full)) (\<lambda>ns. Inr (sum_list ns))"

definition gpus_of :: "string \<Rightarrow> pv \<Rightarrow> int res" where
  "gpus_of key node =
     rbind (py_item key node) (\<lambda>v.
       case v of VStr s \<Rightarrow> node_gres_extract_gpus s | _ \<Rightarrow> Inl (AttributeError ''split''))"

definition NODE_STATES :: "string list" where
  "NODE_STATES = [''idle'', ''mixed'', ''allocated'', ''drain'', ''down'', ''error'', ''fail'', ''unknown'']"

record resource_counts =
  rc_nodes :: "(string \<times> int) list"
  rc_cores :: "(string \<times> rat) list"
  rc_gpus :: "(string \<times> int) list"
  rc_memory_idle :: rat
  rc_memory_allocated :: rat
  rc_nodes_total :: int
  rc_cores_total :: rat
  rc_gpus_total :: int
  rc_memory_total :: rat

definition no_resources :: resource_counts where
  "no_resources =
     \<lparr>rc_nodes = map (\<lambda>s. (s, 0)) NODE_STATES, rc_cores = map (\<lambda>s. (s, 0)) NODE_STATES,
      rc_gpus = map (\<lambda>s. (s, 0)) NODE_STATES, rc_memory_idle = 0, rc_memory_allocated = 0,
      rc_nodes_total = 0, rc_cores_total = 0, rc_gpus_total = 0, rc_memory_total = 0\<rparr>"

text \<open>The chain of tests on the node's states; the first that holds decides.\<close>

fun node_state :: "string list \<Rightarrow> pv \<Rightarrow> string res" where
  "node_state [] v = Inr ''unknown''"
| "node_state (st # sts) v =
     rbind (py_contains (py_upper st) v) (\<lambda>b. if b then Inr st else node_state sts v)"

definition NODE_STATE_TESTS :: "string list" where
  "NODE_STATE_TESTS = [''error'', ''fail'', ''mixed'', ''allocated'', ''down'', ''drain'', ''idle'']"

definition count_state :: "string \<Rightarrow> rat \<Rightarrow> int \<Rightarrow> pv \<Rightarrow> resource_counts \<Rightarrow> resource_counts res" where
  "count_state st cores node_gpus node rc =
     (let rc1 = rc\<lparr>rc_nodes := bump st 1 (rc_nodes rc)\<rparr> in
      if st = ''mixed'' then
        rbind (py_item ''alloc_cpus'' node) (\<lambda>v. rbind (py_num v) (\<lambda>alloc.
        rbind (py_item ''alloc_idle_cpus'' node) (\<lambda>w. rbind (py_num w) (\<lambda>idle.
        rbind (gpus_of ''gres_used'' node) (\<lambda>used.
        Inr (rc1\<lparr>rc_cores := bump ''idle'' idle (bump ''allocated'' alloc (rc_cores rc)),
                 rc_gpus := bump ''idle'' (node_gpus - used) (bump ''allocated'' used (rc_gpus rc))\<rparr>))))))
      else if st = ''allocated'' then
        rbind (gpus_of ''gres_used'' node) (\<lambda>used.
        Inr (rc1\<lparr>rc_cores := bump ''allocated'' cores (rc_cores rc),
                 rc_gpus := bump ''idle'' (node_gpus - used) (bump ''allocated'' used (rc_gpus rc))\<rparr>))
      else Inr (rc1\<lparr>rc_cores := bump st cores (rc_cores rc), rc_gpus := bump st node_gpus (rc_gpus rc)\<rparr>))"

definition count_node :: "string option \<Rightarrow> pv \<Rightarrow> resource_counts \<Rightarrow> resource_counts res" where
  "count_node part node rc =
     rbind (outside_partition part ''partitions'' node) (\<lambda>skip.
       if skip then Inr rc
       else
         rbind (py_item ''cpus'' node) (\<lambda>c. rbind (py_num c) (\<lambda>cores.
         rbind (gpus_of ''gres'' node) (\<lambda>node_gpus.
         rbind (py_get_or ''real_memory'' (VInt 0) node) (\<lambda>rm. rbind (py_num rm) (\<lambda>rmem.
         rbind (py_get_or ''alloc_memory'' (VInt 0) node) (\<lambda>am. rbind (py_num am) (\<lambda>amem.
         let real = max 0 rmem; alloc = max 0 (min real amem); idle = max (real - alloc) 0;
             rc1 = rc\<lparr>rc_memory_idle := rc_memory_idle rc + idle / 1024,
                      rc_memory_allocated := rc_memory_allocated rc + alloc / 1024\<rparr> in
         rbind (py_item ''state'' node) (\<lambda>sv.
         rbind (node_state NODE_STATE_TESTS sv) (\<lambda>st.
         rbind (count_state st cores node_gpus node rc1) (\<lambda>rc2.
         Inr (rc2\<lparr>rc_nodes_total := rc_nodes_total rc2 + 1, rc_cores_total := rc_cores_total rc2 + cores,
                  rc_gpus_total := rc_gpus_total rc2 + node_gpus,
                  rc_memory_total := rc_memory_total rc2 + real / 1024\<rparr>))))))))))))"

definition resources_states :: "string option \<Rightarrow> pv \<Rightarrow> resource_counts res" where
  "resources_states part nodes =
     rbind (py_iter nodes) (\<lambda>xs. rfold (count_node part) xs no_resources)"


section \<open>Counters\<close>

definition total_of :: "(string \<times> 'n::comm_monoid_add) list \<Rightarrow> 'n" where
  "total_of m = sum_list (map snd m)"

lemma bump_keys [simp]: "map fst (bump k x m) = map fst m"
proof (cases "map_of m k")
  case (Some y)
  then have "k \<in> fst ` set m" by (force dest: map_of_SomeD)
  with Some show ?thesis by (simp add: bump_def update_keys)
qed (simp add: bump_def)

lemma total_dset:
  "distinct (map fst m) \<Longrightarrow> map_of m k = Some y \<Longrightarrow> total_of (dset k (y + x) m) = total_of m + (x :: 'n::comm_monoid_add)"
  by (induction m) (auto simp: total_of_def ac_simps split: if_splits)

lemma total_bump:
  assumes "distinct (map fst m)" and "k \<in> set (map fst m)"
  shows "total_of (bump k x m) = total_of m + x"
proof -
  obtain y where "map_of m k = Some y" using assms(2) by (cases "map_of m k") (auto simp: map_of_eq_None_iff)
  then show ?thesis using total_dset [OF assms(1)] by (simp add: bump_def)
qed

lemma first_state_in: "first_state sts v = Inr (Some s) \<Longrightarrow> s \<in> set sts"
  by (induction sts) (auto simp: rbind_eq_Inr split: if_splits)

lemma node_state_in: "node_state sts v = Inr s \<Longrightarrow> s \<in> set sts \<or> s = ''unknown''"
  by (induction sts) (auto simp: rbind_eq_Inr split: if_splits)

text \<open>The items a partition selects.\<close>

definition selected :: "string option \<Rightarrow> string \<Rightarrow> pv list \<Rightarrow> pv list" where
  "selected part key xs = filter (\<lambda>x. outside_partition part key x = Inr False) xs"

definition job_counts_ok :: "(string \<times> int) list \<times> int \<Rightarrow> bool" where
  "job_counts_ok c \<longleftrightarrow> map fst (fst c) = JOB_STATES \<and> total_of (fst c) = snd c"

lemma JOB_STATES_distinct: "distinct JOB_STATES" "''unknown'' \<in> set JOB_STATES"
  by (simp_all add: JOB_STATES_def)

lemma count_job_step:
  assumes "count_job part job c = Inr c'" and "job_counts_ok c"
  shows "job_counts_ok c' \<and> snd c' = snd c + int (length (selected part ''partition'' [job]))"
proof -
  obtain jobs total where c: "c = (jobs, total)" by (cases c)
  from assms(1) obtain skip where skip: "outside_partition part ''partition'' job = Inr skip"
    by (auto simp: count_job_def c rbind_eq_Inr)
  show ?thesis
  proof (cases skip)
    case True
    then show ?thesis using assms skip c by (auto simp: count_job_def selected_def)
  next
    case False
    with assms(1) skip c obtain st found where "first_state JOB_STATES st = Inr found"
      and c': "c' = (bump (case found of Some s \<Rightarrow> s | None \<Rightarrow> ''unknown'') 1 jobs, total + 1)"
      by (auto simp: count_job_def rbind_eq_Inr)
    then have "(case found of Some s \<Rightarrow> s | None \<Rightarrow> ''unknown'') \<in> set JOB_STATES"
      using first_state_in JOB_STATES_distinct by (auto split: option.split)
    then show ?thesis
      using assms(2) c c' False skip JOB_STATES_distinct
      by (auto simp: job_counts_ok_def selected_def total_bump)
  qed
qed

lemma count_jobs_loop:
  assumes "rfold (count_job part) xs c = Inr c'" and "job_counts_ok c"
  shows "job_counts_ok c' \<and> snd c' = snd c + int (length (selected part ''partition'' xs))"
  using assms
proof (induction xs arbitrary: c)
  case (Cons x xs)
  then obtain c1 where "count_job part x c = Inr c1" "rfold (count_job part) xs c1 = Inr c'"
    by (auto simp: rbind_eq_Inr)
  with Cons count_job_step [of part x c c1] show ?case by (auto simp: selected_def split: if_splits)
qed (simp add: selected_def)

definition node_counts_ok :: "resource_counts \<Rightarrow> bool" where
  "node_counts_ok rc \<longleftrightarrow>
     map fst (rc_nodes rc) = NODE_STATES \<and> map fst (rc_gpus rc) = NODE_STATES
     \<and> map fst (rc_cores rc) = NODE_STATES
     \<and> total_of (rc_nodes rc) = rc_nodes_total rc \<and> total_of (rc_gpus rc) = rc_gpus_total rc
     \<and> rc_memory_idle rc + rc_memory_allocated rc = rc_memory_total rc"

lemma NODE_STATES_facts:
  "distinct NODE_STATES" "''idle'' \<in> set NODE_STATES" "''allocated'' \<in> set NODE_STATES"
  by (simp_all add: NODE_STATES_def)

text \<open>What counting one node adds to the cores, given the node's own numbers.\<close>

definition cores_balanced :: "pv \<Rightarrow> bool" where
  "cores_balanced node \<longleftrightarrow>
     (case (rbind (py_item ''cpus'' node) py_num, rbind (py_item ''alloc_cpus'' node) py_num,
            rbind (py_item ''alloc_idle_cpus'' node) py_num) of
        (Inr c, Inr a, Inr i) \<Rightarrow> a + i = c
      | _ \<Rightarrow> False)"

lemma count_state_step:
  assumes "count_state st cores gpus node rc = Inr rc'" and "st \<in> set NODE_STATES"
    and "map fst (rc_nodes rc) = NODE_STATES" "map fst (rc_gpus rc) = NODE_STATES" "map fst (rc_cores rc) = NODE_STATES"
  shows "map fst (rc_nodes rc') = NODE_STATES \<and> map fst (rc_gpus rc') = NODE_STATES \<and> map fst (rc_cores rc') = NODE_STATES
    \<and> total_of (rc_nodes rc') = total_of (rc_nodes rc) + 1 \<and> total_of (rc_gpus rc') = total_of (rc_gpus rc) + gpus
    \<and> (cores_balanced node \<and> rbind (py_item ''cpus'' node) py_num = Inr cores \<longrightarrow>
         total_of (rc_cores rc') = total_of (rc_cores rc) + cores)
    \<and> rc_memory_idle rc' = rc_memory_idle rc \<and> rc_memory_allocated rc' = rc_memory_allocated rc
    \<and> rc_memory_total rc' = rc_memory_total rc \<and> rc_nodes_total rc' = rc_nodes_total rc
    \<and> rc_gpus_total rc' = rc_gpus_total rc \<and> rc_cores_total rc' = rc_cores_total rc"
proof -
  note keys = NODE_STATES_facts assms(3-5)
  consider (mixed) "st = ''mixed''" | (allocated) "st = ''allocated''" | (other) "st \<noteq> ''mixed''" "st \<noteq> ''allocated''"
    by blast
  then show ?thesis
  proof cases
    case mixed
    then show ?thesis
      using assms(1,2) keys
      by (auto simp: count_state_def Let_def rbind_eq_Inr total_bump cores_balanced_def)
  next
    case allocated
    then show ?thesis
      using assms(1,2) keys by (auto simp: count_state_def Let_def rbind_eq_Inr total_bump)
  next
    case other
    then show ?thesis
      using assms(1,2) keys by (auto simp: count_state_def Let_def total_bump)
  qed
qed

lemma idle_and_allocated:
  "max (max 0 r - max 0 (min (max 0 r) a)) 0 / 1024 + max 0 (min (max 0 r) a) / 1024 = max 0 r / (1024 :: rat)"
  by (simp add: add_divide_distrib [symmetric] max_def min_def)

lemma count_node_step:
  assumes "count_node part node rc = Inr rc'" and "node_counts_ok rc"
  shows "node_counts_ok rc' \<and> rc_nodes_total rc' = rc_nodes_total rc + int (length (selected part ''partitions'' [node]))
    \<and> (cores_balanced node \<longrightarrow> total_of (rc_cores rc) = rc_cores_total rc \<longrightarrow> total_of (rc_cores rc') = rc_cores_total rc')"
proof -
  from assms(1) obtain skip where skip: "outside_partition part ''partitions'' node = Inr skip"
    by (auto simp: count_node_def rbind_eq_Inr)
  show ?thesis
  proof (cases skip)
    case True
    then show ?thesis using assms skip by (auto simp: count_node_def selected_def)
  next
    case False
    with assms(1) skip obtain c cores gpus mi ma mt sv st rc2 where
        cpus: "py_item ''cpus'' node = Inr c" "py_num c = Inr cores"
      and st: "node_state NODE_STATE_TESTS sv = Inr st" and mem: "mi + ma = mt"
      and rc2: "count_state st cores gpus node
          (rc\<lparr>rc_memory_idle := rc_memory_idle rc + mi, rc_memory_allocated := rc_memory_allocated rc + ma\<rparr>) = Inr rc2"
      and rc': "rc' = rc2\<lparr>rc_nodes_total := rc_nodes_total rc2 + 1, rc_cores_total := rc_cores_total rc2 + cores,
                  rc_gpus_total := rc_gpus_total rc2 + gpus, rc_memory_total := rc_memory_total rc2 + mt\<rparr>"
      using idle_and_allocated by (fastforce simp: count_node_def rbind_eq_Inr Let_def)
    have "st \<in> set NODE_STATES" using node_state_in [OF st] by (auto simp: NODE_STATES_def NODE_STATE_TESTS_def)
    from count_state_step [OF rc2 this] assms(2)
    have s: "map fst (rc_nodes rc2) = NODE_STATES" "map fst (rc_gpus rc2) = NODE_STATES" "map fst (rc_cores rc2) = NODE_STATES"
      "total_of (rc_nodes rc2) = total_of (rc_nodes rc) + 1" "total_of (rc_gpus rc2) = total_of (rc_gpus rc) + gpus"
      "cores_balanced node \<and> rbind (py_item ''cpus'' node) py_num = Inr cores \<longrightarrow>
         total_of (rc_cores rc2) = total_of (rc_cores rc) + cores"
      "rc_memory_idle rc2 = rc_memory_idle rc + mi" "rc_memory_allocated rc2 = rc_memory_allocated rc + ma"
      "rc_memory_total rc2 = rc_memory_total rc" "rc_nodes_total rc2 = rc_nodes_total rc"
      "rc_gpus_total rc2 = rc_gpus_total rc" "rc_cores_total rc2 = rc_cores_total rc"
      by (simp_all add: node_counts_ok_def)
    have ok: "node_counts_ok rc'"
      using s(1-5,7-11) assms(2) mem by (simp add: rc' node_counts_ok_def)
    have "length (selected part ''partitions'' [node]) = 1" using skip False by (simp add: selected_def)
    with ok s(6,10,12) cpus show ?thesis by (simp add: rc')
  qed
qed

lemma count_nodes_loop:
  assumes "rfold (count_node part) xs rc = Inr rc'" and "node_counts_ok rc"
  shows "node_counts_ok rc' \<and> rc_nodes_total rc' = rc_nodes_total rc + int (length (selected part ''partitions'' xs))
    \<and> (list_all cores_balanced xs \<longrightarrow> total_of (rc_cores rc) = rc_cores_total rc \<longrightarrow> total_of (rc_cores rc') = rc_cores_total rc')"
  using assms
proof (induction xs arbitrary: rc)
  case (Cons x xs)
  then obtain rc1 where "count_node part x rc = Inr rc1" "rfold (count_node part) xs rc1 = Inr rc'"
    by (auto simp: rbind_eq_Inr)
  with Cons count_node_step [of part x rc rc1] show ?case by (auto simp: selected_def split: if_splits)
qed (simp add: selected_def)


section \<open>Properties\<close>

text \<open>
  The job counters add up. When counting succeeds, every state of the table has its counter, the
  counters sum to the total, and the total is the number of jobs the partition selects: every selected
  job is counted once.
\<close>

theorem jobs_states_total:
  assumes "jobs_states part (VList xs) = Inr (counts, tot)"
  shows "map fst counts = JOB_STATES \<and> total_of counts = tot
    \<and> tot = int (length (selected part ''partition'' xs))"
proof -
  have "job_counts_ok (map (\<lambda>s. (s, 0)) JOB_STATES, 0)"
    by (simp add: job_counts_ok_def total_of_def comp_def)
  with count_jobs_loop [of part xs _ "(counts, tot)"] assms
  show ?thesis by (fastforce simp: jobs_states_def py_iter_def job_counts_ok_def)
qed

theorem jobs_states_total_witness:
  "\<exists>counts. jobs_states (Some ''debug'')
      (VList [VDict [(''partition'', VStr ''normal, debug''), (''job_state'', VList [VStr ''RUNNING''])],
              VDict [(''partition'', VStr ''normal''), (''job_state'', VList [VStr ''PENDING''])]])
    = Inr (counts, 1) \<and> total_of counts = 1"
proof -
  let ?xs = "[VDict [(''partition'', VStr ''normal, debug''), (''job_state'', VList [VStr ''RUNNING''])],
              VDict [(''partition'', VStr ''normal''), (''job_state'', VList [VStr ''PENDING''])]]"
  have "\<not> isl (jobs_states (Some ''debug'') (VList ?xs))" by code_simp
  then obtain counts tot where run: "jobs_states (Some ''debug'') (VList ?xs) = Inr (counts, tot)"
    by (cases "jobs_states (Some ''debug'') (VList ?xs)") auto
  have "length (selected (Some ''debug'') ''partition'' ?xs) = 1" by code_simp
  with jobs_states_total [OF run] run show ?thesis by simp
qed

text \<open>
  The resource counters add up. When counting succeeds, the node counters sum to the number of
  nodes the partition selects, the GPU counters to the GPU total, idle and allocated memory to the
  total memory, and, if every node's allocated and idle cores make up its cores, the core counters to
  the core total.
\<close>

theorem resources_states_total:
  assumes "resources_states part (VList xs) = Inr rc"
  shows "total_of (rc_nodes rc) = int (length (selected part ''partitions'' xs))
    \<and> rc_nodes_total rc = total_of (rc_nodes rc) \<and> total_of (rc_gpus rc) = rc_gpus_total rc
    \<and> rc_memory_idle rc + rc_memory_allocated rc = rc_memory_total rc
    \<and> (list_all cores_balanced xs \<longrightarrow> total_of (rc_cores rc) = rc_cores_total rc)"
proof -
  have "node_counts_ok no_resources" "total_of (rc_cores no_resources) = rc_cores_total no_resources"
    "rc_nodes_total no_resources = 0"
    by (simp_all add: node_counts_ok_def no_resources_def total_of_def comp_def)
  with count_nodes_loop [of part xs no_resources rc] assms
  show ?thesis by (auto simp: resources_states_def py_iter_def node_counts_ok_def)
qed

definition demo_node :: "string \<Rightarrow> pv" where
  "demo_node st = VDict [(''cpus'', VInt 8), (''gres'', VStr ''gpu:2''), (''gres_used'', VStr ''gpu:1''),
     (''real_memory'', VInt 2048), (''alloc_memory'', VInt 1024), (''alloc_cpus'', VInt 3),
     (''alloc_idle_cpus'', VInt 5), (''state'', VList [VStr st])]"

theorem resources_states_total_witness:
  "rbind (resources_states None (VList [demo_node ''MIXED'', demo_node ''DOWN'']))
     (\<lambda>rc. Inr (total_of (rc_nodes rc))) = Inr 2"
proof -
  let ?xs = "[demo_node ''MIXED'', demo_node ''DOWN'']"
  have "\<not> isl (resources_states None (VList ?xs))" by code_simp
  then obtain rc where run: "resources_states None (VList ?xs) = Inr rc"
    by (cases "resources_states None (VList ?xs)") auto
  have "length (selected None ''partitions'' ?xs) = 2" by (simp add: selected_def outside_partition_def)
  with resources_states_total [OF run] run show ?thesis by simp
qed

record gres_entry =
  ge_name :: string
  ge_type :: "string option"
  ge_count :: nat
  ge_index :: "string option"

definition gres_text :: "gres_entry \<Rightarrow> string" where
  "gres_text g = ge_name g @ (case ge_type g of None \<Rightarrow> [] | Some t \<Rightarrow> '':'' @ t) @ '':'' @ nat_str (ge_count g)
     @ (case ge_index g of None \<Rightarrow> [] | Some i \<Rightarrow> ''('' @ i @ '')'')"

definition plain_word :: "string \<Rightarrow> bool" where
  "plain_word w \<longleftrightarrow> CHR '','' \<notin> set w \<and> CHR '':'' \<notin> set w \<and> CHR ''('' \<notin> set w"

definition wf_gres :: "gres_entry \<Rightarrow> bool" where
  "wf_gres g \<longleftrightarrow> plain_word (ge_name g) \<and> (case ge_type g of None \<Rightarrow> True | Some t \<Rightarrow> plain_word t)
     \<and> (case ge_index g of None \<Rightarrow> True | Some i \<Rightarrow> CHR '','' \<notin> set i)"

lemma nat_str_plain: "plain_word (nat_str n)"
proof -
  have "\<not> is_digit CHR '',''" "\<not> is_digit CHR '':''" "\<not> is_digit CHR ''(''" by (simp_all add: is_digit_def)
  then show ?thesis using nat_str_digits [of n] by (auto simp: plain_word_def)
qed

lemma parse_nat: "py_parse_int (nat_str n) = Some (int n)"
  using py_parse_int_str [of "int n"] by (simp add: int_str_def)

lemma gres_text_no_comma:
  assumes "wf_gres g"
  shows "CHR '','' \<notin> set (gres_text g)"
  using assms nat_str_plain [of "ge_count g"]
  by (cases "ge_type g"; cases "ge_index g") (simp_all add: wf_gres_def gres_text_def plain_word_def)

lemma gres_gpus_text:
  assumes "wf_gres g"
  shows "gres_gpus (gres_text g) = Inr (if ge_name g = ''gpu'' then int (ge_count g) else 0)"
proof -
  let ?t = "case ge_type g of None \<Rightarrow> [] | Some t \<Rightarrow> '':'' @ t"
  let ?head = "ge_name g @ ?t @ '':'' @ nat_str (ge_count g)"
  have plain: "plain_word (ge_name g)" "\<And>t. ge_type g = Some t \<Longrightarrow> plain_word t" "plain_word (nat_str (ge_count g))"
    using assms nat_str_plain by (auto simp: wf_gres_def)
  have "CHR ''('' \<notin> set ?head" using plain by (auto simp: plain_word_def split: option.split)
  then have "hd (py_split CHR ''('' (gres_text g)) = ?head"
    by (cases "ge_index g") (simp_all add: gres_text_def py_split_no_sep py_split_append_sep [of _ ?head, simplified])
  moreover have "py_split CHR '':'' ?head = ge_name g # (case ge_type g of None \<Rightarrow> [] | Some t \<Rightarrow> [t]) @ [nat_str (ge_count g)]"
    using plain by (cases "ge_type g") (simp_all add: plain_word_def py_split_append_sep py_split_no_sep)
  ultimately show ?thesis
    by (simp add: gres_gpus_def Let_def gres_text_def parse_nat split: option.split)
qed

text \<open>
  GPUs of a gres text. Whatever list of generic resources (name, optional type, count, optional
  index set without comma) is written in Slurm's notation, the GPUs read back are the sum of the
  counts of its \<open>gpu\<close> entries.
\<close>

theorem gpus_round_trip:
  assumes "list_all wf_gres gs" and "gs \<noteq> []"
  shows "node_gres_extract_gpus (py_join '','' (map gres_text gs))
    = Inr (sum_list (map (\<lambda>g. int (ge_count g)) (filter (\<lambda>g. ge_name g = ''gpu'') gs)))"
proof -
  have "CHR '','' \<notin> set (gres_text g)" if "g \<in> set gs" for g
    using assms(1) that gres_text_no_comma by (simp add: list_all_iff)
  then have "py_split CHR '','' (py_join '','' (map gres_text gs)) = map gres_text gs"
    using assms(2) by (intro py_split_join) auto
  moreover have "rmap gres_gpus (map gres_text gs)
      = Inr (map (\<lambda>g. if ge_name g = ''gpu'' then int (ge_count g) else 0) gs)"
    using assms(1) by (induction gs) (auto simp: gres_gpus_text)
  moreover have "sum_list (map (\<lambda>g. if ge_name g = ''gpu'' then int (ge_count g) else 0) gs)
      = sum_list (map (\<lambda>g. int (ge_count g)) (filter (\<lambda>g. ge_name g = ''gpu'') gs))"
    by (induction gs) auto
  ultimately show ?thesis by (simp add: node_gres_extract_gpus_def)
qed

theorem gpus_round_trip_witness:
  "node_gres_extract_gpus ''gpu:tesla:4(S:0-1),shard:8,gpu:2'' = Inr 6"
proof -
  let ?gs = "[\<lparr>ge_name = ''gpu'', ge_type = Some ''tesla'', ge_count = 4, ge_index = Some ''S:0-1''\<rparr>,
    \<lparr>ge_name = ''shard'', ge_type = None, ge_count = 8, ge_index = None\<rparr>,
    \<lparr>ge_name = ''gpu'', ge_type = None, ge_count = 2, ge_index = None\<rparr>]"
  have "list_all wf_gres ?gs" by code_simp
  moreover have "py_join '','' (map gres_text ?gs) = ''gpu:tesla:4(S:0-1),shard:8,gpu:2''" by code_simp
  ultimately show ?thesis using gpus_round_trip [of ?gs] by simp
qed

text \<open>
  The cached job list ignores jobs submitted to several partitions. The filter on the cached list
  compares the whole partition text, the state counters split it at commas: a pending job of
  \<open>normal,debug\<close> counts as a job of \<open>debug\<close> but is not among the jobs listed for \<open>debug\<close>.
\<close>

theorem cached_filter_multi_partition:
  "filter_cached_jobs [(''partition'', VStr ''debug'')]
     (VList [VDict [(''partition'', VStr ''normal,debug''), (''job_state'', VList [VStr ''PENDING''])]]) = Inr (VList [])
   \<and> rbind (jobs_states (Some ''debug'')
       (VList [VDict [(''partition'', VStr ''normal,debug''), (''job_state'', VList [VStr ''PENDING''])]]))
     (\<lambda>c. Inr (snd c)) = Inr 1"
  by code_simp

end
