(* ===== verification/Slurmrestd.thy ===== *)
theory Slurmrestd
  imports Adapters Payloads ClusterStates
begin

text \<open>
  \<open>slurmweb/slurmrestd/auth.py\<close> and the classes \<open>Slurmrestd\<close> and \<open>SlurmrestdAdapter\<close> of
  \<open>slurmweb/slurmrestd/__init__.py\<close>: authentication headers, requests and their validation, version
  discovery, the adaptation of answers, and the operations of the API. What is outside the program
  (the HTTP session with the server behind it, the clock, the JWT library) is the record \<open>outside\<close>
  over a state \<open>'w\<close> of its own. The object always is a \<open>SlurmrestdFilteredCached\<close>, so \<open>discover\<close> and
  \<open>_request\<close> called on \<open>self\<close> are those of \<open>SlurmrestdAdapter\<close>.
\<close>

section \<open>The outside\<close>

record request =
  rq_method :: string
  rq_url :: string
  rq_headers :: "(string \<times> string) list"
  rq_json :: pv
  rq_params :: pv

record response =
  rsp_status :: nat
  rsp_text :: string
  rsp_url :: string
  rsp_content_type :: "string option"
  rsp_json :: "pv res" \<comment> \<open>\<open>response.json()\<close>\<close>

datatype http_reply = Reply response | ConnectionFailed string

record 'w outside =
  http :: "request \<Rightarrow> 'w \<Rightarrow> http_reply \<times> 'w"
  clock :: "'w \<Rightarrow> int \<times> 'w" \<comment> \<open>\<open>int(time.time())\<close>\<close>
  generate_jwt :: "int \<Rightarrow> string \<Rightarrow> 'w \<Rightarrow> string res \<times> 'w" \<comment> \<open>lifespan in seconds, user\<close>


section \<open>Authentication\<close>

record auth =
  au_method :: string
  au_jwt_mode :: string
  au_jwt_user :: string
  au_jwt_lifespan :: int
  au_jwt_token :: "string option"
  au_expiration :: int

text \<open>
  The constructor: \<open>validate\<close> is the expiration that \<open>jwt_validate_expiration\<close> returns and
  \<open>load_key\<close> the construction of the JWT manager.
\<close>

definition new_authentifier ::
  "(string \<Rightarrow> int res) \<Rightarrow> unit res \<Rightarrow> string \<Rightarrow> string \<Rightarrow> string \<Rightarrow> int \<Rightarrow> string option \<Rightarrow> auth res" where
  "new_authentifier validate load_key method jwt_mode jwt_user jwt_lifespan jwt_token =
     (let au = \<lparr>au_method = method, au_jwt_mode = jwt_mode, au_jwt_user = jwt_user,
                au_jwt_lifespan = jwt_lifespan, au_jwt_token = None, au_expiration = 0\<rparr> in
      if method = ''local'' then Inr au
      else if jwt_mode = ''static'' then
        (case jwt_token of
           None \<Rightarrow> Inl (SlurmwebConfigurationError ''Missing token in configuration'')
         | Some t \<Rightarrow>
             if t = [] then Inl (SlurmwebConfigurationError ''Missing token in configuration'')
             else (case validate t of
                 Inl e \<Rightarrow> Inl (SlurmwebConfigurationError ''Invalid slurmrestd JWT'')
               | Inr ex \<Rightarrow> Inr (au\<lparr>au_jwt_token := Some t, au_expiration := ex\<rparr>)))
      else (case load_key of
          Inl e \<Rightarrow> Inl (SlurmwebConfigurationError ''Unable to load JWT key'')
        | Inr _ \<Rightarrow> Inr au))"

definition generate_token :: "'w outside \<Rightarrow> (auth \<times> 'w, string) meth" where
  "generate_token E = (\<lambda>(au, w).
     let (now, w1) = clock E w;
         au1 = au\<lparr>au_expiration := now + au_jwt_lifespan au\<rparr>;
         (r, w2) = generate_jwt E (au_jwt_lifespan au) (au_jwt_user au) w1
     in (r, (au1, w2)))"

definition renew_token :: "'w outside \<Rightarrow> (auth \<times> 'w, unit) meth" where
  "renew_token E =
     mbind (generate_token E) (\<lambda>t. mupd (\<lambda>(au, w). (au\<lparr>au_jwt_token := Some t\<rparr>, w)))"

definition no_token :: "auth \<Rightarrow> bool" where
  "no_token au \<longleftrightarrow> (case au_jwt_token au of None \<Rightarrow> True | Some t \<Rightarrow> t = [])"

definition token_headers :: "auth \<Rightarrow> (string \<times> string) list" where
  "token_headers au =
     [(''X-SLURM-USER-NAME'', au_jwt_user au),
      (''X-SLURM-USER-TOKEN'', case au_jwt_token au of None \<Rightarrow> [] | Some t \<Rightarrow> t)]"

definition read_clock :: "'w outside \<Rightarrow> (auth \<times> 'w, int) meth" where
  "read_clock E = (\<lambda>(au, w). case clock E w of (now, w') \<Rightarrow> (Inr now, (au, w')))"

definition auth_headers :: "'w outside \<Rightarrow> (auth \<times> 'w, (string \<times> string) list) meth" where
  "auth_headers E = mwith (\<lambda>(au, w).
     if au_method au = ''local'' then mret []
     else if au_jwt_mode au = ''static'' then
       mbind (read_clock E) (\<lambda>_. mwith (\<lambda>(au, w). mret (token_headers au)))
     else
       mbind (if no_token au then renew_token E else mret ()) (\<lambda>_.
       mbind (read_clock E) (\<lambda>now.
       mbind (mwith (\<lambda>(au, w). if au_expiration au - now < 60 then renew_token E else mret ())) (\<lambda>_.
       mwith (\<lambda>(au, w). mret (token_headers au))))))"


section \<open>The object\<close>

record 'w slurmrestd =
  sd_prefix :: string
  sd_auth :: auth
  sd_supported_versions :: "string list"
  sd_cluster_name_hint :: "string option"
  sd_cluster_name :: pv
  sd_slurm_version :: pv
  sd_api_version :: "string option"
  sd_adaptation_chain :: "adapter list"
  sd_outside :: 'w

text \<open>The constructor; \<open>scheme\<close> and \<open>geturl\<close> are those of the parsed URI.\<close>

definition new_slurmrestd ::
  "string \<Rightarrow> string \<Rightarrow> auth \<Rightarrow> string list \<Rightarrow> string option \<Rightarrow> 'w \<Rightarrow> 'w slurmrestd res" where
  "new_slurmrestd scheme geturl au supported hint w =
     (if au_method au = ''local'' \<and> scheme \<noteq> ''unix''
      then Inl (SlurmwebConfigurationError
             ''slurmrestd local authentication is only supported with unix socket URI'')
      else Inr \<lparr>sd_prefix = (if scheme = ''unix'' then ''http+unix://slurmrestd'' else geturl),
        sd_auth = au, sd_supported_versions = supported, sd_cluster_name_hint = hint,
        sd_cluster_name = VNone, sd_slurm_version = VNone, sd_api_version = None,
        sd_adaptation_chain = [], sd_outside = w\<rparr>)"

definition WRITE_SUPPORTED_VERSIONS :: "string list" where
  "WRITE_SUPPORTED_VERSIONS = [''0.0.41'', ''0.0.42'', ''0.0.43'', ''0.0.44'']"

type_synonym ('w, 'a) srd = "('w slurmrestd, 'a) meth"

definition headers :: "'w outside \<Rightarrow> ('w, (string \<times> string) list) srd" where
  "headers E s =
     (case auth_headers E (sd_auth s, sd_outside s) of
        (r, (au, w)) \<Rightarrow> (r, s\<lparr>sd_auth := au, sd_outside := w\<rparr>))"

definition send :: "'w outside \<Rightarrow> request \<Rightarrow> ('w, response) srd" where
  "send E rq s =
     (case http E rq (sd_outside s) of
        (Reply r, w) \<Rightarrow> (Inr r, s\<lparr>sd_outside := w\<rparr>)
      | (ConnectionFailed msg, w) \<Rightarrow> (Inl (SlurmrestConnectionError msg), s\<lparr>sd_outside := w\<rparr>))"


section \<open>Validation\<close>

definition validate_status :: "response \<Rightarrow> bool \<Rightarrow> unit res" where
  "validate_status r ignore_notfound =
     (if rsp_status r = 401
         \<or> (rsp_status r = 500 \<and> py_strip (rsp_text r) = ''Authentication does not apply to request'')
      then Inl (SlurmrestdAuthenticationError (rsp_url r))
      else if \<not> ignore_notfound \<and> rsp_status r = 404 then Inl (SlurmrestdNotFoundError (rsp_url r))
      else Inr ())"

definition validate_json :: "response \<Rightarrow> unit res" where
  "validate_json r =
     (if rsp_content_type r \<noteq> Some ''application/json''
      then Inl (SlurmrestdInvalidResponseError (''Unsupported Content-Type for slurmrestd response '' @ rsp_url r))
      else Inr ())"

definition validate_response :: "response \<Rightarrow> bool \<Rightarrow> unit res" where
  "validate_response r ignore_notfound = rbind (validate_status r ignore_notfound) (\<lambda>_. validate_json r)"

text \<open>The errors and the warnings of a decoded answer.\<close>

definition check_errors :: "pv \<Rightarrow> unit res" where
  "check_errors result =
     rbind (py_item ''errors'' result) (\<lambda>errors.
     rbind (py_len errors) (\<lambda>n.
       if n = 0 then Inr ()
       else rbind (py_first errors) (\<lambda>error.
            rbind (py_get_or ''error'' (VStr ''slurmrestd undefined error'') error) (\<lambda>message.
            rbind (py_get_or ''error_number'' (VInt (-1)) error) (\<lambda>number.
            rbind (py_item ''description'' error) (\<lambda>description.
            rbind (py_item ''source'' error) (\<lambda>source.
            Inl (SlurmrestdInternalError message number description source))))))))"

definition check_warnings :: "pv \<Rightarrow> unit res" where
  "check_warnings result =
     rbind (py_contains ''warnings'' result) (\<lambda>present.
       if \<not> present then Inr ()
       else rbind (py_item ''warnings'' result) (\<lambda>w. rbind (py_len w) (\<lambda>_. Inr ())))"

definition parse_response :: "response \<Rightarrow> bool \<Rightarrow> pv res" where
  "parse_response r ignore_notfound =
     rbind (validate_response r ignore_notfound) (\<lambda>_.
     rbind (rsp_json r) (\<lambda>result.
     rbind (check_errors result) (\<lambda>_.
     rbind (check_warnings result) (\<lambda>_. Inr result))))"


section \<open>Requests\<close>

definition request_url :: "string \<Rightarrow> string \<Rightarrow> string \<Rightarrow> string \<Rightarrow> string" where
  "request_url url_prefix component api_version endpoint =
     url_prefix @ ''/'' @ component @ ''/v'' @ api_version @ ''/'' @ endpoint"

definition execute_request ::
  "'w outside \<Rightarrow> string \<Rightarrow> string \<Rightarrow> string \<Rightarrow> bool \<Rightarrow> string \<Rightarrow> pv \<Rightarrow> pv \<Rightarrow> ('w, pv) srd" where
  "execute_request E component api_version endpoint ignore_notfound method payload query =
     mbind (headers E) (\<lambda>hs. mwith (\<lambda>s.
     mbind (send E \<lparr>rq_method = (if py_upper method = ''GET'' then ''GET'' else method),
               rq_url = request_url (sd_prefix s) component api_version endpoint, rq_headers = hs,
               rq_json = (if py_upper method = ''GET'' then VNone else payload), rq_params = query\<rparr>)
       (\<lambda>r. mlift (parse_response r ignore_notfound))))"

text \<open>One turn of the discovery loop: the ping of a version, and what is taken from the answer.\<close>

definition try_version :: "'w outside \<Rightarrow> string \<Rightarrow> ('w, unit) srd" where
  "try_version E version =
     mbind (execute_request E ''slurm'' version ''ping'' True ''GET'' VNone VNone) (\<lambda>result.
     mbind (mlift (rbind (py_item ''meta'' result) (py_get ''slurm''))) (\<lambda>m1.
     mbind (if truthy m1 then mret m1
            else mlift (rbind (py_item ''meta'' result) (py_get ''Slurm''))) (\<lambda>slurm_meta.
       case slurm_meta of
         VDict d \<Rightarrow>
           mbind (mupd (\<lambda>s. s\<lparr>sd_cluster_name := dget_or ''cluster''
               (VStr (case sd_cluster_name_hint s of
                  None \<Rightarrow> ''unknown'' | Some h \<Rightarrow> if h = [] then ''unknown'' else h)) d\<rparr>)) (\<lambda>_.
           mbind (mlift (py_item ''release'' slurm_meta)) (\<lambda>release.
           mupd (\<lambda>s. s\<lparr>sd_slurm_version := release, sd_api_version := Some version\<rparr>)))
       | _ \<Rightarrow> mraise (KeyError ''meta.slurm''))))"

text \<open>The exceptions after which the next version is tried.\<close>

definition tries_next :: "exn \<Rightarrow> bool" where
  "tries_next e \<longleftrightarrow>
     (case e of
        SlurmrestdNotFoundError _ \<Rightarrow> True
      | SlurmrestdInvalidResponseError _ \<Rightarrow> True
      | SlurmrestdInternalError _ _ _ _ \<Rightarrow> True
      | KeyError _ \<Rightarrow> True
      | ValueError _ \<Rightarrow> True
      | _ \<Rightarrow> False)"

fun try_versions :: "'w outside \<Rightarrow> string list \<Rightarrow> ('w, unit) srd" where
  "try_versions E [] = mraise (SlurmrestConnectionError ''Unable to discover slurmrestd API version.'')"
| "try_versions E (v # vs) =
     mcatch (try_version E v) (\<lambda>e. if tries_next e then try_versions E vs else mraise e)"

definition discovered :: "'w slurmrestd \<Rightarrow> bool" where
  "discovered s \<longleftrightarrow> sd_cluster_name s \<noteq> VNone \<and> sd_slurm_version s \<noteq> VNone \<and> sd_api_version s \<noteq> None"

definition base_discover :: "'w outside \<Rightarrow> ('w, pv \<times> pv \<times> string) srd" where
  "base_discover E = mwith (\<lambda>s.
     mbind (if discovered s then mret () else try_versions E (sd_supported_versions s)) (\<lambda>_.
     mwith (\<lambda>s'. mret (sd_cluster_name s', sd_slurm_version s',
       case sd_api_version s' of None \<Rightarrow> [] | Some v \<Rightarrow> v))))"

text \<open>\<open>SlurmrestdAdapter.discover\<close>.\<close>

definition discover :: "'w outside \<Rightarrow> ('w, pv \<times> pv \<times> string) srd" where
  "discover E =
     mbind (base_discover E) (\<lambda>result. mwith (\<lambda>s.
       case sd_supported_versions s of
         [] \<Rightarrow> mraise IndexError
       | target # _ \<Rightarrow>
           mbind (mupd (\<lambda>s. s\<lparr>sd_adaptation_chain :=
               (case sd_api_version s of
                  None \<Rightarrow> []
                | Some v \<Rightarrow> if v \<noteq> target
                    then build_adaptation_chain v target (sd_supported_versions s) (sd_cluster_name_hint s)
                    else [])\<rparr>))
             (\<lambda>_. mret result)))"

definition base_request ::
  "'w outside \<Rightarrow> string \<Rightarrow> string \<Rightarrow> string option \<Rightarrow> bool \<Rightarrow> string \<Rightarrow> pv \<Rightarrow> pv \<Rightarrow> ('w, pv) srd" where
  "base_request E component endpoint key ignore_notfound method payload query =
     mbind (mwith (\<lambda>s. if sd_api_version s = None then mbind (discover E) (\<lambda>_. mret ()) else mret ())) (\<lambda>_.
     mwith (\<lambda>s.
     mbind (execute_request E component (case sd_api_version s of None \<Rightarrow> [] | Some v \<Rightarrow> v) endpoint
              ignore_notfound method payload query) (\<lambda>result.
       case key of None \<Rightarrow> mret result | Some k \<Rightarrow> mlift (py_item k result))))"

text \<open>\<open>SlurmrestdAdapter._request\<close>: the chain is the one in force after the request.\<close>

definition srd_request ::
  "'w outside \<Rightarrow> string \<Rightarrow> string \<Rightarrow> string option \<Rightarrow> bool \<Rightarrow> string \<Rightarrow> pv \<Rightarrow> pv \<Rightarrow> ('w, pv) srd" where
  "srd_request E component endpoint key ignore_notfound method payload query =
     mbind (base_request E component endpoint key ignore_notfound method payload query) (\<lambda>result.
     mwith (\<lambda>s. mlift (adapt_all (sd_adaptation_chain s) component key result)))"

definition request_json ::
  "'w outside \<Rightarrow> string \<Rightarrow> string \<Rightarrow> string \<Rightarrow> pv \<Rightarrow> pv \<Rightarrow> ('w, pv) srd" where
  "request_json E method component endpoint payload query =
     srd_request E component endpoint None False method payload query"

definition supports_write_operations :: "'w outside \<Rightarrow> ('w, bool) srd" where
  "supports_write_operations E =
     mbind (mwith (\<lambda>s. if sd_api_version s = None then mbind (discover E) (\<lambda>_. mret ()) else mret ())) (\<lambda>_.
     mwith (\<lambda>s. mret (case sd_api_version s of None \<Rightarrow> False | Some v \<Rightarrow> v \<in> set WRITE_SUPPORTED_VERSIONS)))"

definition hint_value :: "'w slurmrestd \<Rightarrow> pv" where
  "hint_value s = (case sd_cluster_name_hint s of None \<Rightarrow> VNone | Some h \<Rightarrow> VStr h)"

definition current_cluster_name :: "'w outside \<Rightarrow> ('w, pv) srd" where
  "current_cluster_name E = mwith (\<lambda>s.
     if sd_cluster_name s = VNone
     then mcatch (mbind (discover E) (\<lambda>_. mwith (\<lambda>s'. mret (py_or (sd_cluster_name s') (hint_value s')))))
            (\<lambda>_. mwith (\<lambda>s'. mret (hint_value s')))
     else mret (py_or (sd_cluster_name s) (hint_value s)))"


section \<open>Operations\<close>

text \<open>
  The keyword arguments that the callers of the listing operations pass on to \<open>_request\<close>; \<open>None\<close>
  is a keyword that is not given.
\<close>

record kwargs =
  kw_ignore_notfound :: "bool option"
  kw_query :: "pv option"

definition no_kwargs :: kwargs where
  "no_kwargs = \<lparr>kw_ignore_notfound = None, kw_query = None\<rparr>"

definition get_list :: "'w outside \<Rightarrow> string \<Rightarrow> string \<Rightarrow> string \<Rightarrow> kwargs \<Rightarrow> ('w, pv) srd" where
  "get_list E component endpoint key kw =
     srd_request E component endpoint (Some key)
       (case kw_ignore_notfound kw of None \<Rightarrow> False | Some b \<Rightarrow> b) ''GET'' VNone
       (case kw_query kw of None \<Rightarrow> VNone | Some q \<Rightarrow> q)"

definition base_jobs where "base_jobs E kw = get_list E ''slurm'' ''jobs'' ''jobs'' kw"
definition ping_data where "ping_data E = get_list E ''slurm'' ''ping'' ''pings'' no_kwargs"
definition diag where "diag E = get_list E ''slurm'' ''diag'' ''statistics'' no_kwargs"
definition base_nodes where "base_nodes E kw = get_list E ''slurm'' ''nodes'' ''nodes'' kw"
definition base_partitions where "base_partitions E kw = get_list E ''slurm'' ''partitions'' ''partitions'' kw"
definition base_accounts where "base_accounts E kw = get_list E ''slurmdb'' ''accounts'' ''accounts'' kw"
definition base_associations where
  "base_associations E kw = get_list E ''slurmdb'' ''associations'' ''associations'' kw"
definition base_reservations where
  "base_reservations E kw = get_list E ''slurm'' ''reservations'' ''reservations'' kw"
definition base_qos where "base_qos E kw = get_list E ''slurmdb'' ''qos'' ''qos'' kw"
definition users where "users E = get_list E ''slurmdb'' ''users'' ''users'' no_kwargs"
definition licenses where "licenses E = get_list E ''slurm'' ''licenses'' ''licenses'' no_kwargs"
definition shares where "shares E = get_list E ''slurm'' ''shares'' ''shares'' no_kwargs"
definition slurmdb_diag where "slurmdb_diag E = get_list E ''slurmdb'' ''diag'' ''statistics'' no_kwargs"

definition get_one :: "'w outside \<Rightarrow> string \<Rightarrow> string \<Rightarrow> string \<Rightarrow> kwargs \<Rightarrow> ('w, pv) srd" where
  "get_one E component endpoint key kw =
     mbind (get_list E component endpoint key kw) (\<lambda>xs. mlift (py_first xs))"

definition base_ctldjob where
  "base_ctldjob E job_id kw = get_one E ''slurm'' (''job/'' @ int_str job_id) ''jobs'' kw"
definition base_acctjob where
  "base_acctjob E job_id kw = get_one E ''slurmdb'' (''job/'' @ int_str job_id) ''jobs'' kw"
definition account where
  "account E name = get_one E ''slurmdb'' (''account/'' @ name) ''accounts'' no_kwargs"
definition user_info where
  "user_info E name = get_one E ''slurmdb'' (''user/'' @ name) ''users'' no_kwargs"

definition base_node :: "'w outside \<Rightarrow> string \<Rightarrow> ('w, pv) srd" where
  "base_node E node_name =
     mcatch (get_one E ''slurm'' (''node/'' @ node_name) ''nodes'' no_kwargs) (\<lambda>e.
       case e of
         SlurmrestdInternalError _ _ description _ \<Rightarrow>
           (case description of
              VStr d \<Rightarrow> if prefix ''Failure to query node '' d
                then mraise (SlurmrestdNotFoundError (''Node '' @ node_name @ '' not found'')) else mraise e
            | _ \<Rightarrow> mraise (AttributeError ''startswith''))
       | _ \<Rightarrow> mraise e)"

definition base_job_submit where
  "base_job_submit E payload = request_json E ''POST'' ''slurm'' ''job/submit'' payload VNone"
definition base_job_update where
  "base_job_update E job_id payload = request_json E ''POST'' ''slurm'' (''job/'' @ int_str job_id) payload VNone"
definition base_job_cancel where
  "base_job_cancel E job_id payload = request_json E ''DELETE'' ''slurm'' (''job/'' @ int_str job_id) payload VNone"
definition base_node_update where
  "base_node_update E name payload = request_json E ''POST'' ''slurm'' (''node/'' @ name) payload VNone"
definition base_node_delete where
  "base_node_delete E name = request_json E ''DELETE'' ''slurm'' (''node/'' @ name) VNone VNone"
definition base_reservation_create where
  "base_reservation_create E payload =
     request_json E ''POST'' ''slurm'' ''reservation'' (normalize_reservation_payload payload) VNone"
definition base_reservation_update where
  "base_reservation_update E name payload =
     request_json E ''POST'' ''slurm'' (''reservation/'' @ name) (normalize_reservation_payload payload) VNone"

definition is_missing_reservation_error :: "pv \<Rightarrow> pv \<Rightarrow> bool res" where
  "is_missing_reservation_error message error =
     (if error \<noteq> VInt 2053 \<and> error \<noteq> VFloat 2053 then Inr False
      else case message of
        VStr m \<Rightarrow> Inr (sublist ''reservation is invalid'' (py_lower m))
      | _ \<Rightarrow> Inl (AttributeError ''lower''))"

definition base_reservation_delete :: "'w outside \<Rightarrow> string \<Rightarrow> ('w, pv) srd" where
  "base_reservation_delete E name =
     mcatch (request_json E ''DELETE'' ''slurm'' (''reservation/'' @ name) VNone VNone) (\<lambda>e.
       case e of
         SlurmrestdInternalError message error description source \<Rightarrow>
           mbind (mlift (is_missing_reservation_error message error)) (\<lambda>missing.
             if \<not> missing then mraise e
             else mret (VDict [
               (''warnings'', VList [VDict [(''message'', message), (''description'', description),
                                         (''source'', source)]]),
               (''errors'', VList []), (''reservation'', VStr name), (''deleted'', VBool False)]))
       | _ \<Rightarrow> mraise e)"

definition base_accounts_update where
  "base_accounts_update E payload =
     request_json E ''POST'' ''slurmdb'' ''accounts'' (normalize_accounts_payload payload) VNone"
definition base_account_delete where
  "base_account_delete E name = request_json E ''DELETE'' ''slurmdb'' (''account/'' @ name) VNone VNone"
definition base_users_update where
  "base_users_update E payload =
     request_json E ''POST'' ''slurmdb'' ''users'' (normalize_users_payload payload) VNone"
definition base_user_delete where
  "base_user_delete E name = request_json E ''DELETE'' ''slurmdb'' (''user/'' @ name) VNone VNone"
definition base_associations_update :: "'w outside \<Rightarrow> pv \<Rightarrow> ('w, pv) srd" where
  "base_associations_update E payload =
     mbind (normalize_associations_payload (current_cluster_name E) payload) (\<lambda>p.
     request_json E ''POST'' ''slurmdb'' ''associations'' p VNone)"
definition base_associations_delete :: "'w outside \<Rightarrow> pv \<Rightarrow> ('w, pv) srd" where
  "base_associations_delete E payload =
     mbind (association_delete_query (current_cluster_name E) payload) (\<lambda>q.
     request_json E ''DELETE'' ''slurmdb'' ''association'' VNone (VDict q))"
definition base_qos_update where
  "base_qos_update E payload = request_json E ''POST'' ''slurmdb'' ''qos'' (normalize_qos_payload payload) VNone"
definition base_qos_delete where
  "base_qos_delete E name = request_json E ''DELETE'' ''slurmdb'' (''qos/'' @ name) VNone VNone"
definition reconfigure where
  "reconfigure E = request_json E ''GET'' ''slurm'' ''reconfigure'' VNone VNone"
definition slurmdb_config where
  "slurmdb_config E = request_json E ''GET'' ''slurmdb'' ''config'' VNone VNone"

definition warns_nothing :: "pv \<Rightarrow> bool" where
  "warns_nothing w =
     (case w of
        VDict d \<Rightarrow> sublist ''found nothing'' (py_lower (py_str (dget_or ''description'' (VStr []) d)))
      | _ \<Rightarrow> False)"

definition instances :: "'w outside \<Rightarrow> ('w, pv) srd" where
  "instances E =
     mbind (request_json E ''GET'' ''slurmdb'' ''instances'' VNone VNone) (\<lambda>result.
     mlift (rbind (py_contains ''instances'' result) (\<lambda>present.
       if present then py_item ''instances'' result
       else rbind (py_get_or ''warnings'' (VList []) result) (\<lambda>ws.
            rbind (py_iter ws) (\<lambda>xs.
              if list_ex warns_nothing xs then Inr (VList []) else Inl (KeyError ''instances''))))))"

definition tres :: "'w outside \<Rightarrow> ('w, pv) srd" where
  "tres E =
     mcatch (get_list E ''slurmdb'' ''tres'' ''TRES'' no_kwargs) (\<lambda>e.
       case e of KeyError _ \<Rightarrow> get_list E ''slurmdb'' ''tres'' ''tres'' no_kwargs | _ \<Rightarrow> mraise e)"

section \<open>The adaptation chain in force\<close>

definition chain_ok :: "'w slurmrestd \<Rightarrow> bool" where
  "chain_ok s \<longleftrightarrow>
     (case sd_api_version s of
        None \<Rightarrow> sd_adaptation_chain s = []
      | Some v \<Rightarrow> v \<in> set (sd_supported_versions s)
          \<and> sd_adaptation_chain s
             = build_adaptation_chain v (hd (sd_supported_versions s)) (sd_supported_versions s)
                 (sd_cluster_name_hint s))"

text \<open>What a request leaves alone: everything but the token and the outside.\<close>

definition same_server :: "'w slurmrestd \<Rightarrow> 'w slurmrestd \<Rightarrow> bool" where
  "same_server s0 s \<longleftrightarrow> sd_prefix s = sd_prefix s0 \<and> sd_supported_versions s = sd_supported_versions s0
     \<and> sd_cluster_name_hint s = sd_cluster_name_hint s0"

definition same_version :: "'w slurmrestd \<Rightarrow> 'w slurmrestd \<Rightarrow> bool" where
  "same_version s0 s \<longleftrightarrow> same_server s0 s \<and> sd_api_version s = sd_api_version s0
     \<and> sd_adaptation_chain s = sd_adaptation_chain s0 \<and> sd_cluster_name s = sd_cluster_name s0
     \<and> sd_slurm_version s = sd_slurm_version s0"

lemma same_version_refl [simp]: "same_version s s"
  by (simp add: same_version_def same_server_def)

lemma same_server_refl [simp]: "same_server s s"
  by (simp add: same_server_def)

lemma keeps_version_headers [keeps_intros]: "keeps (same_version s0) (headers E)"
  by (intro keepsI) (auto simp: headers_def same_version_def same_server_def split: prod.splits)

lemma keeps_version_send [keeps_intros]: "keeps (same_version s0) (send E rq)"
  by (intro keepsI) (auto simp: send_def same_version_def same_server_def split: prod.splits http_reply.splits)

lemma keeps_version_execute [keeps_intros]: "keeps (same_version s0) (execute_request E c v e ign m p q)"
  unfolding execute_request_def by (intro keeps_intros)

lemma same_version_execute: "execute_request E c v e ign m p q s = (r, s') \<Longrightarrow> same_version s s'"
  using keepsD [OF keeps_version_execute, of s s E c v e ign m p q] by simp

text \<open>A probe sets the version last, so a probe that fails leaves the version as it was.\<close>

lemma try_version_result:
  assumes "try_version E v s = (r, s')"
  shows "same_server s s' \<and> sd_adaptation_chain s' = sd_adaptation_chain s
    \<and> (case r of Inr _ \<Rightarrow> sd_api_version s' = Some v | Inl _ \<Rightarrow> sd_api_version s' = sd_api_version s)"
proof -
  obtain q s1 where ex: "execute_request E ''slurm'' v ''ping'' True ''GET'' VNone VNone s = (q, s1)"
    by (cases "execute_request E ''slurm'' v ''ping'' True ''GET'' VNone VNone s")
  have s1: "same_version s s1" using same_version_execute [OF ex] .
  then show ?thesis
    using assms ex
    by (auto simp: try_version_def mbind_def same_version_def same_server_def py_item_def
        split: sum.splits if_splits pv.splits option.splits)
qed

lemma try_versions_result:
  assumes "try_versions E vs s = (r, s')"
  shows "same_server s s' \<and> sd_adaptation_chain s' = sd_adaptation_chain s
    \<and> (case r of Inr _ \<Rightarrow> \<exists>v \<in> set vs. sd_api_version s' = Some v | Inl _ \<Rightarrow> sd_api_version s' = sd_api_version s)"
  using assms
proof (induction vs arbitrary: s)
  case (Cons v vs)
  obtain q s1 where t: "try_version E v s = (q, s1)" by (cases "try_version E v s")
  note s1 = try_version_result [OF t]
  show ?case
  proof (cases q)
    case (Inr u)
    then show ?thesis using Cons.prems t s1 by (auto simp: mcatch_def)
  next
    case (Inl e)
    show ?thesis
    proof (cases "tries_next e")
      case True
      then have "try_versions E vs s1 = (r, s')" using Cons.prems t Inl by (simp add: mcatch_def)
      from Cons.IH [OF this] s1 Inl show ?thesis by (auto simp: same_server_def split: sum.splits)
    next
      case False
      then show ?thesis using Cons.prems t Inl s1 by (auto simp: mcatch_def)
    qed
  qed
qed (auto simp: mraise_def)

lemma base_discover_result:
  assumes "base_discover E s = (r, s')"
  shows "same_server s s' \<and> sd_adaptation_chain s' = sd_adaptation_chain s
    \<and> (case r of
         Inr _ \<Rightarrow> (s' = s \<and> discovered s) \<or> (\<exists>v \<in> set (sd_supported_versions s). sd_api_version s' = Some v)
       | Inl _ \<Rightarrow> sd_api_version s' = sd_api_version s)"
proof (cases "discovered s")
  case True
  then show ?thesis using assms by (auto simp: base_discover_def mbind_def)
next
  case False
  obtain q s1 where t: "try_versions E (sd_supported_versions s) s = (q, s1)"
    by (cases "try_versions E (sd_supported_versions s) s")
  from try_versions_result [OF t] show ?thesis
    using assms False t by (auto simp: base_discover_def mbind_def split: sum.splits)
qed

lemma build_chain_self: "build_adaptation_chain v v S hint = []"
  by (simp add: build_adaptation_chain_def Let_def split: option.split)

lemma discover_result:
  assumes "discover E s = (r, s')" and "chain_ok s"
  shows "same_server s s' \<and> chain_ok s' \<and> (\<not> isl r \<longrightarrow> sd_api_version s' \<noteq> None)"
proof -
  obtain q s1 where b: "base_discover E s = (q, s1)" by (cases "base_discover E s")
  note s1 = base_discover_result [OF b]
  show ?thesis
  proof (cases q)
    case (Inl e)
    then have "r = Inl e" "s' = s1" using assms(1) b by (auto simp: discover_def mbind_def)
    then show ?thesis using s1 assms(2) Inl by (auto simp: chain_ok_def same_server_def split: option.splits)
  next
    case (Inr x)
    from s1 Inr have v: "\<exists>v \<in> set (sd_supported_versions s). sd_api_version s1 = Some v"
      using assms(2) by (auto simp: discovered_def chain_ok_def split: option.splits)
    then obtain target rest where sup: "sd_supported_versions s1 = target # rest"
      using s1 by (cases "sd_supported_versions s1") (auto simp: same_server_def)
    have "discover E s = (Inr x, s1\<lparr>sd_adaptation_chain := (case sd_api_version s1 of None \<Rightarrow> []
        | Some v \<Rightarrow> if v \<noteq> target then build_adaptation_chain v target (sd_supported_versions s1)
             (sd_cluster_name_hint s1) else [])\<rparr>)"
      using b Inr sup by (simp add: discover_def mbind_def)
    moreover have same: "same_server s s1" using s1 by blast
    then have "sd_supported_versions s = target # rest" using sup by (simp add: same_server_def)
    then have "hd (sd_supported_versions s) = target" by simp
    ultimately show ?thesis
      using assms(1) v same by (auto simp: chain_ok_def same_server_def build_chain_self)
  qed
qed

lemma same_version_chain_ok: "same_version s s' \<Longrightarrow> chain_ok s \<Longrightarrow> chain_ok s'"
  by (cases "sd_api_version s") (simp_all add: chain_ok_def same_version_def same_server_def)

lemma keeps_chain_execute [keeps_intros]: "keeps chain_ok (execute_request E c v e ign m p q)"
proof (rule keepsI)
  fix s :: "'a slurmrestd" assume "chain_ok s"
  moreover have "same_version s (snd (execute_request E c v e ign m p q s))"
    by (rule keepsD [OF keeps_version_execute]) simp
  ultimately show "chain_ok (snd (execute_request E c v e ign m p q s))" by (rule same_version_chain_ok [rotated])
qed

lemma keeps_chain_discover [keeps_intros]: "keeps chain_ok (discover E)"
proof (rule keepsI)
  fix s :: "'a slurmrestd" assume "chain_ok s"
  then show "chain_ok (snd (discover E s))"
    using discover_result [of E s "fst (discover E s)" "snd (discover E s)"] by simp
qed

lemma keeps_option [keeps_intros]:
  "(x = None \<Longrightarrow> keeps P m) \<Longrightarrow> (\<And>a. x = Some a \<Longrightarrow> keeps P (f a)) \<Longrightarrow>
   keeps P (case x of None \<Rightarrow> m | Some a \<Rightarrow> f a)"
  by (cases x) simp_all

lemma keeps_chain_request [keeps_intros]: "keeps chain_ok (srd_request E c e k ign m p q)"
  unfolding srd_request_def base_request_def by (intro keeps_intros)

lemma keeps_chain_cluster_name [keeps_intros]: "keeps chain_ok (current_cluster_name E)"
  unfolding current_cluster_name_def by (intro keeps_intros)

lemma keeps_chain_get_list [keeps_intros]: "keeps chain_ok (get_list E c e k kw)"
  unfolding get_list_def by (intro keeps_intros)

lemma keeps_chain_request_json [keeps_intros]: "keeps chain_ok (request_json E m c e p q)"
  unfolding request_json_def by (intro keeps_intros)


section \<open>Properties\<close>

inductive srd_reachable :: "'w outside \<Rightarrow> 'w slurmrestd \<Rightarrow> bool" for E where
  new: "new_slurmrestd scheme url au vs hint w = Inr s \<Longrightarrow> srd_reachable E s"
| request: "srd_reachable E s \<Longrightarrow> srd_reachable E (snd (srd_request E c e k ign m p q s))"
| cluster: "srd_reachable E s \<Longrightarrow> srd_reachable E (snd (current_cluster_name E s))"
| discover: "srd_reachable E s \<Longrightarrow> srd_reachable E (snd (discover E s))"

text \<open>
  C36. Answers are adapted for the version in use. Whatever requests are made from the start, the
  version in use is one of the supported ones and the adaptation chain is the one that leads from it
  to the newest; a failed discovery changes neither.
\<close>

theorem version_and_chain:
  assumes "srd_reachable E s"
  shows "(case sd_api_version s of None \<Rightarrow> sd_adaptation_chain s = []
      | Some v \<Rightarrow> v \<in> set (sd_supported_versions s)
          \<and> sd_adaptation_chain s = build_adaptation_chain v (hd (sd_supported_versions s))
              (sd_supported_versions s) (sd_cluster_name_hint s))
    \<and> (isl (fst (discover E s)) \<longrightarrow> sd_api_version (snd (discover E s)) = sd_api_version s
         \<and> sd_adaptation_chain (snd (discover E s)) = sd_adaptation_chain s)"
proof -
  have ok: "chain_ok s"
    using assms
  proof induction
    case (new scheme url au vs hint w s)
    then show ?case by (auto simp: new_slurmrestd_def chain_ok_def split: if_splits)
  qed (auto intro: keepsD keeps_intros)
  have "sd_api_version (snd (discover E s)) = sd_api_version s
      \<and> sd_adaptation_chain (snd (discover E s)) = sd_adaptation_chain s" if "isl (fst (discover E s))"
  proof -
    obtain q s1 where b: "base_discover E s = (q, s1)" by (cases "base_discover E s")
    note s1 = base_discover_result [OF b]
    show ?thesis
    proof (cases q)
      case (Inl e)
      then show ?thesis using s1 b by (auto simp: discover_def mbind_def)
    next
      case (Inr x)
      with s1 ok have "sd_supported_versions s1 \<noteq> []"
        by (auto simp: discovered_def chain_ok_def same_server_def split: option.splits)
      then have "\<not> isl (fst (discover E s))"
        using b Inr by (cases "sd_supported_versions s1") (simp_all add: discover_def mbind_def)
      with that show ?thesis by simp
    qed
  qed
  with ok show ?thesis by (simp add: chain_ok_def)
qed

text \<open>A server of API 0.0.43, without authentication, that knows no job.\<close>

definition json_response :: "string \<Rightarrow> nat \<Rightarrow> pv \<Rightarrow> response" where
  "json_response url status v =
     \<lparr>rsp_status = status, rsp_text = [], rsp_url = url, rsp_content_type = Some ''application/json'',
      rsp_json = Inr v\<rparr>"

definition demo_ping :: pv where
  "demo_ping = VDict [(''meta'', VDict [(''slurm'', VDict [(''cluster'', VStr ''tiny''), (''release'', VStr ''25.05'')])]),
     (''errors'', VList []), (''warnings'', VList [])]"

definition demo_outside :: "unit outside" where
  "demo_outside =
     \<lparr>http = (\<lambda>rq w. (Reply (
        if prefix ''u/slurm/v0.0.43/ping'' (rq_url rq) then json_response (rq_url rq) 200 demo_ping
        else if prefix ''u/slurm/v0.0.43/jobs'' (rq_url rq) then json_response (rq_url rq) 200
          (VDict [(''jobs'', VList []), (''errors'', VList []), (''warnings'', VList [])])
        else (json_response (rq_url rq) 404 VNone)\<lparr>rsp_content_type := None\<rparr>), w)),
      clock = (\<lambda>w. (1000, w)), generate_jwt = (\<lambda>l u w. (Inr ''token'', w))\<rparr>"

definition demo_auth :: auth where
  "demo_auth = \<lparr>au_method = ''jwt'', au_jwt_mode = ''auto'', au_jwt_user = ''slurm'', au_jwt_lifespan = 3600,
     au_jwt_token = None, au_expiration = 0\<rparr>"

definition demo_slurmrestd :: "unit slurmrestd" where
  "demo_slurmrestd = \<lparr>sd_prefix = ''u'', sd_auth = demo_auth, sd_supported_versions = supported_versions,
     sd_cluster_name_hint = None, sd_cluster_name = VNone, sd_slurm_version = VNone, sd_api_version = None,
     sd_adaptation_chain = [], sd_outside = ()\<rparr>"

lemma demo_slurmrestd_new:
  "new_slurmrestd ''http'' ''u'' demo_auth supported_versions None () = Inr demo_slurmrestd"
  by (simp add: new_slurmrestd_def demo_slurmrestd_def demo_auth_def)

theorem version_and_chain_witness:
  "sd_adaptation_chain (snd (srd_request demo_outside ''slurm'' ''jobs'' (Some ''jobs'') False ''GET'' VNone VNone
      demo_slurmrestd)) = [AdapterV0_0_43 None]"
proof -
  let ?s = "snd (srd_request demo_outside ''slurm'' ''jobs'' (Some ''jobs'') False ''GET'' VNone VNone demo_slurmrestd)"
  have reach: "srd_reachable demo_outside ?s"
    by (intro srd_reachable.request srd_reachable.new [OF demo_slurmrestd_new])
  have "sd_api_version ?s = Some ''0.0.43''" "sd_supported_versions ?s = supported_versions"
    "sd_cluster_name_hint ?s = None"
    by code_simp+
  moreover have "build_adaptation_chain ''0.0.43'' (hd supported_versions) supported_versions None = [AdapterV0_0_43 None]"
    by code_simp
  ultimately show ?thesis using version_and_chain [OF reach] by simp
qed



definition jwt_issues :: "'w outside \<Rightarrow> (string \<Rightarrow> int \<Rightarrow> bool) \<Rightarrow> bool" where
  "jwt_issues E valid_until \<longleftrightarrow>
     (\<forall>w now w1 l u t w2. clock E w = (now, w1) \<longrightarrow> generate_jwt E l u w1 = (Inr t, w2) \<longrightarrow>
        t \<noteq> [] \<and> valid_until t (now + l))"

definition token_state :: "(string \<Rightarrow> int \<Rightarrow> bool) \<Rightarrow> auth \<Rightarrow> bool" where
  "token_state valid_until au \<longleftrightarrow>
     (case au_jwt_token au of None \<Rightarrow> True | Some t \<Rightarrow> t = [] \<or> valid_until t (au_expiration au))"

lemma renew_token_result:
  assumes "jwt_issues E valid_until" and "renew_token E (au, w) = (Inr u, (au', w'))"
  shows "\<exists>t now w0 w1. clock E w0 = (now, w1) \<and> t \<noteq> [] \<and> valid_until t (now + au_jwt_lifespan au)
    \<and> au' = au\<lparr>au_expiration := now + au_jwt_lifespan au, au_jwt_token := Some t\<rparr>"
proof -
  obtain now w1 where c: "clock E w = (now, w1)" by fastforce
  obtain r w2 where g: "generate_jwt E (au_jwt_lifespan au) (au_jwt_user au) w1 = (r, w2)" by fastforce
  from assms(2) c g obtain t where r: "r = Inr t"
    and au': "au' = au\<lparr>au_expiration := now + au_jwt_lifespan au, au_jwt_token := Some t\<rparr>"
    by (cases r) (auto simp: renew_token_def generate_token_def mbind_def)
  have "t \<noteq> []" "valid_until t (now + au_jwt_lifespan au)"
    using assms(1) c g r unfolding jwt_issues_def by blast+
  with c au' show ?thesis by blast
qed



definition failing_outside :: "unit outside" where
  "failing_outside = demo_outside\<lparr>generate_jwt := (\<lambda>l u w. (Inl (BackendError ''jwt''), w))\<rparr>"

text \<open>
  A failed renewal hides that the token is old. The expiration is recorded before the new token
  exists: when the JWT library fails, the call raises, but the next call finds an expiration in the
  future and sends the expired token without trying again.
\<close>

theorem failed_renewal_keeps_old_token:
  "let au = demo_auth\<lparr>au_jwt_token := Some ''old'', au_expiration := 900\<rparr>;
       (r1, s1) = auth_headers failing_outside (au, ())
   in isl r1 \<and> fst (auth_headers failing_outside s1)
        = Inr [(''X-SLURM-USER-NAME'', ''slurm''), (''X-SLURM-USER-TOKEN'', ''old'')]"
  by code_simp

end
