(* ===== verification/Cache.thy ===== *)
theory Cache
  imports JsonValues
begin

text \<open>
  \<open>slurmweb/cache.py\<close>: \<open>CachingService\<close>, the cache of slurmrestd answers and its hit and miss
  statistics. The Redis client is a library: the record \<open>redis\<close> of its operations over a state
  \<open>'r\<close> is an argument, and \<open>redis_laws\<close> states what the service relies on. The bytes of
  \<open>pickle.dumps v\<close> are the constructor \<open>Pickled v\<close>. The interface
  \<open>cache_service\<close> is what the cached client relies on of the service.
\<close>

section \<open>Redis\<close>

datatype redis_error =
    RedisConnectionError string
  | RedisResponseError string
  | RedisOtherError string

datatype stored =
    Pickled pv
  | Plain string

fun pickle_loads :: "stored \<Rightarrow> pv res" where
  "pickle_loads (Pickled v) = Inr v"
| "pickle_loads (Plain _) = Inl (BackendError ''UnpicklingError'')"

text \<open>\<open>int(value)\<close> of a counter's bytes.\<close>

fun counter_int :: "stored \<Rightarrow> int res" where
  "counter_int (Plain bytes) = py_int (VStr bytes)"
| "counter_int (Pickled _) = Inl (ValueError ''invalid literal'')"

type_synonym ('r, 'a) redis_op = "'r \<Rightarrow> (redis_error + 'a) \<times> 'r"

record 'r redis =
  rd_set :: "string \<Rightarrow> stored \<Rightarrow> int option \<Rightarrow> ('r, unit) redis_op"
  rd_get :: "string \<Rightarrow> ('r, stored option) redis_op"
  rd_delete :: "string \<Rightarrow> ('r, unit) redis_op"
  rd_sadd :: "string \<Rightarrow> string \<Rightarrow> ('r, unit) redis_op"
  rd_smembers :: "string \<Rightarrow> ('r, string list) redis_op"
  rd_incr :: "string \<Rightarrow> ('r, unit) redis_op"

text \<open>A call in a \<open>try\<close> for the two named exceptions, and a bare call.\<close>

definition guarded :: "('r, 'a) redis_op \<Rightarrow> ('r, 'a) meth" where
  "guarded oper s =
     (case oper s of
        (Inl (RedisConnectionError m), s') \<Rightarrow> (Inl (SlurmwebCacheError m), s')
      | (Inl (RedisResponseError m), s') \<Rightarrow> (Inl (SlurmwebCacheError m), s')
      | (Inl (RedisOtherError m), s') \<Rightarrow> (Inl (BackendError m), s')
      | (Inr a, s') \<Rightarrow> (Inr a, s'))"

definition bare :: "('r, 'a) redis_op \<Rightarrow> ('r, 'a) meth" where
  "bare oper s =
     (case oper s of
        (Inl _, s') \<Rightarrow> (Inl (BackendError ''redis''), s')
      | (Inr a, s') \<Rightarrow> (Inr a, s'))"


section \<open>The service\<close>

record cache_key =
  ck_main :: string
  ck_count :: string

definition CacheKey :: "string \<Rightarrow> string option \<Rightarrow> cache_key" where
  "CacheKey main count =
     \<lparr>ck_main = main, ck_count = (case count of None \<Rightarrow> main | Some c \<Rightarrow> if c = [] then main else c)\<rparr>"

definition KEY_PREFIX_MISS :: string where "KEY_PREFIX_MISS = ''cache-miss-''"
definition KEY_PREFIX_HIT :: string where "KEY_PREFIX_HIT = ''cache-hit-''"

definition cache_put :: "'r redis \<Rightarrow> cache_key \<Rightarrow> pv \<Rightarrow> int \<Rightarrow> ('r, unit) meth" where
  "cache_put R key v expiration = guarded (rd_set R (ck_main key) (Pickled v) (Some expiration))"

text \<open>A missing key and a pickled \<open>None\<close> both give \<open>None\<close>.\<close>

definition cache_get :: "'r redis \<Rightarrow> cache_key \<Rightarrow> ('r, pv) meth" where
  "cache_get R key =
     mbind (guarded (rd_get R (ck_main key))) (\<lambda>v.
       case v of None \<Rightarrow> mret VNone | Some bytes \<Rightarrow> mlift (pickle_loads bytes))"

definition cache_delete :: "'r redis \<Rightarrow> cache_key \<Rightarrow> ('r, unit) meth" where
  "cache_delete R key = guarded (rd_delete R (ck_main key))"

definition count_miss :: "'r redis \<Rightarrow> cache_key \<Rightarrow> ('r, unit) meth" where
  "count_miss R key =
     mbind (bare (rd_sadd R ''cache-miss-keys'' (ck_count key))) (\<lambda>_.
     mbind (bare (rd_incr R (KEY_PREFIX_MISS @ ck_count key))) (\<lambda>_.
     bare (rd_incr R ''cache-miss-total'')))"

definition count_hit :: "'r redis \<Rightarrow> cache_key \<Rightarrow> ('r, unit) meth" where
  "count_hit R key =
     mbind (bare (rd_sadd R ''cache-hit-keys'' (ck_count key))) (\<lambda>_.
     mbind (bare (rd_incr R (KEY_PREFIX_HIT @ ck_count key))) (\<lambda>_.
     bare (rd_incr R ''cache-hit-total'')))"

text \<open>The counters listed in a set of keys; a key without a value is left out.\<close>

definition read_counters :: "'r redis \<Rightarrow> string \<Rightarrow> string \<Rightarrow> ('r, (string \<times> int) list) meth" where
  "read_counters R keys_key key_prefix =
     mbind (bare (rd_smembers R keys_key)) (\<lambda>ks.
     mbind (mmap (\<lambda>k. mbind (bare (rd_get R (key_prefix @ k))) (\<lambda>v.
         case v of
           None \<Rightarrow> mret []
         | Some bytes \<Rightarrow> if bytes = Plain [] then mret [] else mlift (rbind (counter_int bytes) (\<lambda>n. Inr [(k, n)])))) ks)
       (\<lambda>css. mret (fold (\<lambda>(k, n) d. dset k n d) (concat css) [])))"

definition read_total :: "'r redis \<Rightarrow> string \<Rightarrow> ('r, int) meth" where
  "read_total R key =
     mbind (bare (rd_get R key)) (\<lambda>v.
       case v of
         None \<Rightarrow> mret 0
       | Some bytes \<Rightarrow> if bytes = Plain [] then mret 0 else mlift (counter_int bytes))"

definition cache_metrics ::
  "'r redis \<Rightarrow> ('r, (string \<times> int) list \<times> (string \<times> int) list \<times> int \<times> int) meth" where
  "cache_metrics R =
     mbind (read_counters R ''cache-miss-keys'' KEY_PREFIX_MISS) (\<lambda>misses.
     mbind (read_counters R ''cache-hit-keys'' KEY_PREFIX_HIT) (\<lambda>hits.
     mbind (read_total R ''cache-hit-total'') (\<lambda>hit_total.
     mbind (read_total R ''cache-miss-total'') (\<lambda>miss_total.
     mret (hits, misses, hit_total, miss_total)))))"

definition cache_reset :: "'r redis \<Rightarrow> ('r, unit) meth" where
  "cache_reset R =
     mbind (bare (rd_set R ''cache-hit-total'' (Plain ''0'') None)) (\<lambda>_.
     mbind (bare (rd_set R ''cache-miss-total'' (Plain ''0'') None)) (\<lambda>_.
     mbind (bare (rd_smembers R ''cache-hit-keys'')) (\<lambda>hs.
     mbind (mmap (\<lambda>k. bare (rd_delete R (KEY_PREFIX_HIT @ k))) hs) (\<lambda>_.
     mbind (bare (rd_smembers R ''cache-miss-keys'')) (\<lambda>ms.
     mbind (mmap (\<lambda>k. bare (rd_delete R (KEY_PREFIX_MISS @ k))) ms) (\<lambda>_.
     mbind (bare (rd_delete R ''cache-hit-keys'')) (\<lambda>_.
     bare (rd_delete R ''cache-miss-keys''))))))))"


section \<open>The interface\<close>

lemma map_le_None: "m \<subseteq>\<^sub>m n \<Longrightarrow> n k = None \<Longrightarrow> m k = None"
  by (auto simp: map_le_def dom_def)

lemma map_le_Some: "m \<subseteq>\<^sub>m n \<Longrightarrow> m k = Some v \<Longrightarrow> n k = Some v"
  by (force simp: map_le_def)

text \<open>
  What the client relies on: the cache may forget a value at any time (it expires, or a call fails),
  but it never returns a value that was not stored under the key, nor one that was deleted since.
\<close>

locale cache_service =
  fixes cget :: "cache_key \<Rightarrow> ('c, pv) meth"
    and cput :: "cache_key \<Rightarrow> pv \<Rightarrow> int \<Rightarrow> ('c, unit) meth"
    and cdelete :: "cache_key \<Rightarrow> ('c, unit) meth"
    and chit :: "cache_key \<Rightarrow> ('c, unit) meth"
    and cmiss :: "cache_key \<Rightarrow> ('c, unit) meth"
    and view :: "'c \<Rightarrow> string \<Rightarrow> pv option"
    and invar :: "'c \<Rightarrow> bool"
    and good :: "cache_key \<Rightarrow> bool"
  assumes get_law: "invar c \<Longrightarrow> good k \<Longrightarrow> cget k c = (r, c') \<Longrightarrow> invar c' \<and> view c' \<subseteq>\<^sub>m view c
      \<and> (\<forall>v. r = Inr v \<longrightarrow> v \<noteq> VNone \<longrightarrow> view c (ck_main k) = Some v)"
    and put_law: "invar c \<Longrightarrow> good k \<Longrightarrow> cput k v e c = (r2, c') \<Longrightarrow> invar c' \<and> view c' \<subseteq>\<^sub>m (view c)(ck_main k \<mapsto> v)"
    and delete_law: "invar c \<Longrightarrow> good k \<Longrightarrow> cdelete k c = (r2, c') \<Longrightarrow> invar c' \<and> view c' \<subseteq>\<^sub>m view c
      \<and> (\<not> isl r2 \<longrightarrow> view c' (ck_main k) = None)"
    and hit_law: "invar c \<Longrightarrow> chit k c = (r2, c') \<Longrightarrow> invar c' \<and> view c' \<subseteq>\<^sub>m view c"
    and miss_law: "invar c \<Longrightarrow> cmiss k c = (r2, c') \<Longrightarrow> invar c' \<and> view c' \<subseteq>\<^sub>m view c"
begin

text \<open>A key that is deleted stays unknown until it is stored again.\<close>

lemma get_unknown:
  "invar c \<Longrightarrow> good k \<Longrightarrow> view c (ck_main k) = None \<Longrightarrow> cget k c = (Inr v, c') \<Longrightarrow> v = VNone"
  using get_law by force

lemma delete_all:
  assumes "invar c" and "\<forall>k \<in> set ks. good k" and "mmap cdelete ks c = (Inr us, c')"
  shows "invar c' \<and> view c' \<subseteq>\<^sub>m view c \<and> (\<forall>k \<in> set ks. view c' (ck_main k) = None)"
  using assms
proof (induction ks arbitrary: c us)
  case (Cons k ks)
  from Cons.prems(3) obtain u c1 vs where d: "cdelete k c = (Inr u, c1)" and rest: "mmap cdelete ks c1 = (Inr vs, c')"
    by (auto elim!: mbind_cases)
  have good: "good k" "\<forall>k \<in> set ks. good k" using Cons.prems(2) by simp_all
  note d1 = delete_law [OF Cons.prems(1) good(1) d]
  note d2 = Cons.IH [OF conjunct1 [OF d1] good(2) rest]
  have "view c' (ck_main k) = None" using d1 d2 map_le_None by fastforce
  with d1 d2 show ?case by (auto intro: map_le_trans)
qed simp

end


section \<open>What Redis promises\<close>

text \<open>
  \<open>rview\<close> is the string values a state holds. A call may lose values (expiry, eviction); \<open>GET\<close>
  returns what is held, \<open>SMEMBERS\<close> changes nothing, \<open>SET\<close> writes its key only, a successful \<open>DEL\<close> removes its key, and
  \<open>SADD\<close>, \<open>INCR\<close> leave every key alone that does not start with \<open>cache-\<close>.
\<close>

definition data_key :: "string \<Rightarrow> bool" where
  "data_key k \<longleftrightarrow> \<not> prefix ''cache-'' k"

definition redis_laws :: "'r redis \<Rightarrow> ('r \<Rightarrow> string \<Rightarrow> stored option) \<Rightarrow> bool" where
  "redis_laws R rview \<longleftrightarrow>
     (\<forall>k s r s'. rd_get R k s = (r, s') \<longrightarrow> rview s' \<subseteq>\<^sub>m rview s \<and> (\<forall>v. r = Inr (Some v) \<longrightarrow> rview s k = Some v))
     \<and> (\<forall>k v e s r s'. rd_set R k v e s = (r, s') \<longrightarrow> rview s' \<subseteq>\<^sub>m (rview s)(k \<mapsto> v))
     \<and> (\<forall>k s r s'. rd_delete R k s = (r, s') \<longrightarrow> rview s' \<subseteq>\<^sub>m rview s \<and> (\<not> isl r \<longrightarrow> rview s' k = None))
     \<and> (\<forall>k s r s'. rd_smembers R k s = (r, s') \<longrightarrow> rview s' \<subseteq>\<^sub>m rview s)
     \<and> (\<forall>k m s r s'. rd_sadd R k m s = (r, s') \<longrightarrow> prefix ''cache-'' k \<longrightarrow>
          (\<forall>d. data_key d \<longrightarrow> rview s' d \<noteq> None \<longrightarrow> rview s' d = rview s d))
     \<and> (\<forall>k s r s'. rd_incr R k s = (r, s') \<longrightarrow> prefix ''cache-'' k \<longrightarrow>
          (\<forall>d. data_key d \<longrightarrow> rview s' d \<noteq> None \<longrightarrow> rview s' d = rview s d))"

lemma redis_get:
  assumes "redis_laws R rview" and "rd_get R k s = (r, s')"
  shows "rview s' \<subseteq>\<^sub>m rview s \<and> (\<forall>v. r = Inr (Some v) \<longrightarrow> rview s k = Some v)"
proof -
  have "\<forall>k s r s'. rd_get R k s = (r, s') \<longrightarrow> rview s' \<subseteq>\<^sub>m rview s \<and> (\<forall>v. r = Inr (Some v) \<longrightarrow> rview s k = Some v)"
    using assms(1) unfolding redis_laws_def by (elim conjE)
  from this [rule_format, OF assms(2)] show ?thesis by blast
qed

lemma redis_set: "redis_laws R rview \<Longrightarrow> rd_set R k v e s = (r2, s') \<Longrightarrow> rview s' \<subseteq>\<^sub>m (rview s)(k \<mapsto> v)"
  unfolding redis_laws_def by meson

lemma redis_delete: "redis_laws R rview \<Longrightarrow> rd_delete R k s = (r2, s') \<Longrightarrow>
    rview s' \<subseteq>\<^sub>m rview s \<and> (\<not> isl r2 \<longrightarrow> rview s' k = None)"
  unfolding redis_laws_def by meson

lemma redis_members: "redis_laws R rview \<Longrightarrow> rd_smembers R k s = (r3, s') \<Longrightarrow> rview s' \<subseteq>\<^sub>m rview s"
  unfolding redis_laws_def by meson

definition data_kept :: "('r \<Rightarrow> string \<Rightarrow> stored option) \<Rightarrow> 'r \<Rightarrow> 'r \<Rightarrow> bool" where
  "data_kept rview s s' \<longleftrightarrow> (\<forall>d. data_key d \<longrightarrow> rview s' d \<noteq> None \<longrightarrow> rview s' d = rview s d)"

lemma redis_count:
  assumes "redis_laws R rview" and "prefix ''cache-'' k"
  shows "rd_sadd R k m s = (r, s') \<Longrightarrow> data_kept rview s s'"
    and "rd_incr R k s = (r, s') \<Longrightarrow> data_kept rview s s'"
  using assms unfolding redis_laws_def data_kept_def by meson+

definition cached_value :: "('r \<Rightarrow> string \<Rightarrow> stored option) \<Rightarrow> 'r \<Rightarrow> string \<Rightarrow> pv option" where
  "cached_value rview s k =
     (if data_key k then
        (case rview s k of None \<Rightarrow> None | Some b \<Rightarrow> (case pickle_loads b of Inl _ \<Rightarrow> None | Inr v \<Rightarrow> Some v))
      else None)"

lemma cached_value_le: "data_kept rview s s' \<Longrightarrow> cached_value rview s' \<subseteq>\<^sub>m cached_value rview s"
  unfolding map_le_def data_kept_def
  by (metis (no_types, lifting) cached_value_def domIff option.simps(4))

lemma map_le_cases: "m \<subseteq>\<^sub>m n \<Longrightarrow> m k = None \<or> m k = n k"
  by (auto simp: map_le_def dom_def)

lemma data_kept_le: "rview s' \<subseteq>\<^sub>m rview s \<Longrightarrow> data_kept rview s s'"
  by (auto simp: map_le_def data_kept_def dom_def)

lemma data_kept_upd: "rview s' \<subseteq>\<^sub>m (rview s)(k \<mapsto> v) \<Longrightarrow> prefix ''cache-'' k \<Longrightarrow> data_kept rview s s'"
  by (auto simp: map_le_def data_kept_def dom_def data_key_def split: if_splits)

text \<open>The counters live under keys of their own.\<close>

lemma counter_keys: "prefix ''cache-'' ''cache-miss-keys''" "prefix ''cache-'' ''cache-hit-keys''"
  "prefix ''cache-'' ''cache-miss-total''" "prefix ''cache-'' ''cache-hit-total''"
  "prefix ''cache-'' (KEY_PREFIX_MISS @ k)" "prefix ''cache-'' (KEY_PREFIX_HIT @ k)"
  by (simp_all add: KEY_PREFIX_MISS_def KEY_PREFIX_HIT_def)

lemma data_kept_trans: "data_kept rview s s' \<Longrightarrow> data_kept rview s' s'' \<Longrightarrow> data_kept rview s s''"
  unfolding data_kept_def by metis

lemma keeps_data_bare:
  assumes "\<And>s r s'. oper s = (r, s') \<Longrightarrow> data_kept rview s s'"
  shows "keeps (data_kept rview s0) (bare oper)"
proof (rule keepsI)
  fix s assume "data_kept rview s0 s"
  moreover have "data_kept rview s (snd (oper s))" by (rule assms [of s "fst (oper s)"]) simp
  ultimately show "data_kept rview s0 (snd (bare oper s))"
    by (auto simp: bare_def split: prod.splits sum.splits intro: data_kept_trans)
qed

lemma keeps_data_counts:
  assumes "redis_laws R rview"
  shows "keeps (data_kept rview s0) (count_hit R k)" and "keeps (data_kept rview s0) (count_miss R k)"
proof -
  have sadd: "keeps (data_kept rview s0) (bare (rd_sadd R key m))" if "prefix ''cache-'' key" for key m
    by (rule keeps_data_bare) (rule redis_count [OF assms that])
  have incr: "keeps (data_kept rview s0) (bare (rd_incr R key))" if "prefix ''cache-'' key" for key
    by (rule keeps_data_bare) (rule redis_count [OF assms that])
  show "keeps (data_kept rview s0) (count_hit R k)" "keeps (data_kept rview s0) (count_miss R k)"
    unfolding count_hit_def count_miss_def by (intro keeps_intros sadd incr counter_keys)+
qed

text \<open>So do reading and resetting the statistics.\<close>

lemma keeps_data_statistics:
  assumes "redis_laws R rview"
  shows "keeps (data_kept rview s0) (cache_metrics R)" and "keeps (data_kept rview s0) (cache_reset R)"
proof -
  have members: "keeps (data_kept rview s0) (bare (rd_smembers R key))" for key
    by (rule keeps_data_bare) (rule data_kept_le [OF redis_members [OF assms(1)]])
  have get: "keeps (data_kept rview s0) (bare (rd_get R key))" for key
    by (rule keeps_data_bare) (rule data_kept_le [OF conjunct1 [OF redis_get [OF assms(1)]]])
  have del: "keeps (data_kept rview s0) (bare (rd_delete R key))" for key
    by (rule keeps_data_bare) (rule data_kept_le [OF conjunct1 [OF redis_delete [OF assms(1)]]])
  have set: "keeps (data_kept rview s0) (bare (rd_set R key v e))" if "prefix ''cache-'' key" for key v e
    by (rule keeps_data_bare) (rule data_kept_upd [OF redis_set [OF assms(1)] that])
  show "keeps (data_kept rview s0) (cache_metrics R)"
    unfolding cache_metrics_def read_counters_def read_total_def
    by (intro keeps_intros members get) (auto intro!: keeps_intros split: option.split)
  show "keeps (data_kept rview s0) (cache_reset R)"
    unfolding cache_reset_def by (intro keeps_intros members del set counter_keys)
qed

lemma guarded_Inr: "guarded oper s = (r, s') \<Longrightarrow> \<exists>q. oper s = (q, s') \<and> (\<forall>a. r = Inr a \<longrightarrow> q = Inr a)"
  by (auto simp: guarded_def split: prod.splits sum.splits redis_error.splits)

lemma service_get:
  assumes laws: "redis_laws R rview" and dk: "data_key (ck_main k)" and run: "cache_get R k s = (r, s')"
  shows "cached_value rview s' \<subseteq>\<^sub>m cached_value rview s
      \<and> (\<forall>v. r = Inr v \<longrightarrow> v \<noteq> VNone \<longrightarrow> cached_value rview s (ck_main k) = Some v)"
proof -
  obtain q s1 where g: "guarded (rd_get R (ck_main k)) s = (q, s1)" by fastforce
  from guarded_Inr [OF g] obtain q' where rd: "rd_get R (ck_main k) s = (q', s1)" "\<forall>a. q = Inr a \<longrightarrow> q' = Inr a"
    by blast
  note kept = redis_get [OF laws rd(1)]
  have state: "s' = s1" using run g
    by (auto simp: cache_get_def mbind_def split: sum.splits option.splits)
  have "cached_value rview s (ck_main k) = Some v" if "r = Inr v" "v \<noteq> VNone" for v
  proof -
    from run g that obtain b where b: "q = Inr (Some b)" "pickle_loads b = Inr v"
      by (auto simp: cache_get_def mbind_def split: sum.splits option.splits)
    with rd(2) have "q' = Inr (Some b)" by blast
    with kept have "rview s (ck_main k) = Some b" by blast
    with b(2) dk show ?thesis by (simp add: cached_value_def)
  qed
  then show ?thesis
    unfolding state using cached_value_le [OF data_kept_le [OF conjunct1 [OF kept]]] by (intro conjI allI impI)
qed

lemma service_put:
  assumes laws: "redis_laws R rview" and dk: "data_key (ck_main k)" and run: "cache_put R k v e s = (r2, s')"
  shows "cached_value rview s' \<subseteq>\<^sub>m (cached_value rview s)(ck_main k \<mapsto> v)"
proof -
  from guarded_Inr [OF run [unfolded cache_put_def]] obtain q where
    "rd_set R (ck_main k) (Pickled v) (Some e) s = (q, s')" by blast
  note le = redis_set [OF laws this]
  show "cached_value rview s' \<subseteq>\<^sub>m (cached_value rview s)(ck_main k \<mapsto> v)"
    unfolding map_le_def
  proof
    fix d assume "d \<in> dom (cached_value rview s')"
    then have d: "data_key d" "rview s' d \<noteq> None" by (auto simp: cached_value_def split: if_splits option.splits)
    then have "rview s' d = ((rview s)(ck_main k \<mapsto> Pickled v)) d"
      using map_le_cases [OF le, of d] by (simp split: if_splits)
    then show "cached_value rview s' d = ((cached_value rview s)(ck_main k \<mapsto> v)) d"
      using d by (simp add: cached_value_def)
  qed
qed

lemma service_delete:
  assumes laws: "redis_laws R rview" and dk: "data_key (ck_main k)" and run: "cache_delete R k s = (r3, s')"
  shows "cached_value rview s' \<subseteq>\<^sub>m cached_value rview s
      \<and> (\<not> isl r3 \<longrightarrow> cached_value rview s' (ck_main k) = None)"
proof -
  from guarded_Inr [OF run [unfolded cache_delete_def]] obtain q where
    rd: "rd_delete R (ck_main k) s = (q, s')" "\<forall>a. r3 = Inr a \<longrightarrow> q = Inr a" by blast
  have le: "rview s' \<subseteq>\<^sub>m rview s" "\<not> isl q \<longrightarrow> rview s' (ck_main k) = None"
    using redis_delete [OF laws rd(1)] by blast+
  have "\<not> isl r3 \<Longrightarrow> \<not> isl q" using rd(2) by (cases r3) auto
  then show "cached_value rview s' \<subseteq>\<^sub>m cached_value rview s
      \<and> (\<not> isl r3 \<longrightarrow> cached_value rview s' (ck_main k) = None)"
    using cached_value_le [OF data_kept_le [OF le(1)]] le(2) by (auto simp: cached_value_def)
qed

lemma service_counts:
  assumes "redis_laws R rview"
  shows "count_hit R k c = (r, c') \<Longrightarrow> cached_value rview c' \<subseteq>\<^sub>m cached_value rview c"
    and "count_miss R k c = (r, c') \<Longrightarrow> cached_value rview c' \<subseteq>\<^sub>m cached_value rview c"
proof -
  have refl: "data_kept rview c c" by (simp add: data_kept_def)
  show "count_hit R k c = (r, c') \<Longrightarrow> cached_value rview c' \<subseteq>\<^sub>m cached_value rview c"
    using keepsD [OF keeps_data_counts(1) [OF assms], of c c k] refl by (intro cached_value_le) simp
  show "count_miss R k c = (r, c') \<Longrightarrow> cached_value rview c' \<subseteq>\<^sub>m cached_value rview c"
    using keepsD [OF keeps_data_counts(2) [OF assms], of c c k] refl by (intro cached_value_le) simp
qed

lemma service_statistics:
  assumes "redis_laws R rview"
  shows "cached_value rview (snd (cache_reset R c)) \<subseteq>\<^sub>m cached_value rview c"
    and "cached_value rview (snd (cache_metrics R c)) \<subseteq>\<^sub>m cached_value rview c"
  using keepsD [OF keeps_data_statistics(2) [OF assms], of c c] keepsD [OF keeps_data_statistics(1) [OF assms], of c c]
  by (auto intro!: cached_value_le simp: data_kept_def)

interpretation service: cache_service "cache_get R" "cache_put R" "cache_delete R" "count_hit R" "count_miss R"
  "cached_value rview" "\<lambda>s. redis_laws R rview" "\<lambda>k. data_key (ck_main k)" for R rview
  by unfold_locales
    (rule conjI, assumption, rule service_get service_put service_delete service_counts, assumption+)+

end
