(* ===== verification/SlurmCached.thy ===== *)
theory SlurmCached
  imports Slurmrestd Cache
begin

text \<open>
  The classes \<open>SlurmrestdFiltered\<close> and \<open>SlurmrestdFilteredCached\<close> of
  \<open>slurmweb/slurmrestd/__init__.py\<close>, the object that the agent works with: the selection of fields,
  the cache in front of the listings, the invalidation after each write operation, and the counters
  computed from the (cached) listings. The settings are the record \<open>settings\<close>; the object is the
  slurmrestd client with the state of the cache.
\<close>

section \<open>Settings and object\<close>

record filters =
  fl_jobs :: "string list option"
  fl_ctldjob :: "string list option"
  fl_acctjob :: "string list option"
  fl_nodes :: "string list option"
  fl_node :: "string list option"
  fl_partitions :: "string list option"
  fl_accounts :: "string list option"
  fl_associations :: "string list option"
  fl_reservations :: "string list option"
  fl_qos :: "string list option"

record cache_settings =
  ca_enabled :: bool
  ca_jobs :: int
  ca_job :: int
  ca_nodes :: int
  ca_node :: int
  ca_partitions :: int
  ca_accounts :: int
  ca_associations :: int
  ca_reservations :: int
  ca_qos :: int

record settings =
  st_filters :: filters
  st_cache :: cache_settings

record ('w, 'c) cached_srd =
  cs_srd :: "'w slurmrestd"
  cs_cache :: 'c

definition on_srd :: "('w, 'a) srd \<Rightarrow> (('w, 'c) cached_srd, 'a) meth" where
  "on_srd m s = (case m (cs_srd s) of (r, x) \<Rightarrow> (r, s\<lparr>cs_srd := x\<rparr>))"

definition on_cache :: "('c, 'a) meth \<Rightarrow> (('w, 'c) cached_srd, 'a) meth" where
  "on_cache m s = (case m (cs_cache s) of (r, x) \<Rightarrow> (r, s\<lparr>cs_cache := x\<rparr>))"


section \<open>Filtered operations\<close>

definition with_fields :: "string list option \<Rightarrow> ('w, pv) srd \<Rightarrow> ('w, pv) srd" where
  "with_fields selection m = mbind m (\<lambda>items. mlift (filter_fields selection items))"

definition filtered_jobs where "filtered_jobs E F kw = with_fields (fl_jobs F) (base_jobs E kw)"
definition filtered_ctldjob where
  "filtered_ctldjob E F job_id kw = with_fields (fl_ctldjob F) (base_ctldjob E job_id kw)"
definition filtered_acctjob where
  "filtered_acctjob E F job_id kw = with_fields (fl_acctjob F) (base_acctjob E job_id kw)"
definition filtered_nodes where "filtered_nodes E F kw = with_fields (fl_nodes F) (base_nodes E kw)"
definition filtered_node where "filtered_node E F name = with_fields (fl_node F) (base_node E name)"
definition filtered_partitions where
  "filtered_partitions E F = with_fields (fl_partitions F) (base_partitions E no_kwargs)"
definition filtered_accounts where "filtered_accounts E F kw = with_fields (fl_accounts F) (base_accounts E kw)"
definition filtered_associations where
  "filtered_associations E F kw = with_fields (fl_associations F) (base_associations E kw)"
definition filtered_reservations where
  "filtered_reservations E F kw = with_fields (fl_reservations F) (base_reservations E kw)"
definition filtered_qos where "filtered_qos E F kw = with_fields (fl_qos F) (base_qos E kw)"

text \<open>\<open>result.update(other)\<close>: a dictionary, or a sequence of pairs.\<close>

fun update_pair :: "pv \<Rightarrow> pdict \<Rightarrow> pdict res" where
  "update_pair (VList [VStr k, x]) d = Inr (dset k x d)"
| "update_pair (VStr [a, b]) d = Inr (dset [a] (VStr [b]) d)"
| "update_pair _ d = Inl (ValueError ''dictionary update sequence'')"

definition py_update :: "pv \<Rightarrow> pdict \<Rightarrow> pv res" where
  "py_update other d =
     (case other of
        VDict d2 \<Rightarrow> Inr (VDict (fold (\<lambda>(k, x). dset k x) d2 d))
      | _ \<Rightarrow> rbind (py_iter other) (\<lambda>items. rbind (rfold update_pair items d) (\<lambda>d'. Inr (VDict d'))))"

text \<open>The accounting record of the job, with the fields of the controller where it still knows the job.\<close>

definition filtered_job :: "'w outside \<Rightarrow> filters \<Rightarrow> int \<Rightarrow> ('w, pv) srd" where
  "filtered_job E F job_id =
     mbind (mcatch (filtered_acctjob E F job_id no_kwargs) (\<lambda>e.
         if e = IndexError then mraise (SlurmrestdNotFoundError (''Job '' @ int_str job_id @ '' not found''))
         else mraise e)) (\<lambda>result.
     mbind (mlift (as_dict result)) (\<lambda>d.
     mcatch (mbind (filtered_ctldjob E F job_id (no_kwargs\<lparr>kw_ignore_notfound := Some True\<rparr>)) (\<lambda>ctld.
         mlift (py_update ctld d)))
       (\<lambda>e. case e of
          SlurmrestdInternalError _ error _ _ \<Rightarrow>
            if error \<noteq> VInt 2017 \<and> error \<noteq> VFloat 2017 then mraise e else mret result
        | _ \<Rightarrow> mraise e)))"


section \<open>The cache in front\<close>

definition cached_with ::
  "(cache_key \<Rightarrow> ('c, pv) meth) \<Rightarrow> (cache_key \<Rightarrow> pv \<Rightarrow> int \<Rightarrow> ('c, unit) meth) \<Rightarrow> (cache_key \<Rightarrow> ('c, unit) meth)
    \<Rightarrow> (cache_key \<Rightarrow> ('c, unit) meth) \<Rightarrow> bool \<Rightarrow> cache_key \<Rightarrow> int \<Rightarrow> ('w, pv) srd \<Rightarrow> (('w, 'c) cached_srd, pv) meth" where
  "cached_with get_op put_op hit_op miss_op enabled key expiration func =
     (if \<not> enabled then on_srd func
      else mbind (on_cache (get_op key)) (\<lambda>data.
        if data = VNone then
          mbind (on_srd func) (\<lambda>data.
          mbind (on_cache (put_op key data expiration)) (\<lambda>_.
          mbind (on_cache (miss_op key)) (\<lambda>_. mret data)))
        else mbind (on_cache (hit_op key)) (\<lambda>_. mret data)))"

definition invalidate_with ::
  "(cache_key \<Rightarrow> ('c, unit) meth) \<Rightarrow> bool \<Rightarrow> cache_key list \<Rightarrow> (('w, 'c) cached_srd, unit) meth" where
  "invalidate_with delete_op enabled keys =
     (if \<not> enabled then mret () else on_cache (mbind (mmap delete_op keys) (\<lambda>_. mret ())))"

definition cached ::
  "'r redis \<Rightarrow> settings \<Rightarrow> cache_key \<Rightarrow> int \<Rightarrow> ('w, pv) srd \<Rightarrow> (('w, 'r) cached_srd, pv) meth" where
  "cached R S = cached_with (cache_get R) (cache_put R) (count_hit R) (count_miss R) (ca_enabled (st_cache S))"

definition invalidate_cached_keys ::
  "'r redis \<Rightarrow> settings \<Rightarrow> cache_key list \<Rightarrow> (('w, 'r) cached_srd, unit) meth" where
  "invalidate_cached_keys R S = invalidate_with (cache_delete R) (ca_enabled (st_cache S))"


section \<open>Read operations\<close>

definition KEY_JOBS where "KEY_JOBS = CacheKey ''jobs'' None"
definition KEY_JOBS_UNFILTERED where "KEY_JOBS_UNFILTERED = CacheKey ''jobs-unfiltered'' (Some ''jobs'')"
definition KEY_NODES where "KEY_NODES = CacheKey ''nodes'' None"
definition KEY_NODES_UNFILTERED where "KEY_NODES_UNFILTERED = CacheKey ''nodes-unfiltered'' (Some ''nodes'')"
definition key_job :: "int \<Rightarrow> cache_key" where
  "key_job job_id = CacheKey (''job-'' @ int_str job_id) (Some ''individual-job'')"
definition key_node :: "string \<Rightarrow> cache_key" where
  "key_node name = CacheKey (''node-'' @ name) (Some ''individual-node'')"

definition jobs :: "'r redis \<Rightarrow> settings \<Rightarrow> 'w outside \<Rightarrow> kwargs \<Rightarrow> (('w, 'r) cached_srd, pv) meth" where
  "jobs R S E kw =
     (let C = st_cache S; F = st_filters S;
          query = (case kw_query kw of None \<Rightarrow> VNone | Some q \<Rightarrow> q);
          listing = cached R S KEY_JOBS (ca_jobs C) (filtered_jobs E F no_kwargs) in
      if truthy query \<and> ca_enabled C then
        mbind listing (\<lambda>js. mlift (rbind (as_dict query) (\<lambda>q. filter_cached_jobs q js)))
      else if kw \<noteq> no_kwargs then on_srd (filtered_jobs E F kw)
      else listing)"

definition jobs_unfiltered where
  "jobs_unfiltered R S E kw =
     (if kw \<noteq> no_kwargs then on_srd (base_jobs E kw)
      else cached R S KEY_JOBS_UNFILTERED (ca_jobs (st_cache S)) (base_jobs E no_kwargs))"

definition job where
  "job R S E job_id = cached R S (key_job job_id) (ca_job (st_cache S)) (filtered_job E (st_filters S) job_id)"

definition nodes where
  "nodes R S E kw =
     (if kw \<noteq> no_kwargs then on_srd (filtered_nodes E (st_filters S) kw)
      else cached R S KEY_NODES (ca_nodes (st_cache S)) (filtered_nodes E (st_filters S) no_kwargs))"

definition nodes_unfiltered where
  "nodes_unfiltered R S E kw =
     (if kw \<noteq> no_kwargs then on_srd (base_nodes E kw)
      else cached R S KEY_NODES_UNFILTERED (ca_nodes (st_cache S)) (base_nodes E no_kwargs))"

definition node where
  "node R S E name = cached R S (key_node name) (ca_node (st_cache S)) (filtered_node E (st_filters S) name)"

definition partitions where
  "partitions R S E =
     cached R S (CacheKey ''partitions'' None) (ca_partitions (st_cache S)) (filtered_partitions E (st_filters S))"

definition accounts where
  "accounts R S E kw =
     (if kw \<noteq> no_kwargs then on_srd (filtered_accounts E (st_filters S) kw)
      else cached R S (CacheKey ''accounts'' None) (ca_accounts (st_cache S))
             (filtered_accounts E (st_filters S) no_kwargs))"

definition associations where
  "associations R S E kw =
     (if kw \<noteq> no_kwargs then on_srd (filtered_associations E (st_filters S) kw)
      else cached R S (CacheKey ''associations'' None) (ca_associations (st_cache S))
             (filtered_associations E (st_filters S) no_kwargs))"

definition reservations where
  "reservations R S E kw =
     (if kw \<noteq> no_kwargs then on_srd (filtered_reservations E (st_filters S) kw)
      else cached R S (CacheKey ''reservations'' None) (ca_reservations (st_cache S))
             (filtered_reservations E (st_filters S) no_kwargs))"

definition qos where
  "qos R S E kw =
     (if kw \<noteq> no_kwargs then on_srd (filtered_qos E (st_filters S) kw)
      else cached R S (CacheKey ''qos'' None) (ca_qos (st_cache S)) (filtered_qos E (st_filters S) no_kwargs))"

text \<open>The operations of the base class that go through \<open>self.jobs\<close>, \<open>self.jobs_unfiltered\<close>, \<open>self.nodes_unfiltered\<close>.\<close>

definition srd_jobs_by_node where
  "srd_jobs_by_node in_nodeset R S E name =
     mbind (jobs R S E no_kwargs) (\<lambda>js. mlift (select_jobs_by_node in_nodeset name js))"

definition srd_jobs_states where
  "srd_jobs_states R S E part = mbind (jobs_unfiltered R S E no_kwargs) (\<lambda>js. mlift (jobs_states part js))"

definition srd_resources_states where
  "srd_resources_states R S E part =
     mbind (nodes_unfiltered R S E no_kwargs) (\<lambda>ns. mlift (resources_states part ns))"


section \<open>Write operations\<close>

definition then_invalidate ::
  "'r redis \<Rightarrow> settings \<Rightarrow> cache_key list \<Rightarrow> ('w, pv) srd \<Rightarrow> (('w, 'r) cached_srd, pv) meth" where
  "then_invalidate R S keys m =
     mbind (on_srd m) (\<lambda>result. mbind (invalidate_cached_keys R S keys) (\<lambda>_. mret result))"

definition job_submit where
  "job_submit R S E payload =
     then_invalidate R S [KEY_JOBS, KEY_JOBS_UNFILTERED] (base_job_submit E payload)"
definition job_update where
  "job_update R S E job_id payload =
     then_invalidate R S [KEY_JOBS, KEY_JOBS_UNFILTERED, key_job job_id] (base_job_update E job_id payload)"
definition job_cancel where
  "job_cancel R S E job_id payload =
     then_invalidate R S [KEY_JOBS, KEY_JOBS_UNFILTERED, key_job job_id] (base_job_cancel E job_id payload)"
definition node_update where
  "node_update R S E name payload =
     then_invalidate R S [KEY_NODES, KEY_NODES_UNFILTERED, key_node name] (base_node_update E name payload)"
definition node_delete where
  "node_delete R S E name =
     then_invalidate R S [KEY_NODES, KEY_NODES_UNFILTERED, key_node name] (base_node_delete E name)"
definition accounts_update where
  "accounts_update R S E payload =
     then_invalidate R S [CacheKey ''accounts'' None, CacheKey ''associations'' None] (base_accounts_update E payload)"
definition account_delete where
  "account_delete R S E name =
     then_invalidate R S [CacheKey ''accounts'' None, CacheKey ''associations'' None] (base_account_delete E name)"
definition users_update where
  "users_update R S E payload =
     then_invalidate R S [CacheKey ''associations'' None] (base_users_update E payload)"
definition user_delete where
  "user_delete R S E name =
     then_invalidate R S [CacheKey ''associations'' None] (base_user_delete E name)"
definition associations_update where
  "associations_update R S E payload =
     then_invalidate R S [CacheKey ''accounts'' None, CacheKey ''associations'' None] (base_associations_update E payload)"
definition associations_delete where
  "associations_delete R S E payload =
     then_invalidate R S [CacheKey ''accounts'' None, CacheKey ''associations'' None] (base_associations_delete E payload)"
definition qos_update where
  "qos_update R S E payload =
     then_invalidate R S [CacheKey ''qos'' None, CacheKey ''associations'' None] (base_qos_update E payload)"
definition qos_delete where
  "qos_delete R S E name =
     then_invalidate R S [CacheKey ''qos'' None, CacheKey ''associations'' None] (base_qos_delete E name)"
definition reservation_create where
  "reservation_create R S E payload =
     then_invalidate R S [CacheKey ''reservations'' None] (base_reservation_create E payload)"
definition reservation_update where
  "reservation_update R S E name payload =
     then_invalidate R S [CacheKey ''reservations'' None] (base_reservation_update E name payload)"
definition reservation_delete where
  "reservation_delete R S E name =
     then_invalidate R S [CacheKey ''reservations'' None] (base_reservation_delete E name)"


section \<open>Reads and writes as a whole\<close>

datatype read_op =
    ReadJobs | ReadJobsUnfiltered | ReadJob int | ReadNodes | ReadNodesUnfiltered | ReadNode string
  | ReadPartitions | ReadAccounts | ReadAssociations | ReadReservations | ReadQos

datatype write_op =
    JobSubmit pv | JobUpdate int pv | JobCancel int pv | NodeUpdate string pv | NodeDelete string
  | AccountsUpdate pv | AccountDelete string | UsersUpdate pv | UserDelete string
  | AssociationsUpdate pv | AssociationsDelete pv | QosUpdate pv | QosDelete string
  | ReservationCreate pv | ReservationUpdate string pv | ReservationDelete string

fun run_read :: "'r redis \<Rightarrow> settings \<Rightarrow> 'w outside \<Rightarrow> read_op \<Rightarrow> (('w, 'r) cached_srd, pv) meth" where
  "run_read R S E ReadJobs = jobs R S E no_kwargs"
| "run_read R S E ReadJobsUnfiltered = jobs_unfiltered R S E no_kwargs"
| "run_read R S E (ReadJob n) = job R S E n"
| "run_read R S E ReadNodes = nodes R S E no_kwargs"
| "run_read R S E ReadNodesUnfiltered = nodes_unfiltered R S E no_kwargs"
| "run_read R S E (ReadNode name) = node R S E name"
| "run_read R S E ReadPartitions = partitions R S E"
| "run_read R S E ReadAccounts = accounts R S E no_kwargs"
| "run_read R S E ReadAssociations = associations R S E no_kwargs"
| "run_read R S E ReadReservations = reservations R S E no_kwargs"
| "run_read R S E ReadQos = qos R S E no_kwargs"

text \<open>The same read without the cache.\<close>

fun fresh_read :: "settings \<Rightarrow> 'w outside \<Rightarrow> read_op \<Rightarrow> ('w, pv) srd" where
  "fresh_read S E ReadJobs = filtered_jobs E (st_filters S) no_kwargs"
| "fresh_read S E ReadJobsUnfiltered = base_jobs E no_kwargs"
| "fresh_read S E (ReadJob n) = filtered_job E (st_filters S) n"
| "fresh_read S E ReadNodes = filtered_nodes E (st_filters S) no_kwargs"
| "fresh_read S E ReadNodesUnfiltered = base_nodes E no_kwargs"
| "fresh_read S E (ReadNode name) = filtered_node E (st_filters S) name"
| "fresh_read S E ReadPartitions = filtered_partitions E (st_filters S)"
| "fresh_read S E ReadAccounts = filtered_accounts E (st_filters S) no_kwargs"
| "fresh_read S E ReadAssociations = filtered_associations E (st_filters S) no_kwargs"
| "fresh_read S E ReadReservations = filtered_reservations E (st_filters S) no_kwargs"
| "fresh_read S E ReadQos = filtered_qos E (st_filters S) no_kwargs"

fun run_write :: "'r redis \<Rightarrow> settings \<Rightarrow> 'w outside \<Rightarrow> write_op \<Rightarrow> (('w, 'r) cached_srd, pv) meth" where
  "run_write R S E (JobSubmit p) = job_submit R S E p"
| "run_write R S E (JobUpdate n p) = job_update R S E n p"
| "run_write R S E (JobCancel n p) = job_cancel R S E n p"
| "run_write R S E (NodeUpdate name p) = node_update R S E name p"
| "run_write R S E (NodeDelete name) = node_delete R S E name"
| "run_write R S E (AccountsUpdate p) = accounts_update R S E p"
| "run_write R S E (AccountDelete name) = account_delete R S E name"
| "run_write R S E (UsersUpdate p) = users_update R S E p"
| "run_write R S E (UserDelete name) = user_delete R S E name"
| "run_write R S E (AssociationsUpdate p) = associations_update R S E p"
| "run_write R S E (AssociationsDelete p) = associations_delete R S E p"
| "run_write R S E (QosUpdate p) = qos_update R S E p"
| "run_write R S E (QosDelete name) = qos_delete R S E name"
| "run_write R S E (ReservationCreate p) = reservation_create R S E p"
| "run_write R S E (ReservationUpdate name p) = reservation_update R S E name p"
| "run_write R S E (ReservationDelete name) = reservation_delete R S E name"

text \<open>What a write operation changes, by the kind of resource.\<close>

fun affects :: "write_op \<Rightarrow> read_op \<Rightarrow> bool" where
  "affects (JobSubmit p) rd \<longleftrightarrow> rd \<in> {ReadJobs, ReadJobsUnfiltered}"
| "affects (JobUpdate n p) rd \<longleftrightarrow> rd \<in> {ReadJobs, ReadJobsUnfiltered, ReadJob n}"
| "affects (JobCancel n p) rd \<longleftrightarrow> rd \<in> {ReadJobs, ReadJobsUnfiltered, ReadJob n}"
| "affects (NodeUpdate name p) rd \<longleftrightarrow> rd \<in> {ReadNodes, ReadNodesUnfiltered, ReadNode name}"
| "affects (NodeDelete name) rd \<longleftrightarrow> rd \<in> {ReadNodes, ReadNodesUnfiltered, ReadNode name}"
| "affects (AccountsUpdate p) rd \<longleftrightarrow> rd \<in> {ReadAccounts, ReadAssociations}"
| "affects (AccountDelete name) rd \<longleftrightarrow> rd \<in> {ReadAccounts, ReadAssociations}"
| "affects (UsersUpdate p) rd \<longleftrightarrow> rd = ReadAssociations"
| "affects (UserDelete name) rd \<longleftrightarrow> rd = ReadAssociations"
| "affects (AssociationsUpdate p) rd \<longleftrightarrow> rd \<in> {ReadAccounts, ReadAssociations}"
| "affects (AssociationsDelete p) rd \<longleftrightarrow> rd \<in> {ReadAccounts, ReadAssociations}"
| "affects (QosUpdate p) rd \<longleftrightarrow> rd \<in> {ReadQos, ReadAssociations}"
| "affects (QosDelete name) rd \<longleftrightarrow> rd \<in> {ReadQos, ReadAssociations}"
| "affects (ReservationCreate p) rd \<longleftrightarrow> rd = ReadReservations"
| "affects (ReservationUpdate name p) rd \<longleftrightarrow> rd = ReadReservations"
| "affects (ReservationDelete name) rd \<longleftrightarrow> rd = ReadReservations"



section \<open>What the cache may return\<close>

lemma on_srd_result: "on_srd m s = (r, s') \<Longrightarrow> r = fst (m (cs_srd s)) \<and> cs_cache s' = cs_cache s"
  by (auto simp: on_srd_def split: prod.splits)

lemma on_cache_result: "on_cache m s = (r, s') \<Longrightarrow> m (cs_cache s) = (r, cs_cache s') \<and> cs_srd s' = cs_srd s"
  by (auto simp: on_cache_def split: prod.splits)

lemma cache_after [simp]: "cs_cache (snd (on_cache m s)) = snd (m (cs_cache s))"
  by (simp add: on_cache_def split: prod.split)

context cache_service
begin

lemma cached_with_result:
  assumes inv: "invar (cs_cache s)" and key: "good key"
    and run: "cached_with cget cput chit cmiss enabled key e f s = (r, s')"
  shows "invar (cs_cache s')
    \<and> (\<forall>v. r = Inr v \<longrightarrow> fst (f (cs_srd s)) = Inr v \<or> enabled \<and> view (cs_cache s) (ck_main key) = Some v)
    \<and> (\<forall>k v. view (cs_cache s') k = Some v \<longrightarrow>
         view (cs_cache s) k = Some v \<or> (k = ck_main key \<and> fst (f (cs_srd s)) = Inr v))"
proof (cases enabled)
  case False
  then show ?thesis using run inv by (auto simp: cached_with_def dest!: on_srd_result)
next
  case True
  obtain q s1 where get: "on_cache (cget key) s = (q, s1)" by fastforce
  note get1 = on_cache_result [OF get]
  note g = get_law [OF inv key conjunct1 [OF get1]]
  show ?thesis
  proof (cases q)
    case (Inl x)
    then have "r = Inl x" "s' = s1" using run True get by (auto simp: cached_with_def mbind_def)
    then show ?thesis using g map_le_Some by fastforce
  next
    case (Inr data)
    show ?thesis
    proof (cases "data = VNone")
      case hit: False
      then have "mbind (on_cache (chit key)) (\<lambda>_. mret data) s1 = (r, s')"
        using run True get Inr by (auto simp: cached_with_def mbind_def)
      then obtain u where u: "on_cache (chit key) s1 = (u, s')" "\<forall>v. r = Inr v \<longrightarrow> v = data"
        by (auto elim!: mbind_cases)
      note h = hit_law [OF conjunct1 [OF g] conjunct1 [OF on_cache_result [OF u(1)]]]
      have le: "view (cs_cache s') \<subseteq>\<^sub>m view (cs_cache s)" using g h by (meson map_le_trans)
      have "view (cs_cache s) (ck_main key) = Some data" using g hit Inr by blast
      with le h u(2) True show ?thesis by (auto dest: map_le_Some)
    next
      case miss: True
      then have rest: "mbind (on_srd f) (\<lambda>data. mbind (on_cache (cput key data e)) (\<lambda>_.
          mbind (on_cache (cmiss key)) (\<lambda>_. mret data))) s1 = (r, s')"
        using run True get Inr by (auto simp: cached_with_def mbind_def)
      obtain d s2 where f: "on_srd f s1 = (d, s2)" by fastforce
      have d: "d = fst (f (cs_srd s))" "cs_cache s2 = cs_cache s1"
        using on_srd_result [OF f] get1 by simp_all
      show ?thesis
      proof (cases d)
        case (Inl x)
        then have "r = Inl x" "s' = s2" using rest f by (auto simp: mbind_def)
        then show ?thesis using g d(2) map_le_Some by fastforce
      next
        case fresh: (Inr v)
        obtain p s3 where put: "on_cache (cput key v e) s2 = (p, s3)" by fastforce
        note p = put_law [OF _ key conjunct1 [OF on_cache_result [OF put]]]
        have p1: "invar (cs_cache s3)" "view (cs_cache s3) \<subseteq>\<^sub>m (view (cs_cache s1))(ck_main key \<mapsto> v)"
          using p g d(2) by simp_all
        have p2: "view (cs_cache s) k = Some x \<or> (k = ck_main key \<and> x = v)" if "view (cs_cache s3) k = Some x" for k x
          using map_le_Some [OF p1(2) that] g map_le_Some by (auto split: if_splits)
        have "(\<exists>u. on_cache (cmiss key) s3 = (u, s')) \<or> s' = s3" and ret: "\<forall>x. r = Inr x \<longrightarrow> x = v"
          using rest f fresh put by (auto simp: mbind_def split: sum.splits prod.splits)
        then have "invar (cs_cache s') \<and> view (cs_cache s') \<subseteq>\<^sub>m view (cs_cache s3)"
          using miss_law [OF p1(1)] p1(1) on_cache_result by fastforce
        moreover have "fst (f (cs_srd s)) = Inr v" using d(1) fresh by simp
        ultimately show ?thesis using p2 ret by (auto dest!: map_le_Some p2)
      qed
    qed
  qed
qed

lemma invalidate_with_result:
  assumes "invar (cs_cache s)" and "\<forall>k \<in> set ks. good k"
    and "invalidate_with cdelete True ks s = (Inr u, s')"
  shows "invar (cs_cache s') \<and> view (cs_cache s') \<subseteq>\<^sub>m view (cs_cache s)
    \<and> (\<forall>k \<in> set ks. view (cs_cache s') (ck_main k) = None)"
proof -
  have "mbind (mmap cdelete ks) (\<lambda>_. mret ()) (cs_cache s) = (Inr u, cs_cache s')"
    using assms(3) on_cache_result unfolding invalidate_with_def by fastforce
  then obtain us where "mmap cdelete ks (cs_cache s) = (Inr us, cs_cache s')"
    by (auto elim!: mbind_cases)
  from delete_all [OF assms(1,2) this] show ?thesis .
qed

lemma invalidate_with_keeps:
  assumes "invar (cs_cache s)" and "\<forall>k \<in> set ks. good k" and "invalidate_with cdelete enabled ks s = (r, s')"
  shows "invar (cs_cache s') \<and> view (cs_cache s') \<subseteq>\<^sub>m view (cs_cache s)"
proof (cases enabled)
  case False
  then show ?thesis using assms by (auto simp: invalidate_with_def)
next
  case True
  let ?P = "\<lambda>c. invar c \<and> view c \<subseteq>\<^sub>m view (cs_cache s)"
  have "keeps ?P (cdelete k)" if "k \<in> set ks" for k
  proof (rule keepsI)
    fix c assume "?P c"
    with delete_law [of c k "fst (cdelete k c)" "snd (cdelete k c)"] assms(2) that
    show "?P (snd (cdelete k c))" by (auto intro: map_le_trans)
  qed
  then have "keeps ?P (mbind (mmap cdelete ks) (\<lambda>_. mret ()))" by (intro keeps_intros)
  moreover have "mbind (mmap cdelete ks) (\<lambda>_. mret ()) (cs_cache s) = (r, cs_cache s')"
    using assms(3) True on_cache_result unfolding invalidate_with_def by fastforce
  ultimately show ?thesis using keepsD [of ?P _ "cs_cache s"] assms(1) by fastforce
qed

end



section \<open>Keys of the reads\<close>

fun read_key :: "read_op \<Rightarrow> cache_key" where
  "read_key ReadJobs = KEY_JOBS"
| "read_key ReadJobsUnfiltered = KEY_JOBS_UNFILTERED"
| "read_key (ReadJob n) = key_job n"
| "read_key ReadNodes = KEY_NODES"
| "read_key ReadNodesUnfiltered = KEY_NODES_UNFILTERED"
| "read_key (ReadNode name) = key_node name"
| "read_key ReadPartitions = CacheKey ''partitions'' None"
| "read_key ReadAccounts = CacheKey ''accounts'' None"
| "read_key ReadAssociations = CacheKey ''associations'' None"
| "read_key ReadReservations = CacheKey ''reservations'' None"
| "read_key ReadQos = CacheKey ''qos'' None"

lemmas key_defs = KEY_JOBS_def KEY_JOBS_UNFILTERED_def KEY_NODES_def KEY_NODES_UNFILTERED_def
  key_job_def key_node_def CacheKey_def

lemma read_key_inject: "ck_main (read_key a) = ck_main (read_key b) \<longleftrightarrow> a = b"
  by (cases a; cases b) (simp_all add: key_defs)

lemma read_key_data: "data_key (ck_main (read_key rd))"
  by (cases rd) (simp_all add: key_defs data_key_def)

lemma run_read_cached: "\<exists>e. run_read R S E rd = cached R S (read_key rd) e (fresh_read S E rd)"
  by (cases rd) (auto simp: jobs_def jobs_unfiltered_def job_def nodes_def nodes_unfiltered_def node_def
      partitions_def accounts_def associations_def reservations_def qos_def no_kwargs_def Let_def)

lemma run_write_invalidates:
  "\<exists>m keys. run_write R S E w = then_invalidate R S keys m
     \<and> (\<forall>k \<in> set keys. data_key (ck_main k)) \<and> read_key ` {rd. affects w rd} \<subseteq> set keys"
proof -
  have keys: "data_key (ck_main KEY_JOBS)" "data_key (ck_main KEY_JOBS_UNFILTERED)" "data_key (ck_main (key_job n))"
    "data_key (ck_main KEY_NODES)" "data_key (ck_main KEY_NODES_UNFILTERED)" "data_key (ck_main (key_node x))"
    "data_key (ck_main (CacheKey ''accounts'' None))" "data_key (ck_main (CacheKey ''associations'' None))"
    "data_key (ck_main (CacheKey ''reservations'' None))" "data_key (ck_main (CacheKey ''qos'' None))" for n x
    by (simp_all add: key_defs data_key_def)
  show ?thesis
    by (cases w) (simp_all only: run_write.simps affects.simps job_submit_def job_update_def job_cancel_def
        node_update_def node_delete_def accounts_update_def account_delete_def users_update_def user_delete_def
        associations_update_def associations_delete_def qos_update_def qos_delete_def reservation_create_def
        reservation_update_def reservation_delete_def; (rule exI, rule exI, rule conjI, rule refl, auto simp: keys))+
qed

text \<open>
  A history of the object: reads and write operations through the cache, anything else done with the
  slurmrestd client (and by the cluster meanwhile), and the statistics of the cache. With it goes a
  record of what slurmrestd answered, or would have answered, at each read since the last successful
  write operation that affects it.
\<close>

inductive cached_run ::
  "'r redis \<Rightarrow> ('r \<Rightarrow> string \<Rightarrow> stored option) \<Rightarrow> settings \<Rightarrow> 'w outside
    \<Rightarrow> (read_op \<times> pv) list \<Rightarrow> ('w, 'r) cached_srd \<Rightarrow> bool" for R rview S E where
  start: "(\<And>k. cached_value rview (cs_cache s) k = None) \<Longrightarrow> cached_run R rview S E [] s"
| read: "cached_run R rview S E h s \<Longrightarrow> run_read R S E rd s = (r, s') \<Longrightarrow>
    cached_run R rview S E ((case fst (fresh_read S E rd (cs_srd s)) of Inl _ \<Rightarrow> [] | Inr v \<Rightarrow> [(rd, v)]) @ h) s'"
| wrote: "cached_run R rview S E h s \<Longrightarrow> run_write R S E w s = (Inr v, s') \<Longrightarrow>
    cached_run R rview S E (filter (\<lambda>(rd, _). \<not> affects w rd) h) s'"
| failed: "cached_run R rview S E h s \<Longrightarrow> run_write R S E w s = (Inl e, s') \<Longrightarrow> cached_run R rview S E h s'"
| other: "cached_run R rview S E h s \<Longrightarrow> cached_run R rview S E h (s\<lparr>cs_srd := x\<rparr>)"
| metrics: "cached_run R rview S E h s \<Longrightarrow> cached_run R rview S E h (snd (on_cache (cache_metrics R) s))"
| reset: "cached_run R rview S E h s \<Longrightarrow> cached_run R rview S E h (snd (on_cache (cache_reset R) s))"

text \<open>Every value in the cache was an answer of slurmrestd that is still in the record.\<close>

definition cache_coherent :: "('r \<Rightarrow> string \<Rightarrow> stored option) \<Rightarrow> settings \<Rightarrow> (read_op \<times> pv) list \<Rightarrow> ('w, 'r) cached_srd \<Rightarrow> bool" where
  "cache_coherent rview S h s \<longleftrightarrow>
     (ca_enabled (st_cache S) \<longrightarrow>
        (\<forall>rd v. cached_value rview (cs_cache s) (ck_main (read_key rd)) = Some v \<longrightarrow> (rd, v) \<in> set h))"

lemma coherent_le:
  "cache_coherent rview S h s \<Longrightarrow> cached_value rview (cs_cache s') \<subseteq>\<^sub>m cached_value rview (cs_cache s) \<Longrightarrow>
   cache_coherent rview S h s'"
  unfolding cache_coherent_def by (meson map_le_Some)

lemma run_read_result:
  assumes laws: "redis_laws R rview" and run: "run_read R S E rd s = (r, s')"
  shows "(\<forall>v. r = Inr v \<longrightarrow> fst (fresh_read S E rd (cs_srd s)) = Inr v
      \<or> ca_enabled (st_cache S) \<and> cached_value rview (cs_cache s) (ck_main (read_key rd)) = Some v)
    \<and> (\<forall>k v. cached_value rview (cs_cache s') k = Some v \<longrightarrow>
         cached_value rview (cs_cache s) k = Some v
         \<or> (k = ck_main (read_key rd) \<and> fst (fresh_read S E rd (cs_srd s)) = Inr v))"
proof -
  obtain e where "cached R S (read_key rd) e (fresh_read S E rd) s = (r, s')"
    using run run_read_cached [of R S E rd] by auto
  from service.cached_with_result [OF laws read_key_data this [unfolded cached_def]] show ?thesis by blast
qed

lemma then_invalidate_result:
  assumes laws: "redis_laws R rview" and data: "\<forall>k \<in> set keys. data_key (ck_main k)"
    and run: "then_invalidate R S keys m s = (r, s')"
  shows "cached_value rview (cs_cache s') \<subseteq>\<^sub>m cached_value rview (cs_cache s)
    \<and> (\<not> isl r \<longrightarrow> ca_enabled (st_cache S) \<longrightarrow>
         (\<forall>k \<in> set keys. cached_value rview (cs_cache s') (ck_main k) = None))"
  using run unfolding then_invalidate_def
proof (cases rule: mbind_cases)
  case (error e)
  then show ?thesis using on_srd_result by fastforce
next
  case (result a s1)
  have s1: "cs_cache s1 = cs_cache s" using on_srd_result [OF result(1)] by simp
  obtain q s2 where inv: "invalidate_cached_keys R S keys s1 = (q, s2)" by fastforce
  then have s2: "s2 = s'" "isl r \<longleftrightarrow> isl q" using result(2) by (auto simp: mbind_def split: sum.splits)
  have le: "cached_value rview (cs_cache s2) \<subseteq>\<^sub>m cached_value rview (cs_cache s1)"
    using service.invalidate_with_keeps [OF laws data inv [unfolded invalidate_cached_keys_def]] by blast
  have "\<forall>k \<in> set keys. cached_value rview (cs_cache s2) (ck_main k) = None"
    if ok: "\<not> isl q" and on: "ca_enabled (st_cache S)"
  proof -
    obtain u where "q = Inr u" using ok by (cases q) auto
    then have "invalidate_with (cache_delete R) True keys s1 = (Inr u, s2)"
      using inv on by (simp add: invalidate_cached_keys_def)
    from service.invalidate_with_result [OF laws data this] show ?thesis by blast
  qed
  with le s1 s2 show ?thesis by simp
qed

lemma cached_run_coherent:
  assumes "cached_run R rview S E h s" and laws: "redis_laws R rview"
  shows "cache_coherent rview S h s"
  using assms(1)
proof induction
  case (start s)
  then show ?case by (simp add: cache_coherent_def)
next
  case (read h s rd r s')
  note res = run_read_result [OF laws read.hyps(2)]
  show ?case unfolding cache_coherent_def
  proof (intro impI allI)
    fix rd' v assume "ca_enabled (st_cache S)" "cached_value rview (cs_cache s') (ck_main (read_key rd')) = Some v"
    moreover from this(2) res have "cached_value rview (cs_cache s) (ck_main (read_key rd')) = Some v
        \<or> (ck_main (read_key rd') = ck_main (read_key rd) \<and> fst (fresh_read S E rd (cs_srd s)) = Inr v)" by blast
    ultimately have "(rd', v) \<in> set h \<or> (rd' = rd \<and> fst (fresh_read S E rd (cs_srd s)) = Inr v)"
      using read.IH by (auto simp: cache_coherent_def read_key_inject)
    then show "(rd', v) \<in> set ((case fst (fresh_read S E rd (cs_srd s)) of Inl _ \<Rightarrow> [] | Inr v \<Rightarrow> [(rd, v)]) @ h)"
      by auto
  qed
next
  case (wrote h s w v s')
  obtain keys m where w: "run_write R S E w = then_invalidate R S keys m"
    "\<forall>k \<in> set keys. data_key (ck_main k)" "read_key ` {rd. affects w rd} \<subseteq> set keys"
    using run_write_invalidates by metis
  note res = then_invalidate_result [OF laws w(2) wrote.hyps(2) [unfolded w(1)]]
  have "cache_coherent rview S h s'" using coherent_le [OF wrote.IH] res by blast
  then show ?case using res w(3) by (fastforce simp: cache_coherent_def)
next
  case (failed h s w e s')
  obtain keys m where w: "run_write R S E w = then_invalidate R S keys m"
    "\<forall>k \<in> set keys. data_key (ck_main k)" using run_write_invalidates by metis
  from then_invalidate_result [OF laws w(2) failed.hyps(2) [unfolded w(1)]] show ?case
    using coherent_le [OF failed.IH] by blast
next
  case (other h s x)
  then show ?case by (simp add: cache_coherent_def)
next
  case (metrics h s)
  then show ?case using service_statistics(2) [OF laws, of "cs_cache s"]
    by (intro coherent_le [OF metrics.IH]) simp
next
  case (reset h s)
  then show ?case using service_statistics(1) [OF laws, of "cs_cache s"]
    by (intro coherent_le [OF reset.IH]) simp
qed


section \<open>Properties\<close>

text \<open>
  C8. The cache is coherent. In every history of reads, write operations and other uses of the
  cluster, a read returns what slurmrestd answers now or answered at an earlier read of the same
  thing that no successful write operation on it has followed; in particular the read that follows
  such a write operation is answered afresh.
\<close>

theorem reads_coherent:
  assumes laws: "redis_laws R rview" and hist: "cached_run R rview S E h s"
    and run: "run_read R S E rd s = (Inr v, s')"
  shows "fst (fresh_read S E rd (cs_srd s)) = Inr v \<or> ca_enabled (st_cache S) \<and> (rd, v) \<in> set h"
  using run_read_result [OF laws run] cached_run_coherent [OF hist laws]
  by (auto simp: cache_coherent_def)



text \<open>A Redis held in memory: its values and its sets.\<close>

type_synonym memory = "(string \<times> stored) list \<times> (string \<times> string list) list"

definition memory_redis :: "memory redis" where
  "memory_redis =
     \<lparr>rd_set = (\<lambda>k v e (vals, sets). (Inr (), (dset k v vals, sets))),
      rd_get = (\<lambda>k (vals, sets). (Inr (map_of vals k), (vals, sets))),
      rd_delete = (\<lambda>k (vals, sets). (Inr (), (filter (\<lambda>(j, _). j \<noteq> k) vals, filter (\<lambda>(j, _). j \<noteq> k) sets))),
      rd_sadd = (\<lambda>k m (vals, sets).
        (Inr (), (vals, dset k (List.insert m (case map_of sets k of None \<Rightarrow> [] | Some ms \<Rightarrow> ms)) sets))),
      rd_smembers = (\<lambda>k (vals, sets). (Inr (case map_of sets k of None \<Rightarrow> [] | Some ms \<Rightarrow> ms), (vals, sets))),
      rd_incr = (\<lambda>k (vals, sets).
        case counter_int (case map_of vals k of None \<Rightarrow> Plain ''0'' | Some x \<Rightarrow> x) of
          Inl _ \<Rightarrow> (Inl (RedisResponseError ''not an integer''), (vals, sets))
        | Inr n \<Rightarrow> (Inr (), (dset k (Plain (int_str (n + 1))) vals, sets)))\<rparr>"

definition memory_view :: "memory \<Rightarrow> string \<Rightarrow> stored option" where
  "memory_view = map_of \<circ> fst"

lemma map_of_without: "map_of (filter (\<lambda>(j, _). j \<noteq> k) d) = (map_of d)(k := None)"
  by (induction d) auto

lemma memory_laws: "redis_laws memory_redis memory_view"
  by (auto simp: redis_laws_def memory_redis_def memory_view_def data_key_def map_of_without map_le_def
      map_of_dset split: sum.splits if_splits)

definition demo_settings :: settings where
  "demo_settings =
     \<lparr>st_filters = \<lparr>fl_jobs = None, fl_ctldjob = None, fl_acctjob = None, fl_nodes = None, fl_node = None,
        fl_partitions = None, fl_accounts = None, fl_associations = None, fl_reservations = None, fl_qos = None\<rparr>,
      st_cache = \<lparr>ca_enabled = True, ca_jobs = 30, ca_job = 10, ca_nodes = 30, ca_node = 10, ca_partitions = 60,
        ca_accounts = 60, ca_associations = 60, ca_reservations = 60, ca_qos = 60\<rparr>\<rparr>"

definition demo_cached :: "(unit, memory) cached_srd" where
  "demo_cached = \<lparr>cs_srd = demo_slurmrestd, cs_cache = ([], [])\<rparr>"

theorem reads_coherent_witness:
  "\<exists>v s'. run_read memory_redis demo_settings demo_outside ReadJobs
       (snd (run_read memory_redis demo_settings demo_outside ReadJobs demo_cached)) = (Inr v, s') \<and> v = VList []"
proof -
  let ?read = "run_read memory_redis demo_settings demo_outside ReadJobs"
  obtain r s1 where first: "?read demo_cached = (r, s1)" by fastforce
  have hist: "cached_run memory_redis memory_view demo_settings demo_outside
      ((case fst (fresh_read demo_settings demo_outside ReadJobs (cs_srd demo_cached)) of
          Inl _ \<Rightarrow> [] | Inr v \<Rightarrow> [(ReadJobs, v)]) @ []) s1"
    by (rule cached_run.read [OF cached_run.start first])
      (simp add: demo_cached_def cached_value_def memory_view_def)
  have answer: "fst (fresh_read demo_settings demo_outside ReadJobs (cs_srd demo_cached)) = Inr (VList [])"
    by code_simp
  have "\<not> isl (fst (?read (snd (?read demo_cached))))"
    and "fst (fresh_read demo_settings demo_outside ReadJobs (cs_srd (snd (?read demo_cached)))) = Inr (VList [])"
    by code_simp+
  then obtain v s' where "?read s1 = (Inr v, s')"
    and "fst (fresh_read demo_settings demo_outside ReadJobs (cs_srd s1)) = Inr (VList [])"
    using first by (cases "?read s1"; cases "fst (?read s1)") auto
  with reads_coherent [OF memory_laws hist this(1)] answer first show ?thesis by auto
qed

end
