(* ===== verification/Json.thy ===== *)
theory Json
  imports PyStrings
begin

text \<open>
  \<open>json.dumps\<close> and \<open>json.loads\<close> of the standard library, as far as the program uses them: the
  default separators, ASCII output, the last of several equal keys. The parser runs on fuel that is
  enough for every text (\<open>parse_value_fuel\<close>). Text is of code points below 256, so an escape for a
  larger one is refused, and so are the constants \<open>NaN\<close> and \<open>Infinity\<close>, for which the values
  have no number.
\<close>

section \<open>Writing\<close>

definition json_char :: "char \<Rightarrow> string" where
  "json_char c =
     (let n = (of_char c :: nat); bs = char_of (92 :: nat)
      in if n = 34 \<or> n = 92 then [bs, c]
         else if n = 10 then [bs, CHR ''n'']
         else if n = 13 then [bs, CHR ''r'']
         else if n = 9 then [bs, CHR ''t'']
         else if n = 12 then [bs, CHR ''f'']
         else if n = 8 then [bs, CHR ''b'']
         else if n < 32 \<or> 126 < n then [bs, CHR ''u'', CHR ''0'', CHR ''0'', hex_char (n div 16), hex_char (n mod 16)]
         else [c])"

definition json_string :: "string \<Rightarrow> string" where
  "json_string s = char_of (34 :: nat) # concat (map json_char s) @ [char_of (34 :: nat)]"

fun json_text :: "pv \<Rightarrow> string" where
  "json_text VNone = ''null''"
| "json_text (VBool b) = (if b then ''true'' else ''false'')"
| "json_text (VInt n) = int_str n"
| "json_text (VFloat q) = float_str q"
| "json_text (VStr s) = json_string s"
| "json_text (VTime t) = []"
| "json_text (VList xs) = ''['' @ py_join '', '' (map json_text xs) @ '']''"
| "json_text (VDict d) = ''{'' @ py_join '', '' (map (\<lambda>p. json_string (fst p) @ '': '' @ json_text (snd p)) d) @ ''}''"

fun has_time :: "pv \<Rightarrow> bool" where
  "has_time (VTime _) = True"
| "has_time (VList xs) = list_ex has_time xs"
| "has_time (VDict d) = list_ex (\<lambda>p. has_time (snd p)) d"
| "has_time _ = False"

definition json_dumps :: "pv \<Rightarrow> string res" where
  "json_dumps v = (if has_time v then Inl (TypeError ''not JSON serializable'') else Inr (json_text v))"


section \<open>Reading\<close>

definition json_space :: "char \<Rightarrow> bool" where
  "json_space c \<longleftrightarrow> (of_char c :: nat) \<in> {32, 9, 10, 13}"

definition skip_ws :: "string \<Rightarrow> string" where
  "skip_ws = dropWhile json_space"

definition hex_value :: "char \<Rightarrow> nat option" where
  "hex_value c =
     (let n = (of_char c :: nat)
      in if 48 \<le> n \<and> n \<le> 57 then Some (n - 48)
         else if 97 \<le> n \<and> n \<le> 102 then Some (n - 87)
         else if 65 \<le> n \<and> n \<le> 70 then Some (n - 55)
         else None)"

definition escaped :: "char \<Rightarrow> char option" where
  "escaped c =
     (let n = (of_char c :: nat)
      in if n = 34 \<or> n = 92 \<or> n = 47 then Some c
         else if n = 98 then Some (char_of (8 :: nat))
         else if n = 102 then Some (char_of (12 :: nat))
         else if n = 110 then Some (char_of (10 :: nat))
         else if n = 114 then Some (char_of (13 :: nat))
         else if n = 116 then Some (char_of (9 :: nat))
         else None)"

definition read_escape :: "string \<Rightarrow> (char \<times> string) option" where
  "read_escape s =
     (case s of
        [] \<Rightarrow> None
      | e # cs \<Rightarrow>
          if e = CHR ''u'' then
            (case map hex_value (take 4 cs) of
               [Some h1, Some h2, Some h3, Some h4] \<Rightarrow>
                 if h1 = 0 \<and> h2 = 0 then Some (char_of (h3 * 16 + h4), drop 4 cs) else None
             | _ \<Rightarrow> None)
          else map_option (\<lambda>x. (x, cs)) (escaped e))"

lemma read_escape_length [termination_simp]: "read_escape s = Some (x, r) \<Longrightarrow> length r < length s"
  by (auto simp: read_escape_def split: list.splits option.splits if_splits)

text \<open>The characters after the opening quote, up to the closing one.\<close>

fun parse_string :: "string \<Rightarrow> (string \<times> string) option" where
  "parse_string [] = None"
| "parse_string (c # cs) =
     (if c = char_of (34 :: nat) then Some ([], cs)
      else if c = char_of (92 :: nat) then
        (case read_escape cs of
           None \<Rightarrow> None
         | Some (x, cs') \<Rightarrow> map_option (\<lambda>(t, r). (x # t, r)) (parse_string cs'))
      else if (of_char c :: nat) < 32 then None
      else map_option (\<lambda>(t, r). (c # t, r)) (parse_string cs))"

definition digits_nat :: "string \<Rightarrow> nat" where
  "digits_nat ds = (case parse_digits False 0 ds of None \<Rightarrow> 0 | Some n \<Rightarrow> n)"

definition span_digits :: "string \<Rightarrow> string \<times> string" where
  "span_digits s = (takeWhile is_digit s, dropWhile is_digit s)"

text \<open>The regular expression of the decoder: integer part, optional fraction, optional exponent.\<close>

definition number_fraction :: "string \<Rightarrow> string option \<times> string" where
  "number_fraction s =
     (case s of
        c # cs \<Rightarrow> if c = CHR ''.'' \<and> fst (span_digits cs) \<noteq> [] then (Some (fst (span_digits cs)), snd (span_digits cs))
                  else (None, s)
      | [] \<Rightarrow> (None, s))"

definition number_exponent :: "string \<Rightarrow> int option \<times> string" where
  "number_exponent s =
     (case s of
        c # cs \<Rightarrow>
          if c = CHR ''e'' \<or> c = CHR ''E'' then
            (let (sgn, ds) = (case cs of
                 d # cs' \<Rightarrow> if d = CHR ''-'' then (-1, cs') else if d = CHR ''+'' then (1, cs') else (1, cs)
               | [] \<Rightarrow> (1, cs))
             in if fst (span_digits ds) \<noteq> []
                then (Some (sgn * int (digits_nat (fst (span_digits ds)))), snd (span_digits ds))
                else (None, s))
          else (None, s)
      | [] \<Rightarrow> (None, s))"

definition ten_power :: "int \<Rightarrow> rat" where
  "ten_power e = (if 0 \<le> e then 10 ^ nat e else 1 / 10 ^ nat (- e))"

definition parse_number :: "string \<Rightarrow> (pv \<times> string) option" where
  "parse_number s =
     (let (neg, s1) = (case s of c # cs \<Rightarrow> if c = CHR ''-'' then (True, cs) else (False, s) | [] \<Rightarrow> (False, s));
          (ds, s2) = (case s1 of c # cs \<Rightarrow> if c = CHR ''0'' then ([c], cs) else span_digits s1 | [] \<Rightarrow> ([], s1));
          (fr, s3) = number_fraction s2;
          (ex, s4) = number_exponent s3;
          n = int (digits_nat ds)
      in if ds = [] then None
         else if fr = None \<and> ex = None then Some (VInt (if neg then - n else n), s4)
         else (let q = (of_int n + (case fr of None \<Rightarrow> 0 | Some f \<Rightarrow> of_nat (digits_nat f) / 10 ^ length f))
                       * ten_power (case ex of None \<Rightarrow> 0 | Some e \<Rightarrow> e)
               in Some (VFloat (if neg then - q else q), s4)))"

definition strip_prefix :: "string \<Rightarrow> string \<Rightarrow> string option" where
  "strip_prefix p s = (if prefix p s then Some (drop (length p) s) else None)"

definition parse_constant :: "string \<Rightarrow> (pv \<times> string) option" where
  "parse_constant s =
     (case strip_prefix ''null'' s of
        Some r \<Rightarrow> Some (VNone, r)
      | None \<Rightarrow> (case strip_prefix ''true'' s of
          Some r \<Rightarrow> Some (VBool True, r)
        | None \<Rightarrow> (case strip_prefix ''false'' s of
            Some r \<Rightarrow> Some (VBool False, r)
          | None \<Rightarrow> parse_number s)))"

text \<open>The rest after the next character that is no white space, if it is the expected one.\<close>

definition expect :: "char \<Rightarrow> string \<Rightarrow> string option" where
  "expect c s = (case skip_ws s of [] \<Rightarrow> None | d # r \<Rightarrow> if d = c then Some r else None)"

fun parse_value :: "nat \<Rightarrow> string \<Rightarrow> (pv \<times> string) option"
  and parse_items :: "nat \<Rightarrow> string \<Rightarrow> (pv list \<times> string) option"
  and parse_members :: "nat \<Rightarrow> string \<Rightarrow> (pdict \<times> string) option" where
  "parse_value 0 s = None"
| "parse_value (Suc n) s =
     (case skip_ws s of
        [] \<Rightarrow> None
      | c # cs \<Rightarrow>
          if c = char_of (34 :: nat) then map_option (\<lambda>(t, r). (VStr t, r)) (parse_string cs)
          else if c = CHR ''{'' then
            (case expect CHR ''}'' cs of
               Some r \<Rightarrow> Some (VDict [], r)
             | None \<Rightarrow> map_option (\<lambda>(d, r). (VDict (dupdate [] d), r)) (parse_members n cs))
          else if c = CHR ''['' then
            (case expect CHR '']'' cs of
               Some r \<Rightarrow> Some (VList [], r)
             | None \<Rightarrow> map_option (\<lambda>(vs, r). (VList vs, r)) (parse_items n cs))
          else parse_constant (c # cs))"
| "parse_items 0 s = None"
| "parse_items (Suc n) s =
     (case parse_value n s of
        None \<Rightarrow> None
      | Some (v, r) \<Rightarrow>
          (case expect CHR '','' r of
             Some r' \<Rightarrow> map_option (\<lambda>(vs, r''). (v # vs, r'')) (parse_items n r')
           | None \<Rightarrow> map_option (\<lambda>r'. ([v], r')) (expect CHR '']'' r)))"
| "parse_members 0 s = None"
| "parse_members (Suc n) s =
     (case expect (char_of (34 :: nat)) s of
        None \<Rightarrow> None
      | Some cs \<Rightarrow>
          (case parse_string cs of
             None \<Rightarrow> None
           | Some (k, r) \<Rightarrow>
               (case expect CHR '':'' r of
                  None \<Rightarrow> None
                | Some r1 \<Rightarrow>
                    (case parse_value n r1 of
                       None \<Rightarrow> None
                     | Some (v, r2) \<Rightarrow>
                         (case expect CHR '','' r2 of
                            Some r3 \<Rightarrow> map_option (\<lambda>(d, r''). ((k, v) # d, r'')) (parse_members n r3)
                          | None \<Rightarrow> map_option (\<lambda>r3. ([(k, v)], r3)) (expect CHR ''}'' r2))))))"

definition json_fuel :: "string \<Rightarrow> nat" where
  "json_fuel s = 2 * length s + 2"

definition json_loads :: "string \<Rightarrow> pv res" where
  "json_loads s =
     (case parse_value (json_fuel s) s of
        Some (v, r) \<Rightarrow> if skip_ws r = [] then Inr v else Inl (ValueError ''Extra data'')
      | None \<Rightarrow> Inl (ValueError ''Expecting value''))"



section \<open>Enough fuel\<close>

lemma skip_ws_length: "length (skip_ws s) \<le> length s"
  by (simp add: skip_ws_def length_dropWhile_le)

lemma skip_ws_Cons: "skip_ws s = c # cs \<Longrightarrow> length cs < length s"
  using skip_ws_length [of s] by simp

lemma expect_length: "expect c s = Some r \<Longrightarrow> length r < length s"
  by (auto simp: expect_def split: list.splits if_splits dest: skip_ws_Cons)

lemma parse_string_length: "parse_string s = Some (t, r) \<Longrightarrow> length t + length r < length s"
proof (induction s arbitrary: t r rule: parse_string.induct)
  case (2 c cs)
  then show ?case
    by (fastforce split: if_splits option.splits prod.splits dest: read_escape_length)
qed simp

lemma span_length: "fst (span_digits s) \<noteq> [] \<Longrightarrow> length (snd (span_digits s)) < length s"
  "length (snd (span_digits s)) \<le> length s"
  by (cases s) (auto simp: span_digits_def length_dropWhile_le less_Suc_eq_le split: if_splits)

lemma number_fraction_length: "length (snd (number_fraction s)) \<le> length s"
  using span_length(2) by (auto simp: number_fraction_def le_SucI split: list.splits)

lemma number_exponent_length: "length (snd (number_exponent s)) \<le> length s"
proof (cases s)
  case (Cons c cs)
  obtain sgn ds where ds: "(case cs of d # cs' \<Rightarrow> if d = CHR ''-'' then (-1 :: int, cs') else if d = CHR ''+'' then (1, cs')
      else (1, cs) | [] \<Rightarrow> (1, cs)) = (sgn, ds)"
    by fastforce
  have "length ds \<le> length cs" using ds by (auto split: list.splits if_splits)
  then have "length (snd (span_digits ds)) \<le> length cs" using span_length(2) [of ds] by linarith
  then show ?thesis unfolding number_exponent_def Cons by (simp add: ds)
qed (simp add: number_exponent_def)

lemma parse_number_length: "parse_number s = Some (v, r) \<Longrightarrow> length r < length s \<and> (\<forall>t. v \<noteq> VStr t)"
proof -
  assume run: "parse_number s = Some (v, r)"
  obtain neg s1 where s1: "(case s of c # cs \<Rightarrow> if c = CHR ''-'' then (True, cs) else (False, s) | [] \<Rightarrow> (False, s)) = (neg, s1)"
    by fastforce
  obtain ds s2 where s2: "(case s1 of c # cs \<Rightarrow> if c = CHR ''0'' then ([c], cs) else span_digits s1 | [] \<Rightarrow> ([], s1)) = (ds, s2)"
    by fastforce
  obtain fr s3 where s3: "number_fraction s2 = (fr, s3)" by fastforce
  obtain ex s4 where s4: "number_exponent s3 = (ex, s4)" by fastforce
  have "length s1 \<le> length s" using s1 by (auto split: list.splits if_splits)
  moreover have "ds \<noteq> [] \<Longrightarrow> length s2 < length s1"
    using s2 span_length(1) [of s1] by (auto split: list.splits if_splits)
  moreover have "length s3 \<le> length s2" "length s4 \<le> length s3"
    using number_fraction_length [of s2] number_exponent_length [of s3] s3 s4 by simp_all
  moreover have "ds \<noteq> [] \<and> r = s4 \<and> (\<forall>t. v \<noteq> VStr t)"
    using run unfolding parse_number_def s1 Let_def prod.case s2 s3 s4 by (auto split: if_splits)
  ultimately show ?thesis by auto
qed

lemma parse_constant_length: "parse_constant s = Some (v, r) \<Longrightarrow> length r < length s \<and> (\<forall>t. v \<noteq> VStr t)"
  using parse_number_length [of s v r]
  by (auto simp: parse_constant_def strip_prefix_def split: if_splits option.splits dest!: prefix_length_le)

lemma parse_length:
  "parse_value n s = Some (v, r) \<Longrightarrow> length r < length s \<and> (\<forall>t. v = VStr t \<longrightarrow> length t < length s)"
  "parse_items n s = Some (vs, r') \<Longrightarrow> length r' < length s"
  "parse_members n s = Some (d, r'') \<Longrightarrow> length r'' < length s"
proof (induction n s and n s and n s arbitrary: v r and vs r' and d r'' rule: parse_value_parse_items_parse_members.induct)
  case (2 n s)
  show ?case
  proof (cases "skip_ws s")
    case (Cons c cs)
    then have le: "length cs < length s" "length (c # cs) \<le> length s" using skip_ws_Cons skip_ws_length [of s] by simp_all
    have items: "length r' < length cs" if "parse_items n cs = Some (vs, r')"
      "c \<noteq> char_of (34 :: nat)" "c = CHR ''[''" "expect CHR '']'' cs = None" for vs r'
      using 2(2) [OF Cons _ _ _ _ that(1)] that by auto
    have members: "length r' < length cs" if "parse_members n cs = Some (d, r')"
      "c \<noteq> char_of (34 :: nat)" "c = CHR ''{''" "expect CHR ''}'' cs = None" for d r'
      using 2(1) [OF Cons _ _ _ that(1)] that by auto
    show ?thesis
      using 2(3) Cons le items members
      by (auto split: if_splits option.splits dest!: parse_string_length parse_constant_length expect_length)
  qed (use 2 in simp)
next
  case (4 n s)
  then show ?case
    by (fastforce split: option.splits prod.splits dest!: expect_length)
next
  case (6 n s)
  then show ?case
    by (fastforce split: option.splits prod.splits dest!: expect_length parse_string_length)
qed simp_all

text \<open>More fuel than \<open>json_fuel\<close> changes nothing.\<close>

lemma parse_fuel:
  "2 * length s + 2 \<le> n \<Longrightarrow> 2 * length s + 2 \<le> m \<Longrightarrow> parse_value n s = parse_value m s"
  "2 * length s + 3 \<le> n \<Longrightarrow> 2 * length s + 3 \<le> m \<Longrightarrow> parse_items n s = parse_items m s"
  "2 * length s + 3 \<le> n \<Longrightarrow> 2 * length s + 3 \<le> m \<Longrightarrow> parse_members n s = parse_members m s"
proof (induction n s and n s and n s arbitrary: m and m and m rule: parse_value_parse_items_parse_members.induct)
  case (2 n s)
  obtain m' where m: "m = Suc m'" using 2(4) by (cases m) simp_all
  show ?case
  proof (cases "skip_ws s")
    case (Cons c cs)
    then have le: "length cs < length s" by (rule skip_ws_Cons)
    then have fuel: "2 * length cs + 3 \<le> n" "2 * length cs + 3 \<le> m'" using 2(3,4) m by linarith+
    have "parse_items n cs = parse_items m' cs"
      if "c \<noteq> char_of (34 :: nat)" "c = CHR ''[''" "expect CHR '']'' cs = None"
      using 2(2) [OF Cons _ _ _ _ fuel] that by auto
    moreover have "parse_members n cs = parse_members m' cs"
      if "c \<noteq> char_of (34 :: nat)" "c = CHR ''{''" "expect CHR ''}'' cs = None"
      using 2(1) [OF Cons _ _ _ fuel] that by auto
    ultimately show ?thesis unfolding m parse_value.simps Cons by (simp split: option.split)
  qed (simp add: m)
next
  case (4 n s)
  obtain m' where m: "m = Suc m'" using 4(4) by (cases m) simp_all
  have v: "parse_value n s = parse_value m' s" 
    by (rule 4(1)) (use 4(3,4) m in linarith)+
  show ?case
  proof (cases "parse_value n s")
    case (Some vr)
    obtain v r where vr: "vr = (v, r)" by (cases vr)
    have "parse_items n r' = parse_items m' r'" if "expect CHR '','' r = Some r'" for r'
      using 4(2) [OF Some vr [symmetric] that, of m'] 4(3,4) m parse_length(1) [of n s v r] Some vr expect_length [OF that] by simp
    then show ?thesis using Some vr v m by (simp split: option.splits)
  qed (simp add: m v [symmetric])
next
  case (6 n s)
  obtain m' where m: "m = Suc m'" using 6(4) by (cases m) simp_all
  show ?case
  proof (cases "expect (char_of (34 :: nat)) s")
    case e1: (Some cs)
    show ?thesis
    proof (cases "parse_string cs")
      case e2: (Some kr)
      obtain k r where kr: "kr = (k, r)" by (cases kr)
      show ?thesis
      proof (cases "expect CHR '':'' r")
        case e3: (Some r1)
        have len: "length r1 < length s"
          using expect_length [OF e1] parse_string_length [of cs k r] e2 kr expect_length [OF e3] by simp
        have v: "parse_value n r1 = parse_value m' r1"
          using 6(1) [OF e1 e2 kr [symmetric] e3, of m'] 6(3,4) m len by simp
        show ?thesis
        proof (cases "parse_value n r1")
          case e4: (Some vr)
          obtain v r2 where vr: "vr = (v, r2)" by (cases vr)
          have "parse_members n r3 = parse_members m' r3" if "expect CHR '','' r2 = Some r3" for r3
            using 6(2) [OF e1 e2 kr [symmetric] e3 e4 vr [symmetric] that, of m'] 6(3,4) m len parse_length(1) [of n r1 v r2] e4 vr
              expect_length [OF that] by simp
          then show ?thesis using e1 e2 kr e3 e4 vr v m by (simp split: option.splits)
        qed (use e1 e2 kr e3 v m in simp)
      qed (use e1 e2 kr m in simp)
    qed (use e1 m in simp)
  qed (simp add: m)
qed simp_all


section \<open>Round trip\<close>

text \<open>Values that the text gives back: no float, no time, no key twice.\<close>

fun json_exact :: "pv \<Rightarrow> bool" where
  "json_exact (VFloat _) = False"
| "json_exact (VTime _) = False"
| "json_exact (VList xs) = list_all json_exact xs"
| "json_exact (VDict d) = (distinct (map fst d) \<and> list_all (\<lambda>p. json_exact (snd p)) d)"
| "json_exact _ = True"

lemma hex_value_char: "n < 16 \<Longrightarrow> hex_value (hex_char n) = Some n"
  by (simp add: hex_value_def hex_char_def)

lemma parse_json_char:
  "parse_string (json_char c @ s) = map_option (\<lambda>(t, r). (c # t, r)) (parse_string s)"
proof -
  define n where "n = (of_char c :: nat)"
  have c: "c = char_of n" and lt: "n < 256" by (simp_all add: n_def)
  have special: "parse_string (json_char (char_of k) @ s) = map_option (\<lambda>(t, r). (char_of k # t, r)) (parse_string s)"
    if "k \<in> {34, 92, 10, 13, 9, 12, 8}" for k :: nat
  proof -
    have "char_of (34 :: nat) \<noteq> CHR ''u''" "char_of (92 :: nat) \<noteq> CHR ''u''" by code_simp+
    with that show ?thesis by (auto simp: json_char_def read_escape_def escaped_def Let_def)
  qed
  consider "n \<in> {34, 92, 10, 13, 9, 12, 8}"
    | "n < 32 \<or> 126 < n" "n \<notin> {34, 92, 10, 13, 9, 12, 8}" | "32 \<le> n" "n \<le> 126" "n \<noteq> 34" "n \<noteq> 92"
    by fastforce
  then show ?thesis
  proof cases
    case 1
    from special [OF this] show ?thesis by (simp only: c)
  next
    case 2
    have h: "map hex_value [CHR ''0'', CHR ''0'', hex_char (n div 16), hex_char (n mod 16)]
        = [Some 0, Some 0, Some (n div 16), Some (n mod 16)]"
      using hex_value_char [of "n div 16"] hex_value_char [of "n mod 16"] lt by (simp add: hex_value_def)
    then have "read_escape (CHR ''u'' # CHR ''0'' # CHR ''0'' # hex_char (n div 16) # hex_char (n mod 16) # s) = Some (c, s)"
      by (simp add: read_escape_def n_def)
    moreover have "json_char c = [char_of (92 :: nat), CHR ''u'', CHR ''0'', CHR ''0'', hex_char (n div 16), hex_char (n mod 16)]"
      using 2 by (simp add: json_char_def n_def [symmetric] Let_def)
    ultimately show ?thesis by simp
  next
    case 3
    then have "c \<noteq> char_of (34 :: nat)" "c \<noteq> char_of (92 :: nat)" by (auto simp: n_def)
    moreover have "json_char c = [c]" using 3 by (simp add: json_char_def n_def [symmetric] Let_def)
    ultimately show ?thesis using 3(1) by (simp add: n_def)
  qed
qed

lemma parse_json_string:
  "parse_string (concat (map json_char t) @ char_of (34 :: nat) # s) = Some (t, s)"
  by (induction t) (simp_all add: parse_json_char)

text \<open>What may follow a number in a list, an object, or at the end.\<close>

definition ends_number :: "string \<Rightarrow> bool" where
  "ends_number s \<longleftrightarrow> (case s of [] \<Rightarrow> True | c # _ \<Rightarrow> c = CHR '','' \<or> c = CHR '']'' \<or> c = CHR ''}'')"

lemma nat_str_head: "\<exists>c cs. nat_str n = c # cs \<and> is_digit c \<and> (c = CHR ''0'' \<longrightarrow> cs = [])"
proof (induction n rule: nat_str.induct)
  case (1 n)
  show ?case
  proof (cases "n < 10")
    case True
    then show ?thesis by (subst nat_str.simps) simp
  next
    case False
    with 1 obtain c cs where c: "nat_str (n div 10) = c # cs" "is_digit c" "c = CHR ''0'' \<longrightarrow> cs = []" by auto
    have "c \<noteq> CHR ''0''"
    proof
      assume "c = CHR ''0''"
      moreover have "nat_str 0 = [CHR ''0'']" by code_simp
      ultimately have "nat_str (n div 10) = nat_str 0" using c by simp
      then show False using False by simp
    qed
    then show ?thesis using False c by (subst nat_str.simps) simp
  qed
qed

lemma parse_number_nat:
  assumes "ends_number s"
  shows "parse_number (nat_str n @ s) = Some (VInt (int n), s)"
    and "parse_number (CHR ''-'' # nat_str n @ s) = Some (VInt (- int n), s)"
proof -
  obtain c cs where c: "nat_str n = c # cs" "is_digit c" "c = CHR ''0'' \<longrightarrow> cs = []"
    using nat_str_head by blast
  have digits: "\<forall>x \<in> set (c # cs). is_digit x" using nat_str_digits [of n] c(1) by simp
  have stop: "takeWhile is_digit s = []" "dropWhile is_digit s = s" "number_fraction s = (None, s)"
    "number_exponent s = (None, s)"
    using assms by (cases s; auto simp: ends_number_def is_digit_def number_fraction_def number_exponent_def)+
  have "span_digits (c # cs @ s) = (c # cs, s)"
    using digits stop(1,2) by (simp add: span_digits_def)
  then have ds: "(if c = CHR ''0'' then ([c], cs @ s) else span_digits (c # cs @ s)) = (nat_str n, s)"
    using c by auto
  have dn: "digits_nat (nat_str n) = n" by (simp add: digits_nat_def)
  have "c \<noteq> CHR ''-''" using c(2) by (auto simp: is_digit_def)
  then show "parse_number (nat_str n @ s) = Some (VInt (int n), s)"
    using c(1) ds dn by (simp add: parse_number_def stop)
  show "parse_number (CHR ''-'' # nat_str n @ s) = Some (VInt (- int n), s)"
    using c(1) ds dn by (simp add: parse_number_def stop)
qed

lemma no_constant: "is_digit c \<or> c = CHR ''-'' \<Longrightarrow> parse_constant (c # s) = parse_number (c # s)"
  by (auto simp: parse_constant_def strip_prefix_def is_digit_def)

lemma parse_int_text:
  assumes "ends_number s"
  shows "\<exists>c cs. int_str n @ s = c # cs \<and> parse_constant (c # cs) = Some (VInt n, s)
    \<and> c \<noteq> char_of (34 :: nat) \<and> c \<noteq> CHR ''{'' \<and> c \<noteq> CHR ''['' \<and> \<not> json_space c"
proof (cases "n < 0")
  case True
  have "char_of (34 :: nat) \<noteq> CHR ''-''" by code_simp
  with True parse_number_nat(2) [OF assms, of "nat (- n)"] no_constant [of "CHR ''-''"] show ?thesis
    by (auto simp: int_str_def json_space_def)
next
  case False
  obtain c cs where c: "nat_str (nat n) = c # cs" "is_digit c" using nat_str_head by blast
  then have "c \<noteq> char_of (34 :: nat) \<and> c \<noteq> CHR ''{'' \<and> c \<noteq> CHR ''['' \<and> \<not> json_space c"
    by (auto simp: is_digit_def json_space_def)
  with False c parse_number_nat(1) [OF assms, of "nat n"] no_constant [of c "cs @ s"] show ?thesis
    by (auto simp: int_str_def)
qed

lemma parse_space:
  "parse_value n (CHR '' '' # t) = parse_value n t"
  "parse_items n (CHR '' '' # t) = parse_items n t"
  "parse_members n (CHR '' '' # t) = parse_members n t"
proof -
  have ws: "skip_ws (CHR '' '' # t) = skip_ws t" by (simp add: skip_ws_def json_space_def)
  show v: "parse_value n (CHR '' '' # t) = parse_value n t" for n by (cases n) (simp_all add: ws)
  show "parse_items n (CHR '' '' # t) = parse_items n t" by (cases n) (simp_all add: v)
  show "parse_members n (CHR '' '' # t) = parse_members n t" by (cases n) (simp_all add: expect_def ws)
qed

lemma expect_here: "\<not> json_space d \<Longrightarrow> expect c (d # s) = (if d = c then Some s else None)"
  by (simp add: expect_def skip_ws_def)

lemma punctuation: "\<not> json_space CHR '',''" "\<not> json_space CHR '']''" "\<not> json_space CHR ''}''" "\<not> json_space CHR '':''"
  "\<not> json_space CHR ''{''" "\<not> json_space CHR ''[''" "\<not> json_space (char_of (34 :: nat))"
  by (simp_all add: json_space_def)

lemma quote_other: "CHR ''['' \<noteq> char_of (34 :: nat)" "CHR ''{'' \<noteq> char_of (34 :: nat)"
  "CHR ''n'' \<noteq> char_of (34 :: nat)" "CHR ''t'' \<noteq> char_of (34 :: nat)" "CHR ''f'' \<noteq> char_of (34 :: nat)"
  "char_of (34 :: nat) \<noteq> CHR ''}''" "char_of (34 :: nat) \<noteq> CHR '']''"
  by code_simp+

text \<open>A parser of values reads its text back whatever follows.\<close>

definition reads_back :: "pv \<Rightarrow> bool" where
  "reads_back v \<longleftrightarrow> (\<forall>n s. ends_number s \<longrightarrow> 2 * length (json_text v @ s) + 2 \<le> n \<longrightarrow>
     parse_value n (json_text v @ s) = Some (v, s))"

lemma parse_items_text:
  assumes "\<forall>x \<in> set (x0 # xs). reads_back x"
    and "2 * length (py_join '', '' (map json_text (x0 # xs)) @ CHR '']'' # s) + 3 \<le> n"
  shows "parse_items n (py_join '', '' (map json_text (x0 # xs)) @ CHR '']'' # s) = Some (x0 # xs, s)"
  using assms
proof (induction xs arbitrary: x0 n)
  case Nil
  then obtain m where n: "n = Suc m" by (cases n) auto
  have "parse_value m (json_text x0 @ CHR '']'' # s) = Some (x0, CHR '']'' # s)"
    using Nil n by (simp add: reads_back_def ends_number_def)
  then show ?case by (simp add: n expect_here punctuation)
next
  case (Cons x1 xs)
  then obtain m where n: "n = Suc m" by (cases n) auto
  let ?rest = "py_join '', '' (map json_text (x1 # xs)) @ CHR '']'' # s"
  have "parse_value m (json_text x0 @ CHR '','' # CHR '' '' # ?rest) = Some (x0, CHR '','' # CHR '' '' # ?rest)"
    using Cons.prems n by (simp add: reads_back_def ends_number_def)
  moreover have "parse_items m ?rest = Some (x1 # xs, s)"
    using Cons.prems n by (intro Cons.IH) simp_all
  ultimately show ?case by (simp add: n expect_here punctuation parse_space)
qed

abbreviation member_text :: "string \<times> pv \<Rightarrow> string" where
  "member_text \<equiv> \<lambda>p. json_string (fst p) @ '': '' @ json_text (snd p)"

lemma parse_member_text:
  assumes "reads_back v" and "ends_number s" and "2 * length (member_text (k, v) @ s) + 3 \<le> Suc m"
  shows "parse_members (Suc m) (member_text (k, v) @ s)
     = (case expect CHR '','' s of
          Some r3 \<Rightarrow> map_option (\<lambda>(d, r''). ((k, v) # d, r'')) (parse_members m r3)
        | None \<Rightarrow> map_option (\<lambda>r3. ([(k, v)], r3)) (expect CHR ''}'' s))"
proof -
  have "parse_value m (json_text v @ s) = Some (v, s)"
    using assms by (simp add: reads_back_def)
  then show ?thesis
    by (simp add: json_string_def parse_json_string expect_here punctuation parse_space)
qed

lemma parse_members_text:
  assumes "\<forall>p \<in> set (p0 # ps). reads_back (snd p)"
    and "2 * length (py_join '', '' (map member_text (p0 # ps)) @ CHR ''}'' # s) + 3 \<le> n"
  shows "parse_members n (py_join '', '' (map member_text (p0 # ps)) @ CHR ''}'' # s) = Some (p0 # ps, s)"
  using assms
proof (induction ps arbitrary: p0 n)
  case Nil
  then obtain m where n: "n = Suc m" by (cases n) auto
  obtain k v where p: "p0 = (k, v)" by (cases p0)
  have "parse_members (Suc m) (member_text (k, v) @ CHR ''}'' # s) = Some ([(k, v)], s)"
    by (subst parse_member_text) (use Nil n p in \<open>simp_all add: ends_number_def expect_here punctuation\<close>)
  then show ?case by (simp add: n p)
next
  case (Cons p1 ps)
  then obtain m where n: "n = Suc m" by (cases n) auto
  obtain k v where p: "p0 = (k, v)" by (cases p0)
  let ?rest = "py_join '', '' (map member_text (p1 # ps)) @ CHR ''}'' # s"
  have "parse_members m ?rest = Some (p1 # ps, s)"
    using Cons.prems n by (intro Cons.IH) simp_all
  moreover have "parse_members (Suc m) (member_text (k, v) @ CHR '','' # CHR '' '' # ?rest)
      = map_option (\<lambda>(d, r''). ((k, v) # d, r'')) (parse_members m (CHR '' '' # ?rest))"
    by (subst parse_member_text) (use Cons.prems n p in \<open>simp_all add: ends_number_def expect_here punctuation\<close>)
  ultimately show ?case by (simp add: n p parse_space)
qed

lemma dset_new: "k \<notin> fst ` set e \<Longrightarrow> dset k v e = e @ [(k, v)]"
  by (induction e) auto

lemma dupdate_Nil: "distinct (map fst d) \<Longrightarrow> dupdate [] d = d"
proof -
  have "distinct (map fst (e @ d)) \<Longrightarrow> dupdate e d = e @ d" for e
  proof (induction d arbitrary: e)
    case (Cons p d)
    obtain k v where p: "p = (k, v)" by (cases p)
    have "dset k v e = e @ [(k, v)]" using Cons.prems p by (auto intro: dset_new)
    with Cons.IH [of "e @ [(k, v)]"] Cons.prems p show ?case by (simp add: dupdate_def)
  qed (simp add: dupdate_def)
  then show "distinct (map fst d) \<Longrightarrow> dupdate [] d = d" by fastforce
qed

lemma text_start:
  "json_exact v \<Longrightarrow> \<exists>c cs. json_text v @ s = c # cs \<and> \<not> json_space c \<and> c \<noteq> CHR '']'' \<and> c \<noteq> CHR ''}''"
proof (cases v)
  case (VInt n)
  then show ?thesis
    using nat_str_head [of "nat n"] VInt by (auto simp: int_str_def json_space_def is_digit_def)
qed (auto simp: json_space_def json_string_def quote_other)

lemma reads_back_exact: "json_exact v \<Longrightarrow> reads_back v"
proof (induction v rule: json_text.induct)
  case (3 i)
  show ?case unfolding reads_back_def
  proof (intro allI impI)
    fix n s assume s: "ends_number s" and fuel: "2 * length (json_text (VInt i) @ s) + 2 \<le> n"
    from parse_int_text [OF s, of i] obtain c cs where "int_str i @ s = c # cs" "parse_constant (c # cs) = Some (VInt i, s)"
      "c \<noteq> char_of (34 :: nat)" "c \<noteq> CHR ''{''" "c \<noteq> CHR ''[''" "\<not> json_space c" by blast
    with fuel show "parse_value n (json_text (VInt i) @ s) = Some (VInt i, s)"
      by (cases n) (simp_all add: skip_ws_def)
  qed
next
  case (5 t)
  show ?case unfolding reads_back_def
  proof (intro allI impI)
    fix n s assume "2 * length (json_text (VStr t) @ s) + 2 \<le> n"
    then show "parse_value n (json_text (VStr t) @ s) = Some (VStr t, s)"
      by (cases n) (simp_all add: json_string_def parse_json_string skip_ws_def punctuation)
  qed
next
  case (7 xs)
  have xs: "\<forall>x \<in> set xs. reads_back x" using 7 by (simp add: list_all_iff)
  show ?case unfolding reads_back_def
  proof (intro allI impI)
    fix n s assume fuel: "2 * length (json_text (VList xs) @ s) + 2 \<le> n"
    then obtain m where n: "n = Suc m" by (cases n) auto
    show "parse_value n (json_text (VList xs) @ s) = Some (VList xs, s)"
    proof (cases xs)
      case Nil
      then show ?thesis by (simp add: n skip_ws_def punctuation expect_here quote_other)
    next
      case (Cons x0 ys)
      have items: "parse_items m (py_join '', '' (map json_text (x0 # ys)) @ CHR '']'' # s) = Some (x0 # ys, s)"
        using xs fuel Cons n by (intro parse_items_text) simp_all
      have "json_exact x0" using 7(2) Cons by simp
      then obtain c cs where "py_join '', '' (map json_text (x0 # ys)) @ CHR '']'' # s = c # cs" "\<not> json_space c" "c \<noteq> CHR '']''"
        using text_start [of x0 "(if ys = [] then [] else '', '' @ py_join '', '' (map json_text ys)) @ CHR '']'' # s"]
        by (cases ys) auto
      then have "expect CHR '']'' (py_join '', '' (map json_text (x0 # ys)) @ CHR '']'' # s) = None"
        by (simp add: expect_here)
      with items show ?thesis by (simp add: n Cons skip_ws_def punctuation quote_other)
    qed
  qed
next
  case (8 d)
  have d: "\<forall>p \<in> set d. reads_back (snd p)" "distinct (map fst d)" using 8 by (auto simp: list_all_iff)
  show ?case unfolding reads_back_def
  proof (intro allI impI)
    fix n s assume fuel: "2 * length (json_text (VDict d) @ s) + 2 \<le> n"
    then obtain m where n: "n = Suc m" by (cases n) auto
    show "parse_value n (json_text (VDict d) @ s) = Some (VDict d, s)"
    proof (cases d)
      case Nil
      then show ?thesis by (simp add: n skip_ws_def punctuation expect_here quote_other)
    next
      case (Cons p0 ps)
      have members: "parse_members m (py_join '', '' (map member_text (p0 # ps)) @ CHR ''}'' # s) = Some (p0 # ps, s)"
        using d(1) fuel Cons n by (intro parse_members_text) simp_all
      have "\<exists>cs. py_join '', '' (map member_text (p0 # ps)) @ CHR ''}'' # s = char_of (34 :: nat) # cs"
        by (cases ps) (simp_all add: json_string_def)
      then have "expect CHR ''}'' (py_join '', '' (map member_text (p0 # ps)) @ CHR ''}'' # s) = None"
        by (auto simp: expect_here punctuation quote_other)
      with members dupdate_Nil [OF d(2)] show ?thesis by (simp add: n Cons skip_ws_def punctuation quote_other)
    qed
  qed
next
  case 1
  show ?case unfolding reads_back_def
  proof (intro allI impI)
    fix n s assume "2 * length (json_text VNone @ s) + 2 \<le> n"
    then show "parse_value n (json_text VNone @ s) = Some (VNone, s)"
      by (cases n) (simp_all add: skip_ws_def json_space_def parse_constant_def strip_prefix_def quote_other)
  qed
next
  case (2 b)
  show ?case unfolding reads_back_def
  proof (intro allI impI)
    fix n s assume "2 * length (json_text (VBool b) @ s) + 2 \<le> n"
    then show "parse_value n (json_text (VBool b) @ s) = Some (VBool b, s)"
      by (cases n; cases b) (simp_all add: skip_ws_def json_space_def parse_constant_def strip_prefix_def quote_other)
  qed
qed simp_all

lemma exact_no_time: "json_exact v \<Longrightarrow> \<not> has_time v"
  by (induction v rule: json_text.induct) (auto simp: list_all_iff list_ex_iff)

text \<open>What \<open>dumps\<close> writes of such a value, \<open>loads\<close> reads back.\<close>

lemma json_round_trip: "json_exact v \<Longrightarrow> rbind (json_dumps v) json_loads = Inr v"
proof -
  assume v: "json_exact v"
  have "parse_value (json_fuel (json_text v)) (json_text v @ []) = Some (v, [])"
    using reads_back_exact [OF v, unfolded reads_back_def, rule_format, of "[]" "json_fuel (json_text v)"]
    by (simp add: ends_number_def json_fuel_def del: parse_value.simps)
  then show ?thesis using exact_no_time [OF v] by (simp add: json_dumps_def json_loads_def skip_ws_def del: parse_value.simps)
qed

lemma json_loads_shorter: "json_loads s = Inr (VStr t) \<Longrightarrow> length t < length s"
  using parse_length(1) by (fastforce simp: json_loads_def split: option.splits if_splits)

end
