(* ===== verification/JobRows.thy ===== *)
theory JobRows
  imports Json JsonValues
begin

text \<open>
  The functions of \<open>persistence/jobs_store.py\<close> above the class \<open>JobsStore\<close>: the conversion of the
  fields of a slurmrestd job, the usage statistics of its steps, the rows kept of a job, the exit
  codes of the history. A row is a dictionary, a \<open>datetime\<close> the value \<open>VTime\<close>.
\<close>

section \<open>Numbers\<close>

text \<open>\<open>float(text)\<close>, without the digit groups, infinities and NaN.\<close>

definition py_parse_float :: "string \<Rightarrow> rat option" where
  "py_parse_float s =
     (let t = py_strip s;
          (neg, u) = (case t of c # cs \<Rightarrow> if c = CHR ''-'' then (True, cs) else if c = CHR ''+'' then (False, cs)
                                     else (False, t) | [] \<Rightarrow> (False, t));
          (ip, r1) = span_digits u;
          (fp, r2) = (case r1 of c # cs \<Rightarrow> if c = CHR ''.'' then span_digits cs else ([], r1) | [] \<Rightarrow> ([], r1));
          (ex, r3) = number_exponent r2;
          q = (of_nat (digits_nat ip) + of_nat (digits_nat fp) / 10 ^ length fp)
              * ten_power (case ex of None \<Rightarrow> 0 | Some e \<Rightarrow> e)
      in if (ip = [] \<and> fp = []) \<or> r3 \<noteq> [] then None else Some (if neg then - q else q))"

fun py_float :: "pv \<Rightarrow> rat res" where
  "py_float (VBool b) = Inr (if b then 1 else 0)"
| "py_float (VInt n) = Inr (of_int n)"
| "py_float (VFloat q) = Inr q"
| "py_float (VStr s) = (case py_parse_float s of None \<Rightarrow> Inl (ValueError ''float'') | Some q \<Rightarrow> Inr q)"
| "py_float _ = Inl (TypeError ''float'')"

text \<open>The value of a slurmrestd number \<open>{set, infinite, number}\<close>, or the value itself.\<close>

definition number_value :: "pv \<Rightarrow> pv" where
  "number_value v =
     (case v of
        VDict d \<Rightarrow>
          if \<not> truthy (dget_or ''set'' (VBool True) d) \<or> truthy (dget_or ''infinite'' (VBool False) d)
          then VNone else dget ''number'' d
      | _ \<Rightarrow> v)"

definition int_field :: "pv \<Rightarrow> int option" where
  "int_field v =
     (let w = number_value v in
      if w = VNone then None else (case py_int w of Inl _ \<Rightarrow> None | Inr n \<Rightarrow> Some n))"

definition float_field :: "pv \<Rightarrow> rat option" where
  "float_field v =
     (let w = number_value v in
      if w = VNone then None else (case py_float w of Inl _ \<Rightarrow> None | Inr q \<Rightarrow> Some q))"

definition opt_int :: "int option \<Rightarrow> pv" where
  "opt_int x = (case x of None \<Rightarrow> VNone | Some n \<Rightarrow> VInt n)"

definition opt_float :: "rat option \<Rightarrow> pv" where
  "opt_float x = (case x of None \<Rightarrow> VNone | Some q \<Rightarrow> VFloat q)"

text \<open>The largest second of year 9999, the last that \<open>datetime.fromtimestamp\<close> takes.\<close>

definition MAX_TIMESTAMP :: int where
  "MAX_TIMESTAMP = 253402300799"

definition ts :: "pv \<Rightarrow> pv" where
  "ts v =
     (let w = (case v of
          VDict d \<Rightarrow> if \<not> truthy (dget_or ''set'' (VBool True) d) then VNone else dget ''number'' d
        | _ \<Rightarrow> v)
      in if none_or_empty w then VNone
         else (case py_int w of
             Inl _ \<Rightarrow> VNone
           | Inr n \<Rightarrow> if n \<le> 0 \<or> MAX_TIMESTAMP < n then VNone else VTime (n * 1000000)))"

text \<open>\<open>Decimal(str(value)).quantize(..., ROUND_HALF_UP)\<close> to two digits.\<close>

definition round_half_up :: "rat \<Rightarrow> rat" where
  "round_half_up q =
     (let n = \<lfloor>\<bar>q\<bar> * 100 + 1 / 2\<rfloor> in (if q < 0 then - of_int n else of_int n) / 100)"

definition round_metric :: "rat option \<Rightarrow> rat option" where
  "round_metric x = map_option round_half_up x"


section \<open>Texts\<close>

definition join_texts :: "pv list \<Rightarrow> pv res" where
  "join_texts xs =
     rbind (rmap (\<lambda>x. case x of VStr s \<Rightarrow> Inr s | _ \<Rightarrow> Inl (TypeError ''sequence item'')) xs)
       (\<lambda>ss. Inr (VStr (py_join '','' ss)))"

definition text_or_none :: "pv \<Rightarrow> pv" where
  "text_or_none v = (if truthy v then VStr (py_str v) else VNone)"

definition state_str :: "pv \<Rightarrow> pv res" where
  "state_str v =
     (case v of
        VList xs \<Rightarrow> (let states = filter truthy xs in if states = [] then Inr VNone else join_texts states)
      | _ \<Rightarrow> Inr (if none_or_empty v then VNone else VStr (py_str v)))"

definition tres_str :: "pv \<Rightarrow> pv" where
  "tres_str v =
     (case v of
        VDict d \<Rightarrow> VStr (py_join '','' (map (\<lambda>(k, x). k @ ''='' @ py_str x) d))
      | _ \<Rightarrow> text_or_none v)"

definition gres_str :: "pv \<Rightarrow> pv res" where
  "gres_str v =
     (case v of
        VList xs \<Rightarrow> if xs = [] then Inr VNone else join_texts xs
      | _ \<Rightarrow> Inr (text_or_none v))"

definition exit_str :: "pv \<Rightarrow> pv res" where
  "exit_str v =
     (if is_dict v \<or> is_list v then rbind (json_dumps v) (\<lambda>s. Inr (VStr s)) else Inr (text_or_none v))"

definition state_parts :: "pv \<Rightarrow> string list res" where
  "state_parts v =
     rbind (state_str v) (\<lambda>normalized.
       case normalized of
         VStr s \<Rightarrow> Inr (if s = [] then [] else map (\<lambda>part. py_upper (py_strip part)) (py_split CHR '','' s))
       | _ \<Rightarrow> Inr [])"

definition is_completed_state :: "pv \<Rightarrow> bool res" where
  "is_completed_state v = rbind (state_parts v) (\<lambda>states. Inr (''COMPLETED'' \<in> set states))"

definition is_failed_state :: "pv \<Rightarrow> bool res" where
  "is_failed_state v = rbind (state_parts v) (\<lambda>states. Inr (''FAILED'' \<in> set states))"

definition is_usage_backfill_state :: "pv \<Rightarrow> bool res" where
  "is_usage_backfill_state v =
     rbind (is_completed_state v) (\<lambda>b. if b then Inr True else is_failed_state v)"


section \<open>Exit codes of the history\<close>

definition optional_number_dict :: "int option \<Rightarrow> pv" where
  "optional_number_dict x =
     (case x of
        None \<Rightarrow> VDict [(''set'', VBool False), (''infinite'', VBool False), (''number'', VInt 0)]
      | Some n \<Rightarrow> VDict [(''set'', VBool True), (''infinite'', VBool False), (''number'', VInt n)])"

definition normalize_number :: "pv \<Rightarrow> pv" where
  "normalize_number v =
     (case v of
        VDict d \<Rightarrow> VDict [
          (''set'', dget_or ''set'' (VBool (int_field v \<noteq> None)) d),
          (''infinite'', dget_or ''infinite'' (VBool False) d),
          (''number'', dget_or ''number'' (VInt (case int_field v of None \<Rightarrow> 0 | Some n \<Rightarrow> n)) d)]
      | _ \<Rightarrow> optional_number_dict (int_field v))"

definition success_text :: "int option \<Rightarrow> pv" where
  "success_text return_code = VList [VStr (if return_code = Some 0 then ''SUCCESS'' else ''FAILED'')]"

definition exit_dict :: "pv \<Rightarrow> pv \<Rightarrow> pv \<Rightarrow> pv \<Rightarrow> pv" where
  "exit_dict return_code signal_id signal_name status =
     VDict [(''return_code'', return_code), (''signal'', VDict [(''id'', signal_id), (''name'', signal_name)]),
            (''status'', status)]"

definition normalize_exit_dict :: "pdict \<Rightarrow> pv" where
  "normalize_exit_dict value =
     (let return_code_value = dget ''return_code'' value;
          signal_value = dget ''signal'' value;
          (signal_name, signal_id_value) =
            (case signal_value of
               VDict s \<Rightarrow> (dget_or ''name'' (VStr []) s,
                 if has_key ''id'' s then dget ''id'' s
                 else if has_key ''signal_id'' s then dget ''signal_id'' s else VNone)
             | _ \<Rightarrow> (VStr [], signal_value));
          status =
            (case dget ''status'' value of
               VList xs \<Rightarrow> VList (map (\<lambda>i. VStr (py_str i)) (filter (\<lambda>i. \<not> none_or_empty i) xs))
             | VStr s \<Rightarrow> if s \<noteq> [] then VList [VStr s] else success_text (int_field return_code_value)
             | _ \<Rightarrow> success_text (int_field return_code_value))
      in exit_dict (normalize_number return_code_value) (normalize_number signal_id_value) signal_name status)"

text \<open>\<open>-?\d+\<close>, and the full match of \<open>(-?\d+)(?::(-?\d+))?\<close>.\<close>

definition signed_digits :: "string \<Rightarrow> int option" where
  "signed_digits s =
     (let (neg, ds) = (case s of c # cs \<Rightarrow> if c = CHR ''-'' then (True, cs) else (False, s) | [] \<Rightarrow> (False, s))
      in if ds \<noteq> [] \<and> list_all is_digit ds
         then Some (if neg then - int (digits_nat ds) else int (digits_nat ds)) else None)"

definition match_exit_text :: "string \<Rightarrow> (int \<times> int) option" where
  "match_exit_text s =
     (case py_split CHR '':'' s of
        [a] \<Rightarrow> map_option (\<lambda>n. (n, 0)) (signed_digits a)
      | [a, b] \<Rightarrow> (case (signed_digits a, signed_digits b) of (Some n, Some m) \<Rightarrow> Some (n, m) | _ \<Rightarrow> None)
      | _ \<Rightarrow> None)"

definition exit_text_value :: "string \<Rightarrow> pv" where
  "exit_text_value trimmed =
     (case match_exit_text trimmed of
        Some (return_code, signal_id) \<Rightarrow>
          exit_dict (optional_number_dict (Some return_code)) (optional_number_dict (Some signal_id)) (VStr [])
            (success_text (Some return_code))
      | None \<Rightarrow> VStr trimmed)"

lemma py_strip_length: "length (py_strip s) \<le> length s"
  by (simp add: py_strip_def py_lstrip_def)
    (metis length_dropWhile_le length_rev le_trans)

function normalize_history_exit_code :: "pv \<Rightarrow> pv" where
  "normalize_history_exit_code value =
     (case value of
        VStr s \<Rightarrow>
          (let trimmed = py_strip s in
           if trimmed = [] then VNone
           else (case json_loads trimmed of
               Inl _ \<Rightarrow> exit_text_value trimmed
             | Inr parsed \<Rightarrow>
                 (let normalized = normalize_history_exit_code parsed in
                  if normalized \<noteq> VNone then normalized else exit_text_value trimmed)))
      | VDict d \<Rightarrow> normalize_exit_dict d
      | _ \<Rightarrow> value)"
  by pat_completeness auto
termination
proof (relation "measure (\<lambda>v. case v of VStr s \<Rightarrow> Suc (length s) | _ \<Rightarrow> 0)")
  fix v s x parsed
  assume "v = VStr s" "x = py_strip s" "x \<noteq> []" "json_loads x = Inr parsed"
  then show "(parsed, v) \<in> measure (\<lambda>v. case v of VStr s \<Rightarrow> Suc (length s) | _ \<Rightarrow> 0)"
    using py_strip_length [of s] json_loads_shorter [of x] by (auto split: pv.split)
qed simp

declare normalize_history_exit_code.simps [simp del]



section \<open>Usage statistics of the steps\<close>

definition time_value :: "pv \<Rightarrow> string \<Rightarrow> pv \<Rightarrow> pv" where
  "time_value time_data key fallback = (case time_data of VDict d \<Rightarrow> dget_or key fallback d | _ \<Rightarrow> fallback)"

definition step_tres_values :: "pv \<Rightarrow> string \<Rightarrow> string \<Rightarrow> pv list" where
  "step_tres_values step sec bucket =
     (case step of
        VDict s \<Rightarrow>
          (case dget_or ''tres'' (VDict []) s of
             VDict tr \<Rightarrow>
               (case dget_or sec (VDict []) tr of
                  VDict b \<Rightarrow> (case dget_or bucket (VList []) b of VList xs \<Rightarrow> xs | _ \<Rightarrow> [])
                | _ \<Rightarrow> [])
           | _ \<Rightarrow> [])
      | _ \<Rightarrow> [])"

fun first_count :: "string \<Rightarrow> pv list \<Rightarrow> rat option" where
  "first_count tres_type [] = None"
| "first_count tres_type (v # vs) =
     (case v of
        VDict d \<Rightarrow>
          if dget ''type'' d \<noteq> VStr tres_type then first_count tres_type vs
          else (case float_field (dget ''count'' d) of
              None \<Rightarrow> first_count tres_type vs
            | Some q \<Rightarrow> if q < 0 then first_count tres_type vs else Some q)
      | _ \<Rightarrow> first_count tres_type vs)"

definition extract_step_tres_count :: "pv \<Rightarrow> string \<Rightarrow> string \<Rightarrow> string \<Rightarrow> rat option" where
  "extract_step_tres_count step sec bucket tres_type = first_count tres_type (step_tres_values step sec bucket)"

text \<open>The largest memory count of the steps in a section.\<close>

fun largest_count :: "string \<Rightarrow> pv list \<Rightarrow> rat option \<Rightarrow> rat option" where
  "largest_count sec [] best = best"
| "largest_count sec (step # steps) best =
     (case extract_step_tres_count step sec ''max'' ''mem'' of
        None \<Rightarrow> largest_count sec steps best
      | Some q \<Rightarrow> largest_count sec steps (case best of None \<Rightarrow> Some q | Some b \<Rightarrow> if b < q then Some q else best))"

definition max_memory_gb :: "pdict \<Rightarrow> (rat option \<times> pv) res" where
  "max_memory_gb job =
     rbind (py_iter (dget_or ''steps'' (VList []) job)) (\<lambda>steps.
       Inr (case largest_count ''consumed'' steps None of
          Some q \<Rightarrow> (Some (q / 1024 ^ 3), VStr ''consumed.max.mem'')
        | None \<Rightarrow> (case largest_count ''requested'' steps None of
            Some q \<Rightarrow> (Some (q / 1024 ^ 3), VStr ''requested.max.mem'')
          | None \<Rightarrow> (None, VNone))))"

definition step_total_cpu_seconds :: "pv \<Rightarrow> rat option" where
  "step_total_cpu_seconds step =
     (case step of
        VDict s \<Rightarrow>
          (case dget_or ''time'' (VDict []) s of
             VDict t \<Rightarrow>
               (case dget_or ''total'' (VDict []) t of
                  VDict tot \<Rightarrow>
                    (case (float_field (dget ''seconds'' tot), float_field (dget ''microseconds'' tot)) of
                       (None, None) \<Rightarrow> None
                     | (sec, us) \<Rightarrow> Some ((case sec of None \<Rightarrow> 0 | Some q \<Rightarrow> q)
                                       + (case us of None \<Rightarrow> 0 | Some q \<Rightarrow> q) / 1000000))
                | _ \<Rightarrow> None)
           | _ \<Rightarrow> None)
      | _ \<Rightarrow> None)"

definition step_elapsed_seconds :: "pv \<Rightarrow> rat option res" where
  "step_elapsed_seconds step =
     (case step of
        VDict s \<Rightarrow>
          rbind (py_get ''elapsed'' (dget_or ''time'' (VDict []) s)) (\<lambda>e.
            Inr (case float_field e of None \<Rightarrow> None | Some q \<Rightarrow> if q \<le> 0 then None else Some q))
      | _ \<Rightarrow> Inr None)"

definition step_info :: "string \<Rightarrow> pv \<Rightarrow> pv res" where
  "step_info key step =
     rbind (py_get_or ''step'' (VDict []) step) (\<lambda>info.
       Inr (case info of VDict i \<Rightarrow> dget key i | _ \<Rightarrow> VNone))"

definition step_identifier :: "pv \<Rightarrow> pv res" where
  "step_identifier step = step_info ''id'' step"

definition step_name :: "pv \<Rightarrow> pv res" where
  "step_name step = step_info ''name'' step"

definition include_cpu_step :: "pv \<Rightarrow> bool res" where
  "include_cpu_step step =
     rbind (step_identifier step) (\<lambda>i.
     rbind (step_name step) (\<lambda>n.
       if n = VStr ''extern'' then Inr False
       else (case py_or i (VStr []) of
           VStr s \<Rightarrow> Inr (\<not> suffix ''.extern'' s)
         | _ \<Rightarrow> Inl (AttributeError ''endswith''))))"

definition job_elapsed_seconds :: "pdict \<Rightarrow> rat option" where
  "job_elapsed_seconds job =
     (let time_data = dget_or ''time'' (VDict []) job;
          elapsed = (case float_field (time_value time_data ''elapsed'' VNone) of
              None \<Rightarrow> None | Some q \<Rightarrow> if 0 < q then Some q else None)
      in case (int_field (time_value time_data ''start'' VNone), int_field (time_value time_data ''end'' VNone)) of
           (Some st, Some en) \<Rightarrow> if st < en then Some (of_int (en - st)) else elapsed
         | _ \<Rightarrow> elapsed)"

text \<open>The summary of a step, whether it counts, and its CPU seconds.\<close>

definition step_summary :: "pv \<Rightarrow> (pv \<times> bool \<times> rat option) res" where
  "step_summary step =
     rbind (step_identifier step) (\<lambda>i.
     rbind (step_name step) (\<lambda>n.
     rbind (step_elapsed_seconds step) (\<lambda>e.
     rbind (include_cpu_step step) (\<lambda>included.
       Inr (VDict [(''step_id'', i), (''step_name'', n), (''elapsed_seconds'', opt_float e),
                   (''total_cpu_seconds'', opt_float (step_total_cpu_seconds step))],
            included, step_total_cpu_seconds step)))))"

definition cpu_total :: "(pv \<times> bool \<times> rat option) list \<Rightarrow> rat" where
  "cpu_total summaries =
     fold (\<lambda>(_, included, cpu) acc. if included then acc + (case cpu of None \<Rightarrow> 0 | Some q \<Rightarrow> q) else acc) summaries 0"

definition usage_stats :: "pdict \<Rightarrow> (pv \<times> rat option \<times> rat option) res" where
  "usage_stats job =
     rbind (py_iter (dget_or ''steps'' (VList []) job)) (\<lambda>steps.
     rbind (rmap step_summary steps) (\<lambda>summaries.
     let total_cpu = cpu_total summaries;
         elapsed = job_elapsed_seconds job;
         cores = (case elapsed of None \<Rightarrow> None | Some q \<Rightarrow> if 0 < q then Some (total_cpu / q) else None)
     in rbind (max_memory_gb job) (\<lambda>(used_memory_gb, memory_source).
       Inr (VDict [
           (''memory'', VDict [(''value_gb'', opt_float used_memory_gb), (''source'', memory_source)]),
           (''cpu'', VDict [
             (''kind'', VStr ''average_concurrency_estimate''),
             (''total_seconds'', VFloat total_cpu),
             (''job_elapsed_seconds'', opt_float elapsed),
             (''estimated_cores_avg'', opt_float cores),
             (''formula'', VStr ''sum(step.time.total) / job_elapsed_seconds''),
             (''included_steps'', VList (map fst (filter (\<lambda>(_, included, _). included) summaries))),
             (''excluded_steps'', VList (map fst (filter (\<lambda>(_, included, _). \<not> included) summaries)))])],
         used_memory_gb, cores))))"


section \<open>Rows\<close>

definition job_key :: "pdict \<Rightarrow> pv \<times> pv" where
  "job_key row = (dget ''job_id'' row, dget ''submit_time'' row)"

definition extract_job :: "pv \<Rightarrow> pdict res" where
  "extract_job job_value =
     rbind (as_dict job_value) (\<lambda>job.
     rbind (state_str (dget ''job_state'' job)) (\<lambda>job_state.
     rbind (gres_str (dget ''gres_detail'' job)) (\<lambda>gres_detail.
     rbind (exit_str (dget ''exit_code'' job)) (\<lambda>exit_code.
       Inr [(''job_id'', dget ''job_id'' job), (''job_name'', dget ''name'' job), (''job_state'', job_state),
         (''state_reason'', dget ''state_reason'' job), (''user_name'', dget ''user_name'' job), (''user_id'', VNone),
         (''account'', dget ''account'' job), (''group'', dget ''group'' job), (''partition'', dget ''partition'' job),
         (''qos'', dget ''qos'' job), (''nodes'', dget ''nodes'' job),
         (''node_count'', opt_int (int_field (dget ''node_count'' job))),
         (''cpus'', opt_int (int_field (dget ''cpus'' job))),
         (''priority'', opt_int (int_field (dget ''priority'' job))),
         (''tres_req_str'', tres_str (py_or (dget ''tres_req_str'' job) (dget ''tres_per_job'' job))),
         (''tres_per_job'', tres_str (dget ''tres_per_job'' job)),
         (''tres_per_node'', tres_str (dget ''tres_per_node'' job)), (''gres_detail'', gres_detail),
         (''tres_requested'', VNone), (''tres_allocated'', VNone),
         (''submit_time'', ts (dget ''submit_time'' job)), (''start_time'', ts (dget ''start_time'' job)),
         (''end_time'', ts (dget ''end_time'' job)), (''eligible_time'', ts (dget ''eligible_time'' job)),
         (''last_sched_evaluation_time'', ts (dget ''last_sched_evaluation'' job)),
         (''time_limit_minutes'', opt_int (int_field (dget ''time_limit'' job))),
         (''used_memory_gb'', VNone), (''usage_stats'', VNone), (''used_cpu_cores_avg'', VNone),
         (''exit_code'', exit_code), (''working_directory'', dget ''current_working_directory'' job),
         (''command'', dget ''command'' job)]))))"

definition DETAIL_FALLBACK_FIELDS :: "string list" where
  "DETAIL_FALLBACK_FIELDS = [''account'', ''partition'', ''qos'', ''nodes'', ''node_count'', ''cpus'', ''priority'',
     ''tres_req_str'', ''tres_per_job'', ''tres_per_node'', ''gres_detail'', ''eligible_time'',
     ''last_sched_evaluation_time'', ''tres_requested'', ''tres_allocated'', ''time_limit_minutes'']"

definition tres_json :: "pv \<Rightarrow> pv" where
  "tres_json v = (if is_list v then v else VNone)"

text \<open>\<open>v.get(key)\<close> if \<open>v\<close> is a dictionary, else the other value.\<close>

definition dict_part :: "string \<Rightarrow> pv \<Rightarrow> pv \<Rightarrow> pv" where
  "dict_part key other v = (case v of VDict d \<Rightarrow> dget key d | _ \<Rightarrow> other)"

definition fill_from :: "pdict \<Rightarrow> string \<Rightarrow> pdict \<Rightarrow> pdict" where
  "fill_from fallback key row = (if dget key row = VNone then dset key (dget key fallback) row else row)"

definition detail_row :: "pdict \<Rightarrow> pdict \<Rightarrow> pv \<Rightarrow> pv \<Rightarrow> rat option \<Rightarrow> rat option \<Rightarrow> pv \<Rightarrow> pv \<Rightarrow> pdict" where
  "detail_row job fallback st stats used_memory_gb used_cpu_cores_avg gres_detail exit_code =
     (let association = dget_or ''association'' (VDict []) job;
          state = dget_or ''state'' (VDict []) job;
          time_data = dget_or ''time'' (VDict []) job;
          tres = dget_or ''tres'' (VDict []) job in
       [(''job_id'', dget_or ''job_id'' (dget ''job_id'' fallback) job),
        (''job_name'', dget_or ''name'' (dget ''job_name'' fallback) job),
        (''job_state'', py_or st (dget ''job_state'' fallback)),
        (''state_reason'', py_or (dict_part ''reason'' (dget ''state_reason'' job) state) (dget ''state_reason'' fallback)),
        (''user_name'', py_or (dget ''user'' job) (py_or (dget ''user_name'' job)
           (py_or (dict_part ''user'' VNone association) (dget ''user_name'' fallback)))),
        (''user_id'', dget ''user_id'' fallback),
        (''account'', time_value association ''account'' (dget ''account'' job)),
        (''group'', py_or (dget ''group'' job) (py_or (dget ''group_name'' job) (dget ''group'' fallback))),
        (''partition'', dget_or ''partition'' (dget ''partition'' fallback) job),
        (''qos'', dget_or ''qos'' (dget ''qos'' fallback) job),
        (''nodes'', dget_or ''nodes'' (dget ''nodes'' fallback) job),
        (''node_count'', opt_int (int_field (dget ''node_count'' job))),
        (''cpus'', opt_int (int_field (dget ''cpus'' job))),
        (''priority'', opt_int (int_field (dget ''priority'' job))),
        (''tres_req_str'', tres_str (py_or (dget ''tres_req_str'' job) (dget ''tres_per_job'' job))),
        (''tres_per_job'', tres_str (dget ''tres_per_job'' job)),
        (''tres_per_node'', tres_str (dget ''tres_per_node'' job)),
        (''gres_detail'', gres_detail),
        (''submit_time'', ts (time_value time_data ''submission'' (dget ''submit_time'' job))),
        (''start_time'', ts (time_value time_data ''start'' (dget ''start_time'' job))),
        (''end_time'', ts (time_value time_data ''end'' (dget ''end_time'' job))),
        (''eligible_time'', ts (time_value time_data ''eligible'' (dget ''eligible_time'' job))),
        (''last_sched_evaluation_time'', ts (dget ''last_sched_evaluation'' job)),
        (''tres_requested'', tres_json (dict_part ''requested'' VNone tres)),
        (''tres_allocated'', tres_json (dict_part ''allocated'' VNone tres)),
        (''time_limit_minutes'', opt_int (int_field (time_value time_data ''limit'' (dget ''time_limit'' job)))),
        (''used_memory_gb'', opt_float used_memory_gb), (''usage_stats'', stats),
        (''used_cpu_cores_avg'', opt_float used_cpu_cores_avg), (''exit_code'', exit_code),
        (''working_directory'', py_or (dget ''current_working_directory'' job)
           (py_or (dget ''working_directory'' job) (dget ''working_directory'' fallback))),
        (''command'', py_or (dget ''command'' job) (py_or (dget ''submit_line'' job) (dget ''command'' fallback)))])"

definition extract_detail :: "pv \<Rightarrow> pdict \<Rightarrow> pdict res" where
  "extract_detail job_value fallback =
     rbind (as_dict job_value) (\<lambda>job.
     rbind (state_str (time_value (dget_or ''state'' (VDict []) job) ''current'' (dget ''job_state'' job))) (\<lambda>st.
     rbind (usage_stats job) (\<lambda>(stats, used_memory_gb, used_cpu_cores_avg).
     rbind (gres_str (dget ''gres_detail'' job)) (\<lambda>gres_detail.
     rbind (exit_str (py_or (dget ''exit_code'' job) (dget ''derived_exit_code'' job))) (\<lambda>exit_code.
       Inr (fill_from fallback ''submit_time'' (fold (fill_from fallback) DETAIL_FALLBACK_FIELDS
         (detail_row job fallback st stats used_memory_gb used_cpu_cores_avg gres_detail exit_code))))))))"

lemma fill_from_dget: "dget c (fill_from fb k row) = (if c = k \<and> dget k row = VNone then dget k fb else dget c row)"
  by (simp add: fill_from_def)

lemma fill_all_dget:
  "dget c (fold (fill_from fb) ks row) = (if c \<in> set ks \<and> dget c row = VNone then dget c fb else dget c row)"
  by (induction ks arbitrary: row) (auto simp: fill_from_dget)

lemma dget_Cons: "dget c ((k, x) # d) = (if c = k then x else dget c d)"
  by (simp add: dget_or_def)

text \<open>The fields of the row of a detail that the repair reads.\<close>

lemma extract_detail_fields:
  assumes "usage_stats job = Inr (stats, memory, cores)"
    and "state_str (time_value (dget_or ''state'' (VDict []) job) ''current'' (dget ''job_state'' job)) = Inr st"
    and "gres_str (dget ''gres_detail'' job) = Inr gres"
    and "exit_str (py_or (dget ''exit_code'' job) (dget ''derived_exit_code'' job)) = Inr code"
  shows "\<exists>row. extract_detail (VDict job) fallback = Inr row
    \<and> dget ''job_id'' row = dget_or ''job_id'' (dget ''job_id'' fallback) job
    \<and> dget ''submit_time'' row =
        (let t = ts (time_value (dget_or ''time'' (VDict []) job) ''submission'' (dget ''submit_time'' job))
         in if t = VNone then dget ''submit_time'' fallback else t)
    \<and> dget ''used_memory_gb'' row = opt_float memory \<and> dget ''used_cpu_cores_avg'' row = opt_float cores"
proof -
  let ?row = "detail_row job fallback st stats memory cores gres code"
  have "dget ''job_id'' ?row = dget_or ''job_id'' (dget ''job_id'' fallback) job"
    "dget ''submit_time'' ?row = ts (time_value (dget_or ''time'' (VDict []) job) ''submission'' (dget ''submit_time'' job))"
    "dget ''used_memory_gb'' ?row = opt_float memory" "dget ''used_cpu_cores_avg'' ?row = opt_float cores"
    unfolding detail_row_def Let_def
    by (simp_all add: dget_Cons)
  moreover have "''job_id'' \<notin> set DETAIL_FALLBACK_FIELDS" "''submit_time'' \<notin> set DETAIL_FALLBACK_FIELDS"
    "''used_memory_gb'' \<notin> set DETAIL_FALLBACK_FIELDS" "''used_cpu_cores_avg'' \<notin> set DETAIL_FALLBACK_FIELDS"
    by (simp_all add: DETAIL_FALLBACK_FIELDS_def)
  ultimately show ?thesis
    by (simp add: extract_detail_def as_dict_def assms fill_from_dget fill_all_dget Let_def)
qed

definition dedup_rows :: "pdict list \<Rightarrow> pdict list" where
  "dedup_rows rows = map snd (fold (\<lambda>row. dset (job_key row) row) rows [])"

definition serialize_datetimes :: "pdict \<Rightarrow> pdict" where
  "serialize_datetimes row =
     (let d = map (\<lambda>(k, v). (k, case v of VTime t \<Rightarrow> VStr (iso_text CHR ''T'' t) | _ \<Rightarrow> v)) row
      in dset ''exit_code'' (normalize_history_exit_code (dget ''exit_code'' d)) d)"

text \<open>\<open>Json(value)\<close> only says how the value is sent.\<close>

definition round_field :: "string \<Rightarrow> pdict \<Rightarrow> pdict res" where
  "round_field key row =
     (case dget key row of
        VNone \<Rightarrow> Inr row
      | VFloat q \<Rightarrow> Inr (dset key (VFloat (round_half_up q)) row)
      | VInt n \<Rightarrow> Inr (dset key (VFloat (of_int n)) row)
      | _ \<Rightarrow> Inl (BackendError ''InvalidOperation''))"

definition prepare_db_row :: "pdict \<Rightarrow> pdict res" where
  "prepare_db_row row = rbind (round_field ''used_memory_gb'' row) (round_field ''used_cpu_cores_avg'')"

end
