(* ===== verification/JobsStore.thy ===== *)
theory JobsStore
  imports JobRows Database
begin

text \<open>
  The class \<open>JobsStore\<close> of \<open>persistence/jobs_store.py\<close>: the queue of job rows and its flush to the
  table \<open>job_snapshots\<close>, the reconciliation of jobs that left the listing, the queries of the
  history, the repair of usage fields, the clean-up. The slurmrestd client is a record of the two
  methods the store calls. PostgreSQL runs the statements of the source, which are modelled; that a
  connection may be refused or a statement fail for another reason is the record \<open>postgres\<close> of
  outcomes over a state of its own. A commit fails with its statement. The monthly partitions are
  left out: the table has a default partition.
\<close>

section \<open>Tables and the object\<close>

record jobs_db =
  jd_base :: db
  jd_rows :: "pdict list" \<comment> \<open>\<open>job_snapshots\<close>\<close>
  jd_seq :: int

record 'p postgres =
  pg_connect :: "'p \<Rightarrow> bool \<times> 'p"
  pg_runs :: "pdict list \<Rightarrow> 'p \<Rightarrow> bool \<times> 'p"

record 'x job_source =
  so_listing :: "('x, pv) meth"
  so_detail :: "pv \<Rightarrow> ('x, pv) meth"

type_synonym pending = "((pv \<times> pv) \<times> pdict) list"

record ('x, 'p) jobs_store =
  js_pending :: pending
  js_last_cleanup :: int \<comment> \<open>microseconds\<close>
  js_source :: 'x
  js_db :: jobs_db
  js_pg :: 'p

text \<open>The states that no longer change, and the size of a chunk.\<close>

definition TERMINAL_STATES :: "string list" where
  "TERMINAL_STATES = [''COMPLETED'', ''FAILED'', ''CANCELLED'', ''TIMEOUT'', ''NODE_FAIL'', ''DEADLINE'',
     ''OUT_OF_MEMORY'', ''PREEMPTED'', ''BOOT_FAIL'']"

definition BATCH_CHUNK :: nat where
  "BATCH_CHUNK = 500"


section \<open>The upsert\<close>

definition SNAPSHOT_COLUMNS :: "string list" where
  "SNAPSHOT_COLUMNS = [''job_name'', ''job_state'', ''state_reason'', ''user_id'', ''account'', ''group'', ''partition'',
     ''qos'', ''nodes'', ''node_count'', ''cpus'', ''priority'', ''tres_req_str'', ''tres_per_job'', ''tres_per_node'',
     ''gres_detail'', ''tres_requested'', ''tres_allocated'', ''start_time'', ''end_time'', ''eligible_time'',
     ''last_sched_evaluation_time'', ''time_limit_minutes'', ''used_memory_gb'', ''usage_stats'',
     ''used_cpu_cores_avg'', ''exit_code'', ''working_directory'', ''command'']"

definition OVERWRITTEN :: "string list" where
  "OVERWRITTEN = [''job_state'', ''state_reason'', ''nodes'', ''node_count'', ''cpus'', ''priority'', ''start_time'',
     ''end_time'', ''exit_code'', ''gres_detail'', ''partition'', ''qos'', ''time_limit_minutes'',
     ''working_directory'', ''command'', ''user_id'']"

definition COALESCED :: "string list" where
  "COALESCED = [''eligible_time'', ''last_sched_evaluation_time'', ''tres_requested'', ''tres_allocated'',
     ''used_memory_gb'', ''usage_stats'', ''used_cpu_cores_avg'']"

definition coalesce :: "pv \<Rightarrow> pv \<Rightarrow> pv" where
  "coalesce a b = (if a = VNone then b else a)"

definition inserted_row :: "int \<Rightarrow> int \<Rightarrow> pdict \<Rightarrow> pdict" where
  "inserted_row n now row =
     [(''id'', VInt n), (''job_id'', dget ''job_id'' row), (''submit_time'', dget ''submit_time'' row),
      (''first_seen'', VTime now), (''last_seen'', VTime now)]
     @ map (\<lambda>c. (c, dget c row)) SNAPSHOT_COLUMNS"

definition updated_row :: "int \<Rightarrow> pdict \<Rightarrow> pdict \<Rightarrow> pdict" where
  "updated_row now new old =
     fold (\<lambda>c. dset c (dget c new)) OVERWRITTEN
       (fold (\<lambda>c. dset c (coalesce (dget c new) (dget c old))) COALESCED (dset ''last_seen'' (VTime now) old))"

definition upsert_snapshot :: "int \<Rightarrow> pdict \<Rightarrow> jobs_db \<Rightarrow> jobs_db" where
  "upsert_snapshot now row jd =
     (let n = jd_seq jd + 1 in
      if job_key row \<in> job_key ` set (jd_rows jd)
      then jd\<lparr>jd_seq := n,
             jd_rows := map (\<lambda>r. if job_key r = job_key row then updated_row now row r else r) (jd_rows jd)\<rparr>
      else jd\<lparr>jd_seq := n, jd_rows := jd_rows jd @ [inserted_row n now row]\<rparr>)"

text \<open>
  What the table and the statement demand: the columns of the key are given, the user exists, and
  one statement touches a row only once.
\<close>

definition key_given :: "pdict \<Rightarrow> bool" where
  "key_given row \<longleftrightarrow> (case dget ''job_id'' row of VInt _ \<Rightarrow> True | _ \<Rightarrow> False)
     \<and> (case dget ''submit_time'' row of VTime _ \<Rightarrow> True | _ \<Rightarrow> False)"

definition user_exists :: "db \<Rightarrow> pdict \<Rightarrow> bool" where
  "user_exists db row \<longleftrightarrow>
     (case dget ''user_id'' row of VNone \<Rightarrow> True | VInt n \<Rightarrow> n \<in> us_id ` set (db_users db) | _ \<Rightarrow> False)"

definition statement_ok :: "db \<Rightarrow> pdict list \<Rightarrow> bool" where
  "statement_ok db rows \<longleftrightarrow>
     list_all key_given rows \<and> list_all (user_exists db) rows \<and> distinct (map job_key rows)"


section \<open>Users of the rows\<close>

definition user_texts :: "pdict list \<Rightarrow> string list res" where
  "user_texts rows =
     rbind (rmap (\<lambda>u. case u of VStr s \<Rightarrow> Inr s | _ \<Rightarrow> Inl (TypeError ''user_name''))
              (filter truthy (map (dget ''user_name'') rows)))
       (\<lambda>us. Inr (sorted_set us))"

definition plain_user :: "int \<Rightarrow> string \<Rightarrow> user_row" where
  "plain_user now name =
     \<lparr>us_id = 0, us_username = name, us_fullname = None, us_groups = VList [], us_policy_roles = [],
      us_policy_actions = [], us_ldap_synced_at = None, us_permission_synced_at = None,
      us_created_at = now, us_updated_at = now\<rparr>"

text \<open>\<open>INSERT INTO users ... ON CONFLICT (username) DO NOTHING\<close>\<close>

definition insert_user :: "int \<Rightarrow> string \<Rightarrow> db \<Rightarrow> db" where
  "insert_user now name db = snd (upsert_user (plain_user now name) (\<lambda>u. u) db)"

definition user_id_of :: "db \<Rightarrow> string list \<Rightarrow> pv \<Rightarrow> pv" where
  "user_id_of db usernames v =
     (case v of
        VStr s \<Rightarrow> if s \<in> set usernames then (case find_user s db of None \<Rightarrow> VNone | Some u \<Rightarrow> VInt (us_id u)) else VNone
      | _ \<Rightarrow> VNone)"

type_synonym 'p connection = "jobs_db \<times> 'p"

definition runs :: "'p postgres \<Rightarrow> pdict list \<Rightarrow> ('p connection, unit) meth" where
  "runs P rows = (\<lambda>(jd, p). case pg_runs P rows p of
     (ok, p') \<Rightarrow> (if ok then Inr () else Inl (BackendError ''statement''), (jd, p')))"

definition ensure_users :: "'p postgres \<Rightarrow> int \<Rightarrow> pdict list \<Rightarrow> ('p connection, pdict list) meth" where
  "ensure_users P now rows =
     mbind (mlift (user_texts rows)) (\<lambda>usernames.
       if usernames = [] then mret (map (setdefault ''user_id'' VNone) rows)
       else mbind (runs P []) (\<lambda>_.
            mbind (mupd (\<lambda>(jd, p). (jd\<lparr>jd_base := fold (insert_user now) usernames (jd_base jd)\<rparr>, p))) (\<lambda>_.
            mwith (\<lambda>(jd, p).
              mret (map (\<lambda>row. dset ''user_id'' (user_id_of (jd_base jd) usernames (dget ''user_name'' row)) row) rows)))))"


section \<open>Writing rows\<close>

definition write_statement :: "'p postgres \<Rightarrow> int \<Rightarrow> pdict list \<Rightarrow> ('p connection, unit) meth" where
  "write_statement P now rows =
     mbind (mlift (rmap prepare_db_row rows)) (\<lambda>db_rows.
     mbind (runs P db_rows) (\<lambda>_.
     mwith (\<lambda>(jd, p).
       if \<not> statement_ok (jd_base jd) db_rows then mraise (BackendError ''constraint'')
       else mupd (\<lambda>(jd, p). (fold (upsert_snapshot now) db_rows jd, p)))))"

text \<open>\<open>rollback\<close>: the tables as before, the sequences as they are.\<close>

definition rolled_back :: "jobs_db \<Rightarrow> jobs_db \<Rightarrow> jobs_db" where
  "rolled_back jd jd' =
     jd\<lparr>jd_base := (jd_base jd)\<lparr>users_seq := users_seq (jd_base jd'), roles_seq := roles_seq (jd_base jd')\<rparr>,
        jd_seq := jd_seq jd'\<rparr>"

text \<open>
  One try of a chunk: whether it was committed, and the rows, which \<open>_ensure_users\<close> has changed in
  place even if the statement fails after it.
\<close>

definition try_rows :: "'p postgres \<Rightarrow> int \<Rightarrow> pdict list \<Rightarrow> 'p connection \<Rightarrow> (bool \<times> pdict list) \<times> 'p connection" where
  "try_rows P now rows c =
     (case ensure_users P now rows c of
        (Inl _, (jd1, p1)) \<Rightarrow> ((False, rows), (rolled_back (fst c) jd1, p1))
      | (Inr rows1, c1) \<Rightarrow>
          (case write_statement P now rows1 c1 of
             (Inl _, (jd2, p2)) \<Rightarrow> ((False, rows1), (rolled_back (fst c) jd2, p2))
           | (Inr _, c2) \<Rightarrow> ((True, rows1), c2)))"

fun try_each :: "'p postgres \<Rightarrow> int \<Rightarrow> pdict list \<Rightarrow> 'p connection \<Rightarrow> pdict list \<times> 'p connection" where
  "try_each P now [] c = ([], c)"
| "try_each P now (row # rows) c =
     (case try_rows P now [row] c of
        ((ok, rows1), c1) \<Rightarrow>
          (case try_each P now rows c1 of (failed, c2) \<Rightarrow> ((if ok then [] else rows1) @ failed, c2)))"

definition write_chunk :: "'p postgres \<Rightarrow> int \<Rightarrow> pdict list \<Rightarrow> 'p connection \<Rightarrow> pdict list \<times> 'p connection" where
  "write_chunk P now chunk c =
     (case try_rows P now chunk c of
        ((ok, rows1), c1) \<Rightarrow> if ok then ([], c1) else try_each P now rows1 c1)"

text \<open>\<open>_get_conn\<close>, which raises when the server refuses the connection.\<close>

definition get_conn :: "'p postgres \<Rightarrow> (('x, 'p) jobs_store, unit) meth" where
  "get_conn P s =
     (case pg_connect P (js_pg s) of
        (ok, p) \<Rightarrow> (if ok then Inr () else Inl (BackendError ''OperationalError''), s\<lparr>js_pg := p\<rparr>))"

definition flush_chunk :: "'p postgres \<Rightarrow> int \<Rightarrow> pdict list \<Rightarrow> (('x, 'p) jobs_store, pdict list) meth" where
  "flush_chunk P now chunk =
     mbind (get_conn P) (\<lambda>_ s.
       case write_chunk P now chunk (js_db s, js_pg s) of
         (failed, (jd, p)) \<Rightarrow> (Inr failed, s\<lparr>js_db := jd, js_pg := p\<rparr>))"


section \<open>The queue\<close>

definition queue_rows :: "pdict list \<Rightarrow> ('x, 'p) jobs_store \<Rightarrow> ('x, 'p) jobs_store" where
  "queue_rows rows s = s\<lparr>js_pending := fold (\<lambda>row. dset (job_key row) row) rows (js_pending s)\<rparr>"

definition prepare_rows :: "pv \<Rightarrow> pdict list res" where
  "prepare_rows jobs =
     rbind (py_iter jobs) (\<lambda>js.
     rbind (rmap extract_job js) (\<lambda>rows.
       Inr (filter (\<lambda>row. truthy (dget ''job_id'' row) \<and> truthy (dget ''submit_time'' row)) rows)))"

definition submit_jobs :: "pv \<Rightarrow> (('x, 'p) jobs_store, unit) meth" where
  "submit_jobs jobs = mbind (mlift (prepare_rows jobs)) (\<lambda>rows. mupd (queue_rows rows))"

fun chunks :: "nat \<Rightarrow> 'a list \<Rightarrow> 'a list list" where
  "chunks n [] = []"
| "chunks n (x # xs) = (if n = 0 then [x # xs] else take n (x # xs) # chunks n (drop n (x # xs)))"

text \<open>
  The flush in three parts, since rows may be queued between them: the batch is taken, written, and
  the rows that failed are queued again, behind the rows queued meanwhile.
\<close>

definition take_batch :: "(('x, 'p) jobs_store, pdict list) meth" where
  "take_batch s = (Inr (map snd (js_pending s)), s\<lparr>js_pending := []\<rparr>)"

definition write_batch :: "'p postgres \<Rightarrow> int \<Rightarrow> pdict list \<Rightarrow> (('x, 'p) jobs_store, pdict list) meth" where
  "write_batch P now batch =
     mbind (mmap (flush_chunk P now) (chunks BATCH_CHUNK batch)) (\<lambda>fs. mret (concat fs))"

definition requeue :: "pdict list \<Rightarrow> ('x, 'p) jobs_store \<Rightarrow> ('x, 'p) jobs_store" where
  "requeue failed s =
     (if failed = [] then s
      else s\<lparr>js_pending := dupdate (fold (\<lambda>row. dset (job_key row) row) failed []) (js_pending s)\<rparr>)"

definition flush :: "'p postgres \<Rightarrow> int \<Rightarrow> (('x, 'p) jobs_store, unit) meth" where
  "flush P now =
     mbind take_batch (\<lambda>batch.
       if batch = [] then mret ()
       else mbind (write_batch P now batch) (\<lambda>failed. mupd (requeue failed)))"



section \<open>Records of the table\<close>

definition username_of :: "db \<Rightarrow> pv \<Rightarrow> pv" where
  "username_of db user_id =
     (case find (\<lambda>u. VInt (us_id u) = user_id) (db_users db) of None \<Rightarrow> VNone | Some u \<Rightarrow> VStr (us_username u))"

definition SELECT_COLUMNS :: "string list" where
  "SELECT_COLUMNS = [''job_name'', ''job_state'', ''state_reason'', ''user_id'', ''user_name'', ''account'', ''group'',
     ''partition'', ''qos'', ''nodes'', ''node_count'', ''cpus'', ''priority'', ''tres_req_str'', ''tres_per_job'',
     ''tres_per_node'', ''gres_detail'', ''tres_requested'', ''tres_allocated'', ''start_time'', ''end_time'',
     ''eligible_time'', ''last_sched_evaluation_time'', ''time_limit_minutes'', ''used_memory_gb'', ''usage_stats'',
     ''used_cpu_cores_avg'', ''exit_code'', ''working_directory'', ''command'']"

definition selected_record :: "jobs_db \<Rightarrow> pdict \<Rightarrow> pdict" where
  "selected_record jd r =
     [(''id'', dget ''id'' r), (''job_id'', dget ''job_id'' r), (''submit_time'', dget ''submit_time'' r),
      (''first_seen'', dget ''first_seen'' r), (''snapshot_time'', dget ''last_seen'' r)]
     @ map (\<lambda>c. (c, if c = ''user_name'' then username_of (jd_base jd) (dget ''user_id'' r) else dget c r)) SELECT_COLUMNS"

definition column_like :: "string \<Rightarrow> pv \<Rightarrow> bool" where
  "column_like pat v = (case v of VStr s \<Rightarrow> sql_like pat s | _ \<Rightarrow> False)"

definition terminal_row :: "pdict \<Rightarrow> bool" where
  "terminal_row r \<longleftrightarrow> list_ex (\<lambda>st. column_like (''%'' @ st @ ''%'') (dget ''job_state'' r)) TERMINAL_STATES"

definition time_us :: "pv \<Rightarrow> int" where
  "time_us v = (case v of VTime t \<Rightarrow> t | _ \<Rightarrow> 0)"

definition active_rows :: "jobs_db \<Rightarrow> pdict list" where
  "active_rows jd =
     map (selected_record jd) (rev (sort_key (\<lambda>r. time_us (dget ''last_seen'' r))
       (filter (\<lambda>r. dget ''job_state'' r = VNone \<or> \<not> terminal_row r) (jd_rows jd))))"

definition active_records :: "'p postgres \<Rightarrow> (('x, 'p) jobs_store, pdict list) meth" where
  "active_records P = mbind (get_conn P) (\<lambda>_. mwith (\<lambda>s. mret (active_rows (js_db s))))"


section \<open>Reconciliation\<close>

definition on_source :: "('x, 'a) meth \<Rightarrow> (('x, 'p) jobs_store, 'a) meth" where
  "on_source m s = (case m (js_source s) of (r, x) \<Rightarrow> (r, s\<lparr>js_source := x\<rparr>))"

definition complete_missing_job :: "pdict \<Rightarrow> int \<Rightarrow> pdict" where
  "complete_missing_job record observed_at =
     [(''job_id'', dget ''job_id'' record), (''job_name'', dget ''job_name'' record), (''job_state'', VStr ''COMPLETED''),
      (''state_reason'', py_or (dget ''state_reason'' record) (VStr ''Job missing from active queue and detail lookup''))]
     @ map (\<lambda>c. (c, dget c record)) [''user_name'', ''user_id'', ''account'', ''group'', ''partition'', ''qos'', ''nodes'',
         ''node_count'', ''cpus'', ''priority'', ''tres_req_str'', ''tres_per_job'', ''tres_per_node'', ''gres_detail'',
         ''tres_requested'', ''tres_allocated'', ''submit_time'', ''start_time'']
     @ [(''end_time'', py_or (dget ''end_time'' record) (VTime observed_at))]
     @ map (\<lambda>c. (c, dget c record)) [''eligible_time'', ''last_sched_evaluation_time'', ''time_limit_minutes'',
         ''used_memory_gb'', ''usage_stats'', ''used_cpu_cores_avg'', ''exit_code'', ''working_directory'', ''command'']"

datatype lookup = LookupFailed | LookupMissing | LookupRow pdict

definition is_not_found :: "exn \<Rightarrow> bool" where
  "is_not_found e = (case e of SlurmrestdNotFoundError _ \<Rightarrow> True | _ \<Rightarrow> False)"

text \<open>The lookup is in a \<open>try\<close>, the reading of its answer is not.\<close>

definition refresh_missing_active_job :: "'x job_source \<Rightarrow> pdict \<Rightarrow> (('x, 'p) jobs_store, lookup) meth" where
  "refresh_missing_active_job src record =
     mbind (mcatch (mbind (on_source (so_detail src (dget ''job_id'' record))) (\<lambda>job. mret (Inr job)))
              (\<lambda>e. mret (Inl (if is_not_found e then LookupMissing else LookupFailed)))) (\<lambda>answer.
       case answer of
         Inl l \<Rightarrow> mret l
       | Inr job \<Rightarrow>
           mbind (mlift (extract_detail job record)) (\<lambda>row.
             mret (if \<not> truthy (dget ''job_id'' row) \<or> \<not> truthy (dget ''submit_time'' row) then LookupFailed
                   else if dget ''submit_time'' record \<noteq> VNone \<and> dget ''submit_time'' row \<noteq> dget ''submit_time'' record
                   then LookupMissing
                   else LookupRow row)))"

definition reconciled_rows :: "int \<Rightarrow> pdict \<Rightarrow> lookup \<Rightarrow> pdict list" where
  "reconciled_rows observed_at record l =
     (case l of
        LookupFailed \<Rightarrow> []
      | LookupMissing \<Rightarrow> [complete_missing_job record observed_at]
      | LookupRow row \<Rightarrow> [row])"

definition reconcile_missing_active_jobs ::
  "'p postgres \<Rightarrow> 'x job_source option \<Rightarrow> int \<Rightarrow> pdict list \<Rightarrow> (('x, 'p) jobs_store, unit) meth" where
  "reconcile_missing_active_jobs P source observed_at current_rows =
     (case source of
        None \<Rightarrow> mret ()
      | Some src \<Rightarrow>
          mbind (active_records P) (\<lambda>records.
          mbind (mmap (\<lambda>record. mbind (refresh_missing_active_job src record)
                     (\<lambda>l. mret (reconciled_rows observed_at record l)))
                   (filter (\<lambda>record. job_key record \<notin> job_key ` set current_rows) records)) (\<lambda>rs.
          mupd (queue_rows (concat rs)))))"

text \<open>Whatever the snapshot raises is logged, and the loop goes on.\<close>

definition scheduled_snapshot :: "'p postgres \<Rightarrow> 'x job_source option \<Rightarrow> int \<Rightarrow> (('x, 'p) jobs_store, unit) meth" where
  "scheduled_snapshot P source now =
     (case source of
        None \<Rightarrow> mret ()
      | Some src \<Rightarrow>
          mcatch (mbind (on_source (so_listing src)) (\<lambda>jobs.
                  mbind (mlift (prepare_rows jobs)) (\<lambda>rows.
                  mbind (mupd (queue_rows rows)) (\<lambda>_.
                  reconcile_missing_active_jobs P source now rows))))
            (\<lambda>_. mret ()))"


section \<open>Clean-up and the loop\<close>

text \<open>\<open>DELETE FROM job_snapshots WHERE submit_time < NOW() - INTERVAL '... days'\<close>\<close>

definition cleanup_rows :: "int \<Rightarrow> int \<Rightarrow> jobs_db \<Rightarrow> jobs_db" where
  "cleanup_rows now retention_days jd =
     jd\<lparr>jd_rows := filter (\<lambda>r. \<not> time_us (dget ''submit_time'' r) < now - retention_days * 86400000000) (jd_rows jd)\<rparr>"

definition maybe_cleanup :: "'p postgres \<Rightarrow> int \<Rightarrow> int \<Rightarrow> (('x, 'p) jobs_store, unit) meth" where
  "maybe_cleanup P now retention_days = mwith (\<lambda>s.
     if now - js_last_cleanup s < 86400000000 then mret ()
     else mbind (mupd (\<lambda>s. s\<lparr>js_last_cleanup := now\<rparr>)) (\<lambda>_.
          mbind (get_conn P) (\<lambda>_ s.
            case pg_runs P [] (js_pg s) of
              (ok, p) \<Rightarrow> (Inr (), s\<lparr>js_pg := p, js_db := if ok then cleanup_rows now retention_days (js_db s) else js_db s\<rparr>))))"

text \<open>\<open>_ensure_partitions\<close> as far as the connection goes, and one turn of the thread's loop.\<close>

definition writer_turn ::
  "'p postgres \<Rightarrow> 'x job_source option \<Rightarrow> int \<Rightarrow> int \<Rightarrow> (('x, 'p) jobs_store, unit) meth" where
  "writer_turn P source now retention_days =
     mbind (get_conn P) (\<lambda>_.
     mbind (scheduled_snapshot P source now) (\<lambda>_.
     mbind (flush P now) (\<lambda>_.
     maybe_cleanup P now retention_days)))"



section \<open>What an upsert stores\<close>

lemma dget_fold_dset: "dget c (fold (\<lambda>k. dset k (f k)) ks d) = (if c \<in> set ks then f c else dget c d)"
  by (induction ks arbitrary: d) auto

lemma updated_row_dget:
  "dget c (updated_row now new old)
     = (if c \<in> set OVERWRITTEN then dget c new
        else if c \<in> set COALESCED then coalesce (dget c new) (dget c old)
        else if c = ''last_seen'' then VTime now else dget c old)"
  by (simp add: updated_row_def dget_fold_dset)

lemma inserted_row_dget:
  "dget c (inserted_row n now row)
     = (if c = ''id'' then VInt n else if c = ''job_id'' \<or> c = ''submit_time'' then dget c row
        else if c = ''first_seen'' \<or> c = ''last_seen'' then VTime now
        else if c \<in> set SNAPSHOT_COLUMNS then dget c row else VNone)"
proof -
  have "map_of (map (\<lambda>c. (c, dget c row)) cs) c = (if c \<in> set cs then Some (dget c row) else None)" for cs
    by (induction cs) auto
  then show ?thesis by (simp add: inserted_row_def dget_or_def)
qed

text \<open>The columns that a committed row has from its last write.\<close>

definition LATEST :: "string list" where
  "LATEST = [''job_state'', ''state_reason'', ''nodes'', ''node_count'', ''cpus'', ''priority'', ''start_time'',
     ''end_time'', ''exit_code'', ''gres_detail'', ''partition'', ''qos'', ''time_limit_minutes'',
     ''working_directory'', ''command'']"

definition stored :: "jobs_db \<Rightarrow> pdict \<Rightarrow> bool" where
  "stored jd row \<longleftrightarrow> (\<exists>r \<in> set (jd_rows jd). job_key r = job_key row \<and> (\<forall>c \<in> set LATEST. dget c r = dget c row))"

text \<open>Rows that differ at most in the user's identifier and the rounding of the usage fields.\<close>

definition same_job :: "pdict \<Rightarrow> pdict \<Rightarrow> bool" where
  "same_job a b \<longleftrightarrow> (\<forall>c. c \<notin> {''user_id'', ''used_memory_gb'', ''used_cpu_cores_avg''} \<longrightarrow> dget c a = dget c b)"

lemma same_job_refl [simp]: "same_job a a"
  by (simp add: same_job_def)

lemma same_job_trans: "same_job a b \<Longrightarrow> same_job b c \<Longrightarrow> same_job a c"
  by (simp add: same_job_def)

lemma same_job_key: "same_job a b \<Longrightarrow> job_key a = job_key b"
  by (simp add: same_job_def job_key_def)

lemma LATEST_columns: "c \<in> set LATEST \<Longrightarrow> c \<in> set OVERWRITTEN \<and> c \<in> set SNAPSHOT_COLUMNS
    \<and> c \<notin> {''id'', ''job_id'', ''submit_time'', ''first_seen'', ''last_seen''}
    \<and> c \<notin> {''user_id'', ''used_memory_gb'', ''used_cpu_cores_avg''}"
  by (auto simp: LATEST_def OVERWRITTEN_def SNAPSHOT_COLUMNS_def)

lemma stored_same_job: "stored jd a \<Longrightarrow> same_job a b \<Longrightarrow> stored jd b"
proof -
  assume "stored jd a" and same: "same_job a b"
  then obtain r where "r \<in> set (jd_rows jd)" "job_key r = job_key a" "\<forall>c \<in> set LATEST. dget c r = dget c a"
    unfolding stored_def by blast
  moreover have "\<forall>c \<in> set LATEST. dget c a = dget c b" using same by (simp add: same_job_def LATEST_def)
  ultimately show "stored jd b" using same_job_key [OF same] unfolding stored_def by auto
qed

lemma key_columns: "''job_id'' \<notin> set OVERWRITTEN" "''job_id'' \<notin> set COALESCED"
  "''submit_time'' \<notin> set OVERWRITTEN" "''submit_time'' \<notin> set COALESCED"
  by (simp_all add: OVERWRITTEN_def COALESCED_def)

lemma job_key_updated [simp]: "job_key (updated_row now new old) = job_key old"
  by (simp add: job_key_def updated_row_dget key_columns)

lemma job_key_inserted [simp]: "job_key (inserted_row n now row) = job_key row"
  by (simp add: job_key_def inserted_row_dget)

lemma upsert_stored: "stored (upsert_snapshot now row jd) row"
proof (cases "job_key row \<in> job_key ` set (jd_rows jd)")
  case True
  then obtain r where r: "r \<in> set (jd_rows jd)" "job_key r = job_key row" by auto
  then have "updated_row now row r \<in> set (jd_rows (upsert_snapshot now row jd))"
    using True by (auto simp: upsert_snapshot_def Let_def)
  moreover have "job_key (updated_row now row r) = job_key row"
    "\<forall>c \<in> set LATEST. dget c (updated_row now row r) = dget c row"
    using r LATEST_columns by (auto simp: updated_row_dget)
  ultimately show ?thesis unfolding stored_def by blast
next
  case False
  then have "inserted_row (jd_seq jd + 1) now row \<in> set (jd_rows (upsert_snapshot now row jd))"
    by (simp add: upsert_snapshot_def Let_def)
  moreover have "\<forall>c \<in> set LATEST. dget c (inserted_row (jd_seq jd + 1) now row) = dget c row"
    using LATEST_columns by (auto simp: inserted_row_dget)
  ultimately show ?thesis unfolding stored_def using job_key_inserted by blast
qed

lemma upsert_keeps_stored: "stored jd row \<Longrightarrow> job_key row \<noteq> job_key new \<Longrightarrow> stored (upsert_snapshot now new jd) row"
  unfolding stored_def by (force simp: upsert_snapshot_def Let_def)

lemma upserts_keep_stored:
  "stored jd row \<Longrightarrow> job_key row \<notin> job_key ` set rows \<Longrightarrow> stored (fold (upsert_snapshot now) rows jd) row"
  by (induction rows arbitrary: jd) (auto intro: upsert_keeps_stored)

lemma upserts_store:
  "distinct (map job_key rows) \<Longrightarrow> row \<in> set rows \<Longrightarrow> stored (fold (upsert_snapshot now) rows jd) row"
  by (induction rows arbitrary: jd) (auto intro: upserts_keep_stored upsert_stored)


section \<open>What a chunk stores\<close>

lemma prepare_same_job: "prepare_db_row row = Inr row' \<Longrightarrow> same_job row row'"
  by (auto simp: prepare_db_row_def round_field_def same_job_def rbind_eq_Inr split: pv.splits)

lemma ensure_users_rows:
  assumes "ensure_users P now rows c = (Inr rows1, c1)"
  shows "list_all2 same_job rows rows1 \<and> jd_rows (fst c1) = jd_rows (fst c) \<and> jd_seq (fst c1) = jd_seq (fst c)"
  using assms
  by (auto simp: ensure_users_def runs_def mbind_def list_all2_conv_all_nth same_job_def setdefault_def
      split: sum.splits if_splits prod.splits)

lemma keys_of_same: "list_all2 same_job rows rows1 \<Longrightarrow> map job_key rows1 = map job_key rows"
  by (induction rule: list_all2_induct) (auto dest: same_job_key)

lemma prepared_rows: "rmap prepare_db_row rows = Inr rows' \<Longrightarrow> list_all2 same_job rows rows'"
  unfolding rmap_Inr_iff by (auto elim!: list_all2_mono dest: prepare_same_job)

text \<open>After a try the rows are stored, or the table is as before; rows of other keys stay.\<close>

lemma try_rows_result:
  assumes "try_rows P now rows c = ((ok, rows1), c1)"
  shows "list_all2 same_job rows rows1
    \<and> (if ok then \<forall>row \<in> set rows. stored (fst c1) row else jd_rows (fst c1) = jd_rows (fst c))
    \<and> (\<forall>row. stored (fst c) row \<longrightarrow> job_key row \<notin> job_key ` set rows \<longrightarrow> stored (fst c1) row)"
proof -
  obtain r cu where Pair: "ensure_users P now rows c = (r, cu)" by (rule prod.exhaust)
  show ?thesis
  proof (cases r)
    case (Inl e)
    then show ?thesis using assms Pair
      by (cases cu) (auto simp: try_rows_def rolled_back_def stored_def list_all2_refl)
  next
    case (Inr rows2)
    note users = ensure_users_rows [OF Pair [unfolded Inr]]
    obtain q cw where w: "write_statement P now rows2 cu = (q, cw)" by (rule prod.exhaust)
    show ?thesis
    proof (cases q)
      case (Inl e)
      then show ?thesis using assms Pair Inr w users
        by (cases cw) (auto simp: try_rows_def rolled_back_def stored_def)
    next
      case ok: (Inr u)
      obtain db_rows p where prep: "rmap prepare_db_row rows2 = Inr db_rows" and st: "statement_ok (jd_base (fst cu)) db_rows"
        and cw: "fst cw = fold (upsert_snapshot now) db_rows (fst cu)"
        using w ok by (cases cu) (auto simp: write_statement_def mbind_def runs_def split: sum.splits prod.splits if_splits)
      have sim: "list_all2 same_job rows db_rows"
        using users prepared_rows [OF prep] list_all2_trans [of same_job same_job same_job] same_job_trans by blast
      have keys: "map job_key db_rows = map job_key rows" using keys_of_same [OF sim] .
      then have kset: "job_key ` set db_rows = job_key ` set rows" by (metis set_map)
      have res: "rows1 = rows2" "c1 = cw" "ok" using assms Pair Inr w ok by (auto simp: try_rows_def)
      have "stored (fst cw) row" if "row \<in> set rows" for row
      proof -
        obtain r where "r \<in> set db_rows" "same_job row r"
          using sim \<open>row \<in> set rows\<close> by (metis in_set_conv_nth list_all2_conv_all_nth)
        with upserts_store [of db_rows r now "fst cu"] st cw show ?thesis
          using stored_same_job same_job_key unfolding statement_ok_def same_job_def by fastforce
      qed
      moreover have "stored (fst cw) row" if "stored (fst c) row" "job_key row \<notin> job_key ` set rows" for row
        using upserts_keep_stored [of "fst cu" row db_rows now] that users cw kset by (simp add: stored_def)
      ultimately show ?thesis using users res by simp
    qed
  qed
qed

text \<open>Every row of a try is stored or comes back, and no other row comes back.\<close>

definition accounted :: "pdict list \<Rightarrow> jobs_db \<Rightarrow> pdict list \<Rightarrow> jobs_db \<Rightarrow> bool" where
  "accounted rows jd failed jd' \<longleftrightarrow>
     (\<forall>row \<in> set rows. stored jd' row \<or> (\<exists>f \<in> set failed. same_job row f))
     \<and> (\<forall>f \<in> set failed. \<exists>row \<in> set rows. same_job row f)
     \<and> subseq (map job_key failed) (map job_key rows)
     \<and> (\<forall>row. stored jd row \<longrightarrow> job_key row \<notin> job_key ` set rows \<longrightarrow> stored jd' row)"

lemma accounted_append:
  assumes "accounted rows jd failed jd1" and "accounted rows2 jd1 failed2 jd2"
    and "distinct (map job_key (rows @ rows2))"
  shows "accounted (rows @ rows2) jd (failed @ failed2) jd2"
proof -
  have "stored jd2 row" if "stored jd1 row" "row \<in> set rows" for row
    using assms(2,3) that unfolding accounted_def by force
  with assms(1,2) show ?thesis
    unfolding accounted_def by (auto simp: list_emb_append_mono) blast+
qed

lemma try_each_result:
  "try_each P now rows c = (failed, c1) \<Longrightarrow> distinct (map job_key rows) \<Longrightarrow> accounted rows (fst c) failed (fst c1)"
proof (induction rows arbitrary: c failed)
  case Nil
  then show ?case by (simp add: accounted_def)
next
  case (Cons row rows)
  obtain ok rows1 c2 where t: "try_rows P now [row] c = ((ok, rows1), c2)" by (metis prod.exhaust)
  obtain failed2 c3 where e: "try_each P now rows c2 = (failed2, c3)" by (rule prod.exhaust)
  have res: "failed = (if ok then [] else rows1) @ failed2" "c1 = c3" using Cons.prems(1) t e by auto
  note one = try_rows_result [OF t]
  obtain row1 where row1: "rows1 = [row1]" "same_job row row1" using one by (auto simp: list_all2_Cons1)
  have "accounted [row] (fst c) (if ok then [] else rows1) (fst c2)"
    using one row1 same_job_key [OF row1(2)] by (auto simp: accounted_def)
  moreover have "accounted rows (fst c2) failed2 (fst c3)" using Cons.IH [of c2 failed2] e res(2) Cons.prems(2) by simp
  ultimately show ?case
    using accounted_append [of "[row]" "fst c" _ "fst c2" rows failed2 "fst c3"] Cons.prems(2) res by simp
qed

lemma accounted_same:
  assumes "accounted rows1 jd failed jd'" and "list_all2 same_job rows rows1"
    and "\<And>row. stored jd0 row \<Longrightarrow> job_key row \<notin> job_key ` set rows \<Longrightarrow> stored jd row"
  shows "accounted rows jd0 failed jd'"
proof -
  have keys: "map job_key rows1 = map job_key rows" "job_key ` set rows1 = job_key ` set rows"
    using keys_of_same [OF assms(2)] by (simp, metis set_map)
  have bwd: "\<exists>row \<in> set rows. same_job row r" if "r \<in> set rows1" for r
    using assms(2) that by (metis in_set_conv_nth list_all2_conv_all_nth)
  have fwd: "\<exists>r \<in> set rows1. same_job row r" if "row \<in> set rows" for row
    using assms(2) that by (metis in_set_conv_nth list_all2_conv_all_nth)
  have sym: "same_job a b \<Longrightarrow> same_job b a" for a b by (simp add: same_job_def)
  have "stored jd' row \<or> (\<exists>f \<in> set failed. same_job row f)" if row: "row \<in> set rows" for row
  proof -
    from fwd [OF row] obtain r where r: "r \<in> set rows1" "same_job row r" by blast
    with assms(1) have "stored jd' r \<or> (\<exists>f \<in> set failed. same_job r f)" by (simp add: accounted_def)
    then show ?thesis using r(2) sym stored_same_job same_job_trans by blast
  qed
  moreover have "\<exists>row \<in> set rows. same_job row f" if "f \<in> set failed" for f
  proof -
    from assms(1) that obtain r where "r \<in> set rows1" "same_job r f" by (auto simp: accounted_def)
    with bwd same_job_trans show ?thesis by blast
  qed
  moreover have "subseq (map job_key failed) (map job_key rows)" using assms(1) keys by (simp add: accounted_def)
  moreover have "stored jd' row" if "stored jd0 row" "job_key row \<notin> job_key ` set rows" for row
    using assms(1) assms(3) [OF that] that(2) keys(2) by (simp add: accounted_def)
  ultimately show ?thesis unfolding accounted_def by blast
qed

lemma write_chunk_result:
  assumes "write_chunk P now chunk c = (failed, c1)" and "distinct (map job_key chunk)"
  shows "accounted chunk (fst c) failed (fst c1)"
proof -
  obtain ok rows1 c2 where t: "try_rows P now chunk c = ((ok, rows1), c2)" by (metis prod.exhaust)
  note first = try_rows_result [OF t]
  show ?thesis
  proof (cases ok)
    case True
    then show ?thesis using first assms(1) t by (simp add: write_chunk_def accounted_def)
  next
    case False
    then have e: "try_each P now rows1 c2 = (failed, c1)" using assms(1) t by (simp add: write_chunk_def)
    have "distinct (map job_key rows1)" using keys_of_same first assms(2) by metis
    from try_each_result [OF e this] show ?thesis
      by (rule accounted_same) (use first False in \<open>auto simp: stored_def\<close>)
  qed
qed

lemma flush_chunk_result:
  assumes "flush_chunk P now chunk s = (Inr failed, s1)" and "distinct (map job_key chunk)"
  shows "accounted chunk (js_db s) failed (js_db s1) \<and> js_pending s1 = js_pending s \<and> js_source s1 = js_source s"
proof -
  obtain s0 where g: "get_conn P s = (Inr (), s0)" "js_db s0 = js_db s" "js_pending s0 = js_pending s"
      "js_source s0 = js_source s"
    using assms(1) by (auto simp: flush_chunk_def mbind_def get_conn_def split: prod.splits if_splits)
  obtain failed' jd p where w: "write_chunk P now chunk (js_db s0, js_pg s0) = (failed', (jd, p))"
    by (metis prod.exhaust)
  from write_chunk_result [OF w assms(2)] g show ?thesis
    using assms(1) w by (auto simp: flush_chunk_def mbind_def)
qed

lemma chunks_concat: "concat (chunks n xs) = xs"
  by (induction n xs rule: chunks.induct) (auto simp: append_take_drop_id)

lemma write_chunks_result:
  "mmap (flush_chunk P now) cs s = (Inr fs, s1) \<Longrightarrow> distinct (map job_key (concat cs)) \<Longrightarrow>
   accounted (concat cs) (js_db s) (concat fs) (js_db s1) \<and> js_pending s1 = js_pending s"
proof (induction cs arbitrary: s fs)
  case Nil
  then show ?case by (simp add: accounted_def)
next
  case (Cons ch cs)
  from Cons.prems(1) obtain f s2 fs2 where f: "flush_chunk P now ch s = (Inr f, s2)"
    and rest: "mmap (flush_chunk P now) cs s2 = (Inr fs2, s1)" and fs: "fs = f # fs2"
    by (auto elim!: mbind_cases)
  have d: "distinct (map job_key ch)" "distinct (map job_key (concat cs))" using Cons.prems(2) by simp_all
  note one = flush_chunk_result [OF f d(1)]
  note two = Cons.IH [OF rest d(2)]
  have "accounted (ch @ concat cs) (js_db s) (f @ concat fs2) (js_db s1)"
    by (rule accounted_append [OF conjunct1 [OF one] conjunct1 [OF two]]) (use Cons.prems(2) in simp)
  with one two fs show ?case by simp
qed

lemma write_batch_result:
  assumes "write_batch P now batch s = (Inr failed, s1)" and "distinct (map job_key batch)"
  shows "accounted batch (js_db s) failed (js_db s1) \<and> js_pending s1 = js_pending s"
proof -
  from assms(1) obtain fs where "mmap (flush_chunk P now) (chunks BATCH_CHUNK batch) s = (Inr fs, s1)" "failed = concat fs"
    by (auto simp: write_batch_def elim!: mbind_cases)
  with write_chunks_result [of P now "chunks BATCH_CHUNK batch" s fs s1] assms(2) show ?thesis
    by (simp add: chunks_concat)
qed



section \<open>The queue as a map\<close>

definition pending_ok :: "pending \<Rightarrow> bool" where
  "pending_ok p \<longleftrightarrow> distinct (map fst p) \<and> (\<forall>(k, row) \<in> set p. job_key row = k)"

abbreviation queued :: "pdict list \<Rightarrow> pending \<Rightarrow> pending" where
  "queued rows p \<equiv> fold (\<lambda>row. dset (job_key row) row) rows p"

text \<open>The last row of a key.\<close>

definition newest :: "pdict list \<Rightarrow> pv \<times> pv \<Rightarrow> pdict option" where
  "newest rows k = find (\<lambda>row. job_key row = k) (rev rows)"

lemma newest_snoc: "newest (rows @ [row]) k = (if job_key row = k then Some row else newest rows k)"
  by (simp add: newest_def)

lemma newest_Some: "newest rows k = Some row \<Longrightarrow> row \<in> set rows \<and> job_key row = k"
  by (auto simp: newest_def find_Some_iff) (metis length_rev nth_mem set_rev)

lemma newest_mem: "row \<in> set rows \<Longrightarrow> newest rows (job_key row) \<noteq> None"
  by (auto simp: newest_def find_None_iff)

lemma map_of_queued: "map_of (queued rows p) k = (case newest rows k of None \<Rightarrow> map_of p k | Some row \<Rightarrow> Some row)"
  by (induction rows rule: rev_induct) (simp_all add: newest_snoc newest_def)

lemma pending_ok_dset: "pending_ok p \<Longrightarrow> pending_ok (dset (job_key row) row p)"
proof -
  assume p: "pending_ok p"
  then have d: "distinct (map fst (dset (job_key row) row p))"
    using wf_dict_dset [of "job_key row" row p] by (simp add: pending_ok_def wf_dict_def)
  moreover have "job_key r = k" if "(k, r) \<in> set (dset (job_key row) row p)" for k r
  proof -
    have "map_of (dset (job_key row) row p) k = Some r" using map_of_is_SomeI [OF d that] .
    then show ?thesis using p by (auto simp: pending_ok_def split: if_splits dest: map_of_SomeD)
  qed
  ultimately show ?thesis by (auto simp: pending_ok_def)
qed

lemma pending_ok_queued: "pending_ok p \<Longrightarrow> pending_ok (queued rows p)"
  by (induction rows arbitrary: p) (auto intro: pending_ok_dset)

lemma pending_ok_dupdate: "pending_ok p \<Longrightarrow> pending_ok q \<Longrightarrow> pending_ok (dupdate p q)"
proof (induction q arbitrary: p)
  case (Cons kr q)
  obtain k r where kr: "kr = (k, r)" by (cases kr)
  have "job_key r = k" "pending_ok q" using Cons.prems(2) kr by (auto simp: pending_ok_def)
  then show ?case using Cons.IH [of "dset (job_key r) r p"] pending_ok_dset [OF Cons.prems(1), of r] kr
    by (simp add: dupdate_def)
qed (simp add: dupdate_def)

lemma pending_rows_distinct: "pending_ok p \<Longrightarrow> distinct (map job_key (map snd p))"
proof -
  assume p: "pending_ok p"
  then have "map job_key (map snd p) = map fst p" by (auto simp: pending_ok_def)
  moreover have "distinct (map fst p)" using p by (simp add: pending_ok_def)
  ultimately show ?thesis by (simp only:)
qed


lemma subseq_distinct_keys: "subseq xs ys \<Longrightarrow> distinct ys \<Longrightarrow> distinct xs"
  by (induction rule: list_emb.induct) (auto dest: list_emb_set)

section \<open>The invariant of the tables\<close>

text \<open>
  The keys of both tables are unique, the key columns are given, users referred to exist, and
  identifiers are at most the sequence's last.
\<close>

definition row_id :: "pdict \<Rightarrow> int" where
  "row_id r = (case dget ''id'' r of VInt n \<Rightarrow> n | _ \<Rightarrow> 0)"

definition jobs_ok :: "jobs_db \<Rightarrow> bool" where
  "jobs_ok jd \<longleftrightarrow> consistent (jd_base jd) \<and> distinct (map job_key (jd_rows jd)) \<and> distinct (map row_id (jd_rows jd))
     \<and> (\<forall>r \<in> set (jd_rows jd). key_given r \<and> user_exists (jd_base jd) r \<and> row_id r \<le> jd_seq jd)"

text \<open>
  What writing keeps of the rows: a row stays, with its identifier, its key and the columns that are
  set once, and a column that is coalesced does not become null.
\<close>

definition FIXED :: "string list" where
  "FIXED = [''id'', ''job_id'', ''submit_time'', ''first_seen'', ''job_name'', ''account'', ''group'', ''tres_req_str'',
     ''tres_per_job'', ''tres_per_node'']"

definition kept_row :: "pdict \<Rightarrow> pdict \<Rightarrow> bool" where
  "kept_row r r' \<longleftrightarrow> (\<forall>c \<in> set FIXED. dget c r' = dget c r)
     \<and> (\<forall>c \<in> set COALESCED. dget c r \<noteq> VNone \<longrightarrow> dget c r' \<noteq> VNone)"

definition rows_kept :: "jobs_db \<Rightarrow> jobs_db \<Rightarrow> bool" where
  "rows_kept jd jd' \<longleftrightarrow> (\<forall>r \<in> set (jd_rows jd). \<exists>r' \<in> set (jd_rows jd'). kept_row r r')"

lemma kept_row_refl [simp]: "kept_row r r"
  by (simp add: kept_row_def)

lemma rows_kept_refl [simp]: "rows_kept jd jd"
  unfolding rows_kept_def using kept_row_refl by blast

lemma rows_kept_append: "rows_kept jd (jd\<lparr>jd_seq := n, jd_rows := jd_rows jd @ new\<rparr>)"
  unfolding rows_kept_def by (simp add: kept_row_refl bex_Un) (blast intro: kept_row_refl)

lemma rows_kept_trans: "rows_kept a b \<Longrightarrow> rows_kept b c \<Longrightarrow> rows_kept a c"
  unfolding rows_kept_def kept_row_def by (metis (no_types, lifting))

lemma rows_kept_map: "(\<And>r. kept_row r (f r)) \<Longrightarrow> jd_rows jd' = map f (jd_rows jd) \<Longrightarrow> rows_kept jd jd'"
  unfolding rows_kept_def by simp blast

lemma jobs_ok_map:
  assumes "jobs_ok jd" and "\<And>r. job_key (f r) = job_key r" and "\<And>r. row_id (f r) = row_id r"
    and "\<And>r. r \<in> set (jd_rows jd) \<Longrightarrow> key_given (f r) \<and> user_exists (jd_base jd) (f r)" and "jd_seq jd \<le> n"
  shows "jobs_ok (jd\<lparr>jd_seq := n, jd_rows := map f (jd_rows jd)\<rparr>)"
proof -
  have "map job_key (map f (jd_rows jd)) = map job_key (jd_rows jd)" "map row_id (map f (jd_rows jd)) = map row_id (jd_rows jd)"
    using assms(2,3) by simp_all
  moreover have "row_id r \<le> n" if "r \<in> set (jd_rows jd)" for r
    using assms(1,5) that by (force simp: jobs_ok_def)
  ultimately show ?thesis using assms(1,3,4) unfolding jobs_ok_def by (auto simp del: map_map)
qed

lemma FIXED_columns: "c \<in> set FIXED \<Longrightarrow> c \<notin> set OVERWRITTEN \<and> c \<notin> set COALESCED \<and> c \<noteq> ''last_seen''"
  "c \<in> set COALESCED \<Longrightarrow> c \<notin> set OVERWRITTEN"
  by (auto simp: FIXED_def OVERWRITTEN_def COALESCED_def)

lemma kept_updated: "kept_row r (updated_row now new r)"
  unfolding kept_row_def using FIXED_columns by (simp add: updated_row_dget coalesce_def)

lemma row_id_updated [simp]: "row_id (updated_row now new old) = row_id old"
  by (simp add: row_id_def updated_row_dget OVERWRITTEN_def COALESCED_def)

lemma row_id_inserted [simp]: "row_id (inserted_row n now row) = n"
  by (simp add: row_id_def inserted_row_dget)

lemma row_fields:
  "key_given (updated_row now new old) = key_given old" "user_exists db (updated_row now new old) = user_exists db new"
  "key_given (inserted_row n now row) = key_given row" "user_exists db (inserted_row n now row) = user_exists db row"
  by (simp_all add: key_given_def user_exists_def updated_row_dget inserted_row_dget key_columns
      OVERWRITTEN_def SNAPSHOT_COLUMNS_def)

lemma upsert_ok:
  assumes "jobs_ok jd" and "key_given row" and "user_exists (jd_base jd) row"
  shows "jobs_ok (upsert_snapshot now row jd) \<and> rows_kept jd (upsert_snapshot now row jd)"
proof (cases "job_key row \<in> job_key ` set (jd_rows jd)")
  case True
  let ?f = "\<lambda>r. if job_key r = job_key row then updated_row now row r else r"
  have "upsert_snapshot now row jd = jd\<lparr>jd_seq := jd_seq jd + 1, jd_rows := map ?f (jd_rows jd)\<rparr>"
    using True by (simp add: upsert_snapshot_def Let_def)
  moreover have "rows_kept jd (jd\<lparr>jd_seq := jd_seq jd + 1, jd_rows := map ?f (jd_rows jd)\<rparr>)"
    by (rule rows_kept_map [of ?f]) (simp_all add: kept_updated)
  moreover have "jobs_ok (jd\<lparr>jd_seq := jd_seq jd + 1, jd_rows := map ?f (jd_rows jd)\<rparr>)"
    by (rule jobs_ok_map) (use assms in \<open>auto simp: jobs_ok_def row_fields\<close>)
  ultimately show ?thesis by (simp only:)
next
  case False
  have "row_id r \<noteq> jd_seq jd + 1" if "r \<in> set (jd_rows jd)" for r
    using assms(1) that by (force simp: jobs_ok_def)
  then have new: "jd_seq jd + 1 \<notin> row_id ` set (jd_rows jd)" by (metis imageE)
  have "upsert_snapshot now row jd
      = jd\<lparr>jd_seq := jd_seq jd + 1, jd_rows := jd_rows jd @ [inserted_row (jd_seq jd + 1) now row]\<rparr>"
    using False by (simp add: upsert_snapshot_def Let_def)
  with assms False new rows_kept_append show ?thesis
    by (auto simp: jobs_ok_def row_fields)
qed

lemma upsert_base [simp]: "jd_base (upsert_snapshot now row jd) = jd_base jd"
  by (simp add: upsert_snapshot_def Let_def)

lemma upserts_ok:
  "jobs_ok jd \<Longrightarrow> list_all key_given rows \<Longrightarrow> list_all (user_exists (jd_base jd)) rows \<Longrightarrow>
   jobs_ok (fold (upsert_snapshot now) rows jd) \<and> rows_kept jd (fold (upsert_snapshot now) rows jd)"
proof (induction rows arbitrary: jd)
  case (Cons row rows)
  have "jobs_ok (upsert_snapshot now row jd)" "rows_kept jd (upsert_snapshot now row jd)"
    using upsert_ok [of jd row now] Cons.prems by simp_all
  with Cons show ?case by (auto intro: rows_kept_trans)
qed simp

lemma insert_user_keeps:
  "db_ok db \<and> roles_valid db \<Longrightarrow> consistent (insert_user now name db) \<and> us_id ` set (db_users db) \<subseteq> us_id ` set (db_users (insert_user now name db))
     \<and> seqs_grow db (insert_user now name db)"
proof -
  assume ok: "db_ok db \<and> roles_valid db"
  have "consistent (insert_user now name db)"
    unfolding insert_user_def by (rule keepsD [OF upsert_user_ok ok]) simp_all
  moreover have "us_id ` set (db_users db) \<subseteq> us_id ` set (db_users (insert_user now name db))"
    by (auto simp: insert_user_def upsert_user_def Let_def split: option.split)
  moreover have "seqs_grow db (insert_user now name db)"
    unfolding insert_user_def by (rule keepsD [OF keeps_seqs_upsert_user]) simp
  ultimately show ?thesis by simp
qed

lemma insert_users_keep:
  "db_ok db \<and> roles_valid db \<Longrightarrow> consistent (fold (insert_user now) names db)
     \<and> us_id ` set (db_users db) \<subseteq> us_id ` set (db_users (fold (insert_user now) names db))
     \<and> seqs_grow db (fold (insert_user now) names db)"
proof (induction names arbitrary: db)
  case (Cons name names)
  note one = insert_user_keeps [OF Cons.prems, of now name]
  note two = Cons.IH [OF conjunct1 [OF one]]
  from one two show ?case unfolding fold_Cons comp_def seqs_grow_def by (meson order_trans subset_trans)
qed simp

lemma user_exists_mono: "us_id ` set (db_users a) \<subseteq> us_id ` set (db_users b) \<Longrightarrow> user_exists a r \<Longrightarrow> user_exists b r"
  by (auto simp: user_exists_def split: pv.splits)

lemma ensure_users_ok:
  assumes "ensure_users P now rows c = (r, c1)" and "jobs_ok (fst c)"
  shows "jobs_ok (fst c1) \<and> jd_rows (fst c1) = jd_rows (fst c) \<and> seqs_grow (jd_base (fst c)) (jd_base (fst c1))
    \<and> jd_seq (fst c1) = jd_seq (fst c)"
proof -
  have "consistent (jd_base (fst c))" using assms(2) by (simp add: jobs_ok_def)
  note ins = insert_users_keep [OF this]
  have "jobs_ok (jd\<lparr>jd_base := fold (insert_user now) names (jd_base jd)\<rparr>)" if "jd = fst c" for names jd
    using assms(2) ins [of now names] user_exists_mono [OF conjunct1 [OF conjunct2 [OF ins [of now names]]]] that
    by (auto simp: jobs_ok_def)
  then show ?thesis
    using assms ins by (cases c) (auto simp: ensure_users_def mbind_def runs_def split: sum.splits if_splits prod.splits)
qed

lemma rolled_back_ok:
  assumes "jobs_ok jd" and "seqs_grow (jd_base jd) (jd_base jd')" and "jd_seq jd \<le> jd_seq jd'"
  shows "jobs_ok (rolled_back jd jd')" and "jd_rows (rolled_back jd jd') = jd_rows jd"
proof -
  have "consistent ((jd_base jd)\<lparr>users_seq := users_seq (jd_base jd'), roles_seq := roles_seq (jd_base jd')\<rparr>)"
    using assms(1,2) db_ok_seq [of "jd_base jd"] by (auto simp: jobs_ok_def seqs_grow_def roles_valid_def)
  moreover have "user_exists ((jd_base jd)\<lparr>users_seq := m, roles_seq := n\<rparr>) r = user_exists (jd_base jd) r" for m n r
    by (simp add: user_exists_def split: pv.split)
  moreover have "row_id r \<le> jd_seq jd'" if "r \<in> set (jd_rows jd)" for r
    using assms(1,3) that by (force simp: jobs_ok_def)
  ultimately show "jobs_ok (rolled_back jd jd')"
    using assms(1) by (simp add: jobs_ok_def rolled_back_def)
  show "jd_rows (rolled_back jd jd') = jd_rows jd" by (simp add: rolled_back_def)
qed


section \<open>What writing keeps\<close>

lemma upsert_seq: "jd_seq (upsert_snapshot now row jd) = jd_seq jd + 1"
  by (simp add: upsert_snapshot_def Let_def)

lemma upserts_seq: "jd_seq jd \<le> jd_seq (fold (upsert_snapshot now) rows jd)"
proof (induction rows arbitrary: jd)
  case (Cons row rows)
  from Cons [of "upsert_snapshot now row jd"] show ?case by (simp add: upsert_seq)
qed simp

lemma upserts_base: "jd_base (fold (upsert_snapshot now) rows jd) = jd_base jd"
  by (induction rows arbitrary: jd) simp_all

definition written :: "jobs_db \<Rightarrow> jobs_db \<Rightarrow> bool" where
  "written jd jd' \<longleftrightarrow> jobs_ok jd' \<and> rows_kept jd jd'"

lemma write_statement_ok:
  assumes "write_statement P now rows c = (r, c1)" and "jobs_ok (fst c)"
  shows "written (fst c) (fst c1) \<and> jd_seq (fst c) \<le> jd_seq (fst c1) \<and> jd_base (fst c1) = jd_base (fst c)"
proof -
  obtain jd p where c: "c = (jd, p)" by (cases c)
  have "fst c1 = jd \<or> (\<exists>db_rows. statement_ok (jd_base jd) db_rows \<and> fst c1 = fold (upsert_snapshot now) db_rows jd)"
    using assms(1) c
    by (auto simp: write_statement_def mbind_def runs_def split: sum.splits prod.splits if_splits)
  then show ?thesis
    using upserts_ok [of jd _ now] assms(2) c
    by (auto simp: written_def statement_ok_def upserts_seq upserts_base)
qed

lemma try_rows_ok:
  assumes "try_rows P now rows c = (res, c1)" and "jobs_ok (fst c)"
  shows "written (fst c) (fst c1)"
proof -
  obtain r cu where u: "ensure_users P now rows c = (r, cu)" by (rule prod.exhaust)
  note users = ensure_users_ok [OF u assms(2)]
  have same: "rows_kept (fst c) jd" if "jd_rows jd = jd_rows (fst c)" for jd
    using that by (auto intro: rows_kept_map [of "\<lambda>r. r"])
  show ?thesis
  proof (cases r)
    case (Inl e)
    have "fst c1 = rolled_back (fst c) (fst cu)" using assms(1) u Inl by (cases cu) (auto simp: try_rows_def)
    with rolled_back_ok [of "fst c" "fst cu"] users assms(2) same show ?thesis by (simp add: written_def)
  next
    case (Inr rows1)
    obtain q cw where w: "write_statement P now rows1 cu = (q, cw)" by (rule prod.exhaust)
    note wr = write_statement_ok [OF w conjunct1 [OF users]]
    show ?thesis
    proof (cases q)
      case (Inl e)
      have "fst c1 = rolled_back (fst c) (fst cw)" using assms(1) u Inr w Inl by (cases cw) (auto simp: try_rows_def)
      with rolled_back_ok [of "fst c" "fst cw"] users wr assms(2) same show ?thesis by (simp add: written_def)
    next
      case (Inr x)
      have "c1 = cw" using assms(1) u \<open>r = Inr rows1\<close> w Inr by (simp add: try_rows_def)
      with wr users same [of "fst cu"] show ?thesis by (auto simp: written_def intro: rows_kept_trans)
    qed
  qed
qed

lemma written_trans: "written a b \<Longrightarrow> written b c \<Longrightarrow> written a c"
  by (auto simp: written_def intro: rows_kept_trans)

lemma try_each_ok: "try_each P now rows c = (failed, c1) \<Longrightarrow> jobs_ok (fst c) \<Longrightarrow> written (fst c) (fst c1)"
proof (induction rows arbitrary: c failed)
  case Nil
  then show ?case by (simp add: written_def)
next
  case (Cons row rows)
  obtain ok rows1 c2 where t: "try_rows P now [row] c = ((ok, rows1), c2)" by (metis prod.exhaust)
  obtain failed2 c3 where e: "try_each P now rows c2 = (failed2, c3)" by (rule prod.exhaust)
  have one: "written (fst c) (fst c2)" using try_rows_ok [OF t Cons.prems(2)] .
  have "c1 = c3" using Cons.prems(1) t e by auto
  with Cons.IH [of c2 failed2] e one show ?case by (auto simp: written_def intro: rows_kept_trans)
qed

lemma write_chunk_ok: "write_chunk P now chunk c = (failed, c1) \<Longrightarrow> jobs_ok (fst c) \<Longrightarrow> written (fst c) (fst c1)"
proof -
  assume run: "write_chunk P now chunk c = (failed, c1)" and ok: "jobs_ok (fst c)"
  obtain committed rows1 c2 where t: "try_rows P now chunk c = ((committed, rows1), c2)" by (metis prod.exhaust)
  have one: "written (fst c) (fst c2)" using try_rows_ok [OF t ok] .
  show "written (fst c) (fst c1)"
  proof (cases committed)
    case True
    then show ?thesis using run t one by (simp add: write_chunk_def)
  next
    case False
    then have "try_each P now rows1 c2 = (failed, c1)" using run t by (simp add: write_chunk_def)
    from try_each_ok [OF this] one show ?thesis by (auto simp: written_def intro: rows_kept_trans)
  qed
qed

text \<open>The invariant of the object: its tables, whatever the method does and raises.\<close>

abbreviation written_since :: "jobs_db \<Rightarrow> ('x, 'p) jobs_store \<Rightarrow> bool" where
  "written_since jd \<equiv> \<lambda>s. written jd (js_db s)"

lemma keeps_get_conn [keeps_intros]: "keeps (written_since jd) (get_conn P)"
  by (intro keepsI) (auto simp: get_conn_def split: prod.splits)

lemma keeps_flush_chunk [keeps_intros]:
  fixes P :: "'p postgres"
  shows "keeps (written_since jd) (flush_chunk P now chunk)"
  unfolding flush_chunk_def
proof (intro keeps_mbind keeps_get_conn keepsI)
  fix s :: "('x, 'p) jobs_store" assume w: "written jd (js_db s)"
  obtain failed jd1 p where c: "write_chunk P now chunk (js_db s, js_pg s) = (failed, (jd1, p))" by (metis prod.exhaust)
  from write_chunk_ok [OF c] w have "written (js_db s) jd1" by (simp add: written_def)
  with w show "written jd (js_db (snd (case write_chunk P now chunk (js_db s, js_pg s) of
      (failed, jda, p) \<Rightarrow> (Inr failed, s\<lparr>js_db := jda, js_pg := p\<rparr>))))"
    using c written_trans by simp
qed

lemma keeps_queue [keeps_intros]: "keeps (written_since jd) (mupd (queue_rows rows))"
  "keeps (written_since jd) (mupd (requeue rows))" "keeps (written_since jd) take_batch"
  by (auto intro!: keepsI simp: queue_rows_def requeue_def take_batch_def)

lemma keeps_on_source [keeps_intros]: "keeps (written_since jd) (on_source m)"
  by (intro keepsI) (auto simp: on_source_def split: prod.splits)

lemma keeps_flush [keeps_intros]: "keeps (written_since jd) (flush P now)"
  unfolding flush_def write_batch_def by (intro keeps_intros)

lemma keeps_submit [keeps_intros]: "keeps (written_since jd) (submit_jobs jobs)"
  unfolding submit_jobs_def by (intro keeps_intros)

lemma keeps_active [keeps_intros]: "keeps (written_since jd) (active_records P)"
  unfolding active_records_def by (intro keeps_intros)

lemma keeps_refresh [keeps_intros]: "keeps (written_since jd) (refresh_missing_active_job src record)"
  unfolding refresh_missing_active_job_def by (intro keeps_intros) (auto intro!: keeps_intros split: sum.split)

lemma keeps_reconcile [keeps_intros]: "keeps (written_since jd) (reconcile_missing_active_jobs P source t rows)"
  unfolding reconcile_missing_active_jobs_def
  by (auto split: option.split intro!: keeps_intros)

lemma keeps_snapshot [keeps_intros]: "keeps (written_since jd) (scheduled_snapshot P source now)"
  unfolding scheduled_snapshot_def by (auto split: option.split intro!: keeps_intros)

section \<open>Properties of the flush\<close>

lemma flush_result:
  assumes "pending_ok (js_pending s)"
    and "take_batch s = (Inr batch, s1)" and "write_batch P now batch s1 = (Inr failed, s2)"
    and "final = requeue failed (queue_rows new s2)"
  shows "pending_ok (js_pending final)
    \<and> (\<forall>row \<in> set new. map_of (js_pending final) (job_key row) = newest new (job_key row))
    \<and> (\<forall>(k, row) \<in> set (js_pending s). stored (js_db final) row
         \<or> (\<exists>row'. map_of (js_pending final) k = Some row' \<and> (row' \<in> set new \<or> same_job row row')))
    \<and> (new = [] \<longrightarrow> flush P now s = (Inr (), final))"
proof -
  have batch: "batch = map snd (js_pending s)" "js_pending s1 = []" "js_db s1 = js_db s" using assms(2)
    by (auto simp: take_batch_def)
  note acc = write_batch_result [OF assms(3) pending_rows_distinct [OF assms(1), folded batch(1)]]
  have failed_distinct: "distinct (map job_key failed)"
    using acc pending_rows_distinct [OF assms(1), folded batch(1)] unfolding accounted_def by (meson subseq_distinct_keys)
  have empty: "pending_ok []" by (simp add: pending_ok_def)
  have pend2: "js_pending (queue_rows new s2) = queued new []" using acc batch(2) by (simp add: queue_rows_def)
  have final: "js_pending final = (if failed = [] then queued new [] else dupdate (queued failed []) (queued new []))"
    "js_db final = js_db s2"
    using pend2 by (simp_all add: assms(4) requeue_def) (simp_all add: queue_rows_def)
  have ok: "pending_ok (js_pending final)"
    unfolding final(1) using pending_ok_queued [OF empty] pending_ok_dupdate by auto
  have wf: "wf_dict (queued new [])" using pending_ok_queued [OF empty, of new] by (simp add: pending_ok_def wf_dict_def)
  have look: "map_of (js_pending final) k = (case newest new k of Some r \<Rightarrow> Some r | None \<Rightarrow> newest failed k)" for k
    by (simp add: final(1) map_of_dupdate [OF wf] map_of_queued map_add_def newest_def split: option.split)
  have "stored (js_db final) row \<or> (\<exists>row'. map_of (js_pending final) k = Some row' \<and> (row' \<in> set new \<or> same_job row row'))"
    if mem: "(k, row) \<in> set (js_pending s)" for k row
  proof -
    have key: "job_key row = k" using assms(1) mem by (auto simp: pending_ok_def)
    have "row \<in> set batch" using mem batch(1) by force
    then consider "stored (js_db s2) row" | f where "f \<in> set failed" "same_job row f"
      using acc by (auto simp: accounted_def)
    then show ?thesis
    proof cases
      case 2
      then have fk: "job_key f = k" using same_job_key key by metis
      then obtain f' where f': "newest failed k = Some f'" using newest_mem [OF 2(1)] by auto
      then have "f' = f" using newest_Some [OF f'] 2(1) fk failed_distinct
        by (metis distinct_map inj_on_eq_iff)
      then show ?thesis using look [of k] f' 2(2) newest_Some [of new k] by (cases "newest new k") auto
    qed (simp add: final(2))
  qed
  moreover have "map_of (js_pending final) (job_key row) = newest new (job_key row)" if "row \<in> set new" for row
    using look newest_mem [OF that] by auto
  moreover have "flush P now s = (Inr (), final)" if "new = []"
  proof -
    have "queue_rows [] s2 = s2" by (simp add: queue_rows_def)
    then have "final = requeue failed s2" using assms(4) that by simp
    moreover have "batch = [] \<Longrightarrow> failed = [] \<and> s2 = s1" using assms(3) by (simp add: write_batch_def mbind_def)
    ultimately show ?thesis using assms(2,3) by (auto simp: flush_def mbind_def requeue_def)
  qed
  ultimately show ?thesis using ok by auto
qed


text \<open>
  Without a connection the batch is gone: it has left the queue, and the exception of \<open>_get_conn\<close>
  passes through the flush, which does not queue it again.
\<close>

lemma flush_without_connection:
  assumes "js_pending s \<noteq> []" and "pg_connect P (js_pg s) = (False, p)"
  shows "flush P now s = (Inl (BackendError ''OperationalError''), s\<lparr>js_pending := [], js_pg := p\<rparr>)"
proof -
  obtain x xs where "map snd (js_pending s) = x # xs" using assms(1) by (cases "js_pending s") auto
  moreover obtain c cs where "chunks BATCH_CHUNK (x # xs) = c # cs" by (simp add: BATCH_CHUNK_def)
  ultimately show ?thesis using assms(2)
    by (simp add: flush_def take_batch_def write_batch_def mbind_def flush_chunk_def get_conn_def)
qed

text \<open>A server that refuses the rows of job 2, and two queued rows.\<close>

definition demo_postgres :: "unit postgres" where
  "demo_postgres = \<lparr>pg_connect = \<lambda>p. (True, p), pg_runs = \<lambda>rows p. (list_all (\<lambda>r. dget ''job_id'' r \<noteq> VInt 2) rows, p)\<rparr>"

definition demo_row :: "int \<Rightarrow> string \<Rightarrow> pdict" where
  "demo_row n state = [(''job_id'', VInt n), (''submit_time'', VTime 5), (''job_state'', VStr state)]"

definition demo_store :: "(unit, unit) jobs_store" where
  "demo_store = queue_rows [demo_row 1 ''RUNNING'', demo_row 2 ''RUNNING'', demo_row 3 ''RUNNING'']
     \<lparr>js_pending = [], js_last_cleanup = 0, js_source = (),
      js_db = \<lparr>jd_base = empty_db, jd_rows = [], jd_seq = 0\<rparr>, js_pg = ()\<rparr>"


end
