(* ===== verification/HistoryFields.thy ===== *)
theory HistoryFields
  imports JobRows
begin

text \<open>
  What the fields of a history row are: exit codes in a normal form, metrics rounded half up, the
  usage statistics of the steps of a job.
\<close>

section \<open>Exit codes are in normal form\<close>

lemma normalize_number_dict:
  "\<exists>a b c. normalize_number v = VDict [(''set'', a), (''infinite'', b), (''number'', c)]"
  by (cases v) (auto simp: normalize_number_def optional_number_dict_def split: option.splits)

lemma normalize_number_idem: "normalize_number (normalize_number v) = normalize_number v"
  using normalize_number_dict [of v] by (auto simp: normalize_number_def [of "VDict _"] dget_or_def)

lemma exit_dict_again:
  assumes "normalize_number rc = rc" and "normalize_number sid = sid" and "list_all (\<lambda>v. \<exists>s. v = VStr s \<and> s \<noteq> []) xs"
  shows "normalize_history_exit_code (exit_dict rc sid name (VList xs)) = exit_dict rc sid name (VList xs)"
proof -
  have "filter (\<lambda>i. \<not> none_or_empty i) xs = xs" "map (\<lambda>i. VStr (py_str i)) xs = xs"
    using assms(3) by (auto simp: list_all_iff none_or_empty_def intro!: filter_True map_idI)
  then show ?thesis
    using assms(1,2)
    by (simp add: normalize_history_exit_code.simps [of "VDict _"] exit_dict_def normalize_exit_dict_def
        dget_or_def has_key_def Let_def)
qed

lemma digits_str_nonempty: "int_str n \<noteq> []"
  using py_parse_int_str [of n] by (auto simp: py_parse_int_def py_strip_def)

lemma repr_nonempty: "iso_text c t \<noteq> []" "float_str q \<noteq> []" "repr_str s \<noteq> []"
  by (simp_all add: iso_text_def float_str_def repr_str_def Let_def case_prod_beta)

lemma py_str_nonempty: "\<not> none_or_empty i \<Longrightarrow> py_str i \<noteq> []"
  by (cases i) (simp_all add: none_or_empty_def digits_str_nonempty repr_nonempty)

lemma success_text_list: "\<exists>xs. success_text rc = VList xs \<and> list_all (\<lambda>v. \<exists>s. v = VStr s \<and> s \<noteq> []) xs"
  by (simp add: success_text_def)

lemma normalize_exit_dict_shape:
  "\<exists>rc sid name xs. normalize_exit_dict d = exit_dict rc sid name (VList xs) \<and> normalize_number rc = rc
     \<and> normalize_number sid = sid \<and> list_all (\<lambda>v. \<exists>s. v = VStr s \<and> s \<noteq> []) xs"
proof -
  have "\<exists>xs. (case dget ''status'' d of
               VList xs \<Rightarrow> VList (map (\<lambda>i. VStr (py_str i)) (filter (\<lambda>i. \<not> none_or_empty i) xs))
             | VStr s \<Rightarrow> if s \<noteq> [] then VList [VStr s] else success_text rc
             | _ \<Rightarrow> success_text rc) = VList xs \<and> list_all (\<lambda>v. \<exists>s. v = VStr s \<and> s \<noteq> []) xs" for rc
    using success_text_list [of rc] py_str_nonempty by (auto simp: list_all_iff split: pv.split)
  then obtain xs where "(case dget ''status'' d of
               VList xs \<Rightarrow> VList (map (\<lambda>i. VStr (py_str i)) (filter (\<lambda>i. \<not> none_or_empty i) xs))
             | VStr s \<Rightarrow> if s \<noteq> [] then VList [VStr s] else success_text (int_field (dget ''return_code'' d))
             | _ \<Rightarrow> success_text (int_field (dget ''return_code'' d))) = VList xs"
      "list_all (\<lambda>v. \<exists>s. v = VStr s \<and> s \<noteq> []) xs" by blast
  moreover obtain name sid where "(case dget ''signal'' d of
           VDict s \<Rightarrow> (dget_or ''name'' (VStr []) s,
             if has_key ''id'' s then dget ''id'' s
             else if has_key ''signal_id'' s then dget ''signal_id'' s else VNone)
         | _ \<Rightarrow> (VStr [], dget ''signal'' d)) = (name, sid)" by (rule prod.exhaust)
  ultimately have "normalize_exit_dict d
      = exit_dict (normalize_number (dget ''return_code'' d)) (normalize_number sid) name (VList xs)"
    unfolding normalize_exit_dict_def Let_def by (simp only: prod.case)
  then show ?thesis
    by (intro exI conjI) (assumption, (rule normalize_number_idem)+, rule \<open>list_all _ xs\<close>)
qed

lemma normalize_optional_number: "normalize_number (optional_number_dict x) = optional_number_dict x"
  by (cases x) (simp_all add: normalize_number_def optional_number_dict_def dget_or_def)

lemma exit_text_again:
  assumes "\<forall>parsed. json_loads s = Inr parsed \<longrightarrow> normalize_history_exit_code parsed = VNone"
    and "py_strip s = s" and "s \<noteq> []"
  shows "normalize_history_exit_code (exit_text_value s) = exit_text_value s"
proof (cases "match_exit_text s")
  case None
  then show ?thesis using assms
    by (auto simp: exit_text_value_def normalize_history_exit_code.simps [of "VStr _"] Let_def split: sum.split)
next
  case (Some m)
  obtain n k where m: "m = (n, k)" by (cases m)
  obtain xs where xs: "success_text (Some n) = VList xs" "list_all (\<lambda>v. \<exists>s. v = VStr s \<and> s \<noteq> []) xs"
    using success_text_list by blast
  then show ?thesis using Some m by (simp add: exit_text_value_def exit_dict_again normalize_optional_number)
qed

text \<open>
  C34. An exit code of the history is normalised once when a row is read and again by the view, for a
  value of any form: the second pass changes nothing.
\<close>

theorem exit_code_normalized_once:
  "normalize_history_exit_code (normalize_history_exit_code v) = normalize_history_exit_code v"
proof (induction v rule: normalize_history_exit_code.induct)
  case (1 v)
  show ?case
  proof (cases v)
    case (VStr s)
    consider "py_strip s = []" | parsed where "json_loads (py_strip s) = Inr parsed" "py_strip s \<noteq> []"
        "normalize_history_exit_code parsed \<noteq> VNone"
      | "\<forall>parsed. json_loads (py_strip s) = Inr parsed \<longrightarrow> normalize_history_exit_code parsed = VNone" "py_strip s \<noteq> []"
      by blast
    then show ?thesis
    proof cases
      case 1
      then show ?thesis using VStr by (simp add: normalize_history_exit_code.simps)
    next
      case 2
      then have "normalize_history_exit_code v = normalize_history_exit_code parsed"
        using VStr by (simp add: normalize_history_exit_code.simps [of "VStr _"] Let_def)
      with "1.IH" [OF VStr refl 2(2,1)] show ?thesis by simp
    next
      case 3
      then have "normalize_history_exit_code v = exit_text_value (py_strip s)"
        using VStr by (auto simp: normalize_history_exit_code.simps [of "VStr _"] Let_def split: sum.split)
      with exit_text_again [OF 3(1)] 3(2) show ?thesis by simp
    qed
  next
    case (VDict d)
    with normalize_exit_dict_shape [of d] show ?thesis
      by (auto simp: normalize_history_exit_code.simps [of "VDict d"] exit_dict_again)
  qed (simp_all add: normalize_history_exit_code.simps)
qed

lemma json_dict_stripped: "py_strip (json_text (VDict d)) = json_text (VDict d)"
proof (rule py_strip_stripped)
  show "stripped (json_text (VDict d))"
    by (simp add: stripped_def is_space_def)
qed

text \<open>
  The text that a row stores for an exit code gives, when it is read, the normal form of the exit
  code the job had.
\<close>

theorem exit_code_stored:
  assumes "json_exact (VDict d)" and "exit_str (VDict d) = Inr stored_text"
  shows "normalize_history_exit_code stored_text = normalize_exit_dict d
    \<and> normalize_history_exit_code stored_text = normalize_history_exit_code (VDict d)"
proof -
  have t: "stored_text = VStr (json_text (VDict d))"
    using assms(2) exact_no_time [OF assms(1)] by (simp add: exit_str_def json_dumps_def)
  have "json_loads (json_text (VDict d)) = Inr (VDict d)"
    using json_round_trip [OF assms(1)] exact_no_time [OF assms(1)] by (simp add: json_dumps_def del: json_text.simps)
  moreover have "json_text (VDict d) \<noteq> []" by simp
  moreover have n: "normalize_history_exit_code (VDict d) = normalize_exit_dict d"
    by (simp add: normalize_history_exit_code.simps)
  moreover have "normalize_exit_dict d \<noteq> VNone"
    using normalize_exit_dict_shape [of d] by (auto simp: exit_dict_def)
  ultimately have "normalize_history_exit_code stored_text = normalize_exit_dict d"
    unfolding t by (subst normalize_history_exit_code.simps) (simp add: json_dict_stripped Let_def del: json_text.simps)
  with n show ?thesis by simp
qed

theorem exit_code_stored_witness:
  "normalize_history_exit_code (VStr (json_text (VDict [(''return_code'', VInt 2), (''status'', VStr ''X'')])))
     = normalize_exit_dict [(''return_code'', VInt 2), (''status'', VStr ''X'')]"
proof -
  have "json_exact (VDict [(''return_code'', VInt 2), (''status'', VStr ''X'')])" by simp
  moreover have "exit_str (VDict [(''return_code'', VInt 2), (''status'', VStr ''X'')])
      = Inr (VStr (json_text (VDict [(''return_code'', VInt 2), (''status'', VStr ''X'')])))"
    by (simp add: exit_str_def json_dumps_def del: json_text.simps)
  ultimately show ?thesis by (rule exit_code_stored [THEN conjunct1])
qed


section \<open>Metrics\<close>

lemma round_half_up_unfold:
  "round_half_up q = (if q < 0 then - of_int \<lfloor>1 / 2 - q * 100\<rfloor> else of_int \<lfloor>q * 100 + 1 / 2\<rfloor>) / 100"
proof (cases "q < 0")
  case True
  then have "\<bar>q\<bar> * 100 + 1 / 2 = 1 / 2 - q * 100" by (simp add: abs_if)
  with True show ?thesis by (simp add: round_half_up_def Let_def)
qed (simp add: round_half_up_def Let_def)

lemma round_half_up_scaled: "\<exists>n. round_half_up q = of_int n / 100 \<and> \<bar>of_int n - q * 100\<bar> \<le> 1 / 2"
proof (cases "q < 0")
  case True
  define n where "n = \<lfloor>1 / 2 - q * 100\<rfloor>"
  have "of_int n \<le> 1 / 2 - q * 100" "1 / 2 - q * 100 < of_int n + 1" unfolding n_def by linarith+
  moreover have "round_half_up q = of_int (- n) / 100" using True by (simp add: round_half_up_unfold n_def)
  ultimately show ?thesis by (intro exI [of _ "- n"]) (auto simp: abs_if)
next
  case False
  define n where "n = \<lfloor>q * 100 + 1 / 2\<rfloor>"
  have "of_int n \<le> q * 100 + 1 / 2" "q * 100 + 1 / 2 < of_int n + 1" unfolding n_def by linarith+
  moreover have "round_half_up q = of_int n / 100" using False by (simp add: round_half_up_unfold n_def)
  ultimately show ?thesis by (intro exI [of _ n]) (auto simp: abs_if)
qed

lemma round_half_up_exact: "round_half_up (of_int n / 100) = of_int n / 100"
proof -
  have "\<lfloor>(of_int n :: rat) + 1 / 2\<rfloor> = n" "\<lfloor>1 / 2 - (of_int n :: rat)\<rfloor> = - n" by linarith+
  then show ?thesis by (simp add: round_half_up_unfold)
qed

lemma round_half_up_half:
  "round_half_up ((of_int n + 1 / 2) / 100) = (if n < 0 then of_int n / 100 else (of_int n + 1) / 100)"
proof -
  have "\<lfloor>(of_int n + 1 / 2 :: rat) + 1 / 2\<rfloor> = n + 1" "\<lfloor>1 / 2 - (of_int n + 1 / 2 :: rat)\<rfloor> = - n" by linarith+
  moreover have "(of_int n + 1 / 2 :: rat) / 100 * 100 = of_int n + 1 / 2" by simp
  moreover have "(of_int n + 1 / 2 :: rat) / 100 < 0 \<longleftrightarrow> n < 0"
  proof (cases "n < 0")
    case True
    then have "(of_int n :: rat) \<le> of_int (- 1)" unfolding of_int_le_iff by simp
    with True show ?thesis by simp
  next
    case False
    then have "(of_int 0 :: rat) \<le> of_int n" unfolding of_int_le_iff by simp
    with False show ?thesis by simp
  qed
  ultimately show ?thesis unfolding round_half_up_unfold by (simp only:) simp
qed

text \<open>
  A rounded metric is a number of hundredths at most half a hundredth away, exactly a half is
  rounded away from zero, and rounding again changes nothing: a row that failed and is prepared for
  the table once more is stored as at the first try.
\<close>

lemma metric_rounded:
  "(\<exists>n. round_half_up q = of_int n / 100) \<and> \<bar>round_half_up q - q\<bar> \<le> 1 / 200
     \<and> round_half_up ((of_int m + 1 / 2) / 100) = (if m < 0 then of_int m / 100 else (of_int m + 1) / 100)
     \<and> round_metric (round_metric x) = round_metric x"
proof -
  obtain n where n: "round_half_up q = of_int n / 100" "\<bar>of_int n - q * 100\<bar> \<le> 1 / 2" using round_half_up_scaled by blast
  have "round_half_up (round_half_up y) = round_half_up y" for y
    using round_half_up_scaled [of y] round_half_up_exact by metis
  then have "round_metric (round_metric x) = round_metric x" by (cases x) (simp_all add: round_metric_def)
  with n round_half_up_half [of m] show ?thesis by (auto simp: abs_if split: if_splits)
qed



section \<open>Usage statistics\<close>

text \<open>The memory counts of the steps in a section, the reference for the largest one.\<close>

definition memory_counts :: "string \<Rightarrow> pv list \<Rightarrow> rat list" where
  "memory_counts sec steps =
     concat (map (\<lambda>step. case extract_step_tres_count step sec ''max'' ''mem'' of None \<Rightarrow> [] | Some q \<Rightarrow> [q]) steps)"

lemma memory_counts_simps [simp]:
  "memory_counts sec [] = []"
  "memory_counts sec (step # steps)
     = (case extract_step_tres_count step sec ''max'' ''mem'' of None \<Rightarrow> [] | Some q \<Rightarrow> [q]) @ memory_counts sec steps"
  by (simp_all add: memory_counts_def)

lemma largest_count_acc:
  "largest_count sec steps best =
     (let qs = (case best of None \<Rightarrow> [] | Some b \<Rightarrow> [b]) @ memory_counts sec steps
      in if qs = [] then None else Some (Max (set qs)))"
proof (induction steps arbitrary: best)
  case Nil
  then show ?case by (cases best) simp_all
next
  case (Cons step steps)
  show ?case
  proof (cases "extract_step_tres_count step sec ''max'' ''mem''")
    case None
    then show ?thesis using Cons.IH [of best] by simp
  next
    case (Some q)
    have three: "Max (insert (if b < q then q else b) (set qs)) = Max (insert b (insert q (set qs)))" for b :: rat and qs
      by (cases "qs = []") (auto simp: max_def)
    show ?thesis
    proof (cases best)
      case None
      then show ?thesis using Some Cons.IH [of "Some q"] by simp
    next
      case b: (Some b)
      then show ?thesis using Some Cons.IH [of "Some (if b < q then q else b)"] three [of b "memory_counts sec steps"]
        by (simp split: if_splits)
    qed
  qed
qed

lemma largest_count_is_Max:
  "largest_count sec steps None = (if memory_counts sec steps = [] then None else Some (Max (set (memory_counts sec steps))))"
  by (simp add: largest_count_acc Let_def)

lemma first_count_nonneg: "first_count t vs = Some q \<Longrightarrow> 0 \<le> q"
  by (induction t vs rule: first_count.induct) (auto split: pv.splits if_splits option.splits)

lemma memory_counts_nonneg: "q \<in> set (memory_counts sec steps) \<Longrightarrow> 0 \<le> q"
  by (auto simp: memory_counts_def extract_step_tres_count_def dest: first_count_nonneg [OF sym] split: option.splits)

lemma cpu_total_sum:
  "cpu_total summaries = sum_list (map (\<lambda>(_, _, cpu). case cpu of None \<Rightarrow> 0 | Some q \<Rightarrow> q) (filter (\<lambda>(_, included, _). included) summaries))"
proof -
  have "fold (\<lambda>(_, included, cpu) acc. if included then acc + (case cpu of None \<Rightarrow> 0 | Some q \<Rightarrow> q) else acc) xs a
      = a + sum_list (map (\<lambda>(_, _, cpu). case cpu of None \<Rightarrow> 0 | Some q \<Rightarrow> q) (filter (\<lambda>(_, included, _). included) xs))"
    for xs :: "(pv \<times> bool \<times> rat option) list" and a
    by (induction xs arbitrary: a) (auto simp: split_def)
  then show ?thesis by (simp add: cpu_total_def)
qed

lemma job_elapsed_positive: "job_elapsed_seconds job = Some q \<Longrightarrow> 0 < q"
  by (auto simp: job_elapsed_seconds_def Let_def split: option.splits if_splits)

text \<open>The CPU seconds of the steps that count, those that are not the external step.\<close>

definition counted_cpu :: "pv list \<Rightarrow> rat" where
  "counted_cpu steps =
     sum_list (map (\<lambda>step. case step_total_cpu_seconds step of None \<Rightarrow> 0 | Some q \<Rightarrow> q)
       (filter (\<lambda>step. include_cpu_step step = Inr True) steps))"

lemma cpu_total_steps: "rmap step_summary steps = Inr summaries \<Longrightarrow> cpu_total summaries = counted_cpu steps"
proof (induction steps arbitrary: summaries)
  case Nil
  then show ?case by (simp add: cpu_total_def counted_cpu_def)
next
  case (Cons step steps)
  from Cons.prems obtain y ys where y: "step_summary step = Inr y" and ys: "rmap step_summary steps = Inr ys" "summaries = y # ys"
    by (auto simp: rbind_eq_Inr)
  obtain d b cpu where "y = (d, b, cpu)" by (cases y)
  with y have "include_cpu_step step = Inr b" "cpu = step_total_cpu_seconds step" by (auto simp: step_summary_def rbind_eq_Inr)
  with Cons.IH [OF ys(1)] show ?case using ys(2) \<open>y = _\<close> by (simp add: cpu_total_sum counted_cpu_def)
qed

text \<open>
  C33. The usage of a job: the memory is the largest count of a step, in GiB, of the consumed resources
  if a step has one, else of the requested, and is missing only if no step has any; the average of
  cores times the elapsed time is the CPU time of the steps that count, and it is missing only if no
  elapsed time is known.
\<close>

theorem usage_measured:
  assumes "usage_stats job = Inr (stats, memory, cores)" and "dget_or ''steps'' (VList []) job = VList steps"
  shows "(let consumed = memory_counts ''consumed'' steps; requested = memory_counts ''requested'' steps;
              counts = (if consumed \<noteq> [] then consumed else requested)
          in (memory = None \<longleftrightarrow> counts = [])
             \<and> (\<forall>m. memory = Some m \<longrightarrow> m * 1024 ^ 3 \<in> set counts \<and> (\<forall>q \<in> set counts. q \<le> m * 1024 ^ 3) \<and> 0 \<le> m))
    \<and> (cores = None \<longleftrightarrow> job_elapsed_seconds job = None)
    \<and> (\<forall>c. cores = Some c \<longrightarrow> (\<exists>e. job_elapsed_seconds job = Some e \<and> 0 < e \<and> c * e = counted_cpu steps))"
proof -
  from assms obtain summaries src where s: "rmap step_summary steps = Inr summaries"
    and m: "max_memory_gb job = Inr (memory, src)"
    and c: "cores = (case job_elapsed_seconds job of None \<Rightarrow> None | Some q \<Rightarrow> if 0 < q then Some (cpu_total summaries / q) else None)"
    by (auto simp: usage_stats_def rbind_eq_Inr py_iter_def Let_def split: prod.splits)
  define counts where "counts = (if memory_counts ''consumed'' steps \<noteq> [] then memory_counts ''consumed'' steps
      else memory_counts ''requested'' steps)"
  have mem: "memory = (if counts = [] then None else Some (Max (set counts) / 1024 ^ 3))"
    using m assms(2) by (auto simp: max_memory_gb_def py_iter_def largest_count_is_Max counts_def split: if_splits)
  have pos: "0 \<le> q" if "q \<in> set counts" for q
    using that memory_counts_nonneg by (auto simp: counts_def split: if_splits)
  have "m * 1024 ^ 3 \<in> set counts \<and> (\<forall>q \<in> set counts. q \<le> m * 1024 ^ 3) \<and> 0 \<le> m" if "memory = Some m" for m
  proof -
    have ne: "counts \<noteq> []" and eq: "m * 1024 ^ 3 = Max (set counts)" using mem that by (auto split: if_splits)
    have "Max (set counts) \<in> set counts" using ne by simp
    moreover from pos [OF this] have "0 \<le> m" unfolding eq [symmetric] by simp
    ultimately show ?thesis unfolding eq by simp
  qed
  then have "(memory = None \<longleftrightarrow> counts = [])
      \<and> (\<forall>m. memory = Some m \<longrightarrow> m * 1024 ^ 3 \<in> set counts \<and> (\<forall>q \<in> set counts. q \<le> m * 1024 ^ 3) \<and> 0 \<le> m)"
    using mem by auto
  moreover have "(cores = None \<longleftrightarrow> job_elapsed_seconds job = None)
      \<and> (\<forall>c. cores = Some c \<longrightarrow> (\<exists>e. job_elapsed_seconds job = Some e \<and> 0 < e \<and> c * e = counted_cpu steps))"
    using c cpu_total_steps [OF s] job_elapsed_positive [of job] by (cases "job_elapsed_seconds job") auto
  ultimately show ?thesis by (simp add: Let_def counts_def)
qed

definition demo_step :: "string \<Rightarrow> int \<Rightarrow> int \<Rightarrow> pv" where
  "demo_step name seconds mem =
     VDict [(''step'', VDict [(''id'', VStr ''7.0''), (''name'', VStr name)]),
            (''time'', VDict [(''elapsed'', VInt 10), (''total'', VDict [(''seconds'', VInt seconds), (''microseconds'', VInt 0)])]),
            (''tres'', VDict [(''consumed'', VDict [(''max'', VList [VDict [(''type'', VStr ''mem''), (''count'', VInt mem)]])])])]"

theorem usage_measured_witness:
  "\<exists>stats. usage_stats [(''time'', VDict [(''elapsed'', VInt 10)]),
       (''steps'', VList [demo_step ''batch'' 30 1073741824, demo_step ''extern'' 5 3221225472])]
     = Inr (stats, Some 3, Some 3) \<and> counted_cpu [demo_step ''batch'' 30 1073741824, demo_step ''extern'' 5 3221225472] = 30"
proof -
  let ?steps = "[demo_step ''batch'' 30 1073741824, demo_step ''extern'' 5 3221225472]"
  let ?job = "[(''time'', VDict [(''elapsed'', VInt 10)]), (''steps'', VList ?steps)]"
  have "map_sum id snd (usage_stats ?job) = Inr (Some 3, Some 3)" by code_simp
  then obtain stats where s: "usage_stats ?job = Inr (stats, Some 3, Some 3)" by (cases "usage_stats ?job") auto
  have "dget_or ''steps'' (VList []) ?job = VList ?steps" by (simp add: dget_or_def)
  from usage_measured [OF s this] obtain e where "job_elapsed_seconds ?job = Some e" "3 * e = counted_cpu ?steps" by auto
  moreover have "job_elapsed_seconds ?job = Some 10" by code_simp
  ultimately have "counted_cpu ?steps = 30" by simp
  with s show ?thesis by blast
qed

text \<open>The text of a bare exit code is read as a number, with a signal it becomes a dictionary.\<close>

lemma plain_exit_code_is_number:
  "normalize_history_exit_code (VStr ''0'') = VInt 0"
  "is_dict (normalize_history_exit_code (VStr ''0:0''))"
  by code_simp+

end
