(* ===== verification/JobsHistory.thy ===== *)
theory JobsHistory
  imports JobsStore HistoryFields "HOL-Library.Multiset"
begin

text \<open>
  The reading side of \<open>JobsStore\<close>: the pages of the history, one record with its enrichment, the
  completed jobs of a day, and the repair of missing usage fields. How PostgreSQL orders texts and
  reads a text as a time is the record \<open>sql_texts\<close>. Rows that an ORDER BY does not separate keep the
  order of the table. A SELECT fails only with its connection.
\<close>

section \<open>The order of the history\<close>

record sql_texts =
  sq_collate :: "string \<Rightarrow> int list"
  sq_time :: "string \<Rightarrow> int option" \<comment> \<open>microseconds, or not a time\<close>

definition HISTORY_SORT_FIELDS :: "(string \<times> string list) list" where
  "HISTORY_SORT_FIELDS = [(''submit_time'', [''submit_time'']), (''id'', [''job_id'']), (''state'', [''job_state'']),
     (''user'', [''user_name'']), (''priority'', [''priority'']), (''resources'', [''node_count'', ''cpus''])]"

text \<open>Columns with whether they ascend; nulls come before every value when they do, else last.\<close>

definition history_sort_clause :: "pv \<Rightarrow> pv \<Rightarrow> (string \<times> bool) list res" where
  "history_sort_clause sort_value order_value =
     (if is_list sort_value \<or> is_dict sort_value then Inl (TypeError ''unhashable'')
      else
        let selected_sort = (case sort_value of
              VStr s \<Rightarrow> if s \<in> fst ` set HISTORY_SORT_FIELDS then s else ''submit_time'' | _ \<Rightarrow> ''submit_time'');
            ascending = (order_value = VStr ''asc'');
            columns = (case map_of HISTORY_SORT_FIELDS selected_sort of None \<Rightarrow> [] | Some cs \<Rightarrow> cs)
        in Inr (map (\<lambda>c. (c, ascending)) columns
                @ (if selected_sort \<noteq> ''id'' then [(''job_id'', ascending)] else [])))"

definition column_rank :: "sql_texts \<Rightarrow> string \<Rightarrow> pdict \<Rightarrow> int list" where
  "column_rank Q c r =
     (case dget c r of
        VNone \<Rightarrow> [0]
      | VInt n \<Rightarrow> [1, n]
      | VTime t \<Rightarrow> [1, t]
      | VStr s \<Rightarrow> 1 # sq_collate Q s
      | _ \<Rightarrow> [1])"

definition order_by :: "sql_texts \<Rightarrow> (string \<times> bool) list \<Rightarrow> pdict list \<Rightarrow> pdict list" where
  "order_by Q clause rows =
     foldr (\<lambda>(c, ascending) rs.
       if ascending then sort_key (column_rank Q c) rs else rev (sort_key (column_rank Q c) (rev rs))) clause rows"


section \<open>Filters and pages\<close>

definition time_param :: "sql_texts \<Rightarrow> pv \<Rightarrow> int res" where
  "time_param Q v =
     (case v of
        VStr s \<Rightarrow> (case sq_time Q s of None \<Rightarrow> Inl (BackendError ''InvalidDatetimeFormat'') | Some t \<Rightarrow> Inr t)
      | VTime t \<Rightarrow> Inr t
      | _ \<Rightarrow> Inl (BackendError ''UndefinedFunction''))"

definition text_param :: "pv \<Rightarrow> pv res" where
  "text_param v = (case v of VStr s \<Rightarrow> Inr v | _ \<Rightarrow> Inl (BackendError ''UndefinedFunction''))"

text \<open>The conditions of the filters that are given, in their order.\<close>

definition when_given :: "string \<Rightarrow> pdict \<Rightarrow> (pv \<Rightarrow> (pdict \<Rightarrow> bool) res) \<Rightarrow> (pdict \<Rightarrow> bool) list res" where
  "when_given key filters f =
     (if truthy (dget key filters) then rbind (f (dget key filters)) (\<lambda>c. Inr [c]) else Inr [])"

definition coalesced_text :: "pv \<Rightarrow> string" where
  "coalesced_text v = (case v of VStr s \<Rightarrow> s | _ \<Rightarrow> [])"

definition history_conditions :: "sql_texts \<Rightarrow> pdict \<Rightarrow> (pdict \<Rightarrow> bool) list res" where
  "history_conditions Q filters =
     rbind (rmap id [
       when_given ''start'' filters (\<lambda>v. rbind (time_param Q v) (\<lambda>t. Inr (\<lambda>r. t \<le> time_us (dget ''submit_time'' r)))),
       when_given ''end'' filters (\<lambda>v. rbind (time_param Q v) (\<lambda>t. Inr (\<lambda>r. time_us (dget ''submit_time'' r) \<le> t))),
       when_given ''user'' filters (\<lambda>v. rbind (text_param v) (\<lambda>x. Inr (\<lambda>r. dget ''user_name'' r = x))),
       when_given ''account'' filters (\<lambda>v. rbind (text_param v) (\<lambda>x. Inr (\<lambda>r. dget ''account'' r = x))),
       when_given ''partition'' filters (\<lambda>v. rbind (text_param v) (\<lambda>x. Inr (\<lambda>r. dget ''partition'' r = x))),
       when_given ''qos'' filters (\<lambda>v. rbind (text_param v) (\<lambda>x. Inr (\<lambda>r. dget ''qos'' r = x))),
       when_given ''state'' filters (\<lambda>v. Inr (\<lambda>r. column_like (''%'' @ py_str v @ ''%'') (dget ''job_state'' r))),
       when_given ''keyword'' filters (\<lambda>v. Inr (\<lambda>r.
         sql_ilike (''%'' @ py_str v @ ''%'') (coalesced_text (dget ''working_directory'' r))
         \<or> sql_ilike (''%'' @ py_str v @ ''%'') (coalesced_text (dget ''command'' r)))),
       when_given ''job_id'' filters (\<lambda>v. rbind (py_int v) (\<lambda>n. Inr (\<lambda>r. dget ''job_id'' r = VInt n)))]) (\<lambda>cs.
     Inr (concat cs))"

definition history_matches :: "jobs_db \<Rightarrow> (pdict \<Rightarrow> bool) list \<Rightarrow> pdict list" where
  "history_matches jd conditions = filter (\<lambda>r. list_all (\<lambda>c. c r) conditions) (map (selected_record jd) (jd_rows jd))"

text \<open>The clamped page, the clamped page size, the order; the job number is read before the query.\<close>

definition history_arguments :: "pdict \<Rightarrow> (int \<times> int \<times> (string \<times> bool) list) res" where
  "history_arguments filters =
     rbind (py_int (dget_or ''page'' (VInt 1) filters)) (\<lambda>page.
     rbind (py_int (dget_or ''page_size'' (VInt 100) filters)) (\<lambda>page_size.
     rbind (history_sort_clause (dget ''sort'' filters) (dget ''order'' filters)) (\<lambda>clause.
     rbind (if truthy (dget ''job_id'' filters) then py_int (dget ''job_id'' filters) else Inr 0) (\<lambda>_.
       Inr (max 1 page, min 500 (max 1 page_size), clause)))))"

definition MAX_BIGINT :: int where
  "MAX_BIGINT = 9223372036854775807"

definition query :: "'p postgres \<Rightarrow> sql_texts \<Rightarrow> pdict \<Rightarrow> (('x, 'p) jobs_store, pdict) meth" where
  "query P Q filters =
     mbind (mlift (history_arguments filters)) (\<lambda>(page, page_size, clause).
     mbind (get_conn P) (\<lambda>_.
     mbind (mlift (history_conditions Q filters)) (\<lambda>conditions.
     let offset = (page - 1) * page_size in
     if MAX_BIGINT < offset then mraise (BackendError ''NumericValueOutOfRange'')
     else mwith (\<lambda>s.
       let rows = history_matches (js_db s) conditions in
       mret [(''total'', VInt (int (length rows))), (''page'', VInt page), (''page_size'', VInt page_size),
             (''jobs'', VList (map (VDict \<circ> serialize_datetimes)
                (take (nat page_size) (drop (nat offset) (order_by Q clause rows)))))]))))"


section \<open>One record\<close>

definition fetch_record :: "'p postgres \<Rightarrow> int \<Rightarrow> (('x, 'p) jobs_store, pdict option) meth" where
  "fetch_record P record_id =
     mbind (get_conn P) (\<lambda>_. mwith (\<lambda>s.
       mret (map_option (selected_record (js_db s)) (find (\<lambda>r. dget ''id'' r = VInt record_id) (jd_rows (js_db s))))))"

definition needs_detail_enrichment :: "pdict \<Rightarrow> bool" where
  "needs_detail_enrichment record =
     list_ex (\<lambda>field. dget field record = VNone) [''eligible_time'', ''last_sched_evaluation_time'', ''tres_requested'',
       ''tres_allocated'', ''used_memory_gb'', ''usage_stats'', ''used_cpu_cores_avg'']"

text \<open>\<open>get_by_id(record_id, enrich=False)\<close>\<close>

definition plain_record :: "'p postgres \<Rightarrow> int \<Rightarrow> (('x, 'p) jobs_store, pdict option) meth" where
  "plain_record P record_id = mbind (fetch_record P record_id) (\<lambda>r. mret (map_option serialize_datetimes r))"

definition maybe_enrich_record ::
  "'p postgres \<Rightarrow> 'x job_source option \<Rightarrow> int \<Rightarrow> pdict \<Rightarrow> (('x, 'p) jobs_store, pdict option) meth" where
  "maybe_enrich_record P source now record =
     (case source of
        None \<Rightarrow> mret None
      | Some src \<Rightarrow>
          if \<not> needs_detail_enrichment record then mret None
          else
            mbind (mcatch (mbind (on_source (so_detail src (dget ''job_id'' record))) (\<lambda>job. mret (Some job)))
                     (\<lambda>_. mret None)) (\<lambda>answer.
            case answer of
              None \<Rightarrow> mret None
            | Some job \<Rightarrow>
                mbind (mlift (extract_detail job record)) (\<lambda>row.
                if \<not> truthy (dget ''job_id'' row) \<or> \<not> truthy (dget ''submit_time'' row) then mret None
                else if dget ''submit_time'' row \<noteq> dget ''submit_time'' record then mret None
                else mbind (flush_chunk P now [row]) (\<lambda>failed.
                  if failed \<noteq> [] then mret None
                  else plain_record P (case dget ''id'' record of VInt n \<Rightarrow> n | _ \<Rightarrow> 0)))))"

definition get_by_id ::
  "'p postgres \<Rightarrow> 'x job_source option \<Rightarrow> int \<Rightarrow> int \<Rightarrow> bool \<Rightarrow> (('x, 'p) jobs_store, pdict option) meth" where
  "get_by_id P source now record_id enrich =
     mbind (fetch_record P record_id) (\<lambda>row.
       case row of
         None \<Rightarrow> mret None
       | Some record \<Rightarrow>
           if \<not> enrich then mret (Some (serialize_datetimes record))
           else mbind (maybe_enrich_record P source now record) (\<lambda>enriched.
             mret (Some (serialize_datetimes (case enriched of None \<Rightarrow> record | Some e \<Rightarrow> e)))))"

section \<open>Pages of the history\<close>

text \<open>What an ORDER BY demands of two rows: the first column they differ in decides.\<close>

fun row_before :: "sql_texts \<Rightarrow> (string \<times> bool) list \<Rightarrow> pdict \<Rightarrow> pdict \<Rightarrow> bool" where
  "row_before Q [] a b = False"
| "row_before Q ((c, ascending) # clause) a b =
     (if column_rank Q c a = column_rank Q c b then row_before Q clause a b
      else if ascending then column_rank Q c a < column_rank Q c b else column_rank Q c b < column_rank Q c a)"

lemma sorted_wrt_classes:
  fixes k :: "'a \<Rightarrow> 'b::linorder"
  assumes "sorted (map k ys)" and "\<And>c. sorted_wrt R (filter (\<lambda>x. k x = c) ys)"
  shows "sorted_wrt (\<lambda>a b. k a < k b \<or> k a = k b \<and> R a b) ys"
  using assms
proof (induction ys)
  case (Cons y ys)
  have tail: "sorted_wrt R (filter (\<lambda>x. k x = c) ys)" for c
    using Cons.prems(2) [of c] by (simp split: if_splits)
  have "R y x" if "x \<in> set ys" "k y = k x" for x
    using Cons.prems(2) [of "k y"] that by simp
  moreover have "k y \<le> k x" if "x \<in> set ys" for x using Cons.prems(1) that by simp
  ultimately show ?case using Cons.IH tail Cons.prems(1) by (auto simp: le_less)
qed simp

lemma stable_sort:
  fixes k :: "'a \<Rightarrow> 'b::linorder"
  assumes "sorted_wrt R xs"
  shows "sorted_wrt (\<lambda>a b. k a < k b \<or> k a = k b \<and> R a b) (sort_key k xs)"
proof (rule sorted_wrt_classes)
  have "sorted_wrt R (filter P xs)" for P using assms by (induction xs) auto
  then show "sorted_wrt R (filter (\<lambda>x. k x = c) (sort_key k xs))" for c
    using sort_key_stable [of k c xs] by simp
qed simp

lemma sorted_wrt_weaken: "sorted_wrt R xs \<Longrightarrow> (\<And>a b. R a b \<Longrightarrow> S a b) \<Longrightarrow> sorted_wrt S xs"
  by (rule sorted_wrt_mono_rel [of _ R S])

lemma order_by_mset: "mset (order_by Q clause rows) = mset rows"
  unfolding order_by_def by (induction clause) (auto split: prod.split)

lemma order_by_sorted: "sorted_wrt (\<lambda>a b. \<not> row_before Q clause b a) (order_by Q clause rows)"
proof (induction clause)
  case Nil
  have "sorted_wrt (\<lambda>a b. True) rows" by (induction rows) auto
  then show ?case by (simp add: order_by_def)
next
  case (Cons column clause)
  obtain c ascending where column: "column = (c, ascending)" by (cases column)
  let ?R = "\<lambda>a b. \<not> row_before Q clause b a" and ?k = "column_rank Q c"
  show ?case
  proof (cases ascending)
    case True
    from stable_sort [OF Cons, of ?k] show ?thesis
      using column True by (auto simp: order_by_def elim!: sorted_wrt_weaken)
  next
    case False
    have "sorted_wrt (\<lambda>a b. ?R b a) (rev (order_by Q clause rows))" using Cons by (simp add: sorted_wrt_rev)
    from stable_sort [OF this, of ?k] have
      "sorted_wrt (\<lambda>a b. ?k b < ?k a \<or> ?k b = ?k a \<and> ?R a b) (rev (sort_key ?k (rev (order_by Q clause rows))))"
      by (simp add: sorted_wrt_rev)
    then show ?thesis using column False by (auto simp: order_by_def elim!: sorted_wrt_weaken)
  qed
qed

lemma map_pages_concat:
  "concat (map (\<lambda>p. map f (take n (drop ((p - 1) * n) xs))) [1..<Suc k]) = map f (take (k * n) xs)"
proof (induction k)
  case (Suc k)
  have "take (Suc k * n) xs = take (k * n) xs @ take n (drop (k * n) xs)"
    by (metis add.commute mult_Suc take_add)
  with Suc show ?case by simp
qed simp

lemma get_conn_cases: obtains r s1 where "get_conn P s = (r, s1)" "js_db s1 = js_db s"
  by (cases "pg_connect P (js_pg s)") (simp add: get_conn_def)

definition page_number :: "pdict \<Rightarrow> nat \<Rightarrow> pdict" where
  "page_number filters p = dset ''page'' (VInt (int p)) filters"

lemma when_given_page: "key \<noteq> ''page'' \<Longrightarrow> when_given key (page_number filters p) f = when_given key filters f"
  by (simp add: when_given_def page_number_def)

lemma conditions_of_page: "history_conditions Q (page_number filters p) = history_conditions Q filters"
  by (simp add: history_conditions_def when_given_page del: rmap.simps)

lemma arguments_of_page:
  "history_arguments (page_number filters p)
     = (case history_arguments (page_number filters 1) of Inl e \<Rightarrow> Inl e | Inr (_, n, clause) \<Rightarrow> Inr (max 1 (int p), n, clause))"
  by (simp add: history_arguments_def page_number_def rbind_def split: sum.split)

lemma arguments_bounds: "history_arguments filters = Inr (page, n, clause) \<Longrightarrow> 1 \<le> page \<and> 1 \<le> n \<and> n \<le> 500"
  by (auto simp: history_arguments_def rbind_eq_Inr)


definition demo_table :: "(unit, unit) jobs_store" where
  "demo_table = demo_store\<lparr>js_db := \<lparr>jd_base = empty_db,
     jd_rows = map (\<lambda>n. inserted_row n 9 (demo_row (7 - n) (if n = 2 then ''COMPLETED'' else ''RUNNING''))) [1, 2, 3],
     jd_seq = 3\<rparr>\<rparr>"

definition demo_texts :: sql_texts where
  "demo_texts = \<lparr>sq_collate = map (\<lambda>c. int (of_char c)), sq_time = \<lambda>_. None\<rparr>"

definition demo_page :: "nat \<Rightarrow> pdict" where
  "demo_page p = (case fst (query demo_postgres demo_texts
       (page_number [(''page_size'', VStr ''2''), (''sort'', VStr ''id''), (''order'', VStr ''asc'')] p) demo_table) of
     Inr r \<Rightarrow> r | Inl _ \<Rightarrow> [])"


end
