(* ===== verification/UsageBackfill.thy ===== *)
theory UsageBackfill
  imports JobsHistory
begin

text \<open>
  The repair of missing usage fields, \<open>JobsStore.backfill_usage_fields\<close>: finished jobs without a
  memory or CPU figure are looked up one by one and the figures of the answer are filled in. The
  changes of the session are written by the commit at the end. The log function is left out.
\<close>

section \<open>Candidates\<close>

record backfill_args =
  ba_start_time :: "int option"
  ba_end_time :: "int option"
  ba_username :: "string option"
  ba_user_id :: "int option"
  ba_job_id :: pv
  ba_limit :: "int option"
  ba_missing_only :: bool

definition finished_row :: "pdict \<Rightarrow> bool" where
  "finished_row r \<longleftrightarrow>
     (case dget ''job_state'' r of
        VStr st \<Rightarrow> sql_like ''%COMPLETED%'' (py_upper st) \<or> sql_like ''%FAILED%'' (py_upper st)
      | _ \<Rightarrow> False)"

definition missing_usage :: "pdict \<Rightarrow> bool" where
  "missing_usage r \<longleftrightarrow> dget ''used_memory_gb'' r = VNone \<or> dget ''used_cpu_cores_avg'' r = VNone"

definition usage_candidate :: "db \<Rightarrow> backfill_args \<Rightarrow> int option \<Rightarrow> pdict \<Rightarrow> bool" where
  "usage_candidate db a job_id r \<longleftrightarrow>
     finished_row r
     \<and> (ba_missing_only a \<longrightarrow> missing_usage r)
     \<and> (case ba_start_time a of None \<Rightarrow> True | Some t \<Rightarrow> t \<le> time_us (dget ''submit_time'' r))
     \<and> (case ba_end_time a of None \<Rightarrow> True | Some t \<Rightarrow> time_us (dget ''submit_time'' r) < t)
     \<and> (case ba_username a of None \<Rightarrow> True | Some u \<Rightarrow> u = [] \<or> username_of db (dget ''user_id'' r) = VStr u)
     \<and> (case ba_user_id a of None \<Rightarrow> True | Some n \<Rightarrow> dget ''user_id'' r = VInt n)
     \<and> (case job_id of None \<Rightarrow> True | Some n \<Rightarrow> dget ''job_id'' r = VInt n)"

definition usage_order :: "pdict \<Rightarrow> int list" where
  "usage_order r = [time_us (dget ''submit_time'' r), (case dget ''job_id'' r of VInt n \<Rightarrow> n | _ \<Rightarrow> 0)]"

definition usage_backfill_rows :: "backfill_args \<Rightarrow> jobs_db \<Rightarrow> pdict list res" where
  "usage_backfill_rows a jd =
     rbind (if ba_job_id a = VNone then Inr None else rbind (py_int (ba_job_id a)) (\<lambda>n. Inr (Some n))) (\<lambda>job_id.
     let rows = sort_key usage_order (filter (usage_candidate (jd_base jd) a job_id) (jd_rows jd)) in
     case ba_limit a of
       None \<Rightarrow> Inr rows
     | Some n \<Rightarrow> if n < 0 then Inl (BackendError ''InvalidRowCountInLimitClause'') else Inr (take (nat n) rows))"

definition usage_backfill_candidates :: "'p postgres \<Rightarrow> backfill_args \<Rightarrow> (('x, 'p) jobs_store, pdict list) meth" where
  "usage_backfill_candidates P a =
     mbind (get_conn P) (\<lambda>_. mwith (\<lambda>s. mlift (usage_backfill_rows a (js_db s))))"


section \<open>One job\<close>

text \<open>The client: its method \<open>job\<close> if it has one, else the two requests of slurmdbd and slurmctld.\<close>

record 'x detail_client =
  dc_job :: "(pv \<Rightarrow> ('x, pv) meth) option"
  dc_acctjob :: "pv \<Rightarrow> ('x, pv) meth"
  dc_ctldjob :: "pv \<Rightarrow> ('x, pv) meth"

definition fetch_job_detail :: "'x detail_client \<Rightarrow> pv \<Rightarrow> ('x, pv) meth" where
  "fetch_job_detail C job_id =
     (case dc_job C of
        Some f \<Rightarrow> f job_id
      | None \<Rightarrow>
          mbind (dc_acctjob C job_id) (\<lambda>result.
          mcatch
            (mbind (dc_ctldjob C job_id) (\<lambda>ctld.
               mlift (rbind (as_dict result) (\<lambda>r. rbind (as_dict ctld) (\<lambda>c. Inr (VDict (dupdate r c)))))))
            (\<lambda>e. case e of
               SlurmrestdInternalError _ n _ _ \<Rightarrow> if n = VInt 2017 then mret result else mraise e
             | _ \<Rightarrow> mraise e)))"

definition usage_record :: "db \<Rightarrow> pdict \<Rightarrow> pdict" where
  "usage_record db r =
     [(''id'', dget ''id'' r), (''job_id'', dget ''job_id'' r), (''submit_time'', dget ''submit_time'' r)]
     @ map (\<lambda>c. (c, if c = ''user_name'' then username_of db (dget ''user_id'' r) else dget c r)) SELECT_COLUMNS"

definition metric_of :: "pv \<Rightarrow> rat option" where
  "metric_of v = round_metric (case v of VFloat q \<Rightarrow> Some q | _ \<Rightarrow> None)"

definition apply_usage_detail :: "db \<Rightarrow> pdict \<Rightarrow> pv \<Rightarrow> (bool \<times> string \<times> rat option \<times> rat option) res" where
  "apply_usage_detail db r detail =
     rbind (extract_detail detail (usage_record db r)) (\<lambda>row.
       if \<not> truthy (dget ''job_id'' row) \<or> \<not> truthy (dget ''submit_time'' row)
       then Inr (False, ''missing_detail_key'', None, None)
       else if dget ''submit_time'' row \<noteq> dget ''submit_time'' r then Inr (False, ''submit_time_mismatch'', None, None)
       else
         let new_memory = metric_of (dget ''used_memory_gb'' row);
             new_cpu = metric_of (dget ''used_cpu_cores_avg'' row);
             memory_update = (dget ''used_memory_gb'' r = VNone \<and> new_memory \<noteq> None);
             cpu_update = (dget ''used_cpu_cores_avg'' r = VNone \<and> new_cpu \<noteq> None)
         in Inr (if \<not> memory_update \<and> \<not> cpu_update then
              (False, (if dget ''used_memory_gb'' r = VNone \<and> new_memory = None then ''missing_used_memory_gb''
                       else if dget ''used_cpu_cores_avg'' r = VNone \<and> new_cpu = None then ''missing_used_cpu_cores_avg''
                       else ''no_usage_updates''), new_memory, new_cpu)
            else (True, ''ok'', new_memory, new_cpu)))"


section \<open>The run\<close>

text \<open>A row with the two figures where it has none.\<close>

definition fill_usage :: "rat option \<Rightarrow> rat option \<Rightarrow> pdict \<Rightarrow> pdict" where
  "fill_usage new_memory new_cpu r =
     (let r1 = (if dget ''used_memory_gb'' r = VNone then dset ''used_memory_gb'' (opt_float new_memory) r else r)
      in if dget ''used_cpu_cores_avg'' r1 = VNone then dset ''used_cpu_cores_avg'' (opt_float new_cpu) r1 else r1)"

record backfill_counts =
  bc_scanned :: nat
  bc_updated :: nat
  bc_skipped :: nat

type_synonym usage_updates = "(int \<times> rat option \<times> rat option) list"

text \<open>A row: no change, or the change of its row.\<close>

definition backfill_row :: "'x detail_client \<Rightarrow> pdict \<Rightarrow> (('x, 'p) jobs_store, usage_updates) meth" where
  "backfill_row C r = mwith (\<lambda>s.
     mbind (mcatch (mbind (on_source (fetch_job_detail C (dget ''job_id'' r))) (\<lambda>d. mret (Some d))) (\<lambda>_. mret None)) (\<lambda>detail.
       case detail of
         None \<Rightarrow> mret []
       | Some d \<Rightarrow>
           mbind (mlift (apply_usage_detail (jd_base (js_db s)) r d)) (\<lambda>(can_update, reason, new_memory, new_cpu).
             mret (if can_update then [(row_id r, new_memory, new_cpu)] else []))))"

definition updated_of :: "usage_updates list \<Rightarrow> nat" where
  "updated_of us = length (filter (\<lambda>u. u \<noteq> []) us)"

text \<open>The commit: the changes of the session, all or none.\<close>

definition usage_change :: "usage_updates \<Rightarrow> pdict \<Rightarrow> pdict" where
  "usage_change us r = (case map_of us (row_id r) of None \<Rightarrow> r | Some (m, c) \<Rightarrow> fill_usage m c r)"

definition write_usage :: "usage_updates \<Rightarrow> jobs_db \<Rightarrow> jobs_db" where
  "write_usage us jd = jd\<lparr>jd_rows := map (usage_change us) (jd_rows jd)\<rparr>"

definition commit_usage :: "'p postgres \<Rightarrow> usage_updates \<Rightarrow> (('x, 'p) jobs_store, unit) meth" where
  "commit_usage P us s =
     (if us = [] then (Inr (), s)
      else case pg_runs P [] (js_pg s) of
        (ok, p) \<Rightarrow> if ok then (Inr (), s\<lparr>js_pg := p, js_db := write_usage us (js_db s)\<rparr>)
                  else (Inl (BackendError ''OperationalError''), s\<lparr>js_pg := p\<rparr>))"

definition backfill_usage_fields ::
  "'p postgres \<Rightarrow> 'x detail_client option \<Rightarrow> backfill_args \<Rightarrow> bool \<Rightarrow> (('x, 'p) jobs_store, backfill_counts) meth" where
  "backfill_usage_fields P client a dry_run =
     (case client of
        None \<Rightarrow> mret \<lparr>bc_scanned = 0, bc_updated = 0, bc_skipped = 0\<rparr>
      | Some C \<Rightarrow>
          mbind (usage_backfill_candidates P a) (\<lambda>rows.
          mbind (mmap (backfill_row C) rows) (\<lambda>us.
          mbind (if dry_run then mret () else commit_usage P (concat us)) (\<lambda>_.
            mret \<lparr>bc_scanned = length rows, bc_updated = updated_of us,
                  bc_skipped = length rows - updated_of us\<rparr>))))"


section \<open>What the repair changes\<close>

definition USAGE_COLUMNS :: "string list" where
  "USAGE_COLUMNS = [''used_memory_gb'', ''used_cpu_cores_avg'']"

text \<open>A repaired row: only a missing figure may change, and to a number of hundredths.\<close>

definition repaired :: "pdict \<Rightarrow> pdict \<Rightarrow> bool" where
  "repaired r r' \<longleftrightarrow> (\<forall>c. c \<notin> set USAGE_COLUMNS \<longrightarrow> dget c r' = dget c r)
     \<and> (\<forall>c \<in> set USAGE_COLUMNS. if dget c r \<noteq> VNone then dget c r' = dget c r
          else dget c r' = VNone \<or> (\<exists>n. dget c r' = VFloat (of_int n / 100)))"

definition hundredths :: "rat option \<Rightarrow> bool" where
  "hundredths x \<longleftrightarrow> (\<forall>q. x = Some q \<longrightarrow> (\<exists>n. q = of_int n / 100))"

lemma metric_hundredths: "hundredths (metric_of v)"
  using metric_rounded by (auto simp: hundredths_def metric_of_def round_metric_def)

lemma repaired_refl [simp]: "repaired r r"
  by (simp add: repaired_def)

lemma fill_usage_repaired: "hundredths m \<Longrightarrow> hundredths c \<Longrightarrow> repaired r (fill_usage m c r)"
  by (auto simp: repaired_def fill_usage_def Let_def USAGE_COLUMNS_def hundredths_def opt_float_def split: option.split)

lemma usage_change_repaired:
  "\<forall>(n, m, c) \<in> set us. hundredths m \<and> hundredths c \<Longrightarrow> repaired r (usage_change us r)"
  using fill_usage_repaired by (fastforce simp: usage_change_def dest: map_of_SomeD split: option.split)

lemma apply_usage_values:
  "apply_usage_detail db r d = Inr (b, reason, m, c) \<Longrightarrow> hundredths m \<and> hundredths c \<and> (b \<longrightarrow> missing_usage r)"
  using metric_hundredths
  by (auto simp: apply_usage_detail_def rbind_eq_Inr Let_def hundredths_def missing_usage_def split: if_splits)

text \<open>The changes a row leads to are its own, and only if a figure is missing.\<close>

definition own_changes :: "pdict \<Rightarrow> usage_updates \<Rightarrow> bool" where
  "own_changes r us \<longleftrightarrow> (\<forall>(n, m, c) \<in> set us. n = row_id r \<and> missing_usage r \<and> hundredths m \<and> hundredths c)"

lemma backfill_row_result:
  assumes "backfill_row C r s = (q, s1)"
  shows "js_db s1 = js_db s \<and> js_pending s1 = js_pending s \<and> (\<forall>us. q = Inr us \<longrightarrow> own_changes r us)"
  using assms apply_usage_values
  by (auto simp: backfill_row_def mbind_def mcatch_def on_source_def own_changes_def
      split: sum.splits prod.splits option.splits if_splits)

lemma backfill_rows_result:
  "mmap (backfill_row C) rows s = (q, s1) \<Longrightarrow>
   js_db s1 = js_db s \<and> js_pending s1 = js_pending s \<and> (\<forall>us. q = Inr us \<longrightarrow> list_all2 own_changes rows us)"
proof (induction rows arbitrary: s q s1)
  case (Cons r rows)
  obtain q1 s2 where one: "backfill_row C r s = (q1, s2)" by (rule prod.exhaust)
  note res = backfill_row_result [OF one]
  show ?case
  proof (cases q1)
    case (Inl e)
    then show ?thesis using Cons.prems one res by (auto simp: mbind_def)
  next
    case (Inr u)
    obtain q2 s3 where rest: "mmap (backfill_row C) rows s2 = (q2, s3)" by (rule prod.exhaust)
    from Cons.IH [OF rest] show ?thesis
      using Cons.prems one res rest Inr by (cases q2) (auto simp: mbind_def)
  qed
qed simp

lemma repaired_key: "repaired r r' \<Longrightarrow> job_key r' = job_key r \<and> row_id r' = row_id r \<and> key_given r' = key_given r
    \<and> user_exists db r' = user_exists db r"
  by (simp add: repaired_def USAGE_COLUMNS_def job_key_def row_id_def key_given_def user_exists_def)

lemma write_usage_ok:
  assumes "jobs_ok jd" and "\<forall>(n, m, c) \<in> set us. hundredths m \<and> hundredths c"
  shows "jobs_ok (write_usage us jd)"
proof -
  have r: "repaired r (usage_change us r)" for r using usage_change_repaired [OF assms(2)] .
  have "jobs_ok (jd\<lparr>jd_seq := jd_seq jd, jd_rows := map (usage_change us) (jd_rows jd)\<rparr>)"
    by (rule jobs_ok_map [OF assms(1)]) (use repaired_key [OF r] assms(1) in \<open>simp_all add: jobs_ok_def\<close>)
  then show ?thesis by (simp add: write_usage_def)
qed

lemma candidates_finished:
  assumes "usage_backfill_rows a jd = Inr rows" and "r \<in> set rows"
  shows "r \<in> set (jd_rows jd) \<and> finished_row r"
proof -
  obtain job_id where "set rows \<subseteq> set (filter (usage_candidate (jd_base jd) a job_id) (jd_rows jd))"
    using assms(1) set_take_subset
    by (auto simp: usage_backfill_rows_def rbind_eq_Inr Let_def split: option.splits if_splits) fastforce+
  with assms(2) show ?thesis by (auto simp: usage_candidate_def)
qed

lemma changes_of_rows:
  assumes "list_all2 own_changes rows us" and "(n, m, c) \<in> set (concat us)"
  shows "hundredths m \<and> hundredths c \<and> (\<exists>r \<in> set rows. row_id r = n \<and> missing_usage r)"
proof -
  from assms(2) obtain u where u: "u \<in> set us" "(n, m, c) \<in> set u" by auto
  then obtain r where "r \<in> set rows" "own_changes r u" using assms(1) by (metis in_set_conv_nth list_all2_conv_all_nth)
  with u(2) show ?thesis by (auto simp: own_changes_def)
qed

lemma commit_usage_result:
  "commit_usage P us s = (q, s1) \<Longrightarrow> js_pending s1 = js_pending s
     \<and> (js_db s1 = js_db s \<or> (\<exists>u. q = Inr u) \<and> js_db s1 = write_usage us (js_db s))"
  by (auto simp: commit_usage_def split: if_splits prod.splits)

lemma write_usage_rows:
  assumes "jobs_ok jd" and "list_all2 own_changes rows us" and "\<forall>r \<in> set rows. r \<in> set (jd_rows jd) \<and> finished_row r"
  shows "jobs_ok (write_usage (concat us) jd) \<and> list_all2 repaired (jd_rows jd) (jd_rows (write_usage (concat us) jd))
    \<and> list_all2 (\<lambda>r r'. r' = r \<or> finished_row r \<and> missing_usage r) (jd_rows jd) (jd_rows (write_usage (concat us) jd))"
proof -
  have hs: "\<forall>(n, m, c) \<in> set (concat us). hundredths m \<and> hundredths c" using changes_of_rows [OF assms(2)] by blast
  have "usage_change (concat us) r = r \<or> finished_row r \<and> missing_usage r" if r: "r \<in> set (jd_rows jd)" for r
  proof (cases "map_of (concat us) (row_id r)")
    case (Some mc)
    then obtain m c where "(row_id r, m, c) \<in> set (concat us)" by (cases mc) (auto dest: map_of_SomeD)
    from changes_of_rows [OF assms(2) this] obtain r0 where r0: "r0 \<in> set rows" "row_id r0 = row_id r" "missing_usage r0" by blast
    then have "r0 = r" using assms(1,3) r unfolding jobs_ok_def by (meson distinct_map inj_onD)
    with r0 assms(3) show ?thesis by blast
  qed (simp add: usage_change_def)
  then show ?thesis
    using write_usage_ok [OF assms(1) hs] usage_change_repaired [OF hs]
    by (simp add: write_usage_def list_all2_map2 list_all2_same)
qed

lemma backfill_result:
  assumes "backfill_usage_fields P client a dry_run s = (q, s1)" and "jobs_ok (js_db s)"
  shows "jobs_ok (js_db s1) \<and> js_pending s1 = js_pending s
    \<and> list_all2 repaired (jd_rows (js_db s)) (jd_rows (js_db s1))
    \<and> list_all2 (\<lambda>r r'. r' = r \<or> finished_row r \<and> missing_usage r) (jd_rows (js_db s)) (jd_rows (js_db s1))
    \<and> (dry_run \<or> (\<exists>e. q = Inl e) \<longrightarrow> js_db s1 = js_db s)
    \<and> (\<forall>counts. q = Inr counts \<longrightarrow> bc_scanned counts = bc_updated counts + bc_skipped counts)"
proof -
  have same: ?thesis if "js_db s1 = js_db s" "js_pending s1 = js_pending s"
    "\<forall>counts. q = Inr counts \<longrightarrow> bc_scanned counts = bc_updated counts + bc_skipped counts"
    using that assms(2) by (auto simp: list_all2_refl)
  show ?thesis
  proof (cases client)
    case None
    then show ?thesis using assms(1) by (intro same) (auto simp: backfill_usage_fields_def)
  next
    case (Some C)
    obtain q0 s0 where cand: "usage_backfill_candidates P a s = (q0, s0)" by (rule prod.exhaust)
    have s0: "js_db s0 = js_db s" "js_pending s0 = js_pending s"
      and q0: "\<And>rows. q0 = Inr rows \<Longrightarrow> usage_backfill_rows a (js_db s) = Inr rows"
      using cand by (auto simp: usage_backfill_candidates_def mbind_def get_conn_def split: prod.splits if_splits)
    show ?thesis
    proof (cases q0)
      case (Inl e)
      then show ?thesis using assms(1) Some cand s0 by (intro same) (auto simp: backfill_usage_fields_def mbind_def)
    next
      case (Inr rows)
      obtain q2 s2 where loop: "mmap (backfill_row C) rows s0 = (q2, s2)" by (rule prod.exhaust)
      note l = backfill_rows_result [OF loop]
      show ?thesis
      proof (cases q2)
        case (Inl e)
        then show ?thesis using assms(1) Some cand Inr loop l s0
          by (intro same) (auto simp: backfill_usage_fields_def mbind_def)
      next
        case us: (Inr us)
        have own: "list_all2 own_changes rows us" using l us by blast
        have rows: "\<forall>r \<in> set rows. r \<in> set (jd_rows (js_db s)) \<and> finished_row r"
          using candidates_finished q0 [OF Inr] by blast
        have "length us = length rows" using own by (simp add: list_all2_lengthD)
        then have count: "updated_of us \<le> length rows"
          using length_filter_le [of "\<lambda>u. u \<noteq> []" us] by (simp add: updated_of_def)
        obtain q3 s3 where c: "(if dry_run then mret () else commit_usage P (concat us)) s2 = (q3, s3)" by (rule prod.exhaust)
        have end_state: "s1 = s3" "\<And>e. q = Inl e \<Longrightarrow> q3 = Inl e"
          "\<forall>counts. q = Inr counts \<longrightarrow> bc_scanned counts = bc_updated counts + bc_skipped counts"
          using assms(1) Some cand Inr loop us c count by (auto simp: backfill_usage_fields_def mbind_def split: sum.splits)
        consider "js_db s3 = js_db s2" | "\<not> dry_run" "\<exists>u. q3 = Inr u" "js_db s3 = write_usage (concat us) (js_db s2)"
          using c commit_usage_result [of P "concat us" s2 q3 s3] by (auto split: if_splits)
        moreover have pend: "js_pending s3 = js_pending s"
          using c commit_usage_result [of P "concat us" s2 q3 s3] l s0 by (auto split: if_splits)
        ultimately show ?thesis
        proof cases
          case 1
          then show ?thesis using end_state pend l s0 by (intro same) simp_all
        next
          case 2
          have "js_db s1 = write_usage (concat us) (js_db s)" using 2(3) end_state(1) l s0 by simp
          then show ?thesis
            using write_usage_rows [OF assms(2) own rows] 2(1,2) end_state pend by auto
        qed
      qed
    qed
  qed
qed


text \<open>A finished job without figures, and a client that knows them.\<close>

definition demo_snapshot :: pdict where
  "demo_snapshot = [(''id'', VInt 1), (''job_id'', VInt 1), (''submit_time'', VTime 1000000), (''job_state'', VStr ''COMPLETED'')]"

definition demo_missing :: "(unit, unit) jobs_store" where
  "demo_missing = demo_store\<lparr>js_db := \<lparr>jd_base = empty_db, jd_rows = [demo_snapshot], jd_seq = 1\<rparr>\<rparr>"

definition demo_detail :: pdict where
  "demo_detail = [(''job_id'', VInt 1), (''submit_time'', VInt 1), (''time'', VDict [(''elapsed'', VInt 10)]),
     (''steps'', VList [demo_step ''batch'' 30 1073741824])]"

definition demo_client :: "unit detail_client" where
  "demo_client = \<lparr>dc_job = Some (\<lambda>_. mret (VDict demo_detail)), dc_acctjob = \<lambda>_. mret VNone, dc_ctldjob = \<lambda>_. mret VNone\<rparr>"

definition demo_backfill :: backfill_args where
  "demo_backfill = \<lparr>ba_start_time = None, ba_end_time = None, ba_username = None, ba_user_id = None,
     ba_job_id = VNone, ba_limit = None, ba_missing_only = True\<rparr>"

lemma demo_candidates: "usage_backfill_rows demo_backfill (js_db demo_missing) = Inr [demo_snapshot]"
proof -
  have "py_upper ''COMPLETED'' = ''COMPLETED''" by code_simp
  moreover have "no_wildcard ''COMPLETED''" unfolding no_wildcard_def by (intro conjI) (simp, simp, code_simp)
  then have "sql_like ''%COMPLETED%'' ''COMPLETED''"
    using sql_like_contains [of "''COMPLETED''" "''COMPLETED''"] by simp
  ultimately have "finished_row demo_snapshot"
    by (simp add: finished_row_def demo_snapshot_def dget_Cons)
  moreover have "missing_usage demo_snapshot" by (simp add: missing_usage_def demo_snapshot_def dget_or_def)
  ultimately show ?thesis
    by (simp add: usage_backfill_rows_def usage_candidate_def demo_backfill_def demo_missing_def)
qed

lemma demo_applied: "apply_usage_detail empty_db demo_snapshot (VDict demo_detail) = Inr (True, ''ok'', Some 1, Some 3)"
proof -
  have "map_sum id snd (usage_stats demo_detail) = Inr (Some 1, Some 3)" by code_simp
  then obtain stats where "usage_stats demo_detail = Inr (stats, Some 1, Some 3)" by (cases "usage_stats demo_detail") auto
  moreover have "state_str (time_value (dget_or ''state'' (VDict []) demo_detail) ''current'' (dget ''job_state'' demo_detail)) = Inr VNone"
    "gres_str (dget ''gres_detail'' demo_detail) = Inr VNone"
    "exit_str (py_or (dget ''exit_code'' demo_detail) (dget ''derived_exit_code'' demo_detail)) = Inr VNone"
    by (simp_all add: demo_detail_def dget_or_def time_value_def state_str_def none_or_empty_def gres_str_def text_or_none_def
        exit_str_def py_or_def)
  ultimately obtain row where "extract_detail (VDict demo_detail) (usage_record empty_db demo_snapshot) = Inr row"
    "dget ''job_id'' row = dget_or ''job_id'' (dget ''job_id'' (usage_record empty_db demo_snapshot)) demo_detail"
    "dget ''submit_time'' row =
        (let t = ts (time_value (dget_or ''time'' (VDict []) demo_detail) ''submission'' (dget ''submit_time'' demo_detail))
         in if t = VNone then dget ''submit_time'' (usage_record empty_db demo_snapshot) else t)"
    "dget ''used_memory_gb'' row = VFloat 1" "dget ''used_cpu_cores_avg'' row = VFloat 3"
    using extract_detail_fields [of demo_detail stats "Some 1" "Some 3" VNone VNone VNone "usage_record empty_db demo_snapshot"]
    by (auto simp: opt_float_def)
  moreover have "ts (time_value (dget_or ''time'' (VDict []) demo_detail) ''submission'' (dget ''submit_time'' demo_detail)) = VTime 1000000"
    "dget_or ''job_id'' x demo_detail = VInt 1" for x
    by (simp_all add: demo_detail_def dget_or_def time_value_def ts_def none_or_empty_def MAX_TIMESTAMP_def)
  moreover have "metric_of (VFloat 1) = Some 1" "metric_of (VFloat 3) = Some 3"
    using round_half_up_exact [of 100] round_half_up_exact [of 300] by (simp_all add: metric_of_def round_metric_def)
  moreover have "dget ''submit_time'' demo_snapshot = VTime 1000000" "dget ''used_memory_gb'' demo_snapshot = VNone"
    by (simp_all add: demo_snapshot_def dget_or_def)
  ultimately show ?thesis by (simp add: apply_usage_detail_def)
qed

lemma demo_row_change: "backfill_row demo_client demo_snapshot demo_missing = (Inr [(1, Some 1, Some 3)], demo_missing)"
  using demo_applied
  by (simp add: backfill_row_def mbind_def mcatch_def on_source_def fetch_job_detail_def demo_client_def demo_missing_def
      demo_store_def queue_rows_def row_id_def demo_snapshot_def dget_or_def)


end
