(* ===== verification/CompletedJobs.thy ===== *)
theory CompletedJobs
  imports JobsStore "HOL-Library.Multiset"
begin

text \<open>
  The completed jobs that \<open>JobsStore\<close> hands to the daily statistics: the rows of a window of submit
  times, of a day, of a range of days, and the first and last day there are. A date is its number of
  days since 1970-01-01, in UTC.
\<close>

section \<open>Rows of a window\<close>

definition DAY :: int where
  "DAY = 86400000000"

text \<open>The filters of \<open>_submitted_completed_jobs_query\<close> and of \<open>completed_date_bounds\<close>, with the user's name.\<close>

definition completed_snapshot :: "db \<Rightarrow> string option \<Rightarrow> pdict \<Rightarrow> bool" where
  "completed_snapshot db username r \<longleftrightarrow>
     dget ''user_id'' r \<noteq> VNone \<and> dget ''submit_time'' r \<noteq> VNone
     \<and> (case dget ''job_state'' r of VStr st \<Rightarrow> py_upper st = ''COMPLETED'' | _ \<Rightarrow> False)
     \<and> (case username of None \<Rightarrow> True | Some u \<Rightarrow> u = [] \<or> username_of db (dget ''user_id'' r) = VStr u)"

definition in_window :: "int option \<Rightarrow> int option \<Rightarrow> pdict \<Rightarrow> bool" where
  "in_window start_time end_time r \<longleftrightarrow>
     (case start_time of None \<Rightarrow> True | Some a \<Rightarrow> a \<le> time_us (dget ''submit_time'' r))
     \<and> (case end_time of None \<Rightarrow> True | Some b \<Rightarrow> time_us (dget ''submit_time'' r) < b)"

definition row_int :: "string \<Rightarrow> pdict \<Rightarrow> int" where
  "row_int c r = (case dget c r of VInt n \<Rightarrow> n | _ \<Rightarrow> 0)"

definition submit_order :: "pdict \<Rightarrow> int list" where
  "submit_order r = [time_us (dget ''submit_time'' r), row_int ''job_id'' r]"

definition submitted_completed_jobs :: "string option \<Rightarrow> int option \<Rightarrow> int option \<Rightarrow> jobs_db \<Rightarrow> pdict list" where
  "submitted_completed_jobs username start_time end_time jd =
     sort_key submit_order
       (filter (\<lambda>r. completed_snapshot (jd_base jd) username r \<and> in_window start_time end_time r) (jd_rows jd))"

text \<open>The row of a snapshot, none without a submit time.\<close>

definition serialize_completed_row :: "db \<Rightarrow> int \<Rightarrow> pdict \<Rightarrow> pdict option" where
  "serialize_completed_row db activity_date r =
     (if dget ''submit_time'' r = VNone then None
      else Some ([(''activity_date'', VInt activity_date), (''job_id'', dget ''job_id'' r),
             (''job_state'', dget ''job_state'' r), (''submit_time'', dget ''submit_time'' r),
             (''user_id'', dget ''user_id'' r), (''username'', username_of db (dget ''user_id'' r))]
           @ map (\<lambda>c. (c, dget c r)) [''job_name'', ''command'', ''used_memory_gb'', ''used_cpu_cores_avg'',
               ''start_time'', ''end_time'', ''last_seen'', ''usage_stats'']))"

definition completed_job_rows_by_submit_window ::
  "'p postgres \<Rightarrow> string option \<Rightarrow> int option \<Rightarrow> int option \<Rightarrow> int option \<Rightarrow> (('x, 'p) jobs_store, pdict list) meth" where
  "completed_job_rows_by_submit_window P username start_time end_time activity_date =
     (case activity_date of
        None \<Rightarrow> mraise (ValueError ''activity_date must be provided for daily aggregation rows'')
      | Some d \<Rightarrow>
          mbind (get_conn P) (\<lambda>_. mwith (\<lambda>s.
            mret (concat (map (\<lambda>r. case serialize_completed_row (jd_base (js_db s)) d r of None \<Rightarrow> [] | Some x \<Rightarrow> [x])
              (submitted_completed_jobs username start_time end_time (js_db s)))))))"

definition completed_job_rows_by_completion_window ::
  "'p postgres \<Rightarrow> string option \<Rightarrow> int option \<Rightarrow> int option \<Rightarrow> (('x, 'p) jobs_store, pdict list) meth" where
  "completed_job_rows_by_completion_window P username start_time end_time =
     completed_job_rows_by_submit_window P username start_time end_time None"

definition completed_job_rows_for_activity_date ::
  "'p postgres \<Rightarrow> int \<Rightarrow> string option \<Rightarrow> (('x, 'p) jobs_store, pdict list) meth" where
  "completed_job_rows_for_activity_date P activity_date username =
     completed_job_rows_by_submit_window P username (Some (activity_date * DAY)) (Some (activity_date * DAY + DAY))
       (Some activity_date)"

text \<open>The loop over the days from the first to the last.\<close>

definition completed_job_rows_for_activity_dates ::
  "'p postgres \<Rightarrow> int \<Rightarrow> int \<Rightarrow> string option \<Rightarrow> (('x, 'p) jobs_store, pdict list) meth" where
  "completed_job_rows_for_activity_dates P start_date end_date username =
     mbind (mmap (\<lambda>d. completed_job_rows_for_activity_date P d username) [start_date..end_date]) (\<lambda>rs. mret (concat rs))"

definition completed_date_bounds :: "'p postgres \<Rightarrow> string option \<Rightarrow> (('x, 'p) jobs_store, (int \<times> int) option) meth" where
  "completed_date_bounds P username =
     mbind (get_conn P) (\<lambda>_. mwith (\<lambda>s.
       let ts = map (\<lambda>r. time_us (dget ''submit_time'' r))
                  (filter (completed_snapshot (jd_base (js_db s)) username) (jd_rows (js_db s)))
       in mret (if ts = [] then None else Some (Min (set ts) div DAY, Max (set ts) div DAY))))"


section \<open>Days make up a window\<close>

lemma sort_key_parts:
  fixes k :: "'a \<Rightarrow> 'b::linorder"
  assumes "\<And>x y. P x \<Longrightarrow> \<not> P y \<Longrightarrow> k x < k y"
  shows "sort_key k (filter P xs) @ sort_key k (filter (\<lambda>x. \<not> P x) xs) = sort_key k xs"
proof (rule properties_for_sort_key [symmetric])
  show "mset (sort_key k (filter P xs) @ sort_key k (filter (\<lambda>x. \<not> P x) xs)) = mset xs" by simp
  show "sorted (map k (sort_key k (filter P xs) @ sort_key k (filter (\<lambda>x. \<not> P x) xs)))"
    using assms by (auto simp: sorted_append intro: less_imp_le)
  fix x assume "x \<in> set (sort_key k (filter P xs) @ sort_key k (filter (\<lambda>x. \<not> P x) xs))"
  have same: "P y = P x" if "k x = k y" for y using assms [of x y] assms [of y x] that by auto
  have stable: "filter (\<lambda>y. k x = k y) (sort_key k ys) = filter (\<lambda>y. k x = k y) ys" for ys
    using sort_key_stable [of k "k x" ys] by (simp add: eq_commute)
  have "filter (\<lambda>y. k x = k y) (filter P ys) @ filter (\<lambda>y. k x = k y) (filter (\<lambda>y. \<not> P y) ys)
      = filter (\<lambda>y. k x = k y) ys" for ys
  proof (cases "P x")
    case True
    then have "\<forall>y. k x = k y \<longrightarrow> P y" using same by blast
    then have "filter (\<lambda>y. k x = k y) (filter P ys) = filter (\<lambda>y. k x = k y) ys"
      "filter (\<lambda>y. k x = k y) (filter (\<lambda>y. \<not> P y) ys) = []"
      unfolding filter_filter by (auto simp: filter_empty_conv intro!: filter_cong)
    then show ?thesis by simp
  next
    case False
    then have "\<forall>y. k x = k y \<longrightarrow> \<not> P y" using same by blast
    then have "filter (\<lambda>y. k x = k y) (filter (\<lambda>y. \<not> P y) ys) = filter (\<lambda>y. k x = k y) ys"
      "filter (\<lambda>y. k x = k y) (filter P ys) = []"
      unfolding filter_filter by (auto simp: filter_empty_conv intro!: filter_cong)
    then show ?thesis by simp
  qed
  then show "filter (\<lambda>y. k x = k y) (sort_key k (filter P xs) @ sort_key k (filter (\<lambda>x. \<not> P x) xs)) = filter (\<lambda>y. k x = k y) xs"
    by (simp only: filter_append stable)
qed

lemma window_parts:
  assumes "a \<le> m" and "m \<le> b"
  shows "submitted_completed_jobs u (Some a) (Some m) jd @ submitted_completed_jobs u (Some m) (Some b) jd
    = submitted_completed_jobs u (Some a) (Some b) jd"
proof -
  let ?P = "\<lambda>r. time_us (dget ''submit_time'' r) < m"
  let ?rows = "filter (\<lambda>r. completed_snapshot (jd_base jd) u r \<and> in_window (Some a) (Some b) r) (jd_rows jd)"
  have "submit_order x < submit_order y" if "?P x" "\<not> ?P y" for x y
    using that by (simp add: submit_order_def)
  note parts = sort_key_parts [of ?P submit_order ?rows, OF this]
  have "filter ?P ?rows = filter (\<lambda>r. completed_snapshot (jd_base jd) u r \<and> in_window (Some a) (Some m) r) (jd_rows jd)"
    "filter (\<lambda>r. \<not> ?P r) ?rows = filter (\<lambda>r. completed_snapshot (jd_base jd) u r \<and> in_window (Some m) (Some b) r) (jd_rows jd)"
    using assms unfolding filter_filter by (auto simp: in_window_def intro!: filter_cong)
  from parts [unfolded this] show ?thesis unfolding submitted_completed_jobs_def .
qed

lemma days_parts:
  "a \<le> b + 1 \<Longrightarrow> concat (map (\<lambda>d. submitted_completed_jobs u (Some (d * DAY)) (Some (d * DAY + DAY)) jd) [a..b])
     = submitted_completed_jobs u (Some (a * DAY)) (Some ((b + 1) * DAY)) jd"
proof (induction "nat (b + 1 - a)" arbitrary: b)
  case 0
  then have "b + 1 = a" by simp
  then show ?case by (simp add: submitted_completed_jobs_def in_window_def)
next
  case (Suc n)
  then have "concat (map (\<lambda>d. submitted_completed_jobs u (Some (d * DAY)) (Some (d * DAY + DAY)) jd) [a..b - 1])
      = submitted_completed_jobs u (Some (a * DAY)) (Some (b * DAY)) jd" by simp
  moreover have "[a..b] = [a..b - 1] @ [b]" using Suc by (simp add: upto_rec2)
  moreover have "a * DAY \<le> b * DAY" "b * DAY \<le> (b + 1) * DAY" using Suc by (simp_all add: DAY_def)
  ultimately show ?case using window_parts [of "a * DAY" "b * DAY" "(b + 1) * DAY" u jd]
    by (simp add: algebra_simps)
qed

lemma get_conn_state: "get_conn P s = (r, s1) \<Longrightarrow> js_db s1 = js_db s"
  by (auto simp: get_conn_def split: prod.splits)

lemma window_rows:
  assumes "completed_job_rows_by_submit_window P u a b (Some d) s = (Inr rows, s1)"
  shows "js_db s1 = js_db s
    \<and> rows = map (\<lambda>r. the (serialize_completed_row (jd_base (js_db s)) d r)) (submitted_completed_jobs u a b (js_db s))"
proof -
  have "concat (map (\<lambda>r. case serialize_completed_row db d r of None \<Rightarrow> [] | Some x \<Rightarrow> [x]) rs)
      = map (\<lambda>r. the (serialize_completed_row db d r)) rs" if "\<forall>r \<in> set rs. dget ''submit_time'' r \<noteq> VNone" for db rs
    using that by (induction rs) (auto simp: serialize_completed_row_def)
  moreover have "\<forall>r \<in> set (submitted_completed_jobs u a b jd). dget ''submit_time'' r \<noteq> VNone" for jd
    by (simp add: submitted_completed_jobs_def completed_snapshot_def)
  ultimately show ?thesis using assms get_conn_state [of P s]
    by (auto simp: completed_job_rows_by_submit_window_def elim!: mbind_cases)
qed

lemma days_rows:
  "mmap (\<lambda>d. completed_job_rows_for_activity_date P d u) ds s = (Inr rs, s1) \<Longrightarrow>
   js_db s1 = js_db s \<and> concat rs = concat (map (\<lambda>d.
     map (\<lambda>r. the (serialize_completed_row (jd_base (js_db s)) d r))
       (submitted_completed_jobs u (Some (d * DAY)) (Some (d * DAY + DAY)) (js_db s))) ds)"
proof (induction ds arbitrary: s rs)
  case (Cons d ds)
  then obtain r s2 rs2 where "completed_job_rows_for_activity_date P d u s = (Inr r, s2)"
    and rest: "mmap (\<lambda>d. completed_job_rows_for_activity_date P d u) ds s2 = (Inr rs2, s1)" and "rs = r # rs2"
    by (auto elim!: mbind_cases)
  with window_rows [of P u _ _ d s r s2] Cons.IH [OF rest] show ?case
    by (simp add: completed_job_rows_for_activity_date_def)
qed simp

section \<open>All completed jobs, each on its day\<close>

lemma dates_rows:
  assumes "completed_job_rows_for_activity_dates P a b u s = (Inr rows, s1)" and "a \<le> b + 1"
  shows "rows = map (\<lambda>r. the (serialize_completed_row (jd_base (js_db s)) (time_us (dget ''submit_time'' r) div DAY) r))
      (submitted_completed_jobs u (Some (a * DAY)) (Some ((b + 1) * DAY)) (js_db s))"
proof -
  obtain rs where "mmap (\<lambda>d. completed_job_rows_for_activity_date P d u) [a..b] s = (Inr rs, s1)" "rows = concat rs"
    using assms(1) by (auto simp: completed_job_rows_for_activity_dates_def elim!: mbind_cases)
  from days_rows [OF this(1)] this(2) have rows: "rows = concat (map (\<lambda>d.
     map (\<lambda>r. the (serialize_completed_row (jd_base (js_db s)) d r))
       (submitted_completed_jobs u (Some (d * DAY)) (Some (d * DAY + DAY)) (js_db s))) [a..b])" by simp
  have "time_us (dget ''submit_time'' r) div DAY = d"
    if "r \<in> set (submitted_completed_jobs u (Some (d * DAY)) (Some (d * DAY + DAY)) (js_db s))" for r d
    using that unfolding submitted_completed_jobs_def in_window_def DAY_def by (auto simp: algebra_simps)
  then have "rows = concat (map (\<lambda>d.
     map (\<lambda>r. the (serialize_completed_row (jd_base (js_db s)) (time_us (dget ''submit_time'' r) div DAY) r))
       (submitted_completed_jobs u (Some (d * DAY)) (Some (d * DAY + DAY)) (js_db s))) [a..b])"
    unfolding rows by (auto intro!: arg_cong [where f = concat])
  also have "\<dots> = map (\<lambda>r. the (serialize_completed_row (jd_base (js_db s)) (time_us (dget ''submit_time'' r) div DAY) r))
      (concat (map (\<lambda>d. submitted_completed_jobs u (Some (d * DAY)) (Some (d * DAY + DAY)) (js_db s)) [a..b]))"
    by (simp add: map_concat comp_def)
  finally show ?thesis by (simp add: days_parts [OF assms(2)])
qed

lemma day_floor: "t div DAY * DAY \<le> t" "t < (t div DAY + 1) * DAY"
proof -
  have "t = t div DAY * DAY + t mod DAY" by (simp add: div_mult_mod_eq)
  moreover have "0 \<le> t mod DAY" "t mod DAY < DAY" by (simp_all add: DAY_def)
  ultimately show "t div DAY * DAY \<le> t" "t < (t div DAY + 1) * DAY" unfolding distrib_right by linarith+
qed

lemma bounds_window:
  assumes "completed_date_bounds P u s = (Inr (Some (a, b)), s1)"
  shows "js_db s1 = js_db s \<and> a \<le> b
    \<and> submitted_completed_jobs u (Some (a * DAY)) (Some ((b + 1) * DAY)) (js_db s) = submitted_completed_jobs u None None (js_db s)"
proof -
  define ts where "ts = map (\<lambda>r. time_us (dget ''submit_time'' r)) (filter (completed_snapshot (jd_base (js_db s)) u) (jd_rows (js_db s)))"
  have b: "ts \<noteq> []" "a = Min (set ts) div DAY" "b = Max (set ts) div DAY" "js_db s1 = js_db s"
    using assms get_conn_state [of P s]
    by (auto simp: completed_date_bounds_def ts_def Let_def split: if_splits elim!: mbind_cases)
  have "in_window (Some (a * DAY)) (Some ((b + 1) * DAY)) r"
    if "r \<in> set (jd_rows (js_db s))" "completed_snapshot (jd_base (js_db s)) u r" for r
  proof -
    have mem: "time_us (dget ''submit_time'' r) \<in> set ts" using that by (simp add: ts_def)
    then have "Min (set ts) \<le> time_us (dget ''submit_time'' r)" "time_us (dget ''submit_time'' r) \<le> Max (set ts)" by simp_all
    moreover have "Min (set ts) div DAY * DAY \<le> Min (set ts)" "Max (set ts) < (Max (set ts) div DAY + 1) * DAY"
      using day_floor by simp_all
    ultimately show ?thesis using b(2,3) by (simp add: in_window_def)
  qed
  then have "filter (\<lambda>r. completed_snapshot (jd_base (js_db s)) u r \<and> in_window (Some (a * DAY)) (Some ((b + 1) * DAY)) r)
      (jd_rows (js_db s)) = filter (\<lambda>r. completed_snapshot (jd_base (js_db s)) u r \<and> in_window None None r) (jd_rows (js_db s))"
    by (intro filter_cong) (auto simp: in_window_def)
  moreover have "Min (set ts) \<le> Max (set ts)" using b(1) by (simp add: Min_le_iff Max_ge_iff)
  then have "a \<le> b" unfolding b(2,3) DAY_def by (intro zdiv_mono1) simp_all
  ultimately show ?thesis using b(4) by (simp add: submitted_completed_jobs_def)
qed

text \<open>
  C25. A rebuild of the statistics over the date bounds sees every completed job exactly once, in the
  order of submission, and under the UTC day it was submitted on. The range is read day by day, which
  gives what one query over all of it gives.
\<close>

theorem rebuild_sees_all:
  assumes "completed_date_bounds P u s = (Inr (Some (first_day, last_day)), s1)"
    and "completed_job_rows_for_activity_dates P first_day last_day u s1 = (Inr rows, s2)"
  shows "rows = map (\<lambda>r. the (serialize_completed_row (jd_base (js_db s)) (time_us (dget ''submit_time'' r) div DAY) r))
      (submitted_completed_jobs u None None (js_db s))
    \<and> mset (submitted_completed_jobs u None None (js_db s))
        = mset (filter (completed_snapshot (jd_base (js_db s)) u) (jd_rows (js_db s)))
    \<and> (\<forall>row \<in> set rows. dget ''activity_date'' row = VInt (time_us (dget ''submit_time'' row) div DAY))"
proof -
  note w = bounds_window [OF assms(1)]
  have rows: "rows = map (\<lambda>r. the (serialize_completed_row (jd_base (js_db s)) (time_us (dget ''submit_time'' r) div DAY) r))
      (submitted_completed_jobs u None None (js_db s))"
    using dates_rows [OF assms(2)] w by simp
  moreover have "dget ''activity_date'' row = VInt (time_us (dget ''submit_time'' row) div DAY)" if row: "row \<in> set rows" for row
  proof -
    from row rows obtain r where r: "r \<in> set (submitted_completed_jobs u None None (js_db s))"
      and eq: "row = the (serialize_completed_row (jd_base (js_db s)) (time_us (dget ''submit_time'' r) div DAY) r)" by auto
    have "dget ''submit_time'' r \<noteq> VNone" using r by (simp add: submitted_completed_jobs_def completed_snapshot_def)
    then show ?thesis unfolding eq by (simp add: serialize_completed_row_def dget_or_def)
  qed
  ultimately show ?thesis by (simp add: submitted_completed_jobs_def in_window_def)
qed

definition demo_completed :: "(unit, unit) jobs_store" where
  "demo_completed = demo_store\<lparr>js_db := \<lparr>jd_base = empty_db, jd_rows =
     map (\<lambda>n. [(''id'', VInt n), (''job_id'', VInt n), (''submit_time'', VTime ((3 - n) * DAY)), (''user_id'', VInt 1),
        (''job_state'', VStr (if n = 2 then ''RUNNING'' else ''COMPLETED''))]) [1, 2, 3], jd_seq = 3\<rparr>\<rparr>"

theorem rebuild_sees_all_witness:
  "\<exists>rows s2. completed_job_rows_for_activity_dates demo_postgres 0 2 None demo_completed = (Inr rows, s2)
     \<and> map (dget ''job_id'') rows = [VInt 3, VInt 1] \<and> map (dget ''activity_date'') rows = [VInt 0, VInt 2]
     \<and> (\<forall>row \<in> set rows. dget ''activity_date'' row = VInt (time_us (dget ''submit_time'' row) div DAY))"
proof -
  have b: "fst (completed_date_bounds demo_postgres None demo_completed) = Inr (Some (0, 2))" by code_simp
  have s: "snd (completed_date_bounds demo_postgres None demo_completed) = demo_completed"
    by (simp add: completed_date_bounds_def get_conn_def mbind_def demo_postgres_def demo_completed_def demo_store_def queue_rows_def Let_def)
  have bounds: "completed_date_bounds demo_postgres None demo_completed = (Inr (Some (0, 2)), demo_completed)"
    using b s by (metis prod.collapse)
  obtain q s2 where q: "completed_job_rows_for_activity_dates demo_postgres 0 2 None demo_completed = (q, s2)" by (rule prod.exhaust)
  have "(case fst (completed_job_rows_for_activity_dates demo_postgres 0 2 None demo_completed) of
      Inr rows \<Rightarrow> map (dget ''job_id'') rows = [VInt 3, VInt 1] \<and> map (dget ''activity_date'') rows = [VInt 0, VInt 2] | _ \<Rightarrow> False)"
    by code_simp
  then obtain rows where rows: "q = Inr rows" "map (dget ''job_id'') rows = [VInt 3, VInt 1]"
    "map (dget ''activity_date'') rows = [VInt 0, VInt 2]" using q by (cases q) auto
  from rebuild_sees_all [OF bounds q [unfolded rows(1)]] have
    "\<forall>row \<in> set rows. dget ''activity_date'' row = VInt (time_us (dget ''submit_time'' row) div DAY)" by blast
  then show ?thesis using q rows by (intro exI [of _ rows] exI [of _ s2] conjI) simp_all
qed

end
