(* ===== verification/JobsRun.thy ===== *)
theory JobsRun
  imports UsageBackfill CompletedJobs
begin

text \<open>
  The store of the job history over time: its methods as steps in any order, with rows submitted by
  requests between the parts of a flush, and what every history keeps. Then a job that leaves the
  listing, from the snapshot that misses it to the table.
\<close>

section \<open>The invariant over time\<close>

lemma keeps_fetch_record [keeps_intros]: "keeps (written_since jd) (fetch_record P i)"
  unfolding fetch_record_def by (intro keeps_intros)

lemma keeps_plain_record [keeps_intros]: "keeps (written_since jd) (plain_record P i)"
  unfolding plain_record_def by (intro keeps_intros)

lemma keeps_enrich [keeps_intros]: "keeps (written_since jd) (maybe_enrich_record P source now record)"
  unfolding maybe_enrich_record_def
  by (auto split: option.split intro!: keeps_intros)

lemma keeps_get_by_id [keeps_intros]: "keeps (written_since jd) (get_by_id P source now i enrich)"
  unfolding get_by_id_def by (auto split: option.split intro!: keeps_intros)

lemma keeps_query [keeps_intros]: "keeps (written_since jd) (query P Q filters)"
  unfolding query_def by (auto simp: Let_def split: prod.split intro!: keeps_intros)

text \<open>Rows submitted after the limit are kept.\<close>

definition kept_since :: "int \<Rightarrow> jobs_db \<Rightarrow> jobs_db \<Rightarrow> bool" where
  "kept_since limit jd jd' \<longleftrightarrow>
     (\<forall>r \<in> set (jd_rows jd). limit \<le> time_us (dget ''submit_time'' r) \<longrightarrow> (\<exists>r' \<in> set (jd_rows jd'). kept_row r r'))"

inductive store_step :: "int \<Rightarrow> ('x, 'p) jobs_store \<Rightarrow> ('x, 'p) jobs_store \<Rightarrow> bool" for limit where
  submit: "submit_jobs jobs s = (r, s') \<Longrightarrow> store_step limit s s'"
| snapshot: "scheduled_snapshot P source now s = (r, s') \<Longrightarrow> store_step limit s s'"
| take_rows: "take_batch s = (r, s') \<Longrightarrow> store_step limit s s'"
| write_rows: "write_batch P now batch s = (r, s') \<Longrightarrow> store_step limit s s'"
| requeue_rows: "store_step limit s (requeue failed s)"
| clean_up: "maybe_cleanup P now days s = (r, s') \<Longrightarrow> now - days * 86400000000 \<le> limit \<Longrightarrow> store_step limit s s'"
| read_page: "query P Q filters s = (r, s') \<Longrightarrow> store_step limit s s'"
| read_record: "get_by_id P source now i enrich s = (r', s') \<Longrightarrow> store_step limit s s'"
| repair: "backfill_usage_fields P client a dry_run s = (q, s') \<Longrightarrow> store_step limit s s'"

lemma kept_row_trans: "kept_row a b \<Longrightarrow> kept_row b c \<Longrightarrow> kept_row a c"
  by (auto simp: kept_row_def)

lemma kept_submit_time: "kept_row r r' \<Longrightarrow> dget ''submit_time'' r' = dget ''submit_time'' r"
  by (simp add: kept_row_def FIXED_def)

lemma kept_since_refl [simp]: "jd_rows jd' = jd_rows jd \<Longrightarrow> kept_since limit jd jd'"
  unfolding kept_since_def using kept_row_refl by metis

lemma kept_since_trans:
  assumes "kept_since limit a b" and "kept_since limit b c"
  shows "kept_since limit a c"
  unfolding kept_since_def
proof (intro ballI impI)
  fix r assume "r \<in> set (jd_rows a)" "limit \<le> time_us (dget ''submit_time'' r)"
  with assms(1) obtain r1 where r1: "r1 \<in> set (jd_rows b)" "kept_row r r1" unfolding kept_since_def by blast
  then have "limit \<le> time_us (dget ''submit_time'' r1)"
    using kept_submit_time [OF r1(2)] \<open>limit \<le> _\<close> by simp
  with assms(2) r1(1) obtain r2 where "r2 \<in> set (jd_rows c)" "kept_row r1 r2" unfolding kept_since_def by blast
  with kept_row_trans [OF r1(2)] show "\<exists>r' \<in> set (jd_rows c). kept_row r r'" by blast
qed

lemma written_keeps:
  assumes "keeps (written_since (js_db s)) m" and "m s = (r, s')" and "jobs_ok (js_db s)"
  shows "jobs_ok (js_db s') \<and> kept_since limit (js_db s) (js_db s')"
  using keepsD [OF assms(1), of s] assms(2,3) by (auto simp: written_def kept_since_def rows_kept_def)

lemma repaired_kept: "repaired r r' \<Longrightarrow> kept_row r r'"
  by (auto simp: repaired_def kept_row_def USAGE_COLUMNS_def FIXED_def COALESCED_def)

lemma maybe_cleanup_rows:
  assumes "maybe_cleanup P now days s = (r, s')"
  shows "js_db s' = js_db s \<or> js_db s' = cleanup_rows now days (js_db s)"
  using assms by (auto simp: maybe_cleanup_def mbind_def get_conn_def split: if_splits prod.splits)

lemma cleanup_rows_ok:
  assumes "jobs_ok jd" and "now - days * 86400000000 \<le> limit"
  shows "jobs_ok (cleanup_rows now days jd) \<and> kept_since limit jd (cleanup_rows now days jd)"
proof -
  have "distinct (map f (filter P xs))" if "distinct (map f xs)" for f :: "pdict \<Rightarrow> 'k" and P xs
    using that by (rule distinct_map_filter)
  with assms show ?thesis
    using kept_row_refl by (auto simp: jobs_ok_def cleanup_rows_def kept_since_def distinct_map_filter)
qed

lemma repair_keeps:
  assumes "list_all2 repaired (jd_rows jd) (jd_rows jd')"
  shows "kept_since limit jd jd'"
  unfolding kept_since_def
proof (intro ballI impI)
  fix r assume "r \<in> set (jd_rows jd)"
  with assms obtain r' where "r' \<in> set (jd_rows jd')" "repaired r r'" by (metis in_set_conv_nth list_all2_conv_all_nth)
  with repaired_kept show "\<exists>r' \<in> set (jd_rows jd'). kept_row r r'" by blast
qed

lemma keeps_write_batch [keeps_intros]: "keeps (written_since jd) (write_batch P now batch)"
  unfolding write_batch_def by (intro keeps_intros)

lemma store_step_ok:
  assumes "store_step limit s s'" and "jobs_ok (js_db s)"
  shows "jobs_ok (js_db s') \<and> kept_since limit (js_db s) (js_db s')"
  using assms(1)
proof cases
  case (submit jobs r)
  then show ?thesis using written_keeps [OF keeps_submit _ assms(2)] by blast
next
  case (snapshot P source now r)
  then show ?thesis using written_keeps [OF keeps_snapshot _ assms(2)] by blast
next
  case (take_rows r)
  then show ?thesis using written_keeps [OF keeps_queue(3) _ assms(2)] by blast
next
  case (write_rows P now batch r)
  then show ?thesis using written_keeps [OF keeps_write_batch _ assms(2)] by blast
next
  case (requeue_rows failed)
  then show ?thesis using assms(2) by (simp add: requeue_def)
next
  case (clean_up P now days r)
  then show ?thesis using maybe_cleanup_rows [OF clean_up(1)] cleanup_rows_ok [OF assms(2)] assms(2) by auto
next
  case (read_page P Q filters r)
  then show ?thesis using written_keeps [OF keeps_query _ assms(2)] by blast
next
  case (read_record P source now i enrich r')
  then show ?thesis using written_keeps [OF keeps_get_by_id _ assms(2)] by blast
next
  case (repair P client a dry_run q)
  then show ?thesis using backfill_result [OF repair assms(2)] repair_keeps by blast
qed

text \<open>
  C22. What every history of the store keeps, whatever is submitted, fails or is repaired in between: one
  row per job and submit time, with an identifier of its own, whose user exists; and a row that was
  submitted after the clean-up's limit stays with its identifier, its key and its fixed columns, and
  never loses a detail it once had.
\<close>

theorem history_kept:
  assumes "(store_step limit)\<^sup>*\<^sup>* s s'" and "jobs_ok (js_db s)"
  shows "jobs_ok (js_db s') \<and> kept_since limit (js_db s) (js_db s')"
  using assms
proof (induction rule: rtranclp_induct)
  case base
  then show ?case by simp
next
  case (step s1 s2)
  then show ?case using store_step_ok [of limit s1 s2] kept_since_trans by blast
qed

theorem history_kept_witness:
  "\<exists>s'. (store_step 0)\<^sup>*\<^sup>* demo_missing s' \<and> js_pending s' \<noteq> [] \<and> jobs_ok (js_db s')
     \<and> kept_since 0 (js_db demo_missing) (js_db s')"
proof -
  have ok: "jobs_ok (js_db demo_missing)"
    by (simp add: demo_missing_def demo_snapshot_def jobs_ok_def key_given_def user_exists_def row_id_def dget_or_def
        empty_db_def db_ok_def roles_valid_def)
  obtain q s1 where "backfill_usage_fields demo_postgres (Some demo_client) demo_backfill False demo_missing = (q, s1)"
    by (rule prod.exhaust)
  then have "(store_step 0)\<^sup>*\<^sup>* demo_missing s1" by (intro r_into_rtranclp repair)
  then have steps: "(store_step 0)\<^sup>*\<^sup>* demo_missing (requeue [demo_snapshot] s1)"
    by (rule rtranclp.rtrancl_into_rtrancl) (rule requeue_rows)
  moreover have "js_pending (requeue [demo_snapshot] s1) \<noteq> []"
  proof -
    have "dupdate (dset k v []) p \<noteq> []" for k :: "pv \<times> pv" and v :: pdict and p
      by (induction p rule: rev_induct) (auto simp: dupdate_def)
    then show ?thesis by (simp add: requeue_def)
  qed
  ultimately show ?thesis using history_kept [OF steps ok] by blast
qed


section \<open>A job that leaves the listing\<close>

definition no_answers :: "'x job_source \<Rightarrow> bool" where
  "no_answers src \<longleftrightarrow> (\<forall>i x. \<exists>e x'. so_detail src i x = (Inl e, x'))"

definition not_found :: "'x job_source \<Rightarrow> pv \<Rightarrow> bool" where
  "not_found src i \<longleftrightarrow> (\<forall>x. \<exists>m x'. so_detail src i x = (Inl (SlurmrestdNotFoundError m), x'))"

lemma refresh_no_answer:
  assumes "no_answers src"
  shows "\<exists>l s'. refresh_missing_active_job src record s = (Inr l, s') \<and> l \<in> {LookupFailed, LookupMissing}
    \<and> (not_found src (dget ''job_id'' record) \<longrightarrow> l = LookupMissing)
    \<and> js_db s' = js_db s \<and> js_pending s' = js_pending s \<and> js_pg s' = js_pg s"
proof -
  obtain e x' where e: "so_detail src (dget ''job_id'' record) (js_source s) = (Inl e, x')"
    using assms unfolding no_answers_def by blast
  have "not_found src (dget ''job_id'' record) \<Longrightarrow> is_not_found e"
    using e by (auto simp: not_found_def is_not_found_def dest!: spec [of _ "js_source s"])
  with e show ?thesis
    by (auto simp: refresh_missing_active_job_def mbind_def mcatch_def on_source_def)
qed

lemma complete_missing_key [simp]: "job_key (complete_missing_job record now) = job_key record"
  by (simp add: complete_missing_job_def job_key_def dget_or_def)

lemma complete_missing_state:
  "dget ''job_state'' (complete_missing_job record now) = VStr ''COMPLETED''"
  "dget ''end_time'' (complete_missing_job record now) \<noteq> VNone"
  by (auto simp: complete_missing_job_def dget_or_def py_or_def)

text \<open>Without an answer every missing record is left alone or closed.\<close>

lemma reconcile_rows_no_answer:
  assumes "no_answers src"
  shows "\<exists>rs s'. mmap (\<lambda>record. mbind (refresh_missing_active_job src record) (\<lambda>l. mret (reconciled_rows now record l))) records s
      = (Inr rs, s')
    \<and> js_db s' = js_db s \<and> js_pending s' = js_pending s \<and> js_pg s' = js_pg s
    \<and> (\<forall>row \<in> set (concat rs). \<exists>record \<in> set records. row = complete_missing_job record now)
    \<and> (\<forall>record \<in> set records. not_found src (dget ''job_id'' record) \<longrightarrow> complete_missing_job record now \<in> set (concat rs))"
proof (induction records arbitrary: s)
  case (Cons rec records)
  obtain l s1 where l: "refresh_missing_active_job src rec s = (Inr l, s1)" "l \<in> {LookupFailed, LookupMissing}"
    "not_found src (dget ''job_id'' rec) \<longrightarrow> l = LookupMissing" "js_db s1 = js_db s" "js_pending s1 = js_pending s"
    "js_pg s1 = js_pg s"
    using refresh_no_answer [OF assms] by blast
  obtain rs s2 where rest: "mmap (\<lambda>record. mbind (refresh_missing_active_job src record) (\<lambda>l. mret (reconciled_rows now record l))) records s1
      = (Inr rs, s2)" "js_db s2 = js_db s1" "js_pending s2 = js_pending s1" "js_pg s2 = js_pg s1"
    "\<forall>row \<in> set (concat rs). \<exists>record \<in> set records. row = complete_missing_job record now"
    "\<forall>record \<in> set records. not_found src (dget ''job_id'' record) \<longrightarrow> complete_missing_job record now \<in> set (concat rs)"
    using Cons.IH by blast
  have run: "mmap (\<lambda>record. mbind (refresh_missing_active_job src record) (\<lambda>l. mret (reconciled_rows now record l))) (rec # records) s
      = (Inr (reconciled_rows now rec l # rs), s2)"
    using l(1) rest(1) by (simp add: mbind_def)
  show ?case
    by (intro exI conjI, rule run) (use l rest in \<open>auto simp: reconciled_rows_def\<close>)
qed simp

definition server_up :: "'p postgres \<Rightarrow> bool" where
  "server_up P \<longleftrightarrow> (\<forall>p. fst (pg_connect P p))"

lemma get_conn_up: "server_up P \<Longrightarrow> \<exists>s'. get_conn P s = (Inr (), s') \<and> js_db s' = js_db s \<and> js_pending s' = js_pending s
    \<and> js_source s' = js_source s"
  by (cases "pg_connect P (js_pg s)") (auto simp: server_up_def get_conn_def dest!: spec [of _ "js_pg s"])

lemma write_batch_up:
  fixes P :: "'p postgres" and s :: "('x, 'p) jobs_store"
  assumes "server_up P"
  shows "\<exists>failed s'. write_batch P now batch s = (Inr failed, s')"
proof -
  have one: "\<exists>failed s'. flush_chunk P now chunk s = (Inr failed, s')" for chunk and s :: "('x, 'p) jobs_store"
  proof -
    obtain s1 where "get_conn P s = (Inr (), s1)" using get_conn_up [OF assms] by blast
    moreover obtain failed jd p where "write_chunk P now chunk (js_db s1, js_pg s1) = (failed, (jd, p))" by (metis prod.exhaust)
    ultimately show ?thesis by (simp add: flush_chunk_def mbind_def)
  qed
  have "\<exists>fs s'. mmap (flush_chunk P now) cs s = (Inr fs, s')" for cs and s :: "('x, 'p) jobs_store"
  proof (induction cs arbitrary: s)
    case (Cons ch cs)
    obtain f s1 where "flush_chunk P now ch s = (Inr f, s1)" using one by blast
    moreover obtain fs s2 where "mmap (flush_chunk P now) cs s1 = (Inr fs, s2)" using Cons by blast
    ultimately show ?case by (simp add: mbind_def)
  qed simp
  then obtain fs s' where "mmap (flush_chunk P now) (chunks BATCH_CHUNK batch) s = (Inr fs, s')" by blast
  then show ?thesis by (simp add: write_batch_def mbind_def)
qed

text \<open>What the snapshot leaves in the queue for a job that is neither listed nor found.\<close>

lemma snapshot_closes:
  assumes "scheduled_snapshot P (Some src) now s = (q, s1)" and "pending_ok (js_pending s)"
    and "rec \<in> set (active_rows (js_db s))"
    and "so_listing src (js_source s) = (Inr jobs, x)" and "prepare_rows jobs = Inr rows"
    and "job_key rec \<notin> job_key ` set rows"
    and "no_answers src" and "not_found src (dget ''job_id'' rec)" and "server_up P"
  shows "js_db s1 = js_db s \<and> pending_ok (js_pending s1)
    \<and> (\<exists>row. map_of (js_pending s1) (job_key rec) = Some row \<and> job_key row = job_key rec
         \<and> dget ''job_state'' row = VStr ''COMPLETED'' \<and> dget ''end_time'' row \<noteq> VNone)"
proof -
  let ?s0 = "queue_rows rows (s\<lparr>js_source := x\<rparr>)"
  let ?missing = "filter (\<lambda>record. job_key record \<notin> job_key ` set rows) (active_rows (js_db s))"
  obtain s2 where conn: "get_conn P ?s0 = (Inr (), s2)" "js_db s2 = js_db ?s0" "js_pending s2 = js_pending ?s0"
    using get_conn_up [OF assms(9)] by blast
  obtain rs s3 where loop: "mmap (\<lambda>record. mbind (refresh_missing_active_job src record) (\<lambda>l. mret (reconciled_rows now record l))) ?missing s2
      = (Inr rs, s3)" "js_db s3 = js_db s2" "js_pending s3 = js_pending s2"
    and closed: "\<forall>row \<in> set (concat rs). \<exists>record \<in> set ?missing. row = complete_missing_job record now"
    and mem: "\<forall>record \<in> set ?missing. not_found src (dget ''job_id'' record) \<longrightarrow> complete_missing_job record now \<in> set (concat rs)"
    using reconcile_rows_no_answer [OF assms(7), where now = now and records = ?missing and s = s2] by blast
  have db: "js_db ?s0 = js_db s" by (simp add: queue_rows_def)
  have "active_records P ?s0 = (Inr (active_rows (js_db s)), s2)"
    using conn db by (simp add: active_records_def mbind_def)
  then have "reconcile_missing_active_jobs P (Some src) now rows ?s0 = (Inr (), queue_rows (concat rs) s3)"
    using loop(1) by (simp add: reconcile_missing_active_jobs_def mbind_def)
  then have s1: "s1 = queue_rows (concat rs) s3"
    using assms(1,4,5) by (simp add: scheduled_snapshot_def mbind_def mcatch_def on_source_def)
  have pending: "js_pending s1 = queued (concat rs) (queued rows (js_pending s))"
    using s1 loop(3) conn(3) by (simp add: queue_rows_def)
  have "complete_missing_job rec now \<in> set (concat rs)" using mem assms(3,6,8) by auto
  then obtain row where row: "newest (concat rs) (job_key rec) = Some row"
    using newest_mem [of "complete_missing_job rec now" "concat rs"] by auto
  from newest_Some [OF row] closed obtain r where "row = complete_missing_job r now" "job_key row = job_key rec" by blast
  with row complete_missing_state [of r now] have
    "map_of (js_pending s1) (job_key rec) = Some row \<and> job_key row = job_key rec
         \<and> dget ''job_state'' row = VStr ''COMPLETED'' \<and> dget ''end_time'' row \<noteq> VNone"
    by (simp add: pending map_of_queued)
  moreover have "pending_ok (js_pending s1)" unfolding pending by (intro pending_ok_queued assms(2))
  moreover have "js_db s1 = js_db s" using s1 loop(2) conn(2) db by (simp add: queue_rows_def)
  ultimately show ?thesis by blast
qed

lemma completed_not_active:
  assumes "jobs_ok jd" and "stored jd row" and "dget ''job_state'' row = VStr ''COMPLETED''"
  shows "job_key row \<notin> job_key ` set (active_rows jd)"
proof
  assume "job_key row \<in> job_key ` set (active_rows jd)"
  then obtain a where a: "a \<in> set (jd_rows jd)" "dget ''job_state'' a = VNone \<or> \<not> terminal_row a"
      "job_key (selected_record jd a) = job_key row"
    by (auto simp: active_rows_def)
  have "job_key (selected_record jd a) = job_key a" by (simp add: selected_record_def job_key_def dget_or_def)
  moreover obtain r where r: "r \<in> set (jd_rows jd)" "job_key r = job_key row" "dget ''job_state'' r = dget ''job_state'' row"
    using assms(2) by (auto simp: stored_def LATEST_def)
  ultimately have "a = r" using a(1,3) assms(1) unfolding jobs_ok_def by (metis distinct_map inj_on_eq_iff)
  then have state: "dget ''job_state'' a = VStr ''COMPLETED''" using r(3) assms(3) by simp
  have "no_wildcard ''COMPLETED''" unfolding no_wildcard_def by (intro conjI) (simp, simp, code_simp)
  then have "column_like (''%'' @ ''COMPLETED'' @ ''%'') (dget ''job_state'' a)"
    using state sql_like_contains [of "''COMPLETED''" "''COMPLETED''"] by (simp add: column_like_def)
  then have "terminal_row a" by (simp add: terminal_row_def TERMINAL_STATES_def)
  with a(2) state show False by simp
qed


definition demo_active :: pdict where
  "demo_active = [(''id'', VInt 1), (''job_id'', VInt 8), (''submit_time'', VTime 1000000)]"

definition demo_running :: "(unit, unit) jobs_store" where
  "demo_running = demo_store\<lparr>js_pending := [], js_db := \<lparr>jd_base = empty_db, jd_rows = [demo_active], jd_seq = 1\<rparr>\<rparr>"

definition demo_source :: "unit job_source" where
  "demo_source = \<lparr>so_listing = mret (VList []), so_detail = \<lambda>_. mraise (SlurmrestdNotFoundError ''job'')\<rparr>"


lemma completion_window_fails:
  "fst (completed_job_rows_by_completion_window P username start_time end_time s)
     = Inl (ValueError ''activity_date must be provided for daily aggregation rows'')"
  by (simp add: completed_job_rows_by_completion_window_def completed_job_rows_by_submit_window_def)

end
