(* ===== verification/ToolNames.thy ===== *)
theory ToolNames
  imports JobRows
begin

text \<open>
  Tool names in \<open>persistence/user_analytics_store.py\<close>: from a job name or a command line to the name
  under which the statistics count a job, and the class \<open>ToolNameMapper\<close>. \<open>shlex.split\<close>,
  \<open>str.split\<close> and \<open>ntpath.basename\<close> are written out; a compiled regular expression is the test
  whether it matches somewhere, \<open>re.compile\<close> a parameter, as is the YAML reader.
\<close>

section \<open>Words, stripping, base names\<close>

function py_words :: "string \<Rightarrow> string list" where
  "py_words s =
     (case dropWhile is_space s of
        [] \<Rightarrow> []
      | c # cs \<Rightarrow> (c # takeWhile (\<lambda>x. \<not> is_space x) cs) # py_words (dropWhile (\<lambda>x. \<not> is_space x) cs))"
  by pat_completeness auto
termination
proof (relation "measure length")
  fix s c cs assume eq: "dropWhile is_space s = c # cs"
  have "length (dropWhile (\<lambda>x. \<not> is_space x) cs) \<le> length cs" by (rule length_dropWhile_le)
  also have "\<dots> < length (dropWhile is_space s)" by (simp add: eq)
  also have "\<dots> \<le> length s" by (rule length_dropWhile_le)
  finally show "(dropWhile (\<lambda>x. \<not> is_space x) cs, s) \<in> measure length" by simp
qed simp

declare py_words.simps [simp del]

definition strip_chars :: "string \<Rightarrow> string \<Rightarrow> string" where
  "strip_chars chars s = rev (dropWhile (\<lambda>c. c \<in> set chars) (rev (dropWhile (\<lambda>c. c \<in> set chars) s)))"

definition quote_chars :: string where
  "quote_chars = [char_of (34 :: nat), char_of (39 :: nat)]"

definition backslash :: char where
  "backslash = char_of (92 :: nat)"

definition nt_sep :: "char \<Rightarrow> bool" where
  "nt_sep c \<longleftrightarrow> c = CHR ''/'' \<or> c = backslash"

text \<open>The text after the last character of a kind.\<close>

definition after_last :: "(char \<Rightarrow> bool) \<Rightarrow> string \<Rightarrow> string" where
  "after_last P s = rev (takeWhile (\<lambda>c. \<not> P c) (rev s))"

text \<open>A path without its drive or its server and share, as \<open>ntpath.splitroot\<close> separates them.\<close>

definition nt_after_drive :: "string \<Rightarrow> string" where
  "nt_after_drive p =
     (case p of
        a # b # rest \<Rightarrow>
          if nt_sep a \<and> nt_sep b then
            (let unc = map (\<lambda>c. if c = CHR ''/'' then backslash else c) (take 8 p);
                 is_unc = (py_upper unc = [backslash, backslash, CHR ''?'', backslash, CHR ''U'', CHR ''N'', CHR ''C'', backslash]);
                 server = dropWhile (\<lambda>c. \<not> nt_sep c) (drop (if is_unc then 8 else 2) p)
             in case server of
                  [] \<Rightarrow> []
                | _ # share \<Rightarrow> (case dropWhile (\<lambda>c. \<not> nt_sep c) share of [] \<Rightarrow> [] | _ # r \<Rightarrow> r))
          else if nt_sep a then b # rest
          else if b = CHR '':'' then rest
          else p
      | [a] \<Rightarrow> if nt_sep a then [] else p
      | [] \<Rightarrow> [])"

definition nt_basename :: "string \<Rightarrow> string" where
  "nt_basename p = after_last nt_sep (nt_after_drive p)"

definition posix_basename :: "string \<Rightarrow> string" where
  "posix_basename p = after_last (\<lambda>c. c = CHR ''/'') p"

definition basename_token :: "string \<Rightarrow> string" where
  "basename_token token = py_strip (posix_basename (nt_basename (strip_chars quote_chars (py_strip token))))"


section \<open>Candidates\<close>

text \<open>\<open>s.rsplit(".", 1)[0]\<close>\<close>

definition before_last_dot :: "string \<Rightarrow> string" where
  "before_last_dot s =
     (if CHR ''.'' \<in> set s then rev (tl (dropWhile (\<lambda>c. c \<noteq> CHR ''.'') (rev s))) else s)"

definition name_char :: "char \<Rightarrow> bool" where
  "name_char c \<longleftrightarrow> (let n = (of_char c :: nat) in
     48 \<le> n \<and> n \<le> 57 \<or> 65 \<le> n \<and> n \<le> 90 \<or> 97 \<le> n \<and> n \<le> 122)
     \<or> c = CHR ''.'' \<or> c = CHR ''_'' \<or> c = CHR ''+'' \<or> c = CHR ''-''"

text \<open>Each run of other characters becomes one hyphen.\<close>

fun sub_runs :: "bool \<Rightarrow> string \<Rightarrow> string" where
  "sub_runs inside [] = []"
| "sub_runs inside (c # cs) =
     (if name_char c then c # sub_runs False cs
      else if inside then sub_runs True cs else CHR ''-'' # sub_runs True cs)"

definition normalize_candidate :: "pv \<Rightarrow> string option res" where
  "normalize_candidate candidate =
     (if candidate = VNone then Inr None
      else
        let value1 = strip_chars quote_chars (py_strip (py_str candidate)) in
        if value1 = [] then Inr None
        else (case py_words value1 of
            [] \<Rightarrow> Inl IndexError
          | word # _ \<Rightarrow>
              (let base = basename_token word;
                   stem = (if before_last_dot base = [] then base else before_last_dot base);
                   name = py_lower (strip_chars ''-_.+'' (sub_runs False stem))
               in Inr (if name = [] then None else Some name))))"


section \<open>The first tool of a command line\<close>

text \<open>
  The state machine of \<open>shlex\<close> with POSIX rules: between words, in a word, in quotes, or after a
  backslash (in quotes or not). A word is given out if it has a character or a quoted part.
\<close>

datatype shlex_state = Blank | InWord | InQuote char | Escape "char option"

definition shlex_space :: "char \<Rightarrow> bool" where
  "shlex_space c \<longleftrightarrow> (of_char c :: nat) \<in> {32, 9, 13, 10}"

definition is_quote :: "char \<Rightarrow> bool" where
  "is_quote c \<longleftrightarrow> (of_char c :: nat) \<in> {34, 39}"

definition double_quote :: char where
  "double_quote = char_of (34 :: nat)"

fun shlex_run :: "shlex_state \<Rightarrow> string \<Rightarrow> string \<Rightarrow> string list res" where
  "shlex_run Blank token [] = Inr []"
| "shlex_run Blank token (c # cs) =
     (if shlex_space c then shlex_run Blank [] cs
      else if c = backslash then shlex_run (Escape None) [] cs
      else if is_quote c then shlex_run (InQuote c) [] cs
      else shlex_run InWord [c] cs)"
| "shlex_run InWord token [] = Inr [token]"
| "shlex_run InWord token (c # cs) =
     (if shlex_space c then rbind (shlex_run Blank [] cs) (\<lambda>ws. Inr (token # ws))
      else if is_quote c then shlex_run (InQuote c) token cs
      else if c = backslash then shlex_run (Escape None) token cs
      else shlex_run InWord (token @ [c]) cs)"
| "shlex_run (InQuote q) token [] = Inl (ValueError ''No closing quotation'')"
| "shlex_run (InQuote q) token (c # cs) =
     (if c = q then shlex_run InWord token cs
      else if c = backslash \<and> q = double_quote then shlex_run (Escape (Some q)) token cs
      else shlex_run (InQuote q) (token @ [c]) cs)"
| "shlex_run (Escape q) token [] = Inl (ValueError ''No escaped character'')"
| "shlex_run (Escape q) token (c # cs) =
     (case q of
        None \<Rightarrow> shlex_run InWord (token @ [c]) cs
      | Some d \<Rightarrow> shlex_run (InQuote d) (token @ (if c \<noteq> backslash \<and> c \<noteq> d then [backslash] else []) @ [c]) cs)"

definition shlex_split :: "string \<Rightarrow> string list res" where
  "shlex_split s = shlex_run Blank [] s"

definition skipped_token :: "string \<Rightarrow> bool" where
  "skipped_token token \<longleftrightarrow> token = [] \<or> prefix ''-'' token
     \<or> CHR ''='' \<in> set token \<and> CHR ''/'' \<notin> set token \<and> backslash \<notin> set token"

definition command_first_tool_token :: "pv \<Rightarrow> string option res" where
  "command_first_tool_token command =
     (if \<not> truthy command then Inr None
      else
        let tokens = (case shlex_split (py_str command) of Inl _ \<Rightarrow> py_words (py_str command) | Inr ws \<Rightarrow> ws)
        in case filter (\<lambda>t. \<not> skipped_token t) (map py_strip tokens) of
             [] \<Rightarrow> Inr None
           | token # _ \<Rightarrow> normalize_candidate (VStr token))"


section \<open>The mapper\<close>

type_synonym tool_rules = "((string \<Rightarrow> bool) \<times> string) list"

definition load_rule :: "(string \<Rightarrow> (string \<Rightarrow> bool) res) \<Rightarrow> pv \<Rightarrow> ((string \<Rightarrow> bool) \<times> string) res" where
  "load_rule re_compile item =
     (case item of
        VDict d \<Rightarrow>
          if \<not> truthy (dget ''pattern'' d) \<or> \<not> truthy (dget ''tool'' d)
          then Inl (ValueError ''must define pattern and tool'')
          else rbind (re_compile (py_str (dget ''pattern'' d))) (\<lambda>p.
               rbind (normalize_candidate (dget ''tool'' d)) (\<lambda>t.
                 Inr (p, case t of None \<Rightarrow> ''unknown'' | Some n \<Rightarrow> n)))
      | _ \<Rightarrow> Inl (ValueError ''must be a mapping''))"

definition load_rules :: "(string \<Rightarrow> (string \<Rightarrow> bool) res) \<Rightarrow> pv \<Rightarrow> tool_rules res" where
  "load_rules re_compile raw =
     (case py_or raw (VList []) of
        VList items \<Rightarrow> rmap (load_rule re_compile) items
      | _ \<Rightarrow> Inl (ValueError ''must contain a YAML list''))"

definition or_else :: "'a option res \<Rightarrow> 'a option res \<Rightarrow> 'a option res" where
  "or_else a b = rbind a (\<lambda>x. case x of None \<Rightarrow> b | Some _ \<Rightarrow> Inr x)"

definition first_rule :: "tool_rules \<Rightarrow> string option \<Rightarrow> string option" where
  "first_rule rules candidate =
     (case candidate of
        None \<Rightarrow> None
      | Some c \<Rightarrow> map_option snd (find (\<lambda>(p, _). p c) rules))"

definition classify :: "tool_rules \<Rightarrow> pv \<Rightarrow> pv \<Rightarrow> pv \<Rightarrow> string res" where
  "classify rules job_name command submit_line =
     rbind (normalize_candidate job_name) (\<lambda>job_name_tool.
     rbind (or_else (command_first_tool_token command) (command_first_tool_token submit_line)) (\<lambda>command_tool.
       Inr (case first_rule rules job_name_tool of
          Some tool \<Rightarrow> tool
        | None \<Rightarrow> (case first_rule rules command_tool of
            Some tool \<Rightarrow> tool
          | None \<Rightarrow> (case job_name_tool of
              Some n \<Rightarrow> n
            | None \<Rightarrow> (case command_tool of Some n \<Rightarrow> n | None \<Rightarrow> ''unknown''))))))"

definition classify_row :: "tool_rules \<Rightarrow> pdict \<Rightarrow> string res" where
  "classify_row rules row = classify rules (dget ''job_name'' row) (dget ''command'' row) (dget ''submit_line'' row)"

definition normalize_tool_name :: "tool_rules option \<Rightarrow> pv \<Rightarrow> pv \<Rightarrow> pv \<Rightarrow> string res" where
  "normalize_tool_name mapper job_name command submit_line =
     classify (case mapper of None \<Rightarrow> [] | Some rules \<Rightarrow> rules) job_name command submit_line"

record tool_rewrite =
  rw_pattern :: "(string \<Rightarrow> bool) option"
  rw_tool :: string

definition classify_daily_tool :: "tool_rules \<Rightarrow> tool_rules \<Rightarrow> tool_rewrite \<Rightarrow> pdict \<Rightarrow> string res" where
  "classify_daily_tool mapped_mapper raw_mapper rw row =
     rbind (classify_row mapped_mapper row) (\<lambda>mapped_tool.
       case rw_pattern rw of
         None \<Rightarrow> Inr mapped_tool
       | Some p \<Rightarrow>
           rbind (classify_row raw_mapper row) (\<lambda>raw_tool.
             Inr (if p mapped_tool \<or> p raw_tool then rw_tool rw else mapped_tool)))"


section \<open>Names are in normal form\<close>

text \<open>A name: lower case letters, digits and \<open>._+-\<close>, with a letter or digit at both ends.\<close>

definition plain_char :: "char \<Rightarrow> bool" where
  "plain_char c \<longleftrightarrow> (let n = (of_char c :: nat) in 48 \<le> n \<and> n \<le> 57 \<or> 97 \<le> n \<and> n \<le> 122)"

definition tool_name :: "string \<Rightarrow> bool" where
  "tool_name s \<longleftrightarrow> s \<noteq> [] \<and> plain_char (hd s) \<and> plain_char (last s)
     \<and> (\<forall>c \<in> set s. plain_char c \<or> c \<in> set ''._+-'')"

lemma sub_runs_chars: "c \<in> set (sub_runs b s) \<Longrightarrow> name_char c"
  by (induction b s rule: sub_runs.induct) (auto simp: name_char_def split: if_splits)

lemma set_strip_chars: "set (strip_chars cs s) \<subseteq> set s"
  unfolding strip_chars_def by (metis set_dropWhileD set_rev subsetI)

lemma strip_chars_ends:
  assumes "strip_chars cs s \<noteq> []"
  shows "hd (strip_chars cs s) \<notin> set cs" and "last (strip_chars cs s) \<notin> set cs"
proof -
  let ?P = "\<lambda>c. c \<in> set cs"
  let ?d = "dropWhile ?P s" and ?r = "dropWhile ?P (rev (dropWhile ?P s))"
  have r: "?r \<noteq> []" using assms by (simp add: strip_chars_def)
  show "last (strip_chars cs s) \<notin> set cs"
    using r hd_dropWhile [of ?P "rev ?d"] by (simp add: strip_chars_def last_rev)
  have d: "?d \<noteq> []"
  proof
    assume "?d = []"
    then have "?r = []" by (simp only: rev.simps dropWhile.simps)
    with r show False ..
  qed
  obtain u where "rev ?d = u @ ?r" by (metis takeWhile_dropWhile_id)
  then have "?d = rev ?r @ rev u" by (metis rev_append rev_rev_ident)
  then have "hd (rev ?r) = hd ?d" using r by (metis hd_append2 rev_is_Nil_conv)
  then show "hd (strip_chars cs s) \<notin> set cs"
    using hd_dropWhile [of ?P s] d by (simp add: strip_chars_def)
qed

lemma lower_name_char:
  assumes "name_char c"
  shows "plain_char (lower_char c) \<or> lower_char c \<in> set ''._+-''"
    and "c \<notin> set ''-_.+'' \<Longrightarrow> plain_char (lower_char c)"
proof -
  have alnum: "plain_char (lower_char c)" if "(let n = (of_char c :: nat) in
     48 \<le> n \<and> n \<le> 57 \<or> 65 \<le> n \<and> n \<le> 90 \<or> 97 \<le> n \<and> n \<le> 122)"
    using that by (auto simp: plain_char_def lower_char_def Let_def)
  have other: "lower_char c = c" if "c \<in> set ''._+-''"
    using that by (auto simp: lower_char_def)
  show "plain_char (lower_char c) \<or> lower_char c \<in> set ''._+-''" using assms alnum other by (auto simp: name_char_def)
  show "c \<notin> set ''-_.+'' \<Longrightarrow> plain_char (lower_char c)" using assms alnum by (auto simp: name_char_def)
qed

lemma normalized_tool_name:
  assumes "normalize_candidate v = Inr (Some n)"
  shows "tool_name n"
proof -
  obtain stem where n: "n = py_lower (strip_chars ''-_.+'' (sub_runs False stem))" "n \<noteq> []"
    using assms by (auto simp: normalize_candidate_def Let_def split: if_splits list.splits)
  let ?t = "strip_chars ''-_.+'' (sub_runs False stem)"
  have ne: "?t \<noteq> []" using n by (auto simp: py_lower_def)
  have chars: "name_char c" if "c \<in> set ?t" for c using that set_strip_chars sub_runs_chars by blast
  have "plain_char (hd n)" "plain_char (last n)"
    using ne strip_chars_ends [OF ne] chars lower_name_char(2)
    unfolding n(1) py_lower_def by (simp_all add: hd_map last_map)
  moreover have "plain_char c \<or> c \<in> set ''._+-''" if "c \<in> set n" for c
    using that chars lower_name_char(1) unfolding n(1) py_lower_def by auto
  ultimately show ?thesis using n(2) by (simp add: tool_name_def)
qed

lemma unknown_tool_name: "tool_name ''unknown''"
  by code_simp

text \<open>Only a text of quotes with blanks between them makes the normalisation raise.\<close>

lemma normalize_candidate_raises:
  "normalize_candidate v = Inl e \<Longrightarrow> e = IndexError \<and> (\<forall>c \<in> set (strip_chars quote_chars (py_strip (py_str v))). is_space c)"
proof -
  assume "normalize_candidate v = Inl e"
  then have "e = IndexError" "py_words (strip_chars quote_chars (py_strip (py_str v))) = []"
    by (auto simp: normalize_candidate_def Let_def split: if_splits list.splits)
  then show ?thesis by (simp add: py_words.simps [of "strip_chars _ _"] dropWhile_eq_Nil_conv split: list.splits)
qed

lemma load_rule_name: "load_rule re_compile item = Inr (p, n) \<Longrightarrow> tool_name n"
proof -
  assume "load_rule re_compile item = Inr (p, n)"
  then obtain v t where t: "normalize_candidate v = Inr t" and n: "n = (case t of None \<Rightarrow> ''unknown'' | Some m \<Rightarrow> m)"
    by (cases item) (auto simp: load_rule_def rbind_eq_Inr split: if_splits)
  show ?thesis
  proof (cases t)
    case None
    then show ?thesis using n unknown_tool_name by simp
  next
    case (Some m)
    then show ?thesis using n t normalized_tool_name by simp
  qed
qed

lemma rmap_mem: "rmap f xs = Inr ys \<Longrightarrow> y \<in> set ys \<Longrightarrow> \<exists>x \<in> set xs. f x = Inr y"
  by (induction xs arbitrary: ys) (auto simp: rbind_eq_Inr)

lemma loaded_rules_names: "load_rules re_compile raw = Inr rules \<Longrightarrow> (p, n) \<in> set rules \<Longrightarrow> tool_name n"
  by (cases "py_or raw (VList [])") (auto simp: load_rules_def dest!: rmap_mem load_rule_name)

lemma find_mem: "find P xs = Some x \<Longrightarrow> x \<in> set xs"
  by (induction xs) (auto split: if_splits)

lemma first_rule_mem: "first_rule rules c = Some n \<Longrightarrow> \<exists>p. (p, n) \<in> set rules"
  unfolding first_rule_def by (auto split: option.splits dest!: find_mem)



text \<open>A job whose name is a blank in quotes cannot be classified.\<close>

lemma quoted_blank_raises:
  "classify rules (VStr [char_of (34 :: nat), CHR '' '', char_of (34 :: nat)]) command submit_line = Inl IndexError"
proof -
  have "normalize_candidate (VStr [char_of (34 :: nat), CHR '' '', char_of (34 :: nat)]) = Inl IndexError" by code_simp
  then show ?thesis by (simp add: classify_def)
qed

end
