(* ===== verification/ToolStatistics.thy ===== *)
theory ToolStatistics
  imports ToolNames HistoryFields "HOL-Library.Multiset"
begin

text \<open>
  The aggregation in \<open>persistence/user_analytics_store.py\<close>: completed jobs into one row per day, user
  and tool, and such rows into the totals and the breakdown of a user. Times of a job are times or
  missing, as the table has them.
\<close>

section \<open>Numbers\<close>

definition numeric_value :: "pv \<Rightarrow> rat option" where
  "numeric_value v =
     (if v = VNone then None else (case py_float v of Inl _ \<Rightarrow> None | Inr q \<Rightarrow> Some q))"

definition positive :: "rat option \<Rightarrow> rat option" where
  "positive x = (case x of None \<Rightarrow> None | Some q \<Rightarrow> if q \<le> 0 then None else Some q)"

definition positive_numeric_value :: "pv \<Rightarrow> rat option" where
  "positive_numeric_value v = positive (numeric_value v)"

definition runtime_seconds :: "pdict \<Rightarrow> rat option" where
  "runtime_seconds row =
     (let from_usage = (case dget ''usage_stats'' row of
          VDict u \<Rightarrow> (case dget ''cpu'' u of VDict c \<Rightarrow> numeric_value (dget ''job_elapsed_seconds'' c) | _ \<Rightarrow> None)
        | _ \<Rightarrow> None)
      in case (dget ''start_time'' row, dget ''end_time'' row) of
           (VTime a, VTime b) \<Rightarrow> if a \<le> b then Some (of_int (b - a) / 1000000) else from_usage
         | _ \<Rightarrow> from_usage)"

definition explicit_cpu_cores_avg :: "pdict \<Rightarrow> rat option" where
  "explicit_cpu_cores_avg row =
     (case numeric_value (dget ''used_cpu_cores_avg'' row) of
        Some q \<Rightarrow> Some q
      | None \<Rightarrow> numeric_value (dget ''used_cpu_core_avg'' row))"

definition memory_mb :: "rat option \<Rightarrow> rat option" where
  "memory_mb x = map_option (\<lambda>q. q * 1024) x"

definition runtime_hours :: "rat option \<Rightarrow> rat option" where
  "runtime_hours x = map_option (\<lambda>q. q / 3600) x"

definition avg :: "rat \<Rightarrow> int \<Rightarrow> rat option" where
  "avg amount samples = (if samples \<le> 0 then None else Some (amount / of_int samples))"

definition avg_or_zero :: "rat \<Rightarrow> int \<Rightarrow> rat" where
  "avg_or_zero amount samples = (if samples \<le> 0 then 0 else amount / of_int samples)"

text \<open>\<open>statistics.median\<close>\<close>

definition median :: "rat list \<Rightarrow> rat option" where
  "median xs =
     (if xs = [] then None
      else let s = sort xs; n = length s in
        Some (if odd n then s ! (n div 2) else (s ! (n div 2 - 1) + s ! (n div 2)) / 2))"

definition max_value :: "rat list \<Rightarrow> rat option" where
  "max_value xs = (if xs = [] then None else Some (Max (set xs)))"


section \<open>One row per day, user and tool\<close>

type_synonym stat_key = "pv \<times> pv \<times> string"

record bucket =
  bu_username :: pv
  bu_jobs_count :: nat
  bu_memory_total :: rat
  bu_memory_values :: "rat list"
  bu_cpu_total :: rat
  bu_runtime_total :: rat

record agg_stats =
  as_rows_seen :: nat
  as_rows_missing_identity :: nat
  as_rows_skipped_memory :: nat
  as_cpu_missing :: nat
  as_rows_counted :: nat
  as_runtime_missing :: nat

record daily_payload =
  dp_activity_date :: pv
  dp_user_id :: pv
  dp_tool :: string
  dp_jobs_count :: nat
  dp_avg_memory_gb :: "rat option"
  dp_max_memory_gb :: "rat option"
  dp_median_memory_gb :: "rat option"
  dp_avg_cpu_cores :: "rat option"
  dp_avg_runtime_seconds :: "rat option"
  dp_username :: pv

definition empty_bucket :: bucket where
  "empty_bucket = \<lparr>bu_username = VNone, bu_jobs_count = 0, bu_memory_total = 0, bu_memory_values = [],
     bu_cpu_total = 0, bu_runtime_total = 0\<rparr>"

definition empty_stats :: agg_stats where
  "empty_stats = \<lparr>as_rows_seen = 0, as_rows_missing_identity = 0, as_rows_skipped_memory = 0, as_cpu_missing = 0,
     as_rows_counted = 0, as_runtime_missing = 0\<rparr>"

type_synonym buckets = "(stat_key \<times> bucket) list"

definition daily_payload_from_bucket :: "stat_key \<Rightarrow> bucket \<Rightarrow> daily_payload" where
  "daily_payload_from_bucket k b =
     (case k of (activity_date, user_id, tool) \<Rightarrow>
        (let jobs = int (bu_jobs_count b) in
         \<lparr>dp_activity_date = activity_date, dp_user_id = user_id, dp_tool = tool, dp_jobs_count = bu_jobs_count b,
          dp_avg_memory_gb = round_metric (avg (bu_memory_total b) (int (length (bu_memory_values b)))),
          dp_max_memory_gb = round_metric (max_value (bu_memory_values b)),
          dp_median_memory_gb = round_metric (median (bu_memory_values b)),
          dp_avg_cpu_cores = round_metric (avg (bu_cpu_total b) jobs),
          dp_avg_runtime_seconds = round_metric (avg (bu_runtime_total b) jobs),
          dp_username = bu_username b\<rparr>))"

text \<open>The change a row with a memory figure makes to its bucket.\<close>

definition add_row :: "pdict \<Rightarrow> rat \<Rightarrow> bucket \<Rightarrow> bucket" where
  "add_row row memory b =
     b\<lparr>bu_jobs_count := bu_jobs_count b + 1, bu_memory_total := bu_memory_total b + memory,
       bu_memory_values := bu_memory_values b @ [memory],
       bu_cpu_total := bu_cpu_total b
         + (case positive (explicit_cpu_cores_avg row) of None \<Rightarrow> 0 | Some q \<Rightarrow> q),
       bu_runtime_total := bu_runtime_total b
         + (case positive (runtime_seconds row) of None \<Rightarrow> 0 | Some q \<Rightarrow> q)\<rparr>"

definition aggregate_row :: "(pdict \<Rightarrow> string res) \<Rightarrow> pdict \<Rightarrow> buckets \<times> agg_stats \<Rightarrow> (buckets \<times> agg_stats) res" where
  "aggregate_row tool_of row acc =
     (case acc of (buckets, st0) \<Rightarrow>
        let st = st0\<lparr>as_rows_seen := as_rows_seen st0 + 1\<rparr> in
        if dget ''activity_date'' row = VNone \<or> dget ''user_id'' row = VNone
        then Inr (buckets, st\<lparr>as_rows_missing_identity := as_rows_missing_identity st + 1\<rparr>)
        else rbind (tool_of row) (\<lambda>tool.
          let key = (dget ''activity_date'' row, dget ''user_id'' row, tool);
              b0 = (case map_of buckets key of None \<Rightarrow> empty_bucket | Some b \<Rightarrow> b);
              b = (if bu_username b0 = VNone then b0\<lparr>bu_username := dget ''username'' row\<rparr> else b0)
          in if dget ''used_memory_gb'' row = VNone
             then Inr (dset key b buckets, st\<lparr>as_rows_skipped_memory := as_rows_skipped_memory st + 1\<rparr>)
             else rbind (py_num (dget ''used_memory_gb'' row)) (\<lambda>memory.
               Inr (dset key (add_row row memory b) buckets,
                    st\<lparr>as_rows_counted := as_rows_counted st + 1,
                       as_cpu_missing := as_cpu_missing st
                         + (if positive (explicit_cpu_cores_avg row) = None then 1 else 0),
                       as_runtime_missing := as_runtime_missing st
                         + (if positive (runtime_seconds row) = None then 1 else 0)\<rparr>))))"

definition aggregate_user_tool_daily_rows :: "(pdict \<Rightarrow> string res) \<Rightarrow> pdict list \<Rightarrow> (daily_payload list \<times> agg_stats) res" where
  "aggregate_user_tool_daily_rows tool_of rows =
     rbind (rfold (aggregate_row tool_of) rows ([], empty_stats)) (\<lambda>(buckets, st).
       Inr (map (\<lambda>(k, b). daily_payload_from_bucket k b) (filter (\<lambda>(k, b). 0 < bu_jobs_count b) buckets), st))"


section \<open>Totals and breakdown\<close>

record rollup =
  ro_jobs :: int
  ro_memory_total :: rat
  ro_memory_weight :: int
  ro_max_memory_gb :: "rat option"
  ro_median_total :: rat
  ro_median_weight :: int
  ro_cpu_total :: rat
  ro_cpu_weight :: int
  ro_runtime_total :: rat
  ro_runtime_weight :: int
  ro_memory_values :: "rat list"

definition empty_rollup :: rollup where
  "empty_rollup = \<lparr>ro_jobs = 0, ro_memory_total = 0, ro_memory_weight = 0, ro_max_memory_gb = None, ro_median_total = 0,
     ro_median_weight = 0, ro_cpu_total = 0, ro_cpu_weight = 0, ro_runtime_total = 0, ro_runtime_weight = 0,
     ro_memory_values = []\<rparr>"

record figures =
  fi_avg_memory_gb :: "rat option"
  fi_max_memory_gb :: "rat option"
  fi_median_memory_gb :: "rat option"
  fi_avg_cpu_cores :: "rat option"
  fi_avg_runtime_seconds :: "rat option"

definition weighted :: "int \<Rightarrow> rat option \<Rightarrow> rat" where
  "weighted jobs x = (case positive x of None \<Rightarrow> 0 | Some q \<Rightarrow> q * of_int jobs)"

definition weight :: "int \<Rightarrow> rat option \<Rightarrow> int" where
  "weight jobs x = (case positive x of None \<Rightarrow> 0 | Some _ \<Rightarrow> jobs)"

definition larger :: "rat option \<Rightarrow> rat option \<Rightarrow> rat option" where
  "larger a b = (case b of None \<Rightarrow> a | Some q \<Rightarrow> (case a of None \<Rightarrow> Some q | Some p \<Rightarrow> Some (max p q)))"

definition merge_daily_row :: "int \<Rightarrow> figures \<Rightarrow> rollup \<Rightarrow> rollup" where
  "merge_daily_row jobs f r =
     (if jobs \<le> 0 then r
      else r\<lparr>ro_jobs := ro_jobs r + jobs,
             ro_memory_total := ro_memory_total r + weighted jobs (fi_avg_memory_gb f),
             ro_memory_weight := ro_memory_weight r + weight jobs (fi_avg_memory_gb f),
             ro_max_memory_gb := larger (ro_max_memory_gb r) (positive (fi_max_memory_gb f)),
             ro_median_total := ro_median_total r + weighted jobs (fi_median_memory_gb f),
             ro_median_weight := ro_median_weight r + weight jobs (fi_median_memory_gb f),
             ro_cpu_total := ro_cpu_total r + weighted jobs (fi_avg_cpu_cores f),
             ro_cpu_weight := ro_cpu_weight r + weight jobs (fi_avg_cpu_cores f),
             ro_runtime_total := ro_runtime_total r + weighted jobs (fi_avg_runtime_seconds f),
             ro_runtime_weight := ro_runtime_weight r + weight jobs (fi_avg_runtime_seconds f)\<rparr>)"

text \<open>The item of a tool; \<open>avg_max_memory_gb\<close> is \<open>avg_memory_gb\<close> under another name.\<close>

record tool_item =
  ti_tool :: string
  ti_jobs :: int
  ti_figures :: figures
  ti_avg_max_memory_mb :: "rat option"
  ti_avg_runtime_hours :: "rat option"

record analysis =
  an_completed_jobs :: int
  an_active_tools :: nat
  an_figures :: figures
  an_avg_max_memory_mb :: "rat option"
  an_avg_runtime_hours :: "rat option"
  an_busiest_tool :: "string option"
  an_busiest_tool_jobs :: int
  an_tool_breakdown :: "tool_item list"

definition rollup_figures :: "rollup \<Rightarrow> figures" where
  "rollup_figures r =
     \<lparr>fi_avg_memory_gb = avg (ro_memory_total r) (ro_memory_weight r),
      fi_max_memory_gb = (if ro_memory_values r \<noteq> [] then max_value (ro_memory_values r) else ro_max_memory_gb r),
      fi_median_memory_gb = (if ro_memory_values r \<noteq> [] then median (ro_memory_values r)
                             else avg (ro_median_total r) (ro_median_weight r)),
      fi_avg_cpu_cores = avg (ro_cpu_total r) (ro_cpu_weight r),
      fi_avg_runtime_seconds = avg (ro_runtime_total r) (ro_runtime_weight r)\<rparr>"

definition tool_item_of :: "string \<Rightarrow> rollup \<Rightarrow> tool_item" where
  "tool_item_of tool r =
     (let f = rollup_figures r in
      \<lparr>ti_tool = tool, ti_jobs = ro_jobs r, ti_figures = f, ti_avg_max_memory_mb = memory_mb (fi_avg_memory_gb f),
       ti_avg_runtime_hours = runtime_hours (fi_avg_runtime_seconds f)\<rparr>)"

definition active_rollup :: "rollup \<Rightarrow> bool" where
  "active_rollup r \<longleftrightarrow> \<not> (ro_jobs r \<le> 0 \<and> ro_memory_weight r \<le> 0)"

definition build_analysis_response :: "(string \<times> rollup) list \<Rightarrow> analysis" where
  "build_analysis_response tool_rollups =
     (let active = filter (\<lambda>(tool, r). active_rollup r) tool_rollups;
          summary = fold (\<lambda>(tool, r) s.
              merge_daily_row (ro_jobs r) (rollup_figures r)
                (s\<lparr>ro_memory_values := ro_memory_values s @ ro_memory_values r\<rparr>)) active empty_rollup;
          breakdown = sort_key (\<lambda>i. - ti_jobs i) (sort_key ti_tool (map (\<lambda>(tool, r). tool_item_of tool r) active));
          memory = avg (ro_memory_total summary) (ro_memory_weight summary);
          runtime = avg (ro_runtime_total summary) (ro_runtime_weight summary)
      in \<lparr>an_completed_jobs = ro_jobs summary, an_active_tools = length breakdown,
          an_figures = \<lparr>fi_avg_memory_gb = memory, fi_max_memory_gb = ro_max_memory_gb summary,
            fi_median_memory_gb = (if ro_memory_values summary \<noteq> [] then median (ro_memory_values summary)
                                   else avg (ro_median_total summary) (ro_median_weight summary)),
            fi_avg_cpu_cores = avg (ro_cpu_total summary) (ro_cpu_weight summary),
            fi_avg_runtime_seconds = runtime\<rparr>,
          an_avg_max_memory_mb = memory_mb memory, an_avg_runtime_hours = runtime_hours runtime,
          an_busiest_tool = (case breakdown of [] \<Rightarrow> None | i # _ \<Rightarrow> Some (ti_tool i)),
          an_busiest_tool_jobs = (case breakdown of [] \<Rightarrow> 0 | i # _ \<Rightarrow> ti_jobs i),
          an_tool_breakdown = breakdown\<rparr>)"

text \<open>A row of the statistics table, or the tuple of an older query without the maximum and the median.\<close>

datatype stat_row =
    StatRow string int figures
  | LegacyRow string int "rat option" "rat option" "rat option"

definition stat_row_parts :: "stat_row \<Rightarrow> string \<times> int \<times> figures" where
  "stat_row_parts row =
     (case row of
        StatRow tool jobs f \<Rightarrow> (tool, jobs, f)
      | LegacyRow tool jobs memory cpu runtime \<Rightarrow>
          (tool, jobs, \<lparr>fi_avg_memory_gb = memory, fi_max_memory_gb = memory, fi_median_memory_gb = memory,
             fi_avg_cpu_cores = cpu, fi_avg_runtime_seconds = runtime\<rparr>))"

definition merge_stat_row :: "stat_row \<Rightarrow> (string \<times> rollup) list \<Rightarrow> (string \<times> rollup) list" where
  "merge_stat_row row tools =
     (case stat_row_parts row of (tool, jobs, f) \<Rightarrow>
        dset tool (merge_daily_row jobs f (case map_of tools tool of None \<Rightarrow> empty_rollup | Some r \<Rightarrow> r)) tools)"

definition aggregate_daily_stat_rows :: "stat_row list \<Rightarrow> analysis" where
  "aggregate_daily_stat_rows rows = build_analysis_response (fold merge_stat_row rows [])"

text \<open>The aggregation straight from job rows.\<close>

definition aggregate_job_row :: "tool_rules \<Rightarrow> pdict \<Rightarrow> (string \<times> rollup) list \<Rightarrow> (string \<times> rollup) list res" where
  "aggregate_job_row mapper row tools =
     rbind (classify_row mapper row) (\<lambda>tool.
       if dget ''used_memory_gb'' row = VNone then Inr tools
       else rbind (py_num (dget ''used_memory_gb'' row)) (\<lambda>memory.
            rbind (if dget ''used_cpu_cores_avg'' row = VNone then Inr None
                   else rbind (py_num (dget ''used_cpu_cores_avg'' row)) (\<lambda>q. Inr (Some q))) (\<lambda>cpu.
            let r = (case map_of tools tool of None \<Rightarrow> empty_rollup | Some r \<Rightarrow> r);
                runtime = positive (runtime_seconds row)
            in Inr (dset tool
                 (r\<lparr>ro_jobs := ro_jobs r + 1, ro_memory_total := ro_memory_total r + memory,
                    ro_memory_weight := ro_memory_weight r + 1, ro_memory_values := ro_memory_values r @ [memory],
                    ro_cpu_total := ro_cpu_total r + (case cpu of None \<Rightarrow> 0 | Some q \<Rightarrow> q),
                    ro_cpu_weight := ro_cpu_weight r + (case cpu of None \<Rightarrow> 0 | Some _ \<Rightarrow> 1),
                    ro_runtime_total := ro_runtime_total r + (case runtime of None \<Rightarrow> 0 | Some q \<Rightarrow> q),
                    ro_runtime_weight := ro_runtime_weight r + (case runtime of None \<Rightarrow> 0 | Some _ \<Rightarrow> 1)\<rparr>) tools))))"

definition aggregate_rows :: "tool_rules \<Rightarrow> pdict list \<Rightarrow> analysis res" where
  "aggregate_rows mapper rows = rbind (rfold (aggregate_job_row mapper) rows []) (\<lambda>tools. Inr (build_analysis_response tools))"

section \<open>The daily rows account for the completed jobs\<close>

text \<open>
  The reference: the key a job is counted under, its memory figure, and the bucket of a key computed
  from the jobs of that key alone.
\<close>

definition row_key :: "(pdict \<Rightarrow> string res) \<Rightarrow> pdict \<Rightarrow> stat_key option" where
  "row_key tool_of row =
     (if dget ''activity_date'' row = VNone \<or> dget ''user_id'' row = VNone then None
      else case tool_of row of Inl _ \<Rightarrow> None
           | Inr tool \<Rightarrow> Some (dget ''activity_date'' row, dget ''user_id'' row, tool))"

definition row_memory :: "pdict \<Rightarrow> rat option" where
  "row_memory row =
     (if dget ''used_memory_gb'' row = VNone then None
      else case py_num (dget ''used_memory_gb'' row) of Inl _ \<Rightarrow> None | Inr q \<Rightarrow> Some q)"

definition key_jobs :: "(pdict \<Rightarrow> string res) \<Rightarrow> stat_key \<Rightarrow> pdict list \<Rightarrow> pdict list" where
  "key_jobs tool_of k rows = filter (\<lambda>r. row_key tool_of r = Some k) rows"

definition measured_jobs :: "(pdict \<Rightarrow> string res) \<Rightarrow> stat_key \<Rightarrow> pdict list \<Rightarrow> pdict list" where
  "measured_jobs tool_of k rows = filter (\<lambda>r. row_memory r \<noteq> None) (key_jobs tool_of k rows)"

definition or_zero :: "rat option \<Rightarrow> rat" where
  "or_zero x = (case x of None \<Rightarrow> 0 | Some q \<Rightarrow> q)"

definition key_bucket :: "(pdict \<Rightarrow> string res) \<Rightarrow> stat_key \<Rightarrow> pdict list \<Rightarrow> bucket" where
  "key_bucket tool_of k rows =
     (let jobs = measured_jobs tool_of k rows in
      \<lparr>bu_username = (case filter (\<lambda>u. u \<noteq> VNone) (map (dget ''username'') (key_jobs tool_of k rows)) of
                       [] \<Rightarrow> VNone | u # _ \<Rightarrow> u),
       bu_jobs_count = length jobs,
       bu_memory_total = sum_list (map (or_zero \<circ> row_memory) jobs),
       bu_memory_values = map (or_zero \<circ> row_memory) jobs,
       bu_cpu_total = sum_list (map (\<lambda>r. or_zero (positive (explicit_cpu_cores_avg r))) jobs),
       bu_runtime_total = sum_list (map (\<lambda>r. or_zero (positive (runtime_seconds r))) jobs)\<rparr>)"

definition payload_key :: "daily_payload \<Rightarrow> stat_key" where
  "payload_key p = (dp_activity_date p, dp_user_id p, dp_tool p)"

lemma rfold_append: "rfold f (xs @ ys) b = rbind (rfold f xs b) (rfold f ys)"
  by (induction xs arbitrary: b) (auto simp: rbind_def split: sum.split)

lemma sum_dset:
  fixes f :: "'v \<Rightarrow> 'n::comm_monoid_add"
  shows "distinct (map fst d) \<Longrightarrow>
    sum_list (map (f \<circ> snd) (dset k v d)) + (case map_of d k of None \<Rightarrow> 0 | Some w \<Rightarrow> f w) = sum_list (map (f \<circ> snd) d) + f v"
proof (induction d)
  case (Cons p d)
  obtain k' w where p: "p = (k', w)" by (cases p)
  show ?case
  proof (cases "k' = k")
    case True
    then have "map_of d k = None" using Cons.prems by (simp add: p map_of_eq_None_iff)
    then show ?thesis by (simp add: p True ac_simps)
  next
    case False
    then show ?thesis using Cons by (simp add: p ac_simps)
  qed
qed simp

text \<open>What holds of the buckets and the counters after the rows \<open>xs\<close>.\<close>

definition accounted :: "(pdict \<Rightarrow> string res) \<Rightarrow> pdict list \<Rightarrow> buckets \<times> agg_stats \<Rightarrow> bool" where
  "accounted tool_of xs acc \<longleftrightarrow>
     distinct (map fst (fst acc))
     \<and> (\<forall>k. map_of (fst acc) k = (if key_jobs tool_of k xs = [] then None else Some (key_bucket tool_of k xs)))
     \<and> sum_list (map (bu_jobs_count \<circ> snd) (fst acc)) = as_rows_counted (snd acc)
     \<and> as_rows_seen (snd acc) = length xs
     \<and> as_rows_seen (snd acc) = as_rows_missing_identity (snd acc) + as_rows_skipped_memory (snd acc) + as_rows_counted (snd acc)"

lemma key_jobs_snoc:
  "key_jobs tool_of k (xs @ [r]) = key_jobs tool_of k xs @ (if row_key tool_of r = Some k then [r] else [])"
  by (simp add: key_jobs_def)

lemma measured_jobs_snoc:
  "measured_jobs tool_of k (xs @ [r])
     = measured_jobs tool_of k xs @ (if row_key tool_of r = Some k \<and> row_memory r \<noteq> None then [r] else [])"
  by (simp add: measured_jobs_def key_jobs_def)

lemma other_bucket: "row_key tool_of r \<noteq> Some k \<Longrightarrow> key_bucket tool_of k (xs @ [r]) = key_bucket tool_of k xs"
  by (simp add: key_bucket_def key_jobs_snoc measured_jobs_snoc)

lemma no_jobs_bucket: "key_jobs tool_of k xs = [] \<Longrightarrow> key_bucket tool_of k xs = empty_bucket"
  by (simp add: key_bucket_def measured_jobs_def empty_bucket_def)

definition name_bucket :: "pdict \<Rightarrow> bucket \<Rightarrow> bucket" where
  "name_bucket row b = (if bu_username b = VNone then b\<lparr>bu_username := dget ''username'' row\<rparr> else b)"

lemma bucket_snoc:
  assumes "row_key tool_of r = Some k"
  shows "row_memory r = None \<Longrightarrow> key_bucket tool_of k (xs @ [r]) = name_bucket r (key_bucket tool_of k xs)"
    and "row_memory r = Some q \<Longrightarrow> key_bucket tool_of k (xs @ [r]) = add_row r q (name_bucket r (key_bucket tool_of k xs))"
  using assms
  by (auto simp: key_bucket_def Let_def key_jobs_snoc measured_jobs_snoc name_bucket_def add_row_def or_zero_def
      filter_eq_Cons_iff split: list.split)

lemma aggregate_row_cases:
  assumes "aggregate_row tool_of r (bs, st) = Inr (bs', st')"
  obtains (missing) "row_key tool_of r = None" "bs' = bs"
        "st' = st\<lparr>as_rows_seen := as_rows_seen st + 1, as_rows_missing_identity := as_rows_missing_identity st + 1\<rparr>"
    | (skipped) k where "row_key tool_of r = Some k" "row_memory r = None"
        "bs' = dset k (name_bucket r (case map_of bs k of None \<Rightarrow> empty_bucket | Some b \<Rightarrow> b)) bs"
        "st' = st\<lparr>as_rows_seen := as_rows_seen st + 1, as_rows_skipped_memory := as_rows_skipped_memory st + 1\<rparr>"
    | (counted) k q where "row_key tool_of r = Some k" "row_memory r = Some q"
        "bs' = dset k (add_row r q (name_bucket r (case map_of bs k of None \<Rightarrow> empty_bucket | Some b \<Rightarrow> b))) bs"
        "as_rows_seen st' = as_rows_seen st + 1" "as_rows_counted st' = as_rows_counted st + 1"
        "as_rows_missing_identity st' = as_rows_missing_identity st" "as_rows_skipped_memory st' = as_rows_skipped_memory st"
proof (cases "dget ''activity_date'' r = VNone \<or> dget ''user_id'' r = VNone")
  case True
  then show thesis using assms missing by (simp add: aggregate_row_def row_key_def)
next
  case False
  then obtain tool where t: "tool_of r = Inr tool"
    using assms by (auto simp: aggregate_row_def Let_def rbind_eq_Inr)
  let ?k = "(dget ''activity_date'' r, dget ''user_id'' r, tool)"
  have k: "row_key tool_of r = Some ?k" using False t by (simp add: row_key_def)
  show thesis
  proof (cases "dget ''used_memory_gb'' r = VNone")
    case True
    then show thesis using assms False t by (intro skipped [OF k])
        (simp_all add: aggregate_row_def Let_def row_memory_def name_bucket_def)
  next
    case mem: False
    then obtain q where q: "py_num (dget ''used_memory_gb'' r) = Inr q"
      using assms False t by (auto simp: aggregate_row_def Let_def rbind_eq_Inr)
    then have "row_memory r = Some q" using mem by (simp add: row_memory_def)
    then show thesis using assms False t mem q
      by (intro counted [OF k]) (auto simp: aggregate_row_def Let_def name_bucket_def)
  qed
qed

lemma accounted_Nil: "accounted tool_of [] ([], empty_stats)"
  by (simp add: accounted_def empty_stats_def key_jobs_def)

lemma accounted_lookup:
  "accounted tool_of xs (bs, st) \<Longrightarrow> map_of bs k = (if key_jobs tool_of k xs = [] then None else Some (key_bucket tool_of k xs))"
  unfolding accounted_def fst_conv by (elim conjE, drule spec [where x = k])

lemma accounted_step:
  assumes inv: "accounted tool_of xs (bs, st)" and step: "aggregate_row tool_of r (bs, st) = Inr (bs', st')"
  shows "accounted tool_of (xs @ [r]) (bs', st')"
proof -
  have d: "distinct (map fst bs)" using inv by (simp add: accounted_def)
  note m = accounted_lookup [OF inv]
  have cur: "(case map_of bs k of None \<Rightarrow> empty_bucket | Some b \<Rightarrow> b) = key_bucket tool_of k xs" for k
    by (simp add: m no_jobs_bucket)
  have jobs: "(case map_of bs k of None \<Rightarrow> 0 | Some b \<Rightarrow> bu_jobs_count b) = bu_jobs_count (key_bucket tool_of k xs)" for k
    by (cases "key_jobs tool_of k xs = []") (simp_all add: m no_jobs_bucket empty_bucket_def)
  have lookup: "map_of (dset k b bs) k' = (if key_jobs tool_of k' (xs @ [r]) = [] then None else Some (key_bucket tool_of k' (xs @ [r])))"
    if "row_key tool_of r = Some k" "key_bucket tool_of k (xs @ [r]) = b" for k b k'
    using that by (cases "k' = k") (simp_all add: m key_jobs_snoc other_bucket)
  have sums: "sum_list (map (bu_jobs_count \<circ> snd) (dset k b bs)) = as_rows_counted st + n"
    if "bu_jobs_count b = bu_jobs_count (key_bucket tool_of k xs) + n" for k b n
    using sum_dset [OF d, of bu_jobs_count k b] jobs [of k] that inv by (simp add: accounted_def)
  from step show ?thesis
  proof (cases rule: aggregate_row_cases)
    case missing
    have "key_jobs tool_of k (xs @ [r]) = key_jobs tool_of k xs \<and> key_bucket tool_of k (xs @ [r]) = key_bucket tool_of k xs" for k
      using missing(1) by (simp add: key_jobs_snoc other_bucket)
    then show ?thesis using inv missing(2,3) by (simp add: accounted_def)
  next
    case (skipped k)
    let ?b = "name_bucket r (key_bucket tool_of k xs)"
    have "bu_jobs_count ?b = bu_jobs_count (key_bucket tool_of k xs) + 0" by (simp add: name_bucket_def)
    from sums [OF this] lookup [OF skipped(1) bucket_snoc(1) [OF skipped(1,2)]] show ?thesis
      using inv skipped(4) unfolding accounted_def skipped(3) [unfolded cur] by (simp add: distinct_update)
  next
    case (counted k q)
    let ?b = "add_row r q (name_bucket r (key_bucket tool_of k xs))"
    have "bu_jobs_count ?b = bu_jobs_count (key_bucket tool_of k xs) + 1" by (simp add: name_bucket_def add_row_def)
    from sums [OF this] lookup [OF counted(1) bucket_snoc(2) [OF counted(1,2)]] show ?thesis
      using inv counted(4-) unfolding accounted_def counted(3) [unfolded cur] by (simp add: distinct_update)
  qed
qed

lemma accounted_rows: "rfold (aggregate_row tool_of) rows ([], empty_stats) = Inr acc \<Longrightarrow> accounted tool_of rows acc"
proof (induction rows arbitrary: acc rule: rev_induct)
  case Nil
  then show ?case using accounted_Nil by simp
next
  case (snoc r xs)
  obtain bs st bs' st' where "rfold (aggregate_row tool_of) xs ([], empty_stats) = Inr (bs, st)"
      "aggregate_row tool_of r (bs, st) = Inr (bs', st')" "acc = (bs', st')"
    using snoc.prems by (cases acc) (auto simp: rfold_append rbind_eq_Inr)
  then show ?case using snoc.IH accounted_step by blast
qed

lemma payload_result:
  assumes "aggregate_user_tool_daily_rows tool_of rows = Inr (payload, st)"
  obtains bs where "accounted tool_of rows (bs, st)"
    "payload = map (\<lambda>(k, b). daily_payload_from_bucket k b) (filter (\<lambda>(k, b). 0 < bu_jobs_count b) bs)"
proof -
  from assms obtain bs where a: "rfold (aggregate_row tool_of) rows ([], empty_stats) = Inr (bs, st)"
    and p: "payload = map (\<lambda>(k, b). daily_payload_from_bucket k b) (filter (\<lambda>(k, b). 0 < bu_jobs_count b) bs)"
    by (auto simp: aggregate_user_tool_daily_rows_def rbind_eq_Inr)
  show thesis by (rule that [OF accounted_rows [OF a] p])
qed

lemma payload_fields [simp]:
  "payload_key (daily_payload_from_bucket k b) = k"
  "dp_jobs_count (daily_payload_from_bucket k b) = bu_jobs_count b"
  by (auto simp: daily_payload_from_bucket_def payload_key_def Let_def split: prod.split)

lemma sum_positive: "sum_list (map f (filter (\<lambda>x. 0 < f x) xs)) = (sum_list (map f xs) :: nat)"
  by (induction xs) auto

lemma daily_rows_result:
  assumes "aggregate_user_tool_daily_rows tool_of rows = Inr (payload, st)"
  shows "distinct (map payload_key payload)
    \<and> set payload = {daily_payload_from_bucket k (key_bucket tool_of k rows) | k. measured_jobs tool_of k rows \<noteq> []}
    \<and> sum_list (map dp_jobs_count payload) = as_rows_counted st
    \<and> length rows = as_rows_missing_identity st + as_rows_skipped_memory st + as_rows_counted st"
proof -
  obtain bs where inv: "accounted tool_of rows (bs, st)"
    and p: "payload = map (\<lambda>(k, b). daily_payload_from_bucket k b) (filter (\<lambda>(k, b). 0 < bu_jobs_count b) bs)"
    using assms by (rule payload_result)
  have d: "distinct (map fst bs)" using inv by (simp add: accounted_def)
  have keys: "map payload_key payload = map fst (filter (\<lambda>(k, b). 0 < bu_jobs_count b) bs)"
    unfolding p by (auto simp: comp_def case_prod_unfold)
  have "map dp_jobs_count payload = map (bu_jobs_count \<circ> snd) (filter (\<lambda>x. 0 < (bu_jobs_count \<circ> snd) x) bs)"
    unfolding p by (auto simp: comp_def case_prod_unfold)
  then have counts: "sum_list (map dp_jobs_count payload) = as_rows_counted st"
    using sum_positive [of "bu_jobs_count \<circ> snd" bs] inv by (simp add: accounted_def)
  have mem: "(k, b) \<in> set bs \<and> 0 < bu_jobs_count b \<longleftrightarrow> measured_jobs tool_of k rows \<noteq> [] \<and> b = key_bucket tool_of k rows" for k b
  proof -
    have "(k, b) \<in> set bs \<longleftrightarrow> key_jobs tool_of k rows \<noteq> [] \<and> b = key_bucket tool_of k rows"
      using accounted_lookup [OF inv, of k] map_of_eq_Some_iff [OF d, of k b] by (auto split: if_splits)
    moreover have "bu_jobs_count (key_bucket tool_of k rows) = length (measured_jobs tool_of k rows)"
      by (simp add: key_bucket_def Let_def)
    moreover have "measured_jobs tool_of k rows \<noteq> [] \<Longrightarrow> key_jobs tool_of k rows \<noteq> []" by (auto simp: measured_jobs_def)
    ultimately show ?thesis by auto
  qed
  have "set payload = (\<lambda>(k, b). daily_payload_from_bucket k b) ` {(k, b). (k, b) \<in> set bs \<and> 0 < bu_jobs_count b}"
    unfolding p by auto
  also have "\<dots> = {daily_payload_from_bucket k (key_bucket tool_of k rows) | k. measured_jobs tool_of k rows \<noteq> []}"
    by (auto simp: mem image_iff)
  finally show ?thesis using d counts inv unfolding keys by (simp add: accounted_def distinct_map_filter)
qed

text \<open>
  C29. The daily rows are the grouping of the completed jobs by day, user and tool: one row per key that has a
  measured job, computed from the jobs of that key alone, and the counters account for every job seen.
\<close>

theorem daily_rows_account:
  assumes "aggregate_user_tool_daily_rows tool_of rows = Inr (payload, st)"
  shows "distinct (map payload_key payload)
    \<and> set payload = {daily_payload_from_bucket k (key_bucket tool_of k rows) | k. measured_jobs tool_of k rows \<noteq> []}
    \<and> sum_list (map dp_jobs_count payload) = as_rows_counted st
    \<and> length rows = as_rows_missing_identity st + as_rows_skipped_memory st + as_rows_counted st"
  by (rule daily_rows_result [OF assms])

theorem daily_rows_account_witness:
  "\<exists>payload st. aggregate_user_tool_daily_rows (\<lambda>_. Inr ''blast'')
       [[(''activity_date'', VInt 7), (''user_id'', VInt 3), (''username'', VStr ''ann''), (''used_memory_gb'', VInt 2)],
        [(''activity_date'', VInt 7), (''user_id'', VInt 3), (''used_memory_gb'', VInt 4), (''used_cpu_cores_avg'', VInt 1)],
        [(''activity_date'', VInt 7), (''user_id'', VInt 4)], [(''activity_date'', VInt 7)]] = Inr (payload, st)
     \<and> map dp_jobs_count payload = [2] \<and> map dp_max_memory_gb payload = [Some 4]
     \<and> as_rows_counted st = 2 \<and> as_rows_missing_identity st + as_rows_skipped_memory st = 2"
proof -
  let ?rows = "[[(''activity_date'', VInt 7), (''user_id'', VInt 3), (''username'', VStr ''ann''), (''used_memory_gb'', VInt 2)],
        [(''activity_date'', VInt 7), (''user_id'', VInt 3), (''used_memory_gb'', VInt 4), (''used_cpu_cores_avg'', VInt 1)],
        [(''activity_date'', VInt 7), (''user_id'', VInt 4)], [(''activity_date'', VInt 7)]]"
  have "case aggregate_user_tool_daily_rows (\<lambda>_. Inr ''blast'') ?rows of
      Inl _ \<Rightarrow> False
    | Inr (p, st) \<Rightarrow> map dp_jobs_count p = [2] \<and> map dp_max_memory_gb p = [Some 4] \<and> as_rows_counted st = 2" by code_simp
  then obtain payload st where a: "aggregate_user_tool_daily_rows (\<lambda>_. Inr ''blast'') ?rows = Inr (payload, st)"
    and p: "map dp_jobs_count payload = [2]" "map dp_max_memory_gb payload = [Some 4]" "as_rows_counted st = 2"
    by (auto split: sum.splits)
  have "as_rows_missing_identity st + as_rows_skipped_memory st = 2"
    using daily_rows_account [OF a] p(3) by simp
  then show ?thesis using a p by (intro exI conjI)
qed

section \<open>The totals of a user\<close>

definition counted_jobs :: "stat_row \<Rightarrow> int" where
  "counted_jobs row = (case stat_row_parts row of (tool, jobs, f) \<Rightarrow> max 0 jobs)"

definition stat_tool :: "stat_row \<Rightarrow> string" where
  "stat_tool row = fst (stat_row_parts row)"

definition tool_jobs :: "string \<Rightarrow> stat_row list \<Rightarrow> int" where
  "tool_jobs tool rows = sum_list (map counted_jobs (filter (\<lambda>r. stat_tool r = tool) rows))"

definition rollup_at :: "(string \<times> rollup) list \<Rightarrow> string \<Rightarrow> rollup" where
  "rollup_at d t = (case map_of d t of None \<Rightarrow> empty_rollup | Some r \<Rightarrow> r)"

definition rolled_up :: "stat_row list \<Rightarrow> (string \<times> rollup) list \<Rightarrow> bool" where
  "rolled_up rows d \<longleftrightarrow> distinct (map fst d)
     \<and> (\<forall>t. ro_memory_values (rollup_at d t) = [] \<and> 0 \<le> ro_memory_weight (rollup_at d t)
          \<and> ro_memory_weight (rollup_at d t) \<le> ro_jobs (rollup_at d t) \<and> ro_jobs (rollup_at d t) = tool_jobs t rows)
     \<and> sum_list (map (ro_jobs \<circ> snd) d) = sum_list (map counted_jobs rows)"

lemma merge_daily_row_jobs [simp]:
  "ro_jobs (merge_daily_row jobs f r) = ro_jobs r + max 0 jobs"
  "ro_memory_values (merge_daily_row jobs f r) = ro_memory_values r"
  by (simp_all add: merge_daily_row_def)

lemma merge_daily_row_weight:
  "0 \<le> ro_memory_weight r \<Longrightarrow> ro_memory_weight r \<le> ro_jobs r \<Longrightarrow>
   0 \<le> ro_memory_weight (merge_daily_row jobs f r)
   \<and> ro_memory_weight (merge_daily_row jobs f r) \<le> ro_jobs (merge_daily_row jobs f r)"
  by (auto simp: merge_daily_row_def weight_def split: option.split)

lemma merge_stat_row_at:
  "rollup_at (merge_stat_row row d) t =
     (if t = stat_tool row then merge_daily_row (fst (snd (stat_row_parts row))) (snd (snd (stat_row_parts row))) (rollup_at d t)
      else rollup_at d t)"
  by (simp add: merge_stat_row_def rollup_at_def stat_tool_def split: prod.split)

lemma rolled_upD:
  assumes "rolled_up rows d"
  shows "ro_memory_values (rollup_at d t) = []" "0 \<le> ro_memory_weight (rollup_at d t)"
    "ro_memory_weight (rollup_at d t) \<le> ro_jobs (rollup_at d t)" "ro_jobs (rollup_at d t) = tool_jobs t rows"
  using assms unfolding rolled_up_def by blast+

lemma rolled_up_rows: "rolled_up rows (fold merge_stat_row rows [])"
proof (induction rows rule: rev_induct)
  case Nil
  show ?case by (simp add: rolled_up_def rollup_at_def empty_rollup_def tool_jobs_def)
next
  case (snoc row rows)
  obtain tool jobs f where parts: "stat_row_parts row = (tool, jobs, f)" by (rule prod_cases3)
  let ?d = "fold merge_stat_row rows []"
  let ?d' = "merge_stat_row row ?d"
  have d: "distinct (map fst ?d)" using snoc by (simp add: rolled_up_def)
  have same: "?d' = dset tool (merge_daily_row jobs f (rollup_at ?d tool)) ?d"
    by (simp add: merge_stat_row_def parts rollup_at_def)
  have at: "(case map_of ?d tool of None \<Rightarrow> 0 | Some r \<Rightarrow> ro_jobs r) = ro_jobs (rollup_at ?d tool)"
    by (simp add: rollup_at_def empty_rollup_def split: option.split)
  have "sum_list (map (ro_jobs \<circ> snd) ?d') = sum_list (map (ro_jobs \<circ> snd) ?d) + max 0 jobs"
    using sum_dset [OF d, of ro_jobs tool "merge_daily_row jobs f (rollup_at ?d tool)"] at by (simp add: same)
  then have sums: "sum_list (map (ro_jobs \<circ> snd) ?d') = sum_list (map counted_jobs (rows @ [row]))"
    using snoc by (simp add: rolled_up_def counted_jobs_def parts)
  have each: "ro_memory_values (rollup_at ?d' t) = [] \<and> 0 \<le> ro_memory_weight (rollup_at ?d' t)
          \<and> ro_memory_weight (rollup_at ?d' t) \<le> ro_jobs (rollup_at ?d' t) \<and> ro_jobs (rollup_at ?d' t) = tool_jobs t (rows @ [row])" for t
  proof -
    have "ro_memory_values (rollup_at ?d t) = []" "0 \<le> ro_memory_weight (rollup_at ?d t)"
      "ro_memory_weight (rollup_at ?d t) \<le> ro_jobs (rollup_at ?d t)" "ro_jobs (rollup_at ?d t) = tool_jobs t rows"
      using snoc by (rule rolled_upD)+
    then show ?thesis using merge_daily_row_weight [of "rollup_at ?d t" jobs f]
      by (cases "t = tool") (simp_all add: merge_stat_row_at parts tool_jobs_def stat_tool_def counted_jobs_def)
  qed
  have "distinct (map fst ?d')" using d by (simp add: same distinct_update)
  moreover have "fold merge_stat_row (rows @ [row]) [] = ?d'" by simp
  ultimately show ?case unfolding rolled_up_def using each sums by metis
qed

lemma summary_jobs:
  "ro_jobs (fold (\<lambda>(tool, r) s. merge_daily_row (ro_jobs r) (rollup_figures r)
       (s\<lparr>ro_memory_values := ro_memory_values s @ ro_memory_values r\<rparr>)) xs s)
   = ro_jobs s + sum_list (map (\<lambda>x. max 0 (ro_jobs (snd x))) xs)"
  by (induction xs arbitrary: s) auto

lemma tool_item_fields [simp]: "ti_tool (tool_item_of t r) = t" "ti_jobs (tool_item_of t r) = ro_jobs r"
  by (simp_all add: tool_item_of_def Let_def)

lemma breakdown_jobs:
  "sum_list (map ti_jobs (sort_key k xs)) = (sum_list (map ti_jobs xs) :: int)"
  by (metis mset_map mset_sort sum_mset_sum_list)

lemma sum_active: "(\<And>x. x \<in> set xs \<Longrightarrow> \<not> P x \<Longrightarrow> f x = 0) \<Longrightarrow> sum_list (map f (filter P xs)) = (sum_list (map f xs) :: int)"
  by (induction xs) auto

lemma analysis_result:
  fixes rows :: "stat_row list"
  defines "a \<equiv> aggregate_daily_stat_rows rows"
  shows "an_completed_jobs a = sum_list (map counted_jobs rows)
    \<and> an_completed_jobs a = sum_list (map ti_jobs (an_tool_breakdown a))
    \<and> distinct (map ti_tool (an_tool_breakdown a))
    \<and> (\<lambda>i. (ti_tool i, ti_jobs i)) ` set (an_tool_breakdown a) = {(t, tool_jobs t rows) | t. 0 < tool_jobs t rows}
    \<and> sorted (map (\<lambda>i. - ti_jobs i) (an_tool_breakdown a))
    \<and> an_busiest_tool a = map_option ti_tool (find (\<lambda>_. True) (an_tool_breakdown a))"
proof -
  let ?d = "fold merge_stat_row rows []"
  let ?active = "filter (\<lambda>(tool, r). active_rollup r) ?d"
  have inv: "rolled_up rows ?d" by (rule rolled_up_rows)
  have d: "distinct (map fst ?d)" using inv by (simp add: rolled_up_def)
  have at: "rollup_at ?d t = r \<and> ro_jobs r = tool_jobs t rows \<and> 0 \<le> ro_jobs r \<and> (active_rollup r \<longleftrightarrow> 0 < ro_jobs r)"
    if "(t, r) \<in> set ?d" for t r
  proof -
    have "rollup_at ?d t = r" using that d by (simp add: rollup_at_def)
    moreover have "0 \<le> ro_memory_weight (rollup_at ?d t)" "ro_memory_weight (rollup_at ?d t) \<le> ro_jobs (rollup_at ?d t)"
      "ro_jobs (rollup_at ?d t) = tool_jobs t rows"
      using inv by (rule rolled_upD)+
    ultimately show ?thesis by (auto simp: active_rollup_def)
  qed
  have items: "an_tool_breakdown a = sort_key (\<lambda>i. - ti_jobs i) (sort_key ti_tool (map (\<lambda>(tool, r). tool_item_of tool r) ?active))"
    and jobs: "an_completed_jobs a = sum_list (map (\<lambda>x. max 0 (ro_jobs (snd x))) ?active)"
    and top: "an_busiest_tool a = map_option ti_tool (find (\<lambda>_. True) (an_tool_breakdown a))"
    by (simp_all add: a_def aggregate_daily_stat_rows_def build_analysis_response_def Let_def summary_jobs empty_rollup_def
        split: list.split)
  have all: "an_completed_jobs a = sum_list (map (ro_jobs \<circ> snd) ?active)"
    unfolding jobs using at by (intro arg_cong [where f = sum_list] map_cong) (auto simp: max_def)
  also have "\<dots> = sum_list (map (ro_jobs \<circ> snd) ?d)"
    using at by (intro sum_active) fastforce
  finally have c1: "an_completed_jobs a = sum_list (map counted_jobs rows)" using inv by (simp add: rolled_up_def)
  have c2: "an_completed_jobs a = sum_list (map ti_jobs (an_tool_breakdown a))"
    unfolding all items breakdown_jobs
    by (auto intro!: arg_cong [where f = sum_list])
  have "set (an_tool_breakdown a) = (\<lambda>(tool, r). tool_item_of tool r) ` set ?active" by (simp add: items)
  then have "(\<lambda>i. (ti_tool i, ti_jobs i)) ` set (an_tool_breakdown a) = (\<lambda>(t, r). (t, ro_jobs r)) ` set ?active"
    by (simp add: image_image case_prod_unfold)
  also have "\<dots> = {(t, tool_jobs t rows) | t. 0 < tool_jobs t rows}"
  proof (intro set_eqI iffI)
    fix x assume "x \<in> (\<lambda>(t, r). (t, ro_jobs r)) ` set ?active"
    then show "x \<in> {(t, tool_jobs t rows) | t. 0 < tool_jobs t rows}" using at by auto
  next
    fix x assume "x \<in> {(t, tool_jobs t rows) | t. 0 < tool_jobs t rows}"
    then obtain t where x: "x = (t, tool_jobs t rows)" "0 < tool_jobs t rows" by blast
    have "ro_jobs (rollup_at ?d t) = tool_jobs t rows" by (rule rolled_upD [OF inv])
    then have "map_of ?d t \<noteq> None" using x(2) unfolding rollup_at_def by (intro notI) (simp add: empty_rollup_def)
    then obtain r where "(t, r) \<in> set ?d" by (auto dest: map_of_SomeD)
    then show "x \<in> (\<lambda>(t, r). (t, ro_jobs r)) ` set ?active" using at [of t r] x by (force simp: image_iff)
  qed
  finally have c4: "(\<lambda>i. (ti_tool i, ti_jobs i)) ` set (an_tool_breakdown a) = {(t, tool_jobs t rows) | t. 0 < tool_jobs t rows}" .
  have "mset (map ti_tool (an_tool_breakdown a)) = mset (map ti_tool (map (\<lambda>(tool, r). tool_item_of tool r) ?active))"
    by (simp only: items mset_map mset_sort)
  also have "map ti_tool (map (\<lambda>(tool, r). tool_item_of tool r) ?active) = map fst ?active" by auto
  finally have "mset (map ti_tool (an_tool_breakdown a)) = mset (map fst ?active)" .
  then have "distinct (map ti_tool (an_tool_breakdown a)) = distinct (map fst ?active)" by (rule mset_eq_imp_distinct_iff)
  then have c3: "distinct (map ti_tool (an_tool_breakdown a))" using d by (simp add: distinct_map_filter)
  have c5: "sorted (map (\<lambda>i. - ti_jobs i) (an_tool_breakdown a))" by (simp add: items)
  show ?thesis by (intro conjI c1 c2 c3 c4 c5 top)
qed

text \<open>
  The analysis of a user counts every daily row once: the completed jobs are the sum of the rows' jobs
  and the sum of the breakdown, the breakdown has one item per tool with jobs, with the jobs of that tool's
  rows, in decreasing order of jobs, and its head is the busiest tool.
\<close>

theorem analysis_accounts:
  "let a = aggregate_daily_stat_rows rows in
    an_completed_jobs a = sum_list (map counted_jobs rows)
    \<and> an_completed_jobs a = sum_list (map ti_jobs (an_tool_breakdown a))
    \<and> distinct (map ti_tool (an_tool_breakdown a))
    \<and> (\<lambda>i. (ti_tool i, ti_jobs i)) ` set (an_tool_breakdown a) = {(t, tool_jobs t rows) | t. 0 < tool_jobs t rows}
    \<and> sorted (map (\<lambda>i. - ti_jobs i) (an_tool_breakdown a))
    \<and> an_busiest_tool a = map_option ti_tool (find (\<lambda>_. True) (an_tool_breakdown a))"
  unfolding Let_def by (rule analysis_result)

end
