(* ===== verification/UserTimelines.thy ===== *)
theory UserTimelines
  imports CompletedJobs
begin

text \<open>
  The timelines of \<open>persistence/user_analytics_store.py\<close>: how many jobs of a user were submitted,
  completed or seen in a group of states, per bucket of a window. Times are microseconds since the
  epoch in UTC, a series pairs the start of a bucket in milliseconds with a count. The clock readings
  of \<open>_now_utc()\<close> are arguments, in the order of the calls. The store reads through the tables of
  the job history; its own connection fails as theirs does.
\<close>

section \<open>Windows and buckets\<close>

definition MINUTE :: int where
  "MINUTE = 60000000"

definition HOUR :: int where
  "HOUR = 3600000000"

definition WEEK :: int where
  "WEEK = 7 * DAY"

definition SUMMARY_RANGE_WINDOWS :: "(string \<times> int) list" where
  "SUMMARY_RANGE_WINDOWS = [(''hour'', HOUR), (''day'', DAY), (''week'', WEEK)]"

definition bucket_map :: "(string \<times> (string \<times> int)) list" where
  "bucket_map = [(''hour'', (''minute'', MINUTE)), (''day'', (''hour'', HOUR)), (''week'', (''day'', DAY))]"

record history_window =
  hw_start :: int
  hw_end :: int
  hw_bucket :: string
  hw_resolution :: int

definition window_of :: "int \<Rightarrow> int \<Rightarrow> string \<times> int \<Rightarrow> history_window" where
  "window_of start_time end_time b =
     \<lparr>hw_start = start_time, hw_end = end_time, hw_bucket = fst b, hw_resolution = snd b\<rparr>"

definition resolve_history_window_and_bucket ::
  "int \<Rightarrow> int \<Rightarrow> string option \<Rightarrow> int option \<Rightarrow> int option \<Rightarrow> history_window res" where
  "resolve_history_window_and_bucket now1 now2 range_name start_time end_time =
     (case (start_time, end_time) of
        (Some a, Some b) \<Rightarrow>
          if b \<le> a then Inl (ValueError ''start must be earlier than end'')
          else Inr (window_of a b
            (if b - a \<le> 48 * HOUR then (''hour'', HOUR)
             else if b - a \<le> 62 * DAY then (''day'', DAY)
             else (''week'', WEEK)))
      | (None, None) \<Rightarrow>
          (let name = (case range_name of None \<Rightarrow> ''hour'' | Some n \<Rightarrow> if n = [] then ''hour'' else n) in
           case (map_of bucket_map name, map_of SUMMARY_RANGE_WINDOWS name) of
             (Some b, Some w) \<Rightarrow> Inr (window_of (now1 - w) now2 b)
           | _ \<Rightarrow> Inl (ValueError (''Unsupported metric range '' @ name)))
      | _ \<Rightarrow> Inl (ValueError ''start and end must both be provided''))"

text \<open>The start of a period; weeks start on a Monday, the fourth day of the epoch.\<close>

definition floor_to :: "int \<Rightarrow> int \<Rightarrow> int" where
  "floor_to period t = t div period * period"

definition weekday :: "int \<Rightarrow> int" where
  "weekday t = (t div DAY + 3) mod 7"

definition start_of_week :: "int \<Rightarrow> int" where
  "start_of_week t = floor_to DAY t - weekday t * DAY"

definition align_bucket :: "int \<Rightarrow> int \<Rightarrow> int" where
  "align_bucket timestamp resolution =
     (if resolution = MINUTE then floor_to MINUTE timestamp
      else if resolution = HOUR then floor_to HOUR timestamp
      else if resolution = DAY then floor_to DAY timestamp
      else if resolution = WEEK then start_of_week timestamp
      else timestamp)"

text \<open>\<open>date_trunc\<close> of PostgreSQL, for the names the store passes.\<close>

definition date_trunc :: "string \<Rightarrow> int \<Rightarrow> int" where
  "date_trunc name t =
     (if name = ''minute'' then floor_to MINUTE t
      else if name = ''hour'' then floor_to HOUR t
      else if name = ''day'' then floor_to DAY t
      else start_of_week t)"

definition bucket_epoch_ms :: "int \<Rightarrow> int" where
  "bucket_epoch_ms t = (if 0 \<le> t then t div 1000 else - (- t div 1000))"

text \<open>The loop from the first bucket; its step is positive for every window there is.\<close>

function cursors :: "int \<Rightarrow> int \<Rightarrow> int \<Rightarrow> int list" where
  "cursors cursor end_time resolution =
     (if cursor \<le> end_time \<and> 0 < resolution then cursor # cursors (cursor + resolution) end_time resolution else [])"
  by pat_completeness auto
termination
  by (relation "measure (\<lambda>(cursor, end_time, resolution). nat (end_time + 1 - cursor))") auto

declare cursors.simps [simp del]


section \<open>Queries\<close>

text \<open>\<open>COALESCE\<close> of timestamps, \<open>DISTINCT ON\<close> of ordered rows, and the groups of \<open>GROUP BY bucket\<close>.\<close>

definition first_time :: "string list \<Rightarrow> pdict \<Rightarrow> int option" where
  "first_time columns r =
     (case find (\<lambda>v. v \<noteq> VNone) (map (\<lambda>c. dget c r) columns) of None \<Rightarrow> None | Some v \<Rightarrow> Some (time_us v))"

primrec distinct_on :: "('a \<Rightarrow> 'k) \<Rightarrow> 'a list \<Rightarrow> 'a list" where
  "distinct_on k [] = []"
| "distinct_on k (x # xs) = x # filter (\<lambda>y. k y \<noteq> k x) (distinct_on k xs)"

definition job_order :: "pdict \<Rightarrow> int list" where
  "job_order r = [row_int ''job_id'' r, time_us (dget ''submit_time'' r), - time_us (dget ''last_seen'' r)]"

definition group_counts :: "int list \<Rightarrow> (int \<times> nat) list" where
  "group_counts buckets = map (\<lambda>b. (b, length (filter (\<lambda>x. x = b) buckets))) (sorted_set buckets)"

definition moment_in :: "string list \<Rightarrow> int \<Rightarrow> int \<Rightarrow> pdict \<Rightarrow> bool" where
  "moment_in columns start_time end_time r \<longleftrightarrow>
     (case first_time columns r of None \<Rightarrow> False | Some t \<Rightarrow> start_time \<le> t \<and> t \<le> end_time)"

definition like_any :: "string list \<Rightarrow> pdict \<Rightarrow> bool" where
  "like_any states r \<longleftrightarrow>
     (case dget ''job_state'' r of
        VStr st \<Rightarrow> list_ex (\<lambda>state. sql_like (''%'' @ state @ ''%'') (py_upper st)) states
      | _ \<Rightarrow> False)"

definition user_rows :: "string \<Rightarrow> jobs_db \<Rightarrow> pdict list" where
  "user_rows username jd = filter (\<lambda>r. username_of (jd_base jd) (dget ''user_id'' r) = VStr username) (jd_rows jd)"

definition timeline_counts ::
  "string \<Rightarrow> string list \<Rightarrow> (pdict \<Rightarrow> bool) \<Rightarrow> history_window \<Rightarrow> jobs_db \<Rightarrow> (int \<times> nat) list" where
  "timeline_counts username columns cond w jd =
     group_counts (map (\<lambda>r. date_trunc (hw_bucket w) (case first_time columns r of None \<Rightarrow> 0 | Some t \<Rightarrow> t))
       (distinct_on job_key (sort_key job_order
          (filter (\<lambda>r. moment_in columns (hw_start w) (hw_end w) r \<and> cond r) (user_rows username jd)))))"

definition bucket_series :: "(int \<times> nat) list \<Rightarrow> history_window \<Rightarrow> (int \<times> nat) list" where
  "bucket_series rows w =
     (let vals = map (\<lambda>(b, n). (bucket_epoch_ms b, n)) rows
      in map (\<lambda>cursor. (bucket_epoch_ms cursor,
             case map_of (rev vals) (bucket_epoch_ms cursor) of None \<Rightarrow> 0 | Some n \<Rightarrow> n))
           (cursors (align_bucket (hw_start w) (hw_resolution w)) (hw_end w) (hw_resolution w)))"

type_synonym series = "(int \<times> nat) list"

definition timeline ::
  "'p postgres \<Rightarrow> string \<Rightarrow> string list \<Rightarrow> (pdict \<Rightarrow> bool) \<Rightarrow> history_window \<Rightarrow> (('x, 'p) jobs_store, series) meth" where
  "timeline P username columns cond w =
     mbind (get_conn P) (\<lambda>_. mwith (\<lambda>s.
       mret (bucket_series (timeline_counts username columns cond w (js_db s)) w)))"

definition submission_timeline ::
  "'p postgres \<Rightarrow> int \<Rightarrow> int \<Rightarrow> string \<Rightarrow> string option \<Rightarrow> int option \<Rightarrow> int option \<Rightarrow> (('x, 'p) jobs_store, series) meth" where
  "submission_timeline P now1 now2 username range_name start_time end_time =
     mbind (mlift (resolve_history_window_and_bucket now1 now2 range_name start_time end_time))
       (timeline P username [''submit_time'', ''start_time'', ''last_seen''] (\<lambda>_. True))"

definition completion_timeline ::
  "'p postgres \<Rightarrow> int \<Rightarrow> int \<Rightarrow> string \<Rightarrow> string option \<Rightarrow> int option \<Rightarrow> int option \<Rightarrow> (('x, 'p) jobs_store, series) meth" where
  "completion_timeline P now1 now2 username range_name start_time end_time =
     mbind (mlift (resolve_history_window_and_bucket now1 now2 range_name start_time end_time))
       (timeline P username [''end_time'', ''last_seen''] (like_any TERMINAL_STATES))"

definition state_timeline ::
  "'p postgres \<Rightarrow> int \<Rightarrow> int \<Rightarrow> string \<Rightarrow> string list \<Rightarrow> string option \<Rightarrow> int option \<Rightarrow> int option
   \<Rightarrow> (('x, 'p) jobs_store, series) meth" where
  "state_timeline P now1 now2 username states range_name start_time end_time =
     mbind (mlift (resolve_history_window_and_bucket now1 now2 range_name start_time end_time))
       (timeline P username [''last_seen'', ''start_time'', ''submit_time''] (like_any states))"


section \<open>The history of a user\<close>

definition USER_HISTORY_STATE_GROUPS :: "(string \<times> string list) list" where
  "USER_HISTORY_STATE_GROUPS =
     [(''running_jobs'', [''RUNNING'', ''COMPLETING'', ''SUSPENDED'']),
      (''pending_jobs'', [''PENDING'']),
      (''failed_jobs'', [''FAILED'', ''TIMEOUT'', ''NODE_FAIL'', ''BOOT_FAIL'', ''DEADLINE'', ''OUT_OF_MEMORY'']),
      (''cancelled_jobs'', [''CANCELLED'', ''PREEMPTED''])]"

record metrics_history =
  mh_start :: int
  mh_end :: int
  mh_totals :: "(string \<times> nat) list"
  mh_submissions :: series
  mh_completions :: series
  mh_states :: "(string \<times> series) list"

definition count_of :: "series \<Rightarrow> nat" where
  "count_of xs = sum_list (map snd xs)"

definition keyed_timeline ::
  "'p postgres \<Rightarrow> int \<Rightarrow> int \<Rightarrow> string \<Rightarrow> string option \<Rightarrow> int option \<Rightarrow> int option \<Rightarrow> string \<times> string list
   \<Rightarrow> (('x, 'p) jobs_store, string \<times> series) meth" where
  "keyed_timeline P now1 now2 username range_name start_time end_time g =
     mbind (state_timeline P now1 now2 username (snd g) range_name start_time end_time) (\<lambda>xs. mret (fst g, xs))"

text \<open>The window is resolved once; the timelines are given its ends, so they choose their buckets by its length.\<close>

definition user_metrics_history ::
  "'p postgres \<Rightarrow> int \<Rightarrow> int \<Rightarrow> string \<Rightarrow> string option \<Rightarrow> int option \<Rightarrow> int option
   \<Rightarrow> (('x, 'p) jobs_store, metrics_history) meth" where
  "user_metrics_history P now1 now2 username range_name start_time end_time =
     mbind (mlift (resolve_history_window_and_bucket now1 now2 range_name start_time end_time)) (\<lambda>w.
     let a = Some (hw_start w); b = Some (hw_end w) in
     mbind (submission_timeline P now1 now2 username range_name a b) (\<lambda>submissions.
     mbind (completion_timeline P now1 now2 username range_name a b) (\<lambda>completions.
     mbind (mmap (keyed_timeline P now1 now2 username range_name a b) USER_HISTORY_STATE_GROUPS) (\<lambda>groups.
       mret \<lparr>mh_start = hw_start w, mh_end = hw_end w,
             mh_totals = (''submitted_jobs'', count_of submissions) # (''completed_jobs'', count_of completions)
                # map (\<lambda>(key, xs). (key, count_of xs)) groups,
             mh_submissions = submissions, mh_completions = completions, mh_states = groups\<rparr>))))"

text \<open>The submissions of the last seconds, by user; \<open>NOW()\<close> is the time of the query.\<close>

definition recent_submission_counts :: "'p postgres \<Rightarrow> int \<Rightarrow> int \<Rightarrow> (('x, 'p) jobs_store, (string \<times> nat) list) meth" where
  "recent_submission_counts P now window_seconds =
     mbind (get_conn P) (\<lambda>_. mwith (\<lambda>s.
       let rows = distinct_on job_key (sort_key job_order
             (filter (\<lambda>r. username_of (jd_base (js_db s)) (dget ''user_id'' r) \<noteq> VNone
                \<and> now - window_seconds * 1000000 \<le> time_us (dget ''submit_time'' r)) (jd_rows (js_db s))));
           names = map (\<lambda>r. case username_of (jd_base (js_db s)) (dget ''user_id'' r) of VStr u \<Rightarrow> u | _ \<Rightarrow> []) rows
       in mret (map (\<lambda>u. (u, length (filter (\<lambda>x. x = u) names))) (sorted_set names))))"

definition latest_submission_count :: "'p postgres \<Rightarrow> int \<Rightarrow> string \<Rightarrow> int \<Rightarrow> (('x, 'p) jobs_store, nat) meth" where
  "latest_submission_count P now username window_seconds =
     mbind (recent_submission_counts P now window_seconds) (\<lambda>counts.
       mret (case map_of counts username of None \<Rightarrow> 0 | Some n \<Rightarrow> n))"

section \<open>Buckets\<close>

lemmas period_defs = MINUTE_def HOUR_def DAY_def WEEK_def

text \<open>The pairs of a name and a period that a window can have, and the shift of the weeks.\<close>

definition unit_of :: "string \<Rightarrow> int \<Rightarrow> bool" where
  "unit_of name period \<longleftrightarrow>
     (name, period) \<in> {(''minute'', MINUTE), (''hour'', HOUR), (''day'', DAY), (''week'', WEEK)}"

definition shift_of :: "int \<Rightarrow> int" where
  "shift_of period = (if period = WEEK then 3 * DAY else 0)"

definition grid :: "int \<Rightarrow> int \<Rightarrow> int" where
  "grid period t = floor_to period (t + shift_of period) - shift_of period"

lemma start_of_week_grid: "start_of_week t = grid WEEK t"
proof -
  have "(t + 3 * DAY) div WEEK = (t + 3 * DAY) div DAY div 7"
    unfolding WEEK_def by (simp add: zdiv_zmult2_eq mult.commute [of 7])
  also have "(t + 3 * DAY) div DAY = t div DAY + 3" by (simp add: DAY_def)
  finally have "(t + 3 * DAY) div WEEK * 7 = t div DAY + 3 - (t div DAY + 3) mod 7"
    by (simp add: minus_mod_eq_div_mult)
  then have "(t + 3 * DAY) div WEEK * 7 * DAY = (t div DAY + 3 - (t div DAY + 3) mod 7) * DAY" by simp
  then show ?thesis
    by (simp add: start_of_week_def grid_def shift_of_def floor_to_def weekday_def WEEK_def algebra_simps)
qed

lemma unit_grid:
  assumes "unit_of name period"
  shows "date_trunc name t = grid period t" "align_bucket t period = grid period t" "0 < period"
    "1000 dvd period" "1000 dvd shift_of period"
  using assms
  by (auto simp: unit_of_def date_trunc_def align_bucket_def start_of_week_grid grid_def shift_of_def period_defs)

lemma grid_bounds:
  assumes "0 < period"
  shows "grid period t \<le> t" "t < grid period t + period" "\<exists>k. grid period t = k * period - shift_of period"
proof -
  let ?u = "t + shift_of period"
  have "?u div period * period = ?u - ?u mod period" by (simp add: minus_mod_eq_div_mult)
  moreover have "0 \<le> ?u mod period" "?u mod period < period" using assms by simp_all
  ultimately show "grid period t \<le> t" "t < grid period t + period" by (simp_all add: grid_def floor_to_def)
  show "\<exists>k. grid period t = k * period - shift_of period" by (auto simp: grid_def floor_to_def)
qed

lemma grid_mono: "0 < period \<Longrightarrow> s \<le> t \<Longrightarrow> grid period s \<le> grid period t"
  by (simp add: grid_def floor_to_def zdiv_mono1 mult_right_mono)

lemma cursors_props:
  "0 < r \<Longrightarrow> sorted (cursors c e r) \<and> distinct (cursors c e r) \<and> set (cursors c e r) = {c + int k * r | k. c + int k * r \<le> e}"
proof (induction c e r rule: cursors.induct)
  case (1 c e r)
  show ?case
  proof (cases "c \<le> e")
    case False
    have "0 \<le> int k * r" for k using "1.prems" by simp
    then have "\<not> c + int k * r \<le> e" for k using False by (smt (verit))
    then show ?thesis using False by (subst (1 2 3) cursors.simps) simp
  next
    case True
    have IH: "sorted (cursors (c + r) e r)" "distinct (cursors (c + r) e r)"
      and mem: "set (cursors (c + r) e r) = {c + r + int k * r | k. c + r + int k * r \<le> e}"
      using "1.IH" True "1.prems" by simp_all
    have step: "cursors c e r = c # cursors (c + r) e r" using True "1.prems" by (subst cursors.simps) simp
    have above: "c < x" if "x \<in> set (cursors (c + r) e r)" for x
    proof -
      obtain k where "x = c + r + int k * r" using \<open>x \<in> _\<close> unfolding mem by blast
      moreover have "0 \<le> int k * r" using "1.prems" by simp
      ultimately show ?thesis using "1.prems" by linarith
    qed
    have "{c + int k * r | k. c + int k * r \<le> e} = insert c {c + r + int k * r | k. c + r + int k * r \<le> e}"
    proof (intro set_eqI iffI)
      fix x assume "x \<in> {c + int k * r | k. c + int k * r \<le> e}"
      then obtain k where "x = c + int k * r" "x \<le> e" by blast
      then show "x \<in> insert c {c + r + int k * r | k. c + r + int k * r \<le> e}"
        by (cases k) (auto simp: algebra_simps)
    next
      fix x assume "x \<in> insert c {c + r + int k * r | k. c + r + int k * r \<le> e}"
      then consider "x = c" | k where "x = c + int (Suc k) * r" "x \<le> e" by (auto simp: algebra_simps)
      then show "x \<in> {c + int k * r | k. c + int k * r \<le> e}"
      proof cases
        case 1
        then show ?thesis using True by (intro CollectI exI [of _ 0]) simp
      qed blast
    qed
    then show ?thesis using IH above unfolding step by (auto simp: mem [symmetric] less_imp_le)
  qed
qed

lemma bucket_on_cursors:
  assumes "unit_of name r" and "s \<le> t" and "t \<le> e"
  shows "grid r t \<in> set (cursors (grid r s) e r)"
proof -
  have r: "0 < r" by (rule unit_grid [OF assms(1)])
  obtain i j where ij: "grid r s = i * r - shift_of r" "grid r t = j * r - shift_of r"
    using grid_bounds(3) [OF r] by meson
  have le: "grid r s \<le> grid r t" using grid_mono [OF r assms(2)] .
  then have "i \<le> j" using ij r by simp
  then have "grid r t = grid r s + int (nat (j - i)) * r" using ij by (simp add: algebra_simps)
  moreover have "grid r t \<le> e" using grid_bounds(1) [OF r, of t] assms(3) by simp
  moreover have "set (cursors (grid r s) e r) = {grid r s + int k * r | k. grid r s + int k * r \<le> e}"
    using cursors_props [OF r] by blast
  ultimately show ?thesis by (metis (mono_tags, lifting) mem_Collect_eq)
qed

section \<open>Counting by buckets\<close>

lemma distinct_on_distinct: "distinct (map k xs) \<Longrightarrow> distinct_on k xs = xs"
proof (induction xs)
  case (Cons x xs)
  then have "filter (\<lambda>y. k y \<noteq> k x) xs = xs" by (auto simp: filter_id_conv image_iff)
  then show ?case using Cons by simp
qed simp

lemma sum_counts:
  "distinct cs \<Longrightarrow> set bs \<subseteq> set cs \<Longrightarrow> sum_list (map (\<lambda>c. length (filter (\<lambda>b. b = c) bs)) cs) = length bs"
proof (induction bs)
  case (Cons b bs)
  have "sum_list (map (\<lambda>c. length (filter (\<lambda>x. x = c) (b # bs))) cs)
      = sum_list (map (\<lambda>c. (if b = c then 1 else 0) + length (filter (\<lambda>x. x = c) bs)) cs)"
    by (intro arg_cong [where f = sum_list] map_cong) simp_all
  also have "\<dots> = sum_list (map (\<lambda>c. if b = c then 1 else 0) cs) + length bs"
    using Cons by (simp add: sum_list_addf)
  also have "sum_list (map (\<lambda>c. if b = c then 1 else (0 :: nat)) cs) = 1"
    using Cons.prems by (simp add: sum_list_distinct_conv_sum_set)
  finally show ?case by simp
qed simp

lemma bucket_epoch_ms_exact: "1000 dvd t \<Longrightarrow> bucket_epoch_ms t = t div 1000"
  by (auto simp: bucket_epoch_ms_def elim!: dvdE)

lemma bucket_epoch_ms_inj: "1000 dvd s \<Longrightarrow> 1000 dvd t \<Longrightarrow> bucket_epoch_ms s = bucket_epoch_ms t \<longleftrightarrow> s = t"
  by (auto simp: bucket_epoch_ms_exact elim!: dvdE)

lemma series_lookup:
  assumes "\<forall>b \<in> set bs. 1000 dvd b" and "1000 dvd x"
  shows "(case map_of (rev (map (\<lambda>(b, n). (bucket_epoch_ms b, n)) (group_counts bs))) (bucket_epoch_ms x) of
      None \<Rightarrow> 0 | Some n \<Rightarrow> n) = length (filter (\<lambda>b. b = x) bs)"
proof -
  let ?l = "rev (map (\<lambda>(b, n). (bucket_epoch_ms b, n)) (group_counts bs))"
  have keys: "map fst ?l = rev (map bucket_epoch_ms (sorted_set bs))" by (simp add: group_counts_def rev_map comp_def)
  have "inj_on bucket_epoch_ms (set bs)" using assms(1) bucket_epoch_ms_inj by (auto intro: inj_onI)
  then have d: "distinct (map fst ?l)" unfolding keys by (simp add: distinct_map)
  show ?thesis
  proof (cases "x \<in> set bs")
    case True
    then have "(bucket_epoch_ms x, length (filter (\<lambda>b. b = x) bs)) \<in> set ?l" by (auto simp: group_counts_def)
    then show ?thesis using map_of_is_SomeI [OF d] by simp
  next
    case False
    then have "bucket_epoch_ms x \<notin> fst ` set ?l"
      using assms bucket_epoch_ms_inj by (auto simp: group_counts_def)
    then have "map_of ?l (bucket_epoch_ms x) = None" by (simp add: map_of_eq_None_iff)
    moreover have "filter (\<lambda>b. b = x) bs = []" using False by (auto simp: filter_empty_conv)
    ultimately show ?thesis by simp
  qed
qed

section \<open>Every job of a window is counted once\<close>

definition window_ok :: "history_window \<Rightarrow> bool" where
  "window_ok w \<longleftrightarrow> unit_of (hw_bucket w) (hw_resolution w)"

lemma resolved_window:
  assumes "resolve_history_window_and_bucket now1 now2 range_name a b = Inr w"
  shows "window_ok w"
proof -
  have units: "unit_of (fst q) (snd q)" if "map_of bucket_map n = Some q" for n q
    using map_of_SomeD [OF that] by (auto simp: bucket_map_def unit_of_def)
  consider (given) a' b' where "a = Some a'" "b = Some b'" | (none) "a = None" "b = None"
    using assms by (cases a; cases b) (simp_all add: resolve_history_window_and_bucket_def)
  then show ?thesis
  proof cases
    case given
    with assms show ?thesis
      by (simp add: resolve_history_window_and_bucket_def window_ok_def window_of_def unit_of_def split: if_splits)
        (auto simp: unit_of_def)
  next
    case none
    with assms obtain n q x where "map_of bucket_map n = Some q" "w = window_of (now1 - x) now2 q"
      by (auto simp: resolve_history_window_and_bucket_def Let_def split: option.splits)
    then show ?thesis using units by (simp add: window_ok_def window_of_def)
  qed
qed

text \<open>The jobs a timeline is about.\<close>

definition timeline_jobs :: "string \<Rightarrow> string list \<Rightarrow> (pdict \<Rightarrow> bool) \<Rightarrow> int \<Rightarrow> int \<Rightarrow> jobs_db \<Rightarrow> pdict list" where
  "timeline_jobs username columns cond start_time end_time jd =
     filter (\<lambda>r. moment_in columns start_time end_time r \<and> cond r) (user_rows username jd)"

definition moment :: "string list \<Rightarrow> pdict \<Rightarrow> int" where
  "moment columns r = (case first_time columns r of None \<Rightarrow> 0 | Some t \<Rightarrow> t)"

lemma series_counts:
  assumes w: "window_ok w" and d: "distinct (map job_key (jd_rows jd))"
  shows "bucket_series (timeline_counts username columns cond w jd) w =
      map (\<lambda>c. (c div 1000, length (filter (\<lambda>r. grid (hw_resolution w) (moment columns r) = c)
             (timeline_jobs username columns cond (hw_start w) (hw_end w) jd))))
          (cursors (grid (hw_resolution w) (hw_start w)) (hw_end w) (hw_resolution w))"
proof -
  let ?r = "hw_resolution w"
  let ?jobs = "timeline_jobs username columns cond (hw_start w) (hw_end w) jd"
  let ?sorted = "sort_key job_order ?jobs"
  let ?bs = "map (\<lambda>r. grid ?r (moment columns r)) ?sorted"
  note u = unit_grid [OF w [unfolded window_ok_def]]
  have "distinct (map job_key ?jobs)" using d by (simp add: timeline_jobs_def user_rows_def distinct_map_filter)
  then have "distinct (map job_key ?sorted)" by (metis mset_eq_imp_distinct_iff mset_map mset_sort)
  then have counts: "timeline_counts username columns cond w jd = group_counts ?bs"
    using distinct_on_distinct [of job_key ?sorted]
    by (simp add: timeline_counts_def timeline_jobs_def moment_def u(1))
  have dvd: "1000 dvd grid ?r t" for t using u(4,5) by (simp add: grid_def floor_to_def)
  have cursor: "1000 dvd c" if "c \<in> set (cursors (grid ?r (hw_start w)) (hw_end w) ?r)" for c
    using that cursors_props [OF u(3)] dvd u(4) by auto
  have same: "length (filter (\<lambda>b. b = c) ?bs) = length (filter (\<lambda>r. grid ?r (moment columns r) = c) ?jobs)" for c
  proof -
    have "length (filter (\<lambda>b. b = c) ?bs) = size (filter_mset (\<lambda>b. b = c) (mset ?bs))" by (metis mset_filter size_mset)
    also have "mset ?bs = mset (map (\<lambda>r. grid ?r (moment columns r)) ?jobs)" by simp
    finally show ?thesis by (simp add: filter_map comp_def flip: mset_filter mset_map)
  qed
  show ?thesis
    unfolding bucket_series_def counts Let_def u(2)
  proof (intro map_cong refl)
    fix c assume "c \<in> set (cursors (grid ?r (hw_start w)) (hw_end w) ?r)"
    then have c: "1000 dvd c" by (rule cursor)
    have all: "\<forall>b \<in> set ?bs. 1000 dvd b" using dvd by simp
    from series_lookup [OF all c] show "(bucket_epoch_ms c,
        case map_of (rev (map (\<lambda>(b, n). (bucket_epoch_ms b, n)) (group_counts ?bs))) (bucket_epoch_ms c) of None \<Rightarrow> 0 | Some n \<Rightarrow> n)
      = (c div 1000, length (filter (\<lambda>r. grid ?r (moment columns r) = c) ?jobs))"
      unfolding same bucket_epoch_ms_exact [OF c] by (rule arg_cong)
  qed
qed

lemma series_total:
  assumes w: "window_ok w" and d: "distinct (map job_key (jd_rows jd))"
  shows "count_of (bucket_series (timeline_counts username columns cond w jd) w)
      = length (timeline_jobs username columns cond (hw_start w) (hw_end w) jd)"
proof -
  let ?r = "hw_resolution w"
  let ?jobs = "timeline_jobs username columns cond (hw_start w) (hw_end w) jd"
  let ?bs = "map (\<lambda>r. grid ?r (moment columns r)) ?jobs"
  let ?cs = "cursors (grid ?r (hw_start w)) (hw_end w) ?r"
  note u = unit_grid [OF w [unfolded window_ok_def]]
  have "grid ?r (moment columns r) \<in> set ?cs" if "r \<in> set ?jobs" for r
    using that bucket_on_cursors [OF w [unfolded window_ok_def]]
    by (auto simp: timeline_jobs_def moment_in_def moment_def split: option.splits)
  then have sub: "set ?bs \<subseteq> set ?cs" by auto
  have "distinct ?cs" using cursors_props [OF u(3)] by blast
  from sum_counts [OF this sub] show ?thesis
    by (simp add: count_of_def series_counts [OF w d] comp_def filter_map)
qed

lemma timeline_result:
  assumes "timeline P username columns cond w s = (Inr xs, s1)"
  shows "js_db s1 = js_db s \<and> xs = bucket_series (timeline_counts username columns cond w (js_db s)) w"
  using assms get_conn_state [of P s] by (auto simp: timeline_def elim!: mbind_cases)

lemma timelines_result:
  "submission_timeline P now1 now2 username rn a b s = (Inr xs, s1) \<Longrightarrow>
    \<exists>w. resolve_history_window_and_bucket now1 now2 rn a b = Inr w
      \<and> timeline P username [''submit_time'', ''start_time'', ''last_seen''] (\<lambda>_. True) w s = (Inr xs, s1)"
  "completion_timeline P now1 now2 username rn a b s = (Inr xs, s1) \<Longrightarrow>
    \<exists>w. resolve_history_window_and_bucket now1 now2 rn a b = Inr w
      \<and> timeline P username [''end_time'', ''last_seen''] (like_any TERMINAL_STATES) w s = (Inr xs, s1)"
  "state_timeline P now1 now2 username states rn a b s = (Inr xs, s1) \<Longrightarrow>
    \<exists>w. resolve_history_window_and_bucket now1 now2 rn a b = Inr w
      \<and> timeline P username [''last_seen'', ''start_time'', ''submit_time''] (like_any states) w s = (Inr xs, s1)"
  by (auto simp: submission_timeline_def completion_timeline_def state_timeline_def elim!: mbind_cases)

text \<open>With both ends given the window has these ends.\<close>

lemma given_window:
  "resolve_history_window_and_bucket now1 now2 rn (Some a) (Some b) = Inr w \<Longrightarrow> hw_start w = a \<and> hw_end w = b"
  by (auto simp: resolve_history_window_and_bucket_def window_of_def split: if_splits)

lemma timeline_total:
  assumes "resolve_history_window_and_bucket now1 now2 rn (Some a) (Some b) = Inr w"
    and "timeline P username columns cond w s = (Inr xs, s1)" and "jobs_ok (js_db s)"
  shows "js_db s1 = js_db s \<and> count_of xs = length (timeline_jobs username columns cond a b (js_db s))"
  using series_total [OF resolved_window [OF assms(1)], of "js_db s" username columns cond]
    timeline_result [OF assms(2)] given_window [OF assms(1)] assms(3) by (simp add: jobs_ok_def)

lemma group_totals:
  "mmap (keyed_timeline P now1 now2 username rn (Some a) (Some b)) gs s = (Inr groups, s1) \<Longrightarrow> jobs_ok (js_db s) \<Longrightarrow>
   map (\<lambda>(key, xs). (key, count_of xs)) groups
     = map (\<lambda>(key, states). (key, length (timeline_jobs username [''last_seen'', ''start_time'', ''submit_time'']
         (like_any states) a b (js_db s)))) gs"
proof (induction gs arbitrary: s groups)
  case (Cons g gs)
  obtain key states where g: "g = (key, states)" by (cases g)
  from Cons.prems(1) obtain y s2 groups2 where y: "keyed_timeline P now1 now2 username rn (Some a) (Some b) g s = (Inr y, s2)"
    and rest: "mmap (keyed_timeline P now1 now2 username rn (Some a) (Some b)) gs s2 = (Inr groups2, s1)"
    and groups: "groups = y # groups2"
    by (auto elim!: mbind_cases)
  from y obtain xs where one: "state_timeline P now1 now2 username states rn (Some a) (Some b) s = (Inr xs, s2)"
    and y': "y = (key, xs)" by (auto simp: keyed_timeline_def g elim!: mbind_cases)
  from timelines_result(3) [OF one] obtain w where
    "resolve_history_window_and_bucket now1 now2 rn (Some a) (Some b) = Inr w"
    "timeline P username [''last_seen'', ''start_time'', ''submit_time''] (like_any states) w s = (Inr xs, s2)" by blast
  note t = timeline_total [OF this Cons.prems(2)]
  show ?case using Cons.IH [OF rest] Cons.prems(2) t by (simp add: groups g y')
qed simp

text \<open>
  C26. The totals of a user's history are exact: each is the number of the user's jobs of its kind in the
  window, both ends included, whatever buckets the window is cut into. No job falls between two
  buckets, before the first or after the last, and none is counted twice.
\<close>

theorem history_totals_exact:
  assumes "user_metrics_history P now1 now2 username range_name a b s = (Inr h, s1)" and "jobs_ok (js_db s)"
  shows "mh_totals h =
     (''submitted_jobs'', length (timeline_jobs username [''submit_time'', ''start_time'', ''last_seen''] (\<lambda>_. True)
        (mh_start h) (mh_end h) (js_db s)))
     # (''completed_jobs'', length (timeline_jobs username [''end_time'', ''last_seen''] (like_any TERMINAL_STATES)
        (mh_start h) (mh_end h) (js_db s)))
     # map (\<lambda>(key, states). (key, length (timeline_jobs username [''last_seen'', ''start_time'', ''submit_time'']
          (like_any states) (mh_start h) (mh_end h) (js_db s)))) USER_HISTORY_STATE_GROUPS"
proof -
  obtain w sub s2 comp s3 groups where
    "resolve_history_window_and_bucket now1 now2 range_name a b = Inr w" and
    sub: "submission_timeline P now1 now2 username range_name (Some (hw_start w)) (Some (hw_end w)) s = (Inr sub, s2)" and
    comp: "completion_timeline P now1 now2 username range_name (Some (hw_start w)) (Some (hw_end w)) s2 = (Inr comp, s3)" and
    groups: "mmap (keyed_timeline P now1 now2 username range_name (Some (hw_start w)) (Some (hw_end w))) USER_HISTORY_STATE_GROUPS s3 = (Inr groups, s1)" and
    h0: "h = \<lparr>mh_start = hw_start w, mh_end = hw_end w,
       mh_totals = (''submitted_jobs'', count_of sub) # (''completed_jobs'', count_of comp)
         # map (\<lambda>(key, xs). (key, count_of xs)) groups,
       mh_submissions = sub, mh_completions = comp, mh_states = groups\<rparr>"
    using assms(1) by (auto simp: user_metrics_history_def Let_def elim!: mbind_cases)
  have h: "mh_start h = hw_start w" "mh_end h = hw_end w"
      "mh_totals h = (''submitted_jobs'', count_of sub) # (''completed_jobs'', count_of comp)
         # map (\<lambda>(key, xs). (key, count_of xs)) groups" by (simp_all add: h0)
  from timelines_result(1) [OF sub] obtain w1 where
    "resolve_history_window_and_bucket now1 now2 range_name (Some (hw_start w)) (Some (hw_end w)) = Inr w1"
    "timeline P username [''submit_time'', ''start_time'', ''last_seen''] (\<lambda>_. True) w1 s = (Inr sub, s2)" by blast
  note t1 = timeline_total [OF this assms(2)]
  then have ok2: "jobs_ok (js_db s2)" using assms(2) by simp
  from timelines_result(2) [OF comp] obtain w2 where
    "resolve_history_window_and_bucket now1 now2 range_name (Some (hw_start w)) (Some (hw_end w)) = Inr w2"
    "timeline P username [''end_time'', ''last_seen''] (like_any TERMINAL_STATES) w2 s2 = (Inr comp, s3)" by blast
  note t2 = timeline_total [OF this ok2]
  then have ok3: "jobs_ok (js_db s3)" using ok2 by simp
  show ?thesis using t1 t2 group_totals [OF groups ok3] by (simp add: h)
qed

lemma mmap_pure: "(\<And>x. \<exists>y. f x s = (Inr y, s)) \<Longrightarrow> \<exists>ys. mmap f xs s = (Inr ys, s)"
proof (induction xs)
  case (Cons x xs)
  then obtain y ys where "f x s = (Inr y, s)" "mmap f xs s = (Inr ys, s)" by meson
  then show ?case by (simp add: mbind_def)
qed simp

definition demo_user :: user_row where
  "demo_user = \<lparr>us_id = 1, us_username = ''ann'', us_fullname = None, us_groups = VList [], us_policy_roles = [],
     us_policy_actions = [], us_ldap_synced_at = None, us_permission_synced_at = None, us_created_at = 0, us_updated_at = 0\<rparr>"

definition demo_seen :: "int \<Rightarrow> int \<Rightarrow> string \<Rightarrow> pdict" where
  "demo_seen n t state = [(''id'', VInt n), (''job_id'', VInt n), (''submit_time'', VTime t), (''last_seen'', VTime (t + HOUR)),
     (''user_id'', VInt 1), (''job_state'', VStr state)]"

definition demo_history :: "(unit, unit) jobs_store" where
  "demo_history = demo_store\<lparr>js_db := \<lparr>jd_base = empty_db\<lparr>db_users := [demo_user], users_seq := 1\<rparr>,
     jd_rows = [demo_seen 1 5 ''RUNNING'', demo_seen 2 HOUR ''FAILED'', demo_seen 3 DAY ''RUNNING''], jd_seq = 3\<rparr>\<rparr>"

lemma demo_history_ok: "jobs_ok (js_db demo_history)"
  by (simp add: demo_history_def demo_seen_def demo_user_def jobs_ok_def key_given_def user_exists_def row_id_def dget_or_def
      job_key_def empty_db_def db_ok_def roles_valid_def HOUR_def DAY_def)

theorem history_totals_exact_witness:
  "\<exists>h s1. user_metrics_history demo_postgres 0 0 ''ann'' None (Some 0) (Some (3 * HOUR)) demo_history = (Inr h, s1)
     \<and> mh_totals h = [(''submitted_jobs'', 2), (''completed_jobs'', 1), (''running_jobs'', 1), (''pending_jobs'', 0),
          (''failed_jobs'', 1), (''cancelled_jobs'', 0)]"
proof -
  obtain q s1 where q: "user_metrics_history demo_postgres 0 0 ''ann'' None (Some 0) (Some (3 * HOUR)) demo_history = (q, s1)"
    by (rule prod.exhaust)
  let ?w = "window_of 0 (3 * HOUR) (''hour'', HOUR)"
  have w: "resolve_history_window_and_bucket 0 0 None (Some 0) (Some (3 * HOUR)) = Inr ?w"
    by (simp add: resolve_history_window_and_bucket_def HOUR_def)
  have conn: "get_conn demo_postgres demo_history = (Inr (), demo_history)"
    by (simp add: get_conn_def demo_postgres_def demo_history_def demo_store_def queue_rows_def)
  have line: "timeline demo_postgres ''ann'' columns cond ?w demo_history
      = (Inr (bucket_series (timeline_counts ''ann'' columns cond ?w (js_db demo_history)) ?w), demo_history)" for columns cond
    by (simp add: timeline_def mbind_def conn)
  have "\<exists>y. keyed_timeline demo_postgres 0 0 ''ann'' None (Some 0) (Some (3 * HOUR)) g demo_history = (Inr y, demo_history)" for g
    by (simp add: keyed_timeline_def state_timeline_def mbind_def w line)
  then have groups: "\<exists>ys. mmap (keyed_timeline demo_postgres 0 0 ''ann'' None (Some 0) (Some (3 * HOUR))) gs demo_history
      = (Inr ys, demo_history)" for gs
    by (rule mmap_pure)
  have "\<exists>h. q = Inr h \<and> mh_start h = 0 \<and> mh_end h = 3 * HOUR"
  proof -
    have "hw_start ?w = 0" "hw_end ?w = 3 * HOUR" by (simp_all add: window_of_def)
    then show ?thesis using q groups [of USER_HISTORY_STATE_GROUPS]
      by (auto simp: user_metrics_history_def mbind_def w submission_timeline_def completion_timeline_def line Let_def)
  qed
  then obtain h where h: "q = Inr h" "mh_start h = 0" "mh_end h = 3 * HOUR" by blast
  have counts: "length (timeline_jobs ''ann'' [''submit_time'', ''start_time'', ''last_seen''] (\<lambda>_. True) 0 (3 * HOUR) (js_db demo_history)) = 2"
    "length (timeline_jobs ''ann'' [''end_time'', ''last_seen''] (like_any TERMINAL_STATES) 0 (3 * HOUR) (js_db demo_history)) = 1"
    "map (\<lambda>(key, states). (key, length (timeline_jobs ''ann'' [''last_seen'', ''start_time'', ''submit_time''] (like_any states)
        0 (3 * HOUR) (js_db demo_history)))) USER_HISTORY_STATE_GROUPS
      = [(''running_jobs'', 1), (''pending_jobs'', 0), (''failed_jobs'', 1), (''cancelled_jobs'', 0)]" by code_simp+
  show ?thesis using history_totals_exact [OF q [unfolded h(1)] demo_history_ok] q h counts
    by (intro exI [of _ h] exI [of _ s1]) simp
qed

end
