(* ===== verification/UserAnalytics.thy ===== *)
theory UserAnalytics
  imports ToolStatistics UserTimelines UsageBackfill UsersStore
begin

text \<open>
  \<open>UserAnalyticsStore\<close> of \<open>persistence/user_analytics_store.py\<close>: the table of daily statistics, its
  refresh from the completed jobs, and what the pages of a user are built from. The store has a job
  store of its own without a client; the client of the repair of usage fields is an argument. Clock
  readings are arguments in the order of the calls, \<open>CURRENT_DATE\<close> is a day of UTC.
\<close>

section \<open>State\<close>

text \<open>A row of \<open>user_tool_daily_stats\<close>; its key is day, user and tool.\<close>

record stat_entry =
  se_activity_date :: int
  se_user_id :: int
  se_tool :: string
  se_jobs_count :: int
  se_figures :: figures
  se_created_at :: int
  se_updated_at :: int

record ('x, 'p) analytics =
  ua_jobs :: "('x, 'p) jobs_store"
  ua_stats :: "stat_entry list"

record tool_config =
  tc_mapper :: tool_rules
  tc_raw_mapper :: tool_rules
  tc_rewrite :: tool_rewrite

definition se_key :: "stat_entry \<Rightarrow> int \<times> int \<times> string" where
  "se_key e = (se_activity_date e, se_user_id e, se_tool e)"

definition on_jobs :: "(('x, 'p) jobs_store, 'a) meth \<Rightarrow> (('x, 'p) analytics, 'a) meth" where
  "on_jobs m s = (case m (ua_jobs s) of (r, j) \<Rightarrow> (r, s\<lparr>ua_jobs := j\<rparr>))"

definition day_of :: "int \<Rightarrow> int" where
  "day_of t = t div DAY"


section \<open>Replacing daily statistics\<close>

text \<open>The row of a payload, as the statement reads it.\<close>

definition pv_int :: "pv \<Rightarrow> int" where
  "pv_int v = (case v of VInt n \<Rightarrow> n | _ \<Rightarrow> 0)"

definition entry_of :: "int \<Rightarrow> daily_payload \<Rightarrow> stat_entry" where
  "entry_of now p =
     \<lparr>se_activity_date = pv_int (dp_activity_date p), se_user_id = pv_int (dp_user_id p), se_tool = dp_tool p,
      se_jobs_count = int (dp_jobs_count p),
      se_figures = \<lparr>fi_avg_memory_gb = dp_avg_memory_gb p, fi_max_memory_gb = dp_max_memory_gb p,
        fi_median_memory_gb = dp_median_memory_gb p, fi_avg_cpu_cores = dp_avg_cpu_cores p,
        fi_avg_runtime_seconds = dp_avg_runtime_seconds p\<rparr>,
      se_created_at = now, se_updated_at = now\<rparr>"

definition insert_entry :: "stat_entry \<Rightarrow> stat_entry list \<Rightarrow> stat_entry list" where
  "insert_entry e stats =
     (if se_key e \<in> se_key ` set stats
      then map (\<lambda>old. if se_key old = se_key e
             then old\<lparr>se_jobs_count := se_jobs_count e, se_figures := se_figures e, se_updated_at := se_updated_at e\<rparr>
             else old) stats
      else stats @ [e])"

text \<open>The statement fails on a null key, an unknown user, or one key twice.\<close>

definition insert_ok :: "db \<Rightarrow> int \<Rightarrow> daily_payload list \<Rightarrow> bool" where
  "insert_ok db now payload \<longleftrightarrow>
     list_all (\<lambda>p. (case dp_activity_date p of VInt _ \<Rightarrow> True | _ \<Rightarrow> False)
       \<and> (case dp_user_id p of VInt n \<Rightarrow> n \<in> us_id ` set (db_users db) | _ \<Rightarrow> False)) payload
     \<and> distinct (map (se_key \<circ> entry_of now) payload)"

definition replace_stats ::
  "'p postgres \<Rightarrow> int \<Rightarrow> (db \<Rightarrow> stat_entry \<Rightarrow> bool) \<Rightarrow> daily_payload list \<Rightarrow> (('x, 'p) analytics, unit) meth" where
  "replace_stats P now deleted payload =
     mbind (on_jobs (get_conn P)) (\<lambda>_ s.
       let db = jd_base (js_db (ua_jobs s)) in
       case pg_runs P [] (js_pg (ua_jobs s)) of
         (ok, p) \<Rightarrow>
           let s1 = s\<lparr>ua_jobs := (ua_jobs s)\<lparr>js_pg := p\<rparr>\<rparr> in
           if ok \<and> (payload = [] \<or> insert_ok db now payload)
           then (Inr (), s1\<lparr>ua_stats := fold (insert_entry \<circ> entry_of now) payload
                   (filter (\<lambda>e. \<not> deleted db e) (ua_stats s))\<rparr>)
           else (Inl (BackendError ''statement''), s1))"

definition replace_user_tool_daily_stats ::
  "'p postgres \<Rightarrow> int \<Rightarrow> string \<Rightarrow> int \<Rightarrow> int \<Rightarrow> daily_payload list \<Rightarrow> (('x, 'p) analytics, unit) meth" where
  "replace_user_tool_daily_stats P now username start_date end_date payload =
     replace_stats P now (\<lambda>db e. username_of db (VInt (se_user_id e)) = VStr username
       \<and> start_date \<le> se_activity_date e \<and> se_activity_date e \<le> end_date) payload"

text \<open>The day to delete is read from the clock again.\<close>

definition replace_current_day_summary ::
  "'p postgres \<Rightarrow> int \<Rightarrow> daily_payload list \<Rightarrow> (('x, 'p) analytics, unit) meth" where
  "replace_current_day_summary P now payload =
     replace_stats P now (\<lambda>db e. se_activity_date e = day_of now) payload"


section \<open>Refreshing\<close>

definition aggregate_daily_rows :: "tool_config \<Rightarrow> pdict list \<Rightarrow> (daily_payload list \<times> agg_stats) res" where
  "aggregate_daily_rows A rows =
     aggregate_user_tool_daily_rows (classify_daily_tool (tc_mapper A) (tc_raw_mapper A) (tc_rewrite A)) rows"

definition backfill_usage_for_dates ::
  "'p postgres \<Rightarrow> 'x detail_client option \<Rightarrow> int \<Rightarrow> int \<Rightarrow> string option \<Rightarrow> int option
   \<Rightarrow> (('x, 'p) analytics, backfill_counts) meth" where
  "backfill_usage_for_dates P client start_date end_date username user_id =
     on_jobs (backfill_usage_fields P client
       \<lparr>ba_start_time = Some (start_date * DAY), ba_end_time = Some ((end_date + 1) * DAY), ba_username = username,
        ba_user_id = user_id, ba_job_id = VNone, ba_limit = None, ba_missing_only = True\<rparr> False)"

definition current_day_completed_rows :: "'p postgres \<Rightarrow> int \<Rightarrow> (('x, 'p) analytics, pdict list) meth" where
  "current_day_completed_rows P now = on_jobs (completed_job_rows_for_activity_date P (day_of now) None)"

definition refresh_current_day_summary ::
  "'p postgres \<Rightarrow> 'x detail_client option \<Rightarrow> tool_config \<Rightarrow> int \<Rightarrow> int \<Rightarrow> int \<Rightarrow> (('x, 'p) analytics, unit) meth" where
  "refresh_current_day_summary P client A now1 now2 now3 =
     mbind (backfill_usage_for_dates P client (day_of now1) (day_of now1) None None) (\<lambda>_.
     mbind (current_day_completed_rows P now2) (\<lambda>rows.
     mbind (mlift (aggregate_daily_rows A rows)) (\<lambda>(payload, stats).
       replace_current_day_summary P now3 payload)))"

definition refresh_user_tool_daily_stats ::
  "'p postgres \<Rightarrow> 'x detail_client option \<Rightarrow> tool_config \<Rightarrow> int \<Rightarrow> string \<Rightarrow> int \<Rightarrow> int \<Rightarrow> (('x, 'p) analytics, unit) meth" where
  "refresh_user_tool_daily_stats P client A now username start_date end_date =
     mbind (backfill_usage_for_dates P client start_date end_date (Some username) None) (\<lambda>_.
     mbind (on_jobs (completed_job_rows_for_activity_dates P start_date end_date (Some username))) (\<lambda>rows.
     mbind (mlift (aggregate_daily_rows A rows)) (\<lambda>(payload, stats).
       replace_user_tool_daily_stats P now username start_date end_date payload)))"

text \<open>
  The thread: it ends without a database; otherwise a refresh at once and after every interval. An
  exception of a refresh ends it.
\<close>

definition aggregator_run ::
  "'p postgres \<Rightarrow> 'x detail_client option \<Rightarrow> tool_config \<Rightarrow> (int \<times> int \<times> int) list \<Rightarrow> (('x, 'p) analytics, unit) meth" where
  "aggregator_run P client A turns =
     mbind (mcatch (mbind (on_jobs (get_conn P)) (\<lambda>_. mret True)) (\<lambda>_. mret False)) (\<lambda>ok.
       if ok then mbind (mmap (\<lambda>(now1, now2, now3). refresh_current_day_summary P client A now1 now2 now3) turns) (\<lambda>_. mret ())
       else mret ())"


section \<open>Reading\<close>

definition user_entries :: "db \<Rightarrow> string \<Rightarrow> (int \<Rightarrow> bool) \<Rightarrow> stat_entry list \<Rightarrow> stat_entry list" where
  "user_entries db username days stats =
     filter (\<lambda>e. username_of db (VInt (se_user_id e)) = VStr username \<and> days (se_activity_date e)) stats"

definition user_tool_daily_summary :: "'p postgres \<Rightarrow> string \<Rightarrow> int \<Rightarrow> int \<Rightarrow> (('x, 'p) analytics, analysis) meth" where
  "user_tool_daily_summary P username start_date end_date =
     mbind (on_jobs (get_conn P)) (\<lambda>_. mwith (\<lambda>s.
       mret (aggregate_daily_stat_rows (map (\<lambda>e. StatRow (se_tool e) (se_jobs_count e) (se_figures e))
         (sort_key (\<lambda>e. - se_jobs_count e) (sort_key se_tool
           (user_entries (jd_base (js_db (ua_jobs s))) username (\<lambda>d. start_date \<le> d \<and> d \<le> end_date) (ua_stats s))))))))"

text \<open>Midnight of the day of the clock, and the clock.\<close>

definition default_analysis_window :: "int \<Rightarrow> int \<times> int" where
  "default_analysis_window now = (day_of now * DAY, now)"

record user_profile =
  up_fullname :: "string option"
  up_groups :: pv
  up_ldap_synced_at :: "int option"
  up_ldap_found :: bool

definition profile_of :: "ldap_user option \<Rightarrow> user_profile" where
  "profile_of u =
     (case u of
        None \<Rightarrow> \<lparr>up_fullname = None, up_groups = VList [], up_ldap_synced_at = None, up_ldap_found = False\<rparr>
      | Some v \<Rightarrow> \<lparr>up_fullname = lu_fullname v, up_groups = lu_groups v, up_ldap_synced_at = lu_ldap_synced_at v,
                   up_ldap_found = True\<rparr>)"

record tool_analysis =
  ta_username :: string
  ta_profile :: user_profile
  ta_generated_at :: int
  ta_start :: int
  ta_end :: int
  ta_analysis :: analysis

definition user_tool_analysis ::
  "'p postgres \<Rightarrow> bool \<Rightarrow> int \<Rightarrow> int \<Rightarrow> string \<Rightarrow> int option \<Rightarrow> int option \<Rightarrow> (('x, 'p) analytics, tool_analysis) meth" where
  "user_tool_analysis P has_users_store now1 now2 username start_time end_time =
     (let (a, b) = (case (start_time, end_time) of (Some a, Some b) \<Rightarrow> (a, b) | _ \<Rightarrow> default_analysis_window now1) in
      if b \<le> a then mraise (ValueError ''start must be earlier than end'')
      else mwith (\<lambda>s.
        let profile = (if has_users_store then get_ldap_user username (jd_base (js_db (ua_jobs s))) else None) in
        mbind (user_tool_daily_summary P username (day_of a) (day_of b)) (\<lambda>r.
          mret \<lparr>ta_username = username, ta_profile = profile_of profile, ta_generated_at = now2, ta_start = a,
                ta_end = b, ta_analysis = r\<rparr>)))"

record daily_snapshot =
  ds_date :: int
  ds_job_count :: int
  ds_last_aggregated_at :: int

definition daily_snapshots :: "'p postgres \<Rightarrow> string \<Rightarrow> int \<Rightarrow> (('x, 'p) analytics, daily_snapshot list) meth" where
  "daily_snapshots P username start_date =
     mbind (on_jobs (get_conn P)) (\<lambda>_. mwith (\<lambda>s.
       let es = user_entries (jd_base (js_db (ua_jobs s))) username (\<lambda>d. start_date \<le> d) (ua_stats s) in
       mret (map (\<lambda>d. let day = filter (\<lambda>e. se_activity_date e = d) es in
               \<lparr>ds_date = d, ds_job_count = sum_list (map se_jobs_count day),
                ds_last_aggregated_at = Max (set (map se_updated_at day))\<rparr>)
             (sorted_set (map se_activity_date es)))))"

record activity_summary =
  av_job_count :: int
  av_tool_count :: nat
  av_figures :: figures
  av_avg_max_memory_mb :: "rat option"
  av_top_tool :: "string option"

record activity =
  ac_analysis :: tool_analysis
  ac_range :: string
  ac_submissions :: "(int \<times> nat) list"
  ac_summary :: activity_summary
  ac_tools :: "(string \<times> int \<times> figures \<times> rat option) list"
  ac_snapshots :: "daily_snapshot list"

text \<open>
  The activity of a user. Clock readings: the window, the time of the answer, the two of the history,
  the first of the seven days.
\<close>

definition user_activity ::
  "'p postgres \<Rightarrow> bool \<Rightarrow> int \<Rightarrow> int \<Rightarrow> int \<Rightarrow> int \<Rightarrow> int \<Rightarrow> string \<Rightarrow> string \<Rightarrow> (('x, 'p) analytics, activity) meth" where
  "user_activity P has_users_store now1 now2 now3 now4 now5 username last_range =
     (let (a, b) = default_analysis_window now1 in
      mbind (user_tool_analysis P has_users_store now1 now2 username (Some a) (Some b)) (\<lambda>summary.
      mbind (on_jobs (user_metrics_history P now3 now4 username (Some last_range) None None)) (\<lambda>history.
      mbind (daily_snapshots P username (day_of now5 - 6)) (\<lambda>snapshots.
        let r = ta_analysis summary in
        mret \<lparr>ac_analysis = summary, ac_range = last_range, ac_submissions = mh_submissions history,
              ac_summary = \<lparr>av_job_count = an_completed_jobs r, av_tool_count = an_active_tools r,
                 av_figures = an_figures r, av_avg_max_memory_mb = an_avg_max_memory_mb r,
                 av_top_tool = an_busiest_tool r\<rparr>,
              ac_tools = map (\<lambda>i. (ti_tool i, ti_jobs i, ti_figures i, ti_avg_max_memory_mb i)) (an_tool_breakdown r),
              ac_snapshots = snapshots\<rparr>))))"

definition completed_jobs_rows :: "'p postgres \<Rightarrow> string \<Rightarrow> int \<Rightarrow> (('x, 'p) analytics, pdict list) meth" where
  "completed_jobs_rows P username activity_date =
     on_jobs (completed_job_rows_for_activity_date P activity_date (Some username))"

definition completed_jobs_rows_window :: "'p postgres \<Rightarrow> string \<Rightarrow> int \<Rightarrow> int \<Rightarrow> (('x, 'p) analytics, pdict list) meth" where
  "completed_jobs_rows_window P username start_time end_time =
     on_jobs (completed_job_rows_by_submit_window P (Some username) (Some start_time) (Some (end_time + 1))
       (Some (day_of start_time)))"

definition submitted_jobs_today :: "'p postgres \<Rightarrow> int \<Rightarrow> string \<Rightarrow> (('x, 'p) analytics, nat) meth" where
  "submitted_jobs_today P now username =
     on_jobs (mbind (get_conn P) (\<lambda>_. mwith (\<lambda>s.
       mret (length (distinct_on job_key (sort_key job_order
         (filter (\<lambda>r. day_of (time_us (dget ''submit_time'' r)) = day_of now) (user_rows username (js_db s)))))))))"

section \<open>What a refresh does\<close>

lemma on_jobs_cases:
  assumes "on_jobs m s = (r, s1)"
  shows "ua_stats s1 = ua_stats s \<and> m (ua_jobs s) = (r, ua_jobs s1)"
  using assms by (auto simp: on_jobs_def split: prod.splits)

lemma insert_entry_new: "se_key e \<notin> se_key ` set stats \<Longrightarrow> insert_entry e stats = stats @ [e]"
  by (simp add: insert_entry_def)

lemma insert_entries_new:
  "distinct (map se_key es) \<Longrightarrow> se_key ` set es \<inter> se_key ` set stats = {} \<Longrightarrow> fold insert_entry es stats = stats @ es"
  by (induction es arbitrary: stats) (auto simp: insert_entry_new)

lemma replace_stats_result:
  assumes "replace_stats P now deleted payload s = (r, s1)"
  shows "js_db (ua_jobs s1) = js_db (ua_jobs s)
    \<and> (case r of
         Inl _ \<Rightarrow> ua_stats s1 = ua_stats s
       | Inr _ \<Rightarrow> (payload = [] \<or> insert_ok (jd_base (js_db (ua_jobs s))) now payload)
           \<and> ua_stats s1 = fold (insert_entry \<circ> entry_of now) payload
               (filter (\<lambda>e. \<not> deleted (jd_base (js_db (ua_jobs s))) e) (ua_stats s)))"
proof -
  obtain q s2 where conn: "on_jobs (get_conn P) s = (q, s2)" by (rule prod.exhaust)
  note j = on_jobs_cases [OF conn]
  have db: "js_db (ua_jobs s2) = js_db (ua_jobs s)" using j get_conn_state [of P "ua_jobs s" q] by blast
  show ?thesis
  proof (cases q)
    case (Inl e)
    then have "r = Inl e" "s1 = s2" using assms conn by (simp_all add: replace_stats_def mbind_def)
    then show ?thesis using j db by simp
  next
    case (Inr u)
    then show ?thesis using assms conn j db
      by (auto simp: replace_stats_def mbind_def Let_def split: prod.splits if_splits)
  qed
qed

text \<open>The rows of a day, and the statistics of the payload they give.\<close>

definition day_rows :: "int \<Rightarrow> jobs_db \<Rightarrow> pdict list" where
  "day_rows d jd =
     map (\<lambda>r. the (serialize_completed_row (jd_base jd) d r))
       (submitted_completed_jobs None (Some (d * DAY)) (Some (d * DAY + DAY)) jd)"

lemma day_rows_date: "row \<in> set (day_rows d jd) \<Longrightarrow> dget ''activity_date'' row = VInt d"
  by (auto simp: day_rows_def submitted_completed_jobs_def completed_snapshot_def serialize_completed_row_def dget_or_def)

lemma payload_dates:
  assumes "aggregate_user_tool_daily_rows tool_of rows = Inr (payload, st)"
    and "\<And>row. row \<in> set rows \<Longrightarrow> dget ''activity_date'' row = VInt d" and "p \<in> set payload"
  shows "dp_activity_date p = VInt d"
proof -
  from assms(3) daily_rows_result [OF assms(1)] obtain k where
    p: "p = daily_payload_from_bucket k (key_bucket tool_of k rows)" and "measured_jobs tool_of k rows \<noteq> []" by blast
  then obtain row where "row \<in> set rows" "row_key tool_of row = Some k"
    by (auto simp: measured_jobs_def key_jobs_def filter_empty_conv)
  with assms(2) have "fst k = VInt d" by (auto simp: row_key_def split: if_splits sum.splits)
  moreover have "payload_key p = k" by (simp add: p)
  ultimately show ?thesis by (auto simp: payload_key_def)
qed

definition daily_stats :: "tool_config \<Rightarrow> int \<Rightarrow> int \<Rightarrow> jobs_db \<Rightarrow> stat_entry list res" where
  "daily_stats A now d jd =
     rbind (aggregate_daily_rows A (day_rows d jd)) (\<lambda>(payload, st). Inr (map (entry_of now) payload))"

lemma refresh_steps:
  assumes "refresh_current_day_summary P client A now1 now2 now3 s = (r, s1)"
    and "day_of now2 = day_of now3"
  shows "case r of
      Inl _ \<Rightarrow> ua_stats s1 = ua_stats s
    | Inr _ \<Rightarrow> (\<forall>payload st. aggregate_daily_rows A (day_rows (day_of now3) (js_db (ua_jobs s1))) = Inr (payload, st) \<longrightarrow>
             payload = [] \<or> insert_ok (jd_base (js_db (ua_jobs s1))) now3 payload)
           \<and> filter (\<lambda>e. se_activity_date e \<noteq> day_of now3) (ua_stats s1)
                = filter (\<lambda>e. se_activity_date e \<noteq> day_of now3) (ua_stats s)
           \<and> daily_stats A now3 (day_of now3) (js_db (ua_jobs s1))
                = Inr (filter (\<lambda>e. se_activity_date e = day_of now3) (ua_stats s1))"
proof -
  let ?d = "day_of now3"
  obtain q2 s2 where repair: "backfill_usage_for_dates P client (day_of now1) (day_of now1) None None s = (q2, s2)"
    by (rule prod.exhaust)
  have st2: "ua_stats s2 = ua_stats s" using on_jobs_cases [OF repair [unfolded backfill_usage_for_dates_def]] by blast
  obtain q3 s3 where seen: "current_day_completed_rows P now2 s2 = (q3, s3)" by (rule prod.exhaust)
  note j3 = on_jobs_cases [OF seen [unfolded current_day_completed_rows_def]]
  have run: "refresh_current_day_summary P client A now1 now2 now3 s =
      (case q2 of Inl e \<Rightarrow> (Inl e, s2) | Inr _ \<Rightarrow> (case q3 of Inl e \<Rightarrow> (Inl e, s3) | Inr rows \<Rightarrow>
         (case aggregate_daily_rows A rows of Inl e \<Rightarrow> (Inl e, s3)
          | Inr (payload, st) \<Rightarrow> replace_current_day_summary P now3 payload s3)))"
    by (simp add: refresh_current_day_summary_def mbind_def repair seen split: sum.split)
  show ?thesis
  proof (cases "\<exists>b rows payload st. q2 = Inr b \<and> q3 = Inr rows \<and> aggregate_daily_rows A rows = Inr (payload, st)")
    case False
    then show ?thesis using assms(1) st2 j3 unfolding run by (auto split: sum.splits)
  next
    case True
    then obtain b rows payload st where q: "q2 = Inr b" "q3 = Inr rows" and agg: "aggregate_daily_rows A rows = Inr (payload, st)"
      by blast
    have rep: "replace_stats P now3 (\<lambda>db e. se_activity_date e = ?d) payload s3 = (r, s1)"
      using assms(1) unfolding run by (simp add: q agg replace_current_day_summary_def)
    note w = replace_stats_result [OF rep]
    have "completed_job_rows_by_submit_window P None (Some (?d * DAY)) (Some (?d * DAY + DAY)) (Some ?d) (ua_jobs s2)
        = (Inr rows, ua_jobs s3)"
      using j3 assms(2) q(2) by (simp add: completed_job_rows_for_activity_date_def)
    from window_rows [OF this] w have rows: "rows = day_rows ?d (js_db (ua_jobs s1))" by (simp add: day_rows_def)
    show ?thesis
    proof (cases r)
      case (Inl e)
      then show ?thesis using w j3 st2 by simp
    next
      case (Inr u)
      let ?es = "map (entry_of now3) payload"
      let ?old = "filter (\<lambda>e. se_activity_date e \<noteq> ?d) (ua_stats s)"
      have dates: "se_activity_date e = ?d" if mem: "e \<in> set ?es" for e
      proof -
        obtain p where p: "p \<in> set payload" "e = entry_of now3 p" using mem by auto
        have "dp_activity_date p = VInt ?d"
          using payload_dates [OF agg [unfolded aggregate_daily_rows_def] _ p(1)] day_rows_date unfolding rows by blast
        then show ?thesis by (simp add: p(2) entry_of_def pv_int_def)
      qed
      have "se_key ` set ?es \<inter> se_key ` set ?old = {}"
      proof (intro equals0I, elim IntE imageE)
        fix k e e' assume e: "k = se_key e" "e \<in> set ?es" and e': "k = se_key e'" "e' \<in> set ?old"
        then have "se_activity_date e' = se_activity_date e" by (simp add: se_key_def)
        then show False using dates [OF e(2)] e'(2) by simp
      qed
      moreover have "distinct (map se_key ?es)" using w Inr by (cases "payload = []") (simp_all add: insert_ok_def)
      ultimately have "fold insert_entry ?es ?old = ?old @ ?es" by (intro insert_entries_new)
      then have s1: "ua_stats s1 = ?old @ ?es" using w Inr j3 st2 by (simp add: fold_map)
      have "filter (\<lambda>e. se_activity_date e = ?d) ?es = ?es" "filter (\<lambda>e. se_activity_date e \<noteq> ?d) ?es = []"
        unfolding filter_id_conv filter_empty_conv using dates by blast+
      moreover have "payload = [] \<or> insert_ok (jd_base (js_db (ua_jobs s1))) now3 payload" using w Inr by simp
      ultimately show ?thesis using agg rows Inr by (simp add: s1 daily_stats_def)
    qed
  qed
qed

lemma refresh_result:
  assumes "refresh_current_day_summary P client A now1 now2 now3 s = (r, s1)"
    and "day_of now2 = day_of now3"
  shows "case r of
      Inl _ \<Rightarrow> ua_stats s1 = ua_stats s
    | Inr _ \<Rightarrow> filter (\<lambda>e. se_activity_date e \<noteq> day_of now3) (ua_stats s1)
                = filter (\<lambda>e. se_activity_date e \<noteq> day_of now3) (ua_stats s)
           \<and> daily_stats A now3 (day_of now3) (js_db (ua_jobs s1))
                = Inr (filter (\<lambda>e. se_activity_date e = day_of now3) (ua_stats s1))"
  using refresh_steps [OF assms] by (cases r) simp_all

lemma refreshed_payload:
  assumes "refresh_current_day_summary P client A now1 now2 now3 s = (Inr u, s1)" and "day_of now2 = day_of now3"
    and "aggregate_daily_rows A (day_rows (day_of now3) (js_db (ua_jobs s1))) = Inr (payload, st)"
  shows "payload = [] \<or> insert_ok (jd_base (js_db (ua_jobs s1))) now3 payload"
  using refresh_steps [OF assms(1,2)] assms(3) by simp

text \<open>
  C28. A refresh replaces the statistics of the current day by exactly those of the completed jobs of that
  day, as they are after the repair of their usage fields, and leaves every other day alone; a
  refresh that fails, at whatever point, leaves the table as it was.
\<close>

theorem refresh_replaces_day:
  assumes "refresh_current_day_summary P client A now1 now2 now3 s = (r, s1)"
    and "day_of now2 = day_of now3"
  shows "case r of
      Inl _ \<Rightarrow> ua_stats s1 = ua_stats s
    | Inr _ \<Rightarrow> filter (\<lambda>e. se_activity_date e \<noteq> day_of now3) (ua_stats s1)
                = filter (\<lambda>e. se_activity_date e \<noteq> day_of now3) (ua_stats s)
           \<and> daily_stats A now3 (day_of now3) (js_db (ua_jobs s1))
                = Inr (filter (\<lambda>e. se_activity_date e = day_of now3) (ua_stats s1))"
  by (rule refresh_result [OF assms])

section \<open>What a user is shown\<close>

lemma rfold_steps: "rfold f xs b = Inr c \<Longrightarrow> x \<in> set xs \<Longrightarrow> \<exists>b b'. f x b = Inr b'"
  by (induction xs arbitrary: b) (auto simp: rbind_eq_Inr)

lemma aggregated_key:
  assumes "aggregate_user_tool_daily_rows tool_of rows = Inr (payload, st)" and "row \<in> set rows"
    and "dget ''activity_date'' row \<noteq> VNone" and "dget ''user_id'' row \<noteq> VNone"
  shows "row_key tool_of row \<noteq> None"
proof -
  obtain acc where "rfold (aggregate_row tool_of) rows ([], empty_stats) = Inr acc"
    using assms(1) by (auto simp: aggregate_user_tool_daily_rows_def rbind_eq_Inr)
  from rfold_steps [OF this assms(2)] obtain bs st0 bs' st' where "aggregate_row tool_of row (bs, st0) = Inr (bs', st')" by auto
  then show ?thesis using assms(3,4)
    by (auto simp: aggregate_row_def row_key_def Let_def rbind_eq_Inr)
qed

lemma payload_counts:
  assumes "aggregate_user_tool_daily_rows tool_of rows = Inr (payload, st)"
  shows "sum_list (map dp_jobs_count (filter (\<lambda>p. Q (dp_user_id p)) payload))
    = length (filter (\<lambda>row. row_memory row \<noteq> None \<and> row_key tool_of row \<noteq> None \<and> Q (dget ''user_id'' row)) rows)"
proof -
  let ?ps = "filter (\<lambda>p. Q (dp_user_id p)) payload"
  let ?rows = "filter (\<lambda>row. row_memory row \<noteq> None \<and> row_key tool_of row \<noteq> None \<and> Q (dget ''user_id'' row)) rows"
  let ?bs = "map (\<lambda>row. the (row_key tool_of row)) ?rows"
  note g = daily_rows_result [OF assms]
  have user: "fst (snd k) = dget ''user_id'' row" if "row_key tool_of row = Some k" for row k
    using that by (auto simp: row_key_def split: if_splits sum.splits)
  have count: "dp_jobs_count p = length (filter (\<lambda>b. b = payload_key p) ?bs)" if p: "p \<in> set ?ps" for p
  proof -
    obtain k where k: "p = daily_payload_from_bucket k (key_bucket tool_of k rows)" using p g by auto
    have q: "Q (fst (snd k))" using p by (auto simp: k daily_payload_from_bucket_def Let_def split: prod.splits)
    have "dp_jobs_count p = length (measured_jobs tool_of k rows)" by (simp add: k key_bucket_def Let_def)
    also have "measured_jobs tool_of k rows = filter (\<lambda>row. the (row_key tool_of row) = k) ?rows"
      unfolding measured_jobs_def key_jobs_def filter_filter
    proof (intro filter_cong refl)
      fix row
      show "(row_key tool_of row = Some k \<and> row_memory row \<noteq> None)
          = ((row_memory row \<noteq> None \<and> row_key tool_of row \<noteq> None \<and> Q (dget ''user_id'' row)) \<and> the (row_key tool_of row) = k)"
        using q user [of row] by (cases "row_key tool_of row") auto
    qed
    finally show ?thesis by (simp add: k filter_map comp_def)
  qed
  have "sum_list (map dp_jobs_count ?ps) = sum_list (map (\<lambda>c. length (filter (\<lambda>b. b = c) ?bs)) (map payload_key ?ps))"
    unfolding map_map comp_def using count by (intro arg_cong [where f = sum_list] map_cong) simp_all
  also have "\<dots> = length ?bs"
  proof (rule sum_counts)
    show "distinct (map payload_key ?ps)" using g by (simp add: distinct_map_filter)
    show "set ?bs \<subseteq> set (map payload_key ?ps)"
    proof
      fix k assume "k \<in> set ?bs"
      then obtain row where row: "row \<in> set rows" "row_key tool_of row = Some k" "row_memory row \<noteq> None" "Q (dget ''user_id'' row)"
        by auto
      let ?p = "daily_payload_from_bucket k (key_bucket tool_of k rows)"
      have "row \<in> set (measured_jobs tool_of k rows)" using row by (simp add: measured_jobs_def key_jobs_def)
      then have "measured_jobs tool_of k rows \<noteq> []" by auto
      then have "?p \<in> set payload" unfolding conjunct1 [OF conjunct2 [OF g]] by blast
      moreover have "dp_user_id ?p = dget ''user_id'' row" using user [OF row(2)]
        by (auto simp: daily_payload_from_bucket_def Let_def split: prod.splits)
      ultimately show "k \<in> set (map payload_key ?ps)" using row(4)
        by (auto intro!: image_eqI [of _ _ ?p])
    qed
  qed
  finally show ?thesis by simp
qed

lemma shown_jobs:
  assumes "aggregate_daily_rows A (day_rows d jd) = Inr (payload, st)"
    and "payload = [] \<or> insert_ok (jd_base jd) now payload"
  shows "sum_list (map se_jobs_count (filter (\<lambda>e. username_of (jd_base jd) (VInt (se_user_id e)) = VStr username)
        (map (entry_of now) payload)))
    = int (length (filter (\<lambda>row. dget ''username'' row = VStr username \<and> row_memory row \<noteq> None) (day_rows d jd)))"
proof -
  let ?tool = "classify_daily_tool (tc_mapper A) (tc_raw_mapper A) (tc_rewrite A)"
  let ?Q = "\<lambda>v. username_of (jd_base jd) v = VStr username"
  note agg = assms(1) [unfolded aggregate_daily_rows_def]
  have ids: "VInt (pv_int (dp_user_id p)) = dp_user_id p" if "p \<in> set payload" for p
  proof -
    have "insert_ok (jd_base jd) now payload" using assms(2) that by auto
    then show ?thesis using that by (cases "dp_user_id p") (auto simp: insert_ok_def list_all_iff pv_int_def)
  qed
  have "sum_list (map se_jobs_count (filter (\<lambda>e. ?Q (VInt (se_user_id e))) (map (entry_of now) ps)))
      = int (sum_list (map dp_jobs_count (filter (\<lambda>p. ?Q (dp_user_id p)) ps)))"
    if "\<forall>p \<in> set ps. VInt (pv_int (dp_user_id p)) = dp_user_id p" for ps
    using that by (induction ps) (auto simp: entry_of_def)
  then have "sum_list (map se_jobs_count (filter (\<lambda>e. ?Q (VInt (se_user_id e))) (map (entry_of now) payload)))
      = int (sum_list (map dp_jobs_count (filter (\<lambda>p. ?Q (dp_user_id p)) payload)))" using ids by blast
  also have "\<dots> = int (length (filter (\<lambda>row. row_memory row \<noteq> None \<and> row_key ?tool row \<noteq> None \<and> ?Q (dget ''user_id'' row))
      (day_rows d jd)))" by (simp only: payload_counts [OF agg, of ?Q])
  also have "filter (\<lambda>row. row_memory row \<noteq> None \<and> row_key ?tool row \<noteq> None \<and> ?Q (dget ''user_id'' row)) (day_rows d jd)
      = filter (\<lambda>row. dget ''username'' row = VStr username \<and> row_memory row \<noteq> None) (day_rows d jd)"
  proof (intro filter_cong refl)
    fix row assume row: "row \<in> set (day_rows d jd)"
    then have user: "dget ''user_id'' row \<noteq> VNone" "dget ''username'' row = username_of (jd_base jd) (dget ''user_id'' row)"
      by (auto simp: day_rows_def submitted_completed_jobs_def completed_snapshot_def serialize_completed_row_def dget_or_def)
    have "row_key ?tool row \<noteq> None"
      using aggregated_key [OF agg row _ user(1)] day_rows_date [OF row] by simp
    then show "(row_memory row \<noteq> None \<and> row_key ?tool row \<noteq> None \<and> ?Q (dget ''user_id'' row))
        = (dget ''username'' row = VStr username \<and> row_memory row \<noteq> None)" using user(2) by auto
  qed
  finally show ?thesis .
qed

lemma counted_entries:
  assumes "\<forall>e \<in> set es. 0 \<le> se_jobs_count e"
  shows "sum_list (map counted_jobs (map (\<lambda>e. StatRow (se_tool e) (se_jobs_count e) (se_figures e)) (sort_key f (sort_key g es))))
    = sum_list (map se_jobs_count es)"
proof -
  have "map counted_jobs (map (\<lambda>e. StatRow (se_tool e) (se_jobs_count e) (se_figures e)) (sort_key f (sort_key g es)))
      = map se_jobs_count (sort_key f (sort_key g es))"
    using assms by (simp add: counted_jobs_def stat_row_parts_def)
  moreover have "sum_list (map se_jobs_count (sort_key f (sort_key g es))) = sum_list (map se_jobs_count es)"
    by (metis mset_map mset_sort sum_mset_sum_list)
  ultimately show ?thesis by (rule trans [OF arg_cong])
qed


definition demo_finished :: "int \<Rightarrow> string \<Rightarrow> pdict" where
  "demo_finished n name = [(''id'', VInt n), (''job_id'', VInt n), (''submit_time'', VTime n), (''last_seen'', VTime n),
     (''user_id'', VInt 1), (''job_state'', VStr ''COMPLETED''), (''job_name'', VStr name), (''used_memory_gb'', VInt 2)]"

definition demo_entry :: "int \<Rightarrow> string \<Rightarrow> stat_entry" where
  "demo_entry d tool = \<lparr>se_activity_date = d, se_user_id = 1, se_tool = tool, se_jobs_count = 7,
     se_figures = \<lparr>fi_avg_memory_gb = None, fi_max_memory_gb = None, fi_median_memory_gb = None, fi_avg_cpu_cores = None,
       fi_avg_runtime_seconds = None\<rparr>, se_created_at = 0, se_updated_at = 0\<rparr>"

definition demo_analytics :: "(unit, unit) analytics" where
  "demo_analytics = \<lparr>ua_jobs = demo_history\<lparr>js_db := \<lparr>jd_base = empty_db\<lparr>db_users := [demo_user], users_seq := 1\<rparr>,
       jd_rows = [demo_finished 1 ''blast'', demo_finished 2 ''blast'', demo_finished 3 ''gcc''], jd_seq = 3\<rparr>\<rparr>,
     ua_stats = [demo_entry (- 1) ''blast'', demo_entry 0 ''stale'']\<rparr>"

definition demo_tools :: tool_config where
  "demo_tools = \<lparr>tc_mapper = [], tc_raw_mapper = [], tc_rewrite = \<lparr>rw_pattern = None, rw_tool = ''regr''\<rparr>\<rparr>"

definition demo_refreshed :: "unit res \<times> (unit, unit) analytics" where
  "demo_refreshed = refresh_current_day_summary demo_postgres None demo_tools 9 9 9 demo_analytics"

lemma demo_refresh:
  "map_prod id (\<lambda>s. map (\<lambda>e. (se_activity_date e, se_tool e, se_jobs_count e)) (ua_stats s)) demo_refreshed
     = (Inr (), [(- 1, ''blast'', 7), (0, ''blast'', 2), (0, ''gcc'', 1)])"
  by code_simp

theorem refresh_replaces_day_witness:
  "\<exists>s1. refresh_current_day_summary demo_postgres None demo_tools 9 9 9 demo_analytics = (Inr (), s1)
     \<and> map (\<lambda>e. (se_activity_date e, se_tool e, se_jobs_count e)) (ua_stats s1)
         = [(- 1, ''blast'', 7), (0, ''blast'', 2), (0, ''gcc'', 1)]
     \<and> filter (\<lambda>e. se_activity_date e \<noteq> 0) (ua_stats s1) = [demo_entry (- 1) ''blast'']"
proof -
  obtain s1 where run: "refresh_current_day_summary demo_postgres None demo_tools 9 9 9 demo_analytics = (Inr (), s1)"
    and stats: "map (\<lambda>e. (se_activity_date e, se_tool e, se_jobs_count e)) (ua_stats s1)
      = [(- 1, ''blast'', 7), (0, ''blast'', 2), (0, ''gcc'', 1)]"
    using demo_refresh by (cases demo_refreshed) (simp add: demo_refreshed_def)
  have "filter (\<lambda>e. se_activity_date e \<noteq> 0) (ua_stats s1) = [demo_entry (- 1) ''blast'']"
    using refresh_replaces_day [OF run] by (simp add: day_of_def DAY_def demo_analytics_def demo_entry_def)
  then show ?thesis using run stats by (intro exI [of _ s1] conjI)
qed

lemma unrepaired_refresh:
  assumes "refresh_current_day_summary P None A now1 now2 now3 s = (Inr u, s1)"
  shows "js_db (ua_jobs s1) = js_db (ua_jobs s)"
proof -
  have repair: "backfill_usage_for_dates P None d d None None s = (Inr \<lparr>bc_scanned = 0, bc_updated = 0, bc_skipped = 0\<rparr>, s)" for d
    by (simp add: backfill_usage_for_dates_def on_jobs_def backfill_usage_fields_def)
  obtain rows s3 payload st where seen: "current_day_completed_rows P now2 s = (Inr rows, s3)"
    and rep: "replace_stats P now3 (\<lambda>db e. se_activity_date e = day_of now3) payload s3 = (Inr u, s1)"
    using assms repair
    by (auto simp: refresh_current_day_summary_def replace_current_day_summary_def elim!: mbind_cases)
  have "completed_job_rows_by_submit_window P None (Some (day_of now2 * DAY)) (Some (day_of now2 * DAY + DAY)) (Some (day_of now2))
      (ua_jobs s) = (Inr rows, ua_jobs s3)"
    using on_jobs_cases [OF seen [unfolded current_day_completed_rows_def]]
    by (simp add: completed_job_rows_for_activity_date_def)
  from window_rows [OF this] replace_stats_result [OF rep] show ?thesis by simp
qed


end
