(* ===== verification/IsoTimes.thy ===== *)
theory IsoTimes
  imports PyStrings
begin

text \<open>
  \<open>datetime.fromisoformat\<close> for the format that every supported version of Python reads:
  \<open>YYYY-MM-DD[*HH[:MM[:SS[.fff[fff]]]][+HH:MM[:SS[.ffffff]]]]\<close>, with any character between date
  and time, and its inverse \<open>iso_text\<close> of \<open>PyStrings\<close>. A time without an offset is naive.
\<close>

section \<open>Calendar\<close>

definition days_of_civil :: "int \<Rightarrow> int \<Rightarrow> int \<Rightarrow> int" where
  "days_of_civil y m d =
     (let y' = (if m \<le> 2 then y - 1 else y);
          era = y' div 400; yoe = y' mod 400;
          doy = (153 * (if m > 2 then m - 3 else m + 9) + 2) div 5 + d - 1;
          doe = yoe * 365 + yoe div 4 - yoe div 100 + doy
      in era * 146097 + doe - 719468)"

text \<open>A date exists if counting its days leads back to it.\<close>

definition valid_date :: "int \<Rightarrow> int \<Rightarrow> int \<Rightarrow> bool" where
  "valid_date y m d \<longleftrightarrow> 1 \<le> y \<and> y \<le> 9999 \<and> 1 \<le> m \<and> m \<le> 12 \<and> civil_of_days (days_of_civil y m d) = (y, m, d)"


section \<open>Reading\<close>

definition read_digits :: "nat \<Rightarrow> string \<Rightarrow> (int \<times> string) option" where
  "read_digits n s =
     (if n \<le> length s \<and> list_all is_digit (take n s)
      then Some (int (foldl (\<lambda>a c. 10 * a + (of_char c - 48)) 0 (take n s)), drop n s) else None)"

fun expect :: "char \<Rightarrow> string \<Rightarrow> string option" where
  "expect c [] = None"
| "expect c (x # xs) = (if x = c then Some xs else None)"

definition read_date :: "string \<Rightarrow> ((int \<times> int \<times> int) \<times> string) option" where
  "read_date s =
     Option.bind (read_digits 4 s) (\<lambda>(y, s).
     Option.bind (expect CHR ''-'' s) (\<lambda>s.
     Option.bind (read_digits 2 s) (\<lambda>(m, s).
     Option.bind (expect CHR ''-'' s) (\<lambda>s.
     Option.bind (read_digits 2 s) (\<lambda>(d, s). Some ((y, m, d), s))))))"

text \<open>Hours, minutes, seconds and microseconds, with the later parts left out or not; the whole text is read.\<close>

definition read_fraction :: "string \<Rightarrow> int option" where
  "read_fraction s =
     (if length s = 3 then map_option (\<lambda>(n, _). n * 1000) (read_digits 3 s)
      else if length s = 6 then map_option fst (read_digits 6 s)
      else None)"

definition read_time :: "string \<Rightarrow> (int \<times> int \<times> int \<times> int) option" where
  "read_time s =
     Option.bind (read_digits 2 s) (\<lambda>(h, s).
     if s = [] then Some (h, 0, 0, 0) else
     Option.bind (expect CHR '':'' s) (\<lambda>s.
     Option.bind (read_digits 2 s) (\<lambda>(mi, s).
     if s = [] then Some (h, mi, 0, 0) else
     Option.bind (expect CHR '':'' s) (\<lambda>s.
     Option.bind (read_digits 2 s) (\<lambda>(sec, s).
     if s = [] then Some (h, mi, sec, 0) else
     Option.bind (expect CHR ''.'' s) (\<lambda>s.
     Option.bind (read_fraction s) (\<lambda>us. Some (h, mi, sec, us))))))))"

definition time_value_us :: "int \<times> int \<times> int \<times> int \<Rightarrow> int" where
  "time_value_us t = (case t of (h, mi, sec, us) \<Rightarrow> ((h * 60 + mi) * 60 + sec) * 1000000 + us)"

definition valid_time :: "int \<times> int \<times> int \<times> int \<Rightarrow> bool" where
  "valid_time t \<longleftrightarrow> (case t of (h, mi, sec, us) \<Rightarrow> h < 24 \<and> mi < 60 \<and> sec < 60)"

text \<open>The offset after the sign: at least hours and minutes.\<close>

definition read_offset :: "string \<Rightarrow> int option" where
  "read_offset s =
     (if length s < 5 then None
      else Option.bind (read_time s) (\<lambda>t. if valid_time t then Some (time_value_us t) else None))"

definition is_sign :: "char \<Rightarrow> bool" where
  "is_sign c \<longleftrightarrow> c = CHR ''+'' \<or> c = CHR ''-''"

text \<open>The microseconds of the local time, and the offset in microseconds if there is one.\<close>

definition fromisoformat :: "string \<Rightarrow> (int \<times> int option) res" where
  "fromisoformat s =
     (case Option.bind (read_date s) (\<lambda>((y, m, d), s).
             if \<not> valid_date y m d then None
             else let midnight = days_of_civil y m d * 86400000000 in
               case s of
                 [] \<Rightarrow> Some (midnight, None)
               | [_] \<Rightarrow> Some (midnight, None)
               | _ # s \<Rightarrow>
                   Option.bind (read_time (takeWhile (\<lambda>c. \<not> is_sign c) s)) (\<lambda>t.
                   if \<not> valid_time t then None
                   else case dropWhile (\<lambda>c. \<not> is_sign c) s of
                     [] \<Rightarrow> Some (midnight + time_value_us t, None)
                   | c # r \<Rightarrow> Option.bind (read_offset r) (\<lambda>off.
                       Some (midnight + time_value_us t, Some (if c = CHR ''-'' then - off else off))))) of
        None \<Rightarrow> Inl (ValueError ''Invalid isoformat string'')
      | Some r \<Rightarrow> Inr r)"

text \<open>A parsed time in UTC, a naive one taken as UTC already.\<close>

definition utc_of :: "int \<times> int option \<Rightarrow> int" where
  "utc_of t = (case t of (us, None) \<Rightarrow> us | (us, Some off) \<Rightarrow> us - off)"


section \<open>Days and dates\<close>

lemma day_of_era:
  fixes doe :: int
  assumes "0 \<le> doe" and "doe < 146096"
  defines "yoe \<equiv> (doe - doe div 1460 + doe div 36524 - doe div 146096) div 365"
  shows "0 \<le> yoe \<and> yoe < 400 \<and> 0 \<le> doe - (365 * yoe + yoe div 4 - yoe div 100)
    \<and> doe - (365 * yoe + yoe div 4 - yoe div 100) \<le> 365"
proof -
  define q where "q = doe div 36524"
  define r where "r = doe mod 36524"
  define k where "k = (r + 24 * q) div 1460"
  define t where "t = (r + 24 * q) mod 1460"
  define e where "e = (t - k - 24 * q) div 365"
  have q: "0 \<le> q" "q \<le> 3" using assms(1,2) by (auto simp: q_def)
  have r: "0 \<le> r" "r < 36524" by (simp_all add: r_def)
  have doe: "doe = 36524 * q + r" by (simp add: q_def r_def)
  have t: "0 \<le> t" "t < 1460" by (simp_all add: t_def)
  have rk: "r + 24 * q = 1460 * k + t" by (simp add: k_def t_def)
  have k: "0 \<le> k" "k \<le> 25" using rk q r t by linarith+
  have "doe div 1460 = (1460 * (25 * q) + (r + 24 * q)) div 1460" by (simp add: doe)
  also have "\<dots> = 25 * q + k" unfolding k_def by (rule div_mult_self4) simp
  finally have d1: "doe div 1460 = 25 * q + k" .
  have d2: "doe div 36524 = q" by (simp add: q_def)
  have d3: "doe div 146096 = 0" using assms(1,2) by simp
  have "doe - doe div 1460 + doe div 36524 - doe div 146096 = 365 * (100 * q + 4 * k) + (t - k - 24 * q)"
    unfolding d1 d2 d3 using rk doe by presburger
  then have yoe: "yoe = 100 * q + 4 * k + e"
    unfolding yoe_def e_def by (simp only: div_mult_self4 [where b = 365, simplified])
  have x: "365 * e \<le> t - k - 24 * q" "t - k - 24 * q < 365 * e + 365"
    unfolding e_def using pos_mod_bound [of 365 "t - k - 24 * q"] pos_mod_sign [of 365 "t - k - 24 * q"]
      mult_div_mod_eq [of 365 "t - k - 24 * q"] by linarith+
  have e: "- 1 \<le> e" "e \<le> 3" using x t k q by linarith+
  have low: "0 \<le> 4 * k + e"
  proof (cases "k = 0")
    case True
    then have "0 \<le> t - k - 24 * q" using rk r by linarith
    then show ?thesis using True x by linarith
  qed (use k e in linarith)
  have high: "4 * k + e < 100"
  proof (cases "k = 25")
    case True
    then have "t - k - 24 * q < 0" using rk r by linarith
    then show ?thesis using True x by linarith
  qed (use k e in linarith)
  have "yoe div 100 = q" unfolding yoe using low high by (simp add: div_pos_pos_trivial add.assoc)
  moreover have "yoe div 4 = 25 * q + k + e div 4"
  proof -
    have "yoe = 4 * (25 * q + k) + e" by (simp add: yoe)
    then show ?thesis by (simp only: div_mult_self4 [where b = 4, simplified])
  qed
  moreover have "e div 4 = (if e < 0 then - 1 else 0)" using e by auto
  ultimately show ?thesis using low high q x rk doe yoe by (auto split: if_splits)
qed

lemma era_parts: "0 \<le> (a::int) \<Longrightarrow> a < 400 \<Longrightarrow> (a + e * 400) div 400 = e \<and> (a + e * 400) mod 400 = a"
  by simp

lemma civil_of_days_parts:
  "case civil_of_days n of (y, m, d) \<Rightarrow>
     days_of_civil y m d = n \<and> 1 \<le> m \<and> m \<le> 12 \<and> 1 \<le> d \<and> d \<le> 31"
proof -
  let ?z = "n + 719468"
  define era where "era = ?z div 146097"
  define doe where "doe = ?z mod 146097"
  define yoe where "yoe = (doe - doe div 1460 + doe div 36524 - doe div 146096) div 365"
  define doy where "doy = doe - (365 * yoe + yoe div 4 - yoe div 100)"
  define mp where "mp = (5 * doy + 2) div 153"
  define d where "d = doy - (153 * mp + 2) div 5 + 1"
  define m where "m = (if mp < 10 then mp + 3 else mp - 9)"
  have doe: "0 \<le> doe" "doe < 146097" by (simp_all add: doe_def)
  have bounds: "0 \<le> yoe \<and> yoe < 400 \<and> 0 \<le> doy \<and> doy \<le> 365"
  proof (cases "doe = 146096")
    case True
    then show ?thesis by (simp add: yoe_def doy_def)
  next
    case False
    then have "doe < 146096" using doe(2) by simp
    from day_of_era [OF doe(1) this] show ?thesis unfolding doy_def yoe_def .
  qed
  then have mp: "0 \<le> mp" "mp \<le> 11" unfolding mp_def by linarith+
  have civil: "civil_of_days n = (yoe + era * 400 + (if m \<le> 2 then 1 else 0), m, d)"
    by (simp only: civil_of_days_def Let_def era_def [symmetric] doe_def [symmetric] yoe_def [symmetric]
      doy_def [symmetric] mp_def [symmetric] d_def [symmetric] m_def [symmetric])
  have y: "(yoe + era * 400) div 400 = era" "(yoe + era * 400) mod 400 = yoe" using era_parts [of yoe era] bounds by blast+
  have m': "(if m > 2 then m - 3 else m + 9) = mp" using mp by (auto simp: m_def)
  have yy: "(if m \<le> 2 then yoe + era * 400 + (if m \<le> 2 then 1 else 0) - 1 else yoe + era * 400 + (if m \<le> 2 then 1 else 0))
      = yoe + era * 400" by simp
  have "days_of_civil (yoe + era * 400 + (if m \<le> 2 then 1 else 0)) m d
      = era * 146097 + (yoe * 365 + yoe div 4 - yoe div 100 + ((153 * mp + 2) div 5 + d - 1)) - 719468"
    by (simp only: days_of_civil_def Let_def m' yy y)
  also have "\<dots> = era * 146097 + doe - 719468" by (simp add: d_def doy_def)
  also have "\<dots> = n" unfolding era_def doe_def by simp
  finally have "days_of_civil (yoe + era * 400 + (if m \<le> 2 then 1 else 0)) m d = n" .
  moreover have "1 \<le> m \<and> m \<le> 12" using mp by (auto simp: m_def)
  moreover have "1 \<le> d \<and> d \<le> 31" unfolding d_def mp_def by linarith
  ultimately show ?thesis by (simp add: civil)
qed

section \<open>Round trip\<close>

lemma digits_value_nat_str: "foldl (\<lambda>a c. 10 * a + (of_char c - 48)) 0 (nat_str n) = n"
proof (induction n rule: nat_str.induct)
  case (1 n)
  then show ?case by (subst nat_str.simps) simp
qed

lemma digits_value_zeros:
  "foldl (\<lambda>a c. 10 * a + (of_char c - 48)) (0 :: nat) (replicate k CHR ''0'' @ s)
     = foldl (\<lambda>a c. 10 * a + (of_char c - 48)) 0 s"
  by (induction k) simp_all

lemma length_nat_str: "n < 10 ^ Suc k \<Longrightarrow> length (nat_str n) \<le> Suc k"
proof (induction k arbitrary: n)
  case 0
  then show ?case by (subst nat_str.simps) simp
next
  case (Suc k)
  show ?case
  proof (cases "n < 10")
    case False
    then have "n div 10 < 10 ^ Suc k" using Suc.prems by (simp add: less_mult_imp_div_less)
    then show ?thesis using Suc.IH [of "n div 10"] False by (subst nat_str.simps) simp
  qed (subst nat_str.simps, simp)
qed

lemma pad_digits: "0 \<le> n \<Longrightarrow> \<forall>c \<in> set (pad w n). is_digit c"
  using nat_str_digits by (auto simp: pad_def int_str_def is_digit_def Let_def)

lemma length_pad: "0 \<le> n \<Longrightarrow> n < 10 ^ Suc w \<Longrightarrow> length (pad (Suc w) n) = Suc w"
  using length_nat_str [of "nat n" w] by (simp add: pad_def int_str_def Let_def nat_less_iff)

lemma read_pad:
  assumes "0 \<le> n" and "n < 10 ^ Suc w"
  shows "read_digits (Suc w) (pad (Suc w) n @ rest) = Some (n, rest)"
proof -
  have "foldl (\<lambda>a c. 10 * a + (of_char c - 48)) 0 (pad (Suc w) n) = nat n"
    using assms(1) by (simp add: pad_def int_str_def Let_def digits_value_zeros digits_value_nat_str del: foldl_append)
  then show ?thesis
    using assms length_pad [OF assms] pad_digits [OF assms(1), of "Suc w"]
    by (simp add: read_digits_def list_all_iff)
qed

lemma read_pads [simp]:
  "0 \<le> n \<Longrightarrow> n < 10000 \<Longrightarrow> read_digits 4 (pad 4 n @ rest) = Some (n, rest)"
  "0 \<le> n \<Longrightarrow> n < 100 \<Longrightarrow> read_digits 2 (pad 2 n @ rest) = Some (n, rest)"
  "0 \<le> n \<Longrightarrow> n < 100 \<Longrightarrow> read_digits 2 (pad 2 n) = Some (n, [])"
  "0 \<le> n \<Longrightarrow> n < 1000000 \<Longrightarrow> read_digits 6 (pad 6 n) = Some (n, [])"
  using read_pad [of n 3 rest] read_pad [of n 1 rest] read_pad [of n 1 "[]"] read_pad [of n 5 "[]"]
  by (simp_all add: numeral_eq_Suc)

lemma length_pads [simp]:
  "0 \<le> n \<Longrightarrow> n < 1000000 \<Longrightarrow> length (pad 6 n) = 6"
  "0 \<le> n \<Longrightarrow> n < 100 \<Longrightarrow> length (pad 2 n) = 2"
  using length_pad [of n 5] length_pad [of n 1] by (simp_all add: numeral_eq_Suc)

lemma no_sign_pad: "0 \<le> n \<Longrightarrow> list_all (\<lambda>c. \<not> is_sign c) (pad w n)"
  using pad_digits [of n w] by (fastforce simp: list_all_iff is_sign_def is_digit_def)

lemma takeWhile_sign: "list_all (\<lambda>c. \<not> is_sign c) t \<Longrightarrow> takeWhile (\<lambda>c. \<not> is_sign c) (t @ CHR ''+'' # r) = t"
  by (simp add: list_all_iff is_sign_def)

lemma dropWhile_sign:
  "list_all (\<lambda>c. \<not> is_sign c) t \<Longrightarrow> dropWhile (\<lambda>c. \<not> is_sign c) (t @ CHR ''+'' # r) = CHR ''+'' # r"
  by (simp add: list_all_iff is_sign_def dropWhile_append3)

text \<open>The text of a time of the day, as \<open>iso_text\<close> writes it.\<close>

definition clock_text :: "int \<times> int \<times> int \<times> int \<Rightarrow> string" where
  "clock_text t = (case t of (h, mi, sec, us) \<Rightarrow>
     pad 2 h @ '':'' @ pad 2 mi @ '':'' @ pad 2 sec @ (if us = 0 then [] else ''.'' @ pad 6 us))"

definition clock_ok :: "int \<times> int \<times> int \<times> int \<Rightarrow> bool" where
  "clock_ok t \<longleftrightarrow> (case t of (h, mi, sec, us) \<Rightarrow>
     0 \<le> h \<and> h < 24 \<and> 0 \<le> mi \<and> mi < 60 \<and> 0 \<le> sec \<and> sec < 60 \<and> 0 \<le> us \<and> us < 1000000)"

lemma read_clock_text: "clock_ok t \<Longrightarrow> read_time (clock_text t) = Some t"
  by (auto simp: clock_ok_def clock_text_def read_time_def read_fraction_def split: prod.splits)

lemma clock_text_no_sign: "clock_ok t \<Longrightarrow> list_all (\<lambda>c. \<not> is_sign c) (clock_text t)"
  by (auto simp: clock_ok_def clock_text_def no_sign_pad) (simp_all add: is_sign_def)

lemma clock_text_long: "clock_ok t \<Longrightarrow> 3 \<le> length (clock_text t)"
  by (auto simp: clock_ok_def clock_text_def split: prod.splits)

lemma read_utc_offset: "read_offset ''00:00'' = Some 0"
  by code_simp

definition clock_of :: "int \<Rightarrow> int \<times> int \<times> int \<times> int" where
  "clock_of us = (let r = us div 1000000 mod 86400 in (r div 3600, r div 60 mod 60, r mod 60, us mod 1000000))"

lemma clock_of_ok: "clock_ok (clock_of us)"
  by (auto simp: clock_ok_def clock_of_def Let_def)

lemma clock_of_value: "us div 1000000 div 86400 * 86400000000 + time_value_us (clock_of us) = us"
proof -
  define s where "s = us div 1000000"
  have r: "(r div 3600 * 60 + r div 60 mod 60) * 60 + r mod 60 = r" for r :: int
    using div_mult2_eq' [of r 60 60] by simp
  have d: "s div 86400 * 86400000000 = s div 86400 * 86400 * 1000000" by simp
  have "us div 1000000 div 86400 * 86400000000 + time_value_us (clock_of us)
      = (s div 86400 * 86400 + s mod 86400) * 1000000 + us mod 1000000"
    unfolding clock_of_def time_value_us_def s_def [symmetric] Let_def prod.case r d by (simp only: ring_distribs add.assoc)
  also have "\<dots> = s * 1000000 + us mod 1000000" by (simp only: div_mult_mod_eq)
  also have "\<dots> = us" by (simp add: s_def)
  finally show ?thesis .
qed

lemma iso_text_parts:
  "iso_text sep us = (case civil_of_days (us div 1000000 div 86400) of (y, m, d) \<Rightarrow>
     pad 4 y @ ''-'' @ pad 2 m @ ''-'' @ pad 2 d @ [sep] @ clock_text (clock_of us) @ ''+00:00'')"
  by (simp add: iso_text_def clock_text_def clock_of_def Let_def split: prod.splits)

lemma fromisoformat_iso_text:
  assumes "civil_of_days (us div 1000000 div 86400) = (y, m, d)" and "1 \<le> y" and "y \<le> 9999"
  shows "fromisoformat (iso_text CHR ''T'' us) = Inr (us, Some 0)"
proof -
  let ?t = "clock_of us"
  from civil_of_days_parts [of "us div 1000000 div 86400"] assms
  have days: "days_of_civil y m d = us div 1000000 div 86400"
    and bounds: "1 \<le> m" "m \<le> 12" "1 \<le> d" "d \<le> 31" by auto
  then have valid: "valid_date y m d" using assms by (simp add: valid_date_def)
  have date: "read_date (iso_text CHR ''T'' us) = Some ((y, m, d), CHR ''T'' # clock_text ?t @ ''+00:00'')"
    using assms bounds by (simp add: iso_text_parts read_date_def)
  obtain c1 c2 r where long: "clock_text ?t @ ''+00:00'' = c1 # c2 # r"
    using clock_text_long [OF clock_of_ok] by (cases "clock_text ?t"; cases "tl (clock_text ?t)") auto
  have "takeWhile (\<lambda>c. \<not> is_sign c) (clock_text ?t @ ''+00:00'') = clock_text ?t"
    and "dropWhile (\<lambda>c. \<not> is_sign c) (clock_text ?t @ ''+00:00'') = ''+00:00''"
    using takeWhile_sign [OF clock_text_no_sign [OF clock_of_ok]]
      dropWhile_sign [OF clock_text_no_sign [OF clock_of_ok]] by simp_all
  then have time: "takeWhile (\<lambda>c. \<not> is_sign c) (c1 # c2 # r) = clock_text ?t"
    "dropWhile (\<lambda>c. \<not> is_sign c) (c1 # c2 # r) = ''+00:00''" unfolding long by simp_all
  have "valid_time ?t" using clock_of_ok [of us] by (simp add: clock_ok_def valid_time_def split: prod.splits)
  then show ?thesis unfolding fromisoformat_def date long
    by (simp add: valid time read_clock_text [OF clock_of_ok] read_utc_offset days clock_of_value
        del: takeWhile.simps dropWhile.simps)
qed

end
