(* ===== verification/Hotspots.thy ===== *)
theory Hotspots
  imports PyStrings
begin

text \<open>
  \<open>metrics/hotspots.py\<close>: the periods in which the CPU or the memory of a node was above a threshold,
  found in series of samples. A sample is a time in milliseconds with a percentage; the sampling step
  is in seconds. Events are written by one pass over the sorted samples with the event that is open.
\<close>

section \<open>Rounding and times\<close>

text \<open>\<open>round(q, n)\<close>: to the nearest, and to the even digit in the middle.\<close>

definition py_round :: "nat \<Rightarrow> rat \<Rightarrow> rat" where
  "py_round n q =
     (let s = q * 10 ^ n; f = \<lfloor>s\<rfloor>; d = s - of_int f
      in of_int (if d < 1 / 2 then f else if 1 / 2 < d then f + 1 else if even f then f else f + 1) / 10 ^ n)"

type_synonym sample = "int \<times> rat"
type_synonym node_series = "(string \<times> sample list) list"

definition ms_text :: "int \<Rightarrow> string" where
  "ms_text t = iso_text CHR ''T'' (t * 1000)"

definition seconds_between :: "int \<Rightarrow> int \<Rightarrow> int" where
  "seconds_between a b = (b - a) div 1000"


section \<open>The pass over the samples\<close>

record hotspot_event =
  he_node :: string
  he_metric :: string
  he_start :: string
  he_end :: string
  he_duration_seconds :: int
  he_peak_usage :: rat

record tracker =
  tk_open :: "(int \<times> int \<times> rat) option" \<comment> \<open>\<open>event_start\<close>, \<open>event_end\<close>, \<open>peak\<close>\<close>
  tk_previous :: "int option"
  tk_events :: "hotspot_event list"

definition hotspot_event_of :: "string \<Rightarrow> string \<Rightarrow> int \<Rightarrow> int \<times> int \<times> rat \<Rightarrow> hotspot_event" where
  "hotspot_event_of metric node step e =
     (case e of (a, b, peak) \<Rightarrow>
       \<lparr>he_node = node, he_metric = metric, he_start = ms_text a, he_end = ms_text b,
        he_duration_seconds = max (seconds_between a b + step) step, he_peak_usage = py_round 1 peak\<rparr>)"

definition close_event :: "string \<Rightarrow> string \<Rightarrow> int \<Rightarrow> tracker \<Rightarrow> tracker" where
  "close_event metric node step t =
     (case tk_open t of
        None \<Rightarrow> t
      | Some e \<Rightarrow> t\<lparr>tk_open := None, tk_events := tk_events t @ [hotspot_event_of metric node step e]\<rparr>)"

text \<open>A gap ends the open event; a hot sample opens or extends one; a cold sample and the last one end it.\<close>

definition track_sample :: "string \<Rightarrow> string \<Rightarrow> rat \<Rightarrow> int \<Rightarrow> bool \<Rightarrow> sample \<Rightarrow> tracker \<Rightarrow> tracker" where
  "track_sample metric node threshold step is_last x t =
     (let (ts, v) = x;
          gap_break = (case tk_previous t of None \<Rightarrow> False | Some p \<Rightarrow> seconds_between p ts > step * 2);
          is_hot = (threshold \<le> v);
          t1 = (if gap_break then close_event metric node step t else t);
          t2 = (if is_hot then t1\<lparr>tk_open := Some (case tk_open t1 of
                    None \<Rightarrow> (ts, ts, v) | Some (a, b, peak) \<Rightarrow> (a, ts, max peak v))\<rparr>
                else t1);
          t3 = (if \<not> is_hot \<or> is_last then close_event metric node step t2 else t2)
      in t3\<lparr>tk_previous := Some ts\<rparr>)"

fun track_samples :: "string \<Rightarrow> string \<Rightarrow> rat \<Rightarrow> int \<Rightarrow> sample list \<Rightarrow> tracker \<Rightarrow> tracker" where
  "track_samples metric node threshold step [] t = t"
| "track_samples metric node threshold step (x # xs) t =
     track_samples metric node threshold step xs (track_sample metric node threshold step (xs = []) x t)"

definition new_tracker :: tracker where
  "new_tracker = \<lparr>tk_open = None, tk_previous = None, tk_events = []\<rparr>"

definition node_events :: "string \<Rightarrow> string \<Rightarrow> rat \<Rightarrow> int \<Rightarrow> sample list \<Rightarrow> hotspot_event list" where
  "node_events metric node threshold step vs =
     tk_events (track_samples metric node threshold step (sort_key fst vs) new_tracker)"

definition extract_events :: "string \<Rightarrow> rat \<Rightarrow> int \<Rightarrow> node_series \<Rightarrow> hotspot_event list" where
  "extract_events metric threshold step series =
     concat (map (\<lambda>(node, vs). node_events metric node threshold step vs) series)"

text \<open>Sorted by start, duration and peak, all descending; equal events keep their order.\<close>

definition sort_events :: "hotspot_event list \<Rightarrow> hotspot_event list" where
  "sort_events es =
     rev (sort_key he_start (sort_key he_duration_seconds (sort_key he_peak_usage (rev es))))"

definition build_hotspot_events ::
  "(string \<times> node_series) list \<Rightarrow> rat \<Rightarrow> int \<Rightarrow> int \<Rightarrow> hotspot_event list res" where
  "build_hotspot_events metrics threshold step limit =
     (if step \<le> 0 then Inl (ValueError ''step_seconds must be positive'')
      else Inr (take (nat limit)
        (sort_events (concat (map (\<lambda>(metric, series). extract_events metric threshold step series) metrics)))))"


section \<open>The runs of hot samples\<close>

text \<open>
  The reference: the maximal runs of neighbouring hot samples, cut where two neighbours are more than
  two steps apart.
\<close>

definition joined :: "rat \<Rightarrow> int \<Rightarrow> sample \<Rightarrow> sample \<Rightarrow> bool" where
  "joined threshold step x y \<longleftrightarrow>
     threshold \<le> snd x \<and> threshold \<le> snd y \<and> seconds_between (fst x) (fst y) \<le> step * 2"

fun hot_runs :: "rat \<Rightarrow> int \<Rightarrow> sample list \<Rightarrow> sample list list" where
  "hot_runs threshold step [] = []"
| "hot_runs threshold step [x] = (if threshold \<le> snd x then [[x]] else [])"
| "hot_runs threshold step (x # y # xs) =
     (if \<not> threshold \<le> snd x then hot_runs threshold step (y # xs)
      else if joined threshold step x y
        then (case hot_runs threshold step (y # xs) of [] \<Rightarrow> [[x]] | r # rs \<Rightarrow> (x # r) # rs)
      else [x] # hot_runs threshold step (y # xs))"

definition run_summary :: "sample list \<Rightarrow> int \<times> int \<times> rat" where
  "run_summary r = (fst (hd r), fst (last r), foldl max (snd (hd r)) (map snd (tl r)))"

definition prefix_run :: "sample list \<Rightarrow> sample list list \<Rightarrow> sample list list" where
  "prefix_run p rs = (case rs of [] \<Rightarrow> [p] | r # rs' \<Rightarrow> (p @ r) # rs')"

lemma hot_runs_head:
  "threshold \<le> snd x \<Longrightarrow> \<exists>r rs. hot_runs threshold step (x # xs) = (x # r) # rs"
  by (cases xs) (auto split: list.splits)

lemma run_summary_snoc:
  "r \<noteq> [] \<Longrightarrow> run_summary (r @ [x]) = (fst (hd r), fst x, max (snd (snd (run_summary r))) (snd x))"
  by (cases r) (auto simp: run_summary_def)

lemma run_summary_single [simp]: "run_summary [x] = (fst x, fst x, snd x)"
  by (simp add: run_summary_def)

lemma hot_runs_joined:
  "joined threshold step x y \<Longrightarrow> hot_runs threshold step (x # y # xs) = prefix_run [x] (hot_runs threshold step (y # xs))"
  by (auto simp: joined_def prefix_run_def split: list.splits)

lemma hot_runs_split:
  "threshold \<le> snd x \<Longrightarrow> \<not> joined threshold step x y \<Longrightarrow>
   hot_runs threshold step (x # y # xs) = [x] # hot_runs threshold step (y # xs)"
  by simp

lemma prefix_prefix: "prefix_run p (prefix_run [x] rs) = prefix_run (p @ [x]) rs"
  by (auto simp: prefix_run_def split: list.splits)

lemma track_sample_idle:
  assumes "tk_open t = None"
  shows "track_sample metric node threshold step l x t =
    (if \<not> threshold \<le> snd x then t\<lparr>tk_previous := Some (fst x)\<rparr>
     else if l then t\<lparr>tk_previous := Some (fst x),
       tk_events := tk_events t @ [hotspot_event_of metric node step (run_summary [x])]\<rparr>
     else t\<lparr>tk_previous := Some (fst x), tk_open := Some (run_summary [x])\<rparr>)"
  using assms by (cases x) (simp add: track_sample_def close_event_def Let_def)

lemma track_sample_open:
  assumes "r \<noteq> []" and "threshold \<le> snd (last r)"
    and "tk_open t = Some (run_summary r)" and "tk_previous t = Some (fst (last r))"
  shows "track_sample metric node threshold step l x t =
    (if joined threshold step (last r) x
     then (if l then t\<lparr>tk_previous := Some (fst x), tk_open := None,
                tk_events := tk_events t @ [hotspot_event_of metric node step (run_summary (r @ [x]))]\<rparr>
           else t\<lparr>tk_previous := Some (fst x), tk_open := Some (run_summary (r @ [x]))\<rparr>)
     else track_sample metric node threshold step l x
       (t\<lparr>tk_open := None, tk_events := tk_events t @ [hotspot_event_of metric node step (run_summary r)]\<rparr>))"
proof -
  obtain a b p where r: "run_summary r = (a, b, p)" by (cases "run_summary r")
  have x: "run_summary (r @ [x]) = (a, fst x, max p (snd x))"
    using run_summary_snoc [OF assms(1), of x] r by (simp add: run_summary_def)
  show ?thesis
    using assms r unfolding x
    by (cases x) (simp add: track_sample_def close_event_def joined_def Let_def)
qed

text \<open>With an event open, the samples that follow first complete its run.\<close>

lemma track_samples_events:
  fixes metric node :: string and threshold :: rat and step :: int
  defines "ev \<equiv> hotspot_event_of metric node step \<circ> run_summary"
  shows "tk_open t = None \<Longrightarrow>
      tk_events (track_samples metric node threshold step xs t) = tk_events t @ map ev (hot_runs threshold step xs)"
    and "xs \<noteq> [] \<Longrightarrow> r \<noteq> [] \<Longrightarrow> threshold \<le> snd (last r) \<Longrightarrow>
      tk_open t = Some (run_summary r) \<Longrightarrow> tk_previous t = Some (fst (last r)) \<Longrightarrow>
      tk_events (track_samples metric node threshold step xs t)
        = tk_events t @ map ev (prefix_run (butlast r) (hot_runs threshold step (last r # xs)))"
proof (induction xs arbitrary: t r)
  case Nil
  { case 1 then show ?case by simp }
  { case 2 then show ?case by simp }
next
  case (Cons x xs)
  have idle: "tk_events (track_samples metric node threshold step (x # xs) t)
      = tk_events t @ map ev (hot_runs threshold step (x # xs))" if none: "tk_open t = None" for t
  proof (cases "threshold \<le> snd x \<and> xs \<noteq> []")
    case True
    then have "tk_events (track_samples metric node threshold step xs
        (t\<lparr>tk_previous := Some (fst x), tk_open := Some (run_summary [x])\<rparr>))
      = tk_events t @ map ev (prefix_run [] (hot_runs threshold step (x # xs)))"
      using Cons.IH(2) [of "[x]"] by simp
    with True none hot_runs_head [of threshold x step xs] show ?thesis
      by (auto simp: track_sample_idle prefix_run_def split: list.splits)
  next
    case False
    with none Cons.IH(1) show ?thesis
      by (cases xs) (auto simp: track_sample_idle ev_def)
  qed
  { case 1 then show ?case by (rule idle) }
  { case 2
    then have r: "r = butlast r @ [last r]" by simp
    show ?case
    proof (cases "joined threshold step (last r) x")
      case True
      then have hot: "threshold \<le> snd x" by (simp add: joined_def)
      have runs: "prefix_run (butlast r) (hot_runs threshold step (last r # x # xs))
          = prefix_run r (hot_runs threshold step (x # xs))"
        using r by (simp only: hot_runs_joined [OF True] prefix_prefix)
      show ?thesis
      proof (cases "xs = []")
        case True
        with 2 \<open>joined threshold step (last r) x\<close> hot show ?thesis
          unfolding runs by (simp add: track_sample_open prefix_run_def ev_def)
      next
        case False
        with 2 \<open>joined threshold step (last r) x\<close> hot Cons.IH(2) [of "r @ [x]"] show ?thesis
          unfolding runs by (simp add: track_sample_open)
      qed
    next
      case False
      with 2 have "prefix_run (butlast r) (hot_runs threshold step (last r # x # xs))
          = r # hot_runs threshold step (x # xs)"
        using r by (simp add: hot_runs_split prefix_run_def del: hot_runs.simps)
      with 2 False idle show ?thesis
        by (simp add: track_sample_open ev_def)
    qed }
qed

lemma concat_hot_runs: "concat (hot_runs threshold step xs) = filter (\<lambda>x. threshold \<le> snd x) xs"
  by (induction threshold step xs rule: hot_runs.induct) (auto split: list.splits)

lemma hot_runs_not_Nil: "r \<in> set (hot_runs threshold step xs) \<Longrightarrow> r \<noteq> []"
  by (induction threshold step xs rule: hot_runs.induct) (auto split: list.splits if_splits)

lemma hot_runs_joined_inside:
  "r \<in> set (hot_runs threshold step xs) \<Longrightarrow> successively (joined threshold step) r"
proof (induction threshold step xs arbitrary: r rule: hot_runs.induct)
  case (3 threshold step x y xs)
  show ?case
  proof (cases "threshold \<le> snd x \<and> joined threshold step x y")
    case True
    then have "threshold \<le> snd y" by (simp add: joined_def)
    then obtain q rs where q: "hot_runs threshold step (y # xs) = (y # q) # rs"
      using hot_runs_head by blast
    with 3(2) True have "successively (joined threshold step) (y # q)" by simp
    with 3(3,4) True q show ?thesis using 3(2) by auto
  next
    case False
    with 3 show ?thesis by (auto split: if_splits)
  qed
qed (auto split: if_splits)

lemma sublist_pair_Cons: "sublist [x, y] (z # zs) \<longleftrightarrow> (x = z \<and> zs \<noteq> [] \<and> y = hd zs) \<or> sublist [x, y] zs"
  by (cases zs) (auto simp: sublist_Cons_right)

lemma hot_runs_neighbours:
  "sublist [x, y] xs \<Longrightarrow> joined threshold step x y \<Longrightarrow>
   \<exists>r \<in> set (hot_runs threshold step xs). sublist [x, y] r"
proof (induction threshold step xs rule: hot_runs.induct)
  case (3 threshold step a b xs)
  consider "a = x" "b = y" | "sublist [x, y] (b # xs)" using "3.prems"(1) by (auto simp: sublist_pair_Cons)
  then show ?case
  proof cases
    case 1
    with "3.prems"(2) have "threshold \<le> snd a" "joined threshold step a b" "threshold \<le> snd b" by (auto simp: joined_def)
    moreover from this obtain q rs where "hot_runs threshold step (b # xs) = (b # q) # rs"
      using hot_runs_head by blast
    ultimately show ?thesis using 1 by (simp add: sublist_pair_Cons)
  next
    case 2
    with 3 obtain r where "r \<in> set (hot_runs threshold step (b # xs))" "sublist [x, y] r" by auto
    then show ?thesis by (auto simp: sublist_Cons_right split: list.splits)
  qed
qed (auto simp: sublist_pair_Cons)

lemma run_peak: "r \<noteq> [] \<Longrightarrow> snd (snd (run_summary r)) = Max (snd ` set r)"
proof (induction r rule: rev_induct)
  case (snoc x r)
  then show ?case
    by (cases "r = []") (simp_all add: run_summary_snoc Max_insert max.commute)
qed simp

text \<open>
  C30. The events of a node are the maximal runs of its hot samples in the order of time: each hot sample is
  in exactly one event, an event has no gap of more than two steps, two hot samples that follow each
  other within two steps are in one event, and the peak of an event is the largest value of its run.
\<close>
theorem hotspot_events_exact:
  "let ordered = sort_key fst vs; runs = hot_runs threshold step ordered in
     node_events metric node threshold step vs = map (\<lambda>r. hotspot_event_of metric node step (run_summary r)) runs
   \<and> concat runs = filter (\<lambda>x. threshold \<le> snd x) ordered
   \<and> (\<forall>r \<in> set runs. r \<noteq> [] \<and> successively (joined threshold step) r
        \<and> run_summary r = (fst (hd r), fst (last r), Max (snd ` set r)))
   \<and> (\<forall>x y. sublist [x, y] ordered \<and> joined threshold step x y \<longrightarrow> (\<exists>r \<in> set runs. sublist [x, y] r))"
proof -
  have "run_summary r = (fst (hd r), fst (last r), Max (snd ` set r))" if "r \<noteq> []" for r
    using run_peak [OF that] by (simp add: run_summary_def)
  then show ?thesis
    unfolding Let_def node_events_def
    by (auto simp: track_samples_events(1) new_tracker_def concat_hot_runs hot_runs_joined_inside comp_def
        hot_runs_neighbours dest: hot_runs_not_Nil)
qed

theorem hotspot_events_exact_witness:
  "node_events ''cpu'' ''n1'' 80 60 [(120000, 70), (0, 85), (60000, 91), (180000, 90), (600000, 99)]
     = map (\<lambda>r. hotspot_event_of ''cpu'' ''n1'' 60 (run_summary r))
         [[(0, 85), (60000, 91)], [(180000, 90)], [(600000, 99)]]
   \<and> (\<exists>r \<in> set (hot_runs 80 60 (sort_key fst [(120000, 70), (0, 85), (60000, 91), (180000, 90), (600000, 99)])).
        sublist [(0, 85), (60000, 91)] r)"
  using hotspot_events_exact [of "[(120000, 70), (0, 85), (60000, 91), (180000, 90), (600000, 99)]" 80 60 "''cpu''" "''n1''"]
  by (simp add: joined_def seconds_between_def sublist_pair_Cons)

end
