(* ===== verification/MetricsDb.thy ===== *)
theory MetricsDb
  imports Hotspots JobRows
begin

text \<open>
  \<open>metrics/db.py\<close>: the class \<open>SlurmwebMetricsDB\<close>, which asks Prometheus for series. The HTTP session
  is a library: \<open>prometheus\<close> is the outcome of a request for a URL over a state of its own. The
  requests of one call are made in their order. Times are microseconds since the epoch, a Unix time
  in seconds is a float. An answer has numbers where a number is multiplied; the infinities and NaN are
  left out.
\<close>

section \<open>Prometheus\<close>

datatype prom_json = PromJson pv | PromContentType string | PromInvalidJson string

datatype prom_reply =
    PromReply nat prom_json
  | PromConnectionError string
  | PromFailure string \<comment> \<open>another exception of the session\<close>

record 'm prometheus =
  pm_get :: "string \<Rightarrow> 'm \<Rightarrow> prom_reply \<times> 'm"

definition ask :: "'m prometheus \<Rightarrow> string \<Rightarrow> ('m, prom_reply) meth" where
  "ask M url m = (case pm_get M url m of (r, m') \<Rightarrow> (Inr r, m'))"


section \<open>Queries\<close>

record resolution =
  rs_step :: string
  rs_range :: string
  rs_rounding :: int

definition RANGE_RESOLUTIONS :: "(string \<times> (string \<times> resolution) list) list" where
  "RANGE_RESOLUTIONS =
     [(''30s'', [(''hour'', \<lparr>rs_step = ''30s'', rs_range = ''1h'', rs_rounding = 30\<rparr>),
                (''day'', \<lparr>rs_step = ''10m'', rs_range = ''1d'', rs_rounding = 600\<rparr>),
                (''week'', \<lparr>rs_step = ''1h'', rs_range = ''1w'', rs_rounding = 3600\<rparr>)]),
      (''1m'', [(''hour'', \<lparr>rs_step = ''1m'', rs_range = ''1h'', rs_rounding = 60\<rparr>),
               (''day'', \<lparr>rs_step = ''10m'', rs_range = ''1d'', rs_rounding = 600\<rparr>),
               (''week'', \<lparr>rs_step = ''1h'', rs_range = ''1w'', rs_rounding = 3600\<rparr>)])]"

type_synonym resolution_set = "(string \<times> resolution) list"

definition resolutions :: "string \<Rightarrow> resolution_set" where
  "resolutions name = (case map_of RANGE_RESOLUTIONS name of None \<Rightarrow> [] | Some rs \<Rightarrow> rs)"

definition resolution_of :: "resolution_set \<Rightarrow> string \<Rightarrow> resolution" where
  "resolution_of rs name = (case map_of rs name of None \<Rightarrow> \<lparr>rs_step = [], rs_range = [], rs_rounding = 1\<rparr> | Some r \<Rightarrow> r)"

record metric_query =
  mq_endpoint :: string
  mq_ids :: "(string \<times> string) list"
  mq_resolution :: resolution_set
  mq_agg :: "string option"
  mq_label_as_key :: "string option"

definition state_query :: "string \<Rightarrow> metric_query" where
  "state_query name =
     \<lparr>mq_endpoint = ''query'', mq_ids = [(name, name)], mq_resolution = resolutions ''30s'',
      mq_agg = Some ''avg_over_time'', mq_label_as_key = Some ''state''\<rparr>"

definition METRICS_QUERY_PARAMS :: "(string \<times> metric_query) list" where
  "METRICS_QUERY_PARAMS =
     [(''nodes'', state_query ''slurm_nodes''), (''cores'', state_query ''slurm_cores''),
      (''gpus'', state_query ''slurm_gpus''), (''memory'', state_query ''slurm_memory''),
      (''jobs'', state_query ''slurm_jobs''),
      (''cache'', \<lparr>mq_endpoint = ''query_range'',
         mq_ids = [(''slurmweb_cache_hit_total'', ''hit''), (''slurmweb_cache_miss_total'', ''miss'')],
         mq_resolution = resolutions ''1m'', mq_agg = None, mq_label_as_key = None\<rparr>),
      (''users'', \<lparr>mq_endpoint = ''query'',
         mq_ids = [(''slurmweb_user_submissions_last_minute'', ''slurmweb_user_submissions_last_minute'')],
         mq_resolution = resolutions ''1m'', mq_agg = Some ''avg_over_time'', mq_label_as_key = Some ''user''\<rparr>)]"

definition PARTITION_SUPPORTED_METRICS :: "string list" where
  "PARTITION_SUPPORTED_METRICS = [''nodes'', ''cores'', ''gpus'', ''memory'', ''jobs'']"

definition REQUEST_BASE_PATH :: string where
  "REQUEST_BASE_PATH = ''/api/v1/''"

record metrics_db =
  md_base_uri :: string
  md_job :: string

text \<open>
  \<open>getattr\<close> on the named tuple of the resolutions: its fields, but also the other attributes of a
  tuple, which are no resolutions.
\<close>

definition TUPLE_ATTRIBUTES :: "string list" where
  "TUPLE_ATTRIBUTES = [''count'', ''index'', ''_asdict'', ''_field_defaults'', ''_fields'', ''_make'', ''_replace'',
     ''__add__'', ''__class__'', ''__class_getitem__'', ''__contains__'', ''__delattr__'', ''__dir__'', ''__doc__'', ''__eq__'',
     ''__format__'', ''__ge__'', ''__getattribute__'', ''__getitem__'', ''__getnewargs__'', ''__gt__'', ''__hash__'',
     ''__init__'', ''__init_subclass__'', ''__iter__'', ''__le__'', ''__len__'', ''__lt__'', ''__match_args__'',
     ''__module__'', ''__mul__'', ''__ne__'', ''__new__'', ''__reduce__'', ''__reduce_ex__'', ''__repr__'', ''__rmul__'',
     ''__setattr__'', ''__sizeof__'', ''__slots__'', ''__str__'', ''__subclasshook__'']"

definition MICROSECONDS :: int where
  "MICROSECONDS = 1000000"

definition by_duration :: "resolution_set \<Rightarrow> int \<Rightarrow> resolution" where
  "by_duration rs duration =
     resolution_of rs (if duration \<le> 2 * 3600 * MICROSECONDS then ''hour''
                       else if duration \<le> 7 * 86400 * MICROSECONDS then ''day'' else ''week'')"

definition named_resolution :: "resolution_set \<Rightarrow> string \<Rightarrow> resolution option res" where
  "named_resolution rs timerange =
     (case map_of rs timerange of
        Some r \<Rightarrow> Inr (Some r)
      | None \<Rightarrow> if timerange \<in> set TUPLE_ATTRIBUTES then Inr None
                else Inl (SlurmwebMetricsDBError (''Unsupported metric range '' @ timerange)))"

text \<open>\<open>_resolve_resolution\<close>, and the use of a field of what it returns.\<close>

definition resolve_resolution ::
  "resolution_set \<Rightarrow> string \<Rightarrow> (int \<times> int) option \<Rightarrow> resolution option res" where
  "resolve_resolution rs timerange window =
     (case window of
        Some (a, b) \<Rightarrow> Inr (Some (by_duration rs (b - a)))
      | None \<Rightarrow> named_resolution rs timerange)"

definition used_resolution :: "resolution option \<Rightarrow> resolution res" where
  "used_resolution r = (case r of None \<Rightarrow> Inl (AttributeError ''rounding'') | Some r \<Rightarrow> Inr r)"

definition rounded_timestamp :: "resolution \<Rightarrow> int \<Rightarrow> int" where
  "rounded_timestamp r us = us div (rs_rounding r * MICROSECONDS) * rs_rounding r"

text \<open>The window before the clock reading that a range name stands for.\<close>

definition last_window :: "string \<Rightarrow> int \<Rightarrow> (int \<times> int) res" where
  "last_window timerange now =
     (if timerange = ''hour'' then Inr (now - 3600 * MICROSECONDS, now)
      else if timerange = ''day'' then Inr (now - 86400 * MICROSECONDS, now)
      else if timerange = ''week'' then Inr (now - 7 * 86400 * MICROSECONDS, now)
      else Inl (SlurmwebMetricsDBError (''Unsupported metric range '' @ timerange)))"

definition label_filter :: "metrics_db \<Rightarrow> string \<Rightarrow> string option \<Rightarrow> string" where
  "label_filter D metric part =
     (let q = [char_of (39 :: nat)];
          job = ''job='' @ q @ md_job D @ q;
          labels = (if metric \<in> set PARTITION_SUPPORTED_METRICS
                    then [job, ''partition='' @ q @ (case part of None \<Rightarrow> [] | Some p \<Rightarrow> p) @ q] else [job])
      in ''{'' @ py_join '','' labels @ ''}'')"

definition range_text :: "resolution \<Rightarrow> int \<times> int \<Rightarrow> string" where
  "range_text r w =
     ''&start='' @ float_str (of_int (rounded_timestamp r (fst w)))
     @ ''&end='' @ float_str (of_int (rounded_timestamp r (snd w))) @ ''&step='' @ rs_step r"

definition metrics_query_text ::
  "metrics_db \<Rightarrow> int \<Rightarrow> string \<Rightarrow> string \<Rightarrow> metric_query \<Rightarrow> string \<Rightarrow> string option \<Rightarrow> (int \<times> int) option \<Rightarrow> string res" where
  "metrics_query_text D now metric name params timerange part window =
     rbind (resolve_resolution (mq_resolution params) timerange window) (\<lambda>found.
     let filter = label_filter D metric part in
     case mq_agg params of
       Some agg \<Rightarrow>
         rbind (used_resolution found) (\<lambda>r.
         let base = agg @ ''('' @ name @ filter @ ''['' @ rs_step r @ ''])'' in
         Inr (case window of
           Some w \<Rightarrow> ''query_range?query='' @ base @ range_text r w
         | None \<Rightarrow> mq_endpoint params @ ''?query='' @ base @ ''['' @ rs_range r @ '':'' @ rs_step r @ '']''))
     | None \<Rightarrow>
         rbind (last_window timerange now) (\<lambda>w.
         rbind (used_resolution found) (\<lambda>r.
         Inr (mq_endpoint params @ ''?query='' @ name @ filter @ ''-'' @ name @ filter @ '' offset '' @ rs_step r @ '' ''
              @ range_text r (case window of None \<Rightarrow> w | Some v \<Rightarrow> v)))))"


section \<open>Answers\<close>

definition empty_lists :: "string list \<Rightarrow> pv" where
  "empty_lists keys = VDict (map (\<lambda>k. (k, VList [])) keys)"

definition empty_result :: "string \<Rightarrow> pv" where
  "empty_result metric =
     (if metric = ''memory'' then empty_lists [''allocated'', ''idle'']
      else if metric \<in> {''nodes'', ''cores'', ''gpus''}
        then empty_lists [''idle'', ''mixed'', ''allocated'', ''drain'', ''down'', ''error'', ''fail'', ''unknown'']
      else if metric = ''jobs''
        then empty_lists [''running'', ''pending'', ''completing'', ''completed'', ''cancelled'', ''suspended'',
          ''preempted'', ''failed'', ''timeout'', ''node_fail'', ''boot_fail'', ''deadline'', ''out_of_memory'', ''unknown'']
      else VDict [])"

text \<open>\<open>v[n]\<close>, and the product with 1000.\<close>

definition py_nth :: "nat \<Rightarrow> pv \<Rightarrow> pv res" where
  "py_nth n v =
     (case v of
        VList xs \<Rightarrow> if n < length xs then Inr (xs ! n) else Inl IndexError
      | VStr s \<Rightarrow> if n < length s then Inr (VStr [s ! n]) else Inl IndexError
      | VDict _ \<Rightarrow> Inl (KeyError (nat_str n))
      | _ \<Rightarrow> Inl (TypeError ''subscript''))"

definition milliseconds :: "pv \<Rightarrow> pv res" where
  "milliseconds v =
     (case v of
        VInt n \<Rightarrow> Inr (VInt (n * 1000))
      | VFloat q \<Rightarrow> Inr (VFloat (q * 1000))
      | VBool b \<Rightarrow> Inr (VInt (if b then 1000 else 0))
      | _ \<Rightarrow> Inl (TypeError ''number''))"

definition series_point :: "pv \<Rightarrow> pv res" where
  "series_point p =
     rbind (rbind (py_nth 0 p) milliseconds) (\<lambda>t.
     rbind (rbind (py_nth 1 p) py_float) (\<lambda>v. Inr (VList [t, VFloat v])))"

text \<open>The same with the time truncated and the value rounded.\<close>

definition rounded_point :: "pv \<Rightarrow> pv res" where
  "rounded_point p =
     rbind (rbind (rbind (py_nth 0 p) milliseconds) py_int) (\<lambda>t.
     rbind (rbind (py_nth 1 p) py_float) (\<lambda>v. Inr (VList [VInt t, VFloat (py_round 2 v)])))"

definition points_with :: "(pv \<Rightarrow> pv res) \<Rightarrow> pv \<Rightarrow> pv res" where
  "points_with f vs = rbind (py_iter vs) (\<lambda>xs. rbind (rmap f xs) (\<lambda>ys. Inr (VList ys)))"

definition data_result :: "pv \<Rightarrow> pv res" where
  "data_result json = rbind (py_item ''data'' json) (py_item ''result'')"

text \<open>\<open>json.get("data", {}).get("result", default)\<close>\<close>

definition data_result_or :: "pv \<Rightarrow> pv \<Rightarrow> pv res" where
  "data_result_or dflt json =
     rbind (py_get_or ''data'' (VDict []) json) (py_get_or ''result'' dflt)"

definition metrics_error :: "string \<Rightarrow> ('m, 'a) meth" where
  "metrics_error msg = mraise (SlurmwebMetricsDBError msg)"

definition checked_json :: "'m prometheus \<Rightarrow> string \<Rightarrow> ('m, prom_json) meth" where
  "checked_json M url =
     mbind (ask M url) (\<lambda>r.
       case r of
         PromConnectionError e \<Rightarrow> metrics_error (''Metrics database connection error: '' @ e)
       | PromFailure e \<Rightarrow> mraise (BackendError e)
       | PromReply status json \<Rightarrow>
           if status \<noteq> 200
           then metrics_error (''Unexpected response status '' @ nat_str status @ '' for metrics database request '' @ url)
           else mret json)"

text \<open>With and without the clause for a wrong content type.\<close>

definition fetch_json :: "'m prometheus \<Rightarrow> string \<Rightarrow> ('m, pv) meth" where
  "fetch_json M url =
     mbind (checked_json M url) (\<lambda>json.
       case json of
         PromJson v \<Rightarrow> mret v
       | PromContentType _ \<Rightarrow> metrics_error (''Unsupported Content-Type for metrics database request '' @ url)
       | PromInvalidJson e \<Rightarrow> mraise (ValueError e))"

definition fetch_any_json :: "'m prometheus \<Rightarrow> string \<Rightarrow> ('m, pv) meth" where
  "fetch_any_json M url =
     mbind (checked_json M url) (\<lambda>json.
       case json of
         PromJson v \<Rightarrow> mret v
       | PromContentType e \<Rightarrow> mraise (BackendError e)
       | PromInvalidJson e \<Rightarrow> mraise (ValueError e))"

definition query_url :: "metrics_db \<Rightarrow> string \<Rightarrow> string" where
  "query_url D query = md_base_uri D @ REQUEST_BASE_PATH @ query"

text \<open>One series: its key, a text of the labels or the key of the metric, and its points.\<close>

definition result_series :: "metric_query \<Rightarrow> string \<Rightarrow> pv \<Rightarrow> (string \<times> pv) res" where
  "result_series params key result =
     rbind (case mq_label_as_key params of
        None \<Rightarrow> Inr key
      | Some label \<Rightarrow> rbind (rbind (py_item ''metric'' result) (py_item label)) (\<lambda>v.
          case v of VStr s \<Rightarrow> Inr s | _ \<Rightarrow> Inl (TypeError ''label''))) (\<lambda>k.
     rbind (rbind (py_item ''values'' result) (points_with series_point)) (\<lambda>points. Inr (k, points)))"

definition metrics_request_one ::
  "'m prometheus \<Rightarrow> metrics_db \<Rightarrow> string \<Rightarrow> string \<Rightarrow> metric_query \<Rightarrow> string \<Rightarrow> string option \<Rightarrow> ('m, pdict) meth" where
  "metrics_request_one M D metric key params query part =
     mbind (fetch_json M (query_url D query)) (\<lambda>json.
     mlift (rbind (data_result json) (\<lambda>result.
       if \<not> truthy result then
         (if part \<noteq> None \<and> metric \<in> set PARTITION_SUPPORTED_METRICS then as_dict (empty_result metric)
          else Inl (SlurmwebMetricsDBError (''Empty result for query '' @ query)))
       else rbind (py_iter result) (\<lambda>rs.
            rbind (rmap (result_series params key) rs) (\<lambda>kvs.
            Inr (fold (\<lambda>(k, v). dset k v) kvs []))))))"

definition metrics_request ::
  "'m prometheus \<Rightarrow> metrics_db \<Rightarrow> int \<Rightarrow> string \<Rightarrow> string \<Rightarrow> string option \<Rightarrow> (int \<times> int) option \<Rightarrow> ('m, pv) meth" where
  "metrics_request M D now metric timerange part window =
     (case map_of METRICS_QUERY_PARAMS metric of
        None \<Rightarrow> mraise (KeyError metric)
      | Some params \<Rightarrow>
          let part' = (if metric \<in> set PARTITION_SUPPORTED_METRICS then part else None) in
          mbind (mlift (rmap (\<lambda>(name, key). rbind (metrics_query_text D now metric name params timerange part' window)
              (\<lambda>query. Inr (key, query))) (mq_ids params))) (\<lambda>queries.
          mbind (mmap (\<lambda>(key, query). metrics_request_one M D metric key params query part') queries) (\<lambda>results.
          mret (VDict (fold (\<lambda>r d. dupdate d r) results [])))))"

section \<open>Metrics of nodes and users\<close>

definition dquote :: string where
  "dquote = [char_of (34 :: nat)]"

definition brace :: "string \<Rightarrow> string" where
  "brace labels = ''{'' @ labels @ ''}''"

definition idle_label :: string where
  "idle_label = ''mode='' @ dquote @ ''idle'' @ dquote"

definition root_label :: string where
  "root_label = ''mountpoint='' @ dquote @ ''/'' @ dquote"

definition memory_promql :: "string \<Rightarrow> string" where
  "memory_promql labels =
     ''100 * (1 - (node_memory_MemAvailable_bytes'' @ labels @ '' / node_memory_MemTotal_bytes'' @ labels @ ''))''"

definition node_queries :: "string \<Rightarrow> string \<Rightarrow> (string \<times> string) list" where
  "node_queries hostname_label node_name =
     (let host = hostname_label @ ''='' @ dquote @ node_name @ dquote;
          disk = brace (root_label @ '','' @ host)
      in [(''cpu_usage'', ''100 - (avg(rate(node_cpu_seconds_total'' @ brace (idle_label @ '','' @ host) @ ''[1m])) * 100)''),
          (''memory_usage'', memory_promql (brace host)),
          (''disk_usage'', ''100 - ((node_filesystem_avail_bytes'' @ disk @ '' / node_filesystem_size_bytes'' @ disk
             @ '') * 100)'')])"

definition rounded_value :: "pv \<Rightarrow> pv res" where
  "rounded_value v = rbind (py_float v) (\<lambda>q. Inr (VFloat (py_round 2 q)))"

definition instant_value :: "pv \<Rightarrow> pv res" where
  "instant_value json =
     rbind (data_result_or VNone json) (\<lambda>found.
     if \<not> truthy found then Inr VNone
     else rbind (data_result json) (\<lambda>result.
          rbind (rbind (rbind (py_nth 0 result) (py_item ''value'')) (py_nth 1)) rounded_value))"

text \<open>Every failure of a query gives no value.\<close>

definition node_instant_metrics :: "'m prometheus \<Rightarrow> metrics_db \<Rightarrow> string \<Rightarrow> string \<Rightarrow> ('m, pv) meth" where
  "node_instant_metrics M D node_name hostname_label =
     mbind (mmap (\<lambda>(key, promql).
         mbind (mcatch (mbind (fetch_any_json M (query_url D (''query?query='' @ promql))) (\<lambda>json. mlift (instant_value json)))
           (\<lambda>_. mret VNone)) (\<lambda>v. mret (key, v))) (node_queries hostname_label node_name))
       (\<lambda>results. mret (VDict results))"

text \<open>\<open>except (TypeError, ValueError, IndexError, KeyError)\<close>\<close>

definition unexpected_result :: "string \<Rightarrow> 'a res \<Rightarrow> 'a res" where
  "unexpected_result promql r =
     (case r of
        Inr a \<Rightarrow> Inr a
      | Inl e \<Rightarrow> (case e of
            TypeError _ \<Rightarrow> Inl (SlurmwebMetricsDBError (''Unexpected result on metrics query '' @ promql))
          | ValueError _ \<Rightarrow> Inl (SlurmwebMetricsDBError (''Unexpected result on metrics query '' @ promql))
          | IndexError \<Rightarrow> Inl (SlurmwebMetricsDBError (''Unexpected result on metrics query '' @ promql))
          | KeyError _ \<Rightarrow> Inl (SlurmwebMetricsDBError (''Unexpected result on metrics query '' @ promql))
          | _ \<Rightarrow> Inl e))"

text \<open>The label of an item that names its node, if there is one.\<close>

definition item_node :: "string \<Rightarrow> pv \<Rightarrow> string option res" where
  "item_node hostname_label item =
     rbind (rbind (py_get_or ''metric'' (VDict []) item) (py_get hostname_label)) (\<lambda>v.
       if \<not> truthy v then Inr None
       else case v of VStr s \<Rightarrow> Inr (Some s) | _ \<Rightarrow> Inl (TypeError ''label''))"

definition all_queries :: "string \<Rightarrow> (string \<times> string) list" where
  "all_queries hostname_label =
     [(''cpu_usage'', ''100 - (avg by ('' @ hostname_label @ '') (rate(node_cpu_seconds_total'' @ brace idle_label
         @ ''[1m])) * 100)''),
      (''memory_usage'', memory_promql [])]"

definition add_instant :: "string \<Rightarrow> string \<Rightarrow> string \<Rightarrow> pv \<Rightarrow> (string \<times> pdict) list \<Rightarrow> (string \<times> pdict) list res" where
  "add_instant hostname_label key promql item results =
     rbind (item_node hostname_label item) (\<lambda>node.
       case node of
         None \<Rightarrow> Inr results
       | Some n \<Rightarrow>
           rbind (unexpected_result promql (rbind (rbind (py_item ''value'' item) (py_nth 1)) rounded_value)) (\<lambda>v.
           Inr (dset n (dset key v (case map_of results n of None \<Rightarrow> [] | Some d \<Rightarrow> d)) results)))"

fun node_instant_loop ::
  "'m prometheus \<Rightarrow> metrics_db \<Rightarrow> string \<Rightarrow> (string \<times> string) list \<Rightarrow> (string \<times> pdict) list
   \<Rightarrow> ('m, (string \<times> pdict) list) meth" where
  "node_instant_loop M D hostname_label [] results = mret results"
| "node_instant_loop M D hostname_label ((key, promql) # queries) results =
     mbind (fetch_any_json M (query_url D (''query?query='' @ promql))) (\<lambda>json.
     mbind (mlift (rbind (data_result_or (VList []) json) (\<lambda>found. rbind (py_iter found) (\<lambda>items.
         rfold (add_instant hostname_label key promql) items results)))) (\<lambda>results'.
     node_instant_loop M D hostname_label queries results'))"

definition node_instant_metrics_all :: "'m prometheus \<Rightarrow> metrics_db \<Rightarrow> string \<Rightarrow> ('m, (string \<times> pdict) list) meth" where
  "node_instant_metrics_all M D hostname_label = node_instant_loop M D hostname_label (all_queries hostname_label) []"

definition ranged_url :: "metrics_db \<Rightarrow> string \<Rightarrow> int \<Rightarrow> int \<Rightarrow> string \<Rightarrow> string" where
  "ranged_url D promql start_ts end_ts step =
     query_url D (''query_range?query='' @ promql @ ''&start='' @ int_str start_ts @ ''&end='' @ int_str end_ts
       @ ''&step='' @ step)"

definition first_points :: "string \<Rightarrow> pv \<Rightarrow> pv res" where
  "first_points promql result =
     unexpected_result promql (rbind (rbind (py_nth 0 result) (py_item ''values'')) (points_with rounded_point))"

definition user_history_metrics ::
  "'m prometheus \<Rightarrow> metrics_db \<Rightarrow> int \<Rightarrow> string \<Rightarrow> string \<Rightarrow> ('m, pv) meth" where
  "user_history_metrics M D now username timerange =
     mbind (mlift (named_resolution (resolutions ''1m'') timerange)) (\<lambda>found.
     mbind (mlift (last_window timerange now)) (\<lambda>w.
     mbind (mlift (used_resolution found)) (\<lambda>r.
     let q = [char_of (39 :: nat)];
         promql = ''slurmweb_user_submissions_last_minute'' @ brace (''job='' @ q @ md_job D @ q @ '',user='' @ q @ username @ q)
     in mbind (fetch_json M (ranged_url D promql (rounded_timestamp r (fst w)) (rounded_timestamp r (snd w)) (rs_step r)))
          (\<lambda>json. mlift (rbind (data_result_or (VList []) json) (\<lambda>result.
            if \<not> truthy result then Inr (VDict [(''submissions'', VList [])])
            else rbind (first_points promql result) (\<lambda>points. Inr (VDict [(''submissions'', points)]))))))))"

definition history_series ::
  "'m prometheus \<Rightarrow> metrics_db \<Rightarrow> int \<Rightarrow> int \<Rightarrow> string \<Rightarrow> string \<Rightarrow> ('m, pv) meth" where
  "history_series M D start_ts end_ts step promql =
     mbind (fetch_json M (ranged_url D promql start_ts end_ts step)) (\<lambda>json.
     mlift (rbind (data_result json) (\<lambda>result.
       if \<not> truthy result then Inl (SlurmwebMetricsDBError (''Empty result for query '' @ promql))
       else first_points promql result)))"

definition node_history_metrics ::
  "'m prometheus \<Rightarrow> metrics_db \<Rightarrow> int \<Rightarrow> string \<Rightarrow> string \<Rightarrow> string \<Rightarrow> (int \<times> int) option \<Rightarrow> ('m, pv) meth" where
  "node_history_metrics M D now node_name timerange hostname_label window =
     mbind (mlift (case window of
         Some w \<Rightarrow> Inr (w, Some (by_duration (resolutions ''30s'') (snd w - fst w)))
       | None \<Rightarrow> rbind (named_resolution (resolutions ''30s'') timerange) (\<lambda>found.
           rbind (last_window timerange now) (\<lambda>w. Inr (w, found))))) (\<lambda>(w, found).
     mbind (mlift (used_resolution found)) (\<lambda>r.
     mbind (mmap (\<lambda>(key, promql).
         mbind (history_series M D (rounded_timestamp r (fst w)) (rounded_timestamp r (snd w)) (rs_step r) promql)
           (\<lambda>points. mret (key, points))) (node_queries hostname_label node_name)) (\<lambda>results.
     mret (VDict results))))"


section \<open>Hot spots of the cluster\<close>

text \<open>\<open>re.escape\<close>: a backslash before every character with a meaning in a pattern.\<close>

definition re_special :: "char \<Rightarrow> bool" where
  "re_special c \<longleftrightarrow> c \<in> set ''()[]{}?*+-|^$.&~# '' \<or> (of_char c :: nat) \<in> {9, 10, 11, 12, 13, 92}"

definition re_escape :: "string \<Rightarrow> string" where
  "re_escape s = concat (map (\<lambda>c. if re_special c then [char_of (92 :: nat), c] else [c]) s)"

definition hotspot_point :: "pv \<Rightarrow> sample res" where
  "hotspot_point p =
     rbind (py_iter p) (\<lambda>parts.
       case parts of
         [t, v] \<Rightarrow> rbind (rbind (milliseconds t) py_int) (\<lambda>ms. rbind (py_float v) (\<lambda>q. Inr (ms, py_round 2 q)))
       | _ \<Rightarrow> Inl (ValueError ''values to unpack''))"

definition add_series :: "string \<Rightarrow> pv \<Rightarrow> node_series \<Rightarrow> node_series res" where
  "add_series hostname_label item series =
     rbind (item_node hostname_label item) (\<lambda>node.
       case node of
         None \<Rightarrow> Inr series
       | Some n \<Rightarrow> rbind (py_get_or ''values'' (VList []) item) (\<lambda>vs.
           rbind (py_iter vs) (\<lambda>points. rbind (rmap hotspot_point points) (\<lambda>samples.
           Inr (dset n samples series)))))"

record hotspots_answer =
  ha_start :: string
  ha_end :: string
  ha_threshold :: rat
  ha_events :: "hotspot_event list"

definition db_node_hotspots ::
  "'m prometheus \<Rightarrow> metrics_db \<Rightarrow> int \<Rightarrow> string list \<Rightarrow> string \<Rightarrow> (int \<times> int) option \<Rightarrow> rat \<Rightarrow> int
   \<Rightarrow> ('m, hotspots_answer) meth" where
  "db_node_hotspots M D now node_names hostname_label window threshold limit =
     (let (a, b) = (case window of Some w \<Rightarrow> w | None \<Rightarrow> (now - 3 * 86400 * MICROSECONDS, now));
          r = by_duration (resolutions ''30s'') (b - a);
          answer = (\<lambda>events. \<lparr>ha_start = iso_text CHR ''T'' a, ha_end = iso_text CHR ''T'' b, ha_threshold = threshold,
                     ha_events = events\<rparr>);
          names = py_join ''|'' (map re_escape (sorted_set node_names));
          hosts = hostname_label @ ''=~'' @ dquote @ ''^(?:'' @ names @ '')$'' @ dquote;
          queries = [(''cpu'', ''100 - (avg by ('' @ hostname_label @ '') (rate(node_cpu_seconds_total''
                        @ brace (idle_label @ '','' @ hosts) @ ''[1m])) * 100)''),
                     (''memory'', memory_promql (brace hosts))]
      in if b \<le> a then metrics_error ''start must be earlier than end''
         else if node_names = [] then mret (answer [])
         else mbind (mmap (\<lambda>(key, promql).
             mbind (fetch_any_json M (ranged_url D promql (rounded_timestamp r a) (rounded_timestamp r b) (rs_step r))) (\<lambda>json.
             mlift (rbind (data_result_or (VList []) json) (\<lambda>found. rbind (py_iter found) (\<lambda>items.
               rbind (rfold (add_series hostname_label) items []) (\<lambda>series. Inr (key, series))))))) queries) (\<lambda>metrics.
           mlift (rbind (build_hotspot_events metrics threshold (rs_rounding r) limit) (\<lambda>events. Inr (answer events)))))"

section \<open>Errors of a request\<close>

text \<open>What Prometheus documents of an answer: series with texts as labels, and pairs of a time and a numeral.\<close>

definition documented_point :: "pv \<Rightarrow> bool" where
  "documented_point p \<longleftrightarrow> (\<exists>t v. p = VList [t, VStr v] \<and> (\<exists>q. t = VFloat q \<or> (\<exists>n. t = VInt n)) \<and> py_parse_float v \<noteq> None)"

definition documented_series :: "pv \<Rightarrow> bool" where
  "documented_series r \<longleftrightarrow>
     (\<exists>d labels points. r = VDict d \<and> map_of d ''metric'' = Some (VDict labels) \<and> map_of d ''values'' = Some (VList points)
        \<and> (\<forall>l \<in> {''state'', ''user''}. \<exists>s. map_of labels l = Some (VStr s)) \<and> (\<forall>p \<in> set points. documented_point p))"

definition documented_json :: "pv \<Rightarrow> bool" where
  "documented_json json \<longleftrightarrow>
     (\<exists>d e rs. json = VDict d \<and> map_of d ''data'' = Some (VDict e) \<and> map_of e ''result'' = Some (VList rs)
        \<and> (\<forall>r \<in> set rs. documented_series r))"

definition is_metrics_error :: "exn \<Rightarrow> bool" where
  "is_metrics_error e \<longleftrightarrow> (\<exists>msg. e = SlurmwebMetricsDBError msg)"

lemma series_point_documented: "documented_point p \<Longrightarrow> \<exists>v. series_point p = Inr v"
  by (auto simp: documented_point_def series_point_def py_nth_def milliseconds_def)

lemma points_documented:
  "\<forall>p \<in> set ps. documented_point p \<Longrightarrow> \<exists>v. points_with series_point (VList ps) = Inr v"
proof -
  assume "\<forall>p \<in> set ps. documented_point p"
  then have "\<forall>p \<in> set ps. \<exists>v. series_point p = Inr v" using series_point_documented by blast
  then obtain g where "\<forall>p \<in> set ps. series_point p = Inr (g p)" by metis
  then have "rmap series_point ps = Inr (map g ps)" by (intro rmap_all_Inr) auto
  then show ?thesis by (simp add: points_with_def py_iter_def)
qed

lemma result_series_documented:
  assumes "documented_series r" and "mq_label_as_key params \<in> {None, Some ''state'', Some ''user''}"
  shows "\<exists>kv. result_series params key r = Inr kv"
proof -
  obtain d labels points where d: "r = VDict d" "map_of d ''metric'' = Some (VDict labels)"
      "map_of d ''values'' = Some (VList points)" "\<forall>p \<in> set points. documented_point p"
    and l: "\<forall>l \<in> {''state'', ''user''}. \<exists>s. map_of labels l = Some (VStr s)"
    using assms(1) unfolding documented_series_def by blast
  obtain v where "points_with series_point (VList points) = Inr v" using points_documented [OF d(4)] by blast
  with d l assms(2) show ?thesis by (auto simp: result_series_def py_item_def)
qed

text \<open>The session connects or not, and answers any status and content type, but no malformed JSON.\<close>

definition documented_reply :: "prom_reply \<Rightarrow> bool" where
  "documented_reply r \<longleftrightarrow>
     (case r of
        PromReply status json \<Rightarrow>
          (case json of PromJson v \<Rightarrow> status = 200 \<longrightarrow> documented_json v | PromContentType _ \<Rightarrow> True
           | PromInvalidJson _ \<Rightarrow> status \<noteq> 200)
      | PromConnectionError _ \<Rightarrow> True
      | PromFailure _ \<Rightarrow> False)"

definition documented_prometheus :: "'m prometheus \<Rightarrow> bool" where
  "documented_prometheus M \<longleftrightarrow> (\<forall>url m. documented_reply (fst (pm_get M url m)))"

lemma fetch_json_documented:
  assumes "documented_prometheus M" and "fetch_json M url m = (r, m')"
  shows "case r of Inl e \<Rightarrow> is_metrics_error e | Inr v \<Rightarrow> documented_json v"
proof -
  obtain reply m1 where reply: "pm_get M url m = (reply, m1)" by (cases "pm_get M url m")
  have "documented_reply reply" using assms(1) reply unfolding documented_prometheus_def by (metis fst_conv)
  then consider (error) e where "reply = PromConnectionError e"
    | (status) status json where "reply = PromReply status json" "status \<noteq> 200"
    | (kind) e where "reply = PromReply 200 (PromContentType e)"
    | (json) v where "reply = PromReply 200 (PromJson v)" "documented_json v"
    unfolding documented_reply_def by (auto split: prom_reply.splits prom_json.splits)
  then show ?thesis
  proof cases
    case error
    with assms(2) reply show ?thesis
      by (auto simp: fetch_json_def checked_json_def ask_def metrics_error_def mbind_def is_metrics_error_def)
  next
    case status
    with assms(2) reply show ?thesis
      by (auto simp: fetch_json_def checked_json_def ask_def metrics_error_def mbind_def is_metrics_error_def)
  next
    case kind
    with assms(2) reply show ?thesis
      by (auto simp: fetch_json_def checked_json_def ask_def metrics_error_def mbind_def is_metrics_error_def)
  next
    case json
    with assms(2) reply show ?thesis
      by (auto simp: fetch_json_def checked_json_def ask_def mbind_def)
  qed
qed

lemma query_text_errors:
  assumes "timerange \<notin> set TUPLE_ATTRIBUTES"
    and "metrics_query_text D now metric name params timerange part window = Inl e"
  shows "is_metrics_error e"
  using assms
  by (auto simp: metrics_query_text_def resolve_resolution_def named_resolution_def used_resolution_def last_window_def
      is_metrics_error_def rbind_eq_Inl Let_def split: option.splits if_splits)

lemma METRICS_QUERY_labels:
  "map_of METRICS_QUERY_PARAMS metric = Some params \<Longrightarrow> mq_label_as_key params \<in> {None, Some ''state'', Some ''user''}"
  by (auto simp: METRICS_QUERY_PARAMS_def state_query_def split: if_splits)

lemma request_one_errors:
  assumes "documented_prometheus M" and "mq_label_as_key params \<in> {None, Some ''state'', Some ''user''}"
  shows "only_raises is_metrics_error (metrics_request_one M D metric key params query part)"
  unfolding metrics_request_one_def
proof (intro raises_intros)
  show "only_raises is_metrics_error (fetch_json M (query_url D query))"
    using fetch_json_documented [OF assms(1)] by (fastforce simp: only_raises_def)
  fix json s s' e
  assume json: "fetch_json M (query_url D query) s = (Inr json, s')"
    and e: "rbind (data_result json) (\<lambda>result.
        if \<not> truthy result then
         (if part \<noteq> None \<and> metric \<in> set PARTITION_SUPPORTED_METRICS then as_dict (empty_result metric)
          else Inl (SlurmwebMetricsDBError (''Empty result for query '' @ query)))
       else rbind (py_iter result) (\<lambda>rs. rbind (rmap (result_series params key) rs) (\<lambda>kvs.
            Inr (fold (\<lambda>(k, v). dset k v) kvs [])))) = Inl e"
  have "documented_json json" using fetch_json_documented [OF assms(1) json] by simp
  then obtain rs where rs: "data_result json = Inr (VList rs)" "\<forall>r \<in> set rs. documented_series r"
    by (auto simp: documented_json_def data_result_def py_item_def)
  have "\<exists>d. as_dict (empty_result metric) = Inr d" by (simp add: empty_result_def empty_lists_def as_dict_def)
  moreover have "rmap (result_series params key) rs \<noteq> Inl e'" for e'
    using rs(2) result_series_documented [OF _ assms(2)] rmap_Inl by (metis Inl_Inr_False)
  ultimately show "is_metrics_error e"
    using e rs(1) by (auto simp: is_metrics_error_def py_iter_def rbind_eq_Inl split: if_splits)
qed


definition demo_prometheus :: "unit prometheus" where
  "demo_prometheus = \<lparr>pm_get = \<lambda>url m. (PromReply 200 (PromJson (VDict [(''data'', VDict [(''result'', VList [])])])), m)\<rparr>"

definition demo_metrics_db :: metrics_db where
  "demo_metrics_db = \<lparr>md_base_uri = ''http://prom'', md_job = ''slurm''\<rparr>"


text \<open>A range that is the name of an attribute gets through to the use of the resolution.\<close>

lemma tuple_attribute_range:
  "metrics_request M D now ''nodes'' ''count'' None None m = (Inl (AttributeError ''rounding''), m)"
  by (simp add: metrics_request_def METRICS_QUERY_PARAMS_def state_query_def metrics_query_text_def
      resolve_resolution_def named_resolution_def resolutions_def RANGE_RESOLUTIONS_def TUPLE_ATTRIBUTES_def
      used_resolution_def mbind_def)

end
