(* ===== verification/HotspotStore.thy ===== *)
theory HotspotStore
  imports MetricsDb
begin

text \<open>
  \<open>persistence/node_hotspot_store.py\<close>: the class \<open>NodeHotspotStore\<close>, which samples the metrics of all
  nodes into the table \<open>node_metric_samples\<close>, deletes old samples and finds the hot spots in the rest.
  The object holds the table and the state of Prometheus; the thread's loop is its turn.
\<close>

section \<open>The store\<close>

record node_sample =
  ns_cluster :: string
  ns_node :: string
  ns_sampled_at :: int
  ns_cpu_usage :: "rat option"
  ns_memory_usage :: "rat option"

record 'm hotspot_store =
  hs_samples :: "node_sample list"
  hs_prometheus :: 'm

record hotspot_settings =
  ho_db :: metrics_db
  ho_cluster :: string
  ho_hostname_label :: string
  ho_snapshot_interval :: int
  ho_retention_days :: int

definition on_prometheus :: "('m, 'a) meth \<Rightarrow> ('m hotspot_store, 'a) meth" where
  "on_prometheus f s = (case f (hs_prometheus s) of (r, m) \<Rightarrow> (r, s\<lparr>hs_prometheus := m\<rparr>))"

definition sample_key :: "node_sample \<Rightarrow> string \<times> string \<times> int" where
  "sample_key r = (ns_cluster r, ns_node r, ns_sampled_at r)"

definition float_value :: "pv \<Rightarrow> rat option" where
  "float_value v = (case v of VFloat q \<Rightarrow> Some q | _ \<Rightarrow> None)"

definition sample_row :: "hotspot_settings \<Rightarrow> int \<Rightarrow> string \<times> pdict \<Rightarrow> node_sample" where
  "sample_row C sampled_at nv =
     \<lparr>ns_cluster = ho_cluster C, ns_node = fst nv, ns_sampled_at = sampled_at,
      ns_cpu_usage = float_value (dget ''cpu_usage'' (snd nv)),
      ns_memory_usage = float_value (dget ''memory_usage'' (snd nv))\<rparr>"

text \<open>\<open>INSERT ... ON CONFLICT DO UPDATE\<close> of the two figures.\<close>

definition upsert_sample :: "node_sample \<Rightarrow> node_sample list \<Rightarrow> node_sample list" where
  "upsert_sample r rows =
     (if sample_key r \<in> sample_key ` set rows
      then map (\<lambda>x. if sample_key x = sample_key r
             then x\<lparr>ns_cpu_usage := ns_cpu_usage r, ns_memory_usage := ns_memory_usage r\<rparr> else x) rows
      else rows @ [r])"

definition capture_snapshot :: "'m prometheus \<Rightarrow> hotspot_settings \<Rightarrow> int \<Rightarrow> ('m hotspot_store, nat) meth" where
  "capture_snapshot M C sampled_at =
     mbind (on_prometheus (node_instant_metrics_all M (ho_db C) (ho_hostname_label C))) (\<lambda>nodes.
     let rows = map (sample_row C sampled_at) nodes in
     mbind (mupd (\<lambda>s. s\<lparr>hs_samples := fold upsert_sample rows (hs_samples s)\<rparr>)) (\<lambda>_. mret (length rows)))"

definition samples_cleanup :: "int \<Rightarrow> int \<Rightarrow> ('m hotspot_store, nat) meth" where
  "samples_cleanup now retention_days = mwith (\<lambda>s.
     let old = (\<lambda>r. ns_sampled_at r < now - retention_days * 86400 * MICROSECONDS)
     in mbind (mupd (\<lambda>s. s\<lparr>hs_samples := filter (\<lambda>r. \<not> old r) (hs_samples s)\<rparr>))
          (\<lambda>_. mret (length (filter old (hs_samples s)))))"

text \<open>One turn of the thread; the readings of the clock are those of the sample and of the clean-up.\<close>

definition hotspot_turn :: "'m prometheus \<Rightarrow> hotspot_settings \<Rightarrow> int \<Rightarrow> int \<Rightarrow> ('m hotspot_store, unit) meth" where
  "hotspot_turn M C now1 now2 =
     mcatch (mbind (capture_snapshot M C now1) (\<lambda>_.
             mbind (samples_cleanup now2 (max (ho_retention_days C) 1)) (\<lambda>_. mret ())))
       (\<lambda>_. mret ())"

text \<open>The series of the figures that are there, by node in the order of the rows.\<close>

definition series_of :: "(node_sample \<Rightarrow> rat option) \<Rightarrow> node_sample list \<Rightarrow> node_series" where
  "series_of figure rows =
     fold (\<lambda>r series. case figure r of
         None \<Rightarrow> series
       | Some v \<Rightarrow> dset (ns_node r) ((case map_of series (ns_node r) of None \<Rightarrow> [] | Some vs \<Rightarrow> vs)
           @ [((if 0 \<le> ns_sampled_at r then ns_sampled_at r div 1000 else - (- ns_sampled_at r div 1000)), v)]) series)
       rows []"

definition time_steps :: "int list \<Rightarrow> int list" where
  "time_steps ordered = map (\<lambda>(a, b). (b - a) div MICROSECONDS) (zip ordered (tl ordered))"

definition step_seconds :: "hotspot_settings \<Rightarrow> node_sample list \<Rightarrow> int" where
  "step_seconds C rows =
     (let ordered = sorted_set (map ns_sampled_at rows)
      in if 2 \<le> length ordered then max (Min (set (time_steps ordered))) 1 else max (ho_snapshot_interval C) 1)"

definition window_samples :: "hotspot_settings \<Rightarrow> int \<Rightarrow> int \<Rightarrow> node_sample list \<Rightarrow> node_sample list" where
  "window_samples C start_time end_time rows =
     sort_key ns_sampled_at (sort_key ns_node
       (filter (\<lambda>r. ns_cluster r = ho_cluster C \<and> start_time \<le> ns_sampled_at r \<and> ns_sampled_at r \<le> end_time) rows))"

definition cluster_node_hotspots ::
  "hotspot_settings \<Rightarrow> int \<Rightarrow> int \<Rightarrow> rat \<Rightarrow> int \<Rightarrow> ('m hotspot_store, hotspots_answer) meth" where
  "cluster_node_hotspots C start_time end_time threshold limit =
     (if end_time \<le> start_time then mraise (ValueError ''start must be earlier than end'')
      else mwith (\<lambda>s.
        let rows = window_samples C start_time end_time (hs_samples s) in
        mlift (rbind (build_hotspot_events
            [(''cpu'', series_of ns_cpu_usage rows), (''memory'', series_of ns_memory_usage rows)]
            threshold (step_seconds C rows) limit) (\<lambda>events.
          Inr \<lparr>ha_start = iso_text CHR ''T'' start_time, ha_end = iso_text CHR ''T'' end_time,
               ha_threshold = threshold, ha_events = events\<rparr>))))"


section \<open>Invariant\<close>

text \<open>One sample of a node at a time; a turn deletes nothing that is younger than the retention.\<close>

definition samples_ok :: "'m hotspot_store \<Rightarrow> bool" where
  "samples_ok s \<longleftrightarrow> distinct (map sample_key (hs_samples s))"

lemma upsert_sample_keys:
  "map sample_key (upsert_sample r rows)
     = map sample_key rows @ (if sample_key r \<in> sample_key ` set rows then [] else [sample_key r])"
  by (auto simp: upsert_sample_def sample_key_def)

lemma upserts_distinct:
  "distinct (map sample_key rows) \<Longrightarrow> distinct (map sample_key (fold upsert_sample rs rows))"
  by (induction rs arbitrary: rows) (auto simp: upsert_sample_keys)

lemma upserts_keep:
  "sample_key ` set rows \<subseteq> sample_key ` set (fold upsert_sample rs rows)"
proof (induction rs arbitrary: rows)
  case (Cons r rs)
  have "sample_key ` set rows \<subseteq> sample_key ` set (upsert_sample r rows)"
    by (metis Un_upper1 image_set set_append upsert_sample_keys)
  with Cons [of "upsert_sample r rows"] show ?case by simp
qed simp

lemma keeps_on_prometheus: "(\<And>s m. P s = P (s\<lparr>hs_prometheus := m\<rparr>)) \<Longrightarrow> keeps P (on_prometheus f)"
  by (auto simp: keeps_def on_prometheus_def split: prod.splits)

lemma samples_ok_turn: "keeps samples_ok (hotspot_turn M C now1 now2)"
  unfolding hotspot_turn_def capture_snapshot_def samples_cleanup_def Let_def
  by (intro keeps_intros keeps_on_prometheus keeps_mupd)
    (auto simp: samples_ok_def upserts_distinct distinct_map_filter)

lemma turn_keeps_young:
  assumes "r \<in> set (hs_samples s)" and "now2 - max (ho_retention_days C) 1 * 86400 * MICROSECONDS \<le> ns_sampled_at r"
  shows "\<exists>r' \<in> set (hs_samples (snd (hotspot_turn M C now1 now2 s))). sample_key r' = sample_key r"
proof -
  obtain res m where prom: "node_instant_metrics_all M (ho_db C) (ho_hostname_label C) (hs_prometheus s) = (res, m)"
    by (cases "node_instant_metrics_all M (ho_db C) (ho_hostname_label C) (hs_prometheus s)")
  show ?thesis
  proof (cases res)
    case (Inl e)
    with prom assms(1) show ?thesis
      by (auto simp: hotspot_turn_def capture_snapshot_def on_prometheus_def mbind_def mcatch_def)
  next
    case (Inr nodes)
    obtain r' where r': "r' \<in> set (fold upsert_sample (map (sample_row C now1) nodes) (hs_samples s))"
        "sample_key r' = sample_key r"
      using upserts_keep [of "hs_samples s" "map (sample_row C now1) nodes"] assms(1) by fastforce
    then have "ns_sampled_at r' = ns_sampled_at r" by (simp add: sample_key_def)
    with Inr prom assms(2) r' show ?thesis
      by (auto simp: hotspot_turn_def capture_snapshot_def samples_cleanup_def on_prometheus_def mbind_def mcatch_def Let_def)
  qed
qed

end
