(* ===== verification/AgentRequests.thy ===== *)
theory AgentRequests
  imports IsoTimes SlurmCached UsersStore AccessControlStore UserAnalytics HotspotStore
begin

text \<open>
  What the views of the agent share, from \<open>views/agent.py\<close>: the application object, the request and
  the reply, the query arguments, the two decorators that check permissions and translate the errors
  of slurmrestd, the ownership of jobs and the answers of write operations. The tokens are checked by
  the RFL library: what it finds out is part of the request. Flask's \<open>abort\<close> is the exception
  \<open>HttpAbort\<close>; any other exception that leaves a view is the status 500 of Flask.
\<close>

section \<open>Application, request, reply\<close>

text \<open>
  The objects the application keeps: the cached slurmrestd client, the job history with the database and
  the daily statistics, the samples of the nodes with Prometheus. The settings, the optional services and
  the outside world are the record \<open>agent\<close>; the cache is present if the settings enable it.
\<close>

record ('w, 'r, 'p, 'm) app =
  ap_analytics :: "(('w, 'r) cached_srd, 'p) analytics"
  ap_hotspots :: "'m hotspot_store"

record ('w, 'r, 'p, 'm) agent =
  ag_redis :: "'r redis"
  ag_settings :: settings
  ag_stats_expiration :: int
  ag_analysis_expiration :: int
  ag_outside :: "'w outside"
  ag_in_nodeset :: "string \<Rightarrow> string \<Rightarrow> bool res"
  ag_postgres :: "'p postgres"
  ag_texts :: sql_texts
  ag_text_column :: "pv \<Rightarrow> string option res" \<comment> \<open>what a column of texts stores of a value\<close>
  ag_prometheus :: "'m prometheus"
  ag_policy :: file_policy
  ag_legacy_map :: legacy_map
  ag_access_enabled :: bool
  ag_access_store :: bool
  ag_users_store :: bool
  ag_jobs_store :: bool
  ag_user_metrics :: bool
  ag_metrics_db :: "metrics_db option"
  ag_node_metrics_db :: "metrics_db option"
  ag_hotspots :: "hotspot_settings option"
  ag_hostname_label :: string

record web_request =
  rq_args :: "(string \<times> string) list" \<comment> \<open>the query string\<close>
  rq_json :: pv \<comment> \<open>\<open>get_json(silent=True)\<close>\<close>
  rq_token_user :: "user option res" \<comment> \<open>\<open>request.user\<close> after \<open>_get_token_user\<close>\<close>
  rq_jwt_user :: "user res" \<comment> \<open>\<open>request.user\<close> after \<open>check_jwt\<close>\<close>
  rq_fullname :: "string option"
  rq_groups :: "string list"
  rq_clock :: "nat \<Rightarrow> int" \<comment> \<open>the readings of the clock\<close>

datatype body =
    Json pv
  | RolesBody "role_row list"
  | RoleBody role_row
  | UsersBody users_page
  | UserBody "user_detail option"
  | LdapUsersBody ldap_users_page
  | HistoryBody metrics_history
  | AnalysisBody tool_analysis
  | CatalogBody access_catalog

type_synonym reply = "nat \<times> body"
type_synonym ('w, 'r, 'p, 'm) view = "(('w, 'r, 'p, 'm) app, reply) meth"

definition on_analytics ::
  "((('w, 'r) cached_srd, 'p) analytics, 'a) meth \<Rightarrow> (('w, 'r, 'p, 'm) app, 'a) meth" where
  "on_analytics f s = (case f (ap_analytics s) of (r, x) \<Rightarrow> (r, s\<lparr>ap_analytics := x\<rparr>))"

definition on_hotspots :: "('m hotspot_store, 'a) meth \<Rightarrow> (('w, 'r, 'p, 'm) app, 'a) meth" where
  "on_hotspots f s = (case f (ap_hotspots s) of (r, x) \<Rightarrow> (r, s\<lparr>ap_hotspots := x\<rparr>))"

definition app_db :: "('w, 'r, 'p, 'm) app \<Rightarrow> db" where
  "app_db s = jd_base (js_db (ua_jobs (ap_analytics s)))"

definition with_db :: "(db, 'a) meth \<Rightarrow> ((('w, 'r) cached_srd, 'p) analytics, 'a) meth" where
  "with_db f s =
     (case f (jd_base (js_db (ua_jobs s))) of
        (r, db) \<Rightarrow> (r, s\<lparr>ua_jobs := ua_jobs s\<lparr>js_db := js_db (ua_jobs s)\<lparr>jd_base := db\<rparr>\<rparr>\<rparr>))"

definition on_db :: "(db, 'a) meth \<Rightarrow> (('w, 'r, 'p, 'm) app, 'a) meth" where
  "on_db f = on_analytics (with_db f)"

definition on_client :: "(('w, 'r) cached_srd, 'a) meth \<Rightarrow> (('w, 'r, 'p, 'm) app, 'a) meth" where
  "on_client f = on_analytics (on_jobs (on_source f))"

definition jsonify :: "pv \<Rightarrow> (('w, 'r, 'p, 'm) app, reply) meth" where
  "jsonify v = mret (200, Json v)"

definition abort_with :: "nat \<Rightarrow> string \<Rightarrow> ('s, 'a) meth" where
  "abort_with code msg = mraise (HttpAbort code msg)"

text \<open>\<open>str(err)\<close>. The messages of the interpreter's own exceptions are those of the model.\<close>

fun exn_str :: "exn \<Rightarrow> string" where
  "exn_str (KeyError k) = repr_str k"
| "exn_str IndexError = ''list index out of range''"
| "exn_str (TypeError m) = m"
| "exn_str (ValueError m) = m"
| "exn_str (AttributeError m) = m"
| "exn_str (SlurmrestConnectionError m) = m"
| "exn_str (SlurmrestdAuthenticationError m) = m"
| "exn_str (SlurmrestdNotFoundError m) = m"
| "exn_str (SlurmrestdInvalidResponseError m) = m"
| "exn_str (SlurmrestdInternalError m err d src) =
     ''SlurwebRestdError('' @ py_join '', '' (map py_str [m, err, d, src]) @ '')''"
| "exn_str (SlurmwebConfigurationError m) = m"
| "exn_str (SlurmwebCacheError m) = m"
| "exn_str (SlurmwebMetricsDBError m) = m"
| "exn_str (SlurmwebAgentError m) = m"
| "exn_str (LDAPAuthenticationError m) = m"
| "exn_str (ClientConnectionError m) = m"
| "exn_str (ContentTypeError m) = m"
| "exn_str (ClientError m) = m"
| "exn_str (FileError denied m) = m"
| "exn_str (TemplateNotFound m) = m"
| "exn_str (AIAgentInterfaceError code m) = m"
| "exn_str (AIToolError denied m where_at) = m"
| "exn_str (AIRequestError m) = m"
| "exn_str (AIValueError cls m) = m"
| "exn_str (BackendError m) = m"
| "exn_str (HttpAbort code m) = m"


section \<open>Query arguments\<close>

text \<open>\<open>request.args.get(name)\<close>: the first value.\<close>

definition query_arg :: "web_request \<Rightarrow> string \<Rightarrow> string option" where
  "query_arg q name = map_of (rq_args q) name"

definition query_pv :: "web_request \<Rightarrow> string \<Rightarrow> pv" where
  "query_pv q name = (case query_arg q name of None \<Rightarrow> VNone | Some s \<Rightarrow> VStr s)"

definition positive_int_query_arg :: "web_request \<Rightarrow> string \<Rightarrow> int \<Rightarrow> int" where
  "positive_int_query_arg q name dflt =
     (case py_int (case query_arg q name of None \<Rightarrow> VInt dflt | Some s \<Rightarrow> VStr s) of
        Inl _ \<Rightarrow> dflt
      | Inr n \<Rightarrow> max n 1)"

definition replace_zulu :: "string \<Rightarrow> string" where
  "replace_zulu s = concat (map (\<lambda>c. if c = CHR ''Z'' then ''+00:00'' else [c]) s)"

text \<open>The conversion to UTC leaves the calendar of Python at its two ends.\<close>

definition as_utc :: "int \<times> int option \<Rightarrow> int res" where
  "as_utc t =
     (let us = utc_of t in
      if us < days_of_civil 1 1 1 * 86400000000 \<or> days_of_civil 10000 1 1 * 86400000000 \<le> us
      then Inl (BackendError ''OverflowError'') else Inr us)"

definition parse_iso_datetime_query_arg :: "web_request \<Rightarrow> string \<Rightarrow> int option res" where
  "parse_iso_datetime_query_arg q name =
     (case query_arg q name of
        None \<Rightarrow> Inr None
      | Some v \<Rightarrow>
          if v = [] then Inr None
          else case fromisoformat (replace_zulu v) of
            Inl _ \<Rightarrow> Inl (ValueError (name @ '' must be a valid ISO 8601 datetime''))
          | Inr t \<Rightarrow> rbind (as_utc t) (\<lambda>us. Inr (Some us)))"

definition parse_metrics_window_query_args :: "web_request \<Rightarrow> (int option \<times> int option) res" where
  "parse_metrics_window_query_args q =
     rbind (parse_iso_datetime_query_arg q ''start'') (\<lambda>start_time.
     rbind (parse_iso_datetime_query_arg q ''end'') (\<lambda>end_time.
     case (start_time, end_time) of
       (None, None) \<Rightarrow> Inr (None, None)
     | (Some a, Some b) \<Rightarrow>
         if b \<le> a then Inl (ValueError ''start must be earlier than end'') else Inr (Some a, Some b)
     | _ \<Rightarrow> Inl (ValueError ''start and end must both be provided'')))"

definition query_values :: "web_request \<Rightarrow> string \<Rightarrow> string list" where
  "query_values q name =
     concat (map (\<lambda>(k, raw). if k = name
        then map py_strip (filter (\<lambda>item. py_strip item \<noteq> []) (py_split CHR '','' raw)) else [])
       (rq_args q))"

definition JOBS_QUERY_ARGS :: "string list" where
  "JOBS_QUERY_ARGS = [''users'', ''states'', ''accounts'', ''qos'', ''partitions'']"

definition jobs_query_args :: "web_request \<Rightarrow> pdict" where
  "jobs_query_args q =
     concat (map (\<lambda>arg. let vs = query_values q arg in if vs = [] then [] else [(arg, VList (map VStr vs))])
       JOBS_QUERY_ARGS)"

text \<open>\<open>request.get_json(silent=True) or {}\<close>, and the objects among them.\<close>

definition json_or_empty :: "web_request \<Rightarrow> pv" where
  "json_or_empty q = py_or (rq_json q) (VDict [])"

definition job_payload :: "web_request \<Rightarrow> pv res" where
  "job_payload q =
     (let payload = json_or_empty q in
      if is_dict payload then Inr payload else Inl (HttpAbort 400 ''Request body must be a JSON object''))"

definition number :: "pv \<Rightarrow> rat \<Rightarrow> rat" where
  "number v dflt = (if none_or_empty v then dflt else case py_float v of Inl _ \<Rightarrow> dflt | Inr n \<Rightarrow> n)"

definition safe_int :: "pv \<Rightarrow> int \<Rightarrow> int" where
  "safe_int v dflt = (if none_or_empty v then dflt else case py_int v of Inl _ \<Rightarrow> dflt | Inr n \<Rightarrow> n)"

definition sorted_strings :: "pv list \<Rightarrow> string list" where
  "sorted_strings vs = sort (map py_str (filter (\<lambda>v. \<not> none_or_empty v) vs))"

section \<open>Permissions\<close>

text \<open>The policy manager with the store it has; \<open>am_store\<close> answers from the tables of the moment.\<close>

definition policy_of :: "('w, 'r, 'p, 'm) agent \<Rightarrow> ('w, 'r, 'p, 'm) app \<Rightarrow> manager" where
  "policy_of A s =
     \<lparr>am_file_policy = ag_policy A, am_enabled = ag_access_enabled A,
      am_store = (if ag_access_store A then Some (user_permissions (ag_legacy_map A) (app_db s)) else None),
      am_legacy_map = ag_legacy_map A\<rparr>"

text \<open>A scope is a text, or a function called with the arguments of the view.\<close>

datatype scope_spec = Scope string | ScopeOf "user \<Rightarrow> string"

fun resolved_scope :: "scope_spec \<Rightarrow> user \<Rightarrow> string" where
  "resolved_scope (Scope s) u = s"
| "resolved_scope (ScopeOf f) u = f u"

type_synonym requirement = "string \<times> string \<times> scope_spec"

definition any_requirement :: "manager \<Rightarrow> user \<Rightarrow> requirement list \<Rightarrow> bool res" where
  "any_requirement m u requirements =
     rany (\<lambda>(resource, operation, scope).
       allowed_user_permission m u resource operation (resolved_scope scope u)) requirements"

definition anonymous_message :: "string option \<Rightarrow> string" where
  "anonymous_message legacy =
     (case legacy of
        None \<Rightarrow> ''Access not permitted''
      | Some a \<Rightarrow> ''Anonymous role is not allowed to perform action '' @ a)"

definition permission_required ::
  "('w, 'r, 'p, 'm) agent \<Rightarrow> web_request \<Rightarrow> requirement list \<Rightarrow> string option
   \<Rightarrow> (user \<Rightarrow> ('w, 'r, 'p, 'm) view) \<Rightarrow> ('w, 'r, 'p, 'm) view" where
  "permission_required A q requirements legacy func =
     mbind (mlift (rq_token_user q)) (\<lambda>token_user.
     case token_user of
       None \<Rightarrow> abort_with 403 ''Not allowed to access endpoint without bearer token''
     | Some u \<Rightarrow> mwith (\<lambda>s.
         let m = policy_of A s in
         if is_anonymous u \<and> access_control_available m then abort_with 403 (anonymous_message legacy)
         else mbind (mlift (any_requirement m u requirements)) (\<lambda>granted.
           if granted then func u
           else if is_anonymous u then abort_with 403 (anonymous_message legacy)
           else abort_with 403 ''Access not permitted'')))"

definition require_permission_scope ::
  "('w, 'r, 'p, 'm) agent \<Rightarrow> user \<Rightarrow> string \<Rightarrow> string \<Rightarrow> (('w, 'r, 'p, 'm) app, string) meth" where
  "require_permission_scope A u resource operation = mwith (\<lambda>s.
     let m = policy_of A s in
     mbind (mlift (allowed_user_permission m u resource operation ''*'')) (\<lambda>all.
     if all then mret ''*''
     else mbind (mlift (allowed_user_permission m u resource operation ''self'')) (\<lambda>own.
       if own then (if login u = [] then abort_with 403 ''Access not permitted'' else mret ''self'')
       else abort_with 403 ''Access not permitted'')))"

definition sorted_names :: "string list \<Rightarrow> pv" where
  "sorted_names names = VList (map VStr (sorted_strings (map VStr (remdups names))))"

definition permission_set_payload :: "permission_set \<Rightarrow> pdict" where
  "permission_set_payload p =
     [(''roles'', sorted_names (ps_roles p)), (''actions'', sorted_names (ps_actions p)),
      (''rules'', sorted_names (ps_rules p))]"

definition permission_payload :: "manager \<Rightarrow> user \<Rightarrow> pv res" where
  "permission_payload m u =
     rbind (roles_actions_sources m u) (\<lambda>merged.
     Inr (VDict (permission_set_payload (src_merged merged) @ [(''sources'',
       VDict [(''policy'', VDict (permission_set_payload (src_policy merged))),
              (''custom'', VDict (permission_set_payload (src_custom merged))),
              (''merged'', VDict (permission_set_payload (src_merged merged)))])])))"

definition require_access_control :: "('w, 'r, 'p, 'm) agent \<Rightarrow> (('w, 'r, 'p, 'm) app, unit) meth" where
  "require_access_control A =
     (if \<not> ag_access_enabled A \<or> \<not> ag_access_store A then abort_with 501 ''Access control is disabled''
      else mret ())"

definition access_page_args :: "web_request \<Rightarrow> string option \<times> int \<times> int" where
  "access_page_args q =
     (query_arg q ''username'', positive_int_query_arg q ''page'' 1,
      min (positive_int_query_arg q ''page_size'' 50) 200)"

record role_payload_fields =
  rp_name :: string
  rp_description :: pv
  rp_actions :: "string list"
  rp_permissions :: "string list"

definition payload_list :: "string \<Rightarrow> string \<Rightarrow> pdict \<Rightarrow> pv list res" where
  "payload_list key message payload =
     (case py_or (dget key payload) (VList []) of
        VList xs \<Rightarrow> Inr xs
      | _ \<Rightarrow> Inl (HttpAbort 400 message))"

definition role_payload :: "manager \<Rightarrow> web_request \<Rightarrow> role_payload_fields res" where
  "role_payload m q =
     rbind (as_dict (json_or_empty q)) (\<lambda>payload.
     let name = py_strip (py_str (dget_or ''name'' (VStr []) payload)) in
     if name = [] then Inl (HttpAbort 400 ''Role name is required'') else
     rbind (payload_list ''actions'' ''Role actions must be a list'' payload) (\<lambda>given_actions.
     let actions = sorted_strings given_actions in
     rbind (payload_list ''permissions'' ''Role permissions must be a list'' payload) (\<lambda>given_permissions.
     rbind (action_rules m actions) (\<lambda>implied.
     rbind (normalize_rules (given_permissions @ map VStr implied)) (\<lambda>permissions.
     let invalid = sorted_set (filter (\<lambda>a. a \<notin> set (fp_definition_actions (am_file_policy m))) actions) in
     if invalid \<noteq> [] then Inl (HttpAbort 400 (''Unknown role actions: '' @ py_join '', '' invalid))
     else rbind (if actions = [] then permission_rules_to_legacy_actions permissions (am_legacy_map m)
                 else Inr actions) (\<lambda>final_actions.
       Inr \<lparr>rp_name = name, rp_description = dget ''description'' payload, rp_actions = final_actions,
            rp_permissions = permissions\<rparr>))))))"


section \<open>Errors of slurmrestd\<close>

definition internal_error_text :: "pv \<Rightarrow> pv \<Rightarrow> pv \<Rightarrow> pv \<Rightarrow> string" where
  "internal_error_text msg err description source =
     ''slurmrestd error: '' @ py_str description @ '' ('' @ py_str source @ '')''
     @ (if err = VInt (- 1) \<or> err = VFloat (- 1) then []
        else '' ['' @ py_str msg @ ''/'' @ py_str err @ '']'')"

fun slurmrestd_abort :: "exn \<Rightarrow> exn" where
  "slurmrestd_abort (SlurmrestdNotFoundError m) = HttpAbort 404 (''URL not found on slurmrestd: '' @ m)"
| "slurmrestd_abort (SlurmrestdInvalidResponseError m) =
     HttpAbort 500 (''Invalid response from slurmrestd: '' @ m)"
| "slurmrestd_abort (SlurmrestConnectionError m) =
     HttpAbort 500 (''Unable to connect to slurmrestd: '' @ m)"
| "slurmrestd_abort (SlurmrestdAuthenticationError m) =
     HttpAbort 401 (''Authentication error on slurmrestd: '' @ m)"
| "slurmrestd_abort (SlurmrestdInternalError m err d src) = HttpAbort 500 (internal_error_text m err d src)"
| "slurmrestd_abort (SlurmwebCacheError m) = HttpAbort 500 (''Cache error: '' @ m)"
| "slurmrestd_abort e = e"

definition handle_slurmrestd_errors :: "('s, 'a) meth \<Rightarrow> ('s, 'a) meth" where
  "handle_slurmrestd_errors func = mcatch func (\<lambda>e. mraise (slurmrestd_abort e))"

text \<open>\<open>except ValueError\<close> (400) and \<open>except Exception\<close> (500), as the views of the stores have them.\<close>

definition except_500 :: "('s, 'a) meth \<Rightarrow> ('s, 'a) meth" where
  "except_500 func = mcatch func (\<lambda>e. abort_with 500 (exn_str e))"

definition except_400_500 :: "('s, 'a) meth \<Rightarrow> ('s, 'a) meth" where
  "except_400_500 func =
     mcatch func (\<lambda>e. case e of ValueError m \<Rightarrow> abort_with 400 m | _ \<Rightarrow> abort_with 500 (exn_str e))"


section \<open>Jobs and their owners\<close>

definition job_owner :: "pdict \<Rightarrow> pv" where
  "job_owner job_data =
     (let user = (case dget ''association'' job_data of VDict a \<Rightarrow> dget ''user'' a | _ \<Rightarrow> VNone);
          user_name = dget ''user_name'' job_data
      in if truthy user then user
         else if truthy user_name then user_name
         else if truthy (dget ''user'' job_data) then dget ''user'' job_data
         else VNone)"

definition filter_jobs_for_owner :: "pv \<Rightarrow> string \<Rightarrow> pv res" where
  "filter_jobs_for_owner listing owner =
     rbind (py_iter listing) (\<lambda>xs.
     rbind (rmap as_dict xs) (\<lambda>ds.
     Inr (VList (map VDict (filter (\<lambda>d. job_owner d = VStr owner) ds)))))"

definition slurmrest :: "(('w, 'r) cached_srd, 'a) meth \<Rightarrow> (('w, 'r, 'p, 'm) app, 'a) meth" where
  "slurmrest m = handle_slurmrestd_errors (on_client m)"

text \<open>\<open>current_app.slurmrestd.job(job_id)\<close>, and the test of the owner after it.\<close>

definition authorize_job_owner ::
  "('w, 'r, 'p, 'm) agent \<Rightarrow> user \<Rightarrow> int \<Rightarrow> string \<Rightarrow> (('w, 'r, 'p, 'm) app, pv) meth" where
  "authorize_job_owner A u job_id operation =
     mbind (require_permission_scope A u ''jobs'' operation) (\<lambda>scope.
     mbind (on_client (SlurmCached.job (ag_redis A) (ag_settings A) (ag_outside A) job_id)) (\<lambda>job_data.
     if scope = ''*'' then mret job_data
     else mbind (mlift (as_dict job_data)) (\<lambda>d.
       if job_owner d = VNone \<or> job_owner d \<noteq> VStr (login u) then abort_with 403 ''Access not permitted''
       else mret job_data)))"


section \<open>Write operations\<close>

text \<open>\<open>None\<close> if slurmrestd supports the operation, else the reply.\<close>

definition ensure_write_supported ::
  "('w, 'r, 'p, 'm) agent \<Rightarrow> string \<Rightarrow> (('w, 'r, 'p, 'm) app, reply option) meth" where
  "ensure_write_supported A operation =
     mbind (on_client (on_srd (discover (ag_outside A)))) (\<lambda>(_, _, api_version).
     mbind (on_client (on_srd (supports_write_operations (ag_outside A)))) (\<lambda>supported.
     if supported then mret None
     else mret (Some (501, Json (VDict
       [(''code'', VStr ''unsupported_on_version''), (''supported'', VBool False), (''operation'', VStr operation),
        (''target'', VNone), (''api_version'', VStr api_version), (''warnings'', VList []),
        (''errors'', VList [VStr (operation @ '' is unsupported on slurmrestd API '' @ api_version)]),
        (''result'', VNone)])))))"

definition operation_response ::
  "('w, 'r, 'p, 'm) agent \<Rightarrow> string \<Rightarrow> pv \<Rightarrow> pv \<Rightarrow> nat \<Rightarrow> ('w, 'r, 'p, 'm) view" where
  "operation_response A operation target response status =
     mbind (on_client (on_srd (mwith (\<lambda>s. case sd_api_version s of
         Some v \<Rightarrow> if v \<noteq> [] then mret v else mbind (discover (ag_outside A)) (\<lambda>(_, _, v). mret v)
       | None \<Rightarrow> mbind (discover (ag_outside A)) (\<lambda>(_, _, v). mret v))))) (\<lambda>api_version.
     mbind (mlift (as_dict response)) (\<lambda>d.
     mret (status, Json (VDict
       [(''supported'', VBool True), (''operation'', VStr operation), (''target'', target),
        (''api_version'', VStr api_version), (''warnings'', dget_or ''warnings'' (VList []) d),
        (''errors'', dget_or ''errors'' (VList []) d),
        (''result'', VDict (filter (\<lambda>(key, _). key \<notin> {''meta'', ''warnings'', ''errors''}) d))]))))"

definition when_supported ::
  "('w, 'r, 'p, 'm) agent \<Rightarrow> string \<Rightarrow> ('w, 'r, 'p, 'm) view \<Rightarrow> ('w, 'r, 'p, 'm) view" where
  "when_supported A operation func =
     mbind (ensure_write_supported A operation) (\<lambda>unsupported.
       case unsupported of Some r \<Rightarrow> mret r | None \<Rightarrow> func)"


section \<open>The cache of a view\<close>

definition cache_get_or_put ::
  "('w, 'r, 'p, 'm) agent \<Rightarrow> cache_key \<Rightarrow> int \<Rightarrow> (('w, 'r, 'p, 'm) app, pv) meth \<Rightarrow> (('w, 'r, 'p, 'm) app, pv) meth" where
  "cache_get_or_put A key expiration callback =
     (if \<not> ca_enabled (st_cache (ag_settings A)) then callback
      else let R = ag_redis A in
        mbind (on_client (on_cache (cache_get R key))) (\<lambda>data.
        if data = VNone then
          mbind callback (\<lambda>data.
          mbind (on_client (on_cache (cache_put R key data expiration))) (\<lambda>_.
          mbind (on_client (on_cache (count_miss R key))) (\<lambda>_. mret data)))
        else mbind (on_client (on_cache (count_hit R key))) (\<lambda>_. mret data)))"

end
