(* ===== verification/AgentAnalysis.thy ===== *)
theory AgentAnalysis
  imports AgentRequests
begin

text \<open>
  The analysis of the agent, from \<open>views/agent.py\<close>: statistics of the cluster, waiting times, pending
  reasons, pressure on the partitions, and the context of the analysis page with its score. The names of
  partitions and the reasons are texts.
\<close>

section \<open>History records\<close>

definition normalize_job_history_record :: "pv \<Rightarrow> pv res" where
  "normalize_job_history_record record_value =
     rbind (as_dict record_value) (\<lambda>d.
       Inr (VDict (dset ''exit_code'' (normalize_history_exit_code (dget ''exit_code'' d)) d)))"

text \<open>The time a job waited, if its two times are numbers.\<close>

definition record_wait :: "pv \<Rightarrow> int list res" where
  "record_wait r =
     rbind (as_dict r) (\<lambda>d.
     let submit_time = dget ''submit_time'' d; start_time = dget ''start_time'' d in
     if none_or_empty submit_time \<or> none_or_empty start_time then Inr []
     else Inr (case (py_int start_time, py_int submit_time) of
         (Inr b, Inr a) \<Rightarrow> [max (b - a) 0]
       | _ \<Rightarrow> []))"

record wait_stats =
  ws_samples :: nat
  ws_median_seconds :: "int option"
  ws_p90_seconds :: "int option"
  ws_average_seconds :: "rat option"

definition no_wait_stats :: wait_stats where
  "no_wait_stats = \<lparr>ws_samples = 0, ws_median_seconds = None, ws_p90_seconds = None, ws_average_seconds = None\<rparr>"

definition history_wait_stats :: "pv list \<Rightarrow> wait_stats res" where
  "history_wait_stats records =
     rbind (rmap record_wait records) (\<lambda>found.
     let waits = sort (concat found); last_index = length waits - 1 in
     if waits = [] then Inr no_wait_stats
     else Inr \<lparr>ws_samples = length waits, ws_median_seconds = Some (waits ! (last_index div 2)),
       ws_p90_seconds = Some (waits ! min (last_index * 9 div 10) last_index),
       ws_average_seconds = Some (py_round 1 (of_int (sum_list waits) / of_nat (length waits)))\<rparr>)"


section \<open>Jobs and nodes\<close>

text \<open>\<open>job.get("job_state") or []\<close>, a text being one state.\<close>

definition job_states :: "pdict \<Rightarrow> pv" where
  "job_states j =
     (case py_or (dget ''job_state'' j) (VList []) of VStr s \<Rightarrow> VList [VStr s] | v \<Rightarrow> v)"

definition has_state :: "string \<Rightarrow> pdict \<Rightarrow> bool res" where
  "has_state st j = py_contains st (job_states j)"

definition count_reason :: "pv \<Rightarrow> nat \<times> (string \<times> nat) list \<Rightarrow> (nat \<times> (string \<times> nat) list) res" where
  "count_reason j c =
     rbind (as_dict j) (\<lambda>d.
     rbind (has_state ''PENDING'' d) (\<lambda>pending.
     if \<not> pending then Inr c
     else case py_or (dget ''state_reason'' d) (VStr ''Unknown'') of
         VStr reason \<Rightarrow> Inr (fst c + 1,
           dset reason ((case map_of (snd c) reason of None \<Rightarrow> 0 | Some n \<Rightarrow> n) + 1) (snd c))
       | _ \<Rightarrow> Inl (TypeError ''reason'')))"

record pending_reason =
  pr_reason :: string
  pr_count :: nat
  pr_share :: rat

definition top_pending_reasons :: "pv list \<Rightarrow> nat \<Rightarrow> pending_reason list res" where
  "top_pending_reasons job_list limit =
     rbind (rfold count_reason job_list (0, [])) (\<lambda>(pending_total, counts).
     Inr (map (\<lambda>(reason, count). \<lparr>pr_reason = reason, pr_count = count,
            pr_share = py_round 3 (of_nat count / of_nat pending_total)\<rparr>)
       (take limit (sort_key (\<lambda>(_, count). - int count) (sort_key fst counts)))))"

definition node_main_state :: "pv \<Rightarrow> string" where
  "node_main_state state =
     (let vs = (case state of VList xs \<Rightarrow> xs | v \<Rightarrow> [v]);
          normalized = map (\<lambda>v. py_upper (py_str v)) (filter (\<lambda>v. \<not> none_or_empty v) vs)
      in if list_ex (\<lambda>s. s \<in> set normalized) [''DOWN'', ''DRAIN'', ''DRAINED'', ''FAIL'', ''FAILING''] then ''down''
         else if ''IDLE'' \<in> set normalized then ''up''
         else if ''ALLOCATED'' \<in> set normalized \<or> ''MIXED'' \<in> set normalized then ''busy''
         else ''unknown'')"

text \<open>The processors of a job, an optional number of slurmrestd.\<close>

definition job_cpus :: "pdict \<Rightarrow> int" where
  "job_cpus j =
     (case dget ''cpus'' j of
        VDict c \<Rightarrow> if truthy (dget ''set'' c) \<and> \<not> truthy (dget ''infinite'' c) then safe_int (dget ''number'' c) 0 else 0
      | _ \<Rightarrow> 0)"

record pressure =
  pp_name :: string
  pp_pending_jobs :: int
  pp_running_jobs :: int
  pp_pending_cpu :: int
  pp_running_cpu :: int
  pp_schedulable_cpu :: int
  pp_total_cpu :: int
  pp_status :: string

definition new_pressure :: "string \<Rightarrow> pressure" where
  "new_pressure name =
     \<lparr>pp_name = name, pp_pending_jobs = 0, pp_running_jobs = 0, pp_pending_cpu = 0, pp_running_cpu = 0,
      pp_schedulable_cpu = 0, pp_total_cpu = 0, pp_status = ''stable''\<rparr>"

definition change_pressure ::
  "string \<Rightarrow> (pressure \<Rightarrow> pressure) \<Rightarrow> (string \<times> pressure) list \<Rightarrow> (string \<times> pressure) list" where
  "change_pressure name f parts =
     dset name (f (case map_of parts name of None \<Rightarrow> new_pressure name | Some e \<Rightarrow> e)) parts"

definition add_node_part :: "int \<Rightarrow> bool \<Rightarrow> pv \<Rightarrow> (string \<times> pressure) list \<Rightarrow> (string \<times> pressure) list res" where
  "add_node_part cpus up name parts =
     (case name of
        VStr n \<Rightarrow> Inr (change_pressure n (\<lambda>e. e\<lparr>pp_total_cpu := pp_total_cpu e + cpus,
          pp_schedulable_cpu := pp_schedulable_cpu e + (if up then cpus else 0)\<rparr>) parts)
      | _ \<Rightarrow> Inl (TypeError ''partition''))"

definition add_node_pressure :: "pv \<Rightarrow> (string \<times> pressure) list \<Rightarrow> (string \<times> pressure) list res" where
  "add_node_pressure nd parts =
     rbind (as_dict nd) (\<lambda>d.
     rbind (py_iter (py_or (dget ''partitions'' d) (VList []))) (\<lambda>names.
     rfold (add_node_part (safe_int (dget ''cpus'' d) 0) (node_main_state (dget ''state'' d) = ''up'')) names parts))"

definition add_job_pressure :: "pv \<Rightarrow> (string \<times> pressure) list \<Rightarrow> (string \<times> pressure) list res" where
  "add_job_pressure j parts =
     rbind (as_dict j) (\<lambda>d.
     let name = py_str (py_or (dget ''partition'' d) (VStr ''unknown'')); cpus = job_cpus d in
     rbind (has_state ''PENDING'' d) (\<lambda>pending.
     rbind (has_state ''RUNNING'' d) (\<lambda>running.
     rbind (if running then Inr True else has_state ''COMPLETING'' d) (\<lambda>active.
     Inr (change_pressure name (\<lambda>e. e\<lparr>
         pp_pending_jobs := pp_pending_jobs e + (if pending then 1 else 0),
         pp_pending_cpu := pp_pending_cpu e + (if pending then cpus else 0),
         pp_running_jobs := pp_running_jobs e + (if active then 1 else 0),
         pp_running_cpu := pp_running_cpu e + (if active then cpus else 0)\<rparr>) parts)))))"

definition pressure_status :: "pressure \<Rightarrow> string" where
  "pressure_status e =
     (let schedulable = rat_of_int (pp_schedulable_cpu e);
          pending_pressure = (if pp_schedulable_cpu e = 0 then 0 else of_int (pp_pending_cpu e) / schedulable);
          busy_pressure = (if pp_schedulable_cpu e = 0 then 0 else of_int (pp_running_cpu e) / schedulable)
      in if 0 < pp_pending_jobs e \<and> (2 / 5 < pending_pressure \<or> pp_running_jobs e < pp_pending_jobs e) then ''congested''
         else if 18 / 25 < busy_pressure \<or> 0 < pp_pending_jobs e then ''hot''
         else ''stable'')"

definition partition_pressure_summary :: "pv list \<Rightarrow> pv list \<Rightarrow> nat \<Rightarrow> pressure list res" where
  "partition_pressure_summary job_list node_list limit =
     rbind (rfold add_node_pressure node_list []) (\<lambda>parts.
     rbind (rfold add_job_pressure job_list parts) (\<lambda>parts.
     Inr (take limit (sort_key (\<lambda>e. - pp_pending_cpu e) (sort_key (\<lambda>e. - pp_pending_jobs e) (sort_key pp_name
       (map (\<lambda>(_, e). e\<lparr>pp_status := pressure_status e\<rparr>) parts)))))))"


section \<open>Statistics of the cluster\<close>

definition optional_number_value :: "pv \<Rightarrow> pv \<Rightarrow> pv" where
  "optional_number_value v dflt =
     (case v of
        VDict d \<Rightarrow> if \<not> truthy (dget_or ''set'' (VBool False) d) then dflt else dget_or ''number'' dflt d
      | VNone \<Rightarrow> dflt
      | _ \<Rightarrow> v)"

definition number_pv :: "rat \<Rightarrow> pv" where
  "number_pv q = (if of_int \<lfloor>q\<rfloor> = q then VInt \<lfloor>q\<rfloor> else VFloat q)"

record node_totals =
  nt_nodes :: int
  nt_cores :: rat
  nt_memory :: rat
  nt_memory_allocated :: rat
  nt_gpus :: int

definition count_running :: "pv \<Rightarrow> int \<times> int \<Rightarrow> (int \<times> int) res" where
  "count_running j c =
     rbind (py_item ''job_state'' j) (\<lambda>states. rbind (py_contains ''RUNNING'' states) (\<lambda>running.
       Inr (fst c + 1, snd c + (if running then 1 else 0))))"

definition add_node_totals :: "pv \<Rightarrow> node_totals \<Rightarrow> node_totals res" where
  "add_node_totals nd t =
     rbind (py_item ''cpus'' nd) (\<lambda>c. rbind (py_num c) (\<lambda>cores.
     rbind (py_get_or ''real_memory'' (VInt 0) nd) (\<lambda>rm. rbind (py_num rm) (\<lambda>real.
     rbind (py_get ''alloc_memory'' nd) (\<lambda>am. rbind (py_num (optional_number_value am (VInt 0))) (\<lambda>alloc.
     rbind (gpus_of ''gres'' nd) (\<lambda>gpus.
     let node_memory = max real 0 in
     Inr \<lparr>nt_nodes = nt_nodes t + 1, nt_cores = nt_cores t + cores, nt_memory = nt_memory t + node_memory,
          nt_memory_allocated = nt_memory_allocated t + min node_memory (max alloc 0),
          nt_gpus = nt_gpus t + gpus\<rparr>)))))))"

definition stats_payload :: "int \<times> int \<Rightarrow> node_totals \<Rightarrow> pv" where
  "stats_payload c t =
     VDict [(''resources'', VDict [(''nodes'', VInt (nt_nodes t)), (''cores'', number_pv (nt_cores t)),
              (''memory'', number_pv (nt_memory t)), (''memory_allocated'', number_pv (nt_memory_allocated t)),
              (''memory_available'', number_pv (max (nt_memory t - nt_memory_allocated t) 0)),
              (''gpus'', VInt (nt_gpus t))]),
            (''jobs'', VDict [(''running'', VInt (snd c)), (''total'', VInt (fst c))])]"

text \<open>The jobs and the nodes, of a partition or all; only the listing of all jobs translates its errors.\<close>

definition partition_query :: "string option \<Rightarrow> kwargs" where
  "partition_query part =
     (case part of None \<Rightarrow> no_kwargs
      | Some p \<Rightarrow> no_kwargs\<lparr>kw_query := Some (VDict [(''partition'', VStr p)])\<rparr>)"

definition collect_stats :: "('w, 'r, 'p, 'm) agent \<Rightarrow> string option \<Rightarrow> (('w, 'r, 'p, 'm) app, pv) meth" where
  "collect_stats A part =
     (let R = ag_redis A; S = ag_settings A; E = ag_outside A; kw = partition_query part in
      mbind (case part of None \<Rightarrow> slurmrest (SlurmCached.jobs R S E no_kwargs)
             | Some _ \<Rightarrow> on_client (SlurmCached.jobs R S E kw)) (\<lambda>jobs_data.
      mbind (mlift (rbind (py_iter jobs_data) (\<lambda>xs. rfold count_running xs (0, 0)))) (\<lambda>c.
      mbind (on_client (SlurmCached.nodes_unfiltered R S E kw)) (\<lambda>nodes_data.
      mlift (rbind (py_iter nodes_data) (\<lambda>ns.
        rbind (rfold add_node_totals ns
          \<lparr>nt_nodes = 0, nt_cores = 0, nt_memory = 0, nt_memory_allocated = 0, nt_gpus = 0\<rparr>) (\<lambda>t.
        Inr (stats_payload c t))))))))"

section \<open>The context of the analysis\<close>

record load_counts =
  lc_running_jobs :: int
  lc_pending_jobs :: int
  lc_running_cpu :: int
  lc_pending_cpu :: int
  lc_schedulable_nodes :: int
  lc_unavailable_nodes :: int
  lc_total_nodes :: int

definition count_node_state :: "pv \<Rightarrow> load_counts \<Rightarrow> load_counts res" where
  "count_node_state nd c =
     rbind (py_get ''state'' nd) (\<lambda>state.
     let main = node_main_state state in
     Inr (c\<lparr>lc_schedulable_nodes := lc_schedulable_nodes c + (if main = ''up'' then 1 else 0),
            lc_unavailable_nodes := lc_unavailable_nodes c + (if main = ''down'' then 1 else 0)\<rparr>))"

definition count_job_load :: "pv \<Rightarrow> load_counts \<Rightarrow> load_counts res" where
  "count_job_load j c =
     rbind (as_dict j) (\<lambda>d.
     let cpus = job_cpus d in
     rbind (has_state ''RUNNING'' d) (\<lambda>running.
     rbind (if running then Inr True else has_state ''COMPLETING'' d) (\<lambda>active.
     rbind (has_state ''PENDING'' d) (\<lambda>pending.
     Inr (c\<lparr>lc_running_jobs := lc_running_jobs c + (if active then 1 else 0),
            lc_running_cpu := lc_running_cpu c + (if active then cpus else 0),
            lc_pending_jobs := lc_pending_jobs c + (if pending then 1 else 0),
            lc_pending_cpu := lc_pending_cpu c + (if pending then cpus else 0)\<rparr>)))))"

definition load_of :: "pv list \<Rightarrow> pv list \<Rightarrow> load_counts res" where
  "load_of job_list node_list =
     rbind (rfold count_node_state node_list
       \<lparr>lc_running_jobs = 0, lc_pending_jobs = 0, lc_running_cpu = 0, lc_pending_cpu = 0,
        lc_schedulable_nodes = 0, lc_unavailable_nodes = 0, lc_total_nodes = int (length node_list)\<rparr>)
       (rfold count_job_load job_list)"

text \<open>The score, with the clamp of the code; \<open>w\<close> is the median waiting time.\<close>

definition analysis_score :: "load_counts \<Rightarrow> int option \<Rightarrow> int" where
  "analysis_score c w =
     (let queue = (if lc_running_jobs c < lc_pending_jobs c \<and> 0 < lc_pending_jobs c then 18
                   else if 0 < lc_pending_jobs c then 8 else 0);
          wait = (case w of None \<Rightarrow> 0 | Some m \<Rightarrow> if 3600 \<le> m then 16 else if 1200 \<le> m then 8 else 0);
          nodes_down = (if 0 < lc_total_nodes c
                \<and> 3 / 20 \<le> rat_of_int (lc_unavailable_nodes c) / of_int (lc_total_nodes c) then 10 else 0)
      in max 0 (min 100 (100 - queue - wait - nodes_down)))"

definition score_labels :: "int \<Rightarrow> string \<times> string" where
  "score_labels score =
     (if 85 \<le> score then (''efficient'', ''Cluster capacity is healthy with low contention.'')
      else if 70 \<le> score then (''stable'', ''Cluster is stable but shows moderate scheduling pressure.'')
      else if 55 \<le> score
        then (''pressured'', ''Cluster is under visible pressure from queueing or unavailable capacity.'')
      else (''constrained'', ''Cluster is constrained and likely needs operator attention.''))"

definition card :: "string \<Rightarrow> string \<Rightarrow> pv \<Rightarrow> string \<Rightarrow> string \<Rightarrow> pv" where
  "card ident label v detail tone =
     VDict [(''id'', VStr ident), (''label'', VStr label), (''value'', v), (''detail'', VStr detail), (''tone'', VStr tone)]"

definition capacity :: "string \<Rightarrow> string \<Rightarrow> pv \<Rightarrow> string \<Rightarrow> pv" where
  "capacity ident label v detail =
     VDict [(''id'', VStr ident), (''label'', VStr label), (''value'', v), (''detail'', VStr detail)]"

definition opt_ratio :: "rat option \<Rightarrow> pv" where
  "opt_ratio q = (case q of None \<Rightarrow> VNone | Some x \<Rightarrow> VFloat x)"

definition ratio :: "rat \<Rightarrow> rat \<Rightarrow> rat option" where
  "ratio a b = (if b = 0 then None else Some (py_round 3 (a / b)))"

definition jobs_detail :: "load_counts \<Rightarrow> string" where
  "jobs_detail c =
     ''Pending jobs '' @ int_str (lc_pending_jobs c) @ '', running jobs '' @ int_str (lc_running_jobs c)"

definition summary_cards :: "load_counts \<Rightarrow> wait_stats \<Rightarrow> int \<Rightarrow> rat option \<Rightarrow> pv list" where
  "summary_cards c w cpu_all utilization =
     [card ''cpu_occupancy'' ''CPU occupancy''
        (case utilization of None \<Rightarrow> VNone | Some q \<Rightarrow> VStr (float_str (py_round 1 (q * 100)) @ ''%''))
        (''Running CPU '' @ int_str (lc_running_cpu c) @ '' / total CPU '' @ int_str cpu_all)
        (if (case utilization of None \<Rightarrow> False | Some q \<Rightarrow> 4 / 5 \<le> q) then ''warning'' else ''neutral''),
      card ''queue_pressure'' ''Queue pressure''
        (VStr (if lc_pending_jobs c = 0 then ''low''
               else float_str (py_round 1 (of_int (lc_pending_jobs c) / of_int (max (lc_running_jobs c) 1))) @ ''x''))
        (jobs_detail c)
        (if lc_running_jobs c < lc_pending_jobs c \<and> 0 < lc_pending_jobs c then ''danger'' else ''neutral''),
      card ''wait_sample'' ''Wait sample''
        (VStr (case ws_median_seconds w of None \<Rightarrow> ''--'' | Some m \<Rightarrow> int_str m @ '' s''))
        (''Completed job samples '' @ nat_str (ws_samples w))
        (if (case ws_median_seconds w of None \<Rightarrow> False | Some m \<Rightarrow> 1200 \<le> m) then ''warning'' else ''neutral''),
      card ''recovery'' ''Schedulable nodes''
        (VStr (int_str (lc_schedulable_nodes c) @ ''/'' @ int_str (lc_total_nodes c)))
        (''Unavailable nodes '' @ int_str (lc_unavailable_nodes c))
        (if 0 < lc_unavailable_nodes c then ''warning'' else ''success'')]"

definition gigabytes :: "rat \<Rightarrow> string" where
  "gigabytes q = (if q = 0 then ''0'' else float_str (py_round 1 (q / 1024)))"

definition capacity_metrics :: "load_counts \<Rightarrow> int \<Rightarrow> rat \<Rightarrow> rat \<Rightarrow> pv list" where
  "capacity_metrics c cpu_all memory_all memory_allocated =
     [capacity ''cpu'' ''CPU'' (opt_ratio (ratio (of_int (lc_running_cpu c)) (of_int cpu_all)))
        (int_str (lc_running_cpu c) @ '' running CPU / '' @ int_str cpu_all @ '' total CPU''),
      capacity ''memory'' ''Memory'' (opt_ratio (ratio memory_allocated memory_all))
        (gigabytes memory_allocated @ '' GB allocated / '' @ gigabytes memory_all @ '' GB total''),
      capacity ''nodes'' ''Nodes''
        (opt_ratio (ratio (of_int (lc_schedulable_nodes c)) (of_int (lc_total_nodes c))))
        (int_str (lc_schedulable_nodes c) @ '' schedulable / '' @ int_str (lc_total_nodes c) @ '' total nodes'')]"

definition recommendation :: "string \<Rightarrow> string \<Rightarrow> string \<Rightarrow> string \<Rightarrow> string \<Rightarrow> pv" where
  "recommendation ident title summary evidence tone =
     VDict [(''id'', VStr ident), (''title'', VStr title), (''summary'', VStr summary), (''evidence'', VStr evidence),
            (''tone'', VStr tone)]"

definition recommendations :: "load_counts \<Rightarrow> wait_stats \<Rightarrow> pv list" where
  "recommendations c w =
     (if lc_running_jobs c < lc_pending_jobs c \<and> 0 < lc_pending_jobs c
      then [recommendation ''queue_backlog'' ''Investigate queue backlog''
              ''Pending demand is higher than active throughput.''
              (jobs_detail c @ '', pending CPU '' @ int_str (lc_pending_cpu c) @ ''.'') ''warning''] else [])
     @ (case ws_median_seconds w of
          Some m \<Rightarrow> if 1200 \<le> m
            then [recommendation ''wait_time'' ''Review queue wait time''
                    ''Completed jobs show elevated queue delay.''
                    (''Median wait '' @ int_str m @ '' seconds across '' @ nat_str (ws_samples w) @ '' completed jobs.'')
                    ''warning''] else []
        | None \<Rightarrow> [])
     @ (if 0 < lc_unavailable_nodes c
        then [recommendation ''node_availability'' ''Recover unavailable nodes''
                ''Part of the cluster is not schedulable.''
                (int_str (lc_unavailable_nodes c) @ '' of '' @ int_str (lc_total_nodes c) @ '' nodes are unavailable.'')
                ''danger''] else [])"

text \<open>The start of the window of the history: midnight of the day before, in the same month.\<close>

definition history_start :: "int \<Rightarrow> int" where
  "history_start end_time =
     (case civil_of_days (end_time div 86400000000) of
        (y, m, d) \<Rightarrow> days_of_civil y m (max 1 (d - 1)) * 86400000000)"

definition history_filters :: "int \<Rightarrow> pdict" where
  "history_filters end_time =
     [(''start'', VStr (iso_text CHR ''T'' (history_start end_time))), (''end'', VStr (iso_text CHR ''T'' end_time)),
      (''state'', VStr ''COMPLETED''), (''sort'', VStr ''submit_time''), (''order'', VStr ''desc''),
      (''page'', VInt 1), (''page_size'', VInt 200)]"

definition history_waits ::
  "('w, 'r, 'p, 'm) agent \<Rightarrow> int \<Rightarrow> (('w, 'r, 'p, 'm) app, wait_stats) meth" where
  "history_waits A end_time =
     mbind (on_analytics (on_jobs (query (ag_postgres A) (ag_texts A) (history_filters end_time)))) (\<lambda>result.
     mlift (rbind (py_iter (dget_or ''jobs'' (VList []) result)) (\<lambda>rs.
       rbind (rmap normalize_job_history_record rs) history_wait_stats)))"

text \<open>The metrics that were read before the first failure, and the failure.\<close>

fun read_metrics ::
  "('w, 'r, 'p, 'm) agent \<Rightarrow> metrics_db \<Rightarrow> int \<Rightarrow> string list
   \<Rightarrow> (('w, 'r, 'p, 'm) app, (string \<times> pv) list \<times> exn option) meth" where
  "read_metrics A D now [] = mret ([], None)"
| "read_metrics A D now (metric # ms) =
     mcatch (mbind (on_hotspots (on_prometheus (metrics_request (ag_prometheus A) D now metric ''hour'' None None))) (\<lambda>v.
         mbind (read_metrics A D now ms) (\<lambda>(vs, failure). mret ((metric, v) # vs, failure))))
       (\<lambda>e. mret ([], Some e))"

definition event_json :: "hotspot_event \<Rightarrow> pv" where
  "event_json e =
     VDict [(''node'', VStr (he_node e)), (''metric'', VStr (he_metric e)), (''start'', VStr (he_start e)),
            (''end'', VStr (he_end e)), (''duration_seconds'', VInt (he_duration_seconds e)),
            (''peak_usage'', VFloat (he_peak_usage e))]"

definition period_json :: "string \<Rightarrow> string \<Rightarrow> pv" where
  "period_json a b = VDict [(''start'', VStr a), (''end'', VStr b)]"

definition hotspot_payload :: "hotspots_answer option \<Rightarrow> pv" where
  "hotspot_payload answer =
     (case answer of
        None \<Rightarrow> VDict [(''window'', VNone), (''events'', VList [])]
      | Some h \<Rightarrow> VDict [(''window'', period_json (ha_start h) (ha_end h)),
                       (''events'', VList (map event_json (take 10 (ha_events h))))])"

definition wait_json :: "wait_stats \<Rightarrow> pv" where
  "wait_json w =
     VDict [(''samples'', VInt (int (ws_samples w))), (''median_seconds'', opt_int (ws_median_seconds w)),
            (''p90_seconds'', opt_int (ws_p90_seconds w)), (''average_seconds'', opt_ratio (ws_average_seconds w))]"

definition reason_json :: "pending_reason \<Rightarrow> pv" where
  "reason_json p =
     VDict [(''reason'', VStr (pr_reason p)), (''count'', VInt (int (pr_count p))), (''share'', VFloat (pr_share p))]"

definition pressure_json :: "pressure \<Rightarrow> pv" where
  "pressure_json p =
     VDict [(''name'', VStr (pp_name p)), (''pending_jobs'', VInt (pp_pending_jobs p)),
            (''running_jobs'', VInt (pp_running_jobs p)), (''pending_cpu'', VInt (pp_pending_cpu p)),
            (''running_cpu'', VInt (pp_running_cpu p)), (''schedulable_cpu'', VInt (pp_schedulable_cpu p)),
            (''total_cpu'', VInt (pp_total_cpu p)), (''status'', VStr (pp_status p))]"

text \<open>\<open>v[:5]\<close>, and \<open>ping.get("hostname") or ping.get("host") or ping.get("name")\<close>.\<close>

definition py_take :: "nat \<Rightarrow> pv \<Rightarrow> pv list res" where
  "py_take n v =
     (case v of
        VList xs \<Rightarrow> Inr (take n xs)
      | VStr s \<Rightarrow> Inr (map (\<lambda>c. VStr [c]) (take n s))
      | _ \<Rightarrow> Inl (TypeError ''slice''))"

definition ping_card :: "pv \<Rightarrow> pv res" where
  "ping_card ping =
     rbind (as_dict ping) (\<lambda>d.
     Inr (VDict [(''controller'', py_or (py_or (dget ''hostname'' d) (dget ''host'' d)) (dget ''name'' d)),
                 (''mode'', dget ''mode'' d), (''latency_ms'', dget ''latency_ms'' d), (''status'', dget ''status'' d)]))"

definition DIAG_KEYS :: "string list" where
  "DIAG_KEYS = [''jobs_submitted'', ''jobs_started'', ''jobs_completed'', ''jobs_canceled'', ''schedule_cycle_last'',
     ''schedule_cycle_max'', ''schedule_cycle_mean'', ''bf_backfilled_jobs'', ''bf_last_backfilled_jobs'', ''bf_queue_len'']"

definition scheduler_diag :: "pv \<Rightarrow> pv res" where
  "scheduler_diag statistics =
     rbind (rmap (\<lambda>key. rbind (py_contains key statistics) (\<lambda>there.
         if there then rbind (py_get key statistics) (\<lambda>v. Inr [(key, v)]) else Inr [])) DIAG_KEYS) (\<lambda>found.
     Inr (VDict (concat found)))"

record history_part =
  hp_available :: bool
  hp_window :: "(string \<times> string) option"
  hp_waits :: wait_stats
  hp_warnings :: "string list"

definition history_part_of :: "('w, 'r, 'p, 'm) agent \<Rightarrow> int \<Rightarrow> (('w, 'r, 'p, 'm) app, history_part) meth" where
  "history_part_of A end_time =
     (if \<not> ag_jobs_store A
      then mret \<lparr>hp_available = False, hp_window = None, hp_waits = no_wait_stats, hp_warnings = []\<rparr>
      else let w = Some (iso_text CHR ''T'' (history_start end_time), iso_text CHR ''T'' end_time) in
        mcatch (mbind (history_waits A end_time) (\<lambda>waits.
            mret \<lparr>hp_available = True, hp_window = w, hp_waits = waits, hp_warnings = []\<rparr>))
          (\<lambda>e. mret \<lparr>hp_available = False, hp_window = w, hp_waits = no_wait_stats,
                    hp_warnings = [''job history unavailable: '' @ exn_str e]\<rparr>))"

record hotspots_part =
  op_available :: bool
  op_answer :: "hotspots_answer option"
  op_warnings :: "string list"

definition hotspots_part_of ::
  "('w, 'r, 'p, 'm) agent \<Rightarrow> int \<Rightarrow> int \<Rightarrow> (('w, 'r, 'p, 'm) app, hotspots_part) meth" where
  "hotspots_part_of A a b =
     (case ag_hotspots A of
        None \<Rightarrow> mret \<lparr>op_available = False, op_answer = None, op_warnings = []\<rparr>
      | Some C \<Rightarrow>
          mcatch (mbind (on_hotspots (cluster_node_hotspots C a b 80 10)) (\<lambda>h.
              mret \<lparr>op_available = True, op_answer = Some h, op_warnings = []\<rparr>))
            (\<lambda>e. mret \<lparr>op_available = False, op_answer = None,
                      op_warnings = [''node hotspots unavailable: '' @ exn_str e]\<rparr>))"

definition metrics_part_of ::
  "('w, 'r, 'p, 'm) agent \<Rightarrow> int \<Rightarrow> (('w, 'r, 'p, 'm) app, bool \<times> (string \<times> pv) list \<times> string list) meth" where
  "metrics_part_of A now =
     (case ag_metrics_db A of
        None \<Rightarrow> mret (False, [], [])
      | Some D \<Rightarrow>
          mbind (read_metrics A D now [''jobs'', ''cores'', ''memory'', ''gpus'']) (\<lambda>(found, failure).
          mret (failure = None, found,
            case failure of None \<Rightarrow> [] | Some e \<Rightarrow> [''metrics unavailable: '' @ exn_str e])))"

definition stats_part :: "string \<Rightarrow> pv \<Rightarrow> pdict" where
  "stats_part key payload =
     (case payload of VDict d \<Rightarrow> (case dget_or key (VDict []) d of VDict e \<Rightarrow> e | _ \<Rightarrow> []) | _ \<Rightarrow> [])"

definition analysis_context_payload ::
  "('w, 'r, 'p, 'm) agent \<Rightarrow> (nat \<Rightarrow> int) \<Rightarrow> (('w, 'r, 'p, 'm) app, pv) meth" where
  "analysis_context_payload A clk =
     (let R = ag_redis A; S = ag_settings A; E = ag_outside A in
      mbind (slurmrest (SlurmCached.jobs R S E no_kwargs)) (\<lambda>jobs_data.
      mbind (on_client (SlurmCached.nodes_unfiltered R S E no_kwargs)) (\<lambda>nodes_data.
      mbind (collect_stats A None) (\<lambda>stats.
      mbind (metrics_part_of A (clk 0)) (\<lambda>(metrics_ok, metrics, metrics_warnings).
      mbind (history_part_of A (clk 1)) (\<lambda>history.
      let spots_start = clk 2 - 3 * 24 * 60 * 60 * 1000000; spots_end = clk 3 in
      mbind (hotspots_part_of A spots_start spots_end) (\<lambda>spots.
      mbind (on_client (on_srd (ping_data E))) (\<lambda>pings.
      mbind (mlift (rbind (py_take 5 pings) (rmap ping_card))) (\<lambda>ping_cards.
      mbind (on_client (on_srd (diag E))) (\<lambda>diag_statistics.
      mbind (mlift (scheduler_diag diag_statistics)) (\<lambda>diag_values.
      mbind (mlift (py_iter nodes_data)) (\<lambda>node_list.
      mbind (mlift (py_iter jobs_data)) (\<lambda>job_list.
      mbind (mlift (load_of job_list node_list)) (\<lambda>c.
      mbind (mlift (top_pending_reasons job_list 5)) (\<lambda>reasons.
      mbind (mlift (partition_pressure_summary job_list node_list 5)) (\<lambda>pressures.
      let w = hp_waits history; score = analysis_score c (ws_median_seconds w);
          resources = stats_part ''resources'' stats;
          cpu_all = safe_int (dget ''cores'' resources) 0; memory_all = number (dget ''memory'' resources) 0;
          memory_allocated = number (dget ''memory_allocated'' resources) 0
      in mret (VDict
       [(''generated_at'', VStr (iso_text CHR ''T'' (clk 4))),
        (''window'', VDict
          [(''metrics_range'', VStr ''hour''),
           (''history'', case hp_window history of None \<Rightarrow> VNone | Some (a, b) \<Rightarrow> period_json a b),
           (''hotspots'', period_json (iso_text CHR ''T'' spots_start) (iso_text CHR ''T'' spots_end))]),
        (''score'', VInt score), (''score_label'', VStr (fst (score_labels score))),
        (''score_summary'', VStr (snd (score_labels score))),
        (''summary_cards'', VList (summary_cards c w cpu_all (ratio (of_int (lc_running_cpu c)) (of_int cpu_all)))),
        (''capacity_metrics'', VList (capacity_metrics c cpu_all memory_all memory_allocated)),
        (''wait_stats'', wait_json w),
        (''top_pending_reasons'', VList (map reason_json reasons)),
        (''partition_pressure'', VList (map pressure_json pressures)),
        (''node_hotspots'', hotspot_payload (op_answer spots)),
        (''controller_health'', VList ping_cards), (''scheduler_diag'', diag_values),
        (''recommendations'', VList (recommendations c w)),
        (''data_availability'', VDict
          [(''jobs'', VBool True), (''nodes'', VBool True), (''metrics'', VBool metrics_ok),
           (''job_history'', VBool (hp_available history)), (''node_hotspots'', VBool (op_available spots)),
           (''analysis_ping'', VBool True), (''analysis_diag'', VBool True)]),
        (''warnings'', VList (map VStr (metrics_warnings @ hp_warnings history @ op_warnings spots))),
        (''evidence'', VDict
          [(''jobs'', VDict
             [(''running'', dget_or ''running'' (VInt (lc_running_jobs c)) (stats_part ''jobs'' stats)),
              (''total'', dget_or ''total'' (VInt (int (length job_list))) (stats_part ''jobs'' stats)),
              (''pending'', VInt (lc_pending_jobs c)), (''running_cpu'', VInt (lc_running_cpu c)),
              (''pending_cpu'', VInt (lc_pending_cpu c))]),
           (''resources'', VDict resources),
           (''metrics'', VDict (map (\<lambda>m. (m, dget m metrics)) [''jobs'', ''cores'', ''memory'', ''gpus'']))])])))))))))))))))))"

section \<open>The waiting times\<close>

text \<open>What a column of type \<open>timestamptz\<close> holds.\<close>

definition timestamp_column :: "pv \<Rightarrow> bool" where
  "timestamp_column v \<longleftrightarrow> v = VNone \<or> (\<exists>t. v = VTime t)"

lemma parse_digits_chars:
  "parse_digits b acc cs = Some n \<Longrightarrow> \<forall>c \<in> set cs. is_digit c \<or> c = CHR ''_''"
  by (induction b acc cs arbitrary: n rule: parse_digits.induct) (auto split: if_splits)

lemma set_py_strip_keeps: "c \<in> set s \<Longrightarrow> \<not> is_space c \<Longrightarrow> c \<in> set (py_strip s)"
proof -
  have keep: "c \<in> set (dropWhile is_space t)" if "c \<in> set t" "\<not> is_space c" for t
    using that by (induction t) auto
  assume "c \<in> set s" "\<not> is_space c"
  then show ?thesis unfolding py_strip_def by (simp add: keep)
qed

lemma py_parse_int_iso_text: "py_parse_int (iso_text CHR ''T'' t) = None"
proof -
  have "CHR ''T'' \<in> set (iso_text CHR ''T'' t)" 
    by (cases "civil_of_days (t div 1000000 div 86400)") (simp add: iso_text_def Let_def)
  then have T: "CHR ''T'' \<in> set (py_strip (iso_text CHR ''T'' t))" by (rule set_py_strip_keeps) (simp add: is_space_def)
  have [simp]: "\<not> is_digit CHR ''T''" by (simp add: is_digit_def)
  have bad: "parse_digits b acc cs = None" if "CHR ''T'' \<in> set cs" for b acc cs
    using that parse_digits_chars [of b acc cs] by (cases "parse_digits b acc cs") auto
  show ?thesis
  proof (cases "py_strip (iso_text CHR ''T'' t)")
    case Nil
    with T show ?thesis by simp
  next
    case (Cons c cs)
    with T have in_T: "CHR ''T'' \<in> set (c # cs)" by simp
    then have tail: "CHR ''T'' \<in> set cs" if "is_digit c \<or> c = CHR ''-'' \<or> c = CHR ''+''" using that by auto
    show ?thesis using tail bad [OF in_T] bad by (simp add: py_parse_int_def Cons)
  qed
qed

lemma dget_serialized:
  assumes "key \<noteq> ''exit_code''"
  shows "dget key (serialize_datetimes r)
    = (case dget key r of VTime t \<Rightarrow> VStr (iso_text CHR ''T'' t) | v \<Rightarrow> v)"
proof -
  let ?f = "\<lambda>v. case v of VTime t \<Rightarrow> VStr (iso_text CHR ''T'' t) | _ \<Rightarrow> v"
  have "map_of (map (\<lambda>(k, v). (k, ?f v)) r) key = map_option ?f (map_of r key)"
    by (simp only: map_of_map comp_apply)
  then have "dget key (serialize_datetimes r) = (case map_option ?f (map_of r key) of None \<Rightarrow> VNone | Some v \<Rightarrow> v)"
    using assms by (simp only: serialize_datetimes_def Let_def dget_or_def map_of_dset fun_upd_apply if_False)
  then show ?thesis by (simp add: dget_or_def split: option.split pv.split)
qed

lemma unmeasured_record:
  assumes "timestamp_column (dget ''submit_time'' r)" and "timestamp_column (dget ''start_time'' r)"
  shows "\<exists>v. normalize_job_history_record (VDict (serialize_datetimes r)) = Inr v \<and> record_wait v = Inr []"
proof -
  have times: "none_or_empty (dget key (serialize_datetimes r)) \<or> (\<exists>t. dget key (serialize_datetimes r) = VStr (iso_text CHR ''T'' t))"
    if "key \<in> {''submit_time'', ''start_time''}" for key
    using that assms by (auto simp: dget_serialized timestamp_column_def none_or_empty_def)
  then have "record_wait (VDict (dset ''exit_code'' x (serialize_datetimes r))) = Inr []" for x
    by (fastforce simp: record_wait_def as_dict_def Let_def dget_or_dset py_parse_int_iso_text)
  then show ?thesis by (simp add: normalize_job_history_record_def as_dict_def)
qed

lemma no_waits:
  assumes "\<forall>v \<in> set vs. record_wait v = Inr []"
  shows "history_wait_stats vs = Inr no_wait_stats"
proof -
  have "rmap record_wait vs = Inr (replicate (length vs) [])" using assms by (induction vs) auto
  then show ?thesis by (simp add: history_wait_stats_def Let_def)
qed

lemma selected_times:
  "dget ''submit_time'' (selected_record jd r) = dget ''submit_time'' r"
  "dget ''start_time'' (selected_record jd r) = dget ''start_time'' r"
  by (simp_all add: selected_record_def SELECT_COLUMNS_def dget_or_def)

text \<open>
  C32. The waiting times of the analysis are never measured: whatever the history holds, the records that its
  query returns have texts for times, and no sample is left.
\<close>
theorem waits_never_measured:
  assumes "query P Q filters s = (Inr result, s')"
    and "\<forall>r \<in> set (jd_rows (js_db s)). timestamp_column (dget ''submit_time'' r) \<and> timestamp_column (dget ''start_time'' r)"
  shows "\<exists>rs. dget_or ''jobs'' (VList []) result = VList rs
    \<and> rbind (rmap normalize_job_history_record rs) history_wait_stats = Inr no_wait_stats"
proof -
  obtain conn s1 where conn: "get_conn P s = (conn, s1)" and db: "js_db s1 = js_db s" using get_conn_cases by blast
  obtain records where
    jobs: "dget_or ''jobs'' (VList []) result = VList (map (VDict \<circ> serialize_datetimes) records)"
    and from_rows: "\<forall>x \<in> set records. \<exists>r \<in> set (jd_rows (js_db s)). x = selected_record (js_db s) r"
  proof -
    obtain page page_size clause conditions where args: "history_arguments filters = Inr (page, page_size, clause)"
      and conds: "history_conditions (Q :: sql_texts) filters = Inr conditions"
      and result: "result = [(''total'', VInt (int (length (history_matches (js_db s) conditions)))), (''page'', VInt page),
        (''page_size'', VInt page_size), (''jobs'', VList (map (VDict \<circ> serialize_datetimes)
          (take (nat page_size) (drop (nat ((page - 1) * page_size)) (order_by Q clause (history_matches (js_db s) conditions))))))]"
      using assms(1) conn db by (auto simp: query_def Let_def elim!: mbind_cases split: if_splits)
    have "set (order_by Q clause (history_matches (js_db s) conditions)) = set (history_matches (js_db s) conditions)"
      by (metis order_by_mset set_mset_mset)
    then show ?thesis
      by (intro that [of "take (nat page_size) (drop (nat ((page - 1) * page_size))
            (order_by Q clause (history_matches (js_db s) conditions)))"])
        (auto simp: result dget_or_def history_matches_def dest!: in_set_takeD in_set_dropD)
  qed
  have "\<forall>x \<in> set records. \<exists>v. normalize_job_history_record (VDict (serialize_datetimes x)) = Inr v \<and> record_wait v = Inr []"
    using from_rows assms(2) unmeasured_record selected_times by metis
  then obtain g where g: "\<forall>x \<in> set records. normalize_job_history_record (VDict (serialize_datetimes x)) = Inr (g x)
      \<and> record_wait (g x) = Inr []" by metis
  have vs: "rmap normalize_job_history_record (map (VDict \<circ> serialize_datetimes) records) = Inr (map g records)"
    using g by (auto simp: rmap_Inr_iff list_all2_map1 list_all2_map2 intro!: list.rel_refl_strong)
  let ?vs = "map g records"
  have "\<forall>v \<in> set ?vs. record_wait v = Inr []" using g by auto
  then have "history_wait_stats ?vs = Inr no_wait_stats" by (rule no_waits)
  with jobs vs show ?thesis by simp
qed

definition waited_job :: pdict where
  "waited_job = [(''id'', VInt 1), (''job_id'', VInt 1), (''submit_time'', VTime 0), (''start_time'', VTime (600 * MICROSECONDS)),
     (''job_state'', VStr ''COMPLETED'')]"

definition waited_history :: "(unit, unit) jobs_store" where
  "waited_history = demo_store\<lparr>js_db := \<lparr>jd_base = empty_db, jd_rows = [waited_job], jd_seq = 1\<rparr>\<rparr>"

theorem waits_never_measured_witness:
  "\<exists>result s' rs. query demo_postgres demo_texts [] waited_history = (Inr result, s')
     \<and> dget_or ''jobs'' (VList []) result = VList rs \<and> length rs = 1
     \<and> rbind (rmap normalize_job_history_record rs) history_wait_stats = Inr no_wait_stats"
proof -
  let ?run = "query demo_postgres demo_texts [] waited_history"
  obtain clause where a: "history_arguments [] = Inr (1, 100, clause)"
  proof -
    have "isl (history_sort_clause VNone VNone) = False" by code_simp
    then obtain clause where "history_sort_clause VNone VNone = Inr clause" by (cases "history_sort_clause VNone VNone") auto
    then have "history_arguments [] = Inr (1, 100, clause)" by (simp add: history_arguments_def dget_or_def)
    then show ?thesis by (rule that)
  qed
  have c: "history_conditions demo_texts [] = Inr []" by (simp add: history_conditions_def when_given_def dget_or_def)
  obtain result s' where run: "?run = (Inr result, s')"
    and jobs: "dget_or ''jobs'' (VList []) result = VList (map (VDict \<circ> serialize_datetimes)
        (take 100 (order_by demo_texts clause (history_matches (js_db waited_history) []))))"
    using a c by (auto simp: query_def mbind_def get_conn_def demo_postgres_def MAX_BIGINT_def dget_or_def Let_def)
  obtain rs where rs: "dget_or ''jobs'' (VList []) result = VList rs" and one: "length rs = 1"
  proof -
    have "length (history_matches (js_db waited_history) []) = 1" by (simp add: history_matches_def waited_history_def)
    moreover have "length (order_by demo_texts clause (history_matches (js_db waited_history) []))
      = length (history_matches (js_db waited_history) [])" for clause using order_by_mset mset_eq_length by blast
    ultimately have "length (order_by demo_texts clause (history_matches (js_db waited_history) [])) = 1" for clause by simp
    then show ?thesis using jobs that by auto
  qed
  have times: "\<forall>r \<in> set (jd_rows (js_db waited_history)).
      timestamp_column (dget ''submit_time'' r) \<and> timestamp_column (dget ''start_time'' r)"
    by (simp add: waited_history_def waited_job_def dget_or_def timestamp_column_def)
  obtain rs' where "dget_or ''jobs'' (VList []) result = VList rs'"
    and none: "rbind (rmap normalize_job_history_record rs') history_wait_stats = Inr no_wait_stats"
    using waits_never_measured [OF run times] by (elim exE conjE)
  then have "rs' = rs" by (simp only: rs pv.inject)
  with none have "rbind (rmap normalize_job_history_record rs) history_wait_stats = Inr no_wait_stats" by (simp only:)
  then show ?thesis by (intro exI [of _ result] exI [of _ s'] exI [of _ rs] conjI run rs one)
qed

end
