(* ===== verification/AgentViews.thy ===== *)
theory AgentViews
  imports AgentAnalysis
begin

text \<open>
  The views of the agent, from \<open>views/agent.py\<close>: each is its decorators around its body. The views
  of the assistant and those that only name versions or settings are left out.
\<close>

definition all_scope :: "string \<Rightarrow> string \<Rightarrow> requirement" where
  "all_scope resource operation = (resource, operation, Scope ''*'')"

definition own_scope :: "string \<Rightarrow> string \<Rightarrow> requirement" where
  "own_scope resource operation = (resource, operation, Scope ''self'')"

text \<open>\<open>lambda username: "self" if request.user.login == username else "*"\<close>\<close>

definition login_scope :: "string \<Rightarrow> string \<Rightarrow> string \<Rightarrow> requirement" where
  "login_scope resource operation username =
     (resource, operation, ScopeOf (\<lambda>u. if login u = username then ''self'' else ''*''))"

section \<open>State of the cluster\<close>

definition permissions_view :: "('w, 'r, 'p, 'm) agent \<Rightarrow> web_request \<Rightarrow> ('w, 'r, 'p, 'm) view" where
  "permissions_view A q =
     mbind (mlift (rq_jwt_user q)) (\<lambda>u. mwith (\<lambda>s.
       mbind (mlift (permission_payload (policy_of A s) u)) jsonify))"

definition ping_view :: "('w, 'r, 'p, 'm) agent \<Rightarrow> ('w, 'r, 'p, 'm) view" where
  "ping_view A =
     handle_slurmrestd_errors (mbind (on_client (on_srd (discover (ag_outside A)))) (\<lambda>(_, slurm_version, api_version).
       jsonify (VDict [(''versions'',
         VDict [(''slurm'', slurm_version), (''api'', VStr api_version)])])))"

definition analysis_ping_view :: "('w, 'r, 'p, 'm) agent \<Rightarrow> web_request \<Rightarrow> ('w, 'r, 'p, 'm) view" where
  "analysis_ping_view A q =
     handle_slurmrestd_errors (permission_required A q [all_scope ''analysis'' ''view''] (Some ''view-stats'') (\<lambda>_.
       mbind (on_client (on_srd (ping_data (ag_outside A)))) (\<lambda>pings. jsonify (VDict [(''pings'', pings)]))))"

definition analysis_diag_view :: "('w, 'r, 'p, 'm) agent \<Rightarrow> web_request \<Rightarrow> ('w, 'r, 'p, 'm) view" where
  "analysis_diag_view A q =
     handle_slurmrestd_errors (permission_required A q [all_scope ''analysis'' ''view''] (Some ''view-stats'') (\<lambda>_.
       mbind (on_client (on_srd (diag (ag_outside A)))) (\<lambda>statistics.
       jsonify (VDict [(''statistics'', statistics)]))))"

definition analysis_context_view :: "('w, 'r, 'p, 'm) agent \<Rightarrow> web_request \<Rightarrow> ('w, 'r, 'p, 'm) view" where
  "analysis_context_view A q =
     handle_slurmrestd_errors (permission_required A q [all_scope ''analysis'' ''view''] (Some ''view-stats'') (\<lambda>_.
       mbind (analysis_context_payload A (rq_clock q)) jsonify))"

definition hotspots_json :: "hotspots_answer \<Rightarrow> pv" where
  "hotspots_json h =
     VDict [(''window'', period_json (ha_start h) (ha_end h)), (''threshold'', VFloat (ha_threshold h)),
            (''events'', VList (map event_json (ha_events h)))]"

text \<open>Without a store of samples both branches of \<open>collect_hotspots\<close> abort with 501.\<close>

definition collect_hotspots ::
  "('w, 'r, 'p, 'm) agent \<Rightarrow> int \<Rightarrow> int \<Rightarrow> (('w, 'r, 'p, 'm) app, pv) meth" where
  "collect_hotspots A a b =
     (case ag_hotspots A of
        Some C \<Rightarrow> mbind (on_hotspots (cluster_node_hotspots C a b 80 10)) (\<lambda>h. mret (hotspots_json h))
      | None \<Rightarrow>
          if ag_node_metrics_db A = None then abort_with 501 ''Node hotspot persistence is disabled''
          else abort_with 501 ''Node hotspot persistence is unavailable'')"

definition analysis_node_hotspots_view :: "('w, 'r, 'p, 'm) agent \<Rightarrow> web_request \<Rightarrow> ('w, 'r, 'p, 'm) view" where
  "analysis_node_hotspots_view A q =
     permission_required A q [all_scope ''analysis'' ''view''] (Some ''view-stats'') (\<lambda>_.
       if ag_node_metrics_db A = None \<and> ag_hotspots A = None then abort_with 501 ''Node metrics is disabled''
       else mcatch
         (mbind (mlift (parse_metrics_window_query_args q)) (\<lambda>w.
          case w of
            (Some a, Some b) \<Rightarrow>
              mbind (cache_get_or_put A
                  (CacheKey (''analysis-node-hotspots-'' @ iso_text CHR ''T'' a @ ''-'' @ iso_text CHR ''T'' b) (Some ''analysis''))
                  (ag_analysis_expiration A) (collect_hotspots A a b)) jsonify
          | _ \<Rightarrow> mraise (ValueError ''start and end must both be provided'')))
         (\<lambda>e. case e of
            ValueError m \<Rightarrow> abort_with 400 m
          | SlurmwebMetricsDBError m \<Rightarrow> abort_with 500 m
          | _ \<Rightarrow> mraise e))"

definition stats_view :: "('w, 'r, 'p, 'm) agent \<Rightarrow> web_request \<Rightarrow> ('w, 'r, 'p, 'm) view" where
  "stats_view A q =
     permission_required A q [all_scope ''dashboard'' ''view'', all_scope ''analysis'' ''view''] (Some ''view-stats'') (\<lambda>_.
       let part = (case query_arg q ''partition'' of None \<Rightarrow> None | Some p \<Rightarrow> if p = [] then None else Some p);
           key = (case part of None \<Rightarrow> CacheKey ''stats'' None
                  | Some p \<Rightarrow> CacheKey (''stats-partition-'' @ p) (Some ''stats''))
       in mbind (cache_get_or_put A key (ag_stats_expiration A) (collect_stats A part)) jsonify)"

section \<open>Jobs\<close>

definition jobs_view :: "('w, 'r, 'p, 'm) agent \<Rightarrow> web_request \<Rightarrow> ('w, 'r, 'p, 'm) view" where
  "jobs_view A q =
     handle_slurmrestd_errors (permission_required A q [all_scope ''jobs'' ''view'', own_scope ''jobs'' ''view'']
       (Some ''view-jobs'') (\<lambda>u.
       let R = ag_redis A; S = ag_settings A; E = ag_outside A in
       mbind (require_permission_scope A u ''jobs'' ''view'') (\<lambda>scope.
       let node = (case query_arg q ''node'' of None \<Rightarrow> [] | Some n \<Rightarrow> n) in
       mbind (if node \<noteq> []
              then mbind (slurmrest (srd_jobs_by_node (ag_in_nodeset A) R S E node)) (\<lambda>js. mret (VList js))
              else if scope = ''self''
              then on_client (SlurmCached.jobs R S E (no_kwargs\<lparr>kw_query := Some (VDict [(''user'', VStr (login u))])\<rparr>))
              else let query = jobs_query_args q in
                if query \<noteq> [] then on_client (SlurmCached.jobs R S E (no_kwargs\<lparr>kw_query := Some (VDict query)\<rparr>))
                else slurmrest (SlurmCached.jobs R S E no_kwargs)) (\<lambda>result.
       mbind (if scope = ''self'' then mlift (filter_jobs_for_owner result (login u)) else mret result) jsonify))))"

definition job_view :: "('w, 'r, 'p, 'm) agent \<Rightarrow> web_request \<Rightarrow> int \<Rightarrow> ('w, 'r, 'p, 'm) view" where
  "job_view A q job_id =
     handle_slurmrestd_errors (permission_required A q [all_scope ''jobs'' ''view'', own_scope ''jobs'' ''view'']
       (Some ''view-jobs'') (\<lambda>u. mbind (authorize_job_owner A u job_id ''view'') jsonify))"

text \<open>The decorators and the frame of a write operation; its body gives the answer of slurmrestd.\<close>

definition write_view ::
  "('w, 'r, 'p, 'm) agent \<Rightarrow> web_request \<Rightarrow> requirement list \<Rightarrow> string \<Rightarrow> string \<Rightarrow> pv \<Rightarrow> nat
   \<Rightarrow> (user \<Rightarrow> (('w, 'r, 'p, 'm) app, pv) meth) \<Rightarrow> ('w, 'r, 'p, 'm) view" where
  "write_view A q requirements legacy operation target status write =
     handle_slurmrestd_errors (permission_required A q requirements (Some legacy) (\<lambda>u.
       when_supported A operation (mbind (write u) (\<lambda>response.
         operation_response A operation target response status))))"

text \<open>An operation of the client on the payload of the request.\<close>

definition with_payload ::
  "web_request \<Rightarrow> (pv \<Rightarrow> (('w, 'r) cached_srd, pv) meth) \<Rightarrow> (('w, 'r, 'p, 'm) app, pv) meth" where
  "with_payload q write = mbind (mlift (job_payload q)) (\<lambda>payload. on_client (write payload))"

definition job_submit_view :: "('w, 'r, 'p, 'm) agent \<Rightarrow> web_request \<Rightarrow> ('w, 'r, 'p, 'm) view" where
  "job_submit_view A q =
     write_view A q [all_scope ''jobs'' ''edit'', own_scope ''jobs'' ''edit''] ''view-jobs'' ''jobs.submit'' VNone 201
       (\<lambda>_. with_payload q (SlurmCached.job_submit (ag_redis A) (ag_settings A) (ag_outside A)))"

definition job_update_view :: "('w, 'r, 'p, 'm) agent \<Rightarrow> web_request \<Rightarrow> int \<Rightarrow> ('w, 'r, 'p, 'm) view" where
  "job_update_view A q job_id =
     write_view A q [all_scope ''jobs'' ''edit'', own_scope ''jobs'' ''edit''] ''view-jobs'' ''jobs.update''
       (VDict [(''job_id'', VInt job_id)]) 200
       (\<lambda>u. mbind (authorize_job_owner A u job_id ''edit'') (\<lambda>_.
          with_payload q (SlurmCached.job_update (ag_redis A) (ag_settings A) (ag_outside A) job_id)))"

definition job_cancel_view :: "('w, 'r, 'p, 'm) agent \<Rightarrow> web_request \<Rightarrow> int \<Rightarrow> ('w, 'r, 'p, 'm) view" where
  "job_cancel_view A q job_id =
     write_view A q [all_scope ''jobs'' ''delete'', own_scope ''jobs'' ''delete''] ''view-jobs'' ''jobs.cancel''
       (VDict [(''job_id'', VInt job_id)]) 200
       (\<lambda>u. mbind (authorize_job_owner A u job_id ''delete'') (\<lambda>_.
          on_client (SlurmCached.job_cancel (ag_redis A) (ag_settings A) (ag_outside A) job_id (rq_json q))))"

section \<open>Listings of slurmrestd\<close>

definition resources_listing ::
  "('w, 'r, 'p, 'm) agent \<Rightarrow> web_request \<Rightarrow> requirement list \<Rightarrow> string \<Rightarrow> (('w, 'r) cached_srd, pv) meth \<Rightarrow> ('w, 'r, 'p, 'm) view" where
  "resources_listing A q requirements legacy listing =
     permission_required A q requirements (Some legacy) (\<lambda>_. mbind (slurmrest listing) jsonify)"

definition nodes_view :: "('w, 'r, 'p, 'm) agent \<Rightarrow> web_request \<Rightarrow> ('w, 'r, 'p, 'm) view" where
  "nodes_view A q =
     resources_listing A q [all_scope ''resources'' ''view''] ''view-nodes''
       (SlurmCached.nodes (ag_redis A) (ag_settings A) (ag_outside A) no_kwargs)"

definition node_view :: "('w, 'r, 'p, 'm) agent \<Rightarrow> web_request \<Rightarrow> string \<Rightarrow> ('w, 'r, 'p, 'm) view" where
  "node_view A q name =
     resources_listing A q [all_scope ''resources'' ''view''] ''view-nodes''
       (SlurmCached.node (ag_redis A) (ag_settings A) (ag_outside A) name)"

definition partitions_view :: "('w, 'r, 'p, 'm) agent \<Rightarrow> web_request \<Rightarrow> ('w, 'r, 'p, 'm) view" where
  "partitions_view A q =
     resources_listing A q
       [all_scope ''jobs/filter-partitions'' ''view'', all_scope ''resources/filter-partitions'' ''view''] ''view-partitions''
       (SlurmCached.partitions (ag_redis A) (ag_settings A) (ag_outside A))"

definition qos_view :: "('w, 'r, 'p, 'm) agent \<Rightarrow> web_request \<Rightarrow> ('w, 'r, 'p, 'm) view" where
  "qos_view A q =
     resources_listing A q [all_scope ''qos'' ''view'', all_scope ''jobs/filter-qos'' ''view''] ''view-qos''
       (SlurmCached.qos (ag_redis A) (ag_settings A) (ag_outside A) no_kwargs)"

definition reservations_view :: "('w, 'r, 'p, 'm) agent \<Rightarrow> web_request \<Rightarrow> ('w, 'r, 'p, 'm) view" where
  "reservations_view A q =
     resources_listing A q [all_scope ''reservations'' ''view''] ''view-reservations''
       (SlurmCached.reservations (ag_redis A) (ag_settings A) (ag_outside A) no_kwargs)"

definition accounts_view :: "('w, 'r, 'p, 'm) agent \<Rightarrow> web_request \<Rightarrow> ('w, 'r, 'p, 'm) view" where
  "accounts_view A q =
     resources_listing A q [all_scope ''accounts'' ''view'', all_scope ''jobs/filter-accounts'' ''view''] ''view-accounts''
       (SlurmCached.accounts (ag_redis A) (ag_settings A) (ag_outside A) no_kwargs)"

definition associations_view :: "('w, 'r, 'p, 'm) agent \<Rightarrow> web_request \<Rightarrow> ('w, 'r, 'p, 'm) view" where
  "associations_view A q =
     resources_listing A q [all_scope ''accounts'' ''view'', all_scope ''user/profile'' ''view''] ''associations-view''
       (SlurmCached.associations (ag_redis A) (ag_settings A) (ag_outside A) no_kwargs)"

text \<open>The account, the users and a user are not cached.\<close>

definition admin_listing ::
  "('w, 'r, 'p, 'm) agent \<Rightarrow> web_request \<Rightarrow> string \<Rightarrow> ('w, pv) srd \<Rightarrow> ('w, 'r, 'p, 'm) view" where
  "admin_listing A q resource listing =
     handle_slurmrestd_errors (permission_required A q [all_scope resource ''view''] (Some ''associations-view'') (\<lambda>_.
       mbind (on_client (on_srd listing)) jsonify))"

definition account_view :: "('w, 'r, 'p, 'm) agent \<Rightarrow> web_request \<Rightarrow> string \<Rightarrow> ('w, 'r, 'p, 'm) view" where
  "account_view A q name = admin_listing A q ''accounts'' (Slurmrestd.account (ag_outside A) name)"

definition users_view :: "('w, 'r, 'p, 'm) agent \<Rightarrow> web_request \<Rightarrow> ('w, 'r, 'p, 'm) view" where
  "users_view A q = admin_listing A q ''users-admin'' (Slurmrestd.users (ag_outside A))"

definition user_view :: "('w, 'r, 'p, 'm) agent \<Rightarrow> web_request \<Rightarrow> string \<Rightarrow> ('w, 'r, 'p, 'm) view" where
  "user_view A q name = admin_listing A q ''users-admin'' (user_info (ag_outside A) name)"

section \<open>Write operations\<close>

definition named :: "string \<Rightarrow> string \<Rightarrow> pv" where
  "named key name = VDict [(key, VStr name)]"

definition node_update_view :: "('w, 'r, 'p, 'm) agent \<Rightarrow> web_request \<Rightarrow> string \<Rightarrow> ('w, 'r, 'p, 'm) view" where
  "node_update_view A q name =
     write_view A q [all_scope ''resources'' ''edit''] ''view-nodes'' ''resources.node.update'' (named ''node'' name) 200
       (\<lambda>_. with_payload q (SlurmCached.node_update (ag_redis A) (ag_settings A) (ag_outside A) name))"

definition node_delete_view :: "('w, 'r, 'p, 'm) agent \<Rightarrow> web_request \<Rightarrow> string \<Rightarrow> ('w, 'r, 'p, 'm) view" where
  "node_delete_view A q name =
     write_view A q [all_scope ''resources'' ''delete''] ''view-nodes'' ''resources.node.delete'' (named ''node'' name) 200
       (\<lambda>_. on_client (SlurmCached.node_delete (ag_redis A) (ag_settings A) (ag_outside A) name))"

definition reservation_create_view :: "('w, 'r, 'p, 'm) agent \<Rightarrow> web_request \<Rightarrow> ('w, 'r, 'p, 'm) view" where
  "reservation_create_view A q =
     write_view A q [all_scope ''reservations'' ''edit''] ''view-reservations'' ''reservations.create'' VNone 201
       (\<lambda>_. with_payload q (SlurmCached.reservation_create (ag_redis A) (ag_settings A) (ag_outside A)))"

definition reservation_update_view :: "('w, 'r, 'p, 'm) agent \<Rightarrow> web_request \<Rightarrow> string \<Rightarrow> ('w, 'r, 'p, 'm) view" where
  "reservation_update_view A q name =
     write_view A q [all_scope ''reservations'' ''edit''] ''view-reservations'' ''reservations.update''
       (named ''reservation'' name) 200
       (\<lambda>_. with_payload q (SlurmCached.reservation_update (ag_redis A) (ag_settings A) (ag_outside A) name))"

definition reservation_delete_view :: "('w, 'r, 'p, 'm) agent \<Rightarrow> web_request \<Rightarrow> string \<Rightarrow> ('w, 'r, 'p, 'm) view" where
  "reservation_delete_view A q name =
     write_view A q [all_scope ''reservations'' ''delete''] ''view-reservations'' ''reservations.delete''
       (named ''reservation'' name) 200
       (\<lambda>_. on_client (SlurmCached.reservation_delete (ag_redis A) (ag_settings A) (ag_outside A) name))"

definition accounts_update_view :: "('w, 'r, 'p, 'm) agent \<Rightarrow> web_request \<Rightarrow> ('w, 'r, 'p, 'm) view" where
  "accounts_update_view A q =
     write_view A q [all_scope ''accounts'' ''edit''] ''associations-view'' ''accounts.update'' VNone 200
       (\<lambda>_. with_payload q (SlurmCached.accounts_update (ag_redis A) (ag_settings A) (ag_outside A)))"

definition account_delete_view :: "('w, 'r, 'p, 'm) agent \<Rightarrow> web_request \<Rightarrow> string \<Rightarrow> ('w, 'r, 'p, 'm) view" where
  "account_delete_view A q name =
     write_view A q [all_scope ''accounts'' ''delete''] ''associations-view'' ''accounts.delete'' (named ''account'' name) 200
       (\<lambda>_. on_client (SlurmCached.account_delete (ag_redis A) (ag_settings A) (ag_outside A) name))"

definition users_update_view :: "('w, 'r, 'p, 'm) agent \<Rightarrow> web_request \<Rightarrow> ('w, 'r, 'p, 'm) view" where
  "users_update_view A q =
     write_view A q [all_scope ''users-admin'' ''edit''] ''associations-view'' ''users.update'' VNone 200
       (\<lambda>_. with_payload q (SlurmCached.users_update (ag_redis A) (ag_settings A) (ag_outside A)))"

definition user_delete_view :: "('w, 'r, 'p, 'm) agent \<Rightarrow> web_request \<Rightarrow> string \<Rightarrow> ('w, 'r, 'p, 'm) view" where
  "user_delete_view A q name =
     write_view A q [all_scope ''users-admin'' ''delete''] ''associations-view'' ''users.delete'' (named ''user'' name) 200
       (\<lambda>_. on_client (SlurmCached.user_delete (ag_redis A) (ag_settings A) (ag_outside A) name))"

definition qos_update_view :: "('w, 'r, 'p, 'm) agent \<Rightarrow> web_request \<Rightarrow> ('w, 'r, 'p, 'm) view" where
  "qos_update_view A q =
     write_view A q [all_scope ''qos'' ''edit''] ''view-qos'' ''qos.update'' VNone 200
       (\<lambda>_. with_payload q (SlurmCached.qos_update (ag_redis A) (ag_settings A) (ag_outside A)))"

definition qos_delete_view :: "('w, 'r, 'p, 'm) agent \<Rightarrow> web_request \<Rightarrow> string \<Rightarrow> ('w, 'r, 'p, 'm) view" where
  "qos_delete_view A q name =
     write_view A q [all_scope ''qos'' ''delete''] ''view-qos'' ''qos.delete'' (named ''qos'' name) 200
       (\<lambda>_. on_client (SlurmCached.qos_delete (ag_redis A) (ag_settings A) (ag_outside A) name))"

definition associations_update_view :: "('w, 'r, 'p, 'm) agent \<Rightarrow> web_request \<Rightarrow> ('w, 'r, 'p, 'm) view" where
  "associations_update_view A q =
     write_view A q [all_scope ''accounts'' ''edit''] ''associations-view'' ''accounts.associations.update'' VNone 200
       (\<lambda>_. with_payload q (SlurmCached.associations_update (ag_redis A) (ag_settings A) (ag_outside A)))"

definition associations_delete_view :: "('w, 'r, 'p, 'm) agent \<Rightarrow> web_request \<Rightarrow> ('w, 'r, 'p, 'm) view" where
  "associations_delete_view A q =
     write_view A q [all_scope ''accounts'' ''delete''] ''associations-view'' ''accounts.associations.delete'' VNone 200
       (\<lambda>_. with_payload q (SlurmCached.associations_delete (ag_redis A) (ag_settings A) (ag_outside A)))"

section \<open>Cache and metrics\<close>

definition counters_json :: "(string \<times> int) list \<Rightarrow> int \<Rightarrow> pv" where
  "counters_json keys total_count =
     VDict [(''keys'', VDict (map (\<lambda>(k, n). (k, VInt n)) keys)), (''total'', VInt total_count)]"

definition cache_counters :: "('w, 'r, 'p, 'm) agent \<Rightarrow> ('w, 'r, 'p, 'm) view" where
  "cache_counters A =
     mbind (on_client (on_cache (cache_metrics (ag_redis A)))) (\<lambda>(hits, misses, total_hits, total_misses).
       jsonify (VDict [(''hit'', counters_json hits total_hits), (''miss'', counters_json misses total_misses)]))"

definition cache_stats_view :: "('w, 'r, 'p, 'm) agent \<Rightarrow> web_request \<Rightarrow> ('w, 'r, 'p, 'm) view" where
  "cache_stats_view A q =
     permission_required A q [all_scope ''admin/cache'' ''view''] (Some ''cache-view'') (\<lambda>_.
       if \<not> ca_enabled (st_cache (ag_settings A))
       then abort_with 501 ''Cache service is disabled, unable to query cache statistics''
       else cache_counters A)"

definition cache_reset_view :: "('w, 'r, 'p, 'm) agent \<Rightarrow> web_request \<Rightarrow> ('w, 'r, 'p, 'm) view" where
  "cache_reset_view A q =
     permission_required A q [all_scope ''admin/cache'' ''edit''] (Some ''cache-reset'') (\<lambda>_.
       if \<not> ca_enabled (st_cache (ag_settings A))
       then abort_with 501 ''Cache service is disabled, unable to reset cache''
       else mbind (on_client (on_cache (cache_reset (ag_redis A)))) (\<lambda>_. cache_counters A))"

definition METRICS_PERMISSIONS :: "(string \<times> string) list" where
  "METRICS_PERMISSIONS =
     [(''nodes'', ''resources''), (''cores'', ''resources''), (''gpus'', ''resources''), (''memory'', ''resources''),
      (''jobs'', ''jobs''), (''users'', ''jobs''), (''cache'', ''admin/cache'')]"

text \<open>Both ends of the window or none.\<close>

definition window_arg :: "int option \<times> int option \<Rightarrow> (int \<times> int) option" where
  "window_arg w = (case w of (Some a, Some b) \<Rightarrow> Some (a, b) | _ \<Rightarrow> None)"

definition range_arg :: "web_request \<Rightarrow> string" where
  "range_arg q = (case query_arg q ''range'' of None \<Rightarrow> ''hour'' | Some r \<Rightarrow> r)"

definition except_metrics_error :: "('s, 'a) meth \<Rightarrow> ('s, 'a) meth" where
  "except_metrics_error func =
     mcatch func (\<lambda>e. case e of SlurmwebMetricsDBError m \<Rightarrow> abort_with 500 m | _ \<Rightarrow> mraise e)"

definition metrics_view :: "('w, 'r, 'p, 'm) agent \<Rightarrow> web_request \<Rightarrow> string \<Rightarrow> ('w, 'r, 'p, 'm) view" where
  "metrics_view A q metric =
     mbind (mlift (rq_jwt_user q)) (\<lambda>u.
     case ag_metrics_db A of
       None \<Rightarrow> abort_with 501 ''Metrics are disabled, unable to query values''
     | Some D \<Rightarrow>
         (case map_of METRICS_PERMISSIONS metric of
            None \<Rightarrow> abort_with 404 (''Metric '' @ metric @ '' not found'')
          | Some resource \<Rightarrow>
              if metric = ''users'' \<and> \<not> ag_user_metrics A then abort_with 501 ''User metrics is disabled''
              else mwith (\<lambda>s. mbind (mlift (allowed_user_permission (policy_of A s) u resource ''view'' ''*'')) (\<lambda>granted.
                if \<not> granted then abort_with 403 (''Access to '' @ metric @ '' metric not permitted'')
                else except_metrics_error (mbind (mlift (parse_metrics_window_query_args q)) (\<lambda>w.
                  mbind (on_hotspots (on_prometheus (metrics_request (ag_prometheus A) D (rq_clock q 0) metric
                      (range_arg q) (query_arg q ''partition'') (window_arg w)))) jsonify))))))"

section \<open>History of jobs\<close>

definition HISTORY_ARGS :: "string list" where
  "HISTORY_ARGS = [''start'', ''end'', ''keyword'', ''user'', ''account'', ''partition'', ''qos'', ''state'', ''job_id'']"

definition arg_or :: "web_request \<Rightarrow> string \<Rightarrow> pv \<Rightarrow> pv" where
  "arg_or q name dflt = (case query_arg q name of None \<Rightarrow> dflt | Some v \<Rightarrow> VStr v)"

definition history_query :: "web_request \<Rightarrow> pdict" where
  "history_query q =
     map (\<lambda>name. (name, query_pv q name)) HISTORY_ARGS
     @ [(''page'', arg_or q ''page'' (VInt 1)), (''page_size'', arg_or q ''page_size'' (VInt 100)),
        (''sort'', query_pv q ''sort''), (''order'', query_pv q ''order'')]"

definition jobs_history_view :: "('w, 'r, 'p, 'm) agent \<Rightarrow> web_request \<Rightarrow> ('w, 'r, 'p, 'm) view" where
  "jobs_history_view A q =
     permission_required A q [all_scope ''jobs-history'' ''view''] (Some ''view-history-jobs'') (\<lambda>_.
       if \<not> ag_jobs_store A then abort_with 501 ''Job history persistence is disabled''
       else except_500
         (mbind (on_analytics (on_jobs (JobsHistory.query (ag_postgres A) (ag_texts A) (history_query q)))) (\<lambda>result.
          mbind (mlift (rbind (py_iter (dget_or ''jobs'' (VList []) result)) (rmap normalize_job_history_record))) (\<lambda>rs.
          jsonify (VDict (dset ''jobs'' (VList rs) result))))))"

text \<open>The client as the jobs store sees it.\<close>

definition slurm_source :: "('w, 'r, 'p, 'm) agent \<Rightarrow> ('w, 'r) cached_srd job_source" where
  "slurm_source A =
     \<lparr>so_listing = SlurmCached.jobs_unfiltered (ag_redis A) (ag_settings A) (ag_outside A) no_kwargs,
      so_detail = (\<lambda>v. case v of
          VInt n \<Rightarrow> SlurmCached.job (ag_redis A) (ag_settings A) (ag_outside A) n
        | _ \<Rightarrow> mraise (TypeError ''job''))\<rparr>"

definition job_history_detail_view :: "('w, 'r, 'p, 'm) agent \<Rightarrow> web_request \<Rightarrow> int \<Rightarrow> ('w, 'r, 'p, 'm) view" where
  "job_history_detail_view A q record_id =
     permission_required A q [all_scope ''jobs-history'' ''view''] (Some ''view-history-jobs'') (\<lambda>_.
       if \<not> ag_jobs_store A then abort_with 501 ''Job history persistence is disabled''
       else mbind (except_500 (on_analytics (on_jobs
           (get_by_id (ag_postgres A) (Some (slurm_source A)) (rq_clock q 0) record_id True)))) (\<lambda>record.
         case record of
           None \<Rightarrow> abort_with 404 (''Job history record '' @ int_str record_id @ '' not found'')
         | Some r \<Rightarrow> mbind (mlift (normalize_job_history_record (VDict r))) jsonify))"

section \<open>Users and roles\<close>

definition opt_str :: "string option \<Rightarrow> pv" where
  "opt_str s = (case s of None \<Rightarrow> VNone | Some t \<Rightarrow> VStr t)"

definition sorted_texts :: "string list \<Rightarrow> string list" where
  "sorted_texts xs = sorted_strings (map VStr (remdups xs))"

text \<open>What the database does with the values: a text column takes a text of them or fails.\<close>

definition cache_user :: "('w, 'r, 'p, 'm) agent \<Rightarrow> int \<Rightarrow> user \<Rightarrow> pv \<Rightarrow> pv \<Rightarrow> pv \<Rightarrow> (('w, 'r, 'p, 'm) app, unit) meth" where
  "cache_user A now u username fullname groups =
     mwith (\<lambda>s. let (roles, actions) = file_roles_actions (policy_of A s) u in
       if \<not> truthy username then mret ()
       else mbind (mlift (ag_text_column A username)) (\<lambda>name.
         mbind (mlift (ag_text_column A fullname)) (\<lambda>full.
         case name of
           None \<Rightarrow> mraise (BackendError ''NotNullViolation'')
         | Some n \<Rightarrow> on_db (upsert_ldap_user now n full groups (Some (sorted_texts roles)) (Some (sorted_texts actions))))))"

definition cache_authenticated_user_view :: "('w, 'r, 'p, 'm) agent \<Rightarrow> web_request \<Rightarrow> ('w, 'r, 'p, 'm) view" where
  "cache_authenticated_user_view A q =
     mbind (mlift (rq_jwt_user q)) (\<lambda>u.
       if \<not> ag_users_store A then abort_with 501 ''User cache persistence is disabled''
       else mbind (mlift (as_dict (json_or_empty q))) (\<lambda>payload.
         let username = py_or (dget ''username'' payload) (VStr (login u));
             fullname = (if has_key ''fullname'' payload then dget ''fullname'' payload else opt_str (rq_fullname q));
             groups = (if dget ''groups'' payload = VNone then VList (map VStr (rq_groups q)) else dget ''groups'' payload)
         in mbind (except_500 (cache_user A (rq_clock q 0) u username fullname groups)) (\<lambda>_.
           jsonify (VDict [(''result'', VStr ''User cache updated'')]))))"

definition ldap_cache_users_view :: "('w, 'r, 'p, 'm) agent \<Rightarrow> web_request \<Rightarrow> ('w, 'r, 'p, 'm) view" where
  "ldap_cache_users_view A q =
     permission_required A q [all_scope ''admin/ldap-users'' ''view''] (Some ''cache-view'') (\<lambda>_.
       if \<not> ag_users_store A then abort_with 501 ''User cache persistence is disabled''
       else except_500 (mwith (\<lambda>s. mbind (mlift (list_ldap_users (query_arg q ''username'')
             (positive_int_query_arg q ''page'' 1) (positive_int_query_arg q ''page_size'' 50) (app_db s)))
           (\<lambda>page. mret (200, LdapUsersBody page)))))"

text \<open>The frame of the views of access control.\<close>

definition access_view ::
  "('w, 'r, 'p, 'm) agent \<Rightarrow> web_request \<Rightarrow> string \<Rightarrow> ('w, 'r, 'p, 'm) view \<Rightarrow> ('w, 'r, 'p, 'm) view" where
  "access_view A q operation func =
     permission_required A q [all_scope ''admin/access-control'' operation] None (\<lambda>_.
       mbind (require_access_control A) (\<lambda>_. func))"

definition access_catalog_view :: "('w, 'r, 'p, 'm) agent \<Rightarrow> web_request \<Rightarrow> ('w, 'r, 'p, 'm) view" where
  "access_catalog_view A q = access_view A q ''view'' (mret (200, CatalogBody access_control_catalog))"

definition access_roles_view :: "('w, 'r, 'p, 'm) agent \<Rightarrow> web_request \<Rightarrow> ('w, 'r, 'p, 'm) view" where
  "access_roles_view A q =
     access_view A q ''view'' (except_500 (mwith (\<lambda>s. mret (200, RolesBody (list_roles (ag_legacy_map A) (app_db s))))))"

text \<open>
  The check of the name comes before the statement that fails on a description a text column cannot take.
\<close>

definition store_new_role :: "('w, 'r, 'p, 'm) agent \<Rightarrow> int \<Rightarrow> role_payload_fields \<Rightarrow> (db, role_row) meth" where
  "store_new_role A now role =
     (case ag_text_column A (rp_description role) of
        Inr d \<Rightarrow> create_role (ag_legacy_map A) now (rp_name role) d (rp_actions role) (rp_permissions role)
      | Inl e \<Rightarrow> mwith (\<lambda>db.
          if role_name_exists (rp_name role) None db
          then mraise (ValueError (''Role '' @ rp_name role @ '' already exists'')) else mraise e))"

definition store_role :: "('w, 'r, 'p, 'm) agent \<Rightarrow> int \<Rightarrow> int \<Rightarrow> role_payload_fields \<Rightarrow> (db, role_row option) meth" where
  "store_role A now role_id role =
     (case ag_text_column A (rp_description role) of
        Inr d \<Rightarrow> update_role (ag_legacy_map A) now role_id (rp_name role) d (rp_actions role) (rp_permissions role)
      | Inl e \<Rightarrow> mwith (\<lambda>db.
          if role_name_exists (rp_name role) (Some role_id) db
          then mraise (ValueError (''Role '' @ rp_name role @ '' already exists'')) else mraise e))"

definition with_role ::
  "('w, 'r, 'p, 'm) agent \<Rightarrow> web_request \<Rightarrow> (role_payload_fields \<Rightarrow> ('w, 'r, 'p, 'm) view) \<Rightarrow> ('w, 'r, 'p, 'm) view" where
  "with_role A q func = mwith (\<lambda>s. mbind (mlift (role_payload (policy_of A s) q)) func)"

definition create_access_role_view :: "('w, 'r, 'p, 'm) agent \<Rightarrow> web_request \<Rightarrow> ('w, 'r, 'p, 'm) view" where
  "create_access_role_view A q =
     access_view A q ''edit'' (with_role A q (\<lambda>role.
       except_400_500 (mbind (on_db (store_new_role A (rq_clock q 0) role)) (\<lambda>created.
         mret (201, RoleBody created)))))"

definition role_not_found :: "int \<Rightarrow> ('s, 'a) meth" where
  "role_not_found role_id = abort_with 404 (''Access control role '' @ int_str role_id @ '' not found'')"

definition update_access_role_view :: "('w, 'r, 'p, 'm) agent \<Rightarrow> web_request \<Rightarrow> int \<Rightarrow> ('w, 'r, 'p, 'm) view" where
  "update_access_role_view A q role_id =
     access_view A q ''edit'' (with_role A q (\<lambda>role.
       mbind (except_400_500 (on_db (store_role A (rq_clock q 0) role_id role))) (\<lambda>updated.
         case updated of None \<Rightarrow> role_not_found role_id | Some r \<Rightarrow> mret (200, RoleBody r))))"

definition delete_access_role_view :: "('w, 'r, 'p, 'm) agent \<Rightarrow> web_request \<Rightarrow> int \<Rightarrow> ('w, 'r, 'p, 'm) view" where
  "delete_access_role_view A q role_id =
     access_view A q ''delete'' (mbind (except_500 (on_db (delete_role role_id))) (\<lambda>deleted.
       if \<not> deleted then role_not_found role_id
       else jsonify (VDict [(''result'', VStr ''Role deleted'')])))"

definition access_users_view :: "('w, 'r, 'p, 'm) agent \<Rightarrow> web_request \<Rightarrow> ('w, 'r, 'p, 'm) view" where
  "access_users_view A q =
     access_view A q ''view'' (case access_page_args q of (username, page, page_size) \<Rightarrow>
       except_500 (mwith (\<lambda>s. mbind (mlift (list_users (ag_legacy_map A) username page page_size (app_db s)))
         (\<lambda>r. mret (200, UsersBody r)))))"

definition access_user_roles_view :: "('w, 'r, 'p, 'm) agent \<Rightarrow> web_request \<Rightarrow> string \<Rightarrow> ('w, 'r, 'p, 'm) view" where
  "access_user_roles_view A q username =
     access_view A q ''view'' (mwith (\<lambda>s. case get_user_roles (ag_legacy_map A) username (app_db s) of
         None \<Rightarrow> abort_with 404 (''User '' @ username @ '' not found'')
       | Some details \<Rightarrow> mret (200, UserBody (Some details))))"

definition role_ids_arg :: "pv \<Rightarrow> int list res" where
  "role_ids_arg v =
     (case v of
        VList ids \<Rightarrow> (case rmap py_int ids of
            Inl (TypeError m) \<Rightarrow> Inl (HttpAbort 400 ''role_ids must contain integers'')
          | Inl (ValueError m) \<Rightarrow> Inl (HttpAbort 400 ''role_ids must contain integers'')
          | r \<Rightarrow> r)
      | _ \<Rightarrow> Inl (HttpAbort 400 ''role_ids must be a list''))"

definition update_access_user_roles_view :: "('w, 'r, 'p, 'm) agent \<Rightarrow> web_request \<Rightarrow> string \<Rightarrow> ('w, 'r, 'p, 'm) view" where
  "update_access_user_roles_view A q username =
     access_view A q ''edit''
       (mbind (mlift (rbind (as_dict (json_or_empty q)) (\<lambda>payload. role_ids_arg (dget ''role_ids'' payload)))) (\<lambda>ids.
        mbind (except_400_500 (on_db (set_user_roles (ag_legacy_map A) (rq_clock q 0) username ids))) (\<lambda>details.
        mret (200, UserBody details))))"

section \<open>Analytics and nodes\<close>

definition user_metrics_history_view :: "('w, 'r, 'p, 'm) agent \<Rightarrow> web_request \<Rightarrow> string \<Rightarrow> ('w, 'r, 'p, 'm) view" where
  "user_metrics_history_view A q username =
     permission_required A q [login_scope ''user/analysis'' ''view'' username, all_scope ''jobs'' ''view''] (Some ''view-jobs'') (\<lambda>_.
       if \<not> ag_user_metrics A then abort_with 501 ''User metrics is disabled''
       else except_400_500 (mbind (mlift (parse_metrics_window_query_args q)) (\<lambda>(start_time, end_time).
         mbind (on_analytics (on_jobs (UserTimelines.user_metrics_history (ag_postgres A) (rq_clock q 0) (rq_clock q 1)
             username (Some (range_arg q)) start_time end_time))) (\<lambda>h. mret (200, HistoryBody h)))))"

definition user_tools_analysis_view :: "('w, 'r, 'p, 'm) agent \<Rightarrow> web_request \<Rightarrow> string \<Rightarrow> ('w, 'r, 'p, 'm) view" where
  "user_tools_analysis_view A q username =
     permission_required A q [login_scope ''user/analysis'' ''view'' username, all_scope ''jobs'' ''view''] (Some ''view-jobs'') (\<lambda>_.
       if \<not> ag_user_metrics A then abort_with 501 ''User metrics is disabled''
       else except_400_500 (mbind (mlift (parse_metrics_window_query_args q)) (\<lambda>(start_time, end_time).
         if start_time = None \<or> end_time = None then mraise (ValueError ''start and end must both be provided'')
         else mbind (on_analytics (user_tool_analysis (ag_postgres A) (ag_users_store A) (rq_clock q 0) (rq_clock q 1)
             username start_time end_time)) (\<lambda>h. mret (200, AnalysisBody h)))))"

definition node_metrics_view :: "('w, 'r, 'p, 'm) agent \<Rightarrow> web_request \<Rightarrow> string \<Rightarrow> ('w, 'r, 'p, 'm) view" where
  "node_metrics_view A q name =
     permission_required A q [all_scope ''resources'' ''view''] (Some ''view-nodes'') (\<lambda>_.
       case ag_node_metrics_db A of
         None \<Rightarrow> abort_with 501 ''Node real-time metrics is disabled''
       | Some D \<Rightarrow> except_metrics_error (mbind (on_hotspots (on_prometheus
             (node_instant_metrics (ag_prometheus A) D name (ag_hostname_label A)))) (\<lambda>v. jsonify v)))"

definition node_metrics_history_view :: "('w, 'r, 'p, 'm) agent \<Rightarrow> web_request \<Rightarrow> string \<Rightarrow> ('w, 'r, 'p, 'm) view" where
  "node_metrics_history_view A q name =
     permission_required A q [all_scope ''resources'' ''view''] (Some ''view-nodes'') (\<lambda>_.
       case ag_node_metrics_db A of
         None \<Rightarrow> abort_with 501 ''Node real-time metrics is disabled''
       | Some D \<Rightarrow> mcatch
           (mbind (mlift (parse_metrics_window_query_args q)) (\<lambda>w.
            mbind (on_hotspots (on_prometheus (node_history_metrics (ag_prometheus A) D (rq_clock q 0) name (range_arg q)
                (ag_hostname_label A) (window_arg w)))) jsonify))
           (\<lambda>e. case e of
              ValueError m \<Rightarrow> mret (400, Json (VDict [(''code'', VInt 400), (''description'', VStr m),
                                                    (''name'', VStr ''Bad Request'')]))
            | SlurmwebMetricsDBError m \<Rightarrow> abort_with 500 m
            | _ \<Rightarrow> mraise e))"

end
