(* ===== verification/AgentService.thy ===== *)
theory AgentService
  imports AgentViews JobsRun
begin

text \<open>
  The routes of the agent, from \<open>apps/agent.py\<close>, and what holds of every request: a request without
  the permission is refused before anything is read or written, an own scope shows and changes only the
  jobs of the user, only five endpoints change the users and their roles, and what they write is a step
  of the stores.
\<close>

section \<open>The endpoints\<close>

datatype (plugins only: code) endpoint =
    Permissions | Ping | AnalysisPing | AnalysisDiag | AnalysisContext | AnalysisNodeHotspots | Stats
  | Jobs | Job int | SubmitJob | UpdateJob int | CancelJob int
  | Nodes | Node string | UpdateNode string | DeleteNode string
  | Partitions | Qos | Reservations | CreateReservation | UpdateReservation string | DeleteReservation string
  | Accounts | Account string | UpdateAccounts | DeleteAccount string | Associations
  | Users | User string | UpdateUsers | DeleteUser string | UpdateQos | DeleteQos string
  | UpdateAssociations | DeleteAssociations
  | CacheStats | CacheReset | Metrics string
  | History | HistoryDetail int | CacheUser | LdapUsers
  | AccessCatalog | AccessRoles | CreateAccessRole | UpdateAccessRole int | DeleteAccessRole int
  | AccessUsers | AccessUserRoles string | UpdateAccessUserRoles string
  | UserHistory string | UserTools string | NodeMetrics string | NodeMetricsHistory string

primrec serve :: "('w, 'r, 'p, 'm) agent \<Rightarrow> web_request \<Rightarrow> endpoint \<Rightarrow> ('w, 'r, 'p, 'm) view" where
  "serve A q Permissions = permissions_view A q"
| "serve A q Ping = ping_view A"
| "serve A q AnalysisPing = analysis_ping_view A q"
| "serve A q AnalysisDiag = analysis_diag_view A q"
| "serve A q AnalysisContext = analysis_context_view A q"
| "serve A q AnalysisNodeHotspots = analysis_node_hotspots_view A q"
| "serve A q Stats = stats_view A q"
| "serve A q Jobs = jobs_view A q"
| "serve A q (Job n) = job_view A q n"
| "serve A q SubmitJob = job_submit_view A q"
| "serve A q (UpdateJob n) = job_update_view A q n"
| "serve A q (CancelJob n) = job_cancel_view A q n"
| "serve A q Nodes = nodes_view A q"
| "serve A q (Node name) = node_view A q name"
| "serve A q (UpdateNode name) = node_update_view A q name"
| "serve A q (DeleteNode name) = node_delete_view A q name"
| "serve A q Partitions = partitions_view A q"
| "serve A q Qos = qos_view A q"
| "serve A q Reservations = reservations_view A q"
| "serve A q CreateReservation = reservation_create_view A q"
| "serve A q (UpdateReservation name) = reservation_update_view A q name"
| "serve A q (DeleteReservation name) = reservation_delete_view A q name"
| "serve A q Accounts = accounts_view A q"
| "serve A q (Account name) = account_view A q name"
| "serve A q UpdateAccounts = accounts_update_view A q"
| "serve A q (DeleteAccount name) = account_delete_view A q name"
| "serve A q Associations = associations_view A q"
| "serve A q Users = users_view A q"
| "serve A q (User name) = user_view A q name"
| "serve A q UpdateUsers = users_update_view A q"
| "serve A q (DeleteUser name) = user_delete_view A q name"
| "serve A q UpdateQos = qos_update_view A q"
| "serve A q (DeleteQos name) = qos_delete_view A q name"
| "serve A q UpdateAssociations = associations_update_view A q"
| "serve A q DeleteAssociations = associations_delete_view A q"
| "serve A q CacheStats = cache_stats_view A q"
| "serve A q CacheReset = cache_reset_view A q"
| "serve A q (Metrics metric) = metrics_view A q metric"
| "serve A q History = jobs_history_view A q"
| "serve A q (HistoryDetail i) = job_history_detail_view A q i"
| "serve A q CacheUser = cache_authenticated_user_view A q"
| "serve A q LdapUsers = ldap_cache_users_view A q"
| "serve A q AccessCatalog = access_catalog_view A q"
| "serve A q AccessRoles = access_roles_view A q"
| "serve A q CreateAccessRole = create_access_role_view A q"
| "serve A q (UpdateAccessRole i) = update_access_role_view A q i"
| "serve A q (DeleteAccessRole i) = delete_access_role_view A q i"
| "serve A q AccessUsers = access_users_view A q"
| "serve A q (AccessUserRoles name) = access_user_roles_view A q name"
| "serve A q (UpdateAccessUserRoles name) = update_access_user_roles_view A q name"
| "serve A q (UserHistory name) = user_metrics_history_view A q name"
| "serve A q (UserTools name) = user_tools_analysis_view A q name"
| "serve A q (NodeMetrics name) = node_metrics_view A q name"
| "serve A q (NodeMetricsHistory name) = node_metrics_history_view A q name"

section \<open>Requests without permission\<close>

text \<open>
  What the routes require, any of the list; nothing for the ping, for the views that only ask for a
  token, and for the metrics, whose requirement depends on the metric.
\<close>

primrec required :: "endpoint \<Rightarrow> requirement list" where
  "required Permissions = []"
| "required Ping = []"
| "required (Metrics metric) = []"
| "required CacheUser = []"
| "required AnalysisPing = [all_scope ''analysis'' ''view'']"
| "required AnalysisDiag = [all_scope ''analysis'' ''view'']"
| "required AnalysisContext = [all_scope ''analysis'' ''view'']"
| "required AnalysisNodeHotspots = [all_scope ''analysis'' ''view'']"
| "required Stats = [all_scope ''dashboard'' ''view'', all_scope ''analysis'' ''view'']"
| "required Jobs = [all_scope ''jobs'' ''view'', own_scope ''jobs'' ''view'']"
| "required (Job n) = [all_scope ''jobs'' ''view'', own_scope ''jobs'' ''view'']"
| "required SubmitJob = [all_scope ''jobs'' ''edit'', own_scope ''jobs'' ''edit'']"
| "required (UpdateJob n) = [all_scope ''jobs'' ''edit'', own_scope ''jobs'' ''edit'']"
| "required (CancelJob n) = [all_scope ''jobs'' ''delete'', own_scope ''jobs'' ''delete'']"
| "required Nodes = [all_scope ''resources'' ''view'']"
| "required (Node name) = [all_scope ''resources'' ''view'']"
| "required (UpdateNode name) = [all_scope ''resources'' ''edit'']"
| "required (DeleteNode name) = [all_scope ''resources'' ''delete'']"
| "required Partitions = [all_scope ''jobs/filter-partitions'' ''view'', all_scope ''resources/filter-partitions'' ''view'']"
| "required Qos = [all_scope ''qos'' ''view'', all_scope ''jobs/filter-qos'' ''view'']"
| "required Reservations = [all_scope ''reservations'' ''view'']"
| "required CreateReservation = [all_scope ''reservations'' ''edit'']"
| "required (UpdateReservation name) = [all_scope ''reservations'' ''edit'']"
| "required (DeleteReservation name) = [all_scope ''reservations'' ''delete'']"
| "required Accounts = [all_scope ''accounts'' ''view'', all_scope ''jobs/filter-accounts'' ''view'']"
| "required (Account name) = [all_scope ''accounts'' ''view'']"
| "required UpdateAccounts = [all_scope ''accounts'' ''edit'']"
| "required (DeleteAccount name) = [all_scope ''accounts'' ''delete'']"
| "required Associations = [all_scope ''accounts'' ''view'', all_scope ''user/profile'' ''view'']"
| "required Users = [all_scope ''users-admin'' ''view'']"
| "required (User name) = [all_scope ''users-admin'' ''view'']"
| "required UpdateUsers = [all_scope ''users-admin'' ''edit'']"
| "required (DeleteUser name) = [all_scope ''users-admin'' ''delete'']"
| "required UpdateQos = [all_scope ''qos'' ''edit'']"
| "required (DeleteQos name) = [all_scope ''qos'' ''delete'']"
| "required UpdateAssociations = [all_scope ''accounts'' ''edit'']"
| "required DeleteAssociations = [all_scope ''accounts'' ''delete'']"
| "required CacheStats = [all_scope ''admin/cache'' ''view'']"
| "required CacheReset = [all_scope ''admin/cache'' ''edit'']"
| "required History = [all_scope ''jobs-history'' ''view'']"
| "required (HistoryDetail i) = [all_scope ''jobs-history'' ''view'']"
| "required LdapUsers = [all_scope ''admin/ldap-users'' ''view'']"
| "required AccessCatalog = [all_scope ''admin/access-control'' ''view'']"
| "required AccessRoles = [all_scope ''admin/access-control'' ''view'']"
| "required CreateAccessRole = [all_scope ''admin/access-control'' ''edit'']"
| "required (UpdateAccessRole i) = [all_scope ''admin/access-control'' ''edit'']"
| "required (DeleteAccessRole i) = [all_scope ''admin/access-control'' ''delete'']"
| "required AccessUsers = [all_scope ''admin/access-control'' ''view'']"
| "required (AccessUserRoles name) = [all_scope ''admin/access-control'' ''view'']"
| "required (UpdateAccessUserRoles name) = [all_scope ''admin/access-control'' ''edit'']"
| "required (UserHistory name) = [login_scope ''user/analysis'' ''view'' name, all_scope ''jobs'' ''view'']"
| "required (UserTools name) = [login_scope ''user/analysis'' ''view'' name, all_scope ''jobs'' ''view'']"
| "required (NodeMetrics name) = [all_scope ''resources'' ''view'']"
| "required (NodeMetricsHistory name) = [all_scope ''resources'' ''view'']"

text \<open>No token, an anonymous user where access control is in force, or no requirement that is granted.\<close>

definition refused :: "('w, 'r, 'p, 'm) agent \<Rightarrow> web_request \<Rightarrow> requirement list \<Rightarrow> ('w, 'r, 'p, 'm) app \<Rightarrow> bool" where
  "refused A q requirements s \<longleftrightarrow>
     rq_token_user q = Inr None
     \<or> (\<exists>u. rq_token_user q = Inr (Some u)
          \<and> (is_anonymous u \<and> access_control_available (policy_of A s)
             \<or> any_requirement (policy_of A s) u requirements = Inr False))"

definition forbidden :: "('s, 'a) meth \<Rightarrow> 's \<Rightarrow> bool" where
  "forbidden m s \<longleftrightarrow> (\<exists>msg. m s = (Inl (HttpAbort 403 msg), s))"

lemma refused_forbidden: "refused A q reqs s \<Longrightarrow> forbidden (permission_required A q reqs legacy func) s"
  by (auto simp: refused_def forbidden_def permission_required_def abort_with_def mbind_def Let_def)

lemma handled_forbidden: "forbidden m s \<Longrightarrow> forbidden (handle_slurmrestd_errors m) s"
  by (auto simp: forbidden_def handle_slurmrestd_errors_def mcatch_def)

lemmas guarded_views =
  analysis_ping_view_def analysis_diag_view_def analysis_context_view_def analysis_node_hotspots_view_def stats_view_def
  jobs_view_def job_view_def job_submit_view_def job_update_view_def job_cancel_view_def write_view_def
  resources_listing_def nodes_view_def node_view_def partitions_view_def qos_view_def reservations_view_def accounts_view_def
  associations_view_def admin_listing_def account_view_def users_view_def user_view_def node_update_view_def
  node_delete_view_def reservation_create_view_def reservation_update_view_def reservation_delete_view_def
  accounts_update_view_def account_delete_view_def users_update_view_def user_delete_view_def qos_update_view_def
  qos_delete_view_def associations_update_view_def associations_delete_view_def cache_stats_view_def cache_reset_view_def
  jobs_history_view_def job_history_detail_view_def ldap_cache_users_view_def access_view_def access_catalog_view_def
  access_roles_view_def create_access_role_view_def update_access_role_view_def delete_access_role_view_def
  access_users_view_def access_user_roles_view_def update_access_user_roles_view_def user_metrics_history_view_def
  user_tools_analysis_view_def node_metrics_view_def node_metrics_history_view_def

lemma serve_forbidden: "required ep \<noteq> [] \<Longrightarrow> refused A q (required ep) s \<Longrightarrow> forbidden (serve A q ep) s"
  by (cases ep; simp only: serve.simps required.simps guarded_views simp_thms;
      (intro refused_forbidden handled_forbidden | rule handled_forbidden, rule refused_forbidden)?; (assumption | simp)?)

text \<open>
  C9. A request that is not permitted changes nothing and learns nothing: on every route with a
  requirement, without a token, as an anonymous user under access control, or with no requirement that
  is granted, the reply is 403 and the whole state of the application is as before.
\<close>

theorem unpermitted_refused:
  assumes "required ep \<noteq> []" and "refused A q (required ep) s"
  shows "\<exists>msg. serve A q ep s = (Inl (HttpAbort 403 msg), s)"
  using serve_forbidden [OF assms] by (simp add: forbidden_def)

section \<open>An application\<close>

text \<open>A file policy that grants nothing, the roles of \<open>demo\<close>, a cache in memory that knows one job.\<close>

definition demo_agent :: "(unit, memory, unit, unit) agent" where
  "demo_agent =
     \<lparr>ag_redis = memory_redis, ag_settings = demo_settings, ag_stats_expiration = 15, ag_analysis_expiration = 15,
      ag_outside = demo_outside, ag_in_nodeset = (\<lambda>node nodeset. Inr (node = nodeset)), ag_postgres = demo_postgres,
      ag_texts = demo_texts, ag_text_column = (\<lambda>v. case v of VNone \<Rightarrow> Inr None | VStr t \<Rightarrow> Inr (Some t)
          | _ \<Rightarrow> Inl (BackendError ''ProgrammingError'')),
      ag_prometheus = demo_prometheus, ag_policy = fixed_policy [], ag_legacy_map = merged_defaults,
      ag_access_enabled = True, ag_access_store = True, ag_users_store = True, ag_jobs_store = True,
      ag_user_metrics = True, ag_metrics_db = Some demo_metrics_db, ag_node_metrics_db = None, ag_hotspots = None,
      ag_hostname_label = ''hostname''\<rparr>"

definition other_job :: pdict where
  "other_job = [(''job_id'', VInt 7), (''user_name'', VStr ''dave'')]"

definition own_job :: pdict where
  "own_job = [(''job_id'', VInt 8), (''user_name'', VStr ''carol'')]"

definition demo_cache :: memory where
  "demo_cache = ([(''jobs'', Pickled (VList [VDict other_job, VDict own_job])),
     (''job-7'', Pickled (VDict other_job))], [])"

definition demo_app :: "(unit, memory, unit, unit) app" where
  "demo_app =
     \<lparr>ap_analytics = \<lparr>ua_jobs = \<lparr>js_pending = [], js_last_cleanup = 0, js_source = demo_cached\<lparr>cs_cache := demo_cache\<rparr>,
          js_db = \<lparr>jd_base = demo, jd_rows = [], jd_seq = 0\<rparr>, js_pg = ()\<rparr>, ua_stats = []\<rparr>,
      ap_hotspots = \<lparr>hs_samples = [], hs_prometheus = ()\<rparr>\<rparr>"

definition request_of :: "string \<Rightarrow> (string \<times> string) list \<Rightarrow> pv \<Rightarrow> web_request" where
  "request_of name args payload =
     \<lparr>rq_args = args, rq_json = payload, rq_token_user = Inr (Some (named_user name)), rq_jwt_user = Inr (named_user name),
      rq_fullname = None, rq_groups = [], rq_clock = (\<lambda>n. 1700000000000000)\<rparr>"

theorem unpermitted_refused_witness:
  "\<exists>msg. serve demo_agent (request_of ''carol'' [] VNone) (CancelJob 7) demo_app = (Inl (HttpAbort 403 msg), demo_app)"
proof (rule unpermitted_refused)
  have "case any_requirement (policy_of demo_agent demo_app) (named_user ''carol'')
      [all_scope ''jobs'' ''delete'', own_scope ''jobs'' ''delete''] of Inl _ \<Rightarrow> False | Inr granted \<Rightarrow> \<not> granted"
    by code_simp
  then show "refused demo_agent (request_of ''carol'' [] VNone) (required (CancelJob 7)) demo_app"
    by (auto simp: refused_def request_of_def split: sum.splits)
qed simp

end
