(* ===== verification/AgentScopes.thy ===== *)
theory AgentScopes
  imports AgentService
begin

text \<open>
  The scope \<open>self\<close> of the views of the agent: what a user sees and changes who only has permissions on
  the own jobs.
\<close>

section \<open>The scope of a user's own jobs\<close>

lemma mbind_Inr_iff: "mbind m f s = (Inr r, s') \<longleftrightarrow> (\<exists>a s1. m s = (Inr a, s1) \<and> f a s1 = (Inr r, s'))"
  by (auto simp: mbind_def split: sum.splits prod.splits)

lemma mbind_InrE:
  assumes "mbind m f s = (Inr r, s')" obtains a s1 where "m s = (Inr a, s1)" and "f a s1 = (Inr r, s')"
  using assms by (auto simp: mbind_Inr_iff)

lemma handled_Inr [simp]: "handle_slurmrestd_errors m s = (Inr r, s') \<longleftrightarrow> m s = (Inr r, s')"
  by (auto simp: handle_slurmrestd_errors_def mcatch_def split: sum.splits prod.splits)

lemma permission_required_Inr:
  assumes "permission_required A q reqs legacy func s = (Inr r, s')" and "rq_token_user q = Inr (Some u)"
  shows "func u s = (Inr r, s')"
  using assms
  by (auto simp: permission_required_def abort_with_def mbind_Inr_iff Let_def split: if_splits)

lemma require_permission_scope_own:
  assumes "allowed_user_permission (policy_of A s) u resource operation ''*'' = Inr False"
    and "require_permission_scope A u resource operation s = (Inr scope, s')"
  shows "scope = ''self'' \<and> login u \<noteq> [] \<and> s' = s"
  using assms
  by (auto simp: require_permission_scope_def abort_with_def mbind_Inr_iff Let_def split: if_splits)

lemma own_jobs_filtered:
  assumes "filter_jobs_for_owner listing owner = Inr v"
  shows "\<exists>ds. v = VList (map VDict ds) \<and> (\<forall>d \<in> set ds. job_owner d = VStr owner)"
  using assms by (auto simp: filter_jobs_for_owner_def rbind_eq_Inr)

lemma own_scope_views:
  assumes "rq_token_user q = Inr (Some u)"
    and "allowed_user_permission (policy_of A s) u ''jobs'' ''view'' ''*'' = Inr False"
  shows "serve A q Jobs s = (Inr (code, Json v), s') \<Longrightarrow>
      \<exists>ds. v = VList (map VDict ds) \<and> (\<forall>d \<in> set ds. job_owner d = VStr (login u))"
    and "serve A q (Job n) s = (Inr (code, Json v), s') \<Longrightarrow> \<exists>d. v = VDict d \<and> job_owner d = VStr (login u)"
proof -
  assume "serve A q Jobs s = (Inr (code, Json v), s')"
  then have "serve A q Jobs s = (Inr (code, Json v), s')" .
  note this [unfolded serve.simps jobs_view_def handled_Inr Let_def]
  from permission_required_Inr [OF this assms(1)] obtain scope s1 result s2 shown s3 where
    scope: "require_permission_scope A u ''jobs'' ''view'' s = (Inr scope, s1)"
    and filtered: "(if scope = ''self'' then mlift (filter_jobs_for_owner result (login u)) else mret result) s2 = (Inr shown, s3)"
    and "jsonify shown s3 = (Inr (code, Json v), s')"
    by (elim mbind_InrE) (rule that)
  then have "shown = v" by (simp add: jsonify_def)
  moreover have "scope = ''self''" using require_permission_scope_own [OF assms(2) scope] by simp
  ultimately have "filter_jobs_for_owner result (login u) = Inr v" using filtered by simp
  then show "\<exists>ds. v = VList (map VDict ds) \<and> (\<forall>d \<in> set ds. job_owner d = VStr (login u))"
    by (rule own_jobs_filtered)
next
  assume "serve A q (Job n) s = (Inr (code, Json v), s')"
  note this [unfolded serve.simps job_view_def handled_Inr]
  from permission_required_Inr [OF this assms(1)] obtain scope s1 job_data s2 where
    scope: "require_permission_scope A u ''jobs'' ''view'' s = (Inr scope, s1)"
    and shown: "(if scope = ''*'' then mret job_data
       else mbind (mlift (as_dict job_data)) (\<lambda>d.
         if job_owner d = VNone \<or> job_owner d \<noteq> VStr (login u) then abort_with 403 ''Access not permitted''
         else mret job_data)) s2 = (Inr v, s')"
    by (auto simp: mbind_Inr_iff jsonify_def authorize_job_owner_def)
  have "scope \<noteq> ''*''" using require_permission_scope_own [OF assms(2) scope] by simp
  with shown show "\<exists>d. v = VDict d \<and> job_owner d = VStr (login u)"
    by (auto simp: mbind_Inr_iff abort_with_def as_dict_def split: if_splits pv.splits)
qed

text \<open>
  C10. With the permission to view only the own jobs, the listing of jobs contains only jobs of the user,
  whatever the query asks for, a node included, and the details of a job are only shown of an own job.
\<close>

theorem own_scope_shows_own_jobs:
  assumes "rq_token_user q = Inr (Some u)"
    and "allowed_user_permission (policy_of A s) u ''jobs'' ''view'' ''*'' = Inr False"
  shows "(serve A q Jobs s = (Inr (code, Json v), s') \<longrightarrow>
        (\<exists>ds. v = VList (map VDict ds) \<and> (\<forall>d \<in> set ds. job_owner d = VStr (login u))))
    \<and> (serve A q (Job n) s = (Inr (code, Json v), s') \<longrightarrow> (\<exists>d. v = VDict d \<and> job_owner d = VStr (login u)))"
  using own_scope_views [OF assms] by blast

fun one_listed :: "reply res \<Rightarrow> bool" where
  "one_listed (Inr (code, Json (VList [v]))) = True"
| "one_listed _ = False"

lemma one_listed_iff: "one_listed r \<longleftrightarrow> (\<exists>code v. r = Inr (code, Json (VList [v])))"
  by (induction r rule: one_listed.induct) auto

theorem own_scope_shows_own_jobs_witness:
  "\<exists>d s'. serve demo_agent (request_of ''carol'' [] VNone) Jobs demo_app = (Inr (200, Json (VList [VDict d])), s')
     \<and> job_owner d = VStr ''carol''"
proof -
  let ?q = "request_of ''carol'' [] VNone"
  have "one_listed (fst (serve demo_agent ?q Jobs demo_app))" by code_simp
  then obtain code v where "fst (serve demo_agent ?q Jobs demo_app) = Inr (code, Json (VList [v]))"
    unfolding one_listed_iff by blast
  then obtain s' where run: "serve demo_agent ?q Jobs demo_app = (Inr (code, Json (VList [v])), s')"
    by (metis prod.collapse)
  have user: "rq_token_user ?q = Inr (Some (named_user ''carol''))" by (simp add: request_of_def)
  have "case allowed_user_permission (policy_of demo_agent demo_app) (named_user ''carol'') ''jobs'' ''view'' ''*'' of
      Inl _ \<Rightarrow> False | Inr granted \<Rightarrow> \<not> granted" by code_simp
  then have "allowed_user_permission (policy_of demo_agent demo_app) (named_user ''carol'') ''jobs'' ''view'' ''*'' = Inr False"
    by (simp split: sum.splits)
  from own_scope_shows_own_jobs [OF user this] run
  have "\<exists>d. v = VDict d \<and> job_owner d = VStr ''carol''" by (fastforce simp: named_user_def)
  moreover have "code = 200"
    using run by (auto simp: jobs_view_def mbind_Inr_iff jsonify_def Let_def dest!: permission_required_Inr [OF _ user])
  ultimately show ?thesis using run by blast
qed

section \<open>The jobs of others\<close>

lemma on_client_db: "on_client m s = (r, s') \<Longrightarrow> app_db s' = app_db s"
  by (auto simp: on_client_def on_analytics_def on_jobs_def on_source_def app_db_def split: prod.splits)

lemma policy_cong: "app_db s' = app_db s \<Longrightarrow> policy_of A s' = policy_of A s"
  by (simp add: policy_of_def)

lemma ensure_write_supported_db: "ensure_write_supported A operation s = (Inr r, s') \<Longrightarrow> app_db s' = app_db s"
  unfolding ensure_write_supported_def
  by (elim mbind_InrE) (auto dest!: on_client_db elim!: mbind_InrE split: prod.splits if_splits)

lemma permission_granted:
  assumes "rq_token_user q = Inr (Some u)" and "\<not> is_anonymous u" and "any_requirement (policy_of A s) u reqs = Inr True"
  shows "permission_required A q reqs legacy func s = func u s"
  using assms by (simp add: permission_required_def mbind_def Let_def)

lemma handled_abort: "m s = (Inl (HttpAbort c t), s') \<Longrightarrow> handle_slurmrestd_errors m s = (Inl (HttpAbort c t), s')"
  by (simp add: handle_slurmrestd_errors_def mcatch_def)

lemma foreign_job_unauthorized:
  assumes "allowed_user_permission (policy_of A s) u ''jobs'' operation ''*'' = Inr False"
    and "allowed_user_permission (policy_of A s) u ''jobs'' operation ''self'' = Inr True" and "login u \<noteq> []"
    and "on_client (SlurmCached.job (ag_redis A) (ag_settings A) (ag_outside A) n) s = (Inr (VDict d), s2)"
    and "job_owner d \<noteq> VStr (login u)"
  shows "authorize_job_owner A u n operation s = (Inl (HttpAbort 403 ''Access not permitted''), s2)"
  using assms
  by (simp add: authorize_job_owner_def require_permission_scope_def mbind_def abort_with_def as_dict_def Let_def)

text \<open>
  C11. With the permission to edit or delete only the own jobs, an update or a cancellation of a job of
  somebody else is refused as soon as the job is read: the application is left as the reading left it,
  so no write operation was sent to slurmrestd and nothing was invalidated.
\<close>

theorem foreign_job_refused:
  assumes "rq_token_user q = Inr (Some u)" and "\<not> is_anonymous u" and "login u \<noteq> []"
    and "(ep, operation, name) \<in> {(UpdateJob n, ''edit'', ''jobs.update''), (CancelJob n, ''delete'', ''jobs.cancel'')}"
    and "allowed_user_permission (policy_of A s) u ''jobs'' operation ''*'' = Inr False"
    and "allowed_user_permission (policy_of A s) u ''jobs'' operation ''self'' = Inr True"
    and "ensure_write_supported A name s = (Inr None, s1)"
    and "on_client (SlurmCached.job (ag_redis A) (ag_settings A) (ag_outside A) n) s1 = (Inr (VDict d), s2)"
    and "job_owner d \<noteq> VStr (login u)"
  shows "serve A q ep s = (Inl (HttpAbort 403 ''Access not permitted''), s2)"
proof -
  have policy: "policy_of A s1 = policy_of A s" using ensure_write_supported_db [OF assms(7)] by (rule policy_cong)
  have refuse: "authorize_job_owner A u n operation s1 = (Inl (HttpAbort 403 ''Access not permitted''), s2)"
    using assms(3,5,6,8,9) by (intro foreign_job_unauthorized) (simp_all add: policy)
  have granted: "any_requirement (policy_of A s) u [all_scope ''jobs'' operation, own_scope ''jobs'' operation] = Inr True"
    using assms(5,6) by (simp add: any_requirement_def all_scope_def own_scope_def)
  have "write_view A q [all_scope ''jobs'' operation, own_scope ''jobs'' operation] legacy name target status
      (\<lambda>u. mbind (authorize_job_owner A u n operation) body) s = (Inl (HttpAbort 403 ''Access not permitted''), s2)"
    for legacy target status body
    unfolding write_view_def
    by (rule handled_abort, subst permission_granted [OF assms(1,2) granted])
      (simp add: when_supported_def mbind_def assms(7) refuse)
  then show ?thesis using assms(4) by (auto simp: job_update_view_def job_cancel_view_def)
qed

definition editor_app :: "(unit, memory, unit, unit) app" where
  "editor_app = snd (on_db (set_user_roles merged_defaults 4 ''carol'' [2]) demo_app)"

fun decides :: "bool \<Rightarrow> bool res \<Rightarrow> bool" where
  "decides b (Inr c) = (c = b)"
| "decides b (Inl e) = False"

lemma decidesD: "decides b r \<Longrightarrow> r = Inr b"
  by (induction b r rule: decides.induct) simp_all

fun job_of_other :: "string \<Rightarrow> pv res \<Rightarrow> bool" where
  "job_of_other name (Inr (VDict d)) = (job_owner d \<noteq> VStr name)"
| "job_of_other name _ = False"

lemma job_of_otherD: "job_of_other name r \<Longrightarrow> \<exists>d. r = Inr (VDict d) \<and> job_owner d \<noteq> VStr name"
  by (induction name r rule: job_of_other.induct) auto

fun no_reply :: "reply option res \<Rightarrow> bool" where
  "no_reply (Inr None) = True"
| "no_reply _ = False"

lemma no_replyD: "no_reply r \<Longrightarrow> r = Inr None"
  by (induction r rule: no_reply.induct) simp_all

theorem foreign_job_refused_witness:
  "\<exists>s2. serve demo_agent (request_of ''carol'' [] VNone) (UpdateJob 7) editor_app
     = (Inl (HttpAbort 403 ''Access not permitted''), s2)"
proof -
  let ?u = "named_user ''carol''"
  let ?check = "ensure_write_supported demo_agent ''jobs.update'' editor_app"
  let ?read = "on_client (SlurmCached.job (ag_redis demo_agent) (ag_settings demo_agent) (ag_outside demo_agent) 7)"
  have user: "rq_token_user (request_of ''carol'' [] VNone) = Inr (Some ?u)" by (simp add: request_of_def)
  have named: "\<not> is_anonymous ?u" "login ?u = ''carol''" by (simp_all add: named_user_def)
  have "decides False (allowed_user_permission (policy_of demo_agent editor_app) ?u ''jobs'' ''edit'' ''*'')"
    and "decides True (allowed_user_permission (policy_of demo_agent editor_app) ?u ''jobs'' ''edit'' ''self'')"
    by code_simp+
  note allowed = this [THEN decidesD]
  have "no_reply (fst ?check)" by code_simp
  from no_replyD [OF this] obtain s1 where check: "?check = (Inr None, s1)" by (metis prod.collapse)
  have "job_of_other ''carol'' (fst (?read (snd ?check)))" by code_simp
  from job_of_otherD [OF this] obtain d s2 where read: "?read s1 = (Inr (VDict d), s2)" and "job_owner d \<noteq> VStr ''carol''"
    by (metis check snd_conv prod.collapse)
  with foreign_job_refused [OF user named(1) _ _ allowed check read] show ?thesis by (simp add: named(2))
qed

end
