(* ===== verification/AgentTables.thy ===== *)
theory AgentTables
  imports AgentScopes
begin

text \<open>
  What every request keeps of the database: the tables of users, roles and jobs stay consistent, and
  only the four endpoints that edit roles change the roles and their assignment.
\<close>

section \<open>Methods that keep the tables\<close>

definition app_tables :: "('w, 'r, 'p, 'm) app \<Rightarrow> jobs_db" where
  "app_tables s = js_db (ua_jobs (ap_analytics s))"

definition role_tables :: "jobs_db \<Rightarrow> role_row list \<times> user_role_row list" where
  "role_tables jd = (db_roles (jd_base jd), db_user_roles (jd_base jd))"

text \<open>Consistent, with these roles and these assignments.\<close>

definition with_roles :: "role_row list \<times> user_role_row list \<Rightarrow> jobs_db \<Rightarrow> bool" where
  "with_roles X jd \<longleftrightarrow> jobs_ok jd \<and> role_tables jd = X"

abbreviation on_tables :: "(jobs_db \<Rightarrow> bool) \<Rightarrow> ('w, 'r, 'p, 'm) app \<Rightarrow> bool" where
  "on_tables P \<equiv> \<lambda>s. P (app_tables s)"

lemma tables_option [keeps_intros]:
  "keeps P m \<Longrightarrow> (\<And>x. keeps P (f x)) \<Longrightarrow> keeps P (case v of None \<Rightarrow> m | Some x \<Rightarrow> f x)"
  by (cases v) simp_all

lemma keeps_prod [keeps_intros]: "(\<And>x y. keeps P (f x y)) \<Longrightarrow> keeps P (case v of (x, y) \<Rightarrow> f x y)"
  by (cases v) simp

lemma keeps_Let [keeps_intros]: "(\<And>x. keeps P (f x)) \<Longrightarrow> keeps P (Let v f)"
  by (simp add: Let_def)

lemma keeps_abort [keeps_intros, simp]: "keeps P (abort_with code msg)"
  by (simp add: abort_with_def)

lemma keeps_client [keeps_intros, simp]: "keeps (on_tables P) (on_client m)"
  by (intro keepsI) (simp add: on_client_def on_analytics_def on_jobs_def on_source_def app_tables_def split: prod.split)

lemma keeps_hotspots [keeps_intros, simp]: "keeps (on_tables P) (on_hotspots m)"
  by (intro keepsI) (simp add: on_hotspots_def app_tables_def split: prod.split)

lemma keeps_analytics [keeps_intros]: "keeps (\<lambda>s. P (js_db (ua_jobs s))) m \<Longrightarrow> keeps (on_tables P) (on_analytics m)"
  by (simp add: keeps_def on_analytics_def app_tables_def case_prod_beta)

lemma keeps_jobs [keeps_intros]: "keeps (\<lambda>s. P (js_db s)) m \<Longrightarrow> keeps (\<lambda>s. P (js_db (ua_jobs s))) (on_jobs m)"
  by (simp add: keeps_def on_jobs_def case_prod_beta)

lemma keeps_connection [keeps_intros, simp]: "keeps (\<lambda>s. P (js_db s)) (get_conn Q)"
  by (simp add: keeps_def get_conn_def split: prod.split)

lemma keeps_source [keeps_intros, simp]: "keeps (\<lambda>s. P (js_db s)) (on_source m)"
  by (simp add: keeps_def on_source_def split: prod.split)

lemma keeps_handled [keeps_intros]: "keeps P m \<Longrightarrow> keeps P (handle_slurmrestd_errors m)"
  unfolding handle_slurmrestd_errors_def by (intro keeps_intros)

lemma keeps_except [keeps_intros]:
  "keeps P m \<Longrightarrow> keeps P (except_500 m)" "keeps P m \<Longrightarrow> keeps P (except_400_500 m)"
  "keeps P m \<Longrightarrow> keeps P (except_metrics_error m)"
  unfolding except_500_def except_400_500_def except_metrics_error_def
  by (rule keeps_mcatch, assumption, simp split: exn.split)+

lemma keeps_jsonify [keeps_intros, simp]: "keeps P (jsonify v)"
  by (simp add: jsonify_def)

lemma keeps_permission_required [keeps_intros]: "(\<And>u. keeps P (func u)) \<Longrightarrow> keeps P (permission_required A q reqs legacy func)"
  unfolding permission_required_def by (intro keeps_intros)

lemma keeps_slurmrest [keeps_intros, simp]: "keeps (on_tables P) (slurmrest m)"
  unfolding slurmrest_def by (intro keeps_intros)

lemma keeps_scope [keeps_intros, simp]: "keeps P (require_permission_scope A u resource operation)"
  unfolding require_permission_scope_def by (intro keeps_intros)

lemma keeps_authorize [keeps_intros, simp]: "keeps (on_tables P) (authorize_job_owner A u n operation)"
  unfolding authorize_job_owner_def by (intro keeps_intros)

lemma keeps_supported [keeps_intros]: "keeps (on_tables P) m \<Longrightarrow> keeps (on_tables P) (when_supported A operation m)"
  unfolding when_supported_def ensure_write_supported_def by (intro keeps_intros)

lemma keeps_response [keeps_intros, simp]: "keeps (on_tables P) (operation_response A operation target response status)"
  unfolding operation_response_def by (intro keeps_intros)

lemma keeps_cached [keeps_intros]: "keeps (on_tables P) m \<Longrightarrow> keeps (on_tables P) (cache_get_or_put A key e m)"
  unfolding cache_get_or_put_def by (intro keeps_intros)

lemma keeps_stats [keeps_intros, simp]: "keeps (on_tables P) (collect_stats A part)"
  unfolding collect_stats_def by (intro keeps_intros)

lemma keeps_history_query [keeps_intros, simp]: "keeps (\<lambda>s. P (js_db s)) (JobsHistory.query Q texts filters)"
  unfolding query_def by (intro keeps_intros)

lemma keeps_write_view [keeps_intros]: "(\<And>u. keeps (on_tables P) (body u)) \<Longrightarrow>
    keeps (on_tables P) (write_view A q reqs legacy operation target status body)"
  unfolding write_view_def by (intro keeps_intros)

lemma keeps_payload [keeps_intros, simp]: "keeps (on_tables P) (with_payload q m)"
  unfolding with_payload_def by (intro keeps_intros)


section \<open>The jobs store\<close>

lemma insert_users_roles: "db_roles (fold (insert_user now) names db) = db_roles db"
  "db_user_roles (fold (insert_user now) names db) = db_user_roles db"
  by (induction names arbitrary: db)
    (simp_all add: insert_user_def upsert_user_def Let_def split: option.split)

lemma ensure_users_roles: "role_tables (fst (snd (ensure_users P now rows c))) = role_tables (fst c)"
  by (cases c) (auto simp: ensure_users_def mbind_def runs_def role_tables_def insert_users_roles split: sum.splits prod.splits)

lemma write_statement_roles: "role_tables (fst (snd (write_statement P now rows c))) = role_tables (fst c)"
  by (cases c) (auto simp: write_statement_def mbind_def runs_def role_tables_def upserts_base split: sum.splits prod.splits)

lemma try_rows_roles: "role_tables (fst (snd (try_rows P now rows c))) = role_tables (fst c)"
proof -
  obtain r cu where u: "ensure_users P now rows c = (r, cu)" by (rule prod.exhaust)
  have users: "role_tables (fst cu) = role_tables (fst c)" using ensure_users_roles [of P now rows c] u by simp
  have undone: "role_tables (rolled_back (fst c) jd) = role_tables (fst c)" for jd
    by (simp add: rolled_back_def role_tables_def)
  show ?thesis
  proof (cases r)
    case (Inl e)
    then show ?thesis using u undone by (cases cu) (simp add: try_rows_def)
  next
    case (Inr rows1)
    then show ?thesis
      using u users undone write_statement_roles [of P now rows1 cu]
      by (cases "write_statement P now rows1 cu") (auto simp: try_rows_def split: sum.split)
  qed
qed

lemma try_each_roles: "role_tables (fst (snd (try_each P now rows c))) = role_tables (fst c)"
proof (induction rows arbitrary: c)
  case (Cons row rows)
  show ?case using try_rows_roles [of P now "[row]" c] Cons.IH by (simp add: case_prod_beta)
qed simp

lemma write_chunk_roles: "role_tables (fst (snd (write_chunk P now chunk c))) = role_tables (fst c)"
  using try_rows_roles [of P now chunk c] by (simp add: write_chunk_def case_prod_beta try_each_roles)

lemma keeps_flush_roles [keeps_intros]: "keeps (\<lambda>s. with_roles X (js_db s)) (flush_chunk P now chunk)"
proof (rule keepsI)
  fix s :: "('x, 'b) jobs_store" assume ok: "with_roles X (js_db s)"
  have "jobs_ok (js_db (snd (flush_chunk P now chunk s)))"
    using keepsD [OF keeps_flush_chunk [of "js_db s" P now chunk], of s] ok by (simp add: written_def with_roles_def)
  moreover have "role_tables (js_db (snd (flush_chunk P now chunk s))) = role_tables (js_db s)"
  proof -
    obtain r s1 where conn: "get_conn P s = (r, s1)" and db: "js_db s1 = js_db s" using get_conn_cases by blast
    show ?thesis
      using conn db write_chunk_roles [of P now chunk "(js_db s1, js_pg s1)"]
      by (auto simp: flush_chunk_def mbind_def split: sum.split prod.split)
  qed
  ultimately show "with_roles X (js_db (snd (flush_chunk P now chunk s)))" using ok by (simp add: with_roles_def)
qed

lemma keeps_get_by_id_roles [keeps_intros]: "keeps (\<lambda>s. with_roles X (js_db s)) (get_by_id P source now i enrich)"
  unfolding get_by_id_def fetch_record_def maybe_enrich_record_def plain_record_def by (intro keeps_intros)

lemma keeps_history [keeps_intros, simp]:
  "keeps (\<lambda>s. P (js_db s)) (UserTimelines.user_metrics_history Q now1 now2 username range_name a b)"
  unfolding user_metrics_history_def submission_timeline_def completion_timeline_def keyed_timeline_def state_timeline_def timeline_def
  by (intro keeps_intros)

lemma keeps_analysis [keeps_intros, simp]:
  "keeps (\<lambda>s. P (js_db (ua_jobs s))) (user_tool_analysis Q has_store now1 now2 username a b)"
  unfolding user_tool_analysis_def user_tool_daily_summary_def by (intro keeps_intros)

section \<open>The stores of users and roles\<close>

text \<open>A consistent database with at least these users.\<close>

definition with_users :: "int set \<Rightarrow> db \<Rightarrow> bool" where
  "with_users U db \<longleftrightarrow> consistent db \<and> U \<subseteq> us_id ` set (db_users db)"

lemma keeps_with_users:
  assumes "keeps consistent m" and "\<And>U. keeps (\<lambda>db. U \<subseteq> us_id ` set (db_users db)) m"
  shows "keeps (with_users U) m"
  using keeps_conj [OF assms(1) assms(2) [of U]] by (simp add: with_users_def [abs_def])

lemma keeps_transaction_users [keeps_intros]:
  "keeps (\<lambda>db. U \<subseteq> us_id ` set (db_users db)) body \<Longrightarrow> keeps (\<lambda>db. U \<subseteq> us_id ` set (db_users db)) (transaction body)"
  by (auto simp: keeps_def transaction_def case_prod_beta split: sum.split)

lemma keeps_upsert_users [keeps_intros]:
  assumes "\<And>u. us_id (f u) = us_id u"
  shows "keeps (\<lambda>db. U \<subseteq> us_id ` set (db_users db)) (upsert_user row f)"
proof -
  have "us_id ` (\<lambda>u. if P u then f u else u) ` A = us_id ` A" for P A
    unfolding image_image by (rule image_cong) (simp_all add: assms)
  then show ?thesis
    by (intro keepsI) (auto simp: upsert_user_def Let_def split: option.split)
qed

lemma keeps_update_users [keeps_intros]:
  "(\<And>db. db_users (f db) = db_users db) \<Longrightarrow> keeps (\<lambda>db. U \<subseteq> us_id ` set (db_users db)) (mupd f)"
  by (intro keeps_mupd) simp

lemma keeps_insert_users [keeps_intros]:
  "keeps (\<lambda>db. U \<subseteq> us_id ` set (db_users db)) (insert_user_role now uid rid)"
  "keeps (\<lambda>db. U \<subseteq> us_id ` set (db_users db)) (insert_role row)"
  by (intro keepsI; simp add: insert_user_role_def insert_role_def Let_def)+

lemma stores_keep_users:
  "keeps (with_users U) (set_user_roles lm now name ids)"
  "keeps (with_users U) (delete_role rid)"
  "keeps (with_users U) (upsert_ldap_user now name fn gs rs acts)"
  "\<forall>p \<in> set ps. valid_rule p \<Longrightarrow> keeps (with_users U) (create_role lm now n d as ps)"
  "\<forall>p \<in> set ps. valid_rule p \<Longrightarrow> keeps (with_users U) (update_role lm now rid n d as ps)"
proof -
  show "keeps (with_users U) (set_user_roles lm now name ids)"
    by (rule keeps_with_users, rule set_user_roles_ok, unfold set_user_roles_def ensure_user_def) (intro keeps_intros; simp)
  show "keeps (with_users U) (delete_role rid)"
    by (rule keeps_with_users, rule delete_role_ok, unfold delete_role_def) (intro keeps_intros; simp)
  show "keeps (with_users U) (upsert_ldap_user now name fn gs rs acts)"
    by (rule keeps_with_users, rule upsert_ldap_user_ok, unfold upsert_ldap_user_def) (intro keeps_intros; simp)
  assume valid: "\<forall>p \<in> set ps. valid_rule p"
  show "keeps (with_users U) (create_role lm now n d as ps)"
    by (rule keeps_with_users, rule create_role_ok [OF valid], unfold create_role_def) (intro keeps_intros)
  show "keeps (with_users U) (update_role lm now rid n d as ps)"
    by (rule keeps_with_users, rule update_role_ok [OF valid], unfold update_role_def) (intro keeps_intros; simp add: set_role_def)
qed

lemma keeps_db:
  assumes "\<And>U. keeps (with_users U) m"
  shows "keeps (on_tables jobs_ok) (on_db m)"
proof (rule keepsI)
  fix s assume ok: "jobs_ok (app_tables s)"
  let ?db = "app_db s"
  let ?U = "us_id ` set (db_users ?db)"
  have "with_users ?U ?db" using ok by (simp add: with_users_def jobs_ok_def app_tables_def app_db_def)
  from keepsD [OF assms [of ?U] this] have db: "with_users ?U (snd (m ?db))" .
  have "app_tables (snd (on_db m s)) = (app_tables s)\<lparr>jd_base := snd (m ?db)\<rparr>"
    by (simp add: on_db_def on_analytics_def with_db_def app_tables_def app_db_def case_prod_beta)
  moreover have "jobs_ok ((app_tables s)\<lparr>jd_base := snd (m ?db)\<rparr>)"
    using ok db user_exists_mono [of ?db "snd (m ?db)"]
    by (auto simp: jobs_ok_def with_users_def app_tables_def app_db_def)
  ultimately show "jobs_ok (app_tables (snd (on_db m s)))" by simp
qed

lemma role_payload_valid: "role_payload m q = Inr r \<Longrightarrow> p \<in> set (rp_permissions r) \<Longrightarrow> valid_rule p"
  using sort_rules_Inr(3) canonical_valid
  by (auto simp: role_payload_def rbind_eq_Inr normalize_rules_def Let_def split: if_splits)

section \<open>Every request\<close>

text \<open>The endpoints that edit roles or their assignment.\<close>

primrec edits_roles :: "endpoint \<Rightarrow> bool" where
  "edits_roles Permissions = False" | "edits_roles Ping = False" | "edits_roles AnalysisPing = False"
| "edits_roles AnalysisDiag = False" | "edits_roles AnalysisContext = False" | "edits_roles AnalysisNodeHotspots = False"
| "edits_roles Stats = False" | "edits_roles Jobs = False" | "edits_roles (Job n) = False" | "edits_roles SubmitJob = False"
| "edits_roles (UpdateJob n) = False" | "edits_roles (CancelJob n) = False" | "edits_roles Nodes = False"
| "edits_roles (Node name) = False" | "edits_roles (UpdateNode name) = False" | "edits_roles (DeleteNode name) = False"
| "edits_roles Partitions = False" | "edits_roles Qos = False" | "edits_roles Reservations = False"
| "edits_roles CreateReservation = False" | "edits_roles (UpdateReservation name) = False"
| "edits_roles (DeleteReservation name) = False" | "edits_roles Accounts = False" | "edits_roles (Account name) = False"
| "edits_roles UpdateAccounts = False" | "edits_roles (DeleteAccount name) = False" | "edits_roles Associations = False"
| "edits_roles Users = False" | "edits_roles (User name) = False" | "edits_roles UpdateUsers = False"
| "edits_roles (DeleteUser name) = False" | "edits_roles UpdateQos = False" | "edits_roles (DeleteQos name) = False"
| "edits_roles UpdateAssociations = False" | "edits_roles DeleteAssociations = False" | "edits_roles CacheStats = False"
| "edits_roles CacheReset = False" | "edits_roles (Metrics metric) = False" | "edits_roles History = False"
| "edits_roles (HistoryDetail i) = False" | "edits_roles CacheUser = False" | "edits_roles LdapUsers = False"
| "edits_roles AccessCatalog = False" | "edits_roles AccessRoles = False" | "edits_roles CreateAccessRole = True"
| "edits_roles (UpdateAccessRole i) = True" | "edits_roles (DeleteAccessRole i) = True" | "edits_roles AccessUsers = False"
| "edits_roles (AccessUserRoles name) = False" | "edits_roles (UpdateAccessUserRoles name) = True"
| "edits_roles (UserHistory name) = False" | "edits_roles (UserTools name) = False" | "edits_roles (NodeMetrics name) = False"
| "edits_roles (NodeMetricsHistory name) = False"

lemma keeps_access_view [keeps_intros]: "keeps P m \<Longrightarrow> keeps P (access_view A q operation m)"
  unfolding access_view_def require_access_control_def by (intro keeps_intros)

lemma keeps_read_metrics [keeps_intros, simp]: "keeps (on_tables P) (read_metrics A D now ms)"
proof (induction ms)
  case Nil
  show ?case unfolding read_metrics.simps by (intro keeps_intros)
next
  case (Cons metric ms)
  show ?case unfolding read_metrics.simps by (intro keeps_intros Cons.IH)
qed

lemma keeps_analysis_parts [keeps_intros, simp]:
  "keeps (on_tables P) (metrics_part_of A now)" "keeps (on_tables P) (history_part_of A now)"
  "keeps (on_tables P) (hotspots_part_of A a b)"
  unfolding metrics_part_of_def history_part_of_def history_waits_def hotspots_part_of_def by (intro keeps_intros)+

lemma keeps_analysis_context [keeps_intros, simp]: "keeps (on_tables P) (analysis_context_payload A clk)"
  unfolding analysis_context_payload_def by (intro keeps_intros)

lemmas reading_views =
  permissions_view_def ping_view_def analysis_ping_view_def analysis_diag_view_def analysis_context_view_def stats_view_def
  jobs_view_def job_view_def job_submit_view_def job_update_view_def job_cancel_view_def resources_listing_def nodes_view_def
  node_view_def partitions_view_def qos_view_def reservations_view_def accounts_view_def associations_view_def
  admin_listing_def account_view_def users_view_def user_view_def node_update_view_def node_delete_view_def
  reservation_create_view_def reservation_update_view_def reservation_delete_view_def accounts_update_view_def
  account_delete_view_def users_update_view_def user_delete_view_def qos_update_view_def qos_delete_view_def
  associations_update_view_def associations_delete_view_def cache_counters_def cache_stats_view_def cache_reset_view_def
  metrics_view_def jobs_history_view_def ldap_cache_users_view_def access_catalog_view_def access_roles_view_def
  access_users_view_def access_user_roles_view_def user_metrics_history_view_def user_tools_analysis_view_def
  node_metrics_view_def

lemma keeps_caught_views [keeps_intros, simp]:
  "keeps (on_tables P) (analysis_node_hotspots_view A q)" "keeps (on_tables P) (node_metrics_history_view A q name)"
  unfolding analysis_node_hotspots_view_def node_metrics_history_view_def collect_hotspots_def
  by (intro keeps_intros; simp split: exn.split)+

text \<open>The endpoints that write no table at all.\<close>

lemma serve_reads:
  assumes "\<not> edits_roles ep" and "\<forall>i. ep \<noteq> HistoryDetail i" and "ep \<noteq> CacheUser"
  shows "keeps (on_tables P) (serve A q ep)"
  by (cases ep; ((simp only: serve.simps reading_views, (intro keeps_intros; fail)) | (use assms in \<open>simp; fail\<close>)))

lemma keeps_db_roles:
  assumes "\<And>U. keeps (with_users U) m" and "keeps (\<lambda>db. (db_roles db, db_user_roles db) = X) m"
  shows "keeps (on_tables (with_roles X)) (on_db m)"
proof (rule keepsI)
  fix s assume ok: "with_roles X (app_tables s)"
  have "jobs_ok (app_tables (snd (on_db m s)))"
    using keepsD [OF keeps_db [OF assms(1)], of s] ok by (simp add: with_roles_def)
  moreover have "role_tables (app_tables (snd (on_db m s))) = X"
    using keepsD [OF assms(2), of "app_db s"] ok
    by (simp add: with_roles_def role_tables_def on_db_def on_analytics_def with_db_def app_tables_def app_db_def case_prod_beta)
  ultimately show "with_roles X (app_tables (snd (on_db m s)))" by (simp add: with_roles_def)
qed

lemma upsert_keeps_roles: "keeps (\<lambda>db. (db_roles db, db_user_roles db) = X) (upsert_ldap_user now name fn gs rs acts)"
  by (intro keepsI) (auto simp: upsert_ldap_user_def transaction_def mbind_def upsert_user_def Let_def split: option.split)

lemma keeps_cache_user: "keeps (on_tables (with_roles X)) (cache_authenticated_user_view A q)"
  unfolding cache_authenticated_user_view_def cache_user_def
  by (intro keeps_intros keeps_db_roles stores_keep_users upsert_keeps_roles)

lemma keeps_detail: "keeps (on_tables (with_roles X)) (job_history_detail_view A q i)"
  unfolding job_history_detail_view_def by (intro keeps_intros)

lemma keeps_with_role:
  assumes "\<And>role. \<forall>p \<in> set (rp_permissions role). valid_rule p \<Longrightarrow> keeps P (func role)"
  shows "keeps P (with_role A q func)"
proof (rule keepsI)
  fix s assume ok: "P s"
  show "P (snd (with_role A q func s))"
  proof (cases "role_payload (policy_of A s) q")
    case (Inl e)
    with ok show ?thesis by (simp add: with_role_def mbind_def)
  next
    case (Inr role)
    have "keeps P (func role)" using role_payload_valid [OF Inr] by (intro assms) blast
    from keepsD [OF this ok] show ?thesis by (simp add: with_role_def mbind_def Inr)
  qed
qed

lemma store_role_keeps:
  assumes "\<forall>p \<in> set (rp_permissions role). valid_rule p"
  shows "keeps (with_users U) (store_new_role A now role)" and "keeps (with_users U) (store_role A now rid role)"
proof -
  have "keeps (with_users U) (case v of Inl e \<Rightarrow> f e | Inr d \<Rightarrow> g d)"
    if "\<And>e. keeps (with_users U) (f e)" "\<And>d. keeps (with_users U) (g d)" for v :: "string option res" and f
      and g :: "string option \<Rightarrow> (db, 'z) meth"
    using that by (cases v) simp_all
  note cases = this
  show "keeps (with_users U) (store_new_role A now role)"
    unfolding store_new_role_def by (intro cases stores_keep_users(4) [OF assms] keeps_intros)
  show "keeps (with_users U) (store_role A now rid role)"
    unfolding store_role_def by (intro cases stores_keep_users(5) [OF assms] keeps_intros)
qed

lemma keeps_role_views:
  "keeps (on_tables jobs_ok) (create_access_role_view A q)" "keeps (on_tables jobs_ok) (update_access_role_view A q rid)"
  "keeps (on_tables jobs_ok) (delete_access_role_view A q rid)"
  "keeps (on_tables jobs_ok) (update_access_user_roles_view A q name)"
  unfolding create_access_role_view_def update_access_role_view_def delete_access_role_view_def
    update_access_user_roles_view_def role_not_found_def
  by (intro keeps_intros keeps_with_role keeps_db store_role_keeps stores_keep_users; assumption)+

text \<open>What a sequence of requests does to the application.\<close>

definition serve_all :: "('w, 'r, 'p, 'm) agent \<Rightarrow> (web_request \<times> endpoint) list \<Rightarrow> ('w, 'r, 'p, 'm) app \<Rightarrow> ('w, 'r, 'p, 'm) app" where
  "serve_all A requests s = fold (\<lambda>(q, ep) s. snd (serve A q ep s)) requests s"

lemma serve_keeps_roles: "\<not> edits_roles ep \<Longrightarrow> keeps (on_tables (with_roles X)) (serve A q ep)"
proof -
  assume reads: "\<not> edits_roles ep"
  consider "ep = CacheUser" | i where "ep = HistoryDetail i" | "\<forall>i. ep \<noteq> HistoryDetail i" "ep \<noteq> CacheUser" by blast
  then show ?thesis
  proof cases
    case 1
    then show ?thesis using keeps_cache_user by simp
  next
    case 2
    then show ?thesis using keeps_detail by simp
  next
    case 3
    then show ?thesis using serve_reads [OF reads] by blast
  qed
qed

lemma with_roles_ok: "jobs_ok jd \<longleftrightarrow> with_roles (role_tables jd) jd"
  by (simp add: with_roles_def)

lemma serve_keeps_ok: "keeps (on_tables jobs_ok) (serve A q ep)"
proof (cases "edits_roles ep")
  case True
  then show ?thesis by (cases ep) (simp_all add: keeps_role_views)
next
  case False
  show ?thesis
  proof (rule keepsI)
    fix s :: "('a, 'b, 'c, 'd) app" assume "jobs_ok (app_tables s)"
    then show "jobs_ok (app_tables (snd (serve A q ep s)))"
      using keepsD [OF serve_keeps_roles [OF False]] unfolding with_roles_ok by (metis with_roles_def)
  qed
qed

text \<open>
  C12. However the requests come and fail, the tables stay consistent: keys, names and references, valid
  permission rules in every role, and jobs of existing users; and while no request is one of the four
  that edit roles, the roles and who has them stay as they are.
\<close>

theorem requests_keep_tables:
  assumes "jobs_ok (app_tables s)"
  shows "jobs_ok (app_tables (serve_all A requests s))
    \<and> ((\<forall>(q, ep) \<in> set requests. \<not> edits_roles ep) \<longrightarrow>
         role_tables (app_tables (serve_all A requests s)) = role_tables (app_tables s))"
  using assms
proof (induction requests arbitrary: s)
  case Nil
  then show ?case by (simp add: serve_all_def)
next
  case (Cons request requests)
  obtain q ep where request: "request = (q, ep)" by (cases request)
  let ?s = "snd (serve A q ep s)"
  have ok: "jobs_ok (app_tables ?s)" using keepsD [OF serve_keeps_ok, of s] Cons.prems by simp
  have "role_tables (app_tables ?s) = role_tables (app_tables s)" if "\<not> edits_roles ep"
    using keepsD [OF serve_keeps_roles [OF that], of "role_tables (app_tables s)" s] Cons.prems
    by (simp add: with_roles_def)
  with Cons.IH [OF ok] request show ?case by (simp add: serve_all_def)
qed

theorem requests_keep_tables_witness:
  "let s' = serve_all demo_agent [(request_of ''carol'' [] VNone, CacheUser), (request_of ''carol'' [] VNone, HistoryDetail 3)] demo_app
   in jobs_ok (app_tables s') \<and> role_tables (app_tables s') = role_tables (app_tables demo_app)"
proof -
  have "consistent demo" by code_simp
  then have "jobs_ok (app_tables demo_app)" by (simp add: demo_app_def app_tables_def jobs_ok_def)
  from requests_keep_tables [OF this, of demo_agent
      "[(request_of ''carol'' [] VNone, CacheUser), (request_of ''carol'' [] VNone, HistoryDetail 3)]"]
  show ?thesis by (simp add: Let_def)
qed

section \<open>An assignment and the next request\<close>

lemma assigned_after:
  assumes "db_ok db" and "set_user_roles lm now name ids db = (Inr d, db')"
  shows "assigned_roles db' name = {ro \<in> set (db_roles db). ro_id ro \<in> set ids} \<and> db_roles db' = db_roles db"
proof (cases "set ids \<subseteq> ro_id ` set (db_roles db)")
  case False
  with set_user_roles_missing [OF assms(1) False, of lm now name] assms(2) show ?thesis by auto
next
  case True
  from set_user_roles_found [OF assms(1) True, of lm now name] assms(2) obtain u where
    u: "find_user name db' = Some u" and roles: "db_roles db' = db_roles db"
    and links: "db_user_roles db' = filter (\<lambda>l. ur_user l \<noteq> us_id u) (db_user_roles db)
        @ map (\<lambda>i. \<lparr>ur_user = us_id u, ur_role = i, ur_created_at = now\<rparr>) (sorted_set ids)"
    by auto
  have "(\<exists>l \<in> set (db_user_roles db'). ur_user l = us_id u \<and> ur_role l = i) \<longleftrightarrow> i \<in> set ids" for i
    unfolding links by (auto intro!: bexI [of _ "\<lparr>ur_user = us_id u, ur_role = i, ur_created_at = now\<rparr>"])
  then show ?thesis using u roles by (auto simp: assigned_roles_def set_joined_roles)
qed

lemma permission_required_run:
  "permission_required A q reqs legacy func s = (Inr r, s') \<Longrightarrow> \<exists>u. func u s = (Inr r, s')"
  by (auto simp: permission_required_def abort_with_def mbind_Inr_iff Let_def split: option.splits if_splits)

lemma access_view_run:
  assumes "access_view A q operation m s = (Inr r, s')"
  shows "ag_access_enabled A \<and> ag_access_store A \<and> m s = (Inr r, s')"
  using permission_required_run [OF assms [unfolded access_view_def]]
  by (auto simp: require_access_control_def abort_with_def mbind_Inr_iff split: if_splits)

lemma except_400_500_Inr [simp]: "except_400_500 m s = (Inr r, s') \<longleftrightarrow> m s = (Inr r, s')"
  by (auto simp: except_400_500_def mcatch_def abort_with_def split: sum.splits prod.splits exn.splits)

lemma on_db_run: "on_db m s = (Inr r, s') \<Longrightarrow> m (app_db s) = (Inr r, app_db s')"
  by (auto simp: on_db_def on_analytics_def with_db_def app_db_def split: prod.splits)

lemma assignment_run:
  assumes "update_access_user_roles_view A q name s = (Inr (200, reply), s')"
    and "rq_json q = VDict payload" and "role_ids_arg (dget ''role_ids'' payload) = Inr ids"
  shows "ag_access_enabled A \<and> ag_access_store A
    \<and> (\<exists>details. set_user_roles (ag_legacy_map A) (rq_clock q 0) name ids (app_db s) = (Inr details, app_db s'))"
proof -
  note run = access_view_run [OF assms(1) [unfolded update_access_user_roles_view_def]]
  have payload: "json_or_empty q = VDict payload"
    using assms(2) by (cases payload) (simp_all add: json_or_empty_def py_or_def)
  from run show ?thesis
    by (auto simp: payload as_dict_def assms(3) mbind_Inr_iff dest: on_db_run)
qed

text \<open>
  C13. An assignment of roles counts from the next decision on. When the request that assigns roles to a
  user is answered with 200, the user is allowed afterwards exactly what the file policy grants or one
  of the roles of the request grants, for every resource, operation and scope.
\<close>

theorem assignment_effective:
  assumes "serve A q (UpdateAccessUserRoles name) s = (Inr (200, reply), s')"
    and "rq_json q = VDict payload" and "role_ids_arg (dget ''role_ids'' payload) = Inr ids"
    and "jobs_ok (app_tables s)" and "wf_legacy_map (ag_legacy_map A)"
    and "login u = name" and "\<not> is_anonymous u"
  shows "allowed_user_permission (policy_of A s') u r oper sc
    = Inr (actions_grant (policy_of A s') (snd (fp_roles_actions (ag_policy A) u)) (r, oper, sc)
        \<or> (\<exists>ro \<in> set (db_roles (app_db s)). ro_id ro \<in> set ids \<and>
             (actions_grant (policy_of A s') (ro_actions ro) (r, oper, sc)
              \<or> denotes (derive_permissions (ag_legacy_map A) (ro_actions ro) (ro_permissions ro)) (r, oper, sc))))"
proof -
  from assignment_run [OF _ assms(2,3), of A name s reply s'] assms(1) obtain details where
    access: "ag_access_enabled A" "ag_access_store A"
    and stored: "set_user_roles (ag_legacy_map A) (rq_clock q 0) name ids (app_db s) = (Inr details, app_db s')"
    by auto
  let ?m = "policy_of A s'"
  let ?lm = "ag_legacy_map A"
  have db: "consistent (app_db s)" using assms(4) by (simp add: jobs_ok_def app_tables_def app_db_def)
  have db': "consistent (app_db s')" using keepsD [OF set_user_roles_ok db] stored by (metis snd_conv)
  have m: "wf_manager ?m" "am_enabled ?m" "am_store ?m = Some (user_permissions ?lm (app_db s'))" "am_legacy_map ?m = ?lm"
    "file_roles_actions ?m u = fp_roles_actions (ag_policy A) u"
    using access assms(5) by (simp_all add: policy_of_def wf_manager_def file_roles_actions_def)
  have assigned: "assigned_roles (app_db s') (login u) = {ro \<in> set (db_roles (app_db s)). ro_id ro \<in> set ids}"
    using assigned_after [OF conjunct1 [OF db] stored] assms(6) by simp
  have grants: "acs.role_grants ?lm ?m ro g \<longleftrightarrow> actions_grant ?m (ro_actions ro) g
      \<or> denotes (derive_permissions ?lm (ro_actions ro) (ro_permissions ro)) g" for ro g
    unfolding acs.role_grants_def actions_grant_def by (subst (3) denotes_single) simp
  show ?thesis
    using acs.role_decision [OF m(1-3) assms(7) conjunct1 [OF db'] assigned_valid [OF db' assms(5)], of r oper sc]
    by (auto simp: grants m(5) assigned)
qed

definition admin_app :: "(unit, memory, unit, unit) app" where
  "admin_app = snd (on_db (set_user_roles merged_defaults 5 ''root'' [3])
     (snd (on_db (create_role merged_defaults 5 ''admin'' None [] [''admin/access-control:edit:*'']) demo_app)))"

fun replied :: "nat \<Rightarrow> reply res \<Rightarrow> bool" where
  "replied code (Inr (c, b)) = (c = code)"
| "replied code (Inl e) = False"

lemma repliedD: "replied code r \<Longrightarrow> \<exists>b. r = Inr (code, b)"
  by (induction code r rule: replied.induct) simp_all

theorem assignment_effective_witness:
  "\<exists>reply s'. serve demo_agent (request_of ''root'' [] (VDict [(''role_ids'', VList [VInt 2])])) (UpdateAccessUserRoles ''dave'')
       admin_app = (Inr (200, reply), s')
     \<and> allowed_user_permission (policy_of demo_agent s') (named_user ''dave'') ''jobs'' ''edit'' ''self'' = Inr True"
proof -
  let ?q = "request_of ''root'' [] (VDict [(''role_ids'', VList [VInt 2])])"
  let ?run = "serve demo_agent ?q (UpdateAccessUserRoles ''dave'') admin_app"
  have "replied 200 (fst ?run)" by code_simp
  from repliedD [OF this] obtain reply where "fst ?run = Inr (200, reply)" by (elim exE)
  then have run: "?run = (Inr (200, reply), snd ?run)" by (metis prod.collapse)
  have valid: "\<forall>p \<in> set [''admin/access-control:edit:*'']. valid_rule p" by code_simp
  have "consistent demo" by code_simp
  then have "jobs_ok (app_tables demo_app)" by (simp add: demo_app_def app_tables_def jobs_ok_def)
  note this [THEN keepsD [OF keeps_db [OF stores_keep_users(4) [OF valid]]], THEN keepsD [OF keeps_db [OF stores_keep_users(1)]]]
  then have ok: "jobs_ok (app_tables admin_app)" unfolding admin_app_def .
  have wf: "wf_legacy_map (ag_legacy_map demo_agent)" using merged_legacy_wf [OF merged_defaults] by (simp add: demo_agent_def)
  have json: "rq_json ?q = VDict [(''role_ids'', VList [VInt 2])]" by (simp add: request_of_def)
  have ids: "role_ids_arg (dget ''role_ids'' [(''role_ids'', VList [VInt 2])]) = Inr [2]"
    by (simp add: role_ids_arg_def dget_or_def)
  have dave: "login (named_user ''dave'') = ''dave''" "\<not> is_anonymous (named_user ''dave'')" by (simp_all add: named_user_def)
  have "\<exists>ro \<in> set (db_roles (app_db admin_app)). ro_id ro \<in> set [2]
      \<and> denotes (derive_permissions (ag_legacy_map demo_agent) (ro_actions ro) (ro_permissions ro)) (''jobs'', ''edit'', ''self'')"
    by code_simp
  then have "allowed_user_permission (policy_of demo_agent (snd ?run)) (named_user ''dave'') ''jobs'' ''edit'' ''self'' = Inr True"
    unfolding assignment_effective [OF run json ids ok wf dave] by blast
  with run show ?thesis by blast
qed

end
