(* ===== verification/GatewayAgents.thy ===== *)
theory GatewayAgents
  imports AgentRequests
begin

text \<open>
  The agents the gateway knows, from \<open>apps/gateway.py\<close>: the comparison of versions, the information an
  agent gives of itself, the discovery of the agents at their configured addresses and the registry of
  those found, which is polled again after 300 seconds. The network is a library: a request is answered,
  or raises when it is sent. The requests that \<open>asyncio.gather\<close> runs together are made in their order.
\<close>

section \<open>Versions\<close>

datatype version_part = Number int | Text string

definition int_or_str :: "string \<Rightarrow> version_part" where
  "int_or_str part = (case py_parse_int part of Some n \<Rightarrow> Number n | None \<Rightarrow> Text part)"

definition version_tuple :: "string \<Rightarrow> version_part list" where
  "version_tuple version = map int_or_str (py_split CHR ''.'' version)"

fun part_str :: "version_part \<Rightarrow> string" where
  "part_str (Number n) = int_str n"
| "part_str (Text s) = s"

fun compare_parts :: "version_part \<Rightarrow> version_part \<Rightarrow> bool" where
  "compare_parts (Number m) (Number n) = (m \<le> n)"
| "compare_parts reference version = (part_str reference \<le> part_str version)"

text \<open>The loop skips the parts that are equal, up to the shorter length.\<close>

fun compare_versions :: "version_part list \<Rightarrow> version_part list \<Rightarrow> bool" where
  "compare_versions [] version = True"
| "compare_versions (r # rs) [] = False"
| "compare_versions (r # rs) (v # vs) = (if r = v then compare_versions rs vs else compare_parts r v)"

definition version_greater_or_equal :: "string \<Rightarrow> string \<Rightarrow> bool" where
  "version_greater_or_equal reference_s version_s =
     compare_versions (version_tuple reference_s) (version_tuple version_s)"

definition version_numbers :: "string \<Rightarrow> int list option" where
  "version_numbers version = those (map py_parse_int (py_split CHR ''.'' version))"

lemma those_numbers: "those (map py_parse_int parts) = Some ns \<Longrightarrow> map int_or_str parts = map Number ns"
  by (induction parts arbitrary: ns) (auto simp: int_or_str_def split: option.splits)

lemma compare_numbers: "compare_versions (map Number rs) (map Number vs) \<longleftrightarrow> rs \<le> vs"
proof (induction rs arbitrary: vs)
  case (Cons r rs)
  then show ?case by (cases vs) auto
qed simp

text \<open>
  C19. On versions whose parts are all numbers the comparison of the gateway is the lexicographic order of
  the lists of numbers, a total order in which a version precedes its extensions.
\<close>

theorem version_order:
  assumes "version_numbers reference = Some rs" and "version_numbers version = Some vs"
  shows "version_greater_or_equal reference version \<longleftrightarrow> rs \<le> vs"
  using those_numbers [OF assms(1) [unfolded version_numbers_def]]
    those_numbers [OF assms(2) [unfolded version_numbers_def]]
  by (simp add: version_greater_or_equal_def version_tuple_def compare_numbers)

theorem version_order_witness: "version_greater_or_equal ''6.9.0'' ''6.10.0'' \<and> \<not> version_greater_or_equal ''6.10.0'' ''6.9.0''"
proof
  have "version_numbers ''6.9.0'' = Some [6, 9, 0]" "version_numbers ''6.10.0'' = Some [6, 10, 0]" by code_simp+
  note version_order [OF this] version_order [OF this(2) this(1)]
  then show "version_greater_or_equal ''6.9.0'' ''6.10.0''" "\<not> version_greater_or_equal ''6.10.0'' ''6.9.0''" by simp_all
qed

text \<open>With other parts it is not transitive, and a release candidate is not before its release.\<close>

lemma version_not_transitive:
  "version_greater_or_equal ''8a'' ''9'' \<and> version_greater_or_equal ''9'' ''10'' \<and> \<not> version_greater_or_equal ''8a'' ''10''"
  by code_simp

lemma candidate_accepted: "version_greater_or_equal ''6.0.0'' ''6.0.0rc1''"
  by code_simp

section \<open>The network\<close>

record http_request =
  hq_method :: string
  hq_url :: string
  hq_headers :: "(string \<times> string) list"
  hq_json :: "pv option" \<comment> \<open>the argument \<open>json\<close>, absent for a GET\<close>

record http_response =
  hr_status :: int
  hr_json :: "pv res" \<comment> \<open>\<open>await response.json()\<close>\<close>
  hr_text :: "string res" \<comment> \<open>\<open>await response.text()\<close>\<close>
  hr_body :: string
  hr_content_type :: "string option"

text \<open>
  The world of the gateway: the clock in whole seconds, the files, and what sending a request gives: the
  response, or the exception raised when the context of the request is entered.
\<close>

record 'h internet =
  in_clock :: "'h \<Rightarrow> int \<times> 'h"
  in_is_file :: "string \<Rightarrow> 'h \<Rightarrow> bool"
  in_nested_run :: "exn option" \<comment> \<open>what \<open>asyncio_run\<close> raises inside a coroutine that it runs\<close>
  in_request :: "http_request \<Rightarrow> 'h \<Rightarrow> http_response res \<times> 'h"

record gateway_settings =
  gs_urls :: "string list"
  gs_version :: string
  gs_racksdb_version :: string
  gs_cacert :: "string option"
  gs_authentication :: bool
  gs_hide_denied :: bool

section \<open>Agents\<close>

record racksdb_settings =
  rd_enabled :: pv
  rd_version :: pv
  rd_infrastructure :: pv

record remote_agent =
  ra_version :: pv
  ra_cluster :: pv
  ra_racksdb :: racksdb_settings
  ra_metrics :: pv
  ra_cache :: pv
  ra_database :: pv
  ra_url :: string
  ra_persistence :: pv
  ra_access_control :: pv
  ra_node_metrics :: pv
  ra_user_metrics :: pv
  ra_ai :: pv
  ra_capabilities :: pv

text \<open>The named tuple called with the entries of a dictionary: its three fields and no other.\<close>

definition racksdb_of :: "pv \<Rightarrow> racksdb_settings res" where
  "racksdb_of v =
     (case v of
        VDict d \<Rightarrow>
          (case (map_of d ''enabled'', map_of d ''version'', map_of d ''infrastructure'') of
             (Some e, Some v, Some i) \<Rightarrow>
               if fst ` set d = {''enabled'', ''version'', ''infrastructure''}
               then Inr \<lparr>rd_enabled = e, rd_version = v, rd_infrastructure = i\<rparr>
               else Inl (TypeError ''unexpected keyword argument'')
           | _ \<Rightarrow> Inl (TypeError ''missing argument''))
      | _ \<Rightarrow> Inl (TypeError ''argument after ** must be a mapping''))"

definition agent_of :: "string \<Rightarrow> pv \<Rightarrow> remote_agent res" where
  "agent_of url data =
     rbind (py_item ''version'' data) (\<lambda>version.
     rbind (py_item ''cluster'' data) (\<lambda>cluster.
     rbind (rbind (py_item ''racksdb'' data) racksdb_of) (\<lambda>racksdb.
     rbind (py_item ''metrics'' data) (\<lambda>metrics.
     rbind (py_item ''cache'' data) (\<lambda>cache.
     rbind (py_item ''database'' data) (\<lambda>database.
     rbind (as_dict data) (\<lambda>d.
     Inr \<lparr>ra_version = version, ra_cluster = cluster, ra_racksdb = racksdb, ra_metrics = metrics, ra_cache = cache,
          ra_database = database, ra_url = url, ra_persistence = dget_or ''persistence'' (VBool False) d,
          ra_access_control = dget_or ''access_control'' (VBool False) d,
          ra_node_metrics = dget_or ''node_metrics'' (VBool False) d,
          ra_user_metrics = dget_or ''user_metrics'' (VBool False) d,
          ra_ai = py_or (dget_or ''ai'' (VDict []) d) (VDict []),
          ra_capabilities = py_or (dget_or ''capabilities'' (VDict []) d) (VDict [])\<rparr>)))))))"

definition from_json :: "string \<Rightarrow> pv \<Rightarrow> remote_agent res" where
  "from_json url data =
     (case agent_of url data of
        Inl (KeyError _) \<Rightarrow> Inl (SlurmwebAgentError ''Unable to parse cluster info fields from agent'')
      | r \<Rightarrow> r)"

section \<open>Discovery\<close>

text \<open>\<open>get_agent_connector\<close>: only whether it raises matters.\<close>

definition get_agent_connector :: "'h internet \<Rightarrow> gateway_settings \<Rightarrow> ('h, unit) meth" where
  "get_agent_connector I S h =
     (case gs_cacert S of
        None \<Rightarrow> (Inr (), h)
      | Some path \<Rightarrow>
          if in_is_file I path h then (Inr (), h)
          else (Inl (SlurmwebConfigurationError (''Agent CA certificate file '' @ path @ '' not found'')), h))"

definition gateway_clock :: "'h internet \<Rightarrow> ('h, int) meth" where
  "gateway_clock I h = (case in_clock I h of (t, h') \<Rightarrow> (Inr t, h'))"

definition info_request :: "string \<Rightarrow> http_request" where
  "info_request url = \<lparr>hq_method = ''GET'', hq_url = url @ ''/info'', hq_headers = [], hq_json = None\<rparr>"

definition info_answer :: "string \<Rightarrow> http_response \<Rightarrow> remote_agent res" where
  "info_answer url response =
     (if hr_status response \<noteq> 200
      then Inl (SlurmwebAgentError (''unexpected status code '' @ int_str (hr_status response)))
      else rbind (hr_json response) (from_json url))"

fun discovery_error :: "exn \<Rightarrow> bool" where
  "discovery_error (SlurmwebAgentError _) = True"
| "discovery_error (ClientConnectionError _) = True"
| "discovery_error (ContentTypeError _) = True"
| "discovery_error _ = False"

text \<open>\<open>version.split\<close> of a version that is no text raises.\<close>

definition supported_version :: "string \<Rightarrow> pv \<Rightarrow> bool res" where
  "supported_version reference v =
     (case v of
        VStr version \<Rightarrow> Inr (version_greater_or_equal reference version)
      | _ \<Rightarrow> Inl (AttributeError ''split''))"

definition checked_agent :: "gateway_settings \<Rightarrow> remote_agent \<Rightarrow> remote_agent option res" where
  "checked_agent S agent =
     rbind (supported_version (gs_version S) (ra_version agent)) (\<lambda>supported.
     if \<not> supported then Inr None
     else if truthy (rd_enabled (ra_racksdb agent)) then
       rbind (supported_version (gs_racksdb_version S) (rd_version (ra_racksdb agent))) (\<lambda>racksdb_supported.
         Inr (if racksdb_supported then Some agent else None))
     else Inr (Some agent))"

definition get_agent_info :: "'h internet \<Rightarrow> gateway_settings \<Rightarrow> string \<Rightarrow> ('h, remote_agent option) meth" where
  "get_agent_info I S url =
     mbind (mcatch
       (mbind (get_agent_connector I S) (\<lambda>_.
        mbind (in_request I (info_request url)) (\<lambda>response.
        mbind (mlift (info_answer url response)) (\<lambda>agent. mret (Some agent)))))
       (\<lambda>e. if discovery_error e then mret None else mraise e)) (\<lambda>found.
     case found of
       None \<Rightarrow> mret None
     | Some agent \<Rightarrow> mlift (checked_agent S agent))"

definition hashable :: "pv \<Rightarrow> bool" where
  "hashable v \<longleftrightarrow> \<not> is_list v \<and> \<not> is_dict v"

type_synonym registry = "(pv \<times> remote_agent) list"

definition register :: "remote_agent option \<Rightarrow> registry \<Rightarrow> registry res" where
  "register found agents =
     (case found of
        None \<Rightarrow> Inr agents
      | Some agent \<Rightarrow>
          if hashable (ra_cluster agent) then Inr (dset (ra_cluster agent) agent agents)
          else Inl (TypeError ''unhashable type''))"

definition get_agents_info :: "'h internet \<Rightarrow> gateway_settings \<Rightarrow> ('h, registry) meth" where
  "get_agents_info I S =
     mbind (mmap (get_agent_info I S) (gs_urls S)) (\<lambda>found. mlift (rfold register found []))"

record 'h gateway =
  gw_agents :: registry
  gw_timeout :: int
  gw_world :: 'h

definition outside_gateway :: "('h, 'a) meth \<Rightarrow> ('h gateway, 'a) meth" where
  "outside_gateway f s = (case f (gw_world s) of (r, h) \<Rightarrow> (r, s\<lparr>gw_world := h\<rparr>))"

text \<open>The clock is not read if the refresh is forced.\<close>

definition refresh_agents :: "'h internet \<Rightarrow> gateway_settings \<Rightarrow> bool \<Rightarrow> ('h gateway, registry) meth" where
  "refresh_agents I S force =
     mbind (if force then mret True
            else mbind (outside_gateway (gateway_clock I)) (\<lambda>now. mwith (\<lambda>s. mret (gw_timeout s \<le> now)))) (\<lambda>stale.
     if \<not> stale then mwith (\<lambda>s. mret (gw_agents s))
     else
       mbind (outside_gateway (get_agents_info I S)) (\<lambda>agents.
       mbind (mupd (gw_agents_update (\<lambda>_. agents))) (\<lambda>_.
       mbind (outside_gateway (gateway_clock I)) (\<lambda>now.
       mbind (mupd (gw_timeout_update (\<lambda>_. now + 300))) (\<lambda>_. mret agents)))))"

definition agents :: "'h internet \<Rightarrow> gateway_settings \<Rightarrow> ('h gateway, registry) meth" where
  "agents I S = refresh_agents I S False"

definition new_gateway :: "'h \<Rightarrow> 'h gateway" where
  "new_gateway h = \<lparr>gw_agents = [], gw_timeout = 0, gw_world = h\<rparr>"

section \<open>What the registry holds\<close>

text \<open>Each agent is filed under its cluster, was asked at a configured address and has a supported version.\<close>

definition registry_ok :: "gateway_settings \<Rightarrow> registry \<Rightarrow> bool" where
  "registry_ok S regs \<longleftrightarrow>
     wf_dict regs \<and>
     (\<forall>k agent. map_of regs k = Some agent \<longrightarrow>
        ra_cluster agent = k \<and> ra_url agent \<in> set (gs_urls S) \<and> checked_agent S agent = Inr (Some agent))"

abbreviation gateway_ok :: "gateway_settings \<Rightarrow> 'h gateway \<Rightarrow> bool" where
  "gateway_ok S s \<equiv> registry_ok S (gw_agents s)"

lemma agent_of_url: "agent_of url data = Inr agent \<Longrightarrow> ra_url agent = url"
  by (auto simp: agent_of_def rbind_eq_Inr)

lemma from_json_url: "from_json url data = Inr agent \<Longrightarrow> ra_url agent = url"
  by (auto simp: from_json_def agent_of_url split: sum.splits exn.splits)

lemma info_answer_url: "info_answer url response = Inr agent \<Longrightarrow> ra_url agent = url"
  by (auto simp: info_answer_def rbind_eq_Inr from_json_url split: if_splits)

lemma checked_agent_same: "checked_agent S agent = Inr (Some a) \<Longrightarrow> a = agent"
  by (auto simp: checked_agent_def rbind_eq_Inr split: if_splits)

lemma get_agent_info_checked:
  assumes "get_agent_info I S url h = (Inr (Some agent), h')"
  shows "ra_url agent = url \<and> checked_agent S agent = Inr (Some agent)"
proof -
  obtain a where a: "ra_url a = url" and c: "checked_agent S a = Inr (Some agent)"
    using assms
    by (auto simp: get_agent_info_def mbind_def mcatch_def mlift_def mret_def mraise_def
        split: prod.splits sum.splits option.splits if_splits dest: info_answer_url)
  with checked_agent_same [OF c] show ?thesis by simp
qed

lemma mmap_results:
  "mmap f xs s = (Inr ys, s') \<Longrightarrow> list_all2 (\<lambda>x y. \<exists>t t'. f x t = (Inr y, t')) xs ys"
proof (induction xs arbitrary: s ys)
  case (Cons x xs)
  from Cons.prems obtain y t zs where "f x s = (Inr y, t)" "mmap f xs t = (Inr zs, s')" "ys = y # zs"
    by (auto elim!: mbind_cases)
  with Cons.IH show ?case by fastforce
qed simp

lemma register_ok:
  assumes "register found regs = Inr regs'" and "registry_ok S regs"
    and "\<And>agent. found = Some agent \<Longrightarrow> ra_url agent \<in> set (gs_urls S) \<and> checked_agent S agent = Inr (Some agent)"
  shows "registry_ok S regs'"
  using assms by (auto simp: register_def registry_ok_def split: option.splits if_splits)

lemma get_agents_info_ok:
  assumes "get_agents_info I S h = (Inr regs, h')"
  shows "registry_ok S regs"
proof -
  obtain found h1 where found: "mmap (get_agent_info I S) (gs_urls S) h = (Inr found, h1)"
    and regs: "rfold register found [] = Inr regs"
    using assms by (auto simp: get_agents_info_def mlift_def elim!: mbind_cases)
  have "ra_url agent \<in> set (gs_urls S) \<and> checked_agent S agent = Inr (Some agent)" if "Some agent \<in> set found" for agent
  proof -
    from that obtain n where n: "n < length found" "found ! n = Some agent" by (auto simp: in_set_conv_nth)
    with mmap_results [OF found] obtain t t' where "get_agent_info I S (gs_urls S ! n) t = (Inr (Some agent), t')"
      and "n < length (gs_urls S)"
      by (auto simp: list_all2_conv_all_nth)
    with get_agent_info_checked show ?thesis by fastforce
  qed
  then have step: "registry_ok S b'" if "r \<in> set found" "register r b = Inr b'" "registry_ok S b" for r b b'
    using that by (intro register_ok [OF that(2,3)]) auto
  have "registry_ok S []" by (simp add: registry_ok_def)
  then show ?thesis by (rule rfold_invariant [OF regs]) (rule step)
qed

lemma refresh_agents_ok [keeps_intros]: "keeps (gateway_ok S) (refresh_agents I S force)"
proof (rule keepsI)
  fix s :: "'a gateway" assume ok: "gateway_ok S s"
  then show "gateway_ok S (snd (refresh_agents I S force s))"
    by (auto simp: refresh_agents_def mbind_def outside_gateway_def gateway_clock_def
        mret_def dest: get_agents_info_ok split: prod.splits sum.splits)
qed

lemma agents_ok [keeps_intros]: "keeps (gateway_ok S) (agents I S)"
  by (simp add: agents_def keeps_intros)

lemma new_gateway_ok: "gateway_ok S (new_gateway h)"
  by (simp add: registry_ok_def new_gateway_def)

section \<open>What a discovery finds\<close>

text \<open>What an address gives if the answers of the network depend on the request only.\<close>

definition reported_agent ::
  "gateway_settings \<Rightarrow> (http_request \<Rightarrow> http_response res) \<Rightarrow> string \<Rightarrow> remote_agent option res" where
  "reported_agent S answers url =
     (case rbind (answers (info_request url)) (info_answer url) of
        Inl e \<Rightarrow> if discovery_error e then Inr None else Inl e
      | Inr agent \<Rightarrow> checked_agent S agent)"

lemma get_agent_info_reported:
  assumes "gs_cacert S = None" and "\<And>q. in_request I q h = (answers q, h)"
  shows "get_agent_info I S url h = (reported_agent S answers url, h)"
  using assms
  by (auto simp: get_agent_info_def reported_agent_def get_agent_connector_def mbind_def mcatch_def mlift_def
      mret_def mraise_def split: sum.splits)

lemma mmap_stateless:
  "(\<And>x. x \<in> set xs \<Longrightarrow> f x s = (g x, s)) \<Longrightarrow> mmap f xs s = (rmap g xs, s)"
proof (induction xs)
  case (Cons x xs)
  then show ?case by (cases "g x"; cases "rmap g xs") (auto simp: mbind_def mret_def)
qed (simp add: mret_def)

definition last_of :: "pv \<Rightarrow> remote_agent option list \<Rightarrow> remote_agent option" where
  "last_of k found = find (\<lambda>agent. ra_cluster agent = k) (rev (map the (filter (\<lambda>r. r \<noteq> None) found)))"

lemma find_append: "find P (xs @ ys) = (case find P xs of None \<Rightarrow> find P ys | Some x \<Rightarrow> Some x)"
  by (induction xs) auto

lemma last_of_Cons: "last_of k (r # found) =
    (case last_of k found of Some a \<Rightarrow> Some a
     | None \<Rightarrow> (case r of Some a \<Rightarrow> (if ra_cluster a = k then Some a else None) | None \<Rightarrow> None))"
  by (cases r) (auto simp: last_of_def find_append split: option.splits)

lemma registered:
  assumes "\<forall>a. Some a \<in> set found \<longrightarrow> hashable (ra_cluster a)"
  shows "\<exists>regs. rfold register found regs0 = Inr regs
    \<and> (\<forall>k. map_of regs k = (case last_of k found of Some a \<Rightarrow> Some a | None \<Rightarrow> map_of regs0 k))"
  using assms
proof (induction found arbitrary: regs0)
  case Nil
  then show ?case by (simp add: last_of_def)
next
  case (Cons r found)
  define regs1 where "regs1 = (case r of None \<Rightarrow> regs0 | Some a \<Rightarrow> dset (ra_cluster a) a regs0)"
  have r: "register r regs0 = Inr regs1"
    using Cons.prems by (auto simp: register_def regs1_def split: option.splits)
  obtain regs where "rfold register found regs1 = Inr regs"
    and "\<forall>k. map_of regs k = (case last_of k found of Some a \<Rightarrow> Some a | None \<Rightarrow> map_of regs1 k)"
    using Cons.IH [of regs1] Cons.prems by auto
  with r show ?case
    by (intro exI [of _ regs]) (auto simp: last_of_Cons regs1_def split: option.splits)
qed

lemma registered_all:
  assumes "\<forall>a. Some a \<in> set found \<longrightarrow> hashable (ra_cluster a)"
  shows "\<exists>regs. rfold register found [] = Inr regs \<and> (\<forall>k. map_of regs k = last_of k found)"
proof -
  obtain regs where "rfold register found [] = Inr regs"
    and regs: "\<And>k. map_of regs k = (case last_of k found of Some a \<Rightarrow> Some a | None \<Rightarrow> map_of [] k)"
    using registered [OF assms, of "[]"] by blast
  moreover have "map_of regs k = last_of k found" for k by (cases "last_of k found") (simp_all add: regs)
  ultimately show ?thesis by blast
qed

text \<open>
  C18. A discovery in which every address answers or fails in one of the handled ways finds, for a
  cluster, the agent of the last address that reports this cluster with supported versions: agents that
  cannot be reached, answer with an error or with incomplete information do not touch the others.
\<close>

theorem discovery_exact:
  assumes "gs_cacert S = None" and "\<And>q. in_request I q h = (answers q, h)"
    and "\<forall>url \<in> set (gs_urls S). \<exists>r. reported_agent S answers url = Inr r \<and> (\<forall>a. r = Some a \<longrightarrow> hashable (ra_cluster a))"
  shows "\<exists>regs. get_agents_info I S h = (Inr regs, h)
    \<and> (\<forall>k. map_of regs k = last_of k (map (\<lambda>url. projr (reported_agent S answers url)) (gs_urls S)))"
proof -
  let ?found = "map (\<lambda>url. projr (reported_agent S answers url)) (gs_urls S)"
  have "rmap (reported_agent S answers) (gs_urls S) = Inr ?found"
    using assms(3) by (intro rmap_all_Inr) auto
  then have "mmap (get_agent_info I S) (gs_urls S) h = (Inr ?found, h)"
    using mmap_stateless [of "gs_urls S" "get_agent_info I S" h, OF get_agent_info_reported [OF assms(1,2)]] by simp
  moreover have "\<forall>a. Some a \<in> set ?found \<longrightarrow> hashable (ra_cluster a)" using assms(3) by fastforce
  ultimately show ?thesis
    using registered_all [of ?found] by (auto simp: get_agents_info_def mbind_def mlift_def)
qed

section \<open>A network of three addresses\<close>

definition demo_info :: "string \<Rightarrow> string \<Rightarrow> pv" where
  "demo_info cluster version =
     VDict [(''version'', VStr version), (''cluster'', VStr cluster),
       (''racksdb'', VDict [(''enabled'', VBool False), (''version'', VNone), (''infrastructure'', VStr cluster)]),
       (''metrics'', VBool True), (''cache'', VBool True), (''database'', VBool True)]"

definition json_response :: "int \<Rightarrow> pv \<Rightarrow> http_response" where
  "json_response status v =
     \<lparr>hr_status = status, hr_json = Inr v, hr_text = Inr [], hr_body = [],
      hr_content_type = Some ''application/json''\<rparr>"

definition demo_answers :: "http_request \<Rightarrow> http_response res" where
  "demo_answers q =
     (if hq_url q = ''http://a/info'' then Inr (json_response 200 (demo_info ''alpha'' ''6.1.0''))
      else if hq_url q = ''http://b/info'' then Inr (json_response 200 (demo_info ''beta'' ''5.9''))
      else Inl (ClientConnectionError ''refused''))"

definition demo_internet :: "unit internet" where
  "demo_internet =
     \<lparr>in_clock = (\<lambda>h. (1700000000, h)), in_is_file = (\<lambda>path h. False), in_nested_run = None,
      in_request = (\<lambda>q h. (demo_answers q, h))\<rparr>"

definition demo_gateway_settings :: gateway_settings where
  "demo_gateway_settings =
     \<lparr>gs_urls = [''http://a'', ''http://b'', ''http://c''], gs_version = ''6.0.0'', gs_racksdb_version = ''0.5.0'',
      gs_cacert = None, gs_authentication = True, gs_hide_denied = False\<rparr>"

theorem discovery_exact_witness:
  "\<exists>regs. get_agents_info demo_internet demo_gateway_settings () = (Inr regs, ())
    \<and> (\<forall>k. map_of regs k = last_of k (map (\<lambda>url. projr (reported_agent demo_gateway_settings demo_answers url))
         (gs_urls demo_gateway_settings)))"
proof (rule discovery_exact)
  have "case reported_agent demo_gateway_settings demo_answers url of Inl _ \<Rightarrow> False
      | Inr r \<Rightarrow> (case r of None \<Rightarrow> True | Some a \<Rightarrow> hashable (ra_cluster a))"
    if "url \<in> {''http://a'', ''http://b'', ''http://c''}" for url
  proof -
    have "list_all (\<lambda>url. case reported_agent demo_gateway_settings demo_answers url of Inl _ \<Rightarrow> False
        | Inr r \<Rightarrow> (case r of None \<Rightarrow> True | Some a \<Rightarrow> hashable (ra_cluster a))) [''http://a'', ''http://b'', ''http://c'']"
      by code_simp
    with that show ?thesis by (auto simp: list_all_iff)
  qed
  then show "\<forall>url \<in> set (gs_urls demo_gateway_settings). \<exists>r. reported_agent demo_gateway_settings demo_answers url = Inr r
      \<and> (\<forall>a. r = Some a \<longrightarrow> hashable (ra_cluster a))"
    by (fastforce simp: demo_gateway_settings_def split: sum.splits option.splits)
qed (simp_all add: demo_gateway_settings_def demo_internet_def)

text \<open>
  The information of an agent without the infrastructure of RacksDB raises a \<open>TypeError\<close>, which is not
  among the handled errors: it ends the discovery of all agents.
\<close>

lemma incomplete_racksdb_raises:
  "from_json url (VDict [(''version'', VStr ''6.1.0''), (''cluster'', VStr ''alpha''),
     (''racksdb'', VDict [(''enabled'', VBool False), (''version'', VNone)])]) = Inl (TypeError ''missing argument'')"
  by (simp add: from_json_def agent_of_def py_item_def racksdb_of_def)

lemma discovery_fragile:
  assumes "gs_cacert S = None" and "\<And>q. in_request I q h = (answers q, h)"
    and "url \<in> set (gs_urls S)" and "reported_agent S answers url = Inl e"
  shows "\<exists>e'. get_agents_info I S h = (Inl e', h)"
proof -
  have "\<exists>e'. rmap (reported_agent S answers) urls = Inl e'" if "url \<in> set urls" for urls
    using that assms(4) by (induction urls) (auto simp: rbind_def split: sum.splits)
  then obtain e' where "rmap (reported_agent S answers) (gs_urls S) = Inl e'" using assms(3) by blast
  with mmap_stateless [of "gs_urls S" "get_agent_info I S" h, OF get_agent_info_reported [OF assms(1,2)]]
  show ?thesis by (simp add: get_agents_info_def mbind_def)
qed

end
