(* ===== verification/Gateway.thy ===== *)
theory Gateway
  imports GatewayAgents Json
begin

text \<open>
  The views of the gateway, \<open>views/gateway.py\<close>: login and its propagation to the agents, the list of the
  clusters, and the requests that are forwarded to the agent of a cluster. RFL checks the tokens, logs the
  users in and makes tokens: its results are part of the request or of the record \<open>site\<close>. \<open>aiohttp\<close> sends a
  request when its context is entered, not when it is made.
\<close>

section \<open>Requests, replies, the site\<close>

record gateway_request =
  gr_method :: string
  gr_query :: string \<comment> \<open>the query string\<close>
  gr_data :: string
  gr_json :: pv \<comment> \<open>\<open>get_json(silent=True)\<close>\<close>
  gr_token :: "string res" \<comment> \<open>\<open>request.token\<close> after \<open>check_jwt\<close>\<close>

datatype gateway_body = GatewayJson pv | GatewayRaw string "string option" | GatewayStream "string list"

type_synonym gateway_reply = "int \<times> gateway_body"
type_synonym ('h, 'a) gateway_meth = "('h gateway, 'a) meth"
type_synonym 'h gateway_view = "('h gateway, gateway_reply) meth"

record login_user =
  gu_login :: pv
  gu_fullname :: pv
  gu_groups :: pv

text \<open>
  A streamed answer of \<open>requests\<close>: its status, the text of an error, the chunks, and the exception of the
  library that ends it, if any; or the exception instead of an answer.
\<close>

record streamed =
  sm_status :: int
  sm_text :: string
  sm_chunks :: "string list"
  sm_failure :: "string option"

record 'h site =
  si_net :: "'h internet"
  si_settings :: gateway_settings
  si_login :: "pv \<Rightarrow> pv \<Rightarrow> 'h \<Rightarrow> login_user res \<times> 'h" \<comment> \<open>\<open>authentifier.login\<close>\<close>
  si_users :: "'h \<Rightarrow> (pv \<times> pv) list res \<times> 'h" \<comment> \<open>\<open>authentifier.users\<close>, login and full name\<close>
  si_jwt :: "login_user option \<Rightarrow> 'h \<Rightarrow> string res \<times> 'h" \<comment> \<open>\<open>jwt.generate\<close>, no user for the anonymous\<close>
  si_message :: "'h \<Rightarrow> string res \<times> 'h" \<comment> \<open>\<open>render_html\<close> of the message\<close>
  si_template :: "string \<Rightarrow> 'h \<Rightarrow> string res \<times> 'h"
  si_message_login :: string
  si_message_template :: string
  si_stream :: "http_request \<Rightarrow> 'h \<Rightarrow> (string + streamed) \<times> 'h"

abbreviation site_agents :: "'h site \<Rightarrow> ('h, registry) gateway_meth" where
  "site_agents G \<equiv> agents (si_net G) (si_settings G)"

abbreviation send :: "'h site \<Rightarrow> http_request \<Rightarrow> ('h, http_response) gateway_meth" where
  "send G rq \<equiv> outside_gateway (in_request (si_net G) rq)"

abbreviation connector :: "'h site \<Rightarrow> ('h, unit) gateway_meth" where
  "connector G \<equiv> outside_gateway (get_agent_connector (si_net G) (si_settings G))"

section \<open>Requests to an agent\<close>

text \<open>\<open>refresh_agents\<close> inside a coroutine: a poll starts another run of the event loop.\<close>

definition nested_refresh :: "'h site \<Rightarrow> bool \<Rightarrow> ('h, registry) gateway_meth" where
  "nested_refresh G force =
     (case in_nested_run (si_net G) of
        None \<Rightarrow> refresh_agents (si_net G) (si_settings G) force
      | Some e \<Rightarrow>
          if force then mraise e
          else mbind (outside_gateway (gateway_clock (si_net G))) (\<lambda>now.
            mwith (\<lambda>s. if gw_timeout s \<le> now then mraise e else mret (gw_agents s))))"

definition agent_at :: "pv \<Rightarrow> registry \<Rightarrow> remote_agent res" where
  "agent_at cluster regs =
     (case map_of regs cluster of None \<Rightarrow> Inl (KeyError (py_repr cluster)) | Some agent \<Rightarrow> Inr agent)"

definition agent_url :: "('h, registry) gateway_meth \<Rightarrow> pv \<Rightarrow> string \<Rightarrow> bool \<Rightarrow> ('h, string) gateway_meth" where
  "agent_url known cluster path with_version =
     mbind known (\<lambda>regs. mbind (mlift (agent_at cluster regs)) (\<lambda>agent.
     if with_version then
       mbind known (\<lambda>regs'. mbind (mlift (agent_at cluster regs')) (\<lambda>agent'.
         mret (ra_url agent @ ''/v'' @ py_str (ra_version agent') @ ''/'' @ path)))
     else mret (ra_url agent @ ''/'' @ path)))"

definition with_query :: "gateway_request \<Rightarrow> string \<Rightarrow> string" where
  "with_query q url = (if gr_query q = [] then url else url @ ''?'' @ gr_query q)"

definition bearer :: "string option \<Rightarrow> (string \<times> string) list" where
  "bearer token = (case token of None \<Rightarrow> [] | Some t \<Rightarrow> [(''Authorization'', ''Bearer '' @ t)])"

definition request_agent ::
  "'h site \<Rightarrow> gateway_request \<Rightarrow> pv \<Rightarrow> string \<Rightarrow> string option \<Rightarrow> bool \<Rightarrow> ('h, http_request) gateway_meth" where
  "request_agent G q cluster path token with_version =
     mbind (agent_url (nested_refresh G False) cluster path with_version) (\<lambda>url.
     let rq = \<lparr>hq_method = gr_method q, hq_url = with_query q url, hq_headers = bearer token, hq_json = None\<rparr> in
     if gr_method q = ''GET'' then mret rq
     else if gr_method q \<in> {''POST'', ''PUT'', ''PATCH'', ''DELETE''} then mret (rq\<lparr>hq_json := Some (gr_json q)\<rparr>)
     else abort_with 500 (''Unsupported request method '' @ gr_method q))"

definition proxied_json :: "string \<Rightarrow> http_request \<Rightarrow> http_response \<Rightarrow> gateway_reply res" where
  "proxied_json cluster rq response =
     (case hr_json response of
        Inr v \<Rightarrow> Inr (hr_status response, GatewayJson v)
      | Inl e \<Rightarrow> (case e of
          ContentTypeError m \<Rightarrow>
            Inl (HttpAbort 500 (''Unsupported Content-Type for agent '' @ cluster @ '' URL '' @ hq_url rq @ '': '' @ m))
        | _ \<Rightarrow> Inl e))"

definition proxy_agent ::
  "'h site \<Rightarrow> gateway_request \<Rightarrow> string \<Rightarrow> string \<Rightarrow> string option \<Rightarrow> bool \<Rightarrow> bool \<Rightarrow> 'h gateway_view" where
  "proxy_agent G q cluster path token json with_version =
     mbind (connector G) (\<lambda>_.
     mbind (request_agent G q (VStr cluster) path token with_version) (\<lambda>rq.
     mbind (send G rq) (\<lambda>response.
     if json then mlift (proxied_json cluster rq response)
     else mret (hr_status response, GatewayRaw (hr_body response) (hr_content_type response)))))"

definition sse_error :: "string \<Rightarrow> string" where
  "sse_error message =
     ''event: error'' @ [char_of (10 :: nat)] @ ''data: '' @ json_text (VDict [(''message'', VStr message)])
     @ [char_of (10 :: nat), char_of (10 :: nat)]"

definition unreachable_event :: "string \<Rightarrow> string" where
  "unreachable_event err = sse_error (''Unable to connect to agent stream: '' @ err)"

definition stream_events :: "(string + streamed) \<Rightarrow> string list" where
  "stream_events r =
     (case r of
        Inl err \<Rightarrow> [unreachable_event err]
      | Inr a \<Rightarrow>
          if 400 \<le> sm_status a then
            [sse_error (if sm_text a = [] then ''Agent stream request failed with HTTP '' @ int_str (sm_status a)
                        else sm_text a)]
          else filter (\<lambda>c. c \<noteq> []) (sm_chunks a)
            @ (case sm_failure a of None \<Rightarrow> [] | Some err \<Rightarrow> [unreachable_event err]))"

definition proxy_stream_agent ::
  "'h site \<Rightarrow> gateway_request \<Rightarrow> string \<Rightarrow> string \<Rightarrow> string option \<Rightarrow> bool \<Rightarrow> 'h gateway_view" where
  "proxy_stream_agent G q cluster path token with_version =
     mbind (agent_url (site_agents G) (VStr cluster) path with_version) (\<lambda>url.
     mbind (outside_gateway (\<lambda>h. case si_stream G
         \<lparr>hq_method = gr_method q, hq_url = with_query q url, hq_headers = bearer token, hq_json = Some (gr_json q)\<rparr> h of
           (r, h') \<Rightarrow> (Inr r, h'))) (\<lambda>r.
     mret (200, GatewayStream (stream_events r))))"

section \<open>Decorators\<close>

definition check_jwt :: "gateway_request \<Rightarrow> (string \<Rightarrow> 'h gateway_view) \<Rightarrow> 'h gateway_view" where
  "check_jwt q view = mbind (mlift (gr_token q)) view"

definition validate_cluster :: "'h site \<Rightarrow> string \<Rightarrow> string \<Rightarrow> 'h gateway_view \<Rightarrow> 'h gateway_view" where
  "validate_cluster G name cluster view =
     mbind (site_agents G) (\<lambda>regs.
     if map_of regs (VStr cluster) = None
     then abort_with 404 (''Unable to retrieve '' @ name @ '' from cluster '' @ cluster @ '', cluster not found'')
     else view)"

text \<open>The two decorators of every view of a cluster around the forwarded request.\<close>

definition forwarded :: "'h site \<Rightarrow> gateway_request \<Rightarrow> string \<Rightarrow> string \<Rightarrow> string \<Rightarrow> 'h gateway_view" where
  "forwarded G q name cluster path =
     check_jwt q (\<lambda>token. validate_cluster G name cluster (proxy_agent G q cluster path (Some token) True True))"

section \<open>Users, login and messages\<close>

definition client_error :: "exn \<Rightarrow> bool" where
  "client_error e = (case e of ClientConnectionError _ \<Rightarrow> True | ContentTypeError _ \<Rightarrow> True | ClientError _ \<Rightarrow> True | _ \<Rightarrow> False)"

definition cache_user_on_agent :: "'h site \<Rightarrow> string \<Rightarrow> pv \<Rightarrow> remote_agent \<Rightarrow> ('h, unit) gateway_meth" where
  "cache_user_on_agent G token user_cache agent =
     mcatch
       (mbind (send G \<lparr>hq_method = ''POST'', hq_url = ra_url agent @ ''/v'' @ py_str (ra_version agent) @ ''/users/cache'',
          hq_headers = bearer (Some token), hq_json = Some user_cache\<rparr>) (\<lambda>_. mret ()))
       (\<lambda>e. if client_error e then mret () else mraise e)"

definition user_cache_of :: "login_user \<Rightarrow> pv" where
  "user_cache_of user =
     VDict [(''username'', gu_login user), (''fullname'', gu_fullname user), (''groups'', gu_groups user)]"

definition async_cache_user_on_agents :: "'h site \<Rightarrow> string \<Rightarrow> login_user \<Rightarrow> ('h, unit) gateway_meth" where
  "async_cache_user_on_agents G token user =
     mbind (nested_refresh G False) (\<lambda>found.
     mbind (if found = [] then nested_refresh G True else mret found) (\<lambda>regs.
     let with_database = filter (\<lambda>(_, agent). truthy (ra_database agent)) regs in
     if with_database = [] then mret ()
     else
       mbind (connector G) (\<lambda>_.
       mbind (mmap (\<lambda>(_, agent). cache_user_on_agent G token (user_cache_of user) agent) with_database) (\<lambda>_. mret ()))))"

definition gw_login :: "'h site \<Rightarrow> gateway_request \<Rightarrow> 'h gateway_view" where
  "gw_login G q =
     mbind (mlift (json_loads (gr_data q))) (\<lambda>idents.
     mbind (mlift (py_item ''user'' idents)) (\<lambda>name.
     if \<not> gs_authentication (si_settings G) then abort_with 500 ''Unable to authenticate''
     else
       mbind (mlift (py_item ''password'' idents)) (\<lambda>password.
       mbind (mcatch (outside_gateway (si_login G name password))
         (\<lambda>e. case e of LDAPAuthenticationError m \<Rightarrow> abort_with 401 m | _ \<Rightarrow> mraise e)) (\<lambda>user.
       mbind (outside_gateway (si_jwt G (Some user))) (\<lambda>token.
       mbind (mcatch (async_cache_user_on_agents G token user) (\<lambda>_. mret ())) (\<lambda>_.
       mret (200, GatewayJson (VDict
         [(''result'', VStr ''Authentication successful''), (''token'', VStr token), (''fullname'', gu_fullname user),
          (''groups'', gu_groups user)]))))))))"

definition gw_anonymous :: "'h site \<Rightarrow> 'h gateway_view" where
  "gw_anonymous G =
     (if gs_authentication (si_settings G) then abort_with 401 ''Unauthorized anonymous access''
      else mbind (outside_gateway (si_jwt G None)) (\<lambda>token.
        mret (200, GatewayJson (VDict
          [(''result'', VStr ''Successful anonymous access''), (''token'', VStr token)]))))"

definition gw_message_login :: "'h site \<Rightarrow> 'h gateway_view" where
  "gw_message_login G =
     mbind (mcatch (outside_gateway (si_message G)) (\<lambda>e. case e of
         FileError False _ \<Rightarrow> abort_with 404 ''login service message not found''
       | FileError True _ \<Rightarrow> abort_with 500 (''Permission error on login service markdown file '' @ si_message_login G)
       | _ \<Rightarrow> mraise e)) (\<lambda>message.
     mbind (mcatch (outside_gateway (si_template G message)) (\<lambda>e. case e of
         TemplateNotFound _ \<Rightarrow> abort_with 500 (''message template '' @ si_message_template G @ '' not found'')
       | _ \<Rightarrow> mraise e)) (\<lambda>page. mret (200, GatewayRaw page (Some ''text/html''))))"

definition gw_users :: "'h site \<Rightarrow> gateway_request \<Rightarrow> 'h gateway_view" where
  "gw_users G q =
     check_jwt q (\<lambda>_.
       if \<not> gs_authentication (si_settings G)
       then abort_with 501 ''Unable to retrieve users when authentication is disabled''
       else mbind (outside_gateway (si_users G)) (\<lambda>users.
         mret (200, GatewayJson (VList (map (\<lambda>(name, fullname).
           VDict [(''login'', name), (''fullname'', fullname)]) users)))))"

section \<open>The list of the clusters\<close>

definition cluster_entry :: "remote_agent \<Rightarrow> pv \<Rightarrow> pv" where
  "cluster_entry agent permissions =
     VDict [(''name'', ra_cluster agent), (''racksdb'', rd_enabled (ra_racksdb agent)),
       (''infrastructure'', rd_infrastructure (ra_racksdb agent)), (''metrics'', ra_metrics agent),
       (''cache'', ra_cache agent), (''database'', ra_database agent), (''permissions'', permissions),
       (''persistence'', ra_persistence agent), (''access_control'', ra_access_control agent),
       (''node_metrics'', ra_node_metrics agent), (''user_metrics'', ra_user_metrics agent),
       (''ai'', ra_ai agent), (''capabilities'', ra_capabilities agent)]"

definition get_cluster :: "'h site \<Rightarrow> gateway_request \<Rightarrow> string \<Rightarrow> remote_agent \<Rightarrow> ('h, pv option) gateway_meth" where
  "get_cluster G q token agent =
     mbind (connector G) (\<lambda>_.
     mbind (request_agent G q (ra_cluster agent) ''permissions'' (Some token) True) (\<lambda>rq.
     mbind (send G rq) (\<lambda>response.
     if hr_status response \<noteq> 200 then mret None
     else mbind (mlift (hr_json response)) (\<lambda>permissions.
       mbind (mlift (rbind (py_item ''actions'' permissions) py_len)) (\<lambda>n.
       if n = 0 \<and> gs_hide_denied (si_settings G) then mret None
       else mret (Some (cluster_entry agent permissions)))))))"

definition get_clusters ::
  "'h site \<Rightarrow> gateway_request \<Rightarrow> string \<Rightarrow> remote_agent list \<Rightarrow> ('h, pv list) gateway_meth" where
  "get_clusters G q token found =
     mbind (mmap (get_cluster G q token) found) (\<lambda>clusters. mret (List.map_filter id clusters))"

definition gw_clusters :: "'h site \<Rightarrow> gateway_request \<Rightarrow> 'h gateway_view" where
  "gw_clusters G q =
     check_jwt q (\<lambda>token. mbind (site_agents G) (\<lambda>regs.
       mbind (get_clusters G q token (map snd regs)) (\<lambda>clusters. mret (200, GatewayJson (VList clusters)))))"

section \<open>Pages of the user interface\<close>

definition gw_ui_files :: "string \<Rightarrow> string" where
  "gw_ui_files name =
     (if name \<in> {''favicon.ico'', ''config.json''} \<or> prefix ''assets/'' name \<or> prefix ''logo/'' name then name
      else ''index.html'')"

section \<open>The views of a cluster\<close>

definition gw_ping :: "'h site \<Rightarrow> gateway_request \<Rightarrow> string \<Rightarrow> 'h gateway_view" where
  "gw_ping G q cluster = forwarded G q ''ping'' cluster ''ping''"

definition gw_stats :: "'h site \<Rightarrow> gateway_request \<Rightarrow> string \<Rightarrow> 'h gateway_view" where
  "gw_stats G q cluster = forwarded G q ''stats'' cluster ''stats''"

definition gw_permissions :: "'h site \<Rightarrow> gateway_request \<Rightarrow> string \<Rightarrow> 'h gateway_view" where
  "gw_permissions G q cluster = forwarded G q ''permissions'' cluster ''permissions''"

definition gw_cache_stats :: "'h site \<Rightarrow> gateway_request \<Rightarrow> string \<Rightarrow> 'h gateway_view" where
  "gw_cache_stats G q cluster = forwarded G q ''cache_stats'' cluster ''cache/stats''"

definition gw_cache_reset :: "'h site \<Rightarrow> gateway_request \<Rightarrow> string \<Rightarrow> 'h gateway_view" where
  "gw_cache_reset G q cluster = forwarded G q ''cache_reset'' cluster ''cache/reset''"

definition gw_ldap_cache_users :: "'h site \<Rightarrow> gateway_request \<Rightarrow> string \<Rightarrow> 'h gateway_view" where
  "gw_ldap_cache_users G q cluster = forwarded G q ''ldap_cache_users'' cluster ''users/cache''"

definition gw_access_roles :: "'h site \<Rightarrow> gateway_request \<Rightarrow> string \<Rightarrow> 'h gateway_view" where
  "gw_access_roles G q cluster = forwarded G q ''access_roles'' cluster ''access/roles''"

definition gw_access_catalog :: "'h site \<Rightarrow> gateway_request \<Rightarrow> string \<Rightarrow> 'h gateway_view" where
  "gw_access_catalog G q cluster = forwarded G q ''access_catalog'' cluster ''access/catalog''"

definition gw_create_access_role :: "'h site \<Rightarrow> gateway_request \<Rightarrow> string \<Rightarrow> 'h gateway_view" where
  "gw_create_access_role G q cluster = forwarded G q ''create_access_role'' cluster ''access/roles''"

definition gw_update_access_role :: "'h site \<Rightarrow> gateway_request \<Rightarrow> string \<Rightarrow> int \<Rightarrow> 'h gateway_view" where
  "gw_update_access_role G q cluster role_id = forwarded G q ''update_access_role'' cluster (''access/roles/'' @ int_str role_id)"

definition gw_delete_access_role :: "'h site \<Rightarrow> gateway_request \<Rightarrow> string \<Rightarrow> int \<Rightarrow> 'h gateway_view" where
  "gw_delete_access_role G q cluster role_id = forwarded G q ''delete_access_role'' cluster (''access/roles/'' @ int_str role_id)"

definition gw_access_users :: "'h site \<Rightarrow> gateway_request \<Rightarrow> string \<Rightarrow> 'h gateway_view" where
  "gw_access_users G q cluster = forwarded G q ''access_users'' cluster ''access/users''"

definition gw_access_user_roles :: "'h site \<Rightarrow> gateway_request \<Rightarrow> string \<Rightarrow> string \<Rightarrow> 'h gateway_view" where
  "gw_access_user_roles G q cluster username = forwarded G q ''access_user_roles'' cluster (''access/users/'' @ username @ ''/roles'')"

definition gw_update_access_user_roles :: "'h site \<Rightarrow> gateway_request \<Rightarrow> string \<Rightarrow> string \<Rightarrow> 'h gateway_view" where
  "gw_update_access_user_roles G q cluster username = forwarded G q ''update_access_user_roles'' cluster (''access/users/'' @ username @ ''/roles'')"

definition gw_ai_configs :: "'h site \<Rightarrow> gateway_request \<Rightarrow> string \<Rightarrow> 'h gateway_view" where
  "gw_ai_configs G q cluster = forwarded G q ''ai_configs'' cluster ''ai/configs''"

definition gw_ai_models :: "'h site \<Rightarrow> gateway_request \<Rightarrow> string \<Rightarrow> 'h gateway_view" where
  "gw_ai_models G q cluster = forwarded G q ''ai_models'' cluster ''ai/models''"

definition gw_create_ai_config :: "'h site \<Rightarrow> gateway_request \<Rightarrow> string \<Rightarrow> 'h gateway_view" where
  "gw_create_ai_config G q cluster = forwarded G q ''create_ai_config'' cluster ''ai/configs''"

definition gw_update_ai_config :: "'h site \<Rightarrow> gateway_request \<Rightarrow> string \<Rightarrow> int \<Rightarrow> 'h gateway_view" where
  "gw_update_ai_config G q cluster config_id = forwarded G q ''update_ai_config'' cluster (''ai/configs/'' @ int_str config_id)"

definition gw_delete_ai_config :: "'h site \<Rightarrow> gateway_request \<Rightarrow> string \<Rightarrow> int \<Rightarrow> 'h gateway_view" where
  "gw_delete_ai_config G q cluster config_id = forwarded G q ''delete_ai_config'' cluster (''ai/configs/'' @ int_str config_id)"

definition gw_validate_ai_config :: "'h site \<Rightarrow> gateway_request \<Rightarrow> string \<Rightarrow> int \<Rightarrow> 'h gateway_view" where
  "gw_validate_ai_config G q cluster config_id = forwarded G q ''validate_ai_config'' cluster (''ai/configs/'' @ int_str config_id @ ''/validate'')"

definition gw_ai_conversations :: "'h site \<Rightarrow> gateway_request \<Rightarrow> string \<Rightarrow> 'h gateway_view" where
  "gw_ai_conversations G q cluster = forwarded G q ''ai_conversations'' cluster ''ai/conversations''"

definition gw_ai_conversation_detail :: "'h site \<Rightarrow> gateway_request \<Rightarrow> string \<Rightarrow> int \<Rightarrow> 'h gateway_view" where
  "gw_ai_conversation_detail G q cluster conversation_id = forwarded G q ''ai_conversation_detail'' cluster (''ai/conversations/'' @ int_str conversation_id)"

definition gw_delete_ai_conversation :: "'h site \<Rightarrow> gateway_request \<Rightarrow> string \<Rightarrow> int \<Rightarrow> 'h gateway_view" where
  "gw_delete_ai_conversation G q cluster conversation_id = forwarded G q ''delete_ai_conversation'' cluster (''ai/conversations/'' @ int_str conversation_id)"

definition gw_admin_ai_conversations :: "'h site \<Rightarrow> gateway_request \<Rightarrow> string \<Rightarrow> 'h gateway_view" where
  "gw_admin_ai_conversations G q cluster = forwarded G q ''admin_ai_conversations'' cluster ''ai/admin/conversations''"

definition gw_admin_ai_conversation_detail :: "'h site \<Rightarrow> gateway_request \<Rightarrow> string \<Rightarrow> int \<Rightarrow> 'h gateway_view" where
  "gw_admin_ai_conversation_detail G q cluster conversation_id = forwarded G q ''admin_ai_conversation_detail'' cluster (''ai/admin/conversations/'' @ int_str conversation_id)"

definition gw_user_metrics_history :: "'h site \<Rightarrow> gateway_request \<Rightarrow> string \<Rightarrow> string \<Rightarrow> 'h gateway_view" where
  "gw_user_metrics_history G q cluster username = forwarded G q ''user_metrics_history'' cluster (''user/'' @ username @ ''/metrics/history'')"

definition gw_user_tools_analysis :: "'h site \<Rightarrow> gateway_request \<Rightarrow> string \<Rightarrow> string \<Rightarrow> 'h gateway_view" where
  "gw_user_tools_analysis G q cluster username = forwarded G q ''user_tools_analysis'' cluster (''user/'' @ username @ ''/tools/analysis'')"

definition gw_jobs :: "'h site \<Rightarrow> gateway_request \<Rightarrow> string \<Rightarrow> 'h gateway_view" where
  "gw_jobs G q cluster = forwarded G q ''jobs'' cluster ''jobs''"

definition gw_job :: "'h site \<Rightarrow> gateway_request \<Rightarrow> string \<Rightarrow> int \<Rightarrow> 'h gateway_view" where
  "gw_job G q cluster job_id = forwarded G q ''job'' cluster (''job/'' @ int_str job_id)"

definition gw_analysis_ping :: "'h site \<Rightarrow> gateway_request \<Rightarrow> string \<Rightarrow> 'h gateway_view" where
  "gw_analysis_ping G q cluster = forwarded G q ''analysis_ping'' cluster ''analysis/ping''"

definition gw_analysis_diag :: "'h site \<Rightarrow> gateway_request \<Rightarrow> string \<Rightarrow> 'h gateway_view" where
  "gw_analysis_diag G q cluster = forwarded G q ''analysis_diag'' cluster ''analysis/diag''"

definition gw_analysis_context :: "'h site \<Rightarrow> gateway_request \<Rightarrow> string \<Rightarrow> 'h gateway_view" where
  "gw_analysis_context G q cluster = forwarded G q ''analysis_context'' cluster ''analysis/context''"

definition gw_analysis_node_hotspots :: "'h site \<Rightarrow> gateway_request \<Rightarrow> string \<Rightarrow> 'h gateway_view" where
  "gw_analysis_node_hotspots G q cluster = forwarded G q ''analysis_node_hotspots'' cluster ''analysis/node-hotspots''"

definition gw_job_submit :: "'h site \<Rightarrow> gateway_request \<Rightarrow> string \<Rightarrow> 'h gateway_view" where
  "gw_job_submit G q cluster = forwarded G q ''job_submit'' cluster ''jobs/submit''"

definition gw_job_update :: "'h site \<Rightarrow> gateway_request \<Rightarrow> string \<Rightarrow> int \<Rightarrow> 'h gateway_view" where
  "gw_job_update G q cluster job_id = forwarded G q ''job_update'' cluster (''job/'' @ int_str job_id @ ''/update'')"

definition gw_job_cancel :: "'h site \<Rightarrow> gateway_request \<Rightarrow> string \<Rightarrow> int \<Rightarrow> 'h gateway_view" where
  "gw_job_cancel G q cluster job_id = forwarded G q ''job_cancel'' cluster (''job/'' @ int_str job_id @ ''/cancel'')"

definition gw_nodes :: "'h site \<Rightarrow> gateway_request \<Rightarrow> string \<Rightarrow> 'h gateway_view" where
  "gw_nodes G q cluster = forwarded G q ''nodes'' cluster ''nodes''"

definition gw_node :: "'h site \<Rightarrow> gateway_request \<Rightarrow> string \<Rightarrow> string \<Rightarrow> 'h gateway_view" where
  "gw_node G q cluster name = forwarded G q ''node'' cluster (''node/'' @ name)"

definition gw_node_update :: "'h site \<Rightarrow> gateway_request \<Rightarrow> string \<Rightarrow> string \<Rightarrow> 'h gateway_view" where
  "gw_node_update G q cluster name = forwarded G q ''node_update'' cluster (''node/'' @ name @ ''/update'')"

definition gw_node_delete :: "'h site \<Rightarrow> gateway_request \<Rightarrow> string \<Rightarrow> string \<Rightarrow> 'h gateway_view" where
  "gw_node_delete G q cluster name = forwarded G q ''node_delete'' cluster (''node/'' @ name @ ''/delete'')"

definition gw_partitions :: "'h site \<Rightarrow> gateway_request \<Rightarrow> string \<Rightarrow> 'h gateway_view" where
  "gw_partitions G q cluster = forwarded G q ''partitions'' cluster ''partitions''"

definition gw_qos :: "'h site \<Rightarrow> gateway_request \<Rightarrow> string \<Rightarrow> 'h gateway_view" where
  "gw_qos G q cluster = forwarded G q ''qos'' cluster ''qos''"

definition gw_qos_update :: "'h site \<Rightarrow> gateway_request \<Rightarrow> string \<Rightarrow> 'h gateway_view" where
  "gw_qos_update G q cluster = forwarded G q ''qos_update'' cluster ''qos''"

definition gw_qos_delete :: "'h site \<Rightarrow> gateway_request \<Rightarrow> string \<Rightarrow> string \<Rightarrow> 'h gateway_view" where
  "gw_qos_delete G q cluster name = forwarded G q ''qos_delete'' cluster (''qos/'' @ name @ ''/delete'')"

definition gw_reservations :: "'h site \<Rightarrow> gateway_request \<Rightarrow> string \<Rightarrow> 'h gateway_view" where
  "gw_reservations G q cluster = forwarded G q ''reservations'' cluster ''reservations''"

definition gw_reservation_create :: "'h site \<Rightarrow> gateway_request \<Rightarrow> string \<Rightarrow> 'h gateway_view" where
  "gw_reservation_create G q cluster = forwarded G q ''reservation_create'' cluster ''reservation''"

definition gw_reservation_update :: "'h site \<Rightarrow> gateway_request \<Rightarrow> string \<Rightarrow> string \<Rightarrow> 'h gateway_view" where
  "gw_reservation_update G q cluster name = forwarded G q ''reservation_update'' cluster (''reservation/'' @ name @ ''/update'')"

definition gw_reservation_delete :: "'h site \<Rightarrow> gateway_request \<Rightarrow> string \<Rightarrow> string \<Rightarrow> 'h gateway_view" where
  "gw_reservation_delete G q cluster name = forwarded G q ''reservation_delete'' cluster (''reservation/'' @ name @ ''/delete'')"

definition gw_accounts :: "'h site \<Rightarrow> gateway_request \<Rightarrow> string \<Rightarrow> 'h gateway_view" where
  "gw_accounts G q cluster = forwarded G q ''accounts'' cluster ''accounts''"

definition gw_account :: "'h site \<Rightarrow> gateway_request \<Rightarrow> string \<Rightarrow> string \<Rightarrow> 'h gateway_view" where
  "gw_account G q cluster name = forwarded G q ''account'' cluster (''account/'' @ name)"

definition gw_accounts_update :: "'h site \<Rightarrow> gateway_request \<Rightarrow> string \<Rightarrow> 'h gateway_view" where
  "gw_accounts_update G q cluster = forwarded G q ''accounts_update'' cluster ''accounts''"

definition gw_account_delete :: "'h site \<Rightarrow> gateway_request \<Rightarrow> string \<Rightarrow> string \<Rightarrow> 'h gateway_view" where
  "gw_account_delete G q cluster name = forwarded G q ''account_delete'' cluster (''account/'' @ name @ ''/delete'')"

definition gw_associations :: "'h site \<Rightarrow> gateway_request \<Rightarrow> string \<Rightarrow> 'h gateway_view" where
  "gw_associations G q cluster = forwarded G q ''associations'' cluster ''associations''"

definition gw_associations_update :: "'h site \<Rightarrow> gateway_request \<Rightarrow> string \<Rightarrow> 'h gateway_view" where
  "gw_associations_update G q cluster = forwarded G q ''associations_update'' cluster ''associations''"

definition gw_associations_delete :: "'h site \<Rightarrow> gateway_request \<Rightarrow> string \<Rightarrow> 'h gateway_view" where
  "gw_associations_delete G q cluster = forwarded G q ''associations_delete'' cluster ''associations''"

definition gw_users_admin :: "'h site \<Rightarrow> gateway_request \<Rightarrow> string \<Rightarrow> 'h gateway_view" where
  "gw_users_admin G q cluster = forwarded G q ''users_admin'' cluster ''users''"

definition gw_user_admin :: "'h site \<Rightarrow> gateway_request \<Rightarrow> string \<Rightarrow> string \<Rightarrow> 'h gateway_view" where
  "gw_user_admin G q cluster name = forwarded G q ''user_admin'' cluster (''user/'' @ name)"

definition gw_users_update :: "'h site \<Rightarrow> gateway_request \<Rightarrow> string \<Rightarrow> 'h gateway_view" where
  "gw_users_update G q cluster = forwarded G q ''users_update'' cluster ''users''"

definition gw_user_delete :: "'h site \<Rightarrow> gateway_request \<Rightarrow> string \<Rightarrow> string \<Rightarrow> 'h gateway_view" where
  "gw_user_delete G q cluster name = forwarded G q ''user_delete'' cluster (''user/'' @ name @ ''/delete'')"

definition gw_metrics :: "'h site \<Rightarrow> gateway_request \<Rightarrow> string \<Rightarrow> string \<Rightarrow> 'h gateway_view" where
  "gw_metrics G q cluster metric = forwarded G q ''metrics'' cluster (''metrics/'' @ metric)"

definition gw_jobs_history :: "'h site \<Rightarrow> gateway_request \<Rightarrow> string \<Rightarrow> 'h gateway_view" where
  "gw_jobs_history G q cluster = forwarded G q ''jobs_history'' cluster ''jobs/history''"

definition gw_job_history_detail :: "'h site \<Rightarrow> gateway_request \<Rightarrow> string \<Rightarrow> int \<Rightarrow> 'h gateway_view" where
  "gw_job_history_detail G q cluster record_id = forwarded G q ''job_history_detail'' cluster (''jobs/history/'' @ int_str record_id)"

definition gw_node_metrics :: "'h site \<Rightarrow> gateway_request \<Rightarrow> string \<Rightarrow> string \<Rightarrow> 'h gateway_view" where
  "gw_node_metrics G q cluster name = forwarded G q ''node_metrics'' cluster (''node/'' @ name @ ''/metrics'')"

definition gw_node_metrics_history :: "'h site \<Rightarrow> gateway_request \<Rightarrow> string \<Rightarrow> string \<Rightarrow> 'h gateway_view" where
  "gw_node_metrics_history G q cluster name = forwarded G q ''node_metrics_history'' cluster (''node/'' @ name @ ''/metrics/history'')"

definition gw_ai_chat_stream :: "'h site \<Rightarrow> gateway_request \<Rightarrow> string \<Rightarrow> 'h gateway_view" where
  "gw_ai_chat_stream G q cluster =
     check_jwt q (\<lambda>token. validate_cluster G ''ai_chat_stream'' cluster
       (proxy_stream_agent G q cluster ''ai/chat/stream'' (Some token) True))"

definition gw_racksdb :: "'h site \<Rightarrow> gateway_request \<Rightarrow> string \<Rightarrow> string \<Rightarrow> 'h gateway_view" where
  "gw_racksdb G q cluster path =
     check_jwt q (\<lambda>token. validate_cluster G ''racksdb'' cluster
       (mbind (site_agents G) (\<lambda>regs. mbind (mlift (agent_at (VStr cluster) regs)) (\<lambda>agent.
          proxy_agent G q cluster (''racksdb/v'' @ py_str (rd_version (ra_racksdb agent)) @ ''/'' @ path)
            (Some token) False False))))"

end
