(* ===== verification/GatewayRoutes.thy ===== *)
theory GatewayRoutes
  imports Gateway AgentService
begin

text \<open>
  The routes of the agent and of the gateway, from \<open>apps/agent.py\<close> and \<open>apps/gateway.py\<close>, and the two
  applications together: what the gateway forwards reaches the same endpoint of the agent, and the reply
  of the gateway is the reply of the agent. Flask matches a path against the rules: a text matches a part
  of the path that is not empty, an integer a part of digits. The names in the paths are free of the
  characters that delimit the parts of an address, since the gateway inserts them as they are.
\<close>

section \<open>Matching a path\<close>

datatype segment = Lit string | StrArg | IntArg

fun match_segments :: "segment list \<Rightarrow> string list \<Rightarrow> string list option" where
  "match_segments [] [] = Some []"
| "match_segments (Lit s # segs) (p # parts) = (if s = p then match_segments segs parts else None)"
| "match_segments (StrArg # segs) (p # parts) = (if p \<noteq> [] then map_option (Cons p) (match_segments segs parts) else None)"
| "match_segments (IntArg # segs) (p # parts) =
     (if p \<noteq> [] \<and> list_all is_digit p then map_option (Cons p) (match_segments segs parts) else None)"
| "match_segments _ _ = None"

definition str_arg :: "string list \<Rightarrow> string" where
  "str_arg args = (case args of [] \<Rightarrow> [] | a # _ \<Rightarrow> a)"

definition int_arg :: "string list \<Rightarrow> int" where
  "int_arg args = (case py_parse_int (str_arg args) of None \<Rightarrow> 0 | Some n \<Rightarrow> n)"

type_synonym route = "string \<times> segment list \<times> (string list \<Rightarrow> endpoint)"

text \<open>The endpoints of the rules that match a request.\<close>

primrec candidates :: "route list \<Rightarrow> string \<Rightarrow> string list \<Rightarrow> endpoint list" where
  "candidates [] verb parts = []"
| "candidates (r # rs) verb parts =
     (case r of (m, segs, mk) \<Rightarrow>
        (if m = verb then (case match_segments segs parts of None \<Rightarrow> [] | Some args \<Rightarrow> [mk args]) else []))
     @ candidates rs verb parts"

section \<open>The rules\<close>

text \<open>After the prefix with the version; the rules of the assistant are left out.\<close>

definition agent_routes :: "route list" where
  "agent_routes =
     [(''GET'', [Lit ''permissions''], (\<lambda>_. Permissions)),
      (''GET'', [Lit ''ping''], (\<lambda>_. Ping)),
      (''GET'', [Lit ''stats''], (\<lambda>_. Stats)),
      (''GET'', [Lit ''analysis'', Lit ''ping''], (\<lambda>_. AnalysisPing)),
      (''GET'', [Lit ''analysis'', Lit ''diag''], (\<lambda>_. AnalysisDiag)),
      (''GET'', [Lit ''analysis'', Lit ''context''], (\<lambda>_. AnalysisContext)),
      (''GET'', [Lit ''analysis'', Lit ''node-hotspots''], (\<lambda>_. AnalysisNodeHotspots)),
      (''GET'', [Lit ''jobs''], (\<lambda>_. Jobs)),
      (''GET'', [Lit ''job'', IntArg], (\<lambda>args. Job (int_arg args))),
      (''POST'', [Lit ''jobs'', Lit ''submit''], (\<lambda>_. SubmitJob)),
      (''POST'', [Lit ''job'', IntArg, Lit ''update''], (\<lambda>args. UpdateJob (int_arg args))),
      (''DELETE'', [Lit ''job'', IntArg, Lit ''cancel''], (\<lambda>args. CancelJob (int_arg args))),
      (''GET'', [Lit ''nodes''], (\<lambda>_. Nodes)),
      (''GET'', [Lit ''node'', StrArg], (\<lambda>args. Node (str_arg args))),
      (''POST'', [Lit ''node'', StrArg, Lit ''update''], (\<lambda>args. UpdateNode (str_arg args))),
      (''DELETE'', [Lit ''node'', StrArg, Lit ''delete''], (\<lambda>args. DeleteNode (str_arg args))),
      (''GET'', [Lit ''partitions''], (\<lambda>_. Partitions)),
      (''GET'', [Lit ''qos''], (\<lambda>_. Qos)),
      (''POST'', [Lit ''qos''], (\<lambda>_. UpdateQos)),
      (''DELETE'', [Lit ''qos'', StrArg, Lit ''delete''], (\<lambda>args. DeleteQos (str_arg args))),
      (''GET'', [Lit ''reservations''], (\<lambda>_. Reservations)),
      (''POST'', [Lit ''reservation''], (\<lambda>_. CreateReservation)),
      (''POST'', [Lit ''reservation'', StrArg, Lit ''update''], (\<lambda>args. UpdateReservation (str_arg args))),
      (''DELETE'', [Lit ''reservation'', StrArg, Lit ''delete''], (\<lambda>args. DeleteReservation (str_arg args))),
      (''GET'', [Lit ''accounts''], (\<lambda>_. Accounts)),
      (''POST'', [Lit ''accounts''], (\<lambda>_. UpdateAccounts)),
      (''GET'', [Lit ''account'', StrArg], (\<lambda>args. Account (str_arg args))),
      (''DELETE'', [Lit ''account'', StrArg, Lit ''delete''], (\<lambda>args. DeleteAccount (str_arg args))),
      (''GET'', [Lit ''associations''], (\<lambda>_. Associations)),
      (''POST'', [Lit ''associations''], (\<lambda>_. UpdateAssociations)),
      (''DELETE'', [Lit ''associations''], (\<lambda>_. DeleteAssociations)),
      (''GET'', [Lit ''users''], (\<lambda>_. Users)),
      (''POST'', [Lit ''users''], (\<lambda>_. UpdateUsers)),
      (''GET'', [Lit ''user'', StrArg], (\<lambda>args. User (str_arg args))),
      (''DELETE'', [Lit ''user'', StrArg, Lit ''delete''], (\<lambda>args. DeleteUser (str_arg args))),
      (''GET'', [Lit ''cache'', Lit ''stats''], (\<lambda>_. CacheStats)),
      (''POST'', [Lit ''cache'', Lit ''reset''], (\<lambda>_. CacheReset)),
      (''GET'', [Lit ''metrics'', StrArg], (\<lambda>args. Metrics (str_arg args))),
      (''GET'', [Lit ''jobs'', Lit ''history''], (\<lambda>_. History)),
      (''GET'', [Lit ''jobs'', Lit ''history'', IntArg], (\<lambda>args. HistoryDetail (int_arg args))),
      (''GET'', [Lit ''users'', Lit ''cache''], (\<lambda>_. LdapUsers)),
      (''GET'', [Lit ''access'', Lit ''roles''], (\<lambda>_. AccessRoles)),
      (''GET'', [Lit ''access'', Lit ''catalog''], (\<lambda>_. AccessCatalog)),
      (''POST'', [Lit ''access'', Lit ''roles''], (\<lambda>_. CreateAccessRole)),
      (''PATCH'', [Lit ''access'', Lit ''roles'', IntArg], (\<lambda>args. UpdateAccessRole (int_arg args))),
      (''DELETE'', [Lit ''access'', Lit ''roles'', IntArg], (\<lambda>args. DeleteAccessRole (int_arg args))),
      (''GET'', [Lit ''access'', Lit ''users''], (\<lambda>_. AccessUsers)),
      (''GET'', [Lit ''access'', Lit ''users'', StrArg, Lit ''roles''], (\<lambda>args. AccessUserRoles (str_arg args))),
      (''PUT'', [Lit ''access'', Lit ''users'', StrArg, Lit ''roles''], (\<lambda>args. UpdateAccessUserRoles (str_arg args))),
      (''GET'', [Lit ''user'', StrArg, Lit ''metrics'', Lit ''history''], (\<lambda>args. UserHistory (str_arg args))),
      (''GET'', [Lit ''user'', StrArg, Lit ''tools'', Lit ''analysis''], (\<lambda>args. UserTools (str_arg args))),
      (''POST'', [Lit ''users'', Lit ''cache''], (\<lambda>_. CacheUser)),
      (''GET'', [Lit ''node'', StrArg, Lit ''metrics''], (\<lambda>args. NodeMetrics (str_arg args))),
      (''GET'', [Lit ''node'', StrArg, Lit ''metrics'', Lit ''history''], (\<lambda>args. NodeMetricsHistory (str_arg args)))]"

text \<open>After \<open>/api/agents/<cluster>/\<close>; the rules of the assistant and of RacksDB are left out.\<close>

definition gateway_routes :: "route list" where
  "gateway_routes =
     [(''GET'', [Lit ''ping''], (\<lambda>_. Ping)),
      (''GET'', [Lit ''stats''], (\<lambda>_. Stats)),
      (''GET'', [Lit ''analysis'', Lit ''ping''], (\<lambda>_. AnalysisPing)),
      (''GET'', [Lit ''analysis'', Lit ''diag''], (\<lambda>_. AnalysisDiag)),
      (''GET'', [Lit ''analysis'', Lit ''context''], (\<lambda>_. AnalysisContext)),
      (''GET'', [Lit ''permissions''], (\<lambda>_. Permissions)),
      (''GET'', [Lit ''metrics'', StrArg], (\<lambda>args. Metrics (str_arg args))),
      (''GET'', [Lit ''cache'', Lit ''stats''], (\<lambda>_. CacheStats)),
      (''POST'', [Lit ''cache'', Lit ''reset''], (\<lambda>_. CacheReset)),
      (''GET'', [Lit ''users'', Lit ''cache''], (\<lambda>_. LdapUsers)),
      (''GET'', [Lit ''access'', Lit ''roles''], (\<lambda>_. AccessRoles)),
      (''GET'', [Lit ''access'', Lit ''catalog''], (\<lambda>_. AccessCatalog)),
      (''POST'', [Lit ''access'', Lit ''roles''], (\<lambda>_. CreateAccessRole)),
      (''PATCH'', [Lit ''access'', Lit ''roles'', IntArg], (\<lambda>args. UpdateAccessRole (int_arg args))),
      (''DELETE'', [Lit ''access'', Lit ''roles'', IntArg], (\<lambda>args. DeleteAccessRole (int_arg args))),
      (''GET'', [Lit ''access'', Lit ''users''], (\<lambda>_. AccessUsers)),
      (''GET'', [Lit ''access'', Lit ''users'', StrArg, Lit ''roles''], (\<lambda>args. AccessUserRoles (str_arg args))),
      (''PUT'', [Lit ''access'', Lit ''users'', StrArg, Lit ''roles''], (\<lambda>args. UpdateAccessUserRoles (str_arg args))),
      (''GET'', [Lit ''user'', StrArg, Lit ''metrics'', Lit ''history''], (\<lambda>args. UserHistory (str_arg args))),
      (''GET'', [Lit ''user'', StrArg, Lit ''tools'', Lit ''analysis''], (\<lambda>args. UserTools (str_arg args))),
      (''GET'', [Lit ''analysis'', Lit ''node-hotspots''], (\<lambda>_. AnalysisNodeHotspots)),
      (''GET'', [Lit ''jobs''], (\<lambda>_. Jobs)),
      (''GET'', [Lit ''job'', IntArg], (\<lambda>args. Job (int_arg args))),
      (''POST'', [Lit ''jobs'', Lit ''submit''], (\<lambda>_. SubmitJob)),
      (''POST'', [Lit ''job'', IntArg, Lit ''update''], (\<lambda>args. UpdateJob (int_arg args))),
      (''DELETE'', [Lit ''job'', IntArg, Lit ''cancel''], (\<lambda>args. CancelJob (int_arg args))),
      (''GET'', [Lit ''nodes''], (\<lambda>_. Nodes)),
      (''GET'', [Lit ''node'', StrArg], (\<lambda>args. Node (str_arg args))),
      (''POST'', [Lit ''node'', StrArg, Lit ''update''], (\<lambda>args. UpdateNode (str_arg args))),
      (''DELETE'', [Lit ''node'', StrArg, Lit ''delete''], (\<lambda>args. DeleteNode (str_arg args))),
      (''GET'', [Lit ''partitions''], (\<lambda>_. Partitions)),
      (''GET'', [Lit ''qos''], (\<lambda>_. Qos)),
      (''POST'', [Lit ''qos''], (\<lambda>_. UpdateQos)),
      (''DELETE'', [Lit ''qos'', StrArg, Lit ''delete''], (\<lambda>args. DeleteQos (str_arg args))),
      (''GET'', [Lit ''reservations''], (\<lambda>_. Reservations)),
      (''POST'', [Lit ''reservation''], (\<lambda>_. CreateReservation)),
      (''POST'', [Lit ''reservation'', StrArg, Lit ''update''], (\<lambda>args. UpdateReservation (str_arg args))),
      (''DELETE'', [Lit ''reservation'', StrArg, Lit ''delete''], (\<lambda>args. DeleteReservation (str_arg args))),
      (''GET'', [Lit ''accounts''], (\<lambda>_. Accounts)),
      (''POST'', [Lit ''accounts''], (\<lambda>_. UpdateAccounts)),
      (''GET'', [Lit ''account'', StrArg], (\<lambda>args. Account (str_arg args))),
      (''DELETE'', [Lit ''account'', StrArg, Lit ''delete''], (\<lambda>args. DeleteAccount (str_arg args))),
      (''GET'', [Lit ''associations''], (\<lambda>_. Associations)),
      (''POST'', [Lit ''associations''], (\<lambda>_. UpdateAssociations)),
      (''DELETE'', [Lit ''associations''], (\<lambda>_. DeleteAssociations)),
      (''GET'', [Lit ''users''], (\<lambda>_. Users)),
      (''POST'', [Lit ''users''], (\<lambda>_. UpdateUsers)),
      (''GET'', [Lit ''user'', StrArg], (\<lambda>args. User (str_arg args))),
      (''DELETE'', [Lit ''user'', StrArg, Lit ''delete''], (\<lambda>args. DeleteUser (str_arg args))),
      (''GET'', [Lit ''jobs'', Lit ''history''], (\<lambda>_. History)),
      (''GET'', [Lit ''jobs'', Lit ''history'', IntArg], (\<lambda>args. HistoryDetail (int_arg args))),
      (''GET'', [Lit ''node'', StrArg, Lit ''metrics''], (\<lambda>args. NodeMetrics (str_arg args))),
      (''GET'', [Lit ''node'', StrArg, Lit ''metrics'', Lit ''history''], (\<lambda>args. NodeMetricsHistory (str_arg args)))]"

text \<open>The view of the gateway for an endpoint of the agent. It has no rule to cache a user.\<close>

primrec gw_serve :: "'h site \<Rightarrow> gateway_request \<Rightarrow> string \<Rightarrow> endpoint \<Rightarrow> 'h gateway_view" where
  "gw_serve G q cluster Permissions = gw_permissions G q cluster"
| "gw_serve G q cluster Ping = gw_ping G q cluster"
| "gw_serve G q cluster AnalysisPing = gw_analysis_ping G q cluster"
| "gw_serve G q cluster AnalysisDiag = gw_analysis_diag G q cluster"
| "gw_serve G q cluster AnalysisContext = gw_analysis_context G q cluster"
| "gw_serve G q cluster AnalysisNodeHotspots = gw_analysis_node_hotspots G q cluster"
| "gw_serve G q cluster Stats = gw_stats G q cluster"
| "gw_serve G q cluster Jobs = gw_jobs G q cluster"
| "gw_serve G q cluster (Job n) = gw_job G q cluster n"
| "gw_serve G q cluster SubmitJob = gw_job_submit G q cluster"
| "gw_serve G q cluster (UpdateJob n) = gw_job_update G q cluster n"
| "gw_serve G q cluster (CancelJob n) = gw_job_cancel G q cluster n"
| "gw_serve G q cluster Nodes = gw_nodes G q cluster"
| "gw_serve G q cluster (Node name) = gw_node G q cluster name"
| "gw_serve G q cluster (UpdateNode name) = gw_node_update G q cluster name"
| "gw_serve G q cluster (DeleteNode name) = gw_node_delete G q cluster name"
| "gw_serve G q cluster Partitions = gw_partitions G q cluster"
| "gw_serve G q cluster Qos = gw_qos G q cluster"
| "gw_serve G q cluster Reservations = gw_reservations G q cluster"
| "gw_serve G q cluster CreateReservation = gw_reservation_create G q cluster"
| "gw_serve G q cluster (UpdateReservation name) = gw_reservation_update G q cluster name"
| "gw_serve G q cluster (DeleteReservation name) = gw_reservation_delete G q cluster name"
| "gw_serve G q cluster Accounts = gw_accounts G q cluster"
| "gw_serve G q cluster (Account name) = gw_account G q cluster name"
| "gw_serve G q cluster UpdateAccounts = gw_accounts_update G q cluster"
| "gw_serve G q cluster (DeleteAccount name) = gw_account_delete G q cluster name"
| "gw_serve G q cluster Associations = gw_associations G q cluster"
| "gw_serve G q cluster Users = gw_users_admin G q cluster"
| "gw_serve G q cluster (User name) = gw_user_admin G q cluster name"
| "gw_serve G q cluster UpdateUsers = gw_users_update G q cluster"
| "gw_serve G q cluster (DeleteUser name) = gw_user_delete G q cluster name"
| "gw_serve G q cluster UpdateQos = gw_qos_update G q cluster"
| "gw_serve G q cluster (DeleteQos name) = gw_qos_delete G q cluster name"
| "gw_serve G q cluster UpdateAssociations = gw_associations_update G q cluster"
| "gw_serve G q cluster DeleteAssociations = gw_associations_delete G q cluster"
| "gw_serve G q cluster CacheStats = gw_cache_stats G q cluster"
| "gw_serve G q cluster CacheReset = gw_cache_reset G q cluster"
| "gw_serve G q cluster (Metrics name) = gw_metrics G q cluster name"
| "gw_serve G q cluster History = gw_jobs_history G q cluster"
| "gw_serve G q cluster (HistoryDetail n) = gw_job_history_detail G q cluster n"
| "gw_serve G q cluster CacheUser = abort_with 405 ''Method Not Allowed''"
| "gw_serve G q cluster LdapUsers = gw_ldap_cache_users G q cluster"
| "gw_serve G q cluster AccessCatalog = gw_access_catalog G q cluster"
| "gw_serve G q cluster AccessRoles = gw_access_roles G q cluster"
| "gw_serve G q cluster CreateAccessRole = gw_create_access_role G q cluster"
| "gw_serve G q cluster (UpdateAccessRole n) = gw_update_access_role G q cluster n"
| "gw_serve G q cluster (DeleteAccessRole n) = gw_delete_access_role G q cluster n"
| "gw_serve G q cluster AccessUsers = gw_access_users G q cluster"
| "gw_serve G q cluster (AccessUserRoles name) = gw_access_user_roles G q cluster name"
| "gw_serve G q cluster (UpdateAccessUserRoles name) = gw_update_access_user_roles G q cluster name"
| "gw_serve G q cluster (UserHistory name) = gw_user_metrics_history G q cluster name"
| "gw_serve G q cluster (UserTools name) = gw_user_tools_analysis G q cluster name"
| "gw_serve G q cluster (NodeMetrics name) = gw_node_metrics G q cluster name"
| "gw_serve G q cluster (NodeMetricsHistory name) = gw_node_metrics_history G q cluster name"

section \<open>The address of an endpoint\<close>

primrec route_method :: "endpoint \<Rightarrow> string" where
  "route_method Permissions = ''GET''"
| "route_method Ping = ''GET''"
| "route_method AnalysisPing = ''GET''"
| "route_method AnalysisDiag = ''GET''"
| "route_method AnalysisContext = ''GET''"
| "route_method AnalysisNodeHotspots = ''GET''"
| "route_method Stats = ''GET''"
| "route_method Jobs = ''GET''"
| "route_method (Job n) = ''GET''"
| "route_method SubmitJob = ''POST''"
| "route_method (UpdateJob n) = ''POST''"
| "route_method (CancelJob n) = ''DELETE''"
| "route_method Nodes = ''GET''"
| "route_method (Node name) = ''GET''"
| "route_method (UpdateNode name) = ''POST''"
| "route_method (DeleteNode name) = ''DELETE''"
| "route_method Partitions = ''GET''"
| "route_method Qos = ''GET''"
| "route_method Reservations = ''GET''"
| "route_method CreateReservation = ''POST''"
| "route_method (UpdateReservation name) = ''POST''"
| "route_method (DeleteReservation name) = ''DELETE''"
| "route_method Accounts = ''GET''"
| "route_method (Account name) = ''GET''"
| "route_method UpdateAccounts = ''POST''"
| "route_method (DeleteAccount name) = ''DELETE''"
| "route_method Associations = ''GET''"
| "route_method Users = ''GET''"
| "route_method (User name) = ''GET''"
| "route_method UpdateUsers = ''POST''"
| "route_method (DeleteUser name) = ''DELETE''"
| "route_method UpdateQos = ''POST''"
| "route_method (DeleteQos name) = ''DELETE''"
| "route_method UpdateAssociations = ''POST''"
| "route_method DeleteAssociations = ''DELETE''"
| "route_method CacheStats = ''GET''"
| "route_method CacheReset = ''POST''"
| "route_method (Metrics name) = ''GET''"
| "route_method History = ''GET''"
| "route_method (HistoryDetail n) = ''GET''"
| "route_method CacheUser = ''POST''"
| "route_method LdapUsers = ''GET''"
| "route_method AccessCatalog = ''GET''"
| "route_method AccessRoles = ''GET''"
| "route_method CreateAccessRole = ''POST''"
| "route_method (UpdateAccessRole n) = ''PATCH''"
| "route_method (DeleteAccessRole n) = ''DELETE''"
| "route_method AccessUsers = ''GET''"
| "route_method (AccessUserRoles name) = ''GET''"
| "route_method (UpdateAccessUserRoles name) = ''PUT''"
| "route_method (UserHistory name) = ''GET''"
| "route_method (UserTools name) = ''GET''"
| "route_method (NodeMetrics name) = ''GET''"
| "route_method (NodeMetricsHistory name) = ''GET''"

primrec route_parts :: "endpoint \<Rightarrow> string list" where
  "route_parts Permissions = [''permissions'']"
| "route_parts Ping = [''ping'']"
| "route_parts AnalysisPing = [''analysis'', ''ping'']"
| "route_parts AnalysisDiag = [''analysis'', ''diag'']"
| "route_parts AnalysisContext = [''analysis'', ''context'']"
| "route_parts AnalysisNodeHotspots = [''analysis'', ''node-hotspots'']"
| "route_parts Stats = [''stats'']"
| "route_parts Jobs = [''jobs'']"
| "route_parts (Job n) = [''job'', int_str n]"
| "route_parts SubmitJob = [''jobs'', ''submit'']"
| "route_parts (UpdateJob n) = [''job'', int_str n, ''update'']"
| "route_parts (CancelJob n) = [''job'', int_str n, ''cancel'']"
| "route_parts Nodes = [''nodes'']"
| "route_parts (Node name) = [''node'', name]"
| "route_parts (UpdateNode name) = [''node'', name, ''update'']"
| "route_parts (DeleteNode name) = [''node'', name, ''delete'']"
| "route_parts Partitions = [''partitions'']"
| "route_parts Qos = [''qos'']"
| "route_parts Reservations = [''reservations'']"
| "route_parts CreateReservation = [''reservation'']"
| "route_parts (UpdateReservation name) = [''reservation'', name, ''update'']"
| "route_parts (DeleteReservation name) = [''reservation'', name, ''delete'']"
| "route_parts Accounts = [''accounts'']"
| "route_parts (Account name) = [''account'', name]"
| "route_parts UpdateAccounts = [''accounts'']"
| "route_parts (DeleteAccount name) = [''account'', name, ''delete'']"
| "route_parts Associations = [''associations'']"
| "route_parts Users = [''users'']"
| "route_parts (User name) = [''user'', name]"
| "route_parts UpdateUsers = [''users'']"
| "route_parts (DeleteUser name) = [''user'', name, ''delete'']"
| "route_parts UpdateQos = [''qos'']"
| "route_parts (DeleteQos name) = [''qos'', name, ''delete'']"
| "route_parts UpdateAssociations = [''associations'']"
| "route_parts DeleteAssociations = [''associations'']"
| "route_parts CacheStats = [''cache'', ''stats'']"
| "route_parts CacheReset = [''cache'', ''reset'']"
| "route_parts (Metrics name) = [''metrics'', name]"
| "route_parts History = [''jobs'', ''history'']"
| "route_parts (HistoryDetail n) = [''jobs'', ''history'', int_str n]"
| "route_parts CacheUser = [''users'', ''cache'']"
| "route_parts LdapUsers = [''users'', ''cache'']"
| "route_parts AccessCatalog = [''access'', ''catalog'']"
| "route_parts AccessRoles = [''access'', ''roles'']"
| "route_parts CreateAccessRole = [''access'', ''roles'']"
| "route_parts (UpdateAccessRole n) = [''access'', ''roles'', int_str n]"
| "route_parts (DeleteAccessRole n) = [''access'', ''roles'', int_str n]"
| "route_parts AccessUsers = [''access'', ''users'']"
| "route_parts (AccessUserRoles name) = [''access'', ''users'', name, ''roles'']"
| "route_parts (UpdateAccessUserRoles name) = [''access'', ''users'', name, ''roles'']"
| "route_parts (UserHistory name) = [''user'', name, ''metrics'', ''history'']"
| "route_parts (UserTools name) = [''user'', name, ''tools'', ''analysis'']"
| "route_parts (NodeMetrics name) = [''node'', name, ''metrics'']"
| "route_parts (NodeMetricsHistory name) = [''node'', name, ''metrics'', ''history'']"

text \<open>Names that are one part of a path and are not changed on the way; numbers of a path.\<close>

definition plain_part :: "string \<Rightarrow> bool" where
  "plain_part s \<longleftrightarrow> s \<noteq> [] \<and> list_all (\<lambda>c. c \<notin> {CHR ''/'', CHR ''?'', CHR ''#'', CHR ''%''}) s \<and> s \<notin> {''.'', ''..''}"

primrec wf_endpoint :: "endpoint \<Rightarrow> bool" where
  "wf_endpoint Permissions \<longleftrightarrow> True"
| "wf_endpoint Ping \<longleftrightarrow> True"
| "wf_endpoint AnalysisPing \<longleftrightarrow> True"
| "wf_endpoint AnalysisDiag \<longleftrightarrow> True"
| "wf_endpoint AnalysisContext \<longleftrightarrow> True"
| "wf_endpoint AnalysisNodeHotspots \<longleftrightarrow> True"
| "wf_endpoint Stats \<longleftrightarrow> True"
| "wf_endpoint Jobs \<longleftrightarrow> True"
| "wf_endpoint (Job n) \<longleftrightarrow> 0 \<le> n"
| "wf_endpoint SubmitJob \<longleftrightarrow> True"
| "wf_endpoint (UpdateJob n) \<longleftrightarrow> 0 \<le> n"
| "wf_endpoint (CancelJob n) \<longleftrightarrow> 0 \<le> n"
| "wf_endpoint Nodes \<longleftrightarrow> True"
| "wf_endpoint (Node name) \<longleftrightarrow> plain_part name"
| "wf_endpoint (UpdateNode name) \<longleftrightarrow> plain_part name"
| "wf_endpoint (DeleteNode name) \<longleftrightarrow> plain_part name"
| "wf_endpoint Partitions \<longleftrightarrow> True"
| "wf_endpoint Qos \<longleftrightarrow> True"
| "wf_endpoint Reservations \<longleftrightarrow> True"
| "wf_endpoint CreateReservation \<longleftrightarrow> True"
| "wf_endpoint (UpdateReservation name) \<longleftrightarrow> plain_part name"
| "wf_endpoint (DeleteReservation name) \<longleftrightarrow> plain_part name"
| "wf_endpoint Accounts \<longleftrightarrow> True"
| "wf_endpoint (Account name) \<longleftrightarrow> plain_part name"
| "wf_endpoint UpdateAccounts \<longleftrightarrow> True"
| "wf_endpoint (DeleteAccount name) \<longleftrightarrow> plain_part name"
| "wf_endpoint Associations \<longleftrightarrow> True"
| "wf_endpoint Users \<longleftrightarrow> True"
| "wf_endpoint (User name) \<longleftrightarrow> plain_part name"
| "wf_endpoint UpdateUsers \<longleftrightarrow> True"
| "wf_endpoint (DeleteUser name) \<longleftrightarrow> plain_part name"
| "wf_endpoint UpdateQos \<longleftrightarrow> True"
| "wf_endpoint (DeleteQos name) \<longleftrightarrow> plain_part name"
| "wf_endpoint UpdateAssociations \<longleftrightarrow> True"
| "wf_endpoint DeleteAssociations \<longleftrightarrow> True"
| "wf_endpoint CacheStats \<longleftrightarrow> True"
| "wf_endpoint CacheReset \<longleftrightarrow> True"
| "wf_endpoint (Metrics name) \<longleftrightarrow> plain_part name"
| "wf_endpoint History \<longleftrightarrow> True"
| "wf_endpoint (HistoryDetail n) \<longleftrightarrow> 0 \<le> n"
| "wf_endpoint CacheUser \<longleftrightarrow> True"
| "wf_endpoint LdapUsers \<longleftrightarrow> True"
| "wf_endpoint AccessCatalog \<longleftrightarrow> True"
| "wf_endpoint AccessRoles \<longleftrightarrow> True"
| "wf_endpoint CreateAccessRole \<longleftrightarrow> True"
| "wf_endpoint (UpdateAccessRole n) \<longleftrightarrow> 0 \<le> n"
| "wf_endpoint (DeleteAccessRole n) \<longleftrightarrow> 0 \<le> n"
| "wf_endpoint AccessUsers \<longleftrightarrow> True"
| "wf_endpoint (AccessUserRoles name) \<longleftrightarrow> plain_part name"
| "wf_endpoint (UpdateAccessUserRoles name) \<longleftrightarrow> plain_part name"
| "wf_endpoint (UserHistory name) \<longleftrightarrow> plain_part name"
| "wf_endpoint (UserTools name) \<longleftrightarrow> plain_part name"
| "wf_endpoint (NodeMetrics name) \<longleftrightarrow> plain_part name"
| "wf_endpoint (NodeMetricsHistory name) \<longleftrightarrow> plain_part name"

lemma int_str_digits: "0 \<le> n \<Longrightarrow> int_str n \<noteq> [] \<and> list_all is_digit (int_str n)"
  using nat_str_digits [of "nat n"] by (auto simp: int_str_def list_all_iff)

lemma int_arg_int_str [simp]: "int_arg [int_str n] = n"
  by (simp add: int_arg_def str_arg_def)

lemma str_arg_single [simp]: "str_arg [s] = s"
  by (simp add: str_arg_def)

lemma plain_part_not_Nil: "plain_part s \<Longrightarrow> s \<noteq> []"
  by (simp add: plain_part_def)

lemma agent_candidates: "wf_endpoint ep \<Longrightarrow> candidates agent_routes (route_method ep) (route_parts ep) = [ep]"
  unfolding agent_routes_def by (cases ep; simp add: int_str_digits plain_part_not_Nil)

lemma gateway_candidates:
  "wf_endpoint ep \<Longrightarrow> ep \<noteq> CacheUser \<Longrightarrow> candidates gateway_routes (route_method ep) (route_parts ep) = [ep]"
  unfolding gateway_routes_def by (cases ep; simp add: int_str_digits plain_part_not_Nil)

lemmas forwarding_views =
  gw_permissions_def gw_ping_def gw_analysis_ping_def gw_analysis_diag_def gw_analysis_context_def
  gw_analysis_node_hotspots_def gw_stats_def gw_jobs_def gw_job_def gw_job_submit_def gw_job_update_def
  gw_job_cancel_def gw_nodes_def gw_node_def gw_node_update_def gw_node_delete_def gw_partitions_def
  gw_qos_def gw_reservations_def gw_reservation_create_def gw_reservation_update_def gw_reservation_delete_def
  gw_accounts_def gw_account_def gw_accounts_update_def gw_account_delete_def gw_associations_def
  gw_users_admin_def gw_user_admin_def gw_users_update_def gw_user_delete_def gw_qos_update_def
  gw_qos_delete_def gw_associations_update_def gw_associations_delete_def gw_cache_stats_def
  gw_cache_reset_def gw_metrics_def gw_jobs_history_def gw_job_history_detail_def gw_ldap_cache_users_def
  gw_access_catalog_def gw_access_roles_def gw_create_access_role_def gw_update_access_role_def
  gw_delete_access_role_def gw_access_users_def gw_access_user_roles_def gw_update_access_user_roles_def
  gw_user_metrics_history_def gw_user_tools_analysis_def gw_node_metrics_def gw_node_metrics_history_def

lemma gw_serve_forwarded:
  "ep \<noteq> CacheUser \<Longrightarrow> \<exists>name. gw_serve G q cluster ep = forwarded G q name cluster (py_join ''/'' (route_parts ep))"
  by (cases ep; simp add: forwarding_views; blast)

section \<open>Forwarding to an agent that is served\<close>

text \<open>What a server under an address with the version sees of a URL: the parts of the path and the query.\<close>

definition target :: "string \<Rightarrow> string \<Rightarrow> string \<Rightarrow> (string list \<times> string) option" where
  "target base version url =
     (case strip_prefix (base @ ''/v'' @ version @ ''/'') url of
        None \<Rightarrow> None
      | Some rest \<Rightarrow>
          let path = takeWhile (\<lambda>c. c \<noteq> CHR ''?'') rest
          in Some (py_split CHR ''/'' path, drop (Suc (length path)) rest))"

definition forwarded_request :: "string \<Rightarrow> string \<Rightarrow> gateway_request \<Rightarrow> string \<Rightarrow> endpoint \<Rightarrow> http_request" where
  "forwarded_request base version q token ep =
     \<lparr>hq_method = route_method ep,
      hq_url = with_query q (base @ ''/v'' @ version @ ''/'' @ py_join ''/'' (route_parts ep)),
      hq_headers = bearer (Some token), hq_json = (if route_method ep = ''GET'' then None else Some (gr_json q))\<rparr>"

lemma route_method_known: "route_method ep = ''GET'' \<or> route_method ep \<in> {''POST'', ''PUT'', ''PATCH'', ''DELETE''}"
  by (cases ep) simp_all

lemma int_str_plain: "0 \<le> n \<Longrightarrow> plain_part (int_str n)"
proof -
  assume n: "0 \<le> n"
  have d: "\<not> is_digit c" if "c \<in> {CHR ''/'', CHR ''?'', CHR ''#'', CHR ''%'', CHR ''.''}" for c
    using that by (auto simp: is_digit_def)
  from int_str_digits [OF n] have digits: "list_all is_digit (int_str n)" and "int_str n \<noteq> []" by auto
  moreover have "list_all (\<lambda>c. c \<notin> {CHR ''/'', CHR ''?'', CHR ''#'', CHR ''%''}) (int_str n)"
    using digits by (rule list.pred_mono_strong) (use d in blast)
  moreover have "\<not> list_all is_digit ''.''" "\<not> list_all is_digit ''..''" using d by auto
  with digits have "int_str n \<notin> {''.'', ''..''}" by (metis empty_iff insertE)
  ultimately show ?thesis by (simp add: plain_part_def)
qed

lemma route_parts_plain: "wf_endpoint ep \<Longrightarrow> list_all plain_part (route_parts ep)"
  by (cases ep; simp add: int_str_plain; simp add: plain_part_def)

lemma route_parts_not_Nil: "route_parts ep \<noteq> []"
  by (cases ep) simp_all

lemma py_join_free: "c \<notin> set sep \<Longrightarrow> \<forall>p \<in> set parts. c \<notin> set p \<Longrightarrow> c \<notin> set (py_join sep parts)"
  by (induction sep parts rule: py_join.induct) auto

lemma strip_prefix_append: "strip_prefix p (p @ s) = Some s"
  by (simp add: strip_prefix_def)

lemma target_forwarded:
  assumes "wf_endpoint ep"
  shows "target base version (hq_url (forwarded_request base version q token ep)) = Some (route_parts ep, gr_query q)"
proof -
  let ?path = "py_join ''/'' (route_parts ep)"
  have plain: "\<forall>p \<in> set (route_parts ep). CHR ''/'' \<notin> set p \<and> CHR ''?'' \<notin> set p"
    using route_parts_plain [OF assms] by (auto simp: list_all_iff plain_part_def)
  then have "CHR ''?'' \<notin> set ?path" by (intro py_join_free) auto
  then have q: "\<forall>c \<in> set ?path. c \<noteq> CHR ''?''" by blast
  have split: "py_split CHR ''/'' ?path = route_parts ep"
    using plain by (intro py_split_join route_parts_not_Nil) auto
  let ?pre = "base @ ''/v'' @ version @ ''/''"
  define rest where "rest = with_query q ?path"
  have "hq_url (forwarded_request base version q token ep) = ?pre @ rest"
    by (simp add: forwarded_request_def rest_def with_query_def)
  moreover have "takeWhile (\<lambda>c. c \<noteq> CHR ''?'') rest = ?path" "drop (Suc (length ?path)) rest = gr_query q"
    using q by (simp_all add: rest_def with_query_def takeWhile_append2 takeWhile_eq_all_conv)
  ultimately show ?thesis by (simp only: target_def strip_prefix_append option.case Let_def split)
qed

text \<open>
  The interface: the agent is reached at its address, nothing is polled while the clock stands, and what is
  sent to the address is delivered.
\<close>

locale served_agent =
  fixes G :: "'h site" and base version :: string and now :: int
    and deliver :: "http_request \<Rightarrow> string list \<Rightarrow> string \<Rightarrow> 'h \<Rightarrow> http_response \<times> 'h"
  assumes no_cacert: "gs_cacert (si_settings G) = None"
    and clock_stands: "in_clock (si_net G) h = (now, h)"
    and delivered: "target base version (hq_url rq) = Some (parts, qs) \<Longrightarrow>
      in_request (si_net G) rq h = (case deliver rq parts qs h of (response, h') \<Rightarrow> (Inr response, h'))"
begin

lemma known_agents:
  assumes "now < gw_timeout s"
  shows "site_agents G s = (Inr (gw_agents s), s)" "nested_refresh G False s = (Inr (gw_agents s), s)"
  using assms
  by (auto simp: agents_def refresh_agents_def nested_refresh_def mbind_def outside_gateway_def gateway_clock_def
      clock_stands mret_def split: option.splits)

lemma forwarded_reply:
  assumes "wf_endpoint ep" and "gr_method q = route_method ep" and "gr_token q = Inr token"
    and "now < gw_timeout s" and "map_of (gw_agents s) (VStr cluster) = Some agent"
    and "ra_url agent = base" and "ra_version agent = VStr version"
  shows "forwarded G q name cluster (py_join ''/'' (route_parts ep)) s =
    (case deliver (forwarded_request base version q token ep) (route_parts ep) (gr_query q) (gw_world s) of
       (response, h) \<Rightarrow> (proxied_json cluster (forwarded_request base version q token ep) response, s\<lparr>gw_world := h\<rparr>))"
proof -
  let ?rq = "forwarded_request base version q token ep"
  have url: "agent_url (nested_refresh G False) (VStr cluster) (py_join ''/'' (route_parts ep)) True s
      = (Inr (base @ ''/v'' @ version @ ''/'' @ py_join ''/'' (route_parts ep)), s)"
    using assms(5-7) by (simp add: agent_url_def mbind_def known_agents [OF assms(4)] agent_at_def)
  have rq: "request_agent G q (VStr cluster) (py_join ''/'' (route_parts ep)) (Some token) True s = (Inr ?rq, s)"
    using route_method_known [of ep]
    by (auto simp: request_agent_def mbind_def url assms(2) forwarded_request_def Let_def)
  have conn: "connector G s = (Inr (), s)"
    by (simp add: outside_gateway_def get_agent_connector_def no_cacert)
  obtain response h where d: "deliver ?rq (route_parts ep) (gr_query q) (gw_world s) = (response, h)" by fastforce
  have "send G ?rq s = (Inr response, s\<lparr>gw_world := h\<rparr>)"
    by (simp add: outside_gateway_def delivered [OF target_forwarded [OF assms(1)]] d)
  with rq conn d assms(3,5) known_agents(1) [OF assms(4)] show ?thesis
    by (simp add: forwarded_def check_jwt_def validate_cluster_def proxy_agent_def mbind_def)
qed

lemma transparent:
  assumes "ep \<noteq> CacheUser" and "wf_endpoint ep" and "gr_method q = route_method ep" and "gr_token q = Inr token"
    and "now < gw_timeout s" and "map_of (gw_agents s) (VStr cluster) = Some agent"
    and "ra_url agent = base" and "ra_version agent = VStr version"
  shows "gw_serve G q cluster ep s =
    (case deliver (forwarded_request base version q token ep) (route_parts ep) (gr_query q) (gw_world s) of
       (response, h) \<Rightarrow> (proxied_json cluster (forwarded_request base version q token ep) response, s\<lparr>gw_world := h\<rparr>))"
proof -
  obtain name where "gw_serve G q cluster ep = forwarded G q name cluster (py_join ''/'' (route_parts ep))"
    using gw_serve_forwarded [OF assms(1)] by blast
  with forwarded_reply [OF assms(2-8)] show ?thesis by metis
qed

end

section \<open>Gateway and agent together\<close>

text \<open>
  The agent behind a server: its address and version, how the server reads a request (the token, the
  arguments) and writes a reply or the page of an exception, and its page for a path without a rule.
\<close>

record ('w, 'r, 'p, 'm) hosting =
  ho_agent :: "('w, 'r, 'p, 'm) agent"
  ho_base :: string
  ho_version :: string
  ho_read :: "http_request \<Rightarrow> string \<Rightarrow> web_request"
  ho_write :: "reply res \<Rightarrow> http_response"
  ho_missing :: http_response

definition agent_answer ::
  "('w, 'r, 'p, 'm) hosting \<Rightarrow> http_request \<Rightarrow> string list \<Rightarrow> string \<Rightarrow> ('w, 'r, 'p, 'm) app
   \<Rightarrow> http_response \<times> ('w, 'r, 'p, 'm) app" where
  "agent_answer H rq parts qs s =
     (case candidates agent_routes (hq_method rq) parts of
        [] \<Rightarrow> (ho_missing H, s)
      | ep # _ \<Rightarrow> (case serve (ho_agent H) (ho_read H rq qs) ep s of (r, s') \<Rightarrow> (ho_write H r, s')))"

definition agent_internet :: "('w, 'r, 'p, 'm) hosting \<Rightarrow> int \<Rightarrow> ('w, 'r, 'p, 'm) app internet" where
  "agent_internet H now =
     \<lparr>in_clock = (\<lambda>h. (now, h)), in_is_file = (\<lambda>path h. False), in_nested_run = Some (BackendError ''RuntimeError''),
      in_request = (\<lambda>rq h.
        case target (ho_base H) (ho_version H) (hq_url rq) of
          None \<Rightarrow> (Inl (ClientConnectionError ''refused''), h)
        | Some (parts, qs) \<Rightarrow> (case agent_answer H rq parts qs h of (response, h') \<Rightarrow> (Inr response, h')))\<rparr>"

definition in_front_of ::
  "('w, 'r, 'p, 'm) hosting \<Rightarrow> int \<Rightarrow> ('w, 'r, 'p, 'm) app site \<Rightarrow> ('w, 'r, 'p, 'm) app site" where
  "in_front_of H now G = G\<lparr>si_net := agent_internet H now, si_settings := (si_settings G)\<lparr>gs_cacert := None\<rparr>\<rparr>"

interpretation hosted: served_agent "in_front_of H now G" "ho_base H" "ho_version H" now "agent_answer H"
  for H :: "('w, 'r, 'p, 'm) hosting" and now G
  by unfold_locales (simp_all add: in_front_of_def agent_internet_def)

text \<open>
  C14. The gateway is transparent. For every endpoint but the one that caches a user, in front of an agent
  that is in the registry under the cluster, a request with a valid token does to the agent what the same
  request does when it is sent to the agent directly, and the reply is the agent's: same status, same JSON.
\<close>

theorem gateway_transparent:
  assumes "ep \<noteq> CacheUser" and "wf_endpoint ep" and "gr_method q = route_method ep" and "gr_token q = Inr token"
    and "now < gw_timeout s" and "map_of (gw_agents s) (VStr cluster) = Some agent"
    and "ra_url agent = ho_base H" and "ra_version agent = VStr (ho_version H)"
    and "rq = forwarded_request (ho_base H) (ho_version H) q token ep"
  shows "gw_serve (in_front_of H now G) q cluster ep s =
    (case serve (ho_agent H) (ho_read H rq (gr_query q)) ep (gw_world s) of
       (r, app) \<Rightarrow> (proxied_json cluster rq (ho_write H r), s\<lparr>gw_world := app\<rparr>))"
proof -
  have "agent_answer H rq (route_parts ep) (gr_query q) app =
      (case serve (ho_agent H) (ho_read H rq (gr_query q)) ep app of (r, s') \<Rightarrow> (ho_write H r, s'))" for app
    by (simp add: agent_answer_def assms(9) forwarded_request_def agent_candidates [OF assms(2)])
  then show ?thesis
    unfolding hosted.transparent [OF assms(1-8)] by (simp add: assms(9) split: prod.splits)
qed

section \<open>A gateway and its agent\<close>

definition demo_hosting :: "(unit, memory, unit, unit) hosting" where
  "demo_hosting =
     \<lparr>ho_agent = demo_agent, ho_base = ''http://a'', ho_version = ''6.1.0'',
      ho_read = (\<lambda>rq qs. request_of ''carol'' [] VNone),
      ho_write = (\<lambda>r. case r of
          Inr (status, Json v) \<Rightarrow> json_response (int status) v
        | Inr (status, _) \<Rightarrow> json_response (int status) VNone
        | Inl (HttpAbort code msg) \<Rightarrow> json_response (int code) (VDict [(''description'', VStr msg)])
        | Inl _ \<Rightarrow> json_response 500 VNone),
      ho_missing = json_response 404 VNone\<rparr>"

definition demo_remote :: remote_agent where
  "demo_remote =
     \<lparr>ra_version = VStr ''6.1.0'', ra_cluster = VStr ''alpha'',
      ra_racksdb = \<lparr>rd_enabled = VBool False, rd_version = VNone, rd_infrastructure = VStr ''alpha''\<rparr>,
      ra_metrics = VBool True, ra_cache = VBool True, ra_database = VBool True, ra_url = ''http://a'',
      ra_persistence = VBool False, ra_access_control = VBool False, ra_node_metrics = VBool False,
      ra_user_metrics = VBool False, ra_ai = VDict [], ra_capabilities = VDict []\<rparr>"

definition demo_site :: "'h internet \<Rightarrow> 'h site" where
  "demo_site I =
     \<lparr>si_net = I, si_settings = demo_gateway_settings,
      si_login = (\<lambda>name password h. (Inr \<lparr>gu_login = name, gu_fullname = VNone, gu_groups = VList []\<rparr>, h)),
      si_users = (\<lambda>h. (Inr [], h)), si_jwt = (\<lambda>user h. (Inr ''token'', h)), si_message = (\<lambda>h. (Inr [], h)),
      si_template = (\<lambda>message h. (Inr message, h)), si_message_login = [], si_message_template = [],
      si_stream = (\<lambda>rq h. (Inl ''refused'', h))\<rparr>"

definition demo_request :: "string \<Rightarrow> string \<Rightarrow> gateway_request" where
  "demo_request verb data =
     \<lparr>gr_method = verb, gr_query = [], gr_data = data, gr_json = VNone, gr_token = Inr ''token''\<rparr>"

definition demo_front :: "'h \<Rightarrow> 'h gateway" where
  "demo_front h = \<lparr>gw_agents = [(VStr ''alpha'', demo_remote)], gw_timeout = 100, gw_world = h\<rparr>"

theorem gateway_transparent_witness:
  "gw_serve (in_front_of demo_hosting 0 (demo_site (agent_internet demo_hosting 0))) (demo_request ''DELETE'' []) ''alpha'' (CancelJob 7)
      (demo_front demo_app) =
    (case serve demo_agent (request_of ''carol'' [] VNone) (CancelJob 7) demo_app of
       (r, app) \<Rightarrow> (proxied_json ''alpha''
           (forwarded_request ''http://a'' ''6.1.0'' (demo_request ''DELETE'' []) ''token'' (CancelJob 7))
           (ho_write demo_hosting r), (demo_front demo_app)\<lparr>gw_world := app\<rparr>))"
  using gateway_transparent [of "CancelJob 7" "demo_request ''DELETE'' []" "''token''" 0 "demo_front demo_app" "''alpha''" demo_remote
      demo_hosting _ "demo_site (agent_internet demo_hosting 0)"]
  by (simp add: demo_request_def demo_front_def demo_remote_def demo_hosting_def)

end
