(* ===== verification/GatewayService.thy ===== *)
theory GatewayService
  imports GatewayRoutes
begin

text \<open>
  All requests to the gateway: what they keep of the registry of agents, the list of the clusters, and
  logins, which do not depend on the agents.
\<close>

section \<open>The requests\<close>

datatype (plugins only: code) gateway_endpoint =
    Login | Anonymous | MessageLogin | GatewayClusters | GatewayUsers
  | OfCluster string endpoint | ChatStream string | RacksDb string string

primrec gw_request :: "'h site \<Rightarrow> gateway_request \<Rightarrow> gateway_endpoint \<Rightarrow> 'h gateway_view" where
  "gw_request G q Login = gw_login G q"
| "gw_request G q Anonymous = gw_anonymous G"
| "gw_request G q MessageLogin = gw_message_login G"
| "gw_request G q GatewayClusters = gw_clusters G q"
| "gw_request G q GatewayUsers = gw_users G q"
| "gw_request G q (OfCluster cluster ep) = gw_serve G q cluster ep"
| "gw_request G q (ChatStream cluster) = gw_ai_chat_stream G q cluster"
| "gw_request G q (RacksDb cluster path) = gw_racksdb G q cluster path"

primrec gw_requests :: "'h site \<Rightarrow> (gateway_request \<times> gateway_endpoint) list \<Rightarrow> 'h gateway \<Rightarrow> 'h gateway" where
  "gw_requests G [] s = s"
| "gw_requests G (r # rs) s = gw_requests G rs (snd (gw_request G (fst r) (snd r) s))"

section \<open>The registry\<close>

lemma outside_gateway_ok [keeps_intros]: "keeps (gateway_ok S) (outside_gateway f)"
  by (rule keepsI) (auto simp: outside_gateway_def split: prod.splits)

lemma abort_keeps [keeps_intros]: "keeps P (abort_with code msg)"
  by (simp add: abort_with_def)

lemma nested_refresh_ok [keeps_intros]: "keeps (gateway_ok (si_settings G)) (nested_refresh G force)"
  by (simp add: nested_refresh_def keeps_intros split: option.splits)

lemma agent_url_ok [keeps_intros]: "keeps P known \<Longrightarrow> keeps P (agent_url known cluster path with_version)"
  unfolding agent_url_def by (intro keeps_intros)

lemma request_agent_ok [keeps_intros]:
  "keeps (gateway_ok (si_settings G)) (request_agent G q cluster path token with_version)"
  unfolding request_agent_def Let_def by (intro keeps_intros)

lemma proxy_agent_ok [keeps_intros]:
  "keeps (gateway_ok (si_settings G)) (proxy_agent G q cluster path token json with_version)"
  unfolding proxy_agent_def by (intro keeps_intros)

lemma validated_ok [keeps_intros]:
  "(\<And>token. keeps (gateway_ok (si_settings G)) (view token)) \<Longrightarrow>
   keeps (gateway_ok (si_settings G)) (check_jwt q (\<lambda>token. validate_cluster G name cluster (view token)))"
  unfolding check_jwt_def validate_cluster_def by (intro keeps_intros)

lemma forwarded_ok [keeps_intros]: "keeps (gateway_ok (si_settings G)) (forwarded G q name cluster path)"
  unfolding forwarded_def by (intro keeps_intros)

lemma gw_serve_ok [keeps_intros]: "keeps (gateway_ok (si_settings G)) (gw_serve G q cluster ep)"
proof (cases "ep = CacheUser")
  case True
  then show ?thesis by (simp add: keeps_intros)
next
  case False
  from gw_serve_forwarded [OF this] show ?thesis by (metis forwarded_ok)
qed

lemma get_cluster_ok [keeps_intros]: "keeps (gateway_ok (si_settings G)) (get_cluster G q token agent)"
  unfolding get_cluster_def by (intro keeps_intros)

lemma cache_user_ok [keeps_intros]: "keeps (gateway_ok (si_settings G)) (async_cache_user_on_agents G token user)"
  unfolding async_cache_user_on_agents_def cache_user_on_agent_def Let_def split_def by (intro keeps_intros)

lemma gw_request_ok: "keeps (gateway_ok (si_settings G)) (gw_request G q ep)"
proof (cases ep)
  case Login
  then show ?thesis by (simp add: gw_login_def) (intro keeps_intros; simp add: keeps_intros split: exn.split)
next
  case Anonymous
  then show ?thesis by (simp add: gw_anonymous_def) (intro conjI impI keeps_intros)
next
  case MessageLogin
  then show ?thesis
    by (simp add: gw_message_login_def) (intro keeps_intros; simp add: keeps_intros split: exn.split bool.split)
next
  case GatewayClusters
  then show ?thesis 
    by (simp add: gw_clusters_def get_clusters_def check_jwt_def) (intro keeps_intros)
next
  case GatewayUsers
  then show ?thesis by (simp add: gw_users_def check_jwt_def) (intro conjI impI keeps_intros)
next
  case (OfCluster cluster ep)
  then show ?thesis by (simp add: keeps_intros)
next
  case (ChatStream cluster)
  then show ?thesis by (simp add: gw_ai_chat_stream_def proxy_stream_agent_def) (intro keeps_intros)
next
  case (RacksDb cluster path)
  then show ?thesis by (simp add: gw_racksdb_def) (intro keeps_intros)
qed

text \<open>
  C15. Whatever is requested and whatever the network answers, the gateway only knows agents that were
  asked at a configured address, that are filed under the cluster they reported, and whose version, and
  that of their RacksDB if it is enabled, are supported.
\<close>

theorem registry_kept: "registry_ok (si_settings G) (gw_agents (gw_requests G rs (new_gateway h)))"
proof -
  have "gateway_ok (si_settings G) s \<Longrightarrow> gateway_ok (si_settings G) (gw_requests G rs s)" for s
    by (induction rs arbitrary: s) (use keepsD [OF gw_request_ok] in fastforce)+
  then show ?thesis by (simp add: new_gateway_ok)
qed

section \<open>The list of the clusters\<close>

text \<open>What one agent contributes, if the answers of the network depend on the request only.\<close>

definition permissions_request :: "gateway_request \<Rightarrow> string \<Rightarrow> remote_agent \<Rightarrow> http_request" where
  "permissions_request q token agent =
     \<lparr>hq_method = ''GET'', hq_url = with_query q (ra_url agent @ ''/v'' @ py_str (ra_version agent) @ ''/permissions''),
      hq_headers = bearer (Some token), hq_json = None\<rparr>"

definition cluster_of :: "'h site \<Rightarrow> (http_request \<Rightarrow> http_response res) \<Rightarrow> gateway_request \<Rightarrow> string \<Rightarrow> remote_agent \<Rightarrow> pv option res" where
  "cluster_of G answers q token agent =
     rbind (answers (permissions_request q token agent)) (\<lambda>response.
     if hr_status response \<noteq> 200 then Inr None
     else rbind (hr_json response) (\<lambda>permissions.
       rbind (rbind (py_item ''actions'' permissions) py_len) (\<lambda>n.
       Inr (if n = 0 \<and> gs_hide_denied (si_settings G) then None else Some (cluster_entry agent permissions)))))"

lemma rest_at_now:
  assumes "in_clock (si_net G) (gw_world s) = (now, gw_world s)" and "now < gw_timeout s"
  shows "site_agents G s = (Inr (gw_agents s), s)" "nested_refresh G False s = (Inr (gw_agents s), s)"
  using assms
  by (auto simp: agents_def refresh_agents_def nested_refresh_def mbind_def outside_gateway_def gateway_clock_def
      mret_def split: option.splits)

lemma get_cluster_of:
  assumes "gs_cacert (si_settings G) = None" and "in_clock (si_net G) (gw_world s) = (now, gw_world s)"
    and "now < gw_timeout s" and "\<And>rq. in_request (si_net G) rq (gw_world s) = (answers rq, gw_world s)"
    and "gr_method q = ''GET''" and "map_of (gw_agents s) (ra_cluster agent) = Some agent"
  shows "get_cluster G q token agent s = (cluster_of G answers q token agent, s)"
proof -
  have "request_agent G q (ra_cluster agent) ''permissions'' (Some token) True s
      = (Inr (permissions_request q token agent), s)"
    using assms(5,6) rest_at_now [OF assms(2,3)]
    by (simp add: request_agent_def agent_url_def mbind_def agent_at_def permissions_request_def)
  then show ?thesis
    using assms(1,4)
    by (auto simp: get_cluster_def mbind_def outside_gateway_def get_agent_connector_def cluster_of_def rbind_def
        mlift_def mret_def split: sum.splits)
qed

text \<open>
  C16. The list of the clusters is made of exactly the agents that answer the request for the permissions
  of the user with the status 200, less those without an action if these are hidden; but it is no list at
  all if an agent cannot be reached or sends something else: the first such exception is the result.
\<close>

theorem clusters_exact:
  assumes "gs_cacert (si_settings G) = None" and "in_clock (si_net G) (gw_world s) = (now, gw_world s)"
    and "now < gw_timeout s" and "\<And>rq. in_request (si_net G) rq (gw_world s) = (answers rq, gw_world s)"
    and "gr_method q = ''GET''" and "gr_token q = Inr token"
    and "registry_ok (si_settings G) (gw_agents s)"
  shows "gw_clusters G q s =
    (rbind (rmap (cluster_of G answers q token) (map snd (gw_agents s)))
       (\<lambda>found. Inr (200, GatewayJson (VList (List.map_filter id found)))), s)"
proof -
  have each: "get_cluster G q token agent s = (cluster_of G answers q token agent, s)" if "agent \<in> set (map snd (gw_agents s))" for agent
  proof -
    from that obtain k where "(k, agent) \<in> set (gw_agents s)" by auto
    with assms(7) have "map_of (gw_agents s) k = Some agent" and "k = ra_cluster agent"
      by (auto simp: registry_ok_def wf_dict_def)
    then show ?thesis using get_cluster_of [OF assms(1-5)] by blast
  qed
  have "mmap (get_cluster G q token) (map snd (gw_agents s)) s
      = (rmap (cluster_of G answers q token) (map snd (gw_agents s)), s)"
    by (rule mmap_stateless) (rule each)
  then show ?thesis
    using rest_at_now [OF assms(2,3)] assms(6)
    by (auto simp: gw_clusters_def check_jwt_def get_clusters_def mbind_def rbind_def mret_def split: sum.splits)
qed

definition quiet_internet :: "(http_request \<Rightarrow> http_response res) \<Rightarrow> unit internet" where
  "quiet_internet answers =
     \<lparr>in_clock = (\<lambda>h. (0, h)), in_is_file = (\<lambda>path h. False), in_nested_run = None, in_request = (\<lambda>rq h. (answers rq, h))\<rparr>"

definition permitted :: "http_request \<Rightarrow> http_response res" where
  "permitted rq = Inr (json_response 200 (VDict [(''actions'', VList [VStr ''view-jobs''])]))"

lemma demo_registry: "registry_ok demo_gateway_settings (gw_agents (demo_front ()))"
proof -
  have "version_greater_or_equal ''6.0.0'' ''6.1.0''" by code_simp
  then have "checked_agent demo_gateway_settings demo_remote = Inr (Some demo_remote)"
    by (simp add: checked_agent_def demo_gateway_settings_def demo_remote_def supported_version_def)
  then show ?thesis by (auto simp: registry_ok_def demo_front_def wf_dict_def demo_remote_def demo_gateway_settings_def)
qed

theorem clusters_exact_witness:
  "gw_clusters (demo_site (quiet_internet permitted)) (demo_request ''GET'' []) (demo_front ()) =
    (rbind (rmap (cluster_of (demo_site (quiet_internet permitted)) permitted (demo_request ''GET'' []) ''token'')
         (map snd (gw_agents (demo_front ()))))
       (\<lambda>found. Inr (200, GatewayJson (VList (List.map_filter id found)))), demo_front ())"
  by (rule clusters_exact [where now = 0])
    (use demo_registry in \<open>simp_all add: demo_site_def quiet_internet_def demo_front_def demo_request_def demo_gateway_settings_def\<close>)

lemma unreachable_agent_fails_list:
  assumes "agent \<in> set found" and "answers (permissions_request q token agent) = Inl e"
  shows "\<exists>e'. rmap (cluster_of G answers q token) found = Inl e'"
  using assms by (induction found) (auto simp: cluster_of_def rbind_def split: sum.splits)

section \<open>Logins\<close>


text \<open>
  The announcement itself runs inside a coroutine. If a run of the event loop inside another one raises, as
  that of \<open>asyncio\<close> does, then a login after the registry has become old announces nothing.
\<close>

lemma stale_login_not_announced:
  assumes "in_nested_run (si_net G) = Some e" and "in_clock (si_net G) (gw_world s) = (now, h)" and "gw_timeout s \<le> now"
  shows "async_cache_user_on_agents G token user s = (Inl e, s\<lparr>gw_world := h\<rparr>)"
  using assms
  by (simp add: async_cache_user_on_agents_def nested_refresh_def mbind_def outside_gateway_def gateway_clock_def mraise_def)

end
